(* ===== verification/Prelude.thy ===== *)
theory Prelude
  imports Main "HOL-Library.AList" "HOL-Library.Char_ord" "HOL-Library.List_Lexorder"
    "HOL-Library.Sublist" "HOL-Library.Multiset" "HOL-Library.Code_Target_Numeral"
begin

text \<open>
  Shared vocabulary of the development: the named collections of simplification facts, the
  representation of Go maps as association lists with distinct keys, Go's time values as integers,
  and generic facts on lists that the components use (adding an element only when it is new,
  updating the first element that matches, keeping the last \<open>n\<close> elements of a list).
\<close>

named_theorems go_defs \<open>unfolding equations of the Go runtime model\<close>
named_theorems inv_intros \<open>introduction rules that show that an operation keeps an invariant\<close>

section \<open>Go maps\<close>

text \<open>
  A Go map is an association list whose keys are distinct. The order of the list is the order in
  which \<open>range\<close> visits the map in one run of the program; Go leaves that order open, so a
  theorem that depends on it holds for every order of the list. A nil map and an empty map behave
  alike under every operation the program uses, and both are the empty list.
\<close>

type_synonym ('k, 'v) gomap = "('k \<times> 'v) list"

abbreviation gm_get :: "('k, 'v) gomap \<Rightarrow> 'k \<Rightarrow> 'v option" where
  "gm_get m k \<equiv> map_of m k"

abbreviation gm_put :: "'k \<Rightarrow> 'v \<Rightarrow> ('k, 'v) gomap \<Rightarrow> ('k, 'v) gomap" where
  "gm_put k v m \<equiv> AList.update k v m"

abbreviation gm_del :: "'k \<Rightarrow> ('k, 'v) gomap \<Rightarrow> ('k, 'v) gomap" where
  "gm_del k m \<equiv> AList.delete k m"

definition gm_ok :: "('k, 'v) gomap \<Rightarrow> bool" where
  "gm_ok m \<longleftrightarrow> distinct (map fst m)"

text \<open>Reading a string-valued map at a key that is absent gives the empty string.\<close>

definition gm_str :: "('k, string) gomap \<Rightarrow> 'k \<Rightarrow> string" where
  "gm_str m k = (case map_of m k of None \<Rightarrow> [] | Some v \<Rightarrow> v)"

lemma gm_ok_Nil [simp, inv_intros]: "gm_ok []"
  by (simp add: gm_ok_def)

lemma gm_ok_put [simp, inv_intros]: "gm_ok m \<Longrightarrow> gm_ok (gm_put k v m)"
  by (simp add: gm_ok_def distinct_update)

lemma gm_ok_del [simp, inv_intros]: "gm_ok m \<Longrightarrow> gm_ok (gm_del k m)"
  by (simp add: gm_ok_def distinct_delete)

lemma gm_get_put [simp]: "gm_get (gm_put k v m) k' = (if k' = k then Some v else gm_get m k')"
  by (simp add: update_conv')

lemma gm_get_del [simp]: "gm_get (gm_del k m) k' = (if k' = k then None else gm_get m k')"
  by (simp add: delete_conv')

lemma gm_str_put [simp]: "gm_str (gm_put k v m) k' = (if k' = k then v else gm_str m k')"
  by (simp add: gm_str_def)

lemma gm_length_put:
  "length (gm_put k v m) = (if k \<in> fst ` set m then length m else Suc (length m))"
  by (induction m) auto

lemma gm_get_in_set: "gm_ok m \<Longrightarrow> (k, v) \<in> set m \<Longrightarrow> gm_get m k = Some v"
  by (simp add: gm_ok_def)

lemma gm_ok_filter [simp, inv_intros]: "gm_ok m \<Longrightarrow> gm_ok (filter P m)"
  unfolding gm_ok_def by (rule distinct_map_filter)

lemma set_gm_put: "set (gm_put k v m) \<subseteq> insert (k, v) (set m)"
  by (induction m) auto

lemma set_gm_del: "set (gm_del k m) \<subseteq> set m"
  by (auto simp: AList.delete_eq)

lemma gm_get_filter:
  "gm_ok m \<Longrightarrow> gm_get (filter (\<lambda>(k, v). P v) m) k = (case gm_get m k of None \<Rightarrow> None | Some v \<Rightarrow> if P v then Some v else None)"
proof (induction m)
  case (Cons x m)
  have "gm_ok m" "fst x \<notin> fst ` set m"
    using Cons.prems by (simp_all add: gm_ok_def)
  moreover have "gm_get m (fst x) = None"
    using calculation(2) by (simp add: map_of_eq_None_iff)
  ultimately show ?case
    using Cons.IH by (cases x) (auto split: option.splits)
qed simp

section \<open>Time\<close>

text \<open>
  A \<open>time.Time\<close> is the number of nanoseconds since the zero time (1 January of year 1, UTC), so
  the zero value is \<open>0\<close> and \<open>IsZero\<close>, \<open>Before\<close> and \<open>After\<close> are comparisons. A
  \<open>time.Duration\<close> is a number of nanoseconds.
\<close>

type_synonym time = int
type_synonym duration = int

abbreviation time_is_zero :: "time \<Rightarrow> bool" where
  "time_is_zero t \<equiv> t = 0"

definition second :: duration where "second = 1000000000"
definition minute :: duration where "minute = 60 * second"
definition hour :: duration where "hour = 60 * minute"

lemmas duration_defs = second_def minute_def hour_def

section \<open>Lists\<close>

text \<open>Appending an element only when the list does not hold it yet.\<close>

definition add_new :: "'a \<Rightarrow> 'a list \<Rightarrow> 'a list" where
  "add_new x xs = (if x \<in> set xs then xs else xs @ [x])"

lemma set_add_new [simp]: "set (add_new x xs) = insert x (set xs)"
  by (auto simp: add_new_def)

lemma distinct_add_new [simp, inv_intros]: "distinct xs \<Longrightarrow> distinct (add_new x xs)"
  by (simp add: add_new_def)

lemma add_new_not_Nil [simp]: "add_new x xs \<noteq> []"
  by (auto simp: add_new_def)

lemma prefix_add_new: "prefix xs (add_new x xs)"
  by (simp add: add_new_def)

text \<open>
  The loops that collect normalised values without repetition all have one shape: normalise the
  value, drop it when the result is to be skipped, and append it when it is new.
\<close>

locale unique_collector =
  fixes norm :: "'a \<Rightarrow> 'b"
    and keep :: "'b \<Rightarrow> bool"
    and collect :: "'a list \<Rightarrow> 'b list \<Rightarrow> 'b list"
  assumes collect_Nil: "collect [] acc = acc"
    and collect_Cons: "collect (x # xs) acc =
      collect xs (if keep (norm x) then add_new (norm x) acc else acc)"
begin

lemma collect_set: "set (collect xs acc) = set acc \<union> {norm x | x. x \<in> set xs \<and> keep (norm x)}"
  by (induction xs arbitrary: acc) (auto simp: collect_Nil collect_Cons)

lemma collect_distinct: "distinct acc \<Longrightarrow> distinct (collect xs acc)"
  by (induction xs arbitrary: acc) (auto simp: collect_Nil collect_Cons)

lemma collect_prefix: "prefix acc (collect xs acc)"
proof (induction xs arbitrary: acc)
  case Nil
  then show ?case by (simp add: collect_Nil)
next
  case (Cons x xs)
  have "prefix acc (if keep (norm x) then add_new (norm x) acc else acc)"
    by (simp add: prefix_add_new)
  then show ?case
    unfolding collect_Cons using Cons prefix_order.trans by blast
qed

lemma collect_append: "collect (xs @ ys) acc = collect ys (collect xs acc)"
  by (induction xs arbitrary: acc) (auto simp: collect_Nil collect_Cons)

lemma collect_absorb: "{norm x | x. x \<in> set xs \<and> keep (norm x)} \<subseteq> set acc \<Longrightarrow> collect xs acc = acc"
  by (induction xs arbitrary: acc) (auto simp: collect_Nil collect_Cons add_new_def)

lemma collect_idem: "collect xs (collect xs acc) = collect xs acc"
  by (rule collect_absorb) (auto simp: collect_set)

lemma collect_keeps: "y \<in> set (collect xs []) \<Longrightarrow> keep y"
  by (auto simp: collect_set)

end

text \<open>Keeping the last \<open>n\<close> elements, as \<open>xs[len(xs)-n:]\<close> does.\<close>

definition last_n :: "nat \<Rightarrow> 'a list \<Rightarrow> 'a list" where
  "last_n n xs = drop (length xs - n) xs"

lemma length_last_n [simp]: "length (last_n n xs) = min n (length xs)"
  by (simp add: last_n_def)

lemma suffix_last_n: "suffix (last_n n xs) xs"
  by (simp add: last_n_def suffix_drop)

lemma last_n_id [simp]: "length xs \<le> n \<Longrightarrow> last_n n xs = xs"
  by (simp add: last_n_def)

text \<open>
  The first element that satisfies \<open>P\<close>, replaced by its image under \<open>f\<close>: the loops over a
  slice that change one element and return.
\<close>

fun update_first :: "('a \<Rightarrow> bool) \<Rightarrow> ('a \<Rightarrow> 'a) \<Rightarrow> 'a list \<Rightarrow> 'a list" where
  "update_first P f [] = []"
| "update_first P f (x # xs) = (if P x then f x # xs else x # update_first P f xs)"

lemma length_update_first [simp]: "length (update_first P f xs) = length xs"
  by (induction xs) auto

lemma update_first_absent: "\<forall>x \<in> set xs. \<not> P x \<Longrightarrow> update_first P f xs = xs"
  by (induction xs) auto

lemma find_update_first:
  "(\<And>x. P x \<Longrightarrow> P (f x)) \<Longrightarrow> find P (update_first P f xs) = map_option f (find P xs)"
  by (induction xs) auto

lemma find_update_first_other:
  "(\<And>x. P x \<Longrightarrow> \<not> Q x \<and> \<not> Q (f x)) \<Longrightarrow> find Q (update_first P f xs) = find Q xs"
  by (induction xs) auto

lemma map_update_first_same: "(\<And>x. P x \<Longrightarrow> g (f x) = g x) \<Longrightarrow> map g (update_first P f xs) = map g xs"
  by (induction xs) auto

lemma set_update_first: "set (update_first P f xs) \<subseteq> set xs \<union> f ` {x \<in> set xs. P x}"
  by (induction xs) auto

lemma update_first_fixed: "find P xs = Some x \<Longrightarrow> f x = x \<Longrightarrow> update_first P f xs = xs"
  by (induction xs) (auto split: if_splits)

lemma find_Some_mem: "find P xs = Some x \<Longrightarrow> x \<in> set xs \<and> P x"
  by (auto simp: find_Some_iff)

lemma find_not_None: "x \<in> set xs \<Longrightarrow> P x \<Longrightarrow> find P xs \<noteq> None"
  by (auto simp: find_None_iff)

lemma distinct_map_sort_key: "distinct (map f xs) \<Longrightarrow> distinct (map f (sort_key f xs))"
proof -
  have "mset (map f (sort_key f xs)) = mset (map f xs)"
    by simp
  then show "distinct (map f xs) \<Longrightarrow> distinct (map f (sort_key f xs))"
    by (metis mset_eq_imp_distinct_iff)
qed

text \<open>
  \<open>sort.Slice\<close> with a comparison of keys: the model takes the stable order among equal keys,
  which Go leaves open.
\<close>

definition sort_desc_by :: "('a \<Rightarrow> int) \<Rightarrow> 'a list \<Rightarrow> 'a list" where
  "sort_desc_by key xs = sort_key (\<lambda>x. - key x) xs"

lemma set_sort_desc_by [simp]: "set (sort_desc_by key xs) = set xs"
  by (simp add: sort_desc_by_def)

lemma length_sort_desc_by [simp]: "length (sort_desc_by key xs) = length xs"
  by (simp add: sort_desc_by_def)

lemma mset_sort_desc_by [simp]: "mset (sort_desc_by key xs) = mset xs"
  by (simp add: sort_desc_by_def)

lemma sorted_sort_desc_by: "sorted_wrt (\<lambda>x y. key y \<le> key x) (sort_desc_by key xs)"
proof -
  have "sorted (map (\<lambda>x. - key x) (sort_desc_by key xs))"
    by (simp add: sort_desc_by_def)
  then show ?thesis
    by (simp add: sorted_map)
qed

end
