(* ===== verification/GoStrings.thy ===== *)
theory GoStrings
  imports Prelude
begin

text \<open>
  The parts of Go's standard library that the program computes with: strings as byte sequences, their
  UTF-8 runes, \<open>strings\<close> (trimming, case, splitting, searching), \<open>strconv\<close> (decimal numbers and
  quoting), \<open>encoding/hex\<close> and \<open>encoding/base64\<close>. A Go string is a HOL \<open>string\<close>, one \<open>char\<close>
  per byte. What Go takes from the Unicode tables beyond ASCII, the hash functions and the URL and IP
  address parsers are fields of the record \<open>runtime\<close>, over which every definition and theorem is
  quantified.
\<close>

section \<open>The runtime\<close>

text \<open>The parts of a parsed \<open>url.URL\<close> that the program reads.\<close>

record url =
  urlScheme :: string
  urlHostname :: string
  urlHasUser :: bool

text \<open>A parsed address: four bytes, or the eight 16-bit groups of an IPv6 address that is not v4-mapped.\<close>

datatype ip_addr = IPv4 nat nat nat nat | IPv6 "nat list"

record runtime =
  u_lower :: "nat \<Rightarrow> nat"
  u_letter :: "nat \<Rightarrow> bool"
  u_digit :: "nat \<Rightarrow> bool"
  u_print :: "nat \<Rightarrow> bool"
  u_fold :: "nat \<Rightarrow> nat \<Rightarrow> bool"
  rt_sha256 :: "string \<Rightarrow> string"
  rt_hmac :: "string \<Rightarrow> string \<Rightarrow> string"
  rt_url_parse :: "string \<Rightarrow> url option"
  rt_parse_ip :: "string \<Rightarrow> ip_addr option"

section \<open>Bytes and runes\<close>

abbreviation byte :: "char \<Rightarrow> nat" where
  "byte c \<equiv> of_char c"

abbreviation rune_error :: nat where
  "rune_error \<equiv> 65533"

definition is_cont :: "nat \<Rightarrow> bool" where
  "is_cont b \<longleftrightarrow> 128 \<le> b \<and> b \<le> 191"

text \<open>The byte at a position, 0 past the end (0 is in none of the ranges below).\<close>

definition byte_at :: "string \<Rightarrow> nat \<Rightarrow> nat" where
  "byte_at s i = (if i < length s then byte (s ! i) else 0)"

text \<open>
  \<open>utf8.DecodeRune\<close>: the rune that starts with byte \<open>c\<close> and its width. A byte that starts no
  valid encoding is the error rune of width 1.
\<close>

definition utf8_next :: "char \<Rightarrow> string \<Rightarrow> nat \<times> nat" where
  "utf8_next c cs = (let b0 = byte c; b1 = byte_at cs 0; b2 = byte_at cs 1; b3 = byte_at cs 2 in
     if b0 < 128 then (b0, 1)
     else if 194 \<le> b0 \<and> b0 \<le> 223 \<and> is_cont b1
       then ((b0 - 192) * 64 + (b1 - 128), 2)
     else if 224 \<le> b0 \<and> b0 \<le> 239 \<and> (if b0 = 224 then 160 else 128) \<le> b1
         \<and> b1 \<le> (if b0 = 237 then 159 else 191) \<and> is_cont b2
       then ((b0 - 224) * 4096 + (b1 - 128) * 64 + (b2 - 128), 3)
     else if 240 \<le> b0 \<and> b0 \<le> 244 \<and> (if b0 = 240 then 144 else 128) \<le> b1
         \<and> b1 \<le> (if b0 = 244 then 143 else 191) \<and> is_cont b2 \<and> is_cont b3
       then ((b0 - 240) * 262144 + (b1 - 128) * 4096 + (b2 - 128) * 64 + (b3 - 128), 4)
     else (rune_error, 1))"

text \<open>A string as its runes, each with the bytes it was read from.\<close>

function runes :: "string \<Rightarrow> (nat \<times> string) list" where
  "runes [] = []"
| "runes (c # cs) = (let (r, n) = utf8_next c cs in (r, c # take (n - 1) cs) # runes (drop (n - 1) cs))"
  by pat_completeness auto
termination
  by (relation "measure length") auto

definition utf8_encode :: "nat \<Rightarrow> string" where
  "utf8_encode r =
     (if r < 128 then [char_of r]
      else if r < 2048 then [char_of (192 + r div 64), char_of (128 + r mod 64)]
      else if 1114111 < r \<or> (55296 \<le> r \<and> r \<le> 57343) then [char_of (239::nat), char_of (191::nat), char_of (189::nat)]
      else if r < 65536 then
        [char_of (224 + r div 4096), char_of (128 + r div 64 mod 64), char_of (128 + r mod 64)]
      else [char_of (240 + r div 262144), char_of (128 + r div 4096 mod 64),
        char_of (128 + r div 64 mod 64), char_of (128 + r mod 64)])"

definition is_ascii :: "string \<Rightarrow> bool" where
  "is_ascii s \<longleftrightarrow> (\<forall>c \<in> set s. byte c < 128)"

section \<open>Character classes\<close>

definition ascii_upper :: "nat \<Rightarrow> bool" where "ascii_upper r \<longleftrightarrow> 65 \<le> r \<and> r \<le> 90"
definition ascii_letter :: "nat \<Rightarrow> bool" where
  "ascii_letter r \<longleftrightarrow> (65 \<le> r \<and> r \<le> 90) \<or> (97 \<le> r \<and> r \<le> 122)"
definition ascii_digit :: "nat \<Rightarrow> bool" where "ascii_digit r \<longleftrightarrow> 48 \<le> r \<and> r \<le> 57"

definition rune_lower :: "runtime \<Rightarrow> nat \<Rightarrow> nat" where
  "rune_lower rt r = (if r < 128 then (if ascii_upper r then r + 32 else r) else u_lower rt r)"

definition rune_letter :: "runtime \<Rightarrow> nat \<Rightarrow> bool" where
  "rune_letter rt r \<longleftrightarrow> (if r < 128 then ascii_letter r else u_letter rt r)"

definition rune_digit :: "runtime \<Rightarrow> nat \<Rightarrow> bool" where
  "rune_digit rt r \<longleftrightarrow> (if r < 128 then ascii_digit r else u_digit rt r)"

definition rune_print :: "runtime \<Rightarrow> nat \<Rightarrow> bool" where
  "rune_print rt r \<longleftrightarrow> (if r < 128 then 32 \<le> r \<and> r < 127 else u_print rt r)"

text \<open>\<open>unicode.IsSpace\<close>: the whole White Space property.\<close>

definition rune_space :: "nat \<Rightarrow> bool" where
  "rune_space r \<longleftrightarrow> (9 \<le> r \<and> r \<le> 13) \<or> r = 32 \<or> r = 133 \<or> r = 160 \<or> r = 5760
     \<or> (8192 \<le> r \<and> r \<le> 8202) \<or> r = 8232 \<or> r = 8233 \<or> r = 8239 \<or> r = 8287 \<or> r = 12288"

lemmas rune_class_defs = ascii_upper_def ascii_letter_def ascii_digit_def rune_lower_def
  rune_letter_def rune_digit_def rune_print_def rune_space_def

section \<open>Package strings\<close>

definition unrunes :: "(nat \<times> string) list \<Rightarrow> string" where
  "unrunes rs = concat (map snd rs)"

definition trim_by :: "('a \<Rightarrow> bool) \<Rightarrow> 'a list \<Rightarrow> 'a list" where
  "trim_by P xs = rev (dropWhile P (rev (dropWhile P xs)))"

definition TrimFunc :: "(nat \<Rightarrow> bool) \<Rightarrow> string \<Rightarrow> string" where
  "TrimFunc P s = unrunes (trim_by (\<lambda>(r, _). P r) (runes s))"

definition TrimSpace :: "string \<Rightarrow> string" where
  "TrimSpace s = TrimFunc rune_space s"

text \<open>\<open>strings.Map\<close>: \<open>None\<close> drops the rune; an invalid byte is seen as the error rune.\<close>

definition MapRunes :: "(nat \<Rightarrow> nat option) \<Rightarrow> string \<Rightarrow> string" where
  "MapRunes f s = concat (map (\<lambda>(r, _). case f r of None \<Rightarrow> [] | Some r' \<Rightarrow> utf8_encode r') (runes s))"

definition ToLower :: "runtime \<Rightarrow> string \<Rightarrow> string" where
  "ToLower rt s = MapRunes (\<lambda>r. Some (rune_lower rt r)) s"

definition fold_eq :: "runtime \<Rightarrow> nat \<Rightarrow> nat \<Rightarrow> bool" where
  "fold_eq rt a b \<longleftrightarrow> a = b \<or>
     (if a < 128 \<and> b < 128 then rune_lower rt a = rune_lower rt b else u_fold rt a b)"

definition EqualFold :: "runtime \<Rightarrow> string \<Rightarrow> string \<Rightarrow> bool" where
  "EqualFold rt s t \<longleftrightarrow> list_all2 (fold_eq rt) (map fst (runes s)) (map fst (runes t))"

text \<open>\<open>strings.FieldsFunc\<close>: the maximal runs of runes that do not satisfy \<open>P\<close>.\<close>

fun fields_runes :: "('a \<Rightarrow> bool) \<Rightarrow> 'a list \<Rightarrow> 'a list \<Rightarrow> 'a list list" where
  "fields_runes P [] cur = (if cur = [] then [] else [cur])"
| "fields_runes P (x # xs) cur =
     (if P x then (if cur = [] then fields_runes P xs [] else cur # fields_runes P xs [])
      else fields_runes P xs (cur @ [x]))"

definition FieldsFunc :: "(nat \<Rightarrow> bool) \<Rightarrow> string \<Rightarrow> string list" where
  "FieldsFunc P s = map unrunes (fields_runes (\<lambda>(r, _). P r) (runes s) [])"

text \<open>\<open>strings.Contains\<close>, \<open>HasPrefix\<close>, \<open>HasSuffix\<close>: on bytes.\<close>

definition HasPrefix :: "string \<Rightarrow> string \<Rightarrow> bool" where
  "HasPrefix s p \<longleftrightarrow> take (length p) s = p"

definition HasSuffix :: "string \<Rightarrow> string \<Rightarrow> bool" where
  "HasSuffix s p \<longleftrightarrow> length p \<le> length s \<and> drop (length s - length p) s = p"

fun Contains :: "string \<Rightarrow> string \<Rightarrow> bool" where
  "Contains [] p \<longleftrightarrow> p = []"
| "Contains (c # cs) p \<longleftrightarrow> HasPrefix (c # cs) p \<or> Contains cs p"

fun Join :: "string list \<Rightarrow> string \<Rightarrow> string" where
  "Join [] sep = []"
| "Join [s] sep = s"
| "Join (s # t # ss) sep = s @ sep @ Join (t # ss) sep"

text \<open>\<open>strings.Split\<close> at a single-byte separator.\<close>

fun SplitByte :: "char \<Rightarrow> string \<Rightarrow> string list" where
  "SplitByte d [] = [[]]"
| "SplitByte d (c # cs) =
     (if c = d then [] # SplitByte d cs
      else (case SplitByte d cs of [] \<Rightarrow> [[c]] | p # ps \<Rightarrow> (c # p) # ps))"

section \<open>Facts on runes\<close>

lemma byte_at_Cons_0 [simp]: "byte_at (c # cs) 0 = byte c"
  by (simp add: byte_at_def)

lemma byte_at_take: "byte_at (take k s) i = (if i < k then byte_at s i else 0)"
  by (auto simp: byte_at_def)

lemma utf8_next_ascii: "byte c < 128 \<Longrightarrow> utf8_next c cs = (byte c, 1)"
  by (simp add: utf8_next_def)

lemma byte_at_len: "128 \<le> byte_at s i \<Longrightarrow> Suc i \<le> length s"
  by (simp add: byte_at_def split: if_splits)

lemma utf8_next_width: "1 \<le> snd (utf8_next c cs) \<and> snd (utf8_next c cs) \<le> Suc (length cs)"
proof -
  define b where "b = byte c"
  define x y z where xyz: "x = byte_at cs 0" "y = byte_at cs 1" "z = byte_at cs 2"
  have "128 \<le> x \<longrightarrow> 1 \<le> length cs" "128 \<le> y \<longrightarrow> 2 \<le> length cs" "128 \<le> z \<longrightarrow> 3 \<le> length cs"
    using byte_at_len [of cs 0] byte_at_len [of cs 1] byte_at_len [of cs 2] by (auto simp: xyz)
  then show ?thesis
    unfolding utf8_next_def Let_def is_cont_def b_def [symmetric] xyz [symmetric]
    by auto
qed

text \<open>A rune does not change when bytes behind it are cut off.\<close>

lemma utf8_next_take:
  assumes "snd (utf8_next c cs) - 1 \<le> k"
  shows "utf8_next c (take k cs) = utf8_next c cs"
proof -
  define b where "b = byte c"
  define x y z where xyz: "x = byte_at cs 0" "y = byte_at cs 1" "z = byte_at cs 2"
  consider "k = 0" | "k = 1" | "k = 2" | "3 \<le> k" by linarith
  then show ?thesis
    using assms unfolding utf8_next_def Let_def is_cont_def byte_at_take
      b_def [symmetric] xyz [symmetric]
    by cases (simp_all split: if_split_asm if_split)
qed

declare runes.simps(2) [simp del]

lemma runes_Cons:
  assumes "utf8_next c cs = (r, n)"
  shows "runes (c # cs) = (r, c # take (n - 1) cs) # runes (drop (n - 1) cs)"
  using assms by (simp add: runes.simps(2))

lemma runes_Cons_ascii [simp]:
  "byte c < 128 \<Longrightarrow> runes (c # cs) = (byte c, [c]) # runes cs"
  by (simp add: runes_Cons [OF utf8_next_ascii])

lemma runes_ascii: "is_ascii s \<Longrightarrow> runes s = map (\<lambda>c. (byte c, [c])) s"
  by (induction s) (auto simp: is_ascii_def)

lemma unrunes_simps [simp]:
  "unrunes [] = []" "unrunes (x # xs) = snd x @ unrunes xs" "unrunes (xs @ ys) = unrunes xs @ unrunes ys"
  by (simp_all add: unrunes_def)

lemma unrunes_runes [simp]: "unrunes (runes s) = s"
proof (induction s rule: runes.induct)
  case 1
  then show ?case by simp
next
  case (2 c cs)
  obtain r n where rn: "utf8_next c cs = (r, n)" by fastforce
  with 2 show ?case by (simp add: runes_Cons [OF rn])
qed

lemma runes_eq_Nil_iff [simp]: "runes s = [] \<longleftrightarrow> s = []"
proof (cases s)
  case (Cons c cs)
  obtain r n where "utf8_next c cs = (r, n)" by fastforce
  with Cons show ?thesis by (simp add: runes_Cons)
qed simp

lemma runes_nonempty_bytes: "x \<in> set (runes s) \<Longrightarrow> snd x \<noteq> []"
proof (induction s rule: runes.induct)
  case (2 c cs)
  obtain r n where rn: "utf8_next c cs = (r, n)" by fastforce
  with 2 show ?case by (auto simp: runes_Cons [OF rn])
qed simp

text \<open>
  UTF-8 is self-synchronising: reading a run of consecutive runes on its own gives these runes again.
\<close>

lemma runes_suffix: "runes s = xs @ ys \<Longrightarrow> runes (unrunes ys) = ys"
proof (induction xs arbitrary: s)
  case Nil
  then have "unrunes ys = s" by (metis append_Nil unrunes_runes)
  with Nil show ?case by simp
next
  case (Cons x xs)
  then obtain c cs where s: "s = c # cs" by (cases s) auto
  obtain r n where rn: "utf8_next c cs = (r, n)" by fastforce
  from Cons.prems s have "runes (drop (n - 1) cs) = xs @ ys" by (simp add: runes_Cons [OF rn])
  then show ?case by (rule Cons.IH)
qed

lemma runes_prefix: "runes s = xs @ ys \<Longrightarrow> runes (unrunes xs) = xs"
proof (induction xs arbitrary: s)
  case Nil
  then show ?case by simp
next
  case (Cons x xs)
  then obtain c cs where s: "s = c # cs" by (cases s) auto
  obtain r n where rn: "utf8_next c cs = (r, n)" by fastforce
  from Cons.prems s have x: "x = (r, c # take (n - 1) cs)"
    and rest: "runes (drop (n - 1) cs) = xs @ ys" by (simp_all add: runes_Cons [OF rn])
  have dropped: "drop (n - 1) cs = unrunes xs @ unrunes ys"
    using rest by (metis unrunes_runes unrunes_simps(3))
  have width: "1 \<le> n \<and> n \<le> Suc (length cs)"
    using utf8_next_width [of c cs] by (simp add: rn)
  define k where "k = n - 1 + length (unrunes xs)"
  have "cs = take (n - 1) cs @ unrunes xs @ unrunes ys"
    by (metis append_take_drop_id dropped)
  moreover have "length (take (n - 1) cs) = n - 1" using width by auto
  ultimately have cut: "take k cs = take (n - 1) cs @ unrunes xs"
    unfolding k_def by (metis append_assoc append_eq_conv_conj length_append)
  have "utf8_next c (take k cs) = (r, n)"
    using utf8_next_take [of c cs k] by (simp add: rn k_def)
  then have "runes (c # take k cs) = (r, c # take (n - 1) cs) # runes (unrunes xs)"
    using width by (subst runes_Cons) (auto simp: cut)
  with x cut Cons.IH [OF rest] show ?case by simp
qed

section \<open>Facts on trimming\<close>

lemma trim_by_split: "\<exists>as bs. xs = as @ trim_by P xs @ bs"
proof -
  let ?d = "dropWhile P xs"
  have "xs = takeWhile P xs @ ?d" by simp
  moreover have "rev ?d = takeWhile P (rev ?d) @ dropWhile P (rev ?d)" by simp
  then have "?d = trim_by P xs @ rev (takeWhile P (rev ?d))"
    unfolding trim_by_def by (metis rev_append rev_rev_ident)
  ultimately show ?thesis by metis
qed

lemma runes_TrimFunc: "runes (TrimFunc P s) = trim_by (\<lambda>(r, _). P r) (runes s)"
proof -
  obtain as bs where "runes s = as @ trim_by (\<lambda>(r, _). P r) (runes s) @ bs"
    using trim_by_split by blast
  from runes_suffix [OF this] have "runes (unrunes (trim_by (\<lambda>(r, _). P r) (runes s) @ bs)) =
    trim_by (\<lambda>(r, _). P r) (runes s) @ bs" .
  then show ?thesis unfolding TrimFunc_def by (rule runes_prefix)
qed

lemma dropWhile_rev_idem: "dropWhile P (rev (dropWhile P (rev (dropWhile P xs)))) =
  rev (dropWhile P (rev (dropWhile P xs)))"
proof (cases "dropWhile P xs")
  case (Cons y ys)
  then have "\<not> P y" by (metis dropWhile_eq_Cons_conv)
  have "dropWhile P (rev (y # ys)) = dropWhile P (rev ys) @ [y]"
    using \<open>\<not> P y\<close> by (simp add: dropWhile_append3)
  with Cons \<open>\<not> P y\<close> show ?thesis by simp
next
  case Nil
  then show ?thesis by (simp only: rev.simps dropWhile.simps)
qed

lemma trim_by_idem: "trim_by P (trim_by P xs) = trim_by P xs"
  unfolding trim_by_def dropWhile_rev_idem by simp

lemma TrimFunc_idem: "TrimFunc P (TrimFunc P s) = TrimFunc P s"
  unfolding TrimFunc_def [of P "TrimFunc P s"] runes_TrimFunc trim_by_idem
  by (simp add: TrimFunc_def)

lemma TrimSpace_idem [simp]: "TrimSpace (TrimSpace s) = TrimSpace s"
  by (simp add: TrimSpace_def TrimFunc_idem)

lemma TrimSpace_Nil [simp]: "TrimSpace [] = []"
  by (simp add: TrimSpace_def TrimFunc_def trim_by_def)

lemma trim_by_eq_Nil_iff: "trim_by P xs = [] \<longleftrightarrow> (\<forall>x \<in> set xs. P x)"
proof
  assume "trim_by P xs = []"
  then have all: "\<forall>x \<in> set (dropWhile P xs). P x"
    unfolding trim_by_def by (metis dropWhile_eq_Nil_conv rev_is_Nil_conv set_rev)
  then have "dropWhile P xs = []"
    by (metis hd_dropWhile list.set_sel(1))
  then show "\<forall>x \<in> set xs. P x" by simp
next
  assume "\<forall>x \<in> set xs. P x"
  then have "dropWhile P xs = []" by simp
  then show "trim_by P xs = []" by (simp only: trim_by_def rev.simps dropWhile.simps)
qed

lemma unrunes_eq_Nil_iff: "set xs \<subseteq> set (runes s) \<Longrightarrow> unrunes xs = [] \<longleftrightarrow> xs = []"
  using runes_nonempty_bytes by (cases xs) auto

text \<open>\<open>strings.TrimSpace(s) == ""\<close> exactly when every rune of \<open>s\<close> is white space.\<close>

lemma TrimSpace_eq_Nil_iff: "TrimSpace s = [] \<longleftrightarrow> (\<forall>(r, _) \<in> set (runes s). rune_space r)"
proof -
  have "TrimSpace s = [] \<longleftrightarrow> runes (TrimSpace s) = []" by simp
  also have "\<dots> \<longleftrightarrow> trim_by (\<lambda>(r, _). rune_space r) (runes s) = []"
    unfolding TrimSpace_def runes_TrimFunc ..
  finally show ?thesis by (simp add: trim_by_eq_Nil_iff)
qed

section \<open>Facts on searching\<close>

lemma HasPrefix_iff: "HasPrefix s p \<longleftrightarrow> prefix p s"
  unfolding HasPrefix_def prefix_def by (metis append_eq_conv_conj append_take_drop_id)

lemma HasPrefix_append [simp]: "HasPrefix (p @ s) p"
  by (simp add: HasPrefix_def)

lemma Contains_iff: "Contains s p \<longleftrightarrow> sublist p s"
  by (induction s) (auto simp: HasPrefix_iff sublist_Cons_right)

lemma Contains_refl [simp]: "Contains s s"
  by (simp add: Contains_iff)

lemma Contains_append: "Contains (a @ p @ b) p"
  by (simp add: Contains_iff)

lemma Contains_trans: "Contains s t \<Longrightarrow> Contains t u \<Longrightarrow> Contains s u"
  unfolding Contains_iff by (rule sublist_order.order.trans)

section \<open>Facts on splitting\<close>

lemma SplitByte_not_Nil [simp]: "SplitByte d s \<noteq> []"
  by (cases s) (auto split: list.splits)

lemma SplitByte_absent: "d \<notin> set s \<Longrightarrow> SplitByte d s = [s]"
  by (induction s) auto

lemma SplitByte_append: "d \<notin> set a \<Longrightarrow> SplitByte d (a @ d # b) = a # SplitByte d b"
  by (induction a) (auto split: list.splits)

lemma Join_SplitByte: "Join (SplitByte d s) [d] = s"
proof (induction s)
  case (Cons c cs)
  obtain p ps where sp: "SplitByte d cs = p # ps"
    using SplitByte_not_Nil by (metis list.exhaust)
  with Cons show ?case by (cases ps) auto
qed simp

text \<open>Printable ASCII without the blank: nothing to trim, and a trailing newline is trimmed away.\<close>

definition visible :: "string \<Rightarrow> bool" where
  "visible s \<longleftrightarrow> (\<forall>c \<in> set s. 33 \<le> byte c \<and> byte c < 127)"

lemma visible_ascii: "visible s \<Longrightarrow> is_ascii s"
  by (auto simp: visible_def is_ascii_def)

lemma dropWhile_none: "\<forall>x \<in> set xs. \<not> P x \<Longrightarrow> dropWhile P xs = xs"
  by (cases xs) auto

lemma trim_by_none: "\<forall>x \<in> set xs. \<not> P x \<Longrightarrow> trim_by P xs = xs"
  by (simp add: trim_by_def dropWhile_none)

lemma trim_by_snoc: "\<forall>x \<in> set xs. \<not> P x \<Longrightarrow> P y \<Longrightarrow> trim_by P (xs @ [y]) = xs"
  by (cases xs) (simp_all add: trim_by_def dropWhile_none)

lemma visible_not_space: "visible s \<Longrightarrow> c \<in> set s \<Longrightarrow> \<not> rune_space (byte c)"
  by (fastforce simp: visible_def rune_space_def)

lemma TrimSpace_ascii: "is_ascii s \<Longrightarrow> TrimSpace s = trim_by (\<lambda>c. rune_space (byte c)) s"
proof -
  assume "is_ascii s"
  then have "TrimSpace s = unrunes (map (\<lambda>c. (byte c, [c])) (trim_by (\<lambda>c. rune_space (byte c)) s))"
    by (simp add: TrimSpace_def TrimFunc_def runes_ascii trim_by_def dropWhile_map rev_map o_def)
  then show ?thesis
    by (simp add: unrunes_def o_def)
qed

lemma TrimSpace_visible: "visible s \<Longrightarrow> TrimSpace s = s"
  by (simp add: TrimSpace_ascii visible_ascii trim_by_none visible_not_space)

lemma TrimSpace_visible_newline: "visible s \<Longrightarrow> TrimSpace (s @ [CHR 0x0A]) = s"
  by (subst TrimSpace_ascii) (auto simp: is_ascii_def visible_def rune_space_def intro!: trim_by_snoc)

text \<open>A runtime whose Unicode tables know ASCII only, for evaluating examples.\<close>

definition ascii_runtime :: runtime where
  "ascii_runtime = \<lparr> u_lower = (\<lambda>r. r), u_letter = (\<lambda>_. False), u_digit = (\<lambda>_. False), u_print = (\<lambda>_. False),
     u_fold = (\<lambda>_ _. False), rt_sha256 = (\<lambda>s. s), rt_hmac = (\<lambda>k d. k @ d), rt_url_parse = (\<lambda>_. None),
     rt_parse_ip = (\<lambda>_. None) \<rparr>"

end
