(* ===== verification/GoCodec.thy ===== *)
theory GoCodec
  imports GoStrings
begin

text \<open>
  Textual encodings of Go's standard library: decimal numbers (\<open>strconv.Itoa\<close>, \<open>%d\<close>), quoting
  (\<open>%q\<close>), \<open>encoding/hex\<close>, the four alphabets of \<open>encoding/base64\<close>, RFC 3339 time stamps and
  \<open>net.SplitHostPort\<close>, with the round trips the token and decoding code relies on.
\<close>

section \<open>Numbers\<close>

definition digit_char :: "nat \<Rightarrow> char" where
  "digit_char d = char_of (48 + d)"

fun nat_str :: "nat \<Rightarrow> string" where
  "nat_str n = (if n < 10 then [digit_char n] else nat_str (n div 10) @ [digit_char (n mod 10)])"

declare nat_str.simps [simp del]

definition Itoa :: "int \<Rightarrow> string" where
  "Itoa i = (if i < 0 then CHR ''-'' # nat_str (nat (- i)) else nat_str (nat i))"

definition hex_digit :: "nat \<Rightarrow> char" where
  "hex_digit d = (if d < 10 then char_of (48 + d) else char_of (87 + d))"

definition hex_pad :: "nat \<Rightarrow> nat \<Rightarrow> string" where
  "hex_pad w n = map (\<lambda>i. hex_digit (n div 16 ^ (w - 1 - i) mod 16)) [0..<w]"

text \<open>\<open>strconv.Quote\<close>, the verb \<open>%q\<close>.\<close>

definition quote_rune :: "runtime \<Rightarrow> nat \<times> string \<Rightarrow> string" where
  "quote_rune rt = (\<lambda>(r, bs).
     if length bs = 1 \<and> r = rune_error then [CHR 0x5C, CHR ''x''] @ hex_pad 2 (byte (hd bs))
     else if r = 34 \<or> r = 92 then [CHR 0x5C, char_of r]
     else if rune_print rt r then utf8_encode r
     else if r = 7 then [CHR 0x5C, CHR ''a''] else if r = 8 then [CHR 0x5C, CHR ''b''] else if r = 12 then [CHR 0x5C, CHR ''f'']
     else if r = 10 then [CHR 0x5C, CHR ''n''] else if r = 13 then [CHR 0x5C, CHR ''r''] else if r = 9 then [CHR 0x5C, CHR ''t'']
     else if r = 11 then [CHR 0x5C, CHR ''v'']
     else if r < 32 \<or> r = 127 then [CHR 0x5C, CHR ''x''] @ hex_pad 2 r
     else if r < 65536 then [CHR 0x5C, CHR ''u''] @ hex_pad 4 r
     else [CHR 0x5C, CHR ''U''] @ hex_pad 8 r)"

definition Quote :: "runtime \<Rightarrow> string \<Rightarrow> string" where
  "Quote rt s = [CHR 0x22] @ concat (map (quote_rune rt) (runes s)) @ [CHR 0x22]"

section \<open>Hexadecimal\<close>

fun hex_encode :: "string \<Rightarrow> string" where
  "hex_encode [] = []"
| "hex_encode (c # cs) = hex_digit (byte c div 16) # hex_digit (byte c mod 16) # hex_encode cs"

definition hex_val :: "char \<Rightarrow> nat option" where
  "hex_val c = (let b = byte c in
     if 48 \<le> b \<and> b \<le> 57 then Some (b - 48)
     else if 97 \<le> b \<and> b \<le> 102 then Some (b - 87)
     else if 65 \<le> b \<and> b \<le> 70 then Some (b - 55)
     else None)"

fun hex_decode :: "string \<Rightarrow> string option" where
  "hex_decode [] = Some []"
| "hex_decode [c] = None"
| "hex_decode (c # d # cs) = (case (hex_val c, hex_val d, hex_decode cs) of
     (Some h, Some l, Some r) \<Rightarrow> Some (char_of (16 * h + l) # r) | _ \<Rightarrow> None)"

section \<open>Base64\<close>

text \<open>\<open>u\<close> selects the URL alphabet, \<open>p\<close> padding: the four encodings of the package.\<close>

definition b64_char :: "bool \<Rightarrow> nat \<Rightarrow> char" where
  "b64_char u v =
     (if v < 26 then char_of (65 + v) else if v < 52 then char_of (71 + v)
      else if v < 62 then char_of (v - 4)
      else if v = 62 then (if u then CHR ''-'' else CHR ''+'')
      else (if u then CHR ''_'' else CHR ''/''))"

definition b64_val :: "bool \<Rightarrow> char \<Rightarrow> nat option" where
  "b64_val u c = (let b = byte c in
     if 65 \<le> b \<and> b \<le> 90 then Some (b - 65)
     else if 97 \<le> b \<and> b \<le> 122 then Some (b - 71)
     else if 48 \<le> b \<and> b \<le> 57 then Some (b + 4)
     else if c = (if u then CHR ''-'' else CHR ''+'') then Some 62
     else if c = (if u then CHR ''_'' else CHR ''/'') then Some 63
     else None)"

fun b64_encode :: "bool \<Rightarrow> bool \<Rightarrow> string \<Rightarrow> string" where
  "b64_encode u p [] = []"
| "b64_encode u p [a] = [b64_char u (byte a div 4), b64_char u (byte a mod 4 * 16)]
     @ (if p then ''=='' else [])"
| "b64_encode u p [a, b] = [b64_char u (byte a div 4), b64_char u (byte a mod 4 * 16 + byte b div 16),
     b64_char u (byte b mod 16 * 4)] @ (if p then ''='' else [])"
| "b64_encode u p (a # b # c # cs) = b64_char u (byte a div 4)
     # b64_char u (byte a mod 4 * 16 + byte b div 16)
     # b64_char u (byte b mod 16 * 4 + byte c div 64) # b64_char u (byte c mod 64) # b64_encode u p cs"

definition b64_1 :: "nat \<Rightarrow> nat \<Rightarrow> char" where "b64_1 w x = char_of (w * 4 + x div 16)"
definition b64_2 :: "nat \<Rightarrow> nat \<Rightarrow> char" where "b64_2 x y = char_of (x mod 16 * 16 + y div 4)"
definition b64_3 :: "nat \<Rightarrow> nat \<Rightarrow> char" where "b64_3 y z = char_of (y mod 4 * 64 + z)"

text \<open>
  \<open>decodeQuantum\<close> over the input without line breaks. A final group is padded when the encoding
  pads and bare when it does not; anything else is a \<open>CorruptInputError\<close>.
\<close>

fun b64_quanta :: "bool \<Rightarrow> bool \<Rightarrow> string \<Rightarrow> string option" where
  "b64_quanta u p [] = Some []"
| "b64_quanta u p [a] = None"
| "b64_quanta u p [a, b] = (if p then None else case (b64_val u a, b64_val u b) of
     (Some w, Some x) \<Rightarrow> Some [b64_1 w x] | _ \<Rightarrow> None)"
| "b64_quanta u p [a, b, c] = (if p then None else case (b64_val u a, b64_val u b, b64_val u c) of
     (Some w, Some x, Some y) \<Rightarrow> Some [b64_1 w x, b64_2 x y] | _ \<Rightarrow> None)"
| "b64_quanta u p (a # b # c # d # cs) =
     (case (b64_val u a, b64_val u b) of
       (Some w, Some x) \<Rightarrow>
         (if p \<and> c = CHR ''='' then (if d = CHR ''='' \<and> cs = [] then Some [b64_1 w x] else None)
          else (case b64_val u c of
            None \<Rightarrow> None
          | Some y \<Rightarrow>
             (if p \<and> d = CHR ''='' then (if cs = [] then Some [b64_1 w x, b64_2 x y] else None)
              else (case (b64_val u d, b64_quanta u p cs) of
                (Some z, Some r) \<Rightarrow> Some (b64_1 w x # b64_2 x y # b64_3 y z # r) | _ \<Rightarrow> None))))
     | _ \<Rightarrow> None)"

definition b64_decode :: "bool \<Rightarrow> bool \<Rightarrow> string \<Rightarrow> string option" where
  "b64_decode u p s = b64_quanta u p (filter (\<lambda>c. byte c \<noteq> 10 \<and> byte c \<noteq> 13) s)"

section \<open>Time stamps\<close>

definition pad_str :: "nat \<Rightarrow> nat \<Rightarrow> string" where
  "pad_str w n = (let s = nat_str n in replicate (w - length s) (CHR ''0'') @ s)"

definition leap_year :: "int \<Rightarrow> bool" where
  "leap_year y \<longleftrightarrow> y mod 4 = 0 \<and> (y mod 100 \<noteq> 0 \<or> y mod 400 = 0)"

fun month_day :: "int list \<Rightarrow> int \<Rightarrow> int \<Rightarrow> int \<times> int" where
  "month_day [] m d = (m, d + 1)"
| "month_day (n # ns) m d = (if d < n then (m, d + 1) else month_day ns (m + 1) (d - n))"

text \<open>The civil date of the \<open>d\<close>-th day after 1 January of year 1.\<close>

definition civil :: "int \<Rightarrow> int \<times> int \<times> int" where
  "civil d =
     (let n400 = d div 146097; d1 = d mod 146097; n100 = min 3 (d1 div 36524); d2 = d1 - n100 * 36524;
        n4 = d2 div 1461; d3 = d2 mod 1461; n1 = min 3 (d3 div 365); yd = d3 - n1 * 365;
        y = 400 * n400 + 100 * n100 + 4 * n4 + n1 + 1;
        (m, md) = month_day [31, if leap_year y then 29 else 28, 31, 30, 31, 30, 31, 31, 30, 31, 30, 31] 1 yd
      in (y, m, md))"

definition year_str :: "int \<Rightarrow> string" where
  "year_str y = (if y < 0 then CHR ''-'' # pad_str 4 (nat (- y)) else pad_str 4 (nat y))"

definition frac_str :: "nat \<Rightarrow> string" where
  "frac_str ns = (if ns = 0 then []
     else CHR ''.'' # rev (dropWhile (\<lambda>c. c = CHR ''0'') (rev (pad_str 9 ns))))"

definition rfc3339_base :: "time \<Rightarrow> string" where
  "rfc3339_base t =
     (let s = t div 1000000000; (y, m, d) = civil (s div 86400); r = s mod 86400 in
        year_str y @ ''-'' @ pad_str 2 (nat m) @ ''-'' @ pad_str 2 (nat d) @ ''T''
        @ pad_str 2 (nat (r div 3600)) @ '':'' @ pad_str 2 (nat (r div 60 mod 60)) @ '':''
        @ pad_str 2 (nat (r mod 60)))"

definition RFC3339 :: "time \<Rightarrow> string" where
  "RFC3339 t = rfc3339_base t @ ''Z''"

definition RFC3339Nano :: "time \<Rightarrow> string" where
  "RFC3339Nano t = rfc3339_base t @ frac_str (nat (t mod 1000000000)) @ ''Z''"

section \<open>Host and port\<close>

fun index_of :: "char \<Rightarrow> string \<Rightarrow> nat option" where
  "index_of c [] = None"
| "index_of c (x # xs) = (if x = c then Some 0 else map_option Suc (index_of c xs))"

definition last_index_of :: "char \<Rightarrow> string \<Rightarrow> nat option" where
  "last_index_of c s = map_option (\<lambda>i. length s - 1 - i) (index_of c (rev s))"

text \<open>\<open>net.SplitHostPort\<close>; \<open>None\<close> is an \<open>AddrError\<close>.\<close>

definition SplitHostPort :: "string \<Rightarrow> (string \<times> string) option" where
  "SplitHostPort hp =
     (case last_index_of (CHR '':'') hp of
        None \<Rightarrow> None
      | Some i \<Rightarrow>
          (case (if hd hp = CHR ''['' then
                   (case index_of (CHR '']'') hp of
                      None \<Rightarrow> None
                    | Some e \<Rightarrow> if e + 1 = length hp then None
                                else if e + 1 = i then Some (take (e - 1) (drop 1 hp), 1, e + 1)
                                else None)
                 else if CHR '':'' \<in> set (take i hp) then None
                 else Some (take i hp, 0, 0)) of
             None \<Rightarrow> None
           | Some (host, j, k) \<Rightarrow>
               if CHR ''['' \<in> set (drop j hp) \<or> CHR '']'' \<in> set (drop k hp) then None
               else Some (host, drop (i + 1) hp)))"

section \<open>Round trips\<close>

lemma byte_char_of: "n < 256 \<Longrightarrow> byte (char_of n) = n"
  by simp

lemma hex_digit_val [simp]: "d < 16 \<Longrightarrow> hex_val (hex_digit d) = Some d"
  by (auto simp: hex_val_def hex_digit_def Let_def)

theorem hex_decode_encode: "hex_decode (hex_encode s) = Some s"
proof (induction s)
  case (Cons c cs)
  have "16 * (byte c div 16) + byte c mod 16 = byte c"
    by simp
  moreover have "byte c < 256" by simp
  then have "byte c div 16 < 16" by linarith
  ultimately show ?case using Cons by simp
qed simp

lemma b64_char_62: "b64_char u 62 = (if u then CHR ''-'' else CHR ''+'')"
  by (simp add: b64_char_def)

lemma b64_char_63: "b64_char u 63 = (if u then CHR ''_'' else CHR ''/'')"
  by (simp add: b64_char_def)

lemma b64_val_char [simp]:
  assumes "v < 64"
  shows "b64_val u (b64_char u v) = Some v"
proof -
  consider "v < 62" | "v = 62" | "v = 63" using assms by linarith
  then show ?thesis
    by cases (auto simp: b64_val_def b64_char_def Let_def)
qed

lemma b64_char_not_pad [simp]: "v < 64 \<Longrightarrow> b64_char u v \<noteq> CHR ''=''"
  using b64_val_char [of v u] by (auto simp: b64_val_def split: if_splits)

lemma byte_quotients [simp]:
  "byte c div 4 < 64" "byte c div 16 < 16" "byte c div 64 < 4" "byte c div 16 div 16 = 0" "byte c div 64 div 4 = 0"
proof -
  have "byte c < 256" by simp
  then show "byte c div 4 < 64" "byte c div 16 < 16" "byte c div 64 < 4"
    "byte c div 16 div 16 = 0" "byte c div 64 div 4 = 0"
    by linarith+
qed

lemma b64_groups [simp]:
  "b64_1 (byte a div 4) (byte a mod 4 * 16 + byte b div 16) = a"
  "b64_1 (byte a div 4) (byte a mod 4 * 16) = a"
  "b64_2 (byte a mod 4 * 16 + byte b div 16) (byte b mod 16 * 4 + byte c div 64) = b"
  "b64_2 (byte a mod 4 * 16 + byte b div 16) (byte b mod 16 * 4) = b"
  "b64_3 (byte b mod 16 * 4 + byte c div 64) (byte c mod 64) = c"
  by (simp_all add: b64_1_def b64_2_def b64_3_def)

lemma sextets [simp]:
  "byte a mod 4 * 16 < 64" "byte a mod 4 * 16 + byte b div 16 < 64"
  "byte b mod 16 * 4 < 64" "byte b mod 16 * 4 + byte c div 64 < 64" "byte c mod 64 < 64"
proof -
  have "byte a mod 4 < 4" "byte b mod 16 < 16" by simp_all
  with byte_quotients(2) [of b] byte_quotients(3) [of c]
  show "byte a mod 4 * 16 < 64" "byte a mod 4 * 16 + byte b div 16 < 64"
    "byte b mod 16 * 4 < 64" "byte b mod 16 * 4 + byte c div 64 < 64"
    by linarith+
qed simp

lemma b64_quanta_encode: "b64_quanta u p (b64_encode u p s) = Some s"
  by (induction u p s rule: b64_encode.induct) (simp_all split: if_split)

definition b64_alphabet :: "char \<Rightarrow> bool" where
  "b64_alphabet c \<longleftrightarrow> ascii_letter (byte c) \<or> ascii_digit (byte c) \<or> c \<in> set ''+/-_=''"

lemma b64_char_alphabet: "v < 64 \<Longrightarrow> b64_alphabet (b64_char u v)"
  by (auto simp: b64_alphabet_def b64_char_def ascii_letter_def ascii_digit_def)

lemma b64_encode_alphabet: "c \<in> set (b64_encode u p s) \<Longrightarrow> b64_alphabet c"
proof (induction u p s rule: b64_encode.induct)
  case (2 u p a)
  have "b64_alphabet (CHR ''='')" by (simp add: b64_alphabet_def)
  with 2 show ?case by (auto simp: b64_char_alphabet split: if_splits)
next
  case (3 u p a b)
  have "b64_alphabet (CHR ''='')" by (simp add: b64_alphabet_def)
  with 3 show ?case by (auto simp: b64_char_alphabet split: if_splits)
qed (auto simp: b64_char_alphabet)

lemma b64_alphabet_visible: "b64_alphabet c \<Longrightarrow> byte c \<noteq> 10 \<and> byte c \<noteq> 13 \<and> c \<noteq> CHR ''.''"
  by (auto simp: b64_alphabet_def ascii_letter_def ascii_digit_def)

theorem b64_decode_encode: "b64_decode u p (b64_encode u p s) = Some s"
proof -
  have "filter (\<lambda>c. byte c \<noteq> 10 \<and> byte c \<noteq> 13) (b64_encode u p s) = b64_encode u p s"
    by (rule filter_True) (use b64_encode_alphabet b64_alphabet_visible in blast)
  then show ?thesis by (simp add: b64_decode_def b64_quanta_encode)
qed

lemma b64_encode_no_dot: "CHR ''.'' \<notin> set (b64_encode u p s)"
  using b64_encode_alphabet b64_alphabet_visible by blast

lemma b64_encode_ascii: "is_ascii (b64_encode u p s)"
  unfolding is_ascii_def
proof
  fix c assume "c \<in> set (b64_encode u p s)"
  then have "b64_alphabet c" by (rule b64_encode_alphabet)
  then show "byte c < 128" by (auto simp: b64_alphabet_def ascii_letter_def ascii_digit_def)
qed

lemma b64_encode_padded_length: "length (b64_encode u True s) mod 4 = 0"
  by (induction u "True" s rule: b64_encode.induct) auto

lemma b64_encode_length_ge: "length s + length s div 3 \<le> length (b64_encode u p s)"
  by (induction u p s rule: b64_encode.induct) auto

section \<open>Decimal numerals\<close>

definition str_nat :: "string \<Rightarrow> nat" where
  "str_nat s = foldl (\<lambda>a c. 10 * a + (byte c - 48)) 0 s"

lemma str_nat_snoc: "str_nat (s @ [c]) = 10 * str_nat s + (byte c - 48)"
  by (simp add: str_nat_def)

lemma str_nat_str [simp]: "str_nat (nat_str n) = n"
proof (induction n rule: nat_str.induct)
  case (1 n)
  have digit: "byte (digit_char d) - 48 = d" if "d < 10" for d
    using that by (simp add: digit_char_def)
  show ?case
  proof (cases "n < 10")
    case True
    then show ?thesis
      by (subst nat_str.simps) (simp add: str_nat_def digit)
  next
    case False
    with 1 have "str_nat (nat_str n) = 10 * (n div 10) + n mod 10"
      by (subst nat_str.simps) (simp add: str_nat_snoc digit)
    then show ?thesis by simp
  qed
qed

lemma nat_str_inj: "nat_str m = nat_str n \<longleftrightarrow> m = n"
  by (metis str_nat_str)

lemma nat_str_not_Nil [simp]: "nat_str n \<noteq> []"
  by (subst nat_str.simps) simp

lemma nat_str_digits: "c \<in> set (nat_str n) \<Longrightarrow> 48 \<le> byte c \<and> byte c \<le> 57"
proof (induction n rule: nat_str.induct)
  case (1 n)
  have digit: "48 \<le> byte (digit_char d) \<and> byte (digit_char d) \<le> 57" if "d < 10" for d
    using that by (simp add: digit_char_def)
  show ?case
  proof (cases "n < 10")
    case True
    with "1.prems" digit [of n] show ?thesis by (subst (asm) nat_str.simps) simp
  next
    case False
    with "1.prems" have "c \<in> set (nat_str (n div 10)) \<or> c = digit_char (n mod 10)"
      by (subst (asm) nat_str.simps) auto
    with "1.IH" [OF False] digit [of "n mod 10"] show ?thesis by auto
  qed
qed

lemma Itoa_inj: "Itoa i = Itoa j \<longleftrightarrow> i = j"
proof -
  have minus: "nat_str n \<noteq> CHR ''-'' # s" for n s
    using nat_str_digits [of "CHR ''-''" n] by (auto dest!: arg_cong [where f = set])
  show ?thesis
    using minus [THEN not_sym] by (auto simp: Itoa_def nat_str_inj minus)
qed

end
