(* ===== verification/Domain.thy ===== *)
theory Domain
  imports GoCodec
begin

text \<open>
  The data model of \<open>internal/domain/types.go\<close>: severities, event kinds and the event, tool-call,
  decision, alert, response-action, asset and audit records shared by every other package. A Go
  string type with named constants is a datatype with one constructor per constant and one for any
  other string (the values come from JSON). A pointer field that may be nil is an \<open>option\<close>.
\<close>

section \<open>Severities\<close>

datatype severity = SeverityInfo | SeverityLow | SeverityMedium | SeverityHigh | SeverityCritical
  | SeverityOther string

fun severity_str :: "severity \<Rightarrow> string" where
  "severity_str SeverityInfo = ''info''"
| "severity_str SeverityLow = ''low''"
| "severity_str SeverityMedium = ''medium''"
| "severity_str SeverityHigh = ''high''"
| "severity_str SeverityCritical = ''critical''"
| "severity_str (SeverityOther s) = s"

fun Rank :: "severity \<Rightarrow> int" where
  "Rank SeverityCritical = 5"
| "Rank SeverityHigh = 4"
| "Rank SeverityMedium = 3"
| "Rank SeverityLow = 2"
| "Rank _ = 1"

lemma Rank_bounds: "1 \<le> Rank s \<and> Rank s \<le> 5"
  by (cases s) auto

section \<open>Event kinds\<close>

datatype event_kind = EventHostObservation | EventNetworkFlow | EventProcessStart
  | EventAgentToolCall | EventAuth | EventDeceptionHit | EventFinding | EventKindOther string

fun event_kind_str :: "event_kind \<Rightarrow> string" where
  "event_kind_str EventHostObservation = ''host_observation''"
| "event_kind_str EventNetworkFlow = ''network_flow''"
| "event_kind_str EventProcessStart = ''process_start''"
| "event_kind_str EventAgentToolCall = ''agent_tool_call''"
| "event_kind_str EventAuth = ''auth''"
| "event_kind_str EventDeceptionHit = ''deception_hit''"
| "event_kind_str EventFinding = ''finding''"
| "event_kind_str (EventKindOther s) = s"

section \<open>Records\<close>

type_synonym string_map = "(string, string) gomap"

record event =
  evID :: string
  evTimestamp :: time
  evTenant :: string
  evKind :: event_kind
  evAssetID :: string
  evHostname :: string
  evActor :: string
  evSourceIP :: string
  evDestination :: string
  evProcess :: string
  evToolName :: string
  evCommand :: string
  evSignal :: string
  evLabels :: "string list"
  evMetadata :: string_map

record deception_token =
  dtID :: string
  dtName :: string
  dtKind :: string
  dtValue :: string
  dtCreatedAt :: time
  dtLabels :: "string list"
  dtMetadata :: string_map

record tool_call_request =
  tcID :: string
  tcTimestamp :: time
  tcTenant :: string
  tcAssetID :: string
  tcHostname :: string
  tcActor :: string
  tcAgentID :: string
  tcAgentToken :: string
  tcToolName :: string
  tcToolFingerprint :: string
  tcToolPublisher :: string
  tcProtocolSurface :: bool
  tcCommand :: string
  tcArguments :: string
  tcSignal :: string
  tcDestination :: string
  tcLabels :: "string list"
  tcMetadata :: string_map

datatype gateway_verdict = GatewayAllow | GatewayRequireApproval | GatewayDeny

fun verdict_str :: "gateway_verdict \<Rightarrow> string" where
  "verdict_str GatewayAllow = ''allow''"
| "verdict_str GatewayDeny = ''deny''"
| "verdict_str GatewayRequireApproval = ''require_approval''"

text \<open>Verdicts are ordered by how much they restrict the call.\<close>

instantiation gateway_verdict :: linorder
begin

fun verdict_rank :: "gateway_verdict \<Rightarrow> nat" where
  "verdict_rank GatewayAllow = 0"
| "verdict_rank GatewayRequireApproval = 1"
| "verdict_rank GatewayDeny = 2"

definition less_eq_gateway_verdict :: "gateway_verdict \<Rightarrow> gateway_verdict \<Rightarrow> bool" where
  "less_eq_gateway_verdict v w \<longleftrightarrow> verdict_rank v \<le> verdict_rank w"

definition less_gateway_verdict :: "gateway_verdict \<Rightarrow> gateway_verdict \<Rightarrow> bool" where
  "less_gateway_verdict v w \<longleftrightarrow> verdict_rank v < verdict_rank w"

instance
proof
  fix v w :: gateway_verdict
  show "v \<le> w \<Longrightarrow> w \<le> v \<Longrightarrow> v = w"
    by (cases v; cases w) (simp_all add: less_eq_gateway_verdict_def)
qed (auto simp: less_eq_gateway_verdict_def less_gateway_verdict_def)

end

lemma verdict_le_simps [simp]:
  "GatewayAllow \<le> v" "v \<le> GatewayDeny"
  "\<not> GatewayRequireApproval \<le> GatewayAllow" "\<not> GatewayDeny \<le> GatewayRequireApproval"
  "\<not> GatewayDeny \<le> GatewayAllow"
  by (cases v; simp add: less_eq_gateway_verdict_def)+

record response_action =
  raID :: string
  raType :: string
  raMode :: string
  raAssetID :: string
  raTenant :: string
  raTarget :: string
  raReason :: string
  raCreatedAt :: time
  raApprovalStatus :: string
  raApprovedBy :: string
  raApprovedAt :: "time option"
  raExecutionStatus :: string
  raExecutedAt :: "time option"
  raExecutionError :: string
  raMetadata :: string_map

definition empty_action :: response_action where
  "empty_action = \<lparr> raID = [], raType = [], raMode = [], raAssetID = [], raTenant = [], raTarget = [],
     raReason = [], raCreatedAt = 0, raApprovalStatus = [], raApprovedBy = [], raApprovedAt = None,
     raExecutionStatus = [], raExecutedAt = None, raExecutionError = [], raMetadata = [] \<rparr>"

datatype alert_status = AlertOpen | AlertResolved | AlertStatusOther string

record alert =
  alID :: string
  alFingerprint :: string
  alRuleID :: string
  alTitle :: string
  alDescription :: string
  alSeverity :: severity
  alStatus :: alert_status
  alAssetID :: string
  alTenant :: string
  alCreatedAt :: time
  alEventIDs :: "string list"
  alEvidence :: string_map
  alRecommendedActions :: "response_action list"

record tool_call_decision =
  dcID :: string
  dcRequestID :: string
  dcToolName :: string
  dcVerdict :: gateway_verdict
  dcReason :: string
  dcRisk :: severity
  dcCreatedAt :: time
  dcAction :: "response_action option"
  dcAlerts :: "alert list"
  dcRecommendedActions :: "response_action list"
  dcMetadata :: string_map

record tool_execution_result =
  xrDecision :: tool_call_decision
  xrStatus :: string
  xrResult :: string
  xrAction :: "response_action option"

record asset =
  asID :: string
  asTenant :: string
  asHostname :: string
  asOS :: string
  asIPs :: "string list"
  asAgentSurface :: "string list"
  asRiskScore :: int
  asLastSeen :: time
  asLabels :: "string list"
  asMetadata :: string_map

definition empty_asset :: asset where
  "empty_asset = \<lparr> asID = [], asTenant = [], asHostname = [], asOS = [], asIPs = [],
     asAgentSurface = [], asRiskScore = 0, asLastSeen = 0, asLabels = [], asMetadata = [] \<rparr>"

record audit_event =
  auID :: string
  auTimestamp :: time
  auTenant :: string
  auChainIndex :: int
  auPrevHash :: string
  auHash :: string
  auActor :: string
  auRoles :: "string list"
  auAction :: string
  auResourceType :: string
  auResourceID :: string
  auOutcome :: string
  auSourceIP :: string
  auUserAgent :: string
  auMetadata :: string_map

record rule_descriptor =
  rdID :: string
  rdName :: string
  rdDescription :: string
  rdSeverity :: severity
  rdSignals :: "string list"
  rdPackName :: string
  rdPackVersion :: string

record status =
  suVersion :: string
  suInstanceName :: string
  suPublicURL :: string
  suTenantIsolation :: string
  suTenantCount :: nat
  suUptimeSeconds :: int
  suEventCount :: nat
  suAlertCount :: nat
  suAssetCount :: nat
  suActionCount :: nat
  suAuditCount :: nat
  suGatewayInFlight :: nat
  suGatewayLimit :: nat
  suGatewayRejected :: nat
  suGatewayP99Millis :: int
  suStartedAt :: time
  suStorageMode :: string
  suStoragePath :: string
  suSchemaVersion :: int
  suLastStorageError :: string
  suLastExportError :: string

section \<open>Helpers that several packages repeat\<close>

text \<open>\<open>metadataText\<close>, \<open>canonicalMetadata\<close>: the entries in key order as \<open>key=value\<close>.\<close>

definition metadata_parts :: "string_map \<Rightarrow> string list" where
  "metadata_parts m = map (\<lambda>k. k @ ''='' @ gm_str m k) (sort (map fst m))"

definition tenantOrDefault :: "string \<Rightarrow> string" where
  "tenantOrDefault v = (let v = TrimSpace v in if v = [] then ''default'' else v)"

definition sameTenant :: "string \<Rightarrow> string \<Rightarrow> bool" where
  "sameTenant a b \<longleftrightarrow> tenantOrDefault a = tenantOrDefault b"

lemma TrimSpace_default [simp]: "TrimSpace ''default'' = ''default''"
  by code_simp

lemma tenantOrDefault_idem [simp]: "tenantOrDefault (tenantOrDefault t) = tenantOrDefault t"
  by (simp add: tenantOrDefault_def Let_def)

lemma tenantOrDefault_not_Nil [simp]: "tenantOrDefault t \<noteq> []"
  by (simp add: tenantOrDefault_def Let_def)

lemma TrimSpace_tenantOrDefault [simp]: "TrimSpace (tenantOrDefault t) = tenantOrDefault t"
  by (simp add: tenantOrDefault_def Let_def)

lemma sameTenant_equivp: "equivp sameTenant"
  by (rule equivpI) (auto simp: reflp_def symp_def transp_def sameTenant_def)

lemma sameTenant_default [simp]:
  "sameTenant a (tenantOrDefault b) = sameTenant a b" "sameTenant (tenantOrDefault a) b = sameTenant a b"
  by (simp_all add: sameTenant_def)

text \<open>The first string that is not empty.\<close>

fun first_nonempty :: "string list \<Rightarrow> string" where
  "first_nonempty [] = []"
| "first_nonempty (s # ss) = (if s \<noteq> [] then s else first_nonempty ss)"

end
