(* ===== verification/Http.thy ===== *)
theory Http
  imports Domain
begin

text \<open>
  The part of \<open>net/http\<close> that the program reads: a request as the server hands it to a handler and the
  cookies it sets. Header names are in canonical form (\<open>Header.Get\<close> canonicalises its argument), and
  cookies are the list that \<open>net/http\<close> parses from the request.
\<close>

record http_request =
  rqMethod :: string
  rqPath :: string
  rqQuery :: string_map
  rqHeaders :: string_map
  rqCookies :: "(string \<times> string) list"
  rqRemoteAddr :: string
  rqBody :: string

definition HeaderGet :: "http_request \<Rightarrow> string \<Rightarrow> string" where
  "HeaderGet r name = gm_str (rqHeaders r) name"

text \<open>\<open>r.Cookie\<close>: the first cookie with the name.\<close>

definition RequestCookie :: "http_request \<Rightarrow> string \<Rightarrow> string option" where
  "RequestCookie r name = map_of (rqCookies r) name"

record http_cookie =
  ckName :: string
  ckValue :: string
  ckPath :: string
  ckExpires :: time
  ckMaxAge :: int
  ckHttpOnly :: bool
  ckSecure :: bool
  ckSameSiteLax :: bool

abbreviation MethodGet :: string where "MethodGet \<equiv> ''GET''"
abbreviation MethodHead :: string where "MethodHead \<equiv> ''HEAD''"
abbreviation MethodOptions :: string where "MethodOptions \<equiv> ''OPTIONS''"
abbreviation MethodPost :: string where "MethodPost \<equiv> ''POST''"
abbreviation MethodDelete :: string where "MethodDelete \<equiv> ''DELETE''"

text \<open>The instant \<open>time.Unix(0, 0)\<close>, in nanoseconds since the zero time.\<close>

definition unix_epoch :: time where
  "unix_epoch = 62135596800 * second"

text \<open>\<open>int(d.Seconds())\<close>: whole seconds, rounded towards zero.\<close>

definition whole_seconds :: "duration \<Rightarrow> int" where
  "whole_seconds d = sgn d * (\<bar>d\<bar> div second)"

end
