(* ===== verification/ThreatPack.thy ===== *)
theory ThreatPack
  imports Domain
begin

text \<open>
  \<open>internal/policy/threatpack.go\<close>: the versioned threat pack, the built-in pack, and the signed
  manifest files. The operating system is a record: the environment variables and the files that
  can be read, and the paths that can be written. Decoding the JSON manifest is the parameter
  \<open>unmarshal\<close>. The theorems say that with a signing key configured only a manifest whose detached
  signature is the HMAC of its bytes is loaded, and that what the signing command writes is accepted.
\<close>

section \<open>The operating system\<close>

record host_os =
  osEnv :: "string \<Rightarrow> string"
  osFiles :: "string \<Rightarrow> string option"
  osWritable :: "string \<Rightarrow> bool"

definition WriteFile :: "string \<Rightarrow> string \<Rightarrow> host_os \<Rightarrow> host_os option" where
  "WriteFile path data os =
     (if osWritable os path then Some (os\<lparr>osFiles := (osFiles os)(path := Some data)\<rparr>) else None)"

section \<open>Definitions\<close>

record threat_pack =
  tpName :: string
  tpVersion :: string
  tpApprovedTools :: "string list"
  tpApprovedEgressHosts :: "string list"
  tpRules :: "rule_descriptor list"

datatype pack_error = PackVersionRequired | PackRead string | PackDecode string
  | PackSignatureMissing string | PackSignatureMismatch string | PackSignatureRequired
  | PackKeyRequired | PackWrite string

definition DefaultThreatPackVersion :: string where
  "DefaultThreatPackVersion = ''2026.06''"

definition rule :: "string \<Rightarrow> string \<Rightarrow> string \<Rightarrow> severity \<Rightarrow> string list \<Rightarrow> rule_descriptor" where
  "rule i n d s sigs = \<lparr> rdID = i, rdName = n, rdDescription = d, rdSeverity = s, rdSignals = sigs,
     rdPackName = [], rdPackVersion = [] \<rparr>"

definition builtinRules :: "rule_descriptor list" where
  "builtinRules =
     [rule ''agent.tool.unapproved'' ''Unapproved agent tool call''
        ''Flags AI-agent or MCP tool calls outside the approved tool manifest.''
        SeverityHigh [''agent_tool_call'', ''tool_manifest''],
      rule ''agent.secret.exposure'' ''Potential secret exposure through agent context''
        ''Flags commands and tool calls that combine agent activity with token, secret, or environment access.''
        SeverityCritical [''agent_tool_call'', ''secret'', ''token'', ''environment''],
      rule ''network.egress.unknown'' ''Unknown outbound destination''
        ''Flags non-private outbound network flows to destinations outside the approved egress list.''
        SeverityMedium [''network_flow'', ''egress''],
      rule ''process.discovery.chain'' ''Suspicious discovery process''
        ''Flags process commands commonly seen during discovery, credential access, or lateral movement.''
        SeverityHigh [''process_start'', ''discovery'', ''credential_access''],
      rule ''deception.canary.hit'' ''Canary or deception asset touched''
        ''Flags interaction with a decoy token, honey credential, or instrumented deception service.''
        SeverityCritical [''deception_hit'', ''canary''],
      rule ''model.runtime.suspicious'' ''Suspicious local model runtime behavior''
        ''Flags local model runtime activity combined with unexpected downloads, shelling out, or external egress.''
        SeverityHigh [''model_runtime'', ''gpu'', ''download'', ''shell'']]"

definition defaultRuleDescriptors :: "string \<Rightarrow> string \<Rightarrow> rule_descriptor list" where
  "defaultRuleDescriptors packName packVersion =
     map (\<lambda>r. r\<lparr>rdPackName := packName, rdPackVersion := packVersion\<rparr>) builtinRules"

definition DefaultThreatPack :: threat_pack where
  "DefaultThreatPack = \<lparr> tpName = ''builtin'', tpVersion = DefaultThreatPackVersion,
     tpApprovedTools = [''asset_inventory'', ''ticket_create'', ''policy_read'', ''siem_search''],
     tpApprovedEgressHosts = [''api.openai.com'', ''github.com'', ''login.microsoftonline.com''],
     tpRules = defaultRuleDescriptors ''builtin'' DefaultThreatPackVersion \<rparr>"

definition Validate :: "threat_pack \<Rightarrow> pack_error option" where
  "Validate p = (if TrimSpace (tpVersion p) = [] then Some PackVersionRequired else None)"

definition manifestHMACKey :: "host_os \<Rightarrow> string" where
  "manifestHMACKey os = TrimSpace (osEnv os ''OATD_MANIFEST_HMAC_SECRET'')"

definition manifestSignatureRequired :: "runtime \<Rightarrow> host_os \<Rightarrow> bool" where
  "manifestSignatureRequired rt os \<longleftrightarrow>
     ToLower rt (TrimSpace (osEnv os ''OATD_MANIFEST_REQUIRE_SIGNED'')) \<in> {''1'', ''true'', ''yes'', ''on''}"

definition ManifestSignature :: "runtime \<Rightarrow> string \<Rightarrow> string \<Rightarrow> string" where
  "ManifestSignature rt data key = hex_encode (rt_hmac rt key data)"

text \<open>The signing command returns the new files beside the path of the signature.\<close>

definition SignThreatPackFile :: "runtime \<Rightarrow> host_os \<Rightarrow> string \<Rightarrow> pack_error + string \<times> host_os" where
  "SignThreatPackFile rt os path =
     (let key = manifestHMACKey os in
      if key = [] then Inl PackKeyRequired
      else (case osFiles os path of
        None \<Rightarrow> Inl (PackRead path)
      | Some data \<Rightarrow>
          (let sigPath = path @ ''.sig'' in
           case WriteFile sigPath (ManifestSignature rt data key @ [CHR 0x0A]) os of
             None \<Rightarrow> Inl (PackWrite sigPath)
           | Some os' \<Rightarrow> Inr (sigPath, os'))))"

definition verifyThreatPackSignature :: "runtime \<Rightarrow> host_os \<Rightarrow> string \<Rightarrow> string \<Rightarrow> pack_error option" where
  "verifyThreatPackSignature rt os path data =
     (let key = manifestHMACKey os; sigPath = path @ ''.sig'' in
      if key \<noteq> [] then
        (case osFiles os sigPath of
           None \<Rightarrow> Some (PackSignatureMissing sigPath)
         | Some sigBytes \<Rightarrow>
             if ManifestSignature rt data key \<noteq> TrimSpace sigBytes
             then Some (PackSignatureMismatch path) else None)
      else if manifestSignatureRequired rt os then Some PackSignatureRequired
      else None)"

text \<open>The defaults that \<open>LoadThreatPack\<close> fills in after decoding.\<close>

definition orDefault :: "'a list \<Rightarrow> 'a list \<Rightarrow> 'a list" where
  "orDefault xs d = (if xs = [] then d else xs)"

definition completePack :: "threat_pack \<Rightarrow> threat_pack" where
  "completePack pack =
     (let name = orDefault (tpName pack) ''custom'';
          version = orDefault (tpVersion pack) DefaultThreatPackVersion
      in pack\<lparr>tpName := name, tpVersion := version,
        tpApprovedTools := orDefault (tpApprovedTools pack) (tpApprovedTools DefaultThreatPack),
        tpApprovedEgressHosts := orDefault (tpApprovedEgressHosts pack) (tpApprovedEgressHosts DefaultThreatPack),
        tpRules := (if tpRules pack = [] then defaultRuleDescriptors name version
          else map (\<lambda>r. r\<lparr>rdPackName := name, rdPackVersion := version\<rparr>) (tpRules pack))\<rparr>)"

definition LoadThreatPack ::
  "runtime \<Rightarrow> (string \<Rightarrow> threat_pack option) \<Rightarrow> host_os \<Rightarrow> string \<Rightarrow> pack_error + threat_pack" where
  "LoadThreatPack rt unmarshal os path =
     (if TrimSpace path = [] then Inr DefaultThreatPack
      else (case osFiles os path of
        None \<Rightarrow> Inl (PackRead path)
      | Some data \<Rightarrow>
          (case verifyThreatPackSignature rt os path data of
             Some err \<Rightarrow> Inl err
           | None \<Rightarrow>
               (case unmarshal data of
                  None \<Rightarrow> Inl (PackDecode path)
                | Some pack \<Rightarrow> Inr (completePack pack)))))"

section \<open>Lemmas\<close>

lemma hex_digit_visible: "d < 16 \<Longrightarrow> 33 \<le> byte (hex_digit d) \<and> byte (hex_digit d) < 127"
  by (simp add: hex_digit_def)

lemma hex_encode_visible: "visible (hex_encode s)"
proof (induction s)
  case (Cons c cs)
  have "byte c < 256" by simp
  then have d: "byte c div 16 < 16" "byte c mod 16 < 16" by linarith simp
  from Cons show ?case
    unfolding visible_def hex_encode.simps
    using hex_digit_visible [OF d(1)] hex_digit_visible [OF d(2)] by simp
qed (simp add: visible_def)

lemma WriteFile_env: "WriteFile p d os = Some os' \<Longrightarrow> osEnv os' = osEnv os"
  by (auto simp: WriteFile_def split: if_splits)

lemma WriteFile_files:
  "WriteFile p d os = Some os' \<Longrightarrow> osFiles os' = (osFiles os)(p := Some d)"
  by (auto simp: WriteFile_def split: if_splits)

lemma orDefault_nonempty: "d \<noteq> [] \<Longrightarrow> orDefault xs d \<noteq> []"
  by (simp add: orDefault_def)

lemma orDefault_id: "xs \<noteq> [] \<Longrightarrow> orDefault xs d = xs"
  by (simp add: orDefault_def)

lemma DefaultThreatPack_nonempty:
  "tpApprovedTools DefaultThreatPack \<noteq> []" "tpApprovedEgressHosts DefaultThreatPack \<noteq> []"
  "DefaultThreatPackVersion \<noteq> []" "builtinRules \<noteq> []"
  unfolding DefaultThreatPack_def DefaultThreatPackVersion_def builtinRules_def threat_pack.simps
  by (rule list.distinct(2))+

lemma defaultRuleDescriptors_nonempty: "defaultRuleDescriptors n v \<noteq> []"
  by (simp add: defaultRuleDescriptors_def DefaultThreatPack_nonempty)

lemma defaultRuleDescriptors_pack:
  "r \<in> set (defaultRuleDescriptors n v) \<Longrightarrow> rdPackName r = n \<and> rdPackVersion r = v"
  by (auto simp: defaultRuleDescriptors_def)

lemma completePack_rules:
  "r \<in> set (tpRules (completePack p)) \<Longrightarrow>
     rdPackName r = tpName (completePack p) \<and> rdPackVersion r = tpVersion (completePack p)"
  by (auto simp: completePack_def Let_def defaultRuleDescriptors_pack split: if_splits)

lemma completePack_complete:
  "tpName (completePack p) \<noteq> []" "tpVersion (completePack p) \<noteq> []"
  "tpApprovedTools (completePack p) \<noteq> []" "tpApprovedEgressHosts (completePack p) \<noteq> []"
  "tpRules (completePack p) \<noteq> []"
  by (simp_all add: completePack_def Let_def orDefault_nonempty DefaultThreatPack_nonempty
      defaultRuleDescriptors_nonempty)

lemma completePack_idem: "completePack (completePack p) = completePack p"
proof -
  have "map (\<lambda>r. r\<lparr>rdPackName := tpName (completePack p), rdPackVersion := tpVersion (completePack p)\<rparr>)
      (tpRules (completePack p)) = tpRules (completePack p)"
    by (rule map_idI) (simp add: completePack_rules)
  then show ?thesis
    using completePack_complete [of p]
    by (simp add: completePack_def [of "completePack p"] Let_def orDefault_id)
qed

lemma verify_iff_key:
  assumes "manifestHMACKey os \<noteq> []"
  shows "verifyThreatPackSignature rt os path data = None \<longleftrightarrow>
    (\<exists>sig. osFiles os (path @ ''.sig'') = Some sig
       \<and> TrimSpace sig = ManifestSignature rt data (manifestHMACKey os))"
  using assms by (auto simp: verifyThreatPackSignature_def Let_def split: option.splits if_splits)

section \<open>Properties\<close>

text \<open>C8: a manifest is loaded under a signing key only with the HMAC of exactly its bytes beside it,
  and what is loaded is the decoded manifest with its defaults filled in.\<close>

theorem signed_pack_load_sound:
  assumes "manifestHMACKey os \<noteq> []" "TrimSpace path \<noteq> []"
    and "LoadThreatPack rt unmarshal os path = Inr pack"
  shows "\<exists>data sig raw. osFiles os path = Some data \<and> osFiles os (path @ ''.sig'') = Some sig
    \<and> TrimSpace sig = hex_encode (rt_hmac rt (manifestHMACKey os) data)
    \<and> unmarshal data = Some raw \<and> pack = completePack raw"
  using assms verify_iff_key [OF assms(1)]
  by (auto simp: LoadThreatPack_def ManifestSignature_def split: option.splits if_splits)

text \<open>A signing host with one manifest, and a decoder that accepts it.\<close>

definition signing_host :: host_os where
  "signing_host = \<lparr> osEnv = (\<lambda>v. if v = ''OATD_MANIFEST_HMAC_SECRET'' then ''k'' else []),
     osFiles = (\<lambda>f. if f = ''p.json'' then Some ''{}'' else if f = ''p.json.sig'' then Some ''6b7b7d'' else None),
     osWritable = (\<lambda>_. True) \<rparr>"

definition bare_pack :: threat_pack where
  "bare_pack = \<lparr> tpName = [], tpVersion = [], tpApprovedTools = [], tpApprovedEgressHosts = [], tpRules = [] \<rparr>"

theorem signed_pack_load_sound_witness:
  "\<exists>data sig raw. osFiles signing_host ''p.json'' = Some data \<and> osFiles signing_host (''p.json'' @ ''.sig'') = Some sig
    \<and> TrimSpace sig = hex_encode (rt_hmac ascii_runtime (manifestHMACKey signing_host) data)
    \<and> (\<lambda>_. Some bare_pack) data = Some raw \<and> completePack bare_pack = completePack raw"
proof (rule signed_pack_load_sound)
  show "manifestHMACKey signing_host \<noteq> []" "TrimSpace ''p.json'' \<noteq> []"
    by code_simp+
  have "verifyThreatPackSignature ascii_runtime signing_host ''p.json'' ''{}'' = None"
    by code_simp
  then show "LoadThreatPack ascii_runtime (\<lambda>_. Some bare_pack) signing_host ''p.json'' = Inr (completePack bare_pack)"
    using \<open>TrimSpace ''p.json'' \<noteq> []\<close> by (simp add: LoadThreatPack_def signing_host_def)
qed

text \<open>The signature that the signing command writes makes the manifest load under the same key.\<close>

theorem sign_then_load:
  assumes "SignThreatPackFile rt os path = Inr (sigPath, os')"
    and "TrimSpace path \<noteq> []" "osFiles os path = Some data" "unmarshal data = Some raw"
  shows "LoadThreatPack rt unmarshal os' path = Inr (completePack raw)"
proof -
  define key where "key = manifestHMACKey os"
  from assms have key: "key \<noteq> []" and
    w: "WriteFile (path @ ''.sig'') (ManifestSignature rt data key @ [CHR 0x0A]) os = Some os'"
    by (auto simp: SignThreatPackFile_def key_def Let_def split: if_splits option.splits)
  have key': "manifestHMACKey os' = key"
    using WriteFile_env [OF w] by (simp add: key_def manifestHMACKey_def)
  have sig: "osFiles os' (path @ ''.sig'') = Some (ManifestSignature rt data key @ [CHR 0x0A])"
    and same: "osFiles os' path = Some data"
    using WriteFile_files [OF w] assms(3) by auto
  have "TrimSpace (ManifestSignature rt data key @ [CHR 0x0A]) = ManifestSignature rt data key"
    unfolding ManifestSignature_def by (rule TrimSpace_visible_newline [OF hex_encode_visible])
  then have "verifyThreatPackSignature rt os' path data = None"
    using verify_iff_key [of os' rt path data] key key' sig by simp
  with assms same show ?thesis
    by (simp add: LoadThreatPack_def)
qed

theorem sign_then_load_witness:
  "\<exists>os'. SignThreatPackFile ascii_runtime signing_host ''p.json'' = Inr (''p.json.sig'', os')
     \<and> LoadThreatPack ascii_runtime (\<lambda>_. Some bare_pack) os' ''p.json'' = Inr (completePack bare_pack)"
proof -
  have key: "manifestHMACKey signing_host \<noteq> []" and path: "TrimSpace ''p.json'' \<noteq> []"
    by code_simp+
  have held: "osFiles signing_host ''p.json'' = Some ''{}''"
    by (simp add: signing_host_def)
  obtain os' where sign: "SignThreatPackFile ascii_runtime signing_host ''p.json'' = Inr (''p.json.sig'', os')"
    using key held by (simp add: SignThreatPackFile_def WriteFile_def signing_host_def Let_def)
  show ?thesis
    using sign sign_then_load [OF sign path held, of "\<lambda>_. Some bare_pack"] by blast
qed

end
