(* ===== verification/Auth.thy ===== *)
theory Auth
  imports Http ThreatPack
begin

text \<open>
  \<open>internal/auth/auth.go\<close>: users and roles, the route table, bearer tokens, signed session tokens with
  server-side revocation, and the back-off of failed logins. Every call reads the clock once: the
  several reads of \<open>time.Now()\<close> inside one call are one instant \<open>now\<close>. The JSON encoding of a session
  payload and the random bytes of a session ID are arguments. The locale \<open>sealed_payload\<close> is the
  contract of the token envelope; the sessions rest on it.
\<close>

section \<open>Roles and users\<close>

abbreviation RoleViewer :: string where "RoleViewer \<equiv> ''viewer''"
abbreviation RoleIngestor :: string where "RoleIngestor \<equiv> ''ingestor''"
abbreviation RoleAnalyst :: string where "RoleAnalyst \<equiv> ''analyst''"
abbreviation RoleOperator :: string where "RoleOperator \<equiv> ''operator''"
abbreviation RoleAdmin :: string where "RoleAdmin \<equiv> ''admin''"

definition knownRoles :: "string list" where
  "knownRoles = [RoleViewer, RoleIngestor, RoleAnalyst, RoleOperator, RoleAdmin]"

definition loginBackoffCap :: duration where "loginBackoffCap = 1 * minute"
definition loginAttemptTTL :: duration where "loginAttemptTTL = 24 * hour"

record user_config =
  ucName :: string
  ucTenant :: string
  ucTokenHash :: string
  ucRoles :: "string list"

record principal =
  prName :: string
  prTenant :: string
  prRoles :: "string list"

definition HasAny :: "principal \<Rightarrow> string list \<Rightarrow> bool" where
  "HasAny p roles \<longleftrightarrow> (\<exists>have \<in> set (prRoles p). \<exists>want \<in> set roles. have = RoleAdmin \<or> have = want)"

fun collectRoles :: "runtime \<Rightarrow> string list \<Rightarrow> string list \<Rightarrow> string list" where
  "collectRoles rt [] acc = acc"
| "collectRoles rt (r # rs) acc = (let role = ToLower rt (TrimSpace r) in
     if role = [] then collectRoles rt rs acc
     else if role \<notin> set knownRoles then collectRoles rt rs acc
     else if role \<in> set acc then collectRoles rt rs acc
     else collectRoles rt rs (acc @ [role]))"

definition normalizeRoles :: "runtime \<Rightarrow> string list \<Rightarrow> string list" where
  "normalizeRoles rt roles = collectRoles rt roles []"

fun normalizeUsers :: "runtime \<Rightarrow> user_config list \<Rightarrow> user_config list" where
  "normalizeUsers rt [] = []"
| "normalizeUsers rt (u # us) =
     (let name = TrimSpace (ucName u);
          tenant = (let t = TrimSpace (ucTenant u) in if t = [] then ''default'' else t);
          hash = ToLower rt (TrimSpace (ucTokenHash u)) in
      if name = [] \<or> hash = [] then normalizeUsers rt us
      else (let roles = normalizeRoles rt (ucRoles u) in
        \<lparr> ucName = name, ucTenant = tenant, ucTokenHash = hash,
          ucRoles = (if roles = [] then [RoleViewer] else roles) \<rparr> # normalizeUsers rt us))"

text \<open>The route table, in the order of the source.\<close>

definition RequiredRoles :: "string \<Rightarrow> string \<Rightarrow> string list" where
  "RequiredRoles method path =
    (if path = ''/api/audit'' then [RoleAnalyst, RoleOperator]
     else if path = ''/api/audit/chain'' then [RoleAnalyst, RoleOperator]
     else if path = ''/api/gateway/decide'' then [RoleIngestor, RoleAnalyst, RoleOperator]
     else if path = ''/api/gateway/execute'' then [RoleIngestor, RoleAnalyst, RoleOperator]
     else if path = ''/api/gateway/proxy'' then [RoleIngestor, RoleAnalyst, RoleOperator]
     else if path = ''/api/mcp/proxy'' then [RoleIngestor, RoleAnalyst, RoleOperator]
     else if path = ''/api/gateway/queue'' \<or> HasPrefix path ''/api/gateway/actions/'' then [RoleAnalyst, RoleOperator]
     else if HasPrefix path ''/api/deception'' then [RoleOperator]
     else if path = ''/api/tenants'' \<or> HasPrefix path ''/api/tenants/'' \<or> path = ''/api/policy/tenants'' \<or>
        path = ''/api/policy/reload'' then [RoleAdmin]
     else if method = MethodGet \<or> method = MethodHead \<or> method = MethodOptions
       then [RoleViewer, RoleAnalyst, RoleOperator, RoleIngestor]
     else if path = ''/api/events'' \<or> path = ''/api/demo'' then [RoleIngestor, RoleAnalyst, RoleOperator]
     else if HasPrefix path ''/api/responses/approve'' then [RoleOperator]
     else if HasPrefix path ''/api/responses'' then [RoleAnalyst, RoleOperator]
     else [RoleAdmin])"

section \<open>The authenticator\<close>

record session_info =
  siPrincipal :: principal
  siExpiresAt :: time

record session_payload =
  spPrincipal :: principal
  spExpiresAt :: time
  spIssuedAt :: time
  spID :: string

record login_attempt =
  laFailures :: int
  laBlockedUntil :: time
  laLastSeen :: time

record authenticator =
  atUsers :: "user_config list"
  atLegacyHash :: string
  atSessionTTL :: duration
  atSessionKey :: string
  atLogins :: "(string, login_attempt) gomap"
  atRevoked :: "(string, time) gomap"

text \<open>\<open>encoding/json\<close> on session payloads.\<close>

record session_codec =
  scMarshal :: "session_payload \<Rightarrow> string option"
  scUnmarshal :: "string \<Rightarrow> session_payload option"

definition HashToken :: "runtime \<Rightarrow> string \<Rightarrow> string" where
  "HashToken rt token = hex_encode (rt_sha256 rt token)"

definition deriveSessionKey :: "runtime \<Rightarrow> string \<Rightarrow> string" where
  "deriveSessionKey rt secret = (let v = TrimSpace secret in if v \<noteq> [] then rt_sha256 rt v else [])"

definition NewAuthenticator :: "runtime \<Rightarrow> host_os \<Rightarrow> user_config list \<Rightarrow> string \<Rightarrow> authenticator" where
  "NewAuthenticator rt os users legacyToken =
     \<lparr> atUsers = normalizeUsers rt users,
       atLegacyHash = (if legacyToken \<noteq> [] then HashToken rt legacyToken else []),
       atSessionTTL = 12 * hour, atSessionKey = deriveSessionKey rt (osEnv os ''OATD_SESSION_SECRET''),
       atLogins = [], atRevoked = [] \<rparr>"

definition Enabled :: "authenticator \<Rightarrow> bool" where
  "Enabled a \<longleftrightarrow> length (atUsers a) > 0 \<or> atLegacyHash a \<noteq> []"

definition HasUsers :: "authenticator \<Rightarrow> bool" where
  "HasUsers a \<longleftrightarrow> length (atUsers a) > 0"

definition SessionKey :: "authenticator \<Rightarrow> string option" where
  "SessionKey a = (if length (atSessionKey a) = 0 then None else Some (atSessionKey a))"

subsection \<open>Failed logins\<close>

definition loginExpired :: "time \<Rightarrow> login_attempt \<Rightarrow> bool" where
  "loginExpired now at = (let seen = (if time_is_zero (laLastSeen at) then laBlockedUntil at else laLastSeen at) in
     \<not> time_is_zero seen \<and> now - seen > loginAttemptTTL)"

definition pruneLoginAttemptsLocked :: "time \<Rightarrow> authenticator \<Rightarrow> authenticator" where
  "pruneLoginAttemptsLocked now a = a\<lparr>atLogins := filter (\<lambda>(k, at). \<not> loginExpired now at) (atLogins a)\<rparr>"

definition LoginRetryAfter :: "time \<Rightarrow> string \<Rightarrow> authenticator \<Rightarrow> duration \<times> authenticator" where
  "LoginRetryAfter now key a =
     (let key = TrimSpace key in
      if key = [] then (0, a)
      else (let a = pruneLoginAttemptsLocked now a in
        (case gm_get (atLogins a) key of
           None \<Rightarrow> 0
         | Some at \<Rightarrow> if time_is_zero (laBlockedUntil at) \<or> \<not> now < laBlockedUntil at then 0
                      else laBlockedUntil at - now, a)))"

definition zeroAttempt :: login_attempt where
  "zeroAttempt = \<lparr> laFailures = 0, laBlockedUntil = 0, laLastSeen = 0 \<rparr>"

definition failedAttempt :: "time \<Rightarrow> login_attempt \<Rightarrow> duration \<times> login_attempt" where
  "failedAttempt now at =
     (let f0 = (if laFailures at < 0 then 0 else laFailures at);
          f1 = f0 + 1;
          f = (if f1 > 8 then 8 else f1);
          d = push_bit (nat (f - 1)) second;
          delay = (if d > loginBackoffCap then loginBackoffCap else d) in
      (delay, at\<lparr>laFailures := f, laBlockedUntil := now + delay, laLastSeen := now\<rparr>))"

definition RecordLoginAttempt :: "time \<Rightarrow> string \<Rightarrow> bool \<Rightarrow> authenticator \<Rightarrow> duration \<times> authenticator" where
  "RecordLoginAttempt now key success a =
     (let key = TrimSpace key in
      if key = [] then (0, a)
      else (let a = pruneLoginAttemptsLocked now a in
        if success then (0, a\<lparr>atLogins := gm_del key (atLogins a)\<rparr>)
        else (let at = (case gm_get (atLogins a) key of None \<Rightarrow> zeroAttempt | Some at \<Rightarrow> at);
                  (delay, at) = failedAttempt now at in
              (delay, a\<lparr>atLogins := gm_put key at (atLogins a)\<rparr>))))"

subsection \<open>Tokens\<close>

definition constantTimeEqual :: "string \<Rightarrow> string \<Rightarrow> bool" where
  "constantTimeEqual got want = (if got = [] \<or> want = [] then False else got = want)"

fun userForToken :: "string \<Rightarrow> user_config list \<Rightarrow> principal option" where
  "userForToken h [] = None"
| "userForToken h (u # us) = (if constantTimeEqual h (ucTokenHash u)
     then Some \<lparr> prName = ucName u, prTenant = ucTenant u, prRoles = ucRoles u \<rparr> else userForToken h us)"

definition principalForToken :: "string \<Rightarrow> authenticator \<Rightarrow> principal option" where
  "principalForToken h a = (case userForToken h (atUsers a) of
     Some p \<Rightarrow> Some p
   | None \<Rightarrow> if atLegacyHash a \<noteq> [] \<and> constantTimeEqual h (atLegacyHash a)
             then Some \<lparr> prName = ''legacy-token'', prTenant = ''default'', prRoles = [RoleAdmin] \<rparr> else None)"

definition principalForCredentials :: "runtime \<Rightarrow> string \<Rightarrow> string \<Rightarrow> authenticator \<Rightarrow> principal option" where
  "principalForCredentials rt username token a =
     (let token = TrimSpace token in
      if token = [] then None
      else (let username = TrimSpace username in
        case principalForToken (HashToken rt token) a of
          Some p \<Rightarrow> if username \<noteq> [] \<and> \<not> EqualFold rt username (prName p) \<and> prName p \<noteq> ''legacy-token''
                    then None else Some p
        | None \<Rightarrow> None))"

definition readToken :: "runtime \<Rightarrow> http_request \<Rightarrow> string" where
  "readToken rt r = (let header = HeaderGet r ''Authorization'' in
     if HasPrefix (ToLower rt header) ''bearer '' then TrimSpace (drop (length ''Bearer '') header)
     else TrimSpace (HeaderGet r ''X-Oatd-Token''))"

definition sessionCookieName :: string where "sessionCookieName = ''oatd_session''"

definition readSessionID :: "http_request \<Rightarrow> string" where
  "readSessionID r = (case RequestCookie r sessionCookieName of None \<Rightarrow> [] | Some v \<Rightarrow> TrimSpace v)"

definition signSession :: "runtime \<Rightarrow> string \<Rightarrow> string \<Rightarrow> string" where
  "signSession rt key payload = b64_encode True False payload @ ''.'' @ b64_encode True False (rt_hmac rt key payload)"

definition verifySession :: "runtime \<Rightarrow> string \<Rightarrow> string \<Rightarrow> string option" where
  "verifySession rt key token =
     (case SplitByte (CHR ''.'') token of
        [p, s] \<Rightarrow> (case b64_decode True False p of
            None \<Rightarrow> None
          | Some payload \<Rightarrow> (case b64_decode True False s of
              None \<Rightarrow> None
            | Some expected \<Rightarrow> if rt_hmac rt key payload \<noteq> expected then None else Some payload))
      | _ \<Rightarrow> None)"

subsection \<open>Revocation\<close>

definition pruneRevokedLocked :: "time \<Rightarrow> authenticator \<Rightarrow> authenticator" where
  "pruneRevokedLocked now a = a\<lparr>atRevoked := filter (\<lambda>(k, until). now < until) (atRevoked a)\<rparr>"

definition revoke :: "time \<Rightarrow> string \<Rightarrow> time \<Rightarrow> authenticator \<Rightarrow> authenticator" where
  "revoke now i until a = (let i = TrimSpace i in
     if i = [] then a
     else (let a = pruneRevokedLocked now a in a\<lparr>atRevoked := gm_put i until (atRevoked a)\<rparr>))"

definition isRevoked :: "time \<Rightarrow> string \<Rightarrow> authenticator \<Rightarrow> bool \<times> authenticator" where
  "isRevoked now i a = (let i = TrimSpace i in
     if i = [] then (False, a)
     else (let a = pruneRevokedLocked now a in
       (case gm_get (atRevoked a) i of None \<Rightarrow> False | Some until \<Rightarrow> now < until, a)))"

subsection \<open>Sessions\<close>

definition newSessionID :: "string option \<Rightarrow> string option" where
  "newSessionID random = (case random of None \<Rightarrow> None | Some buf \<Rightarrow> Some (b64_encode True False buf))"

definition issueSession ::
  "runtime \<Rightarrow> session_codec \<Rightarrow> time \<Rightarrow> string option \<Rightarrow> session_info \<Rightarrow> authenticator \<Rightarrow> string option" where
  "issueSession rt codec now random info a =
     (if length (atSessionKey a) = 0 then None
      else (case newSessionID random of
        None \<Rightarrow> None
      | Some jti \<Rightarrow> (case scMarshal codec \<lparr> spPrincipal = siPrincipal info, spExpiresAt = siExpiresAt info,
            spIssuedAt = now, spID = jti \<rparr> of
          None \<Rightarrow> None
        | Some data \<Rightarrow> Some (signSession rt (atSessionKey a) data))))"

definition MintSession ::
  "runtime \<Rightarrow> session_codec \<Rightarrow> time \<Rightarrow> string option \<Rightarrow> principal \<Rightarrow> authenticator \<Rightarrow> (session_info \<times> string) option" where
  "MintSession rt codec now random p a =
     (let tenant = TrimSpace (prTenant p);
          tenant = (if tenant = [] then ''default'' else tenant);
          roles = normalizeRoles rt (prRoles p);
          roles = (if length roles = 0 then [RoleViewer] else roles);
          info = \<lparr> siPrincipal = p\<lparr>prTenant := tenant, prRoles := roles\<rparr>, siExpiresAt = now + atSessionTTL a \<rparr> in
      case issueSession rt codec now random info a of
        None \<Rightarrow> None
      | Some session \<Rightarrow> Some (info, session))"

definition parseSessionPayload ::
  "runtime \<Rightarrow> session_codec \<Rightarrow> time \<Rightarrow> string \<Rightarrow> authenticator \<Rightarrow> session_payload option \<times> authenticator" where
  "parseSessionPayload rt codec now token a =
     (if length (atSessionKey a) = 0 then (None, a)
      else (case verifySession rt (atSessionKey a) token of
        None \<Rightarrow> (None, a)
      | Some data \<Rightarrow> (case scUnmarshal codec data of
          None \<Rightarrow> (None, a)
        | Some p \<Rightarrow>
            if prName (spPrincipal p) = [] then (None, a)
            else (let (revoked, a) = isRevoked now (spID p) a in
              if revoked then (None, a)
              else if \<not> time_is_zero (spIssuedAt p) \<and> now - spIssuedAt p > atSessionTTL a then (None, a)
              else (Some p, a)))))"

definition parseSession ::
  "runtime \<Rightarrow> session_codec \<Rightarrow> time \<Rightarrow> string \<Rightarrow> authenticator \<Rightarrow> session_info option \<times> authenticator" where
  "parseSession rt codec now token a = (case parseSessionPayload rt codec now token a of
     (None, a) \<Rightarrow> (None, a)
   | (Some p, a) \<Rightarrow> (Some \<lparr> siPrincipal = spPrincipal p, siExpiresAt = spExpiresAt p \<rparr>, a))"

definition Session ::
  "runtime \<Rightarrow> session_codec \<Rightarrow> time \<Rightarrow> http_request \<Rightarrow> authenticator \<Rightarrow> session_info option \<times> authenticator" where
  "Session rt codec now r a = (let token = readSessionID r in
     if token = [] then (None, a)
     else (case parseSession rt codec now token a of
       (None, a) \<Rightarrow> (None, a)
     | (Some info, a) \<Rightarrow> if now > siExpiresAt info then (None, a) else (Some info, a)))"

definition Logout ::
  "runtime \<Rightarrow> session_codec \<Rightarrow> time \<Rightarrow> http_request \<Rightarrow> authenticator \<Rightarrow> bool \<times> authenticator" where
  "Logout rt codec now r a = (let token = readSessionID r in
     if token = [] then (False, a)
     else (case parseSessionPayload rt codec now token a of
       (None, a) \<Rightarrow> (False, a)
     | (Some p, a) \<Rightarrow>
         (let until = (if time_is_zero (spExpiresAt p) then now + atSessionTTL a else spExpiresAt p) in
          (True, revoke now (spID p) until a))))"

definition authenticateSession ::
  "runtime \<Rightarrow> session_codec \<Rightarrow> time \<Rightarrow> http_request \<Rightarrow> authenticator \<Rightarrow> principal option \<times> authenticator" where
  "authenticateSession rt codec now r a = (case Session rt codec now r a of
     (None, a) \<Rightarrow> (None, a) | (Some info, a) \<Rightarrow> (Some (siPrincipal info), a))"

definition Authenticate ::
  "runtime \<Rightarrow> session_codec \<Rightarrow> time \<Rightarrow> http_request \<Rightarrow> authenticator \<Rightarrow> principal option \<times> authenticator" where
  "Authenticate rt codec now r a = (case authenticateSession rt codec now r a of
     (Some p, a) \<Rightarrow> (Some p, a)
   | (None, a) \<Rightarrow> (let token = readToken rt r in
       if token = [] then (None, a) else (principalForToken (HashToken rt token) a, a)))"

definition Login ::
  "runtime \<Rightarrow> session_codec \<Rightarrow> time \<Rightarrow> string option \<Rightarrow> string \<Rightarrow> string \<Rightarrow> authenticator \<Rightarrow> (session_info \<times> string) option" where
  "Login rt codec now random username token a = (case principalForCredentials rt username token a of
     None \<Rightarrow> None | Some p \<Rightarrow> MintSession rt codec now random p a)"

definition SetSessionCookie :: "time \<Rightarrow> string \<Rightarrow> time \<Rightarrow> bool \<Rightarrow> http_cookie" where
  "SetSessionCookie now session expiresAt secure = \<lparr> ckName = sessionCookieName, ckValue = session, ckPath = ''/'',
     ckExpires = expiresAt, ckMaxAge = whole_seconds (expiresAt - now), ckHttpOnly = True, ckSecure = secure,
     ckSameSiteLax = True \<rparr>"

definition ClearSessionCookie :: http_cookie where
  "ClearSessionCookie = \<lparr> ckName = sessionCookieName, ckValue = [], ckPath = ''/'', ckExpires = unix_epoch,
     ckMaxAge = -1, ckHttpOnly = True, ckSecure = False, ckSameSiteLax = True \<rparr>"

section \<open>Roles\<close>

interpretation roles: unique_collector "\<lambda>r. ToLower rt (TrimSpace r)" "\<lambda>r. r \<in> set knownRoles \<and> r \<noteq> []" "collectRoles rt" for rt
  by unfold_locales (auto simp: Let_def add_new_def)

lemma normalizeRoles_set:
  "set (normalizeRoles rt rs) = {ToLower rt (TrimSpace r) | r. r \<in> set rs} \<inter> set knownRoles"
  unfolding normalizeRoles_def roles.collect_set by (auto simp: knownRoles_def)

lemma normalizeRoles_distinct: "distinct (normalizeRoles rt rs)"
  unfolding normalizeRoles_def by (rule roles.collect_distinct) simp

lemma normalizeUsers_roles:
  "u \<in> set (normalizeUsers rt us) \<Longrightarrow> set (ucRoles u) \<subseteq> set knownRoles \<and> ucRoles u \<noteq> [] \<and> distinct (ucRoles u) \<and>
     ucName u \<noteq> [] \<and> ucTokenHash u \<noteq> [] \<and> ucTenant u \<noteq> []"
proof (induction us)
  case (Cons v us)
  have "set (normalizeRoles rt (ucRoles v)) \<subseteq> set knownRoles" "RoleViewer \<in> set knownRoles"
    by (auto simp: normalizeRoles_set knownRoles_def)
  with Cons show ?case
    by (auto simp: Let_def normalizeRoles_distinct split: if_splits)
qed simp

lemma HasAny_iff: "HasAny p roles \<longleftrightarrow> (RoleAdmin \<in> set (prRoles p) \<and> roles \<noteq> []) \<or> set (prRoles p) \<inter> set roles \<noteq> {}"
  unfolding HasAny_def by (cases roles) auto

definition adminSurface :: "string \<Rightarrow> bool" where
  "adminSurface path \<longleftrightarrow> path \<in> {''/api/tenants'', ''/api/policy/tenants'', ''/api/policy/reload''} \<or> prefix ''/api/tenants/'' path"

definition restrictedSurface :: "string \<Rightarrow> bool" where
  "restrictedSurface path \<longleftrightarrow> path \<in> {''/api/audit'', ''/api/audit/chain'', ''/api/gateway/decide'', ''/api/gateway/execute'',
     ''/api/gateway/proxy'', ''/api/mcp/proxy'', ''/api/gateway/queue''} \<or> prefix ''/api/gateway/actions/'' path \<or>
     prefix ''/api/deception'' path \<or> adminSurface path"

definition readMethod :: "string \<Rightarrow> bool" where
  "readMethod m \<longleftrightarrow> m \<in> {MethodGet, MethodHead, MethodOptions}"

text \<open>The conditions of the route table in order; the table is the same chain for any thirteen conditions.\<close>

lemma route_chain:
  fixes c1 c2 c3 c4 c5 c6 c7 c8 c9 c10 c11 c12 c13 :: bool
  defines "R \<equiv> (if c1 then [RoleAnalyst, RoleOperator] else if c2 then [RoleAnalyst, RoleOperator]
     else if c3 then [RoleIngestor, RoleAnalyst, RoleOperator] else if c4 then [RoleIngestor, RoleAnalyst, RoleOperator]
     else if c5 then [RoleIngestor, RoleAnalyst, RoleOperator] else if c6 then [RoleIngestor, RoleAnalyst, RoleOperator]
     else if c7 then [RoleAnalyst, RoleOperator] else if c8 then [RoleOperator] else if c9 then [RoleAdmin]
     else if c10 then [RoleViewer, RoleAnalyst, RoleOperator, RoleIngestor]
     else if c11 then [RoleIngestor, RoleAnalyst, RoleOperator] else if c12 then [RoleOperator]
     else if c13 then [RoleAnalyst, RoleOperator] else [RoleAdmin])"
  shows "RoleViewer \<in> set R \<longleftrightarrow> c10 \<and> \<not> (c1 \<or> c2 \<or> c3 \<or> c4 \<or> c5 \<or> c6 \<or> c7 \<or> c8 \<or> c9)"
    and "R \<noteq> []"
  unfolding R_def by simp_all

lemma RequiredRoles_viewer:
  "RoleViewer \<in> set (RequiredRoles m path) \<longleftrightarrow> readMethod m \<and> \<not> restrictedSurface path"
  unfolding RequiredRoles_def route_chain(1) restrictedSurface_def readMethod_def adminSurface_def HasPrefix_iff
    insert_iff empty_iff
  by argo

lemma RequiredRoles_not_Nil: "RequiredRoles m path \<noteq> []"
  unfolding RequiredRoles_def by (rule route_chain(2))

text \<open>The surfaces of the table: what ingests and decides, and what reviews.\<close>

definition ingestSurface :: "string \<Rightarrow> bool" where
  "ingestSurface path \<longleftrightarrow> path \<in> {''/api/gateway/decide'', ''/api/gateway/execute'', ''/api/gateway/proxy'', ''/api/mcp/proxy'',
     ''/api/events'', ''/api/demo''}"

definition reviewSurface :: "string \<Rightarrow> bool" where
  "reviewSurface path \<longleftrightarrow> path \<in> {''/api/audit'', ''/api/audit/chain'', ''/api/gateway/queue''} \<or> prefix ''/api/gateway/actions/'' path"

lemmas surface_defs = ingestSurface_def reviewSurface_def adminSurface_def restrictedSurface_def

lemma path_cases:
  obtains (listed) "path \<in> {''/api/audit'', ''/api/audit/chain'', ''/api/gateway/decide'', ''/api/gateway/execute'', ''/api/gateway/proxy'',
      ''/api/mcp/proxy'', ''/api/gateway/queue'', ''/api/tenants'', ''/api/policy/tenants'', ''/api/policy/reload'', ''/api/events'', ''/api/demo''}"
  | (actions) r where "path = ''/api/gateway/actions/'' @ r"
  | (deception) r where "path = ''/api/deception'' @ r"
  | (tenants) r where "path = ''/api/tenants/'' @ r"
  | (responses) r where "path = ''/api/responses'' @ r"
  | (other) "\<not> restrictedSurface path" "\<not> ingestSurface path" "\<not> prefix ''/api/responses'' path"
proof -
  consider "prefix ''/api/gateway/actions/'' path" | "prefix ''/api/deception'' path" | "prefix ''/api/tenants/'' path" | "prefix ''/api/responses'' path"
    | "\<not> prefix ''/api/gateway/actions/'' path" "\<not> prefix ''/api/deception'' path" "\<not> prefix ''/api/tenants/'' path" "\<not> prefix ''/api/responses'' path"
    by blast
  then show thesis
  proof cases
    case 5
    show thesis
    proof (cases "path \<in> {''/api/audit'', ''/api/audit/chain'', ''/api/gateway/decide'', ''/api/gateway/execute'', ''/api/gateway/proxy'',
      ''/api/mcp/proxy'', ''/api/gateway/queue'', ''/api/tenants'', ''/api/policy/tenants'', ''/api/policy/reload'', ''/api/events'', ''/api/demo''}")
      case False
      show thesis
        by (rule other) (use False 5 in \<open>simp_all add: restrictedSurface_def ingestSurface_def adminSurface_def\<close>)
    qed (rule listed)
  qed (use actions deception tenants responses in \<open>auto simp: prefix_def\<close>)
qed

lemma RequiredRoles_cases:
  "set (RequiredRoles m path) = 
    (if adminSurface path then {RoleAdmin}
     else if prefix ''/api/deception'' path then {RoleOperator}
     else if reviewSurface path then {RoleAnalyst, RoleOperator}
     else if path \<in> {''/api/gateway/decide'', ''/api/gateway/execute'', ''/api/gateway/proxy'', ''/api/mcp/proxy''} then {RoleIngestor, RoleAnalyst, RoleOperator}
     else if readMethod m then {RoleViewer, RoleAnalyst, RoleOperator, RoleIngestor}
     else if path \<in> {''/api/events'', ''/api/demo''} then {RoleIngestor, RoleAnalyst, RoleOperator}
     else if prefix ''/api/responses/approve'' path then {RoleOperator}
     else if prefix ''/api/responses'' path then {RoleAnalyst, RoleOperator}
     else {RoleAdmin})"
proof (cases path rule: path_cases)
  case listed
  then show ?thesis
    by (elim insertE emptyE) (simp_all add: RequiredRoles_def HasPrefix_iff surface_defs readMethod_def)
next
  case other
  then have "\<not> prefix ''/api/responses/approve'' path"
    by (auto simp: prefix_def)
  with other show ?thesis
    unfolding surface_defs readMethod_def RequiredRoles_def HasPrefix_iff by simp
qed (simp_all add: RequiredRoles_def HasPrefix_iff surface_defs readMethod_def)

text \<open>C23: The route table, role by role, for every method and path. An administrator passes every route. An
  operator passes everything but the tenant and policy administration and the writes on routes outside the
  table. An analyst passes the same without the deception tokens and the approval of responses, an
  ingestor only the reads outside the audit log and the approval queue, and the ingestion and gateway
  routes; a viewer only the reads outside the restricted surfaces. No other string in a role list grants
  anything.\<close>

theorem route_table:
  "HasAny p (RequiredRoles m path) \<longleftrightarrow>
      RoleAdmin \<in> set (prRoles p)
    \<or> RoleOperator \<in> set (prRoles p) \<and> \<not> adminSurface path \<and>
        (readMethod m \<or> ingestSurface path \<or> reviewSurface path \<or> prefix ''/api/responses'' path \<or> prefix ''/api/deception'' path)
    \<or> RoleAnalyst \<in> set (prRoles p) \<and> \<not> adminSurface path \<and> \<not> prefix ''/api/deception'' path \<and>
        (readMethod m \<or> ingestSurface path \<or> reviewSurface path \<or> prefix ''/api/responses'' path \<and> \<not> prefix ''/api/responses/approve'' path)
    \<or> RoleIngestor \<in> set (prRoles p) \<and> \<not> adminSurface path \<and> \<not> prefix ''/api/deception'' path \<and> \<not> reviewSurface path \<and>
        (readMethod m \<or> ingestSurface path)
    \<or> RoleViewer \<in> set (prRoles p) \<and> \<not> restrictedSurface path \<and> readMethod m"
proof (cases path rule: path_cases)
  case listed
  then show ?thesis
    unfolding HasAny_iff RequiredRoles_cases
    by (elim insertE emptyE) (auto simp: surface_defs RequiredRoles_not_Nil)
next
  case (responses r)
  then show ?thesis
    unfolding HasAny_iff RequiredRoles_cases by (auto simp: surface_defs RequiredRoles_not_Nil)
next
  case other
  then have "\<not> prefix ''/api/responses/approve'' path"
    by (auto simp: prefix_def)
  with other show ?thesis
    unfolding HasAny_iff RequiredRoles_cases by (auto simp: surface_defs RequiredRoles_not_Nil)
qed (unfold HasAny_iff RequiredRoles_cases, auto simp: surface_defs RequiredRoles_not_Nil)

section \<open>Back-off of failed logins\<close>

text \<open>The delay after the \<open>n\<close>-th failure in a row.\<close>

definition backoff :: "nat \<Rightarrow> duration" where
  "backoff n = min (2 ^ (min n 8 - 1) * second) loginBackoffCap"

definition attempt_ok :: "login_attempt \<Rightarrow> bool" where
  "attempt_ok at \<longleftrightarrow> 1 \<le> laFailures at \<and> laFailures at \<le> 8 \<and> 0 < laLastSeen at \<and>
     laBlockedUntil at = laLastSeen at + backoff (nat (laFailures at))"

definition logins_ok :: "authenticator \<Rightarrow> bool" where
  "logins_ok a \<longleftrightarrow> gm_ok (atLogins a) \<and> (\<forall>(k, at) \<in> set (atLogins a). attempt_ok at)"

lemma backoff_bounds: "second \<le> backoff n \<and> backoff n \<le> 60 * second"
proof -
  have "(1::int) \<le> 2 ^ (min n 8 - 1)"
    by simp
  then show ?thesis
    by (simp add: backoff_def loginBackoffCap_def duration_defs)
qed

lemma backoff_table: "n \<noteq> 0 \<Longrightarrow> backoff n = (if n \<le> 6 then 2 ^ (n - 1) * second else minute)"
proof (cases "n \<le> 6")
  case True
  then have "n \<in> {0, 1, 2, 3, 4, 5, 6}"
    by auto
  then show "n \<noteq> 0 \<Longrightarrow> ?thesis"
    by (elim insertE) (simp_all add: backoff_def loginBackoffCap_def duration_defs)
next
  case False
  then have "(2::int) ^ 6 \<le> 2 ^ (min n 8 - 1)"
    by (intro power_increasing) simp_all
  then show ?thesis
    using False by (simp add: backoff_def loginBackoffCap_def duration_defs)
qed

lemma failedAttempt_backoff:
  assumes "0 \<le> laFailures at"
  shows "failedAttempt now at = (backoff (Suc (nat (laFailures at))),
    \<lparr> laFailures = min 8 (laFailures at + 1), laBlockedUntil = now + backoff (Suc (nat (laFailures at))), laLastSeen = now \<rparr>)"
proof -
  obtain n where n: "laFailures at = int n"
    using assms zero_le_imp_eq_int by blast
  have f: "(if int n + 1 > 8 then 8 else int n + 1) = min 8 (int n + 1)"
    by (simp add: min_def)
  have e: "nat (min 8 (int n + 1) - 1) = min n 7"
    by (auto simp: min_def)
  have b: "(if push_bit (min n 7) second > loginBackoffCap then loginBackoffCap else push_bit (min n 7) second) = backoff (Suc n)"
    by (simp add: backoff_def push_bit_eq_mult mult.commute min_def)
  show ?thesis
    by (cases at) (use n in \<open>simp only: failedAttempt_def Let_def of_nat_less_0_iff if_False f e b nat_int
      login_attempt.simps prod.inject simp_thms\<close>)
qed

lemma backoff_capped: "backoff (Suc n) = backoff (Suc (min n 8))"
  by (simp add: backoff_def min_def)

lemma backoff_min8: "backoff (min n 8) = backoff n"
  by (simp add: backoff_def)

lemma failedAttempt_ok:
  assumes "0 \<le> laFailures at" "0 < now"
  shows "attempt_ok (snd (failedAttempt now at))"
proof -
  have "nat (min 8 (laFailures at + 1)) = min (Suc (nat (laFailures at))) 8"
    using assms(1) by (simp add: min_def) arith
  then have "backoff (nat (min 8 (laFailures at + 1))) = backoff (Suc (nat (laFailures at)))"
    by (simp only: backoff_min8)
  then show ?thesis
    unfolding failedAttempt_backoff [OF assms(1)] using assms by (simp add: attempt_ok_def)
qed

lemma logins_ok_attempt: "logins_ok a \<Longrightarrow> gm_get (atLogins a) k = Some at \<Longrightarrow> attempt_ok at"
  unfolding logins_ok_def by (auto dest: map_of_SomeD)

lemma prune_logins_ok [inv_intros]: "logins_ok a \<Longrightarrow> logins_ok (pruneLoginAttemptsLocked now a)"
  unfolding logins_ok_def pruneLoginAttemptsLocked_def by auto

lemma attempt_ok_zero: "attempt_ok at \<Longrightarrow> 0 \<le> laFailures at \<and> laLastSeen at \<noteq> 0 \<and> laBlockedUntil at \<noteq> 0"
  using backoff_bounds [of "nat (laFailures at)"] by (auto simp: attempt_ok_def duration_defs)

text \<open>How long a key is still blocked at an instant, and what each call makes of it.\<close>

definition blocked :: "string \<Rightarrow> time \<Rightarrow> authenticator \<Rightarrow> duration" where
  "blocked key t a = (case gm_get (atLogins a) key of None \<Rightarrow> 0 | Some at \<Rightarrow> max 0 (laBlockedUntil at - t))"

lemma blocked_prune:
  assumes "logins_ok a" "now \<le> t"
  shows "blocked key t (pruneLoginAttemptsLocked now a) = blocked key t a"
proof (cases "gm_get (atLogins a) key")
  case None
  then show ?thesis
    using assms by (simp add: blocked_def pruneLoginAttemptsLocked_def gm_get_filter logins_ok_def)
next
  case (Some at)
  then have "attempt_ok at"
    using assms(1) by (rule logins_ok_attempt [rotated])
  then have "laBlockedUntil at - t \<le> 0" if "loginExpired now at"
    using that assms(2) backoff_bounds [of "nat (laFailures at)"]
    by (auto simp: loginExpired_def attempt_ok_def loginAttemptTTL_def duration_defs Let_def split: if_splits)
  then show ?thesis
    using assms Some by (simp add: blocked_def pruneLoginAttemptsLocked_def gm_get_filter logins_ok_def)
qed

lemma LoginRetryAfter_blocked:
  assumes "logins_ok a" "TrimSpace key \<noteq> []"
  shows "fst (LoginRetryAfter now key a) = blocked (TrimSpace key) now a"
    and "logins_ok (snd (LoginRetryAfter now key a))"
    and "now \<le> t \<Longrightarrow> blocked k t (snd (LoginRetryAfter now key a)) = blocked k t a"
proof -
  have ok: "logins_ok (pruneLoginAttemptsLocked now a)"
    using assms(1) by (rule prune_logins_ok)
  have "fst (LoginRetryAfter now key a) = blocked (TrimSpace key) now (pruneLoginAttemptsLocked now a)"
    using assms(2) logins_ok_attempt [OF ok] attempt_ok_zero
    by (fastforce simp: LoginRetryAfter_def Let_def blocked_def split: option.splits)
  then show "fst (LoginRetryAfter now key a) = blocked (TrimSpace key) now a"
    using blocked_prune [OF assms(1)] by simp
  show "logins_ok (snd (LoginRetryAfter now key a))"
    using assms ok by (simp add: LoginRetryAfter_def Let_def)
  show "blocked k t (snd (LoginRetryAfter now key a)) = blocked k t a" if "now \<le> t"
    using assms(2) blocked_prune [OF assms(1) that] by (simp add: LoginRetryAfter_def Let_def)
qed

lemma RecordLoginAttempt_ok:
  assumes "logins_ok a" "0 < now"
  shows "logins_ok (snd (RecordLoginAttempt now key success a))"
proof -
  let ?p = "pruneLoginAttemptsLocked now a"
  let ?at = "case gm_get (atLogins ?p) (TrimSpace key) of None \<Rightarrow> zeroAttempt | Some at \<Rightarrow> at"
  have p: "logins_ok ?p"
    using assms(1) by (rule prune_logins_ok)
  have "0 \<le> laFailures ?at"
    using logins_ok_attempt [OF p] attempt_ok_zero by (auto simp: zeroAttempt_def split: option.splits)
  then have "attempt_ok (snd (failedAttempt now ?at))"
    using assms(2) by (rule failedAttempt_ok)
  then show ?thesis
    using p set_gm_put set_gm_del assms(1)
    by (fastforce simp: RecordLoginAttempt_def Let_def logins_ok_def split_beta)
qed

lemma RecordLoginAttempt_other:
  assumes "logins_ok a" "now \<le> t" "k \<noteq> TrimSpace key"
  shows "blocked k t (snd (RecordLoginAttempt now key success a)) = blocked k t a"
proof -
  let ?r = "snd (RecordLoginAttempt now key success a)"
  have "blocked k t ?r = blocked k t a \<or> blocked k t ?r = blocked k t (pruneLoginAttemptsLocked now a)"
    using assms(3) by (simp add: RecordLoginAttempt_def Let_def split_beta blocked_def)
  then show ?thesis
    using blocked_prune [OF assms(1,2)] by simp
qed

fun failLogins :: "string \<Rightarrow> time list \<Rightarrow> authenticator \<Rightarrow> authenticator" where
  "failLogins key [] a = a"
| "failLogins key (t # ts) a = failLogins key ts (snd (RecordLoginAttempt t key False a))"

lemma failLogins_snoc: "failLogins key (ts @ [t]) a = snd (RecordLoginAttempt t key False (failLogins key ts a))"
  by (induction ts arbitrary: a) simp_all

lemma failLogins_ok: "logins_ok a \<Longrightarrow> \<forall>t \<in> set ts. 0 < t \<Longrightarrow> logins_ok (failLogins key ts a)"
  by (induction ts arbitrary: a) (simp_all add: RecordLoginAttempt_ok)

lemma failed_get:
  assumes "logins_ok a" "TrimSpace key \<noteq> []"
    and "gm_get (atLogins (pruneLoginAttemptsLocked now a)) (TrimSpace key) = at0"
    and "n = (case at0 of None \<Rightarrow> 0 | Some at \<Rightarrow> nat (laFailures at))"
  shows "gm_get (atLogins (snd (RecordLoginAttempt now key False a))) (TrimSpace key) =
      Some \<lparr> laFailures = min 8 (int n + 1), laBlockedUntil = now + backoff (Suc n), laLastSeen = now \<rparr>"
    and "fst (RecordLoginAttempt now key False a) = backoff (Suc n)"
proof -
  let ?at = "case at0 of None \<Rightarrow> zeroAttempt | Some at \<Rightarrow> at"
  have "0 \<le> laFailures ?at"
    using logins_ok_attempt [OF prune_logins_ok [OF assms(1)]] attempt_ok_zero assms(3)
    by (auto simp: zeroAttempt_def split: option.splits)
  moreover have "n = nat (laFailures ?at)"
    using assms(4) by (simp add: zeroAttempt_def split: option.splits)
  ultimately have "failedAttempt now ?at =
      (backoff (Suc n), \<lparr> laFailures = min 8 (int n + 1), laBlockedUntil = now + backoff (Suc n), laLastSeen = now \<rparr>)"
    using failedAttempt_backoff [of ?at now] by simp
  then show "gm_get (atLogins (snd (RecordLoginAttempt now key False a))) (TrimSpace key) =
      Some \<lparr> laFailures = min 8 (int n + 1), laBlockedUntil = now + backoff (Suc n), laLastSeen = now \<rparr>"
    and "fst (RecordLoginAttempt now key False a) = backoff (Suc n)"
    using assms(2,3) by (simp_all add: RecordLoginAttempt_def Let_def)
qed

definition login_times :: "time list \<Rightarrow> bool" where
  "login_times ts \<longleftrightarrow> (\<forall>t \<in> set ts. 0 < t) \<and> successively (\<lambda>s t. s \<le> t \<and> t - s \<le> loginAttemptTTL) ts"

lemma failLogins_get:
  assumes "logins_ok a" "TrimSpace key \<noteq> []" "gm_get (atLogins a) (TrimSpace key) = None" "login_times ts" "ts \<noteq> []"
  shows "gm_get (atLogins (failLogins key ts a)) (TrimSpace key) =
      Some \<lparr> laFailures = min 8 (int (length ts)), laBlockedUntil = last ts + backoff (length ts), laLastSeen = last ts \<rparr>"
  using assms(4,5)
proof (induction ts rule: rev_induct)
  case (snoc t ts)
  let ?b = "failLogins key ts a"
  have ok: "logins_ok ?b"
    using snoc.prems assms(1) by (auto simp: login_times_def intro: failLogins_ok)
  have times: "login_times ts"
    using snoc.prems by (auto simp: login_times_def successively_append_iff)
  show ?case
  proof (cases "ts = []")
    case True
    then show ?thesis
      using failed_get(1) [OF assms(1,2), of t None 0] assms(1,3)
      by (simp add: pruneLoginAttemptsLocked_def gm_get_filter logins_ok_def)
  next
    case False
    let ?at = "\<lparr> laFailures = min 8 (int (length ts)), laBlockedUntil = last ts + backoff (length ts), laLastSeen = last ts \<rparr>"
    have get: "gm_get (atLogins ?b) (TrimSpace key) = Some ?at"
      using snoc.IH [OF times False] .
    have "t - last ts \<le> loginAttemptTTL"
      using snoc.prems False by (auto simp: login_times_def successively_append_iff)
    moreover have "0 < last ts"
      using snoc.prems False last_in_set [OF False] by (simp add: login_times_def)
    ultimately have "\<not> loginExpired t ?at"
      by (simp add: loginExpired_def)
    then have pr: "gm_get (atLogins (pruneLoginAttemptsLocked t ?b)) (TrimSpace key) = Some ?at"
      using ok get by (simp add: pruneLoginAttemptsLocked_def gm_get_filter logins_ok_def)
    have n: "nat (min 8 (int (length ts))) = min (length ts) 8"
      by (simp add: min_def)
    have "int (min (length ts) 8) + 1 = min 9 (int (Suc (length ts)))"
      by (simp add: min_def)
    moreover have "backoff (Suc (min (length ts) 8)) = backoff (Suc (length ts))"
      using backoff_capped [of "length ts"] by simp
    ultimately show ?thesis
      unfolding failLogins_snoc using failed_get(1) [OF ok assms(2) pr refl] n by (simp add: min_def)
  qed
qed simp

text \<open>C21: The back-off of failed logins. Take an authenticator whose login table is sound (the invariant
  of every call) and a key with no failure on record. After failures at the times \<open>ts\<close>, each within a day
  of the one before, a retry at \<open>t\<close> has to wait until \<open>backoff (length ts)\<close> after the last failure, where
  the back-off doubles from one second and is a minute from the seventh failure on. A success lifts the
  wait at once. Failures and successes of one key do not change the wait of any other key, and the table
  stays sound.\<close>

theorem login_backoff:
  assumes "logins_ok a" "TrimSpace key \<noteq> []" "gm_get (atLogins a) (TrimSpace key) = None"
    and "login_times ts" "ts \<noteq> []" "last ts \<le> t"
  shows "fst (LoginRetryAfter t key (failLogins key ts a)) = max 0 (last ts + backoff (length ts) - t) \<and>
    backoff (length ts) = (if length ts \<le> 6 then 2 ^ (length ts - 1) * second else minute) \<and>
    fst (LoginRetryAfter t key (snd (RecordLoginAttempt t key True (failLogins key ts a)))) = 0 \<and>
    (\<forall>k s. TrimSpace k \<noteq> TrimSpace key \<longrightarrow>
       fst (LoginRetryAfter t k (snd (RecordLoginAttempt t key s (failLogins key ts a)))) =
       fst (LoginRetryAfter t k (failLogins key ts a))) \<and>
    logins_ok (failLogins key ts a)"
proof (intro conjI allI impI)
  have times: "\<forall>t \<in> set ts. 0 < t"
    using assms(4) by (simp add: login_times_def)
  show ok: "logins_ok (failLogins key ts a)"
    using assms(1) times by (rule failLogins_ok)
  have "0 < last ts"
    using times assms(5) by simp
  then have pos: "0 < t"
    using assms(6) by simp
  show "fst (LoginRetryAfter t key (failLogins key ts a)) = max 0 (last ts + backoff (length ts) - t)"
    unfolding LoginRetryAfter_blocked(1) [OF ok assms(2)] blocked_def failLogins_get [OF assms(1-5)] by simp
  show "backoff (length ts) = (if length ts \<le> 6 then 2 ^ (length ts - 1) * second else minute)"
    by (rule backoff_table) (use assms(5) in simp)
  have ok': "logins_ok (snd (RecordLoginAttempt t key s (failLogins key ts a)))" for s
    using ok pos by (rule RecordLoginAttempt_ok)
  show "fst (LoginRetryAfter t key (snd (RecordLoginAttempt t key True (failLogins key ts a)))) = 0"
    unfolding LoginRetryAfter_blocked(1) [OF ok' assms(2)]
    using assms(2) by (simp add: blocked_def RecordLoginAttempt_def Let_def)
  show "fst (LoginRetryAfter t k (snd (RecordLoginAttempt t key s (failLogins key ts a)))) =
       fst (LoginRetryAfter t k (failLogins key ts a))" if "TrimSpace k \<noteq> TrimSpace key" for k s
  proof (cases "TrimSpace k = []")
    case True
    then show ?thesis
      by (simp add: LoginRetryAfter_def)
  next
    case False
    then show ?thesis
      unfolding LoginRetryAfter_blocked(1) [OF ok' False] LoginRetryAfter_blocked(1) [OF ok False]
      using RecordLoginAttempt_other [OF ok order.refl that] by simp
  qed
qed

definition open_authenticator :: authenticator where
  "open_authenticator = \<lparr> atUsers = [], atLegacyHash = [], atSessionTTL = 12 * hour, atSessionKey = ''k'', atLogins = [], atRevoked = [] \<rparr>"

theorem login_backoff_witness:
  "fst (LoginRetryAfter (3 * second) ''10.0.0.1'' (failLogins ''10.0.0.1'' [1 * second, 2 * second] open_authenticator)) = second"
proof -
  have "TrimSpace ''10.0.0.1'' \<noteq> []"
    by code_simp
  moreover have "login_times [1 * second, 2 * second]" "last [1 * second, 2 * second] \<le> 3 * second"
    by (simp_all add: login_times_def loginAttemptTTL_def duration_defs)
  moreover have "backoff 2 = 2 * second"
    by code_simp
  ultimately show ?thesis
    using login_backoff [of open_authenticator "''10.0.0.1''" "[1 * second, 2 * second]" "3 * second"]
    by (simp add: open_authenticator_def logins_ok_def duration_defs numeral_2_eq_2)
qed

end
