(* ===== verification/Sessions.thy ===== *)
theory Sessions
  imports Auth
begin

text \<open>
  The signed sessions of \<open>internal/auth/auth.go\<close>: what a session token proves, how long a minted
  session is accepted, and that a logout holds along every later run of the authenticator. The contract
  of the token envelope is the locale \<open>sealed_payload\<close>; a run is a sequence of calls at times that do not
  decrease.
\<close>

section \<open>Sessions\<close>

text \<open>
  The envelope of a signed payload: what it opens to is what was sealed. A client that encodes values
  into payloads gets its values back, and different payloads have different envelopes.
\<close>

locale sealed_payload =
  fixes seal :: "string \<Rightarrow> string" and unseal :: "string \<Rightarrow> string option"
  assumes unseal_seal: "unseal (seal d) = Some d"
begin

lemma seal_inj: "seal d = seal d' \<longleftrightarrow> d = d'"
  by (metis option.inject unseal_seal)

lemma sealed_value: "dec d = Some v \<Longrightarrow> Option.bind (unseal (seal d)) dec = Some v"
  by (simp add: unseal_seal)

end

lemma SplitByte_token: "SplitByte (CHR ''.'') (b64_encode True False p @ ''.'' @ b64_encode True False s) =
    [b64_encode True False p, b64_encode True False s]"
  using SplitByte_append [OF b64_encode_no_dot] SplitByte_absent [OF b64_encode_no_dot] by simp

interpretation session_token: sealed_payload "signSession rt key" "verifySession rt key" for rt key
  by unfold_locales (simp only: signSession_def verifySession_def SplitByte_token list.case option.case b64_decode_encode
      simp_thms if_False)

lemma verifySession_iff:
  "verifySession rt key token = Some data \<longleftrightarrow>
     (\<exists>p s. SplitByte (CHR ''.'') token = [p, s] \<and> b64_decode True False p = Some data \<and>
        b64_decode True False s = Some (rt_hmac rt key data))"
  unfolding verifySession_def by (auto split: list.splits option.splits if_splits)

text \<open>The table of revoked sessions.\<close>

lemma pruneRevoked_get:
  "gm_ok (atRevoked a) \<Longrightarrow> gm_get (atRevoked (pruneRevokedLocked now a)) i =
     (case gm_get (atRevoked a) i of None \<Rightarrow> None | Some u \<Rightarrow> if now < u then Some u else None)"
  by (simp add: pruneRevokedLocked_def gm_get_filter)

lemma pruneRevoked_ok [inv_intros]: "gm_ok (atRevoked a) \<Longrightarrow> gm_ok (atRevoked (pruneRevokedLocked now a))"
  by (simp add: pruneRevokedLocked_def)

lemma isRevoked_state:
  "isRevoked now i a = (TrimSpace i \<noteq> [] \<and>
     (case gm_get (atRevoked (pruneRevokedLocked now a)) (TrimSpace i) of None \<Rightarrow> False | Some u \<Rightarrow> now < u),
     if TrimSpace i = [] then a else pruneRevokedLocked now a)"
  by (simp add: isRevoked_def Let_def)

text \<open>What a call of \<open>parseSessionPayload\<close> accepts, and that it changes the revocation table at most by
  pruning.\<close>

definition acceptable :: "runtime \<Rightarrow> session_codec \<Rightarrow> time \<Rightarrow> string \<Rightarrow> authenticator \<Rightarrow> session_payload \<Rightarrow> bool" where
  "acceptable rt codec now token a p \<longleftrightarrow> atSessionKey a \<noteq> [] \<and>
     Option.bind (verifySession rt (atSessionKey a) token) (scUnmarshal codec) = Some p \<and>
     prName (spPrincipal p) \<noteq> [] \<and> \<not> fst (isRevoked now (spID p) a) \<and>
     (spIssuedAt p = 0 \<or> now - spIssuedAt p \<le> atSessionTTL a)"

lemma isRevoked_TTL: "atSessionTTL (snd (isRevoked now i a)) = atSessionTTL a"
  by (simp add: isRevoked_state pruneRevokedLocked_def)

lemma parseSessionPayload_iff:
  "fst (parseSessionPayload rt codec now token a) = Some p \<longleftrightarrow> acceptable rt codec now token a p"
  unfolding parseSessionPayload_def acceptable_def
  by (auto simp: isRevoked_TTL split_beta Let_def split: option.split)

lemma parseSessionPayload_state:
  "snd (parseSessionPayload rt codec now token a) \<in> {a, pruneRevokedLocked now a}"
  unfolding parseSessionPayload_def
  by (auto simp: isRevoked_state split_beta Let_def split: option.split)

lemma Session_accepts:
  "fst (Session rt codec now r a) = Some info \<longleftrightarrow>
     (\<exists>p. readSessionID r \<noteq> [] \<and> acceptable rt codec now (readSessionID r) a p \<and> now \<le> spExpiresAt p \<and>
        info = \<lparr> siPrincipal = spPrincipal p, siExpiresAt = spExpiresAt p \<rparr>)"
  unfolding Session_def parseSession_def parseSessionPayload_iff [symmetric] Let_def
  by (auto split: prod.split option.split)

lemma Session_state: "snd (Session rt codec now r a) \<in> {a, pruneRevokedLocked now a}"
  using parseSessionPayload_state [of rt codec now "readSessionID r" a]
  unfolding Session_def parseSession_def Let_def by (auto split: prod.split option.split)

lemma b64_encode_not_Nil: "s \<noteq> [] \<Longrightarrow> b64_encode u p s \<noteq> []"
  by (induction u p s rule: b64_encode.induct) auto

lemma b64_encode_visible: "visible (b64_encode u p s)"
  unfolding visible_def
proof
  fix c assume "c \<in> set (b64_encode u p s)"
  then have "b64_alphabet c"
    by (rule b64_encode_alphabet)
  then show "33 \<le> byte c \<and> byte c < 127"
    by (auto simp: b64_alphabet_def ascii_letter_def ascii_digit_def)
qed

lemma visible_append: "visible (s @ t) \<longleftrightarrow> visible s \<and> visible t"
  by (auto simp: visible_def)

lemma signSession_visible: "visible (signSession rt key d)"
proof -
  have "visible ''.''"
    by (simp add: visible_def)
  then show ?thesis
    unfolding signSession_def visible_append by (simp only: b64_encode_visible simp_thms)
qed

lemma signSession_trim: "TrimSpace (signSession rt key d) = signSession rt key d"
  by (rule TrimSpace_visible [OF signSession_visible])

subsection \<open>Runs of an authenticator\<close>

inductive auth_step :: "runtime \<Rightarrow> session_codec \<Rightarrow> time \<Rightarrow> authenticator \<Rightarrow> authenticator \<Rightarrow> bool" for rt codec where
  step_session: "auth_step rt codec t a (snd (Session rt codec t r a))"
| step_authenticate: "auth_step rt codec t a (snd (Authenticate rt codec t r a))"
| step_logout: "auth_step rt codec t a (snd (Logout rt codec t r a))"
| step_retry: "auth_step rt codec t a (snd (LoginRetryAfter t key a))"
| step_record: "auth_step rt codec t a (snd (RecordLoginAttempt t key success a))"

inductive auth_run :: "runtime \<Rightarrow> session_codec \<Rightarrow> time \<Rightarrow> authenticator \<Rightarrow> time \<Rightarrow> authenticator \<Rightarrow> bool"
  for rt codec now a where
  run_start: "auth_run rt codec now a now a"
| run_step: "auth_run rt codec now a t b \<Longrightarrow> t \<le> t' \<Longrightarrow> auth_step rt codec t' b c \<Longrightarrow> auth_run rt codec now a t' c"

inductive_cases auth_stepE: "auth_step rt codec t a b"

lemma auth_run_mono: "auth_run rt codec now a t b \<Longrightarrow> now \<le> t"
  by (induction rule: auth_run.induct) auto

text \<open>The facts that every call keeps: the key, the lifetime, and a revocation that has not run out.\<close>

definition auth_frame :: "authenticator \<Rightarrow> authenticator \<Rightarrow> bool" where
  "auth_frame a b \<longleftrightarrow> atSessionKey b = atSessionKey a \<and> atSessionTTL b = atSessionTTL a \<and>
     atUsers b = atUsers a \<and> atLegacyHash b = atLegacyHash a"

definition revocation_kept :: "time \<Rightarrow> authenticator \<Rightarrow> authenticator \<Rightarrow> bool" where
  "revocation_kept t a b \<longleftrightarrow> gm_ok (atRevoked b) \<and>
     (\<forall>i u. gm_get (atRevoked a) i = Some u \<longrightarrow> t < u \<longrightarrow> gm_get (atRevoked b) i = Some u)"

lemma frame_refl: "auth_frame a a" "gm_ok (atRevoked a) \<Longrightarrow> revocation_kept t a a"
  by (simp_all add: auth_frame_def revocation_kept_def)

lemma frame_prune: "auth_frame a (pruneRevokedLocked t a)"
    "gm_ok (atRevoked a) \<Longrightarrow> revocation_kept t a (pruneRevokedLocked t a)"
  by (auto simp: auth_frame_def revocation_kept_def pruneRevoked_get pruneRevoked_ok)
    (simp_all add: pruneRevokedLocked_def)

lemma frame_Session:
  "auth_frame a (snd (Session rt codec t r a))"
  "gm_ok (atRevoked a) \<Longrightarrow> revocation_kept t a (snd (Session rt codec t r a))"
  using Session_state [of rt codec t r a] frame_refl frame_prune by auto

lemma Authenticate_state: "snd (Authenticate rt codec t r a) = snd (Session rt codec t r a)"
  by (auto simp: Authenticate_def authenticateSession_def Let_def split: prod.split option.split)

lemma acceptable_not_revoked:
  assumes "acceptable rt codec t token a p" "gm_ok (atRevoked a)" "TrimSpace (spID p) \<noteq> []"
    and "gm_get (atRevoked a) (TrimSpace (spID p)) = Some u"
  shows "\<not> t < u"
  using assms by (auto simp: acceptable_def isRevoked_state pruneRevoked_get split: option.splits if_splits)

lemma Logout_cases:
  obtains "fst (Logout rt codec t r a) = False" "snd (Logout rt codec t r a) \<in> {a, pruneRevokedLocked t a}"
  | p where "fst (Logout rt codec t r a)" "acceptable rt codec t (readSessionID r) a p"
      "snd (Logout rt codec t r a) \<in> {revoke t (spID p) (if spExpiresAt p = 0 then t + atSessionTTL a else spExpiresAt p) a,
        revoke t (spID p) (if spExpiresAt p = 0 then t + atSessionTTL a else spExpiresAt p) (pruneRevokedLocked t a)}"
proof (cases "readSessionID r = []")
  case True
  then show ?thesis
    by (intro that(1)) (simp_all add: Logout_def)
next
  case False
  obtain q b where qb: "parseSessionPayload rt codec t (readSessionID r) a = (q, b)"
    by fastforce
  then have b: "b \<in> {a, pruneRevokedLocked t a}"
    using parseSessionPayload_state [of rt codec t "readSessionID r" a] by simp
  show ?thesis
  proof (cases q)
    case None
    then show ?thesis
      using False qb b by (intro that(1)) (simp_all add: Logout_def)
  next
    case (Some p)
    have "acceptable rt codec t (readSessionID r) a p"
      using qb Some parseSessionPayload_iff [of rt codec t "readSessionID r" a p] by simp
    moreover have "atSessionTTL b = atSessionTTL a"
      using b by (auto simp: pruneRevokedLocked_def)
    ultimately show ?thesis
      using False qb b Some by (intro that(2) [of p]) (auto simp: Logout_def Let_def)
  qed
qed

lemma revoke_get:
  assumes "gm_ok (atRevoked a)" "TrimSpace i \<noteq> []"
  shows "gm_get (atRevoked (revoke t i u a)) k =
      (if k = TrimSpace i then Some u else gm_get (atRevoked (pruneRevokedLocked t a)) k)"
    and "gm_ok (atRevoked (revoke t i u a))"
  using assms by (simp_all add: revoke_def Let_def pruneRevoked_ok)

lemma revoke_frame: "auth_frame a (revoke t i u a)"
  by (simp add: auth_frame_def revoke_def Let_def pruneRevokedLocked_def)

lemma revocation_kept_trans: "revocation_kept t a b \<Longrightarrow> revocation_kept t b c \<Longrightarrow> revocation_kept t a c"
  by (simp add: revocation_kept_def)

lemma auth_frame_trans: "auth_frame a b \<Longrightarrow> auth_frame b c \<Longrightarrow> auth_frame a c"
  by (simp add: auth_frame_def)

lemma revoke_kept:
  assumes "gm_ok (atRevoked a)" "\<forall>u'. gm_get (atRevoked a) (TrimSpace i) = Some u' \<longrightarrow> \<not> t < u'"
  shows "revocation_kept t a (revoke t i u a)"
proof (cases "TrimSpace i = []")
  case True
  then show ?thesis
    using assms(1) by (simp add: revoke_def frame_refl)
next
  case False
  then show ?thesis
    using assms revoke_get [OF assms(1) False] by (auto simp: revocation_kept_def pruneRevoked_get)
qed

lemma prune_absent:
  "gm_ok (atRevoked a) \<Longrightarrow> \<forall>u'. gm_get (atRevoked a) i = Some u' \<longrightarrow> \<not> t < u' \<Longrightarrow>
     \<forall>u'. gm_get (atRevoked (pruneRevokedLocked t a)) i = Some u' \<longrightarrow> \<not> t < u'"
  by (auto simp: pruneRevoked_get split: option.splits if_splits)

lemma frame_Logout:
  assumes "gm_ok (atRevoked a)"
  shows "auth_frame a (snd (Logout rt codec t r a))" "revocation_kept t a (snd (Logout rt codec t r a))"
proof -
  let ?b = "snd (Logout rt codec t r a)"
  have "auth_frame a ?b \<and> revocation_kept t a ?b"
  proof (cases rule: Logout_cases [of rt codec t r a])
    case 1
    then show ?thesis
      using frame_refl frame_prune assms by auto
  next
    case (2 p)
    let ?u = "if spExpiresAt p = 0 then t + atSessionTTL a else spExpiresAt p"
    have fresh: "TrimSpace (spID p) = [] \<or> (\<forall>u'. gm_get (atRevoked a) (TrimSpace (spID p)) = Some u' \<longrightarrow> \<not> t < u')"
      using acceptable_not_revoked [OF 2(2) assms] by blast
    have kept: "revocation_kept t b (revoke t (spID p) ?u b)"
      if "gm_ok (atRevoked b)" "TrimSpace (spID p) = [] \<or> (\<forall>u'. gm_get (atRevoked b) (TrimSpace (spID p)) = Some u' \<longrightarrow> \<not> t < u')" for b
      using that revoke_kept [OF that(1)] frame_refl(2) [OF that(1)] by (auto simp: revoke_def)
    have "revocation_kept t a (revoke t (spID p) ?u (pruneRevokedLocked t a))"
      using frame_prune(2) [OF assms] kept [OF pruneRevoked_ok [OF assms]] prune_absent [OF assms] fresh
      by (blast intro: revocation_kept_trans)
    moreover have "revocation_kept t a (revoke t (spID p) ?u a)"
      using kept assms fresh by blast
    moreover have "auth_frame a (revoke t (spID p) ?u (pruneRevokedLocked t a))" "auth_frame a (revoke t (spID p) ?u a)"
      using revoke_frame frame_prune(1) auth_frame_trans by blast+
    ultimately show ?thesis
      using 2(3) by auto
  qed
  then show "auth_frame a ?b" "revocation_kept t a ?b"
    by simp_all
qed

lemma frame_logins:
  "auth_frame a (snd (LoginRetryAfter t key a))" "atRevoked (snd (LoginRetryAfter t key a)) = atRevoked a"
  "auth_frame a (snd (RecordLoginAttempt t key s a))" "atRevoked (snd (RecordLoginAttempt t key s a)) = atRevoked a"
  by (simp_all add: auth_frame_def LoginRetryAfter_def RecordLoginAttempt_def pruneLoginAttemptsLocked_def Let_def split_beta)

lemma auth_step_frame:
  assumes "auth_step rt codec t a b" "gm_ok (atRevoked a)"
  shows "auth_frame a b" "revocation_kept t a b"
  using assms frame_Session frame_Logout frame_logins
  by (auto elim!: auth_stepE simp: Authenticate_state revocation_kept_def)

lemma auth_run_frame:
  assumes "auth_run rt codec now a t b" "gm_ok (atRevoked a)"
  shows "auth_frame a b \<and> gm_ok (atRevoked b) \<and>
    (\<forall>i u. gm_get (atRevoked a) i = Some u \<longrightarrow> t < u \<longrightarrow> gm_get (atRevoked b) i = Some u)"
  using assms
proof (induction rule: auth_run.induct)
  case run_start
  then show ?case
    by (simp add: frame_refl)
next
  case (run_step t b t' c)
  then have b: "gm_ok (atRevoked b)" "auth_frame a b"
    by simp_all
  note c = auth_step_frame [OF run_step.hyps(3) b(1)]
  have "gm_get (atRevoked c) i = Some u" if "gm_get (atRevoked a) i = Some u" "t' < u" for i u
    using that run_step c(2) by (simp add: revocation_kept_def)
  then show ?case
    using auth_frame_trans [OF b(2) c(1)] c(2) by (simp add: revocation_kept_def)
qed

subsection \<open>Properties\<close>

text \<open>C18: What a session proves. A request passes as a session exactly when its cookie holds two
  base64url parts of which the second is the HMAC of the first under the session key, the first decodes
  to a payload with a named principal, its session ID is not revoked, it was issued at most the session
  lifetime ago and it has not expired; the session is that payload's. Without a session key no cookie
  passes.\<close>

theorem session_soundness:
  "fst (Session rt codec now r a) = Some info \<longleftrightarrow>
     (\<exists>left right data p. readSessionID r \<noteq> [] \<and> SplitByte (CHR ''.'') (readSessionID r) = [left, right] \<and>
        b64_decode True False left = Some data \<and> b64_decode True False right = Some (rt_hmac rt (atSessionKey a) data) \<and>
        scUnmarshal codec data = Some p \<and> atSessionKey a \<noteq> [] \<and> prName (spPrincipal p) \<noteq> [] \<and>
        \<not> fst (isRevoked now (spID p) a) \<and> (spIssuedAt p = 0 \<or> now \<le> spIssuedAt p + atSessionTTL a) \<and>
        now \<le> spExpiresAt p \<and> info = \<lparr> siPrincipal = spPrincipal p, siExpiresAt = spExpiresAt p \<rparr>)"
  unfolding Session_accepts acceptable_def bind_eq_Some_conv verifySession_iff
  by (auto simp: algebra_simps)

text \<open>What \<open>MintSession\<close> puts into a session, and the token it returns.\<close>

lemma minted_session:
  assumes "MintSession rt codec now (Some random) p a = Some (info, token)"
    and "scMarshal codec \<lparr> spPrincipal = siPrincipal info, spExpiresAt = siExpiresAt info, spIssuedAt = now,
        spID = b64_encode True False random \<rparr> = Some data"
  shows "atSessionKey a \<noteq> []" "token = signSession rt (atSessionKey a) data"
    "siExpiresAt info = now + atSessionTTL a" "prName (siPrincipal info) = prName p"
proof -
  have "issueSession rt codec now (Some random) info a = Some token"
    and info: "siExpiresAt info = now + atSessionTTL a" "prName (siPrincipal info) = prName p"
    using assms(1) by (auto simp: MintSession_def Let_def split: option.splits)
  then show "atSessionKey a \<noteq> []" "token = signSession rt (atSessionKey a) data"
    using assms(2) by (auto simp: issueSession_def newSessionID_def split: if_splits)
qed (use assms(1) in \<open>auto simp: MintSession_def Let_def split: option.splits\<close>)

lemma minted_principal:
  assumes "MintSession rt codec now random p a = Some (info, token)"
  shows "prName (siPrincipal info) = prName p \<and> prTenant (siPrincipal info) \<noteq> [] \<and> prRoles (siPrincipal info) \<noteq> [] \<and>
    distinct (prRoles (siPrincipal info)) \<and> set (prRoles (siPrincipal info)) \<subseteq> set knownRoles"
proof -
  have "set (normalizeRoles rt (prRoles p)) \<subseteq> set knownRoles" "RoleViewer \<in> set knownRoles"
    by (auto simp: normalizeRoles_set knownRoles_def)
  then show ?thesis
    using assms by (auto simp: MintSession_def Let_def normalizeRoles_distinct split: option.splits if_splits)
qed

text \<open>A signed token whose payload decodes to \<open>p\<close> is acceptable as \<open>p\<close> and as nothing else.\<close>

lemma signed_acceptable:
  assumes "atSessionKey b \<noteq> []" "scUnmarshal codec data = Some p" "prName (spPrincipal p) \<noteq> []" "\<not> fst (isRevoked t (spID p) b)"
  shows "acceptable rt codec t (signSession rt (atSessionKey b) data) b q \<longleftrightarrow>
    q = p \<and> (spIssuedAt p = 0 \<or> t - spIssuedAt p \<le> atSessionTTL b)"
  unfolding acceptable_def session_token.unseal_seal bind.simps assms(2) option.inject
  using assms by (cases "q = p") (simp, blast)

lemma some_iff: "(\<And>i. x = Some i \<longleftrightarrow> i = y \<and> c) \<Longrightarrow> x = (if c then Some y else None)"
  by (cases x) auto

text \<open>C19: The life of a session. Let \<open>MintSession\<close> issue a token for a named principal and let the JSON
  codec decode the payload it encoded. Then the principal of the session has a tenant and a non-empty
  list of known roles, and the cookie is accepted, as exactly this session, at every time from the issue
  to the end of the lifetime, and at no later time, as long as its ID is not in the revocation table.\<close>

theorem session_lifecycle:
  assumes mint: "MintSession rt codec now (Some random) p a = Some (info, token)"
    and codec: "scMarshal codec \<lparr> spPrincipal = siPrincipal info, spExpiresAt = siExpiresAt info, spIssuedAt = now,
        spID = b64_encode True False random \<rparr> = Some data"
      "scUnmarshal codec data = Some \<lparr> spPrincipal = siPrincipal info, spExpiresAt = siExpiresAt info, spIssuedAt = now,
        spID = b64_encode True False random \<rparr>"
    and "prName p \<noteq> []" "now \<le> t" "auth_frame a b"
    and absent: "gm_ok (atRevoked b)" "gm_get (atRevoked b) (b64_encode True False random) = None"
    and cookie: "RequestCookie r sessionCookieName = Some token"
  shows "siExpiresAt info = now + atSessionTTL a \<and> prTenant (siPrincipal info) \<noteq> [] \<and>
    set (prRoles (siPrincipal info)) \<subseteq> set knownRoles \<and> prRoles (siPrincipal info) \<noteq> [] \<and>
    fst (Session rt codec t r b) = (if t \<le> now + atSessionTTL a then Some info else None)"
proof -
  let ?p = "\<lparr> spPrincipal = siPrincipal info, spExpiresAt = siExpiresAt info, spIssuedAt = now, spID = b64_encode True False random \<rparr>"
  note minted = minted_session [OF mint codec(1)]
  have b: "atSessionKey b = atSessionKey a" "atSessionTTL b = atSessionTTL a"
    using assms(6) by (simp_all add: auth_frame_def)
  have read: "readSessionID r = token" "token \<noteq> []"
    using cookie by (simp_all add: readSessionID_def minted(2) signSession_trim) (simp add: signSession_def)
  have "\<not> fst (isRevoked t (b64_encode True False random) b)"
    using absent by (simp add: isRevoked_state pruneRevoked_get TrimSpace_visible b64_encode_visible)
  then have acceptable: "acceptable rt codec t token b q \<longleftrightarrow> q = ?p \<and> (now = 0 \<or> t - now \<le> atSessionTTL a)" for q
    using signed_acceptable [of b codec data ?p t rt q] minted(1,4) assms(4) codec(2) by (simp add: b minted(2))
  have "\<lparr> siPrincipal = siPrincipal info, siExpiresAt = now + atSessionTTL a \<rparr> = info"
    using minted(3) by (cases info) simp
  then have "fst (Session rt codec t r b) = Some i \<longleftrightarrow> i = info \<and> t \<le> now + atSessionTTL a" for i
    unfolding Session_accepts read(1) acceptable using read(2) minted(3) by fastforce
  then have "fst (Session rt codec t r b) = (if t \<le> now + atSessionTTL a then Some info else None)"
    by (rule some_iff)
  then show ?thesis
    using minted(3) minted_principal [OF mint] by blast
qed

text \<open>C20: A logout is final. When \<open>Logout\<close> succeeds on a cookie whose payload has a session ID, then
  after any number of further calls at any later times, logouts of other sessions, logins and checks
  included, a request with the same cookie is rejected. The one instant that is left out is the expiry
  time of the session itself.\<close>

theorem logout_is_final:
  assumes "gm_ok (atRevoked a)" "0 < now" "Logout rt codec now r a = (True, a1)"
    and payload: "Option.bind (verifySession rt (atSessionKey a) (readSessionID r)) (scUnmarshal codec) = Some p"
      "TrimSpace (spID p) \<noteq> []"
    and run: "auth_run rt codec now a1 t b" "t \<le> t'"
    and cookie: "readSessionID r' = readSessionID r" and instant: "t' \<noteq> spExpiresAt p"
  shows "fst (Session rt codec t' r' b) = None"
proof -
  let ?u = "if spExpiresAt p = 0 then now + atSessionTTL a else spExpiresAt p"
  have a1: "a1 = snd (Logout rt codec now r a)" "fst (Logout rt codec now r a)"
    using assms(3) by simp_all
  obtain q where q: "acceptable rt codec now (readSessionID r) a q"
      "a1 \<in> {revoke now (spID q) (if spExpiresAt q = 0 then now + atSessionTTL a else spExpiresAt q) a,
         revoke now (spID q) (if spExpiresAt q = 0 then now + atSessionTTL a else spExpiresAt q) (pruneRevokedLocked now a)}"
    using a1 by (cases rule: Logout_cases [of rt codec now r a]) auto
  have "q = p"
    using q(1) payload(1) by (simp add: acceptable_def)
  then have rev1: "gm_get (atRevoked a1) (TrimSpace (spID p)) = Some ?u" and ok1: "gm_ok (atRevoked a1)"
    using q(2) revoke_get [OF assms(1) payload(2)] revoke_get [OF pruneRevoked_ok [OF assms(1)] payload(2)] by auto
  have fr: "auth_frame a b"
    using auth_run_frame [OF run(1) ok1] frame_Logout(1) [OF assms(1)] a1(1) auth_frame_trans by blast
  have okb: "gm_ok (atRevoked b)"
    using auth_run_frame [OF run(1) ok1] by blast
  show ?thesis
  proof (rule ccontr)
    assume "fst (Session rt codec t' r' b) \<noteq> None"
    then obtain p' where p': "acceptable rt codec t' (readSessionID r) b p'" "t' \<le> spExpiresAt p'"
      using Session_accepts [of rt codec t' r' b] cookie by auto
    then have "p' = p"
      using payload(1) fr by (simp add: acceptable_def auth_frame_def)
    moreover have "t' < ?u"
      using p'(2) calculation instant run(2) auth_run_mono [OF run(1)] assms(2) by auto
    ultimately show False
      using acceptable_not_revoked [OF p'(1) okb] payload(2) auth_run_frame [OF run(1) ok1] rev1 run(2) by fastforce
  qed
qed

text \<open>A codec for one payload, and the requests and sessions of the examples.\<close>

definition demo_principal :: principal where
  "demo_principal = \<lparr> prName = ''ada'', prTenant = ''acme'', prRoles = [''Operator'', ''root''] \<rparr>"

definition demo_payload :: session_payload where
  "demo_payload = \<lparr> spPrincipal = demo_principal\<lparr>prRoles := [RoleOperator]\<rparr>, spExpiresAt = second + 12 * hour,
     spIssuedAt = second, spID = b64_encode True False ''0123456789abcdef'' \<rparr>"

definition demo_codec :: session_codec where
  "demo_codec = \<lparr> scMarshal = (\<lambda>p. if p = demo_payload then Some ''{}'' else None),
     scUnmarshal = (\<lambda>d. if d = ''{}'' then Some demo_payload else None) \<rparr>"

definition demo_token :: string where
  "demo_token = signSession ascii_runtime ''k'' ''{}''"

definition demo_info :: session_info where
  "demo_info = \<lparr> siPrincipal = spPrincipal demo_payload, siExpiresAt = second + 12 * hour \<rparr>"

definition cookie_request :: "string \<Rightarrow> http_request" where
  "cookie_request v = \<lparr> rqMethod = MethodGet, rqPath = ''/'', rqQuery = [], rqHeaders = [],
     rqCookies = [(sessionCookieName, v)], rqRemoteAddr = [], rqBody = [] \<rparr>"

lemma demo_session_accepted:
  "fst (Session ascii_runtime demo_codec (2 * second) (cookie_request demo_token) open_authenticator) = Some demo_info \<and>
   b64_decode True False ''e30'' = Some ''{}''"
  by code_simp

lemma demo_mint:
  "MintSession ascii_runtime demo_codec second (Some ''0123456789abcdef'') demo_principal open_authenticator = Some (demo_info, demo_token)"
  by code_simp

lemma demo_codec_facts:
  "scMarshal demo_codec \<lparr> spPrincipal = siPrincipal demo_info, spExpiresAt = siExpiresAt demo_info, spIssuedAt = second,
     spID = b64_encode True False ''0123456789abcdef'' \<rparr> = Some ''{}''"
  "scUnmarshal demo_codec ''{}'' = Some \<lparr> spPrincipal = siPrincipal demo_info, spExpiresAt = siExpiresAt demo_info, spIssuedAt = second,
     spID = b64_encode True False ''0123456789abcdef'' \<rparr>"
  by code_simp+

theorem session_lifecycle_witness:
  "fst (Session ascii_runtime demo_codec (second + 12 * hour) (cookie_request demo_token) open_authenticator) = Some demo_info \<and>
   fst (Session ascii_runtime demo_codec (second + 12 * hour + 1) (cookie_request demo_token) open_authenticator) = None"
proof -
  note life = session_lifecycle [OF demo_mint demo_codec_facts, where b = open_authenticator and r = "cookie_request demo_token"]
  have "prName demo_principal \<noteq> []" "RequestCookie (cookie_request demo_token) sessionCookieName = Some demo_token"
      "atSessionTTL open_authenticator = 12 * hour" "atRevoked open_authenticator = []"
    by (simp_all add: demo_principal_def RequestCookie_def cookie_request_def open_authenticator_def)
  then show ?thesis
    using life [of "second + 12 * hour"] life [of "second + 12 * hour + 1"] frame_refl(1) [of open_authenticator]
    by (simp add: duration_defs)
qed

definition logged_out :: authenticator where
  "logged_out = snd (Logout ascii_runtime demo_codec (2 * second) (cookie_request demo_token) open_authenticator)"

lemma demo_logout: "Logout ascii_runtime demo_codec (2 * second) (cookie_request demo_token) open_authenticator = (True, logged_out)"
  by code_simp

theorem logout_is_final_witness:
  "fst (Session ascii_runtime demo_codec (3 * second) (cookie_request demo_token)
     (snd (RecordLoginAttempt (3 * second) ''10.0.0.1'' True logged_out))) = None"
proof (rule logout_is_final [OF _ _ demo_logout])
  show "gm_ok (atRevoked open_authenticator)" "0 < 2 * second"
    by (simp_all add: open_authenticator_def duration_defs)
  show "Option.bind (verifySession ascii_runtime (atSessionKey open_authenticator) (readSessionID (cookie_request demo_token)))
      (scUnmarshal demo_codec) = Some demo_payload"
    by code_simp
  show "TrimSpace (spID demo_payload) \<noteq> []" "3 * second \<noteq> spExpiresAt demo_payload"
    by code_simp+
  show "auth_run ascii_runtime demo_codec (2 * second) logged_out (3 * second)
      (snd (RecordLoginAttempt (3 * second) ''10.0.0.1'' True logged_out))"
    by (rule run_step [OF run_start _ step_record]) (simp add: duration_defs)
qed simp_all

text \<open>The instant that the theorem leaves out is real: at its expiry time the revocation of a session has
  run out (\<open>isRevoked\<close> asks whether the clock is before it) but the session has not (\<open>Session\<close> asks whether
  the clock is after it), so a session that was logged out passes again.\<close>

theorem logout_boundary_instant:
  "fst (Session ascii_runtime demo_codec (second + 12 * hour - 1) (cookie_request demo_token) logged_out) = None \<and>
   fst (Session ascii_runtime demo_codec (second + 12 * hour) (cookie_request demo_token) logged_out) = Some demo_info"
  by code_simp

end
