(* ===== verification/Accounts.thy ===== *)
theory Accounts
  imports Sessions
begin

text \<open>
  The types of what \<open>internal/auth/auth.go\<close> keeps and hands out: along every run of an authenticator its tables are well formed, and each
  principal that it hands out, for a token or with a session, has a name, a tenant and roles of the known list.
\<close>

definition principal_ok :: "principal \<Rightarrow> bool" where
  "principal_ok p \<longleftrightarrow> prName p \<noteq> [] \<and> prTenant p \<noteq> [] \<and> prRoles p \<noteq> [] \<and> distinct (prRoles p) \<and> set (prRoles p) \<subseteq> set knownRoles"

definition user_ok :: "user_config \<Rightarrow> bool" where
  "user_ok u \<longleftrightarrow> ucTokenHash u \<noteq> [] \<and> principal_ok \<lparr> prName = ucName u, prTenant = ucTenant u, prRoles = ucRoles u \<rparr>"

definition authenticator_ok :: "authenticator \<Rightarrow> bool" where
  "authenticator_ok a \<longleftrightarrow> (\<forall>u \<in> set (atUsers a). user_ok u) \<and> atSessionTTL a = 12 * hour \<and> logins_ok a \<and> gm_ok (atRevoked a)"

lemma NewAuthenticator_ok: "authenticator_ok (NewAuthenticator rt os users token)"
  using normalizeUsers_roles [of _ rt users]
  by (auto simp: authenticator_ok_def NewAuthenticator_def user_ok_def principal_ok_def logins_ok_def)

text \<open>The session calls leave the table of logins alone; the login calls keep it sound.\<close>

lemma prune_logins_same: "atLogins (pruneRevokedLocked t a) = atLogins a"
  by (simp add: pruneRevokedLocked_def)

lemma session_calls_logins:
  "atLogins (snd (Session rt codec t r a)) = atLogins a" "atLogins (snd (Logout rt codec t r a)) = atLogins a"
proof -
  show "atLogins (snd (Session rt codec t r a)) = atLogins a"
    using Session_state [of rt codec t r a] by (auto simp: prune_logins_same)
  show "atLogins (snd (Logout rt codec t r a)) = atLogins a"
    by (cases rule: Logout_cases [of rt codec t r a]) (auto simp: prune_logins_same revoke_def Let_def)
qed

lemma auth_step_logins:
  assumes "auth_step rt codec t a b" and "logins_ok a" and "0 < t"
  shows "logins_ok b"
  using assms(1)
proof cases
  case (step_retry key)
  then show ?thesis
    using assms(2) by (simp add: LoginRetryAfter_def Let_def prune_logins_ok)
next
  case (step_record key success)
  then show ?thesis
    using RecordLoginAttempt_ok [OF assms(2,3)] by simp
qed (use assms(2) in \<open>simp_all add: logins_ok_def Authenticate_state session_calls_logins\<close>)

lemma auth_run_ok: "auth_run rt codec now a t b \<Longrightarrow> authenticator_ok a \<Longrightarrow> 0 < now \<Longrightarrow> authenticator_ok b"
proof (induction rule: auth_run.induct)
  case (run_step t b t' c)
  then have b: "authenticator_ok b" "0 < t'"
    using auth_run_mono [OF run_step.hyps(1)] by simp_all
  then show ?case
    using auth_step_frame [OF run_step.hyps(3)] auth_step_logins [OF run_step.hyps(3)]
    by (auto simp: authenticator_ok_def auth_frame_def revocation_kept_def)
qed simp

lemma principalForToken_ok:
  assumes "authenticator_ok a" and "principalForToken h a = Some p"
  shows "principal_ok p"
proof (cases "userForToken h (atUsers a)")
  case None
  then show ?thesis
    using assms(2) by (auto simp: principalForToken_def principal_ok_def knownRoles_def split: if_splits)
next
  case (Some q)
  have "userForToken h us = Some q \<Longrightarrow> \<forall>u \<in> set us. user_ok u \<Longrightarrow> principal_ok q" for us
    by (induction us) (auto simp: user_ok_def split: if_splits)
  then show ?thesis
    using assms Some by (simp add: principalForToken_def authenticator_ok_def)
qed

lemma MintSession_ok:
  assumes "MintSession rt codec now random p a = Some (info, token)" and "prName p \<noteq> []"
  shows "principal_ok (siPrincipal info) \<and> siExpiresAt info = now + atSessionTTL a"
  using assms minted_principal [OF assms(1)] by (auto simp: principal_ok_def MintSession_def Let_def split: option.splits)

lemma Login_ok:
  assumes "authenticator_ok a" and "Login rt codec now random username token a = Some (info, session)"
  shows "principal_ok (siPrincipal info) \<and> siExpiresAt info = now + 12 * hour"
proof -
  obtain p where p: "principalForCredentials rt username token a = Some p" "MintSession rt codec now random p a = Some (info, session)"
    using assms(2) by (auto simp: Login_def split: option.splits)
  then have "principal_ok p"
    using principalForToken_ok [OF assms(1)] by (auto simp: principalForCredentials_def Let_def split: if_splits option.splits)
  then show ?thesis
    using MintSession_ok [OF p(2)] assms(1) by (simp add: principal_ok_def authenticator_ok_def)
qed

text \<open>C22: The authenticator is well formed. Build an authenticator from any list of users and any legacy token, and let any sequence of calls
  follow, at times that do not decrease. Then every user it keeps has a name, a tenant, a token hash and a list of distinct known roles that
  is not empty, whatever the configuration listed; the failed logins count from one to eight and block until their back-off is over, the
  tables have one entry for a key and the lifetime of sessions is twelve hours. And whoever is recognised by a token or logs in is a
  principal with a name, a tenant and known roles, in a session that ends twelve hours after the login.\<close>

theorem authenticator_wellformed:
  assumes "auth_run rt codec now (NewAuthenticator rt os users legacy) t a" and "0 < now"
  shows "authenticator_ok a \<and>
    (\<forall>h p. principalForToken h a = Some p \<longrightarrow> principal_ok p) \<and>
    (\<forall>t' random username token info session. Login rt codec t' random username token a = Some (info, session) \<longrightarrow>
       principal_ok (siPrincipal info) \<and> siExpiresAt info = t' + 12 * hour)"
proof -
  have "authenticator_ok a"
    using auth_run_ok [OF assms(1) NewAuthenticator_ok assms(2)] .
  then show ?thesis
    using principalForToken_ok Login_ok by blast
qed

text \<open>A configuration with a user without a hash, which is dropped, and one whose roles are not known, who becomes a viewer.\<close>

definition demo_users :: "user_config list" where
  "demo_users =
     [\<lparr> ucName = ''eve'', ucTenant = [], ucTokenHash = [], ucRoles = [RoleAdmin] \<rparr>,
      \<lparr> ucName = '' ada '', ucTenant = [], ucTokenHash = ''ABCD'', ucRoles = [''root''] \<rparr>]"

definition demo_authenticator :: authenticator where
  "demo_authenticator = NewAuthenticator ascii_runtime signing_host demo_users []"

theorem authenticator_wellformed_witness:
  "principalForToken ''abcd'' (snd (RecordLoginAttempt (2 * second) ''10.0.0.1'' False demo_authenticator)) =
     Some \<lparr> prName = ''ada'', prTenant = ''default'', prRoles = [RoleViewer] \<rparr> \<and>
   authenticator_ok (snd (RecordLoginAttempt (2 * second) ''10.0.0.1'' False demo_authenticator))"
proof
  let ?b = "snd (RecordLoginAttempt (2 * second) ''10.0.0.1'' False demo_authenticator)"
  have "auth_run ascii_runtime demo_codec second demo_authenticator (2 * second) ?b"
    by (rule run_step [OF run_start _ step_record]) (simp add: duration_defs)
  moreover have "0 < second"
    by (simp add: duration_defs)
  ultimately show "authenticator_ok ?b"
    using authenticator_wellformed [of ascii_runtime demo_codec second signing_host demo_users "[]" "2 * second" ?b]
    by (simp add: demo_authenticator_def)
  show "principalForToken ''abcd'' ?b = Some \<lparr> prName = ''ada'', prTenant = ''default'', prRoles = [RoleViewer] \<rparr>"
    by code_simp
qed

end
