(* ===== verification/JsonRecords.thy ===== *)
theory JsonRecords
  imports Domain
begin

text \<open>
  What \<open>encoding/json\<close> makes of the records of \<open>internal/domain/types.go\<close> when it writes them and reads
  them back, as the snapshot file and the JSONB columns do. Every field has a JSON name, so nothing is
  left out; time stamps and numbers read back as written. A string is written as text: each byte that is
  not part of a valid UTF-8 encoding becomes the replacement character U+FFFD. The keys of a map are
  strings too, and of two keys that become equal the later one stays.
\<close>

section \<open>Definitions\<close>

definition json_text :: "string \<Rightarrow> string" where
  "json_text s = concat (map (\<lambda>(r, _). utf8_encode r) (runes s))"

fun json_severity :: "severity \<Rightarrow> severity" where
  "json_severity (SeverityOther s) = SeverityOther (json_text s)"
| "json_severity s = s"

fun json_kind :: "event_kind \<Rightarrow> event_kind" where
  "json_kind (EventKindOther s) = EventKindOther (json_text s)"
| "json_kind k = k"

fun json_status :: "alert_status \<Rightarrow> alert_status" where
  "json_status (AlertStatusOther s) = AlertStatusOther (json_text s)"
| "json_status s = s"

definition json_map :: "('v \<Rightarrow> 'v) \<Rightarrow> (string, 'v) gomap \<Rightarrow> (string, 'v) gomap" where
  "json_map f m = fold (\<lambda>(k, v). gm_put (json_text k) (f v)) m []"

definition json_event :: "event \<Rightarrow> event" where
  "json_event e = \<lparr> evID = json_text (evID e), evTimestamp = evTimestamp e, evTenant = json_text (evTenant e),
     evKind = json_kind (evKind e), evAssetID = json_text (evAssetID e), evHostname = json_text (evHostname e),
     evActor = json_text (evActor e), evSourceIP = json_text (evSourceIP e),
     evDestination = json_text (evDestination e), evProcess = json_text (evProcess e),
     evToolName = json_text (evToolName e), evCommand = json_text (evCommand e), evSignal = json_text (evSignal e),
     evLabels = map json_text (evLabels e), evMetadata = json_map json_text (evMetadata e) \<rparr>"

definition json_action :: "response_action \<Rightarrow> response_action" where
  "json_action a = \<lparr> raID = json_text (raID a), raType = json_text (raType a), raMode = json_text (raMode a),
     raAssetID = json_text (raAssetID a), raTenant = json_text (raTenant a), raTarget = json_text (raTarget a),
     raReason = json_text (raReason a), raCreatedAt = raCreatedAt a,
     raApprovalStatus = json_text (raApprovalStatus a), raApprovedBy = json_text (raApprovedBy a),
     raApprovedAt = raApprovedAt a, raExecutionStatus = json_text (raExecutionStatus a),
     raExecutedAt = raExecutedAt a, raExecutionError = json_text (raExecutionError a),
     raMetadata = json_map json_text (raMetadata a) \<rparr>"

definition json_alert :: "alert \<Rightarrow> alert" where
  "json_alert a = \<lparr> alID = json_text (alID a), alFingerprint = json_text (alFingerprint a),
     alRuleID = json_text (alRuleID a), alTitle = json_text (alTitle a), alDescription = json_text (alDescription a),
     alSeverity = json_severity (alSeverity a), alStatus = json_status (alStatus a),
     alAssetID = json_text (alAssetID a), alTenant = json_text (alTenant a), alCreatedAt = alCreatedAt a,
     alEventIDs = map json_text (alEventIDs a), alEvidence = json_map json_text (alEvidence a),
     alRecommendedActions = map json_action (alRecommendedActions a) \<rparr>"

definition json_asset :: "asset \<Rightarrow> asset" where
  "json_asset a = \<lparr> asID = json_text (asID a), asTenant = json_text (asTenant a), asHostname = json_text (asHostname a),
     asOS = json_text (asOS a), asIPs = map json_text (asIPs a), asAgentSurface = map json_text (asAgentSurface a),
     asRiskScore = asRiskScore a, asLastSeen = asLastSeen a, asLabels = map json_text (asLabels a),
     asMetadata = json_map json_text (asMetadata a) \<rparr>"

definition json_audit :: "audit_event \<Rightarrow> audit_event" where
  "json_audit a = \<lparr> auID = json_text (auID a), auTimestamp = auTimestamp a, auTenant = json_text (auTenant a),
     auChainIndex = auChainIndex a, auPrevHash = json_text (auPrevHash a), auHash = json_text (auHash a),
     auActor = json_text (auActor a), auRoles = map json_text (auRoles a), auAction = json_text (auAction a),
     auResourceType = json_text (auResourceType a), auResourceID = json_text (auResourceID a),
     auOutcome = json_text (auOutcome a), auSourceIP = json_text (auSourceIP a),
     auUserAgent = json_text (auUserAgent a), auMetadata = json_map json_text (auMetadata a) \<rparr>"

section \<open>Text that survives\<close>

lemma json_text_ascii [simp]: "is_ascii s \<Longrightarrow> json_text s = s"
  by (induction s) (auto simp: json_text_def is_ascii_def utf8_encode_def)

lemma json_text_Nil [simp]: "json_text [] = []"
  by (simp add: json_text_def)

lemma hex_encode_ascii: "is_ascii (hex_encode s)"
proof -
  have "byte (hex_digit n) < 128" if "n < 16" for n
    using that by (simp add: hex_digit_def)
  moreover have "byte c div 16 < 16" for c :: char
    by (simp add: less_mult_imp_div_less)
  ultimately show ?thesis
    by (induction s) (auto simp: is_ascii_def)
qed

text \<open>A byte that is not UTF-8 reads back as the three bytes of the replacement character.\<close>

lemma json_text_invalid: "json_text [CHR 0xFF] = [CHR 0xEF, CHR 0xBF, CHR 0xBD]"
  by code_simp

lemma gm_put_new: "k \<notin> fst ` set m \<Longrightarrow> gm_put k v m = m @ [(k, v)]"
  by (induction m) auto

lemma json_map_same:
  assumes "gm_ok m" "\<And>k v. (k, v) \<in> set m \<Longrightarrow> json_text k = k \<and> f v = v"
  shows "json_map f m = m"
proof -
  have "fold (\<lambda>(k, v). gm_put (json_text k) (f v)) m acc = acc @ m"
    if "gm_ok (acc @ m)" "\<forall>(k, v) \<in> set m. json_text k = k \<and> f v = v" for acc
    using that
  proof (induction m arbitrary: acc)
    case (Cons x m)
    obtain k v where x: "x = (k, v)" by (cases x)
    then have "json_text k = k" "f v = v" "k \<notin> fst ` set acc"
      using Cons.prems by (auto simp: gm_ok_def)
    then have "gm_put (json_text k) (f v) acc = acc @ [(k, v)]"
      by (simp add: gm_put_new)
    then show ?case
      using Cons.IH [of "acc @ [(k, v)]"] Cons.prems x by simp
  qed simp
  from this [of "[]"] show ?thesis
    using assms by (auto simp: json_map_def)
qed

lemma json_map_Nil [simp]: "json_map f [] = []"
  by (simp add: json_map_def)

lemma map_same: "map f xs = xs \<longleftrightarrow> (\<forall>x \<in> set xs. f x = x)"
  by (induction xs) auto

end
