(* ===== verification/StoreState.thy ===== *)
theory StoreState
  imports ThreatPack JsonRecords
begin

text \<open>
  The state of \<open>internal/store\<close>: the records of \<open>store.go\<close> and \<open>persistence.go\<close>, the tenant
  filters of \<open>tenant.go\<close>, the asset inventory, the retention window and the snapshot file. The model
  covers the memory and file modes, in which the database handle is nil. The content of the snapshot
  file is a field of the state: a write that succeeds replaces its bytes, and an environment says what
  the clock shows, which bytes \<open>json.MarshalIndent\<close> makes of a snapshot and how the disk answers a
  write. What those bytes read back as is \<open>json_snapshot\<close>.
\<close>

section \<open>State\<close>

record snapshot_data =
  snVersion :: int
  snSavedAt :: time
  snEvents :: "event list"
  snAlerts :: "alert list"
  snActions :: "response_action list"
  snAudits :: "audit_event list"
  snAssets :: "(string, asset) gomap option"

record store =
  stMode :: string
  stEvents :: "event list"
  stAlerts :: "alert list"
  stActions :: "response_action list"
  stAudits :: "audit_event list"
  stAuditChainHead :: string
  stAuditChainValid :: bool
  stAuditChainAnchor :: string
  stAssets :: "(string, asset) gomap"
  stFingerprints :: "string list"
  stPath :: string
  stLastErr :: string
  stSchemaVersion :: int
  stRetentionWindow :: duration
  stDisk :: "string option"

text \<open>
  What the disk does with a write of the snapshot: it replaces the file; it fails before the old file
  is touched; or \<open>replaceFile\<close> has removed the old file and the second rename fails. \<open>ioMarshal\<close> is the
  encoding of the snapshot, \<open>Inl\<close> an error of the encoder.
\<close>

datatype disk_outcome = DiskOk | DiskErr string | DiskLost string

record io_env =
  ioNow :: time
  ioMarshal :: "snapshot_data \<Rightarrow> string + string"
  ioDisk :: disk_outcome

definition snapshotVersion :: int where "snapshotVersion = 1"

definition NewStore :: store where
  "NewStore = \<lparr> stMode = ''memory'', stEvents = [], stAlerts = [], stActions = [], stAudits = [],
     stAuditChainHead = [], stAuditChainValid = True, stAuditChainAnchor = [], stAssets = [],
     stFingerprints = [], stPath = [], stLastErr = [], stSchemaVersion = 0, stRetentionWindow = 0,
     stDisk = None \<rparr>"

section \<open>Tenant filters\<close>

fun filterEventsByTenant :: "event list \<Rightarrow> string \<Rightarrow> event list" where
  "filterEventsByTenant events tenant =
     (if tenant = [] then events
      else (let tenant = tenantOrDefault tenant in filter (\<lambda>e. sameTenant (evTenant e) tenant) events))"

fun filterAlertsByTenant :: "alert list \<Rightarrow> string \<Rightarrow> alert list" where
  "filterAlertsByTenant alerts tenant =
     (if tenant = [] then alerts
      else (let tenant = tenantOrDefault tenant in filter (\<lambda>a. sameTenant (alTenant a) tenant) alerts))"

fun filterActionsByTenant :: "response_action list \<Rightarrow> string \<Rightarrow> response_action list" where
  "filterActionsByTenant actions tenant =
     (if tenant = [] then actions
      else (let tenant = tenantOrDefault tenant in filter (\<lambda>a. sameTenant (raTenant a) tenant) actions))"

fun filterAuditsByTenant :: "audit_event list \<Rightarrow> string \<Rightarrow> audit_event list" where
  "filterAuditsByTenant audits tenant =
     (if tenant = [] then audits
      else (let tenant = tenantOrDefault tenant in filter (\<lambda>a. sameTenant (auTenant a) tenant) audits))"

fun filterAssetsByTenant :: "asset list \<Rightarrow> string \<Rightarrow> asset list" where
  "filterAssetsByTenant assets tenant =
     (if tenant = [] then assets
      else (let tenant = tenantOrDefault tenant in filter (\<lambda>a. sameTenant (asTenant a) tenant) assets))"

section \<open>Assets\<close>

definition assetKey :: "string \<Rightarrow> string \<Rightarrow> string" where
  "assetKey tenant i = tenantOrDefault tenant @ [CHR 0x00] @ i"

fun merge :: "string list \<Rightarrow> string list \<Rightarrow> string list" where
  "merge existing [] = existing"
| "merge existing (v # incoming) = merge (if v \<in> set existing then existing else existing @ [v]) incoming"

definition latest :: "time \<Rightarrow> time \<Rightarrow> time" where
  "latest a b = (if b < a then a else b)"

definition getAsset :: "string \<Rightarrow> (string, asset) gomap \<Rightarrow> asset" where
  "getAsset key m = (case gm_get m key of None \<Rightarrow> empty_asset | Some a \<Rightarrow> a)"

definition upsertedAsset :: "event \<Rightarrow> asset \<Rightarrow> asset" where
  "upsertedAsset ev a =
     (let hostname = (if evHostname ev \<noteq> [] then evHostname ev else asHostname a) in
      a\<lparr>asID := evAssetID ev, asTenant := tenantOrDefault (evTenant ev),
        asHostname := (if hostname = [] then evAssetID ev else hostname),
        asIPs := (if evSourceIP ev \<noteq> [] \<and> evSourceIP ev \<notin> set (asIPs a) then asIPs a @ [evSourceIP ev] else asIPs a),
        asAgentSurface := (if evToolName ev \<noteq> [] \<and> evKind ev = EventAgentToolCall
            \<and> evToolName ev \<notin> set (asAgentSurface a) then asAgentSurface a @ [evToolName ev] else asAgentSurface a),
        asLastSeen := latest (asLastSeen a) (evTimestamp ev),
        asLabels := merge (asLabels a) (evLabels ev),
        asMetadata := fold (\<lambda>(k, v). gm_put k v) (evMetadata ev) (asMetadata a)\<rparr>)"

definition upsertAssetLocked :: "event \<Rightarrow> store \<Rightarrow> store" where
  "upsertAssetLocked ev s =
     (if evAssetID ev = [] then s
      else (let key = assetKey (evTenant ev) (evAssetID ev) in
        s\<lparr>stAssets := gm_put key (upsertedAsset ev (getAsset key (stAssets s))) (stAssets s)\<rparr>))"

definition raisedAsset :: "alert \<Rightarrow> asset \<Rightarrow> asset" where
  "raisedAsset al a =
     a\<lparr>asID := alAssetID al, asTenant := tenantOrDefault (alTenant al),
       asHostname := (if asHostname a = [] then alAssetID al else asHostname a),
       asRiskScore := asRiskScore a + Rank (alSeverity al) * 10,
       asLastSeen := (if time_is_zero (asLastSeen a) then alCreatedAt al else asLastSeen a)\<rparr>"

definition raiseAssetRiskLocked :: "alert \<Rightarrow> store \<Rightarrow> store" where
  "raiseAssetRiskLocked al s =
     (if alAssetID al = [] then s
      else (let key = assetKey (alTenant al) (alAssetID al) in
        s\<lparr>stAssets := gm_put key (raisedAsset al (getAsset key (stAssets s))) (stAssets s)\<rparr>))"

definition rebuildAssetsLocked :: "store \<Rightarrow> store" where
  "rebuildAssetsLocked s =
     fold raiseAssetRiskLocked (stAlerts s) (fold upsertAssetLocked (stEvents s) (s\<lparr>stAssets := []\<rparr>))"

fun addFingerprints :: "alert list \<Rightarrow> string list \<Rightarrow> string list" where
  "addFingerprints [] fps = fps"
| "addFingerprints (a # as) fps =
     addFingerprints as (if alFingerprint a \<noteq> [] \<and> alFingerprint a \<notin> set fps then fps @ [alFingerprint a] else fps)"

definition rebuildFingerprintsLocked :: "store \<Rightarrow> store" where
  "rebuildFingerprintsLocked s = s\<lparr>stFingerprints := addFingerprints (stAlerts s) []\<rparr>"

section \<open>Retention\<close>

fun filterEventsByCutoff :: "event list \<Rightarrow> time \<Rightarrow> event list" where
  "filterEventsByCutoff events cutoff =
     filter (\<lambda>e. \<not> (\<not> time_is_zero (evTimestamp e) \<and> evTimestamp e < cutoff)) events"

fun filterAlertsByCutoff :: "alert list \<Rightarrow> time \<Rightarrow> alert list" where
  "filterAlertsByCutoff alerts cutoff =
     filter (\<lambda>a. \<not> (\<not> time_is_zero (alCreatedAt a) \<and> alCreatedAt a < cutoff)) alerts"

fun filterActionsByCutoff :: "response_action list \<Rightarrow> time \<Rightarrow> response_action list" where
  "filterActionsByCutoff actions cutoff =
     filter (\<lambda>a. \<not> (\<not> time_is_zero (raCreatedAt a) \<and> raCreatedAt a < cutoff)) actions"

fun filterAuditsByCutoff :: "audit_event list \<Rightarrow> time \<Rightarrow> audit_event list" where
  "filterAuditsByCutoff audits cutoff =
     filter (\<lambda>a. \<not> (\<not> time_is_zero (auTimestamp a) \<and> auTimestamp a < cutoff)) audits"

definition cloneAssets :: "(string, asset) gomap \<Rightarrow> (string, asset) gomap" where
  "cloneAssets assets = map (\<lambda>(k, a). (k, a)) assets"

definition snapshotLocked :: "time \<Rightarrow> store \<Rightarrow> snapshot_data" where
  "snapshotLocked now s = \<lparr> snVersion = snapshotVersion, snSavedAt = now, snEvents = stEvents s,
     snAlerts = stAlerts s, snActions = stActions s, snAudits = stAudits s,
     snAssets = Some (cloneAssets (stAssets s)) \<rparr>"

definition retainedStore :: "time \<Rightarrow> store \<Rightarrow> store" where
  "retainedStore cutoff s =
     rebuildFingerprintsLocked (rebuildAssetsLocked
       (NewStore\<lparr>stMode := stMode s, stPath := stPath s, stSchemaVersion := stSchemaVersion s,
          stEvents := filterEventsByCutoff (stEvents s) cutoff,
          stAlerts := filterAlertsByCutoff (stAlerts s) cutoff,
          stActions := filterActionsByCutoff (stActions s) cutoff,
          stAudits := filterAuditsByCutoff (stAudits s) cutoff\<rparr>))"

definition enforceRetentionLocked :: "io_env \<Rightarrow> store \<Rightarrow> store" where
  "enforceRetentionLocked io s =
     (if stRetentionWindow s \<le> 0 then s
      else (let r = retainedStore (ioNow io - stRetentionWindow s) s in
        if length (stEvents r) = length (stEvents s) \<and> length (stAlerts r) = length (stAlerts s)
           \<and> length (stActions r) = length (stActions s) \<and> length (stAudits r) = length (stAudits s)
           \<and> length (stAssets r) = length (stAssets s)
        then s\<lparr>stLastErr := []\<rparr>
        else (rebuildFingerprintsLocked
          (s\<lparr>stEvents := stEvents r, stAlerts := stAlerts r, stActions := stActions r,
             stAudits := stAudits r, stAssets := cloneAssets (stAssets r)\<rparr>))\<lparr>stLastErr := []\<rparr>))"

text \<open>\<open>persistLocked\<close>: the file is replaced by the encoded snapshot, or the first error is returned.\<close>

definition persistLocked :: "io_env \<Rightarrow> store \<Rightarrow> string option \<times> store" where
  "persistLocked io s =
     (if stPath s = [] \<or> stMode s = ''postgres'' then (None, s\<lparr>stLastErr := []\<rparr>)
      else (case ioMarshal io (snapshotLocked (ioNow io) s) of
        Inl err \<Rightarrow> (Some err, s\<lparr>stLastErr := err\<rparr>)
      | Inr data \<Rightarrow> (case ioDisk io of
          DiskErr err \<Rightarrow> (Some err, s\<lparr>stLastErr := err\<rparr>)
        | DiskLost err \<Rightarrow> (Some err, s\<lparr>stLastErr := err, stDisk := None\<rparr>)
        | DiskOk \<Rightarrow> (None, s\<lparr>stLastErr := [], stDisk := Some data\<rparr>))))"

text \<open>What an encoded snapshot reads back as.\<close>

definition json_snapshot :: "snapshot_data \<Rightarrow> snapshot_data" where
  "json_snapshot snap = \<lparr> snVersion = snVersion snap, snSavedAt = snSavedAt snap,
     snEvents = map json_event (snEvents snap), snAlerts = map json_alert (snAlerts snap),
     snActions = map json_action (snActions snap), snAudits = map json_audit (snAudits snap),
     snAssets = map_option (json_map json_asset) (snAssets snap) \<rparr>"

definition redactPersistenceError :: "runtime \<Rightarrow> string \<Rightarrow> string" where
  "redactPersistenceError rt err =
     (let err = TrimSpace err; l = ToLower rt err in
      if err = [] then []
      else if Contains l ''postgres'' then ''postgres persistence error''
      else if Contains l ''.json'' \<or> Contains l ''snapshot'' then ''snapshot persistence error''
      else if Contains l ''permission denied'' \<or> Contains l ''operation not permitted'' then ''filesystem persistence error''
      else ''persistence error'')"

section \<open>Tenant scoping\<close>

text \<open>
  The contract of the five tenant filters: the empty tenant is the unscoped view of an operator, any
  other tenant sees exactly the records of that tenant, in their order.
\<close>

locale tenant_scoped =
  fixes tenant_of :: "'r \<Rightarrow> string"
    and scope :: "'r list \<Rightarrow> string \<Rightarrow> 'r list"
  assumes scope_eq: "scope rs t = (if t = [] then rs else filter (\<lambda>r. sameTenant (tenant_of r) t) rs)"
begin

lemma scope_mem: "t \<noteq> [] \<Longrightarrow> r \<in> set (scope rs t) \<longleftrightarrow> r \<in> set rs \<and> sameTenant (tenant_of r) t"
  by (auto simp: scope_eq)

lemma scope_disjoint:
  "t \<noteq> [] \<Longrightarrow> u \<noteq> [] \<Longrightarrow> \<not> sameTenant t u \<Longrightarrow> set (scope rs t) \<inter> set (scope rs u) = {}"
  by (auto simp: scope_eq sameTenant_def)

lemma scope_append_other:
  "t \<noteq> [] \<Longrightarrow> \<not> sameTenant (tenant_of r) t \<Longrightarrow> scope (rs @ [r]) t = scope rs t"
  by (simp add: scope_eq)

lemma scope_append: "scope (rs @ qs) t = scope rs t @ scope qs t"
  by (simp add: scope_eq)

lemma scope_idem: "scope (scope rs t) t = scope rs t"
  by (simp add: scope_eq)

lemma scope_sort: "scope (sort_desc_by key rs) t = sort_desc_by key (scope rs t)"
  by (simp add: scope_eq sort_desc_by_def filter_sort)

lemma scope_same: "sameTenant t u \<Longrightarrow> t \<noteq> [] \<Longrightarrow> u \<noteq> [] \<Longrightarrow> scope rs t = scope rs u"
  by (simp add: scope_eq sameTenant_def)

end

interpretation events: tenant_scoped evTenant filterEventsByTenant
  by unfold_locales (simp add: Let_def)
interpretation alerts: tenant_scoped alTenant filterAlertsByTenant
  by unfold_locales (simp add: Let_def)
interpretation actions: tenant_scoped raTenant filterActionsByTenant
  by unfold_locales (simp add: Let_def)
interpretation audits: tenant_scoped auTenant filterAuditsByTenant
  by unfold_locales (simp add: Let_def)
interpretation assets: tenant_scoped asTenant filterAssetsByTenant
  by unfold_locales (simp add: Let_def)

declare filterEventsByTenant.simps [simp del] filterAlertsByTenant.simps [simp del]
  filterActionsByTenant.simps [simp del] filterAuditsByTenant.simps [simp del]
  filterAssetsByTenant.simps [simp del]

section \<open>Cutoff filters\<close>

text \<open>The contract of the four retention filters: a record without a time stamp is never dropped.\<close>

locale cutoff_filter =
  fixes stamp :: "'r \<Rightarrow> time"
    and keep :: "'r list \<Rightarrow> time \<Rightarrow> 'r list"
  assumes keep_eq: "keep rs c = filter (\<lambda>r. stamp r = 0 \<or> c \<le> stamp r) rs"
begin

lemma keep_mem: "r \<in> set (keep rs c) \<longleftrightarrow> r \<in> set rs \<and> (stamp r = 0 \<or> c \<le> stamp r)"
  by (auto simp: keep_eq)

lemma keep_later: "c \<le> d \<Longrightarrow> keep (keep rs c) d = keep rs d"
  by (auto simp: keep_eq intro: filter_cong)

lemma keep_length_eq: "length (keep rs c) = length rs \<longleftrightarrow> keep rs c = rs"
  by (metis keep_eq filter_id_conv length_filter_less nat_neq_iff)

end

interpretation keep_events: cutoff_filter evTimestamp filterEventsByCutoff
  by unfold_locales (auto intro: filter_cong)
interpretation keep_alerts: cutoff_filter alCreatedAt filterAlertsByCutoff
  by unfold_locales (auto intro: filter_cong)
interpretation keep_actions: cutoff_filter raCreatedAt filterActionsByCutoff
  by unfold_locales (auto intro: filter_cong)
interpretation keep_audits: cutoff_filter auTimestamp filterAuditsByCutoff
  by unfold_locales (auto intro: filter_cong)

declare filterEventsByCutoff.simps [simp del] filterAlertsByCutoff.simps [simp del]
  filterActionsByCutoff.simps [simp del] filterAuditsByCutoff.simps [simp del]

section \<open>Fingerprints and labels\<close>

interpretation fingerprints: unique_collector alFingerprint "\<lambda>f. f \<noteq> []" addFingerprints
  by unfold_locales (simp_all add: add_new_def)

declare addFingerprints.simps [simp del]

interpretation labels: unique_collector "\<lambda>v. v" "\<lambda>_. True" "\<lambda>xs acc. merge acc xs"
  by unfold_locales (simp_all add: add_new_def)

declare merge.simps [simp del]

lemma cloneAssets_id [simp]: "cloneAssets m = m"
  by (simp add: cloneAssets_def case_prod_beta)

section \<open>The asset inventory\<close>

text \<open>A tenant name without the byte that separates it from the asset ID in the key.\<close>

definition plain_tenant :: "string \<Rightarrow> bool" where
  "plain_tenant t \<longleftrightarrow> CHR 0x00 \<notin> set (tenantOrDefault t)"

lemma split_at_first: "c \<notin> set a \<Longrightarrow> c \<notin> set b \<Longrightarrow> a @ c # x = b @ c # y \<longleftrightarrow> a = b \<and> x = y"
proof (induction a arbitrary: b)
  case Nil
  then show ?case by (cases b) auto
next
  case (Cons d a)
  then show ?case by (cases b) auto
qed

lemma assetKey_inj:
  "plain_tenant t \<Longrightarrow> plain_tenant u \<Longrightarrow> assetKey t i = assetKey u j \<longleftrightarrow> sameTenant t u \<and> i = j"
  unfolding assetKey_def plain_tenant_def sameTenant_def append_Cons append_Nil by (rule split_at_first)

text \<open>Every asset is held under the key of its tenant and ID.\<close>

definition assets_ok :: "store \<Rightarrow> bool" where
  "assets_ok s \<longleftrightarrow> gm_ok (stAssets s) \<and> (\<forall>(k, a) \<in> set (stAssets s).
     k = assetKey (asTenant a) (asID a) \<and> plain_tenant (asTenant a) \<and> asID a \<noteq> []
     \<and> distinct (asIPs a) \<and> distinct (asAgentSurface a) \<and> distinct (asLabels a) \<and> 0 \<le> asRiskScore a)"

lemma set_gm_put_subset: "set (gm_put k v m) \<subseteq> insert (k, v) (set m)"
  by (induction m) auto

lemma getAsset_cases: "getAsset k m = empty_asset \<or> (k, getAsset k m) \<in> set m"
  by (cases "gm_get m k") (auto simp: getAsset_def dest: map_of_SomeD)

lemma assetKey_default [simp]: "assetKey (tenantOrDefault t) i = assetKey t i"
  by (simp add: assetKey_def)

lemma plain_tenant_default [simp]: "plain_tenant (tenantOrDefault t) \<longleftrightarrow> plain_tenant t"
  by (simp add: plain_tenant_def)

lemma assets_ok_put:
  assumes "assets_ok s" "k = assetKey (asTenant a) (asID a)" "plain_tenant (asTenant a)" "asID a \<noteq> []"
    "distinct (asIPs a)" "distinct (asAgentSurface a)" "distinct (asLabels a)" "0 \<le> asRiskScore a"
  shows "assets_ok (s\<lparr>stAssets := gm_put k a (stAssets s)\<rparr>)"
  using assms set_gm_put_subset [of k a "stAssets s"] by (auto simp: assets_ok_def)

lemma assets_ok_get:
  assumes "assets_ok s"
  shows "distinct (asIPs (getAsset k (stAssets s)))" "distinct (asAgentSurface (getAsset k (stAssets s)))"
    "distinct (asLabels (getAsset k (stAssets s)))" "0 \<le> asRiskScore (getAsset k (stAssets s))"
  using getAsset_cases [of k "stAssets s"] assms by (auto simp: assets_ok_def empty_asset_def)

lemma assets_ok_upsert: "assets_ok s \<Longrightarrow> plain_tenant (evTenant ev) \<Longrightarrow> assets_ok (upsertAssetLocked ev s)"
  by (auto simp: upsertAssetLocked_def Let_def upsertedAsset_def assets_ok_get labels.collect_distinct
      intro!: assets_ok_put)

lemma assets_ok_raise: "assets_ok s \<Longrightarrow> plain_tenant (alTenant al) \<Longrightarrow> assets_ok (raiseAssetRiskLocked al s)"
  using Rank_bounds [of "alSeverity al"]
  by (auto simp: raiseAssetRiskLocked_def Let_def raisedAsset_def assets_ok_get intro!: assets_ok_put add_nonneg_nonneg)

lemma assets_ok_rebuild:
  assumes "\<forall>e \<in> set (stEvents s). plain_tenant (evTenant e)" "\<forall>a \<in> set (stAlerts s). plain_tenant (alTenant a)"
  shows "assets_ok (rebuildAssetsLocked s)"
proof -
  have "assets_ok (fold upsertAssetLocked evs t)" if "assets_ok t" "\<forall>e \<in> set evs. plain_tenant (evTenant e)" for evs t
    using that by (induction evs arbitrary: t) (auto simp: assets_ok_upsert)
  moreover have "assets_ok (fold raiseAssetRiskLocked als t)" if "assets_ok t" "\<forall>a \<in> set als. plain_tenant (alTenant a)" for als t
    using that by (induction als arbitrary: t) (auto simp: assets_ok_raise)
  moreover have "assets_ok (s\<lparr>stAssets := []\<rparr>)" by (simp add: assets_ok_def)
  ultimately show ?thesis
    using assms by (simp add: rebuildAssetsLocked_def)
qed

text \<open>What is put under one tenant's key does not show in another tenant's view.\<close>

lemma map_snd_gm_put_filter:
  assumes "\<forall>w. (k, w) \<in> set m \<longrightarrow> \<not> P w" "\<not> P v" "distinct (map fst m)"
  shows "filter P (map snd (gm_put k v m)) = filter P (map snd m)"
  using assms by (induction m) auto

lemma view_put_other:
  assumes "assets_ok s" "plain_tenant t" "\<not> sameTenant t u" "sameTenant (asTenant a) t"
  shows "filter (\<lambda>a. sameTenant (asTenant a) u) (map snd (gm_put (assetKey t i) a (stAssets s))) =
    filter (\<lambda>a. sameTenant (asTenant a) u) (map snd (stAssets s))"
proof (rule map_snd_gm_put_filter)
  show "distinct (map fst (stAssets s))"
    using assms(1) by (simp add: assets_ok_def gm_ok_def)
  show "\<not> sameTenant (asTenant a) u"
    using assms(3,4) by (simp add: sameTenant_def)
  show "\<forall>w. (assetKey t i, w) \<in> set (stAssets s) \<longrightarrow> \<not> sameTenant (asTenant w) u"
  proof (intro allI impI)
    fix w assume "(assetKey t i, w) \<in> set (stAssets s)"
    then have "assetKey t i = assetKey (asTenant w) (asID w)" "plain_tenant (asTenant w)"
      using assms(1) by (auto simp: assets_ok_def)
    then have "sameTenant t (asTenant w)"
      using assetKey_inj [OF assms(2)] by blast
    then show "\<not> sameTenant (asTenant w) u"
      using assms(3) by (simp add: sameTenant_def)
  qed
qed

lemma asset_tenants:
  "sameTenant (asTenant (upsertedAsset ev a)) (evTenant ev)" "sameTenant (asTenant (raisedAsset al a)) (alTenant al)"
  by (simp_all add: upsertedAsset_def raisedAsset_def Let_def sameTenant_def)

lemma upsert_view_other:
  assumes "assets_ok s" "plain_tenant (evTenant ev)" "\<not> sameTenant (evTenant ev) u"
  shows "filter (\<lambda>a. sameTenant (asTenant a) u) (map snd (stAssets (upsertAssetLocked ev s))) =
    filter (\<lambda>a. sameTenant (asTenant a) u) (map snd (stAssets s))"
  using view_put_other [OF assms asset_tenants(1)] by (simp add: upsertAssetLocked_def Let_def)

lemma raise_view_other:
  assumes "assets_ok s" "plain_tenant (alTenant al)" "\<not> sameTenant (alTenant al) u"
  shows "filter (\<lambda>a. sameTenant (asTenant a) u) (map snd (stAssets (raiseAssetRiskLocked al s))) =
    filter (\<lambda>a. sameTenant (asTenant a) u) (map snd (stAssets s))"
  using view_put_other [OF assms asset_tenants(2)] by (simp add: raiseAssetRiskLocked_def Let_def)

text \<open>
  The assets of one tenant. They develop by themselves: an operation on another tenant's record leaves
  them alone, and one on the tenant's own record does to them what it does to the whole inventory.
\<close>

definition tenantAssets :: "string \<Rightarrow> store \<Rightarrow> (string, asset) gomap" where
  "tenantAssets u s = filter (\<lambda>(k, a). sameTenant (asTenant a) u) (stAssets s)"

lemma tenantAssets_view: "map snd (tenantAssets u s) = filter (\<lambda>a. sameTenant (asTenant a) u) (map snd (stAssets s))"
  by (simp add: tenantAssets_def filter_map o_def split_def)

lemma filter_gm_put_out:
  assumes "\<forall>w. (k, w) \<in> set m \<longrightarrow> \<not> P w" "\<not> P v"
  shows "filter (\<lambda>(k, a). P a) (gm_put k v m) = filter (\<lambda>(k, a). P a) m"
  using assms by (induction m) auto

lemma filter_gm_put_in:
  assumes "\<forall>w. (k, w) \<in> set m \<longrightarrow> P w" "P v"
  shows "filter (\<lambda>(k, a). P a) (gm_put k v m) = gm_put k v (filter (\<lambda>(k, a). P a) m)"
  using assms by (induction m) auto

lemma gm_get_filter_in:
  assumes "\<forall>w. (k, w) \<in> set m \<longrightarrow> P w"
  shows "gm_get (filter (\<lambda>(k, a). P a) m) k = gm_get m k"
  using assms by (induction m) auto

lemma assets_ok_key:
  assumes "assets_ok s" "plain_tenant t" "(assetKey t i, w) \<in> set (stAssets s)"
  shows "sameTenant (asTenant w) t"
proof -
  have "assetKey t i = assetKey (asTenant w) (asID w)" "plain_tenant (asTenant w)"
    using assms(1,3) by (auto simp: assets_ok_def)
  then show ?thesis
    using assetKey_inj [OF assms(2)] by (simp add: sameTenant_def)
qed

lemma tenantAssets_put:
  assumes "assets_ok s" "plain_tenant t" "sameTenant (asTenant a) t"
  shows "tenantAssets u (s\<lparr>stAssets := gm_put (assetKey t i) a (stAssets s)\<rparr>) =
      (if sameTenant t u then gm_put (assetKey t i) a (tenantAssets u s) else tenantAssets u s)"
    and "sameTenant t u \<Longrightarrow> getAsset (assetKey t i) (tenantAssets u s) = getAsset (assetKey t i) (stAssets s)"
proof -
  have key: "sameTenant (asTenant w) u \<longleftrightarrow> sameTenant t u" if "(assetKey t i, w) \<in> set (stAssets s)" for w
    using assets_ok_key [OF assms(1,2) that] by (simp add: sameTenant_def)
  have "sameTenant (asTenant a) u \<longleftrightarrow> sameTenant t u"
    using assms(3) by (simp add: sameTenant_def)
  then show "tenantAssets u (s\<lparr>stAssets := gm_put (assetKey t i) a (stAssets s)\<rparr>) =
      (if sameTenant t u then gm_put (assetKey t i) a (tenantAssets u s) else tenantAssets u s)"
    using key filter_gm_put_in [of "assetKey t i" "stAssets s" "\<lambda>a. sameTenant (asTenant a) u" a]
      filter_gm_put_out [of "assetKey t i" "stAssets s" "\<lambda>a. sameTenant (asTenant a) u" a]
    by (auto simp: tenantAssets_def)
  show "getAsset (assetKey t i) (tenantAssets u s) = getAsset (assetKey t i) (stAssets s)" if "sameTenant t u"
    using that key gm_get_filter_in [of "assetKey t i" "stAssets s" "\<lambda>a. sameTenant (asTenant a) u"]
    by (simp add: tenantAssets_def getAsset_def)
qed

lemma tenantAssets_upsert:
  assumes "assets_ok s" "plain_tenant (evTenant ev)"
  shows "tenantAssets u (upsertAssetLocked ev s) =
    (if sameTenant (evTenant ev) u then stAssets (upsertAssetLocked ev (s\<lparr>stAssets := tenantAssets u s\<rparr>)) else tenantAssets u s)"
  using tenantAssets_put [OF assms asset_tenants(1)] by (simp add: upsertAssetLocked_def Let_def)

lemma tenantAssets_raise:
  assumes "assets_ok s" "plain_tenant (alTenant al)"
  shows "tenantAssets u (raiseAssetRiskLocked al s) =
    (if sameTenant (alTenant al) u then stAssets (raiseAssetRiskLocked al (s\<lparr>stAssets := tenantAssets u s\<rparr>)) else tenantAssets u s)"
  using tenantAssets_put [OF assms asset_tenants(2)] by (simp add: raiseAssetRiskLocked_def Let_def)

text \<open>The asset operations touch nothing else.\<close>

lemma upsert_frame: "upsertAssetLocked ev s = s\<lparr>stAssets := stAssets (upsertAssetLocked ev s)\<rparr>"
  by (simp add: upsertAssetLocked_def Let_def)

lemma raise_frame: "raiseAssetRiskLocked al s = s\<lparr>stAssets := stAssets (raiseAssetRiskLocked al s)\<rparr>"
  by (simp add: raiseAssetRiskLocked_def Let_def)

text \<open>The operations read nothing of the store but its assets.\<close>

lemma upsert_assets_only: "stAssets s = stAssets t \<Longrightarrow> stAssets (upsertAssetLocked ev s) = stAssets (upsertAssetLocked ev t)"
  by (simp add: upsertAssetLocked_def Let_def)

lemma raise_assets_only: "stAssets s = stAssets t \<Longrightarrow> stAssets (raiseAssetRiskLocked al s) = stAssets (raiseAssetRiskLocked al t)"
  by (simp add: raiseAssetRiskLocked_def Let_def)

lemma fold_upsert_tenant:
  assumes "assets_ok s" "\<forall>e \<in> set evs. plain_tenant (evTenant e)" "stAssets t = tenantAssets u s"
  shows "assets_ok (fold upsertAssetLocked evs s)
    \<and> stAssets (fold upsertAssetLocked (filter (\<lambda>e. sameTenant (evTenant e) u) evs) t) = tenantAssets u (fold upsertAssetLocked evs s)"
  using assms
proof (induction evs arbitrary: s t)
  case (Cons e evs)
  have "stAssets (upsertAssetLocked e t) = stAssets (upsertAssetLocked e (s\<lparr>stAssets := tenantAssets u s\<rparr>))"
    by (rule upsert_assets_only) (simp add: Cons.prems)
  then show ?case
    using Cons.IH [of "upsertAssetLocked e s" "upsertAssetLocked e t"] Cons.IH [of "upsertAssetLocked e s" t] Cons.prems
    by (auto simp: tenantAssets_upsert assets_ok_upsert)
qed simp

lemma fold_raise_tenant:
  assumes "assets_ok s" "\<forall>a \<in> set als. plain_tenant (alTenant a)" "stAssets t = tenantAssets u s"
  shows "stAssets (fold raiseAssetRiskLocked (filter (\<lambda>a. sameTenant (alTenant a) u) als) t) = tenantAssets u (fold raiseAssetRiskLocked als s)"
  using assms
proof (induction als arbitrary: s t)
  case (Cons a als)
  have "stAssets (raiseAssetRiskLocked a t) = stAssets (raiseAssetRiskLocked a (s\<lparr>stAssets := tenantAssets u s\<rparr>))"
    by (rule raise_assets_only) (simp add: Cons.prems)
  then show ?case
    using Cons.IH [of "raiseAssetRiskLocked a s" "raiseAssetRiskLocked a t"] Cons.IH [of "raiseAssetRiskLocked a s" t] Cons.prems
    by (auto simp: tenantAssets_raise assets_ok_raise)
qed simp

text \<open>A tenant's part of a rebuilt inventory is the inventory rebuilt from the tenant's own records.\<close>

definition inventoryOf :: "event list \<Rightarrow> alert list \<Rightarrow> (string, asset) gomap" where
  "inventoryOf evs als = stAssets (rebuildAssetsLocked (NewStore\<lparr>stEvents := evs, stAlerts := als\<rparr>))"

lemma rebuild_tenant:
  assumes "\<forall>e \<in> set (stEvents s). plain_tenant (evTenant e)" "\<forall>a \<in> set (stAlerts s). plain_tenant (alTenant a)"
  shows "tenantAssets u (rebuildAssetsLocked s) =
    inventoryOf (filter (\<lambda>e. sameTenant (evTenant e) u) (stEvents s)) (filter (\<lambda>a. sameTenant (alTenant a) u) (stAlerts s))"
proof -
  let ?evs = "filter (\<lambda>e. sameTenant (evTenant e) u) (stEvents s)"
  let ?als = "filter (\<lambda>a. sameTenant (alTenant a) u) (stAlerts s)"
  let ?t = "NewStore\<lparr>stEvents := ?evs, stAlerts := ?als, stAssets := []\<rparr>"
  have empty: "assets_ok (s\<lparr>stAssets := []\<rparr>)" by (simp add: assets_ok_def)
  have "stAssets ?t = tenantAssets u (s\<lparr>stAssets := []\<rparr>)" by (simp add: tenantAssets_def)
  from fold_upsert_tenant [OF empty assms(1) this]
  have ok: "assets_ok (fold upsertAssetLocked (stEvents s) (s\<lparr>stAssets := []\<rparr>))"
    and view: "stAssets (fold upsertAssetLocked ?evs ?t) = tenantAssets u (fold upsertAssetLocked (stEvents s) (s\<lparr>stAssets := []\<rparr>))"
    by blast+
  show ?thesis
    using fold_raise_tenant [OF ok assms(2) view] by (simp add: inventoryOf_def rebuildAssetsLocked_def)
qed

end
