(* ===== verification/AuditChain.thy ===== *)
theory AuditChain
  imports StoreState
begin

text \<open>
  \<open>internal/store/audit_chain.go\<close>: the hash chain over the audit records and its anchor. The locale
  states what any chain of records linked by a digest gives (extension, tamper evidence), and the
  interpretation discharges it for the audit records and their hash.
\<close>

section \<open>Definitions\<close>

record audit_chain_snapshot =
  acTotal :: int
  acLinked :: int
  acUnlinked :: int
  acHead :: string
  acPrevious :: string
  acValid :: bool
  acAnchor :: string
  acAnchored :: bool
  acLastAuditID :: string
  acLastTimestamp :: time

definition canonicalMetadata :: "string_map \<Rightarrow> string" where
  "canonicalMetadata m = (if m = [] then [] else Join (metadata_parts m) '';'')"

text \<open>The bytes that \<open>auditEventHash\<close> writes to its builder.\<close>

definition auditMessage :: "audit_event \<Rightarrow> string \<Rightarrow> string" where
  "auditMessage ev prevHash = prevHash @ ''|'' @ auID ev @ ''|'' @ RFC3339Nano (auTimestamp ev) @ ''|''
     @ auActor ev @ ''|'' @ Join (auRoles ev) '','' @ ''|'' @ auAction ev @ ''|'' @ auResourceType ev @ ''|''
     @ auResourceID ev @ ''|'' @ auOutcome ev @ ''|'' @ auSourceIP ev @ ''|'' @ auUserAgent ev @ ''|''
     @ canonicalMetadata (auMetadata ev)"

definition auditEventHash :: "runtime \<Rightarrow> audit_event \<Rightarrow> string \<Rightarrow> string" where
  "auditEventHash rt ev prevHash = hex_encode (rt_sha256 rt (auditMessage ev prevHash))"

definition auditChainAnchorKey :: "runtime \<Rightarrow> host_os \<Rightarrow> string" where
  "auditChainAnchorKey rt os =
     (let secret = TrimSpace (osEnv os ''OATD_AUDIT_HMAC_SECRET'');
          session = TrimSpace (osEnv os ''OATD_SESSION_SECRET'') in
      if secret \<noteq> [] then secret
      else if session \<noteq> [] then rt_hmac rt session ''oatd-audit-chain-anchor-v1''
      else [])"

definition auditChainAnchorValue :: "runtime \<Rightarrow> host_os \<Rightarrow> string \<Rightarrow> int \<Rightarrow> bool \<Rightarrow> string" where
  "auditChainAnchorValue rt os head chainIndex valid =
     (let key = auditChainAnchorKey rt os in
      if key = [] then []
      else hex_encode (rt_hmac rt key (head @ ''|'' @ Itoa chainIndex @ ''|'' @ (if valid then ''true'' else ''false''))))"

definition finalizeAuditChainSnapshot :: "audit_chain_snapshot \<Rightarrow> audit_chain_snapshot" where
  "finalizeAuditChainSnapshot snap =
     (let linked = (if acLinked snap < 0 then 0 else acLinked snap);
          linked = (if acTotal snap < linked then acTotal snap else linked);
          unlinked = acTotal snap - linked
      in snap\<lparr>acLinked := linked, acUnlinked := unlinked, acValid := acValid snap \<and> \<not> 0 < unlinked\<rparr>)"

definition prepareAuditChainLocked ::
  "runtime \<Rightarrow> host_os \<Rightarrow> audit_event \<Rightarrow> store \<Rightarrow> audit_event \<times> store" where
  "prepareAuditChainLocked rt os ev s =
     (let index = int (length (stAudits s)) + 1;
          ev = ev\<lparr>auChainIndex := index, auPrevHash := stAuditChainHead s\<rparr>;
          h = auditEventHash rt ev (auPrevHash ev);
          ev = ev\<lparr>auHash := h\<rparr>;
          anchor = auditChainAnchorValue rt os h index True
      in (ev, s\<lparr>stAuditChainHead := h, stAuditChainAnchor := anchor, stAuditChainValid := anchor \<noteq> []\<rparr>))"

text \<open>The loop of \<open>rebuildAuditChainLocked\<close>: head (which equals \<open>previous\<close>), linked, valid.\<close>

fun rebuildLoop :: "runtime \<Rightarrow> audit_event list \<Rightarrow> string \<Rightarrow> int \<Rightarrow> bool \<Rightarrow> string \<times> int \<times> bool" where
  "rebuildLoop rt [] previous linked valid = (previous, linked, valid)"
| "rebuildLoop rt (audit # audits) previous linked valid =
     (if TrimSpace (auHash audit) = [] then rebuildLoop rt audits previous linked valid
      else rebuildLoop rt audits (auHash audit)
        (if auChainIndex audit = 0 then linked + 1 else auChainIndex audit)
        (valid \<and> auPrevHash audit = previous \<and> auHash audit = auditEventHash rt audit (auPrevHash audit)))"

definition rebuildAuditChainLocked :: "runtime \<Rightarrow> host_os \<Rightarrow> store \<Rightarrow> store" where
  "rebuildAuditChainLocked rt os s =
     (let (head, linked, valid) = rebuildLoop rt (stAudits s) [] 0 True;
          anchor = auditChainAnchorValue rt os head linked valid
      in s\<lparr>stAuditChainHead := head, stAuditChainAnchor := anchor,
           stAuditChainValid := valid \<and> (length (stAudits s) = 0 \<or> anchor \<noteq> [])\<rparr>)"

definition auditChainSnapshotLocked :: "store \<Rightarrow> audit_chain_snapshot" where
  "auditChainSnapshotLocked s =
     (let linked = filter (\<lambda>a. TrimSpace (auHash a) \<noteq> []) (stAudits s);
          at_head = filter (\<lambda>a. auHash a = stAuditChainHead s) linked;
          lst = (if at_head = [] then None else Some (last at_head));
          total = int (length (stAudits s));
          empty_head = (stAuditChainHead s = [])
      in \<lparr> acTotal = total, acLinked = int (length linked), acUnlinked = 0, acHead = stAuditChainHead s,
           acPrevious = (case lst of None \<Rightarrow> [] | Some a \<Rightarrow> auPrevHash a),
           acValid = (if empty_head then total = 0 else stAuditChainValid s),
           acAnchor = stAuditChainAnchor s,
           acAnchored = (if empty_head then False else stAuditChainAnchor s \<noteq> []),
           acLastAuditID = (case lst of None \<Rightarrow> [] | Some a \<Rightarrow> auID a),
           acLastTimestamp = (case lst of None \<Rightarrow> 0 | Some a \<Rightarrow> auTimestamp a) \<rparr>)"

definition AuditChain :: "store \<Rightarrow> audit_chain_snapshot" where
  "AuditChain s = finalizeAuditChainSnapshot (auditChainSnapshotLocked s)"

fun tenantLoop :: "runtime \<Rightarrow> audit_event list \<Rightarrow> audit_chain_snapshot \<Rightarrow> audit_chain_snapshot" where
  "tenantLoop rt [] snap = snap"
| "tenantLoop rt (audit # audits) snap =
     (if TrimSpace (auHash audit) = [] then tenantLoop rt audits snap
      else tenantLoop rt audits (snap\<lparr>acLinked := acLinked snap + 1,
        acValid := acValid snap \<and> auPrevHash audit = acHead snap
          \<and> auHash audit = auditEventHash rt audit (auPrevHash audit),
        acHead := auHash audit, acLastAuditID := auID audit, acLastTimestamp := auTimestamp audit\<rparr>))"

definition auditChainSnapshotForTenantLocked ::
  "runtime \<Rightarrow> host_os \<Rightarrow> string \<Rightarrow> store \<Rightarrow> audit_chain_snapshot" where
  "auditChainSnapshotForTenantLocked rt os tenant s =
     (let filtered = filter (\<lambda>a. sameTenant (auTenant a) (tenantOrDefault tenant)) (stAudits s);
          snap = tenantLoop rt filtered \<lparr> acTotal = int (length filtered), acLinked = 0, acUnlinked = 0,
            acHead = [], acPrevious = [], acValid = True, acAnchor = [], acAnchored = False,
            acLastAuditID = [], acLastTimestamp = 0 \<rparr>;
          valid = (if acHead snap = [] then acTotal snap = 0 else acValid snap);
          anchor = auditChainAnchorValue rt os (acHead snap) (acLinked snap) valid;
          anchored = (anchor \<noteq> [])
      in snap\<lparr>acAnchor := anchor, acAnchored := anchored,
              acValid := (if 0 < acTotal snap then valid \<and> anchored else valid)\<rparr>)"

definition AuditChainForTenant :: "runtime \<Rightarrow> host_os \<Rightarrow> string \<Rightarrow> store \<Rightarrow> audit_chain_snapshot" where
  "AuditChainForTenant rt os tenant s = finalizeAuditChainSnapshot (auditChainSnapshotForTenantLocked rt os tenant s)"

section \<open>Chains of digests\<close>

fun linked_chain :: "('r \<Rightarrow> string \<Rightarrow> string) \<Rightarrow> ('r \<Rightarrow> string) \<Rightarrow> ('r \<Rightarrow> string) \<Rightarrow> string \<Rightarrow> 'r list \<Rightarrow> bool" where
  "linked_chain digest prev_of hash_of p [] \<longleftrightarrow> True"
| "linked_chain digest prev_of hash_of p (r # rs) \<longleftrightarrow>
     prev_of r = p \<and> hash_of r = digest r p \<and> linked_chain digest prev_of hash_of (hash_of r) rs"

definition chain_head :: "('r \<Rightarrow> string) \<Rightarrow> string \<Rightarrow> 'r list \<Rightarrow> string" where
  "chain_head hash_of p rs = (if rs = [] then p else hash_of (last rs))"

locale hash_chain =
  fixes message :: "'r \<Rightarrow> string \<Rightarrow> string"
    and digest :: "'r \<Rightarrow> string \<Rightarrow> string"
    and prev_of :: "'r \<Rightarrow> string"
    and hash_of :: "'r \<Rightarrow> string"
    and clean :: "string \<Rightarrow> bool"
  assumes message_prev: "message r p = message r' p' \<Longrightarrow> clean p \<Longrightarrow> clean p' \<Longrightarrow> p = p'"
    and clean_digest: "clean (digest r p)"
    and clean_start: "clean []"
begin

lemma chain_snoc:
  "linked_chain digest prev_of hash_of p (rs @ [r]) \<longleftrightarrow> linked_chain digest prev_of hash_of p rs
     \<and> prev_of r = chain_head hash_of p rs \<and> hash_of r = digest r (chain_head hash_of p rs)"
  by (induction rs arbitrary: p) (auto simp: chain_head_def)

lemma chain_head_clean: "linked_chain digest prev_of hash_of [] rs \<Longrightarrow> clean (chain_head hash_of [] rs)"
  by (cases rs rule: rev_cases) (auto simp: chain_head_def clean_start chain_snoc clean_digest)

lemma chain_head_nonempty:
  assumes "linked_chain digest prev_of hash_of [] rs" "rs \<noteq> []" "\<And>r p. digest r p \<noteq> []"
  shows "chain_head hash_of [] rs \<noteq> []"
  using assms by (cases rs rule: rev_cases) (auto simp: chain_snoc chain_head_def)

text \<open>
  Two chains with the same head have the same messages, when the digest has no collision among the
  messages at hand and is never the empty start value.
\<close>

lemma chain_tamper_evident:
  assumes "linked_chain digest prev_of hash_of [] xs" "linked_chain digest prev_of hash_of [] ys"
    and "chain_head hash_of [] xs = chain_head hash_of [] ys"
    and "\<And>r p. digest r p \<noteq> []"
    and "\<And>r r'. r \<in> set xs \<Longrightarrow> r' \<in> set ys \<Longrightarrow> digest r (prev_of r) = digest r' (prev_of r') \<Longrightarrow>
      message r (prev_of r) = message r' (prev_of r')"
  shows "map (\<lambda>r. message r (prev_of r)) xs = map (\<lambda>r. message r (prev_of r)) ys"
  using assms(1-3) assms(5)
proof (induction xs arbitrary: ys rule: rev_induct)
  case Nil
  then show ?case
    using chain_head_nonempty [OF Nil.prems(2) _ assms(4)] by (auto simp: chain_head_def split: if_splits)
next
  case (snoc x xs)
  have "chain_head hash_of [] (xs @ [x]) \<noteq> []"
    by (rule chain_head_nonempty [OF snoc.prems(1) _ assms(4)]) simp
  then have "ys \<noteq> []"
    using snoc.prems(3) by (auto simp: chain_head_def)
  then obtain y ys' where ys: "ys = ys' @ [y]"
    by (metis rev_exhaust)
  have x: "linked_chain digest prev_of hash_of [] xs" "prev_of x = chain_head hash_of [] xs" "hash_of x = digest x (prev_of x)"
    and y: "linked_chain digest prev_of hash_of [] ys'" "prev_of y = chain_head hash_of [] ys'" "hash_of y = digest y (prev_of y)"
    using snoc.prems(1,2) by (simp_all add: ys chain_snoc)
  have "digest x (prev_of x) = digest y (prev_of y)"
    using snoc.prems(3) x(3) y(3) by (simp add: ys chain_head_def)
  then have eq: "message x (prev_of x) = message y (prev_of y)"
    using snoc.prems(4) by (simp add: ys)
  then have "prev_of x = prev_of y"
    using message_prev chain_head_clean x(1,2) y(1,2) by metis
  then have "map (\<lambda>r. message r (prev_of r)) xs = map (\<lambda>r. message r (prev_of r)) ys'"
    using snoc.IH [OF x(1) y(1)] snoc.prems(4) x(2) y(2) by (simp add: ys)
  with eq show ?case by (simp add: ys)
qed

end

definition no_bar :: "string \<Rightarrow> bool" where
  "no_bar s \<longleftrightarrow> CHR ''|'' \<notin> set s"

lemma hex_encode_bytes: "c \<in> set (hex_encode s) \<Longrightarrow> byte c \<le> 102"
proof (induction s)
  case (Cons d s)
  have "byte (hex_digit n) \<le> 102" if "n < 16" for n
    using that by (simp add: hex_digit_def)
  moreover have "byte d < 256" by simp
  then have "byte d div 16 < 16" "byte d mod 16 < 16" by linarith simp
  ultimately show ?case using Cons by auto
qed simp

lemma hex_encode_no_bar: "no_bar (hex_encode s)"
  unfolding no_bar_def using hex_encode_bytes [of "CHR ''|''" s] by auto

interpretation audit_chain: hash_chain auditMessage "auditEventHash rt" auPrevHash auHash no_bar
proof
  fix r r' p p'
  assume eq: "auditMessage r p = auditMessage r' p'" and bars: "no_bar p" "no_bar p'"
  from eq obtain x y where "p @ CHR ''|'' # x = p' @ CHR ''|'' # y"
    unfolding auditMessage_def append_Cons append_Nil by blast
  with bars show "p = p'"
    unfolding no_bar_def using split_at_first [of "CHR ''|''" p p' x y] by simp
next
  fix r p
  show "no_bar (auditEventHash rt r p)"
    unfolding auditEventHash_def by (rule hex_encode_no_bar)
qed (simp add: no_bar_def)

section \<open>The store's chain\<close>

text \<open>What the program relies on of SHA-256 and HMAC: a digest of 32 bytes.\<close>

definition digests_32 :: "runtime \<Rightarrow> bool" where
  "digests_32 rt \<longleftrightarrow> (\<forall>m. length (rt_sha256 rt m) = 32) \<and> (\<forall>k m. length (rt_hmac rt k m) = 32)"

lemma hex_encode_nonempty: "s \<noteq> [] \<Longrightarrow> hex_encode s \<noteq> []"
  by (cases s) auto

lemma auditEventHash_nonblank: "digests_32 rt \<Longrightarrow> TrimSpace (auditEventHash rt ev p) \<noteq> [] \<and> auditEventHash rt ev p \<noteq> []"
proof -
  assume "digests_32 rt"
  then have "length (rt_sha256 rt (auditMessage ev p)) = 32"
    by (simp add: digests_32_def)
  then have "auditEventHash rt ev p \<noteq> []"
    unfolding auditEventHash_def by (intro hex_encode_nonempty) auto
  moreover have "TrimSpace (auditEventHash rt ev p) = auditEventHash rt ev p"
    unfolding auditEventHash_def by (rule TrimSpace_visible [OF hex_encode_visible])
  ultimately show ?thesis by simp
qed

lemma anchor_nonempty:
  "digests_32 rt \<Longrightarrow> auditChainAnchorValue rt os h i v \<noteq> [] \<longleftrightarrow> auditChainAnchorKey rt os \<noteq> []"
proof -
  assume "digests_32 rt"
  then have "rt_hmac rt k m \<noteq> []" for k m
    by (metis digests_32_def list.size(3) zero_neq_numeral)
  then show ?thesis
    by (simp add: auditChainAnchorValue_def Let_def hex_encode_nonempty)
qed

lemma auditMessage_chain_fields [simp]:
  "auditMessage (ev\<lparr>auChainIndex := i\<rparr>) p = auditMessage ev p"
  "auditMessage (ev\<lparr>auPrevHash := q\<rparr>) p = auditMessage ev p"
  "auditMessage (ev\<lparr>auHash := h\<rparr>) p = auditMessage ev p"
  "auditMessage (ev\<lparr>auTenant := t\<rparr>) p = auditMessage ev p"
  by (simp_all add: auditMessage_def)

lemma auditEventHash_chain_fields [simp]:
  "auditEventHash rt (ev\<lparr>auChainIndex := i\<rparr>) p = auditEventHash rt ev p"
  "auditEventHash rt (ev\<lparr>auPrevHash := q\<rparr>) p = auditEventHash rt ev p"
  "auditEventHash rt (ev\<lparr>auHash := h\<rparr>) p = auditEventHash rt ev p"
  "auditEventHash rt (ev\<lparr>auTenant := t\<rparr>) p = auditEventHash rt ev p"
  by (simp_all add: auditEventHash_def)

abbreviation audits_linked :: "runtime \<Rightarrow> string \<Rightarrow> audit_event list \<Rightarrow> bool" where
  "audits_linked rt \<equiv> linked_chain (auditEventHash rt) auPrevHash auHash"

text \<open>The chain is linked from the start, its indices count up from 1, and the store knows its head.\<close>

definition chain_ok :: "runtime \<Rightarrow> store \<Rightarrow> bool" where
  "chain_ok rt s \<longleftrightarrow> audits_linked rt [] (stAudits s)
     \<and> map auChainIndex (stAudits s) = map (\<lambda>i. int i + 1) [0..<length (stAudits s)]
     \<and> stAuditChainHead s = chain_head auHash [] (stAudits s)"

text \<open>What the store keeps about the chain is what a rebuild would compute.\<close>

definition chain_inv :: "runtime \<Rightarrow> host_os \<Rightarrow> store \<Rightarrow> bool" where
  "chain_inv rt os s \<longleftrightarrow> chain_ok rt s \<and>
     (stAudits s \<noteq> [] \<longrightarrow> stAuditChainAnchor s =
        auditChainAnchorValue rt os (stAuditChainHead s) (int (length (stAudits s))) True
        \<and> stAuditChainValid s = (stAuditChainAnchor s \<noteq> []))"

lemma chain_ok_new: "chain_ok rt NewStore"
  by (simp add: chain_ok_def NewStore_def chain_head_def)

lemma chain_inv_prepare:
  assumes "chain_ok rt s" "prepareAuditChainLocked rt os ev s = (ev', s')"
  shows "chain_inv rt os (s'\<lparr>stAudits := stAudits s @ [ev']\<rparr>)" "stAudits s' = stAudits s"
proof -
  let ?h = "auditEventHash rt ev (stAuditChainHead s)"
  have ev': "ev' = ev\<lparr>auChainIndex := int (length (stAudits s)) + 1, auPrevHash := stAuditChainHead s, auHash := ?h\<rparr>"
    and s': "s' = s\<lparr>stAuditChainHead := ?h,
      stAuditChainAnchor := auditChainAnchorValue rt os ?h (int (length (stAudits s)) + 1) True,
      stAuditChainValid := auditChainAnchorValue rt os ?h (int (length (stAudits s)) + 1) True \<noteq> []\<rparr>"
    using assms(2) by (simp_all add: prepareAuditChainLocked_def Let_def)
  have "chain_ok rt (s'\<lparr>stAudits := stAudits s @ [ev']\<rparr>)"
    using assms(1) by (simp add: chain_ok_def audit_chain.chain_snoc ev' s' chain_head_def)
  then show "chain_inv rt os (s'\<lparr>stAudits := stAudits s @ [ev']\<rparr>)"
    by (simp add: chain_inv_def s' add.commute)
  show "stAudits s' = stAudits s" by (simp add: s')
qed

lemma rebuildLoop_linked:
  assumes "digests_32 rt" "audits_linked rt p as" "\<forall>a \<in> set as. auChainIndex a \<noteq> 0"
  shows "rebuildLoop rt as p k True =
    (chain_head auHash p as, if as = [] then k else auChainIndex (last as), True)"
  using assms(2,3)
proof (induction as arbitrary: p k)
  case (Cons a as)
  then have "TrimSpace (auHash a) \<noteq> []"
    using auditEventHash_nonblank [OF assms(1)] by simp
  with Cons show ?case by (auto simp: chain_head_def)
qed (simp add: chain_head_def)

lemma rebuild_chain:
  assumes "digests_32 rt" "chain_ok rt s"
  shows "rebuildLoop rt (stAudits s) [] 0 True = (stAuditChainHead s, int (length (stAudits s)), True)"
proof -
  have idx: "auChainIndex (stAudits s ! i) = int i + 1" if "i < length (stAudits s)" for i
    using assms(2) that unfolding chain_ok_def by (metis (no_types, lifting) add_0 length_map length_upt map_upt_eqI minus_nat.diff_0 nth_map nth_upt)
  then have "\<forall>a \<in> set (stAudits s). auChainIndex a \<noteq> 0"
    by (metis in_set_conv_nth of_nat_0_le_iff add_nonneg_pos less_irrefl zero_less_one)
  moreover have "auChainIndex (last (stAudits s)) = int (length (stAudits s))" if "stAudits s \<noteq> []"
    using idx [of "length (stAudits s) - 1"] that last_conv_nth [OF that] by (cases "length (stAudits s)") auto
  ultimately show ?thesis
    using rebuildLoop_linked [OF assms(1), of "[]" "stAudits s" 0] assms(2) by (auto simp: chain_ok_def)
qed

lemma rebuild_fixpoint:
  assumes "digests_32 rt" "chain_inv rt os s" "stAudits s \<noteq> []"
  shows "rebuildAuditChainLocked rt os s = s"
  using assms rebuild_chain [OF assms(1), of s] by (simp add: rebuildAuditChainLocked_def chain_inv_def Let_def)

text \<open>Every linked record counts in the snapshot.\<close>

lemma chain_all_linked:
  assumes "digests_32 rt" "audits_linked rt p as" "a \<in> set as"
  shows "TrimSpace (auHash a) \<noteq> []"
  using assms(2,3) auditEventHash_nonblank [OF assms(1)] by (induction as arbitrary: p) auto

section \<open>Properties\<close>

text \<open>C9: whoever holds the head of the chain notices a change. Two linked chains of audit records with
  the same head have the same canonical content record by record, provided SHA-256 has no collision
  among the messages of the two chains.\<close>

theorem audit_chain_tamper_evident:
  assumes "digests_32 rt"
    and "audits_linked rt [] xs" "audits_linked rt [] ys"
    and "chain_head auHash [] xs = chain_head auHash [] ys"
    and "\<And>r r'. r \<in> set xs \<Longrightarrow> r' \<in> set ys \<Longrightarrow>
      rt_sha256 rt (auditMessage r (auPrevHash r)) = rt_sha256 rt (auditMessage r' (auPrevHash r')) \<Longrightarrow>
      auditMessage r (auPrevHash r) = auditMessage r' (auPrevHash r')"
  shows "length xs = length ys
    \<and> map (\<lambda>r. auditMessage r (auPrevHash r)) xs = map (\<lambda>r. auditMessage r (auPrevHash r)) ys"
proof -
  have inj: "a = b" if "hex_encode a = hex_encode b" for a b
    using that hex_decode_encode by (metis option.inject)
  have "map (\<lambda>r. auditMessage r (auPrevHash r)) xs = map (\<lambda>r. auditMessage r (auPrevHash r)) ys"
  proof (rule audit_chain.chain_tamper_evident [OF assms(2-4)])
    show "auditEventHash rt r p \<noteq> []" for r p
      using auditEventHash_nonblank [OF assms(1)] by blast
    show "auditMessage r (auPrevHash r) = auditMessage r' (auPrevHash r')"
      if "r \<in> set xs" "r' \<in> set ys" "auditEventHash rt r (auPrevHash r) = auditEventHash rt r' (auPrevHash r')" for r r'
      using assms(5) [OF that(1,2)] that(3) inj unfolding auditEventHash_def by blast
  qed
  then show ?thesis
    by (metis length_map)
qed

text \<open>A runtime with 32-byte digests, and a record with its copy under another tenant.\<close>

definition digest_runtime :: runtime where
  "digest_runtime = ascii_runtime\<lparr>rt_sha256 := (\<lambda>m. take 32 (m @ replicate 32 (CHR 0x00))),
     rt_hmac := (\<lambda>k m. take 32 (k @ m @ replicate 32 (CHR 0x00)))\<rparr>"

lemma digest_runtime_32: "digests_32 digest_runtime"
  by (auto simp: digests_32_def digest_runtime_def min_def)

definition sample_audit :: "string \<Rightarrow> audit_event" where
  "sample_audit t = \<lparr> auID = ''a1'', auTimestamp = 0, auTenant = t, auChainIndex = 0, auPrevHash = [], auHash = [],
     auActor = ''admin'', auRoles = [''admin''], auAction = ''login'', auResourceType = [], auResourceID = [],
     auOutcome = ''ok'', auSourceIP = [], auUserAgent = [], auMetadata = [] \<rparr>"

definition sample_linked :: "string \<Rightarrow> audit_event" where
  "sample_linked t = (sample_audit t)\<lparr>auHash := auditEventHash digest_runtime (sample_audit t) []\<rparr>"

lemma sample_linked_facts:
  "auPrevHash (sample_linked t) = []" "auditMessage (sample_linked t) [] = auditMessage (sample_audit []) []"
  "auHash (sample_linked t) = auditEventHash digest_runtime (sample_audit []) []"
  "auditEventHash digest_runtime (sample_linked t) [] = auditEventHash digest_runtime (sample_audit []) []"
  by (simp_all add: sample_linked_def sample_audit_def auditEventHash_def auditMessage_def)

theorem audit_chain_tamper_evident_witness:
  "length [sample_linked ''a''] = length [sample_linked ''b'']
    \<and> map (\<lambda>r. auditMessage r (auPrevHash r)) [sample_linked ''a''] = map (\<lambda>r. auditMessage r (auPrevHash r)) [sample_linked ''b'']"
  by (rule audit_chain_tamper_evident [OF digest_runtime_32]) (auto simp: sample_linked_facts chain_head_def)

text \<open>The hash does not cover the tenant or the index of a record: moving a record to another tenant
  leaves every hash and the chain's validity as they were.\<close>

theorem audit_hash_omits_tenant:
  "auditEventHash rt (ev\<lparr>auTenant := t, auChainIndex := i\<rparr>) p = auditEventHash rt ev p
   \<and> audits_linked rt q (as @ ev\<lparr>auTenant := t\<rparr> # bs) = audits_linked rt q (as @ ev # bs)"
proof -
  have "audits_linked rt q (as @ ev\<lparr>auTenant := t\<rparr> # bs) = audits_linked rt q (as @ ev # bs)" for q
    by (induction as arbitrary: q) simp_all
  then show ?thesis by simp
qed

end
