(* ===== verification/StoreOps.thy ===== *)
theory StoreOps
  imports AuditChain
begin

text \<open>
  The operations of \<open>internal/store/store.go\<close> and the snapshot functions of
  \<open>internal/store/persistence.go\<close>, in the memory and file modes: every operation updates the
  records, enforces the retention window and writes the snapshot. An operation returns the error of
  the write beside the state, which keeps the change as the program's memory does.
\<close>

section \<open>Definitions\<close>

definition SetRetention :: "io_env \<Rightarrow> duration \<Rightarrow> store \<Rightarrow> string option \<times> store" where
  "SetRetention io window s =
     (let window = (if window < 0 then 0 else window);
          s = s\<lparr>stRetentionWindow := window\<rparr>
      in if window = 0 then (None, s) else persistLocked io (enforceRetentionLocked io s))"

definition AddEvent :: "io_env \<Rightarrow> event \<Rightarrow> store \<Rightarrow> string option \<times> store" where
  "AddEvent io ev s =
     (let s = s\<lparr>stEvents := stEvents s @ [ev]\<rparr>;
          s = upsertAssetLocked ev s
      in persistLocked io (enforceRetentionLocked io s))"

definition ListEvents :: "store \<Rightarrow> event list" where
  "ListEvents s = sort_desc_by evTimestamp (stEvents s)"

definition ListEventsForTenant :: "store \<Rightarrow> string \<Rightarrow> event list" where
  "ListEventsForTenant s tenant = filterEventsByTenant (ListEvents s) tenant"

text \<open>The loop of \<open>AddAlerts\<close> returns the alerts it added.\<close>

fun addAlertsLoop :: "alert list \<Rightarrow> store \<Rightarrow> alert list \<times> store" where
  "addAlertsLoop [] s = ([], s)"
| "addAlertsLoop (al # als) s =
     (if alFingerprint al \<noteq> [] \<and> alFingerprint al \<in> set (stFingerprints s) then addAlertsLoop als s
      else (let s = s\<lparr>stFingerprints := (if alFingerprint al \<noteq> [] then stFingerprints s @ [alFingerprint al]
                      else stFingerprints s), stAlerts := stAlerts s @ [al]\<rparr>;
                s = raiseAssetRiskLocked al s;
                (added, s) = addAlertsLoop als s
            in (al # added, s)))"

definition AddAlerts :: "io_env \<Rightarrow> alert list \<Rightarrow> store \<Rightarrow> (alert list \<times> string option) \<times> store" where
  "AddAlerts io als s =
     (let (added, s) = addAlertsLoop als s in
      if added = [] then ((added, None), s)
      else (let (err, s) = persistLocked io (enforceRetentionLocked io s) in ((added, err), s)))"

definition ListAlerts :: "store \<Rightarrow> alert list" where
  "ListAlerts s = sort_desc_by alCreatedAt (stAlerts s)"

definition ListAlertsForTenant :: "store \<Rightarrow> string \<Rightarrow> alert list" where
  "ListAlertsForTenant s tenant = filterAlertsByTenant (ListAlerts s) tenant"

definition GetAlert :: "store \<Rightarrow> string \<Rightarrow> alert option" where
  "GetAlert s i = find (\<lambda>a. alID a = i) (stAlerts s)"

definition GetAlertForTenant :: "store \<Rightarrow> string \<Rightarrow> string \<Rightarrow> alert option" where
  "GetAlertForTenant s i tenant =
     (case GetAlert s i of None \<Rightarrow> None | Some a \<Rightarrow> if sameTenant (alTenant a) tenant then Some a else None)"

definition AddActions :: "io_env \<Rightarrow> response_action list \<Rightarrow> store \<Rightarrow> string option \<times> store" where
  "AddActions io acts s =
     persistLocked io (enforceRetentionLocked io (s\<lparr>stActions := stActions s @ acts\<rparr>))"

definition ListActions :: "store \<Rightarrow> response_action list" where
  "ListActions s = sort_desc_by raCreatedAt (stActions s)"

definition ListActionsForTenant :: "store \<Rightarrow> string \<Rightarrow> response_action list" where
  "ListActionsForTenant s tenant = filterActionsByTenant (ListActions s) tenant"

definition GetAction :: "store \<Rightarrow> string \<Rightarrow> response_action option" where
  "GetAction s i = find (\<lambda>a. raID a = i) (stActions s)"

definition GetActionForTenant :: "store \<Rightarrow> string \<Rightarrow> string \<Rightarrow> response_action option" where
  "GetActionForTenant s i tenant =
     (case GetAction s i of None \<Rightarrow> None | Some a \<Rightarrow> if sameTenant (raTenant a) tenant then Some a else None)"

definition ListPendingGatewayActions :: "store \<Rightarrow> response_action list" where
  "ListPendingGatewayActions s = sort_desc_by raCreatedAt
     (filter (\<lambda>a. (raType a = ''gateway_tool_call'' \<or> raType a = ''mcp_proxy'') \<and> raApprovalStatus a = ''required'')
        (stActions s))"

definition ListPendingGatewayActionsForTenant :: "store \<Rightarrow> string \<Rightarrow> response_action list" where
  "ListPendingGatewayActionsForTenant s tenant = filterActionsByTenant (ListPendingGatewayActions s) tenant"

text \<open>The result of an operation on one action: the action, whether it was found, and the error.\<close>

type_synonym action_result = "response_action \<times> bool \<times> string option"

definition approve :: "string \<Rightarrow> time \<Rightarrow> response_action \<Rightarrow> response_action" where
  "approve approvedBy approvedAt a =
     a\<lparr>raApprovalStatus := ''approved'', raApprovedBy := approvedBy, raApprovedAt := Some approvedAt\<rparr>"

definition finishAction :: "io_env \<Rightarrow> string \<Rightarrow> (response_action \<Rightarrow> response_action) \<Rightarrow> store \<Rightarrow> action_result \<times> store" where
  "finishAction io i f s =
     (let s = s\<lparr>stActions := update_first (\<lambda>a. raID a = i) f (stActions s)\<rparr>;
          (err, s) = persistLocked io s
      in case err of
           Some e \<Rightarrow> ((empty_action, True, Some e), s)
         | None \<Rightarrow> ((the (GetAction s i), True, None), s))"

definition ApproveAction :: "io_env \<Rightarrow> string \<Rightarrow> string \<Rightarrow> time \<Rightarrow> store \<Rightarrow> action_result \<times> store" where
  "ApproveAction io i approvedBy approvedAt s =
     (case GetAction s i of
        None \<Rightarrow> ((empty_action, False, None), s)
      | Some a \<Rightarrow>
          if (raType a = ''gateway_tool_call'' \<or> raType a = ''mcp_proxy'') \<and> raExecutionStatus a = ''blocked''
          then ((empty_action, True, Some ''blocked gateway actions cannot be approved''), s)
          else finishAction io i (approve approvedBy approvedAt) s)"

definition executed :: "time \<Rightarrow> string \<Rightarrow> string \<Rightarrow> response_action \<Rightarrow> response_action" where
  "executed executedAt status executionErr a =
     a\<lparr>raExecutionStatus := status, raExecutedAt := Some executedAt, raExecutionError := executionErr\<rparr>"

definition RecordActionExecution ::
  "io_env \<Rightarrow> string \<Rightarrow> time \<Rightarrow> string \<Rightarrow> string \<Rightarrow> store \<Rightarrow> action_result \<times> store" where
  "RecordActionExecution io i executedAt status executionErr s =
     (case GetAction s i of
        None \<Rightarrow> ((empty_action, False, None), s)
      | Some a \<Rightarrow> finishAction io i (executed executedAt status executionErr) s)"

definition AddAudit :: "runtime \<Rightarrow> host_os \<Rightarrow> io_env \<Rightarrow> audit_event \<Rightarrow> store \<Rightarrow> string option \<times> store" where
  "AddAudit rt os io ev s =
     (let (ev, s) = prepareAuditChainLocked rt os ev s;
          s = s\<lparr>stAudits := stAudits s @ [ev]\<rparr>
      in persistLocked io (enforceRetentionLocked io s))"

definition ListAudits :: "store \<Rightarrow> audit_event list" where
  "ListAudits s = sort_desc_by auTimestamp (stAudits s)"

definition ListAuditsForTenant :: "store \<Rightarrow> string \<Rightarrow> audit_event list" where
  "ListAuditsForTenant s tenant = filterAuditsByTenant (ListAudits s) tenant"

text \<open>By risk, and among equal risks by \<open>LastSeen\<close>.\<close>

definition ListAssets :: "store \<Rightarrow> asset list" where
  "ListAssets s = sort_desc_by asRiskScore (sort_desc_by asLastSeen (map snd (stAssets s)))"

definition ListAssetsForTenant :: "store \<Rightarrow> string \<Rightarrow> asset list" where
  "ListAssetsForTenant s tenant = filterAssetsByTenant (ListAssets s) tenant"

definition Counts :: "store \<Rightarrow> nat \<times> nat \<times> nat \<times> nat \<times> nat" where
  "Counts s = (length (stEvents s), length (stAlerts s), length (stAssets s), length (stActions s), length (stAudits s))"

definition CountsForTenant :: "store \<Rightarrow> string \<Rightarrow> nat \<times> nat \<times> nat \<times> nat \<times> nat" where
  "CountsForTenant s tenant =
     (length (filterEventsByTenant (ListEvents s) tenant), length (filterAlertsByTenant (ListAlerts s) tenant),
      length (filterAssetsByTenant (ListAssets s) tenant), length (filterActionsByTenant (ListActions s) tenant),
      length (filterAuditsByTenant (ListAudits s) tenant))"

definition LastPersistenceError :: "runtime \<Rightarrow> store \<Rightarrow> string" where
  "LastPersistenceError rt s = redactPersistenceError rt (stLastErr s)"

section \<open>Snapshots\<close>

definition ExportSnapshot :: "io_env \<Rightarrow> store \<Rightarrow> snapshot_data" where
  "ExportSnapshot io s = snapshotLocked (ioNow io) s"

text \<open>
  \<open>NewWithPath\<close>: \<open>disk\<close> is what reading the file gives, \<open>Inl\<close> an error, \<open>Inr None\<close> that there is no
  file; \<open>decode\<close> is \<open>json.Unmarshal\<close> of its bytes, \<open>Inl\<close> its error.
\<close>

definition loadSnapshot :: "snapshot_data \<Rightarrow> store \<Rightarrow> store" where
  "loadSnapshot snap s =
     (let s = s\<lparr>stEvents := snEvents snap, stAlerts := snAlerts snap, stActions := snActions snap,
                stAudits := snAudits snap\<rparr>
      in rebuildFingerprintsLocked
           (case snAssets snap of Some m \<Rightarrow> s\<lparr>stAssets := m\<rparr> | None \<Rightarrow> rebuildAssetsLocked s))"

definition NewWithPath ::
  "runtime \<Rightarrow> host_os \<Rightarrow> (string \<Rightarrow> string + snapshot_data) \<Rightarrow> string \<Rightarrow> string + string option \<Rightarrow> string + store" where
  "NewWithPath rt os decode path disk =
     (let s = NewStore\<lparr>stPath := path\<rparr> in
      if path = [] then Inr s
      else (let s = s\<lparr>stMode := ''file''\<rparr> in
        case disk of
          Inl err \<Rightarrow> Inl err
        | Inr None \<Rightarrow> Inr s
        | Inr (Some data) \<Rightarrow> (case decode data of
            Inl err \<Rightarrow> Inl err
          | Inr snap \<Rightarrow>
              if snapshotVersion < snVersion snap then Inl ''snapshot version is newer than this binary supports''
              else Inr (rebuildAuditChainLocked rt os (loadSnapshot snap (s\<lparr>stDisk := Some data\<rparr>))))))"

definition RestoreSnapshot :: "io_env \<Rightarrow> snapshot_data \<Rightarrow> store \<Rightarrow> string option \<times> store" where
  "RestoreSnapshot io snap s =
     (if snapshotVersion < snVersion snap then (Some ''snapshot version is newer than this binary supports'', s)
      else (let restored = loadSnapshot (snap\<lparr>snAssets := map_option cloneAssets (snAssets snap)\<rparr>) NewStore;
                s = s\<lparr>stEvents := stEvents restored, stAlerts := stAlerts restored, stActions := stActions restored,
                      stAudits := stAudits restored, stAssets := cloneAssets (stAssets restored)\<rparr>;
                s = (rebuildFingerprintsLocked s)\<lparr>stLastErr := []\<rparr>
            in persistLocked io (enforceRetentionLocked io s)))"

section \<open>Frames\<close>

lemma persist_frame [simp]:
  "stEvents (snd (persistLocked io s)) = stEvents s" "stAlerts (snd (persistLocked io s)) = stAlerts s"
  "stActions (snd (persistLocked io s)) = stActions s" "stAudits (snd (persistLocked io s)) = stAudits s"
  "stAssets (snd (persistLocked io s)) = stAssets s" "stFingerprints (snd (persistLocked io s)) = stFingerprints s"
  "stAuditChainHead (snd (persistLocked io s)) = stAuditChainHead s"
  "stAuditChainAnchor (snd (persistLocked io s)) = stAuditChainAnchor s"
  "stAuditChainValid (snd (persistLocked io s)) = stAuditChainValid s"
  "stRetentionWindow (snd (persistLocked io s)) = stRetentionWindow s"
  "stPath (snd (persistLocked io s)) = stPath s" "stMode (snd (persistLocked io s)) = stMode s"
  by (simp_all add: persistLocked_def split: disk_outcome.split sum.split)

lemma upsert_fields [simp]:
  "stEvents (upsertAssetLocked ev s) = stEvents s" "stAlerts (upsertAssetLocked ev s) = stAlerts s"
  "stActions (upsertAssetLocked ev s) = stActions s" "stAudits (upsertAssetLocked ev s) = stAudits s"
  "stFingerprints (upsertAssetLocked ev s) = stFingerprints s"
  "stRetentionWindow (upsertAssetLocked ev s) = stRetentionWindow s"
  "stAuditChainHead (upsertAssetLocked ev s) = stAuditChainHead s"
  by (simp_all add: upsertAssetLocked_def Let_def)

lemma raise_fields [simp]:
  "stEvents (raiseAssetRiskLocked al s) = stEvents s" "stAlerts (raiseAssetRiskLocked al s) = stAlerts s"
  "stActions (raiseAssetRiskLocked al s) = stActions s" "stAudits (raiseAssetRiskLocked al s) = stAudits s"
  "stFingerprints (raiseAssetRiskLocked al s) = stFingerprints s"
  "stRetentionWindow (raiseAssetRiskLocked al s) = stRetentionWindow s"
  "stAuditChainHead (raiseAssetRiskLocked al s) = stAuditChainHead s"
  by (simp_all add: raiseAssetRiskLocked_def Let_def)

lemma fold_upsert_fields:
  "stEvents (fold upsertAssetLocked evs s) = stEvents s" "stAlerts (fold upsertAssetLocked evs s) = stAlerts s"
  "stActions (fold upsertAssetLocked evs s) = stActions s" "stAudits (fold upsertAssetLocked evs s) = stAudits s"
  "stRetentionWindow (fold upsertAssetLocked evs s) = stRetentionWindow s"
  by (induction evs arbitrary: s) simp_all

lemma fold_raise_fields:
  "stEvents (fold raiseAssetRiskLocked als s) = stEvents s" "stAlerts (fold raiseAssetRiskLocked als s) = stAlerts s"
  "stActions (fold raiseAssetRiskLocked als s) = stActions s" "stAudits (fold raiseAssetRiskLocked als s) = stAudits s"
  "stRetentionWindow (fold raiseAssetRiskLocked als s) = stRetentionWindow s"
  by (induction als arbitrary: s) simp_all

lemma rebuildAssets_fields [simp]:
  "stEvents (rebuildAssetsLocked s) = stEvents s" "stAlerts (rebuildAssetsLocked s) = stAlerts s"
  "stActions (rebuildAssetsLocked s) = stActions s" "stAudits (rebuildAssetsLocked s) = stAudits s"
  "stRetentionWindow (rebuildAssetsLocked s) = stRetentionWindow s"
  by (simp_all add: rebuildAssetsLocked_def fold_upsert_fields fold_raise_fields)

lemma rebuildFingerprints_fields [simp]:
  "stEvents (rebuildFingerprintsLocked s) = stEvents s" "stAlerts (rebuildFingerprintsLocked s) = stAlerts s"
  "stActions (rebuildFingerprintsLocked s) = stActions s" "stAudits (rebuildFingerprintsLocked s) = stAudits s"
  "stAssets (rebuildFingerprintsLocked s) = stAssets s"
  "stFingerprints (rebuildFingerprintsLocked s) = addFingerprints (stAlerts s) []"
  by (simp_all add: rebuildFingerprintsLocked_def)

section \<open>Retention\<close>

lemma retained_fields:
  "stEvents (retainedStore c s) = filterEventsByCutoff (stEvents s) c"
  "stAlerts (retainedStore c s) = filterAlertsByCutoff (stAlerts s) c"
  "stActions (retainedStore c s) = filterActionsByCutoff (stActions s) c"
  "stAudits (retainedStore c s) = filterAuditsByCutoff (stAudits s) c"
  by (simp_all add: retainedStore_def)

definition pruned :: "io_env \<Rightarrow> store \<Rightarrow> bool" where
  "pruned io s \<longleftrightarrow> 0 < stRetentionWindow s \<and> (let r = retainedStore (ioNow io - stRetentionWindow s) s in
     \<not> (length (stEvents r) = length (stEvents s) \<and> length (stAlerts r) = length (stAlerts s)
        \<and> length (stActions r) = length (stActions s) \<and> length (stAudits r) = length (stAudits s)
        \<and> length (stAssets r) = length (stAssets s)))"

lemma enforce_not_pruned: "\<not> pruned io s \<Longrightarrow> enforceRetentionLocked io s = s \<or> enforceRetentionLocked io s = s\<lparr>stLastErr := []\<rparr>"
  by (auto simp: enforceRetentionLocked_def pruned_def Let_def)

lemma enforce_pruned:
  "pruned io s \<Longrightarrow> enforceRetentionLocked io s =
     (let r = retainedStore (ioNow io - stRetentionWindow s) s in
      (rebuildFingerprintsLocked
          (s\<lparr>stEvents := stEvents r, stAlerts := stAlerts r, stActions := stActions r,
             stAudits := stAudits r, stAssets := cloneAssets (stAssets r)\<rparr>))\<lparr>stLastErr := []\<rparr>)"
  by (auto simp: enforceRetentionLocked_def pruned_def Let_def)

text \<open>The lists after retention, whichever branch is taken.\<close>

lemma enforce_lists:
  assumes "0 < stRetentionWindow s"
  shows "stEvents (enforceRetentionLocked io s) = filterEventsByCutoff (stEvents s) (ioNow io - stRetentionWindow s)"
    "stAlerts (enforceRetentionLocked io s) = filterAlertsByCutoff (stAlerts s) (ioNow io - stRetentionWindow s)"
    "stActions (enforceRetentionLocked io s) = filterActionsByCutoff (stActions s) (ioNow io - stRetentionWindow s)"
    "stAudits (enforceRetentionLocked io s) = filterAuditsByCutoff (stAudits s) (ioNow io - stRetentionWindow s)"
proof -
  let ?c = "ioNow io - stRetentionWindow s"
  have same: "filterEventsByCutoff (stEvents s) ?c = stEvents s" "filterAlertsByCutoff (stAlerts s) ?c = stAlerts s"
    "filterActionsByCutoff (stActions s) ?c = stActions s" "filterAuditsByCutoff (stAudits s) ?c = stAudits s" if "\<not> pruned io s"
    using that assms keep_events.keep_length_eq keep_alerts.keep_length_eq keep_actions.keep_length_eq
      keep_audits.keep_length_eq
    unfolding pruned_def Let_def retained_fields by blast+
  show "stEvents (enforceRetentionLocked io s) = filterEventsByCutoff (stEvents s) ?c"
    "stAlerts (enforceRetentionLocked io s) = filterAlertsByCutoff (stAlerts s) ?c"
    "stActions (enforceRetentionLocked io s) = filterActionsByCutoff (stActions s) ?c"
    "stAudits (enforceRetentionLocked io s) = filterAuditsByCutoff (stAudits s) ?c"
    using same enforce_not_pruned [of io s] enforce_pruned [of io s]
    by (cases "pruned io s"; auto simp: Let_def retained_fields)+
qed

lemma enforce_off: "stRetentionWindow s \<le> 0 \<Longrightarrow> enforceRetentionLocked io s = s"
  by (simp add: enforceRetentionLocked_def)

lemma enforce_window [simp]: "stRetentionWindow (enforceRetentionLocked io s) = stRetentionWindow s"
  by (simp add: enforceRetentionLocked_def Let_def rebuildFingerprintsLocked_def)

section \<open>The invariant\<close>

definition fingerprintsOf :: "alert list \<Rightarrow> string list" where
  "fingerprintsOf als = filter (\<lambda>f. f \<noteq> []) (map alFingerprint als)"

text \<open>
  The set of fingerprints is that of the stored alerts, no two stored alerts share one, and the asset
  inventory is well formed.
\<close>

definition store_ok :: "store \<Rightarrow> bool" where
  "store_ok s \<longleftrightarrow> set (stFingerprints s) = set (fingerprintsOf (stAlerts s)) \<and> distinct (fingerprintsOf (stAlerts s))
     \<and> assets_ok s \<and> (\<forall>e \<in> set (stEvents s). plain_tenant (evTenant e)) \<and> (\<forall>a \<in> set (stAlerts s). plain_tenant (alTenant a))"

lemma addFingerprints_set: "set (addFingerprints als []) = set (fingerprintsOf als)"
  by (auto simp: fingerprints.collect_set fingerprintsOf_def)

lemma distinct_fingerprints_filter: "distinct (fingerprintsOf als) \<Longrightarrow> distinct (fingerprintsOf (filter P als))"
proof (induction als)
  case (Cons a als)
  have "set (fingerprintsOf (filter P als)) \<subseteq> set (fingerprintsOf als)"
    by (auto simp: fingerprintsOf_def)
  with Cons show ?case by (auto simp: fingerprintsOf_def)
qed simp

lemma store_ok_New: "store_ok NewStore"
  by (simp add: store_ok_def NewStore_def fingerprintsOf_def assets_ok_def)

lemma store_ok_persist [inv_intros]: "store_ok s \<Longrightarrow> store_ok (snd (persistLocked io s))"
  by (simp add: store_ok_def assets_ok_def)

lemma assets_ok_retained:
  assumes "store_ok s"
  shows "assets_ok (retainedStore c s)"
proof -
  define t where "t = NewStore\<lparr>stMode := stMode s, stPath := stPath s, stSchemaVersion := stSchemaVersion s,
          stEvents := filterEventsByCutoff (stEvents s) c, stAlerts := filterAlertsByCutoff (stAlerts s) c,
          stActions := filterActionsByCutoff (stActions s) c, stAudits := filterAuditsByCutoff (stAudits s) c\<rparr>"
  have "assets_ok (rebuildAssetsLocked t)"
    by (rule assets_ok_rebuild) (use assms in \<open>auto simp: t_def store_ok_def keep_events.keep_mem keep_alerts.keep_mem\<close>)
  then show ?thesis
    by (simp add: retainedStore_def t_def assets_ok_def)
qed

lemma store_ok_enforce [inv_intros]:
  assumes "store_ok s"
  shows "store_ok (enforceRetentionLocked io s)"
proof (cases "pruned io s")
  case True
  let ?c = "ioNow io - stRetentionWindow s"
  have "distinct (fingerprintsOf (filterAlertsByCutoff (stAlerts s) ?c))"
    unfolding keep_alerts.keep_eq using assms by (intro distinct_fingerprints_filter) (simp add: store_ok_def)
  then show ?thesis
    using assms assets_ok_retained [OF assms, of ?c] unfolding enforce_pruned [OF True] Let_def
    by (auto simp: store_ok_def addFingerprints_set retained_fields assets_ok_def keep_events.keep_mem keep_alerts.keep_mem)
next
  case False
  then show ?thesis
    using assms enforce_not_pruned [OF False] by (auto simp: store_ok_def assets_ok_def)
qed

section \<open>Alerts\<close>

text \<open>One round of the loop that adds its alert.\<close>

definition pushAlert :: "alert \<Rightarrow> store \<Rightarrow> store" where
  "pushAlert al s = raiseAssetRiskLocked al
     (s\<lparr>stFingerprints := (if alFingerprint al \<noteq> [] then stFingerprints s @ [alFingerprint al] else stFingerprints s),
        stAlerts := stAlerts s @ [al]\<rparr>)"

lemma addAlertsLoop_Cons:
  "addAlertsLoop (al # als) s =
     (if alFingerprint al \<noteq> [] \<and> alFingerprint al \<in> set (stFingerprints s) then addAlertsLoop als s
      else (al # fst (addAlertsLoop als (pushAlert al s)), snd (addAlertsLoop als (pushAlert al s))))"
  by (simp add: pushAlert_def Let_def case_prod_beta)

declare addAlertsLoop.simps(2) [simp del]

lemma pushAlert_fields [simp]:
  "stAlerts (pushAlert al s) = stAlerts s @ [al]" "stEvents (pushAlert al s) = stEvents s"
  "stActions (pushAlert al s) = stActions s" "stAudits (pushAlert al s) = stAudits s"
  "stRetentionWindow (pushAlert al s) = stRetentionWindow s" "stAuditChainHead (pushAlert al s) = stAuditChainHead s"
  "stFingerprints (pushAlert al s) = (if alFingerprint al \<noteq> [] then stFingerprints s @ [alFingerprint al] else stFingerprints s)"
  by (simp_all add: pushAlert_def)

lemma store_ok_pushAlert:
  assumes "store_ok s" "plain_tenant (alTenant al)" "alFingerprint al = [] \<or> alFingerprint al \<notin> set (stFingerprints s)"
  shows "store_ok (pushAlert al s)"
proof -
  have "assets_ok (pushAlert al s)"
    unfolding pushAlert_def using assms(1,2) by (intro assets_ok_raise) (auto simp: store_ok_def assets_ok_def)
  with assms show ?thesis
    by (auto simp: store_ok_def fingerprintsOf_def)
qed

lemma loop_store_ok:
  "store_ok s \<Longrightarrow> \<forall>a \<in> set als. plain_tenant (alTenant a) \<Longrightarrow> store_ok (snd (addAlertsLoop als s))"
  by (induction als arbitrary: s) (auto simp: addAlertsLoop_Cons store_ok_pushAlert)

lemma loop_fields:
  "stAlerts (snd (addAlertsLoop als s)) = stAlerts s @ fst (addAlertsLoop als s)"
  "stEvents (snd (addAlertsLoop als s)) = stEvents s" "stActions (snd (addAlertsLoop als s)) = stActions s"
  "stAudits (snd (addAlertsLoop als s)) = stAudits s"
  "stRetentionWindow (snd (addAlertsLoop als s)) = stRetentionWindow s"
  by (induction als arbitrary: s) (auto simp: addAlertsLoop_Cons)

lemma loop_subseq: "subseq (fst (addAlertsLoop als s)) als"
  by (induction als arbitrary: s) (auto simp: addAlertsLoop_Cons)

lemma loop_fingerprints:
  "set (stFingerprints (snd (addAlertsLoop als s))) = set (stFingerprints s) \<union> set (fingerprintsOf als)"
  by (induction als arbitrary: s) (auto simp: addAlertsLoop_Cons fingerprintsOf_def)

lemma loop_distinct:
  "distinct (fingerprintsOf (fst (addAlertsLoop als s)))
    \<and> set (fingerprintsOf (fst (addAlertsLoop als s))) \<inter> set (stFingerprints s) = {}"
proof (induction als arbitrary: s)
  case (Cons a als)
  have cons: "fingerprintsOf (x # xs) = (if alFingerprint x = [] then [] else [alFingerprint x]) @ fingerprintsOf xs" for x xs
    by (simp add: fingerprintsOf_def)
  show ?case
    using Cons [of s] Cons [of "pushAlert a s"] by (auto simp: addAlertsLoop_Cons cons)
qed (simp add: fingerprintsOf_def)

lemma loop_known:
  "\<forall>a \<in> set als. alFingerprint a \<noteq> [] \<and> alFingerprint a \<in> set (stFingerprints s) \<Longrightarrow> addAlertsLoop als s = ([], s)"
  by (induction als arbitrary: s) (auto simp: addAlertsLoop_Cons)

lemma loop_added:
  "set (fingerprintsOf (fst (addAlertsLoop als s))) = set (fingerprintsOf als) - set (stFingerprints s)"
proof (induction als arbitrary: s)
  case (Cons a als)
  have cons: "fingerprintsOf (x # xs) = (if alFingerprint x = [] then [] else [alFingerprint x]) @ fingerprintsOf xs" for x xs
    by (simp add: fingerprintsOf_def)
  show ?case
    using Cons [of s] Cons [of "pushAlert a s"] by (auto simp: addAlertsLoop_Cons cons)
qed (simp add: fingerprintsOf_def)

section \<open>Steps\<close>

inductive store_step :: "runtime \<Rightarrow> host_os \<Rightarrow> store \<Rightarrow> store \<Rightarrow> bool" for rt os where
  st_event: "plain_tenant (evTenant ev) \<Longrightarrow> store_step rt os s (snd (AddEvent io ev s))"
| st_alerts: "\<forall>a \<in> set als. plain_tenant (alTenant a) \<Longrightarrow> store_step rt os s (snd (AddAlerts io als s))"
| st_actions: "store_step rt os s (snd (AddActions io acts s))"
| st_approve: "store_step rt os s (snd (ApproveAction io i who t s))"
| st_execute: "store_step rt os s (snd (RecordActionExecution io i t status err s))"
| st_audit: "store_step rt os s (snd (AddAudit rt os io au s))"
| st_retention: "store_step rt os s (snd (SetRetention io w s))"

text \<open>
  A snapshot whose alerts have distinct fingerprints and whose assets are held under their keys. Every
  snapshot a sound store writes is one (\<open>snapshot_ok_export\<close>); a hand-made one need not be.
\<close>

definition snapshot_ok :: "snapshot_data \<Rightarrow> bool" where
  "snapshot_ok snap \<longleftrightarrow> distinct (fingerprintsOf (snAlerts snap))
     \<and> (\<forall>e \<in> set (snEvents snap). plain_tenant (evTenant e)) \<and> (\<forall>a \<in> set (snAlerts snap). plain_tenant (alTenant a))
     \<and> (case snAssets snap of None \<Rightarrow> True | Some m \<Rightarrow> assets_ok (NewStore\<lparr>stAssets := m\<rparr>))"

text \<open>
  The stores a process may hold: a fresh one or one loaded from a snapshot file, changed by any
  operation, the restore of a snapshot included.
\<close>

inductive store_reachable :: "runtime \<Rightarrow> host_os \<Rightarrow> store \<Rightarrow> bool" for rt os where
  sr_new: "NewWithPath rt os decode path (Inr None) = Inr s \<Longrightarrow> store_reachable rt os s"
| sr_load: "decode data = Inr snap \<Longrightarrow> snapshot_ok snap \<Longrightarrow>
    NewWithPath rt os decode path (Inr (Some data)) = Inr s \<Longrightarrow> store_reachable rt os s"
| sr_step: "store_reachable rt os s \<Longrightarrow> store_step rt os s s' \<Longrightarrow> store_reachable rt os s'"
| sr_restore: "store_reachable rt os s \<Longrightarrow> snapshot_ok snap \<Longrightarrow> store_reachable rt os (snd (RestoreSnapshot io snap s))"

lemma store_ok_AddEvent: "store_ok s \<Longrightarrow> plain_tenant (evTenant ev) \<Longrightarrow> store_ok (snd (AddEvent io ev s))"
proof -
  assume ok: "store_ok s" and plain: "plain_tenant (evTenant ev)"
  then have "assets_ok (upsertAssetLocked ev (s\<lparr>stEvents := stEvents s @ [ev]\<rparr>))"
    by (intro assets_ok_upsert) (auto simp: store_ok_def assets_ok_def)
  with ok plain have "store_ok (upsertAssetLocked ev (s\<lparr>stEvents := stEvents s @ [ev]\<rparr>))"
    by (auto simp: store_ok_def)
  then show ?thesis
    unfolding AddEvent_def Let_def by (intro inv_intros)
qed

lemma store_ok_AddAlerts:
  "store_ok s \<Longrightarrow> \<forall>a \<in> set als. plain_tenant (alTenant a) \<Longrightarrow> store_ok (snd (AddAlerts io als s))"
  using loop_store_ok [of s als] by (auto simp: AddAlerts_def Let_def case_prod_beta intro!: inv_intros)

lemma store_ok_frame:
  "store_ok s \<Longrightarrow> store_ok (s\<lparr>stActions := x\<rparr>)" "store_ok s \<Longrightarrow> store_ok (s\<lparr>stAudits := y\<rparr>)"
  "store_ok s \<Longrightarrow> store_ok (s\<lparr>stRetentionWindow := w\<rparr>)"
  "store_ok s \<Longrightarrow> store_ok (s\<lparr>stAuditChainHead := h, stAuditChainAnchor := a, stAuditChainValid := v\<rparr>)"
  by (simp_all add: store_ok_def assets_ok_def)

lemma store_ok_finish: "store_ok s \<Longrightarrow> store_ok (snd (finishAction io i f s))"
  using store_ok_persist [OF store_ok_frame(1)]
  by (simp add: finishAction_def Let_def case_prod_beta split: option.split)

lemma store_ok_step: "store_step rt os s s' \<Longrightarrow> store_ok s \<Longrightarrow> store_ok s'"
proof (induction rule: store_step.induct)
  case (st_audit s io au)
  then show ?case
    unfolding AddAudit_def prepareAuditChainLocked_def Let_def
    by (simp add: store_ok_persist store_ok_enforce store_ok_frame)
next
  case (st_approve s io i who t)
  then show ?case
    by (auto simp: ApproveAction_def store_ok_finish split: option.splits)
next
  case (st_execute s io i t status err)
  then show ?case
    by (auto simp: RecordActionExecution_def store_ok_finish split: option.splits)
qed (auto simp: store_ok_AddEvent store_ok_AddAlerts AddActions_def SetRetention_def Let_def
    store_ok_persist store_ok_enforce store_ok_frame)

lemma snapshot_ok_export: "store_ok s \<Longrightarrow> snapshot_ok (ExportSnapshot io s)"
  by (simp add: snapshot_ok_def store_ok_def ExportSnapshot_def snapshotLocked_def assets_ok_def)

text \<open>The fields the invariant depends on.\<close>

lemma store_ok_fields:
  assumes "store_ok s" "stFingerprints t = stFingerprints s" "stAlerts t = stAlerts s" "stEvents t = stEvents s"
    "stAssets t = stAssets s"
  shows "store_ok t"
  using assms by (simp add: store_ok_def assets_ok_def)

lemma store_ok_load:
  assumes "snapshot_ok snap"
  shows "store_ok (loadSnapshot snap s)"
proof (cases "snAssets snap")
  case None
  define t where "t = s\<lparr>stEvents := snEvents snap, stAlerts := snAlerts snap, stActions := snActions snap, stAudits := snAudits snap\<rparr>"
  have "assets_ok (rebuildAssetsLocked t)"
    by (rule assets_ok_rebuild) (use assms in \<open>simp_all add: t_def snapshot_ok_def\<close>)
  then show ?thesis
    using None assms unfolding loadSnapshot_def Let_def t_def [symmetric]
    by (simp add: store_ok_def snapshot_ok_def addFingerprints_set assets_ok_def) (simp add: t_def)
next
  case (Some m)
  then show ?thesis
    using assms by (simp add: loadSnapshot_def Let_def store_ok_def snapshot_ok_def addFingerprints_set assets_ok_def)
qed

lemma store_ok_restore:
  assumes "store_ok s" "snapshot_ok snap"
  shows "store_ok (snd (RestoreSnapshot io snap s))"
proof -
  define r where "r = loadSnapshot (snap\<lparr>snAssets := map_option cloneAssets (snAssets snap)\<rparr>) NewStore"
  define t where "t = (rebuildFingerprintsLocked (s\<lparr>stEvents := stEvents r, stAlerts := stAlerts r,
      stActions := stActions r, stAudits := stAudits r, stAssets := cloneAssets (stAssets r)\<rparr>))\<lparr>stLastErr := []\<rparr>"
  have "snapshot_ok (snap\<lparr>snAssets := map_option cloneAssets (snAssets snap)\<rparr>)"
    using assms(2) by (simp add: snapshot_ok_def split: option.splits)
  then have "store_ok r"
    unfolding r_def by (rule store_ok_load)
  then have "store_ok t"
    by (simp add: t_def store_ok_def assets_ok_def addFingerprints_set)
  then show ?thesis
    using assms(1) unfolding RestoreSnapshot_def Let_def r_def [symmetric] t_def [symmetric]
    by (simp add: store_ok_persist store_ok_enforce)
qed

lemma NewWithPath_loaded:
  assumes "decode data = Inr snap" "NewWithPath rt os decode path (Inr (Some data)) = Inr s"
  shows "path = [] \<and> s = NewStore\<lparr>stPath := []\<rparr>
    \<or> s = rebuildAuditChainLocked rt os (loadSnapshot snap (NewStore\<lparr>stPath := path, stMode := ''file'', stDisk := Some data\<rparr>))"
  using assms by (auto simp: NewWithPath_def Let_def split: if_splits)

lemma rebuildAuditChain_fields [simp]:
  "stEvents (rebuildAuditChainLocked rt os s) = stEvents s" "stAlerts (rebuildAuditChainLocked rt os s) = stAlerts s"
  "stActions (rebuildAuditChainLocked rt os s) = stActions s" "stAudits (rebuildAuditChainLocked rt os s) = stAudits s"
  "stAssets (rebuildAuditChainLocked rt os s) = stAssets s"
  "stFingerprints (rebuildAuditChainLocked rt os s) = stFingerprints s"
  "stRetentionWindow (rebuildAuditChainLocked rt os s) = stRetentionWindow s" "stPath (rebuildAuditChainLocked rt os s) = stPath s"
  by (simp_all add: rebuildAuditChainLocked_def Let_def split: prod.split)

lemma NewWithPath_fresh:
  "NewWithPath rt os decode path (Inr None) = Inr s \<Longrightarrow> s = NewStore\<lparr>stPath := path\<rparr> \<or> s = NewStore\<lparr>stPath := path, stMode := ''file''\<rparr>"
  by (auto simp: NewWithPath_def Let_def split: if_splits)

lemma store_ok_reachable: "store_reachable rt os s \<Longrightarrow> store_ok s"
proof (induction rule: store_reachable.induct)
  case (sr_new decode path s)
  then show ?case
    using NewWithPath_fresh [OF sr_new] by (auto intro: store_ok_fields [OF store_ok_New])
next
  case (sr_load decode data snap path s)
  then consider "s = NewStore\<lparr>stPath := []\<rparr>"
    | "s = rebuildAuditChainLocked rt os (loadSnapshot snap (NewStore\<lparr>stPath := path, stMode := ''file'', stDisk := Some data\<rparr>))"
    using NewWithPath_loaded by blast
  then show ?case
  proof cases
    case 1
    then show ?thesis by (auto intro: store_ok_fields [OF store_ok_New])
  next
    case 2
    then show ?thesis by (simp add: store_ok_fields [OF store_ok_load [OF sr_load(2)]])
  qed
qed (use store_ok_step store_ok_restore in blast)+

section \<open>The chain along a run\<close>

text \<open>
  A run of the store during which no retention window is set: operations, and restarts from a file
  that holds the audit records as they were.
\<close>

inductive store_run :: "runtime \<Rightarrow> host_os \<Rightarrow> store \<Rightarrow> bool" for rt os where
  run_new: "NewWithPath rt os decode path (Inr None) = Inr s \<Longrightarrow> store_run rt os s"
| run_step: "store_run rt os s \<Longrightarrow> store_step rt os s s' \<Longrightarrow> stRetentionWindow s' \<le> 0 \<Longrightarrow> store_run rt os s'"
| run_restart: "store_run rt os s \<Longrightarrow> decode data = Inr snap \<Longrightarrow> snAudits snap = stAudits s \<Longrightarrow>
    NewWithPath rt os decode path (Inr (Some data)) = Inr s' \<Longrightarrow> store_run rt os s'"

text \<open>The fields the chain depends on.\<close>

definition chainFields :: "store \<Rightarrow> audit_event list \<times> string \<times> string \<times> bool" where
  "chainFields s = (stAudits s, stAuditChainHead s, stAuditChainAnchor s, stAuditChainValid s)"

lemma chain_inv_fields: "chainFields s = chainFields s' \<Longrightarrow> chain_inv rt os s = chain_inv rt os s'"
  by (simp add: chainFields_def chain_inv_def chain_ok_def)

lemma chainFields_persist [simp]: "chainFields (snd (persistLocked io s)) = chainFields s"
  by (simp add: chainFields_def)

lemma chainFields_upsert [simp]: "chainFields (upsertAssetLocked ev s) = chainFields s"
  by (simp add: chainFields_def upsertAssetLocked_def Let_def)

lemma chainFields_raise [simp]: "chainFields (raiseAssetRiskLocked al s) = chainFields s"
  by (simp add: chainFields_def raiseAssetRiskLocked_def Let_def)

lemma chainFields_update [simp]:
  "chainFields (s\<lparr>stEvents := x\<rparr>) = chainFields s" "chainFields (s\<lparr>stActions := y\<rparr>) = chainFields s"
  "chainFields (s\<lparr>stRetentionWindow := w\<rparr>) = chainFields s"
  "chainFields (s\<lparr>stFingerprints := f, stAlerts := a\<rparr>) = chainFields s"
  by (simp_all add: chainFields_def)

lemma chainFields_loop [simp]: "chainFields (snd (addAlertsLoop als s)) = chainFields s"
proof (induction als arbitrary: s)
  case (Cons a als)
  have "chainFields (pushAlert a s) = chainFields s"
    by (simp add: pushAlert_def)
  with Cons show ?case by (simp add: addAlertsLoop_Cons)
qed simp

lemma chainFields_finish [simp]: "chainFields (snd (finishAction io i f s)) = chainFields s"
  by (simp add: finishAction_def Let_def case_prod_beta split: option.split)

lemma run_window: "store_run rt os s \<Longrightarrow> stRetentionWindow s \<le> 0"
proof (induction rule: store_run.induct)
  case (run_new decode path s)
  then show ?case using NewWithPath_fresh [OF run_new] by (auto simp: NewStore_def)
next
  case (run_restart s decode data snap path s')
  have "stRetentionWindow (loadSnapshot snap t) = stRetentionWindow t" for t
    by (simp add: loadSnapshot_def Let_def rebuildFingerprintsLocked_def split: option.split)
  then show ?case using NewWithPath_loaded [OF run_restart(2,4)] by (auto simp: NewStore_def)
qed simp

lemma chain_inv_AddAudit:
  assumes "chain_ok rt s" "stRetentionWindow s \<le> 0"
  shows "chain_inv rt os (snd (AddAudit rt os io au s))"
proof -
  obtain ev' t where p: "prepareAuditChainLocked rt os au s = (ev', t)" by fastforce
  have "stRetentionWindow t \<le> 0"
    using p assms(2) by (auto simp: prepareAuditChainLocked_def Let_def)
  then have "chainFields (snd (AddAudit rt os io au s)) = chainFields (t\<lparr>stAudits := stAudits s @ [ev']\<rparr>)"
    using chain_inv_prepare(2) [OF assms(1) p] by (simp add: AddAudit_def p enforce_off)
  then show ?thesis
    using chain_inv_prepare(1) [OF assms(1) p] chain_inv_fields by blast
qed

lemma chain_inv_step:
  "store_step rt os s s' \<Longrightarrow> stRetentionWindow s \<le> 0 \<Longrightarrow> stRetentionWindow s' \<le> 0 \<Longrightarrow> chain_inv rt os s \<Longrightarrow> chain_inv rt os s'"
proof (induction rule: store_step.induct)
  case (st_audit s io au)
  then show ?case using chain_inv_AddAudit by (simp add: chain_inv_def)
next
  case (st_alerts als s io)
  then have "chainFields (snd (AddAlerts io als s)) = chainFields s"
    by (simp add: AddAlerts_def Let_def case_prod_beta enforce_off loop_fields)
  with st_alerts show ?case using chain_inv_fields by blast
next
  case (st_event ev s io)
  then have "chainFields (snd (AddEvent io ev s)) = chainFields s"
    by (simp add: AddEvent_def Let_def enforce_off)
  with st_event show ?case using chain_inv_fields by blast
next
  case (st_actions s io acts)
  then have "chainFields (snd (AddActions io acts s)) = chainFields s"
    by (simp add: AddActions_def enforce_off)
  with st_actions show ?case using chain_inv_fields by blast
next
  case (st_approve s io i who t)
  then have "chainFields (snd (ApproveAction io i who t s)) = chainFields s"
    by (simp add: ApproveAction_def split: option.split)
  with st_approve show ?case using chain_inv_fields by blast
next
  case (st_execute s io i t status err)
  then have "chainFields (snd (RecordActionExecution io i t status err s)) = chainFields s"
    by (simp add: RecordActionExecution_def split: option.split)
  with st_execute show ?case using chain_inv_fields by blast
next
  case (st_retention s io w)
  then have "chainFields (snd (SetRetention io w s)) = chainFields s"
    by (auto simp: SetRetention_def Let_def split: if_splits)
  with st_retention show ?case using chain_inv_fields by blast
qed

lemma chain_inv_rebuild:
  assumes "digests_32 rt" "chain_ok rt s" "stAudits t = stAudits s"
  shows "chain_inv rt os (rebuildAuditChainLocked rt os t)"
  using rebuild_chain [OF assms(1,2)] assms(2,3)
  by (simp add: rebuildAuditChainLocked_def chain_inv_def chain_ok_def Let_def)

lemma chain_inv_New: "chainFields s = chainFields NewStore \<Longrightarrow> chain_inv rt os s"
proof -
  have "chain_inv rt os NewStore"
    using chain_ok_new unfolding chain_inv_def by (simp add: NewStore_def)
  then show "chainFields s = chainFields NewStore \<Longrightarrow> chain_inv rt os s"
    using chain_inv_fields by blast
qed

lemma loadSnapshot_audits [simp]: "stAudits (loadSnapshot snap s) = snAudits snap"
  by (simp add: loadSnapshot_def Let_def split: option.split)

lemma run_chain_inv: "store_run rt os s \<Longrightarrow> digests_32 rt \<Longrightarrow> chain_inv rt os s"
proof (induction rule: store_run.induct)
  case (run_new decode path s)
  then show ?case using NewWithPath_fresh [OF run_new(1)] by (auto simp: chainFields_def intro: chain_inv_New)
next
  case (run_step s s')
  then show ?case using chain_inv_step run_window by blast
next
  case (run_restart s decode data snap path s')
  then have "chain_ok rt s" by (simp add: chain_inv_def)
  then show ?case
    using NewWithPath_loaded [OF run_restart(2,4)] run_restart(3,6)
    by (auto simp: chainFields_def intro: chain_inv_New chain_inv_rebuild)
qed

lemma AuditChain_valid:
  assumes "digests_32 rt" "chain_inv rt os s"
  shows "(acValid (AuditChain s) \<longleftrightarrow> auditChainAnchorKey rt os \<noteq> [] \<or> stAudits s = [])
    \<and> acUnlinked (AuditChain s) = 0 \<and> acLinked (AuditChain s) = acTotal (AuditChain s)"
proof -
  have linked: "audits_linked rt [] (stAudits s)" and head: "stAuditChainHead s = chain_head auHash [] (stAudits s)"
    using assms(2) by (auto simp: chain_inv_def chain_ok_def)
  have all: "filter (\<lambda>a. TrimSpace (auHash a) \<noteq> []) (stAudits s) = stAudits s"
    using chain_all_linked [OF assms(1) linked] by (simp add: filter_id_conv)
  have valid: "stAudits s = [] \<and> stAuditChainHead s = []
      \<or> stAudits s \<noteq> [] \<and> stAuditChainHead s \<noteq> [] \<and> (stAuditChainValid s \<longleftrightarrow> auditChainAnchorKey rt os \<noteq> [])"
  proof (cases "stAudits s = []")
    case False
    then have "stAuditChainHead s \<noteq> []"
      unfolding head using audit_chain.chain_head_nonempty [OF linked False] auditEventHash_nonblank [OF assms(1)] by blast
    with False assms show ?thesis by (simp add: chain_inv_def anchor_nonempty)
  qed (simp add: head chain_head_def)
  then show ?thesis
    by (auto simp: AuditChain_def auditChainSnapshotLocked_def finalizeAuditChainSnapshot_def Let_def all)
qed

lemma chain_rebuild_fields:
  assumes "digests_32 rt" "chain_inv rt os s" "stAudits s \<noteq> []" "stAudits t = stAudits s"
  shows "chainFields (rebuildAuditChainLocked rt os t) = chainFields s"
proof -
  have "rebuildLoop rt (stAudits t) [] 0 True = (stAuditChainHead s, int (length (stAudits s)), True)"
    using rebuild_chain [OF assms(1)] assms(2,4) by (simp add: chain_inv_def)
  then show ?thesis
    using assms(2-4) by (simp add: rebuildAuditChainLocked_def chainFields_def chain_inv_def Let_def)
qed

section \<open>Properties\<close>

text \<open>C11: whatever operations the store has gone through (writes, approvals, retention, restores and loads
  of well-formed snapshots), no two stored alerts share a fingerprint, the set used to suppress
  duplicates is exactly the fingerprints of the stored alerts, and every asset is held under the key of
  its tenant and ID with lists free of repetition. The snapshot the store exports is well formed again.
  Tenant names are taken to be free of the zero byte that separates them from the asset ID.\<close>

theorem reachable_stores_are_sound:
  assumes "store_reachable rt os s"
  shows "snapshot_ok (ExportSnapshot io s)
    \<and> distinct (filter (\<lambda>f. f \<noteq> []) (map alFingerprint (stAlerts s)))
    \<and> set (stFingerprints s) = {alFingerprint a | a. a \<in> set (stAlerts s) \<and> alFingerprint a \<noteq> []}
    \<and> gm_ok (stAssets s)
    \<and> (\<forall>(k, a) \<in> set (stAssets s). k = assetKey (asTenant a) (asID a) \<and> distinct (asIPs a)
         \<and> distinct (asAgentSurface a) \<and> distinct (asLabels a) \<and> 0 \<le> asRiskScore a)"
  using store_ok_reachable [OF assms] snapshot_ok_export [OF store_ok_reachable [OF assms]]
  by (auto simp: store_ok_def fingerprintsOf_def assets_ok_def)

text \<open>A host with an anchor key, an environment, an event and an alert of two tenants.\<close>

definition audit_host :: host_os where
  "audit_host = \<lparr> osEnv = (\<lambda>v. if v = ''OATD_AUDIT_HMAC_SECRET'' then ''k'' else []), osFiles = (\<lambda>_. None),
     osWritable = (\<lambda>_. True) \<rparr>"

definition sample_io :: io_env where
  "sample_io = \<lparr> ioNow = 100, ioMarshal = (\<lambda>_. Inr ''snapshot''), ioDisk = DiskOk \<rparr>"

definition sample_event :: event where
  "sample_event = \<lparr> evID = ''e1'', evTimestamp = 90, evTenant = ''acme'', evKind = EventAuth, evAssetID = ''h1'',
     evHostname = [], evActor = [], evSourceIP = ''10.0.0.1'', evDestination = [], evProcess = [], evToolName = [],
     evCommand = [], evSignal = [], evLabels = [], evMetadata = [] \<rparr>"

definition sample_alert :: alert where
  "sample_alert = \<lparr> alID = ''al1'', alFingerprint = ''r:e1'', alRuleID = ''r'', alTitle = [], alDescription = [],
     alSeverity = SeverityHigh, alStatus = AlertOpen, alAssetID = ''h1'', alTenant = ''acme'', alCreatedAt = 95,
     alEventIDs = [''e1''], alEvidence = [], alRecommendedActions = [] \<rparr>"

lemma sample_plain: "plain_tenant (evTenant sample_event)" "plain_tenant (alTenant sample_alert)"
  by code_simp+

lemma new_reachable: "store_reachable rt os NewStore"
  by (rule sr_new [of _ _ _ "[]"]) (simp add: NewWithPath_def NewStore_def)

theorem reachable_stores_are_sound_witness:
  "let s = snd (RestoreSnapshot sample_io (ExportSnapshot sample_io (snd (AddEvent sample_io sample_event NewStore))) NewStore) in
     stEvents s = [sample_event] \<and> snapshot_ok (ExportSnapshot sample_io s) \<and> distinct (filter (\<lambda>f. f \<noteq> []) (map alFingerprint (stAlerts s)))
    \<and> set (stFingerprints s) = {alFingerprint a | a. a \<in> set (stAlerts s) \<and> alFingerprint a \<noteq> []}
    \<and> gm_ok (stAssets s)
    \<and> (\<forall>(k, a) \<in> set (stAssets s). k = assetKey (asTenant a) (asID a) \<and> distinct (asIPs a)
         \<and> distinct (asAgentSurface a) \<and> distinct (asLabels a) \<and> 0 \<le> asRiskScore a)"
proof -
  define e where "e = snd (AddEvent sample_io sample_event NewStore)"
  define s where "s = snd (RestoreSnapshot sample_io (ExportSnapshot sample_io e) NewStore)"
  have "store_reachable digest_runtime audit_host e"
    unfolding e_def by (rule sr_step [OF new_reachable st_event [OF sample_plain(1)]])
  then have "store_reachable digest_runtime audit_host s"
    unfolding s_def by (intro sr_restore new_reachable snapshot_ok_export store_ok_reachable)
  moreover have "stEvents e = [sample_event]"
    by (simp add: e_def AddEvent_def enforce_off NewStore_def)
  then have "stEvents s = [sample_event]"
    by (simp add: s_def RestoreSnapshot_def ExportSnapshot_def snapshotLocked_def snapshotVersion_def loadSnapshot_def
        Let_def rebuildFingerprintsLocked_def enforce_off NewStore_def)
  ultimately show ?thesis
    using reachable_stores_are_sound [of digest_runtime audit_host s sample_io] unfolding Let_def e_def [symmetric] s_def [symmetric]
    by blast
qed

text \<open>The well-formedness of the snapshot matters: restoring one that repeats a fingerprint leaves two alerts
  of that fingerprint in the store.\<close>

theorem restore_keeps_duplicates:
  assumes "snVersion snap \<le> 1" "stRetentionWindow s \<le> 0"
  shows "stAlerts (snd (RestoreSnapshot io snap s)) = snAlerts snap"
proof -
  have "stAlerts (loadSnapshot (snap\<lparr>snAssets := m\<rparr>) NewStore) = snAlerts snap" for m
    by (simp add: loadSnapshot_def Let_def split: option.split)
  then show ?thesis
    using assms by (simp add: RestoreSnapshot_def snapshotVersion_def Let_def rebuildFingerprintsLocked_def enforce_off)
qed



text \<open>What the window of a store lets stay at a time; everything without a window.\<close>

definition recentIn :: "store \<Rightarrow> time \<Rightarrow> time \<Rightarrow> bool" where
  "recentIn s now t \<longleftrightarrow> stRetentionWindow s \<le> 0 \<or> t = 0 \<or> now - stRetentionWindow s \<le> t"

lemma enforce_recent:
  "stEvents (enforceRetentionLocked io s) = filter (\<lambda>e. recentIn s (ioNow io) (evTimestamp e)) (stEvents s)"
  "stAlerts (enforceRetentionLocked io s) = filter (\<lambda>a. recentIn s (ioNow io) (alCreatedAt a)) (stAlerts s)"
  "stActions (enforceRetentionLocked io s) = filter (\<lambda>a. recentIn s (ioNow io) (raCreatedAt a)) (stActions s)"
  "stAudits (enforceRetentionLocked io s) = filter (\<lambda>a. recentIn s (ioNow io) (auTimestamp a)) (stAudits s)"
  by (cases "stRetentionWindow s \<le> 0"; simp add: enforce_off recentIn_def enforce_lists keep_events.keep_eq
      keep_alerts.keep_eq keep_actions.keep_eq keep_audits.keep_eq)+

lemma filter_filter_sort:
  "filter P (sort_desc_by k (filter Q xs)) = filter Q (filter P (sort_desc_by k xs))"
  by (simp add: sort_desc_by_def filter_sort conj_commute)

lemma retained_tenant:
  assumes "store_ok s"
  shows "tenantAssets u (retainedStore c s) =
    inventoryOf (filter (\<lambda>e. sameTenant (evTenant e) u) (filterEventsByCutoff (stEvents s) c))
      (filter (\<lambda>a. sameTenant (alTenant a) u) (filterAlertsByCutoff (stAlerts s) c))"
proof -
  define t where "t = NewStore\<lparr>stMode := stMode s, stPath := stPath s, stSchemaVersion := stSchemaVersion s,
          stEvents := filterEventsByCutoff (stEvents s) c, stAlerts := filterAlertsByCutoff (stAlerts s) c,
          stActions := filterActionsByCutoff (stActions s) c, stAudits := filterAuditsByCutoff (stAudits s) c\<rparr>"
  have "tenantAssets u (rebuildAssetsLocked t) = inventoryOf (filter (\<lambda>e. sameTenant (evTenant e) u) (stEvents t))
      (filter (\<lambda>a. sameTenant (alTenant a) u) (stAlerts t))"
    by (rule rebuild_tenant) (use assms in \<open>auto simp: t_def store_ok_def keep_events.keep_mem keep_alerts.keep_mem\<close>)
  then show ?thesis
    by (simp add: retainedStore_def t_def tenantAssets_def)
qed

text \<open>The tenant's assets after retention: as they were, or rebuilt from the tenant's own records.\<close>

lemma enforce_tenant:
  assumes "store_ok s"
  shows "tenantAssets u (enforceRetentionLocked io s) = tenantAssets u s
    \<or> 0 < stRetentionWindow s \<and> tenantAssets u (enforceRetentionLocked io s) =
        inventoryOf (filter (\<lambda>e. sameTenant (evTenant e) u \<and> recentIn s (ioNow io) (evTimestamp e)) (stEvents s))
          (filter (\<lambda>a. sameTenant (alTenant a) u \<and> recentIn s (ioNow io) (alCreatedAt a)) (stAlerts s))"
proof (cases "pruned io s")
  case True
  then have w: "0 < stRetentionWindow s" by (simp add: pruned_def)
  have "tenantAssets u (enforceRetentionLocked io s) = tenantAssets u (retainedStore (ioNow io - stRetentionWindow s) s)"
    unfolding enforce_pruned [OF True] Let_def by (simp add: tenantAssets_def)
  with w show ?thesis
    unfolding retained_tenant [OF assms] by (simp add: keep_events.keep_eq keep_alerts.keep_eq recentIn_def conj_commute)
next
  case False
  then show ?thesis
    using enforce_not_pruned [OF False] by (auto simp: tenantAssets_def)
qed

lemma assets_listing: "u \<noteq> [] \<Longrightarrow> ListAssetsForTenant s u = ListAssets (NewStore\<lparr>stAssets := tenantAssets u s\<rparr>)"
  by (simp add: ListAssetsForTenant_def ListAssets_def assets.scope_eq tenantAssets_view sort_desc_by_def filter_sort)

text \<open>C13: tenants do not see each other's events. Recording an event of one tenant leaves of another
  tenant's events, alerts, actions and audit records exactly those the retention window lets stay, all of
  them when no window is set. The other tenant's assets are as they were, or, when a window is set, those
  rebuilt from its own records of the window. The event shows in its own tenant's listing unless it is
  itself older than the window. Tenant names are free of the zero byte.\<close>

theorem events_are_tenant_isolated:
  assumes "store_ok s" "plain_tenant (evTenant ev)" "u \<noteq> []" "\<not> sameTenant (evTenant ev) u"
  shows "let s' = snd (AddEvent io ev s); w = stRetentionWindow s;
             recent = (\<lambda>t. w \<le> 0 \<or> t = 0 \<or> ioNow io - w \<le> t) in
      ListEventsForTenant s' u = filter (\<lambda>e. recent (evTimestamp e)) (ListEventsForTenant s u)
    \<and> ListAlertsForTenant s' u = filter (\<lambda>a. recent (alCreatedAt a)) (ListAlertsForTenant s u)
    \<and> ListActionsForTenant s' u = filter (\<lambda>a. recent (raCreatedAt a)) (ListActionsForTenant s u)
    \<and> ListAuditsForTenant s' u = filter (\<lambda>a. recent (auTimestamp a)) (ListAuditsForTenant s u)
    \<and> (ListAssetsForTenant s' u = ListAssetsForTenant s u
       \<or> 0 < w \<and> ListAssetsForTenant s' u = ListAssets (NewStore\<lparr>stAssets :=
           inventoryOf (filter (\<lambda>e. sameTenant (evTenant e) u \<and> recent (evTimestamp e)) (stEvents s))
             (filter (\<lambda>a. sameTenant (alTenant a) u \<and> recent (alCreatedAt a)) (stAlerts s))\<rparr>))
    \<and> (ev \<in> set (ListEventsForTenant s' (tenantOrDefault (evTenant ev))) \<longleftrightarrow> recent (evTimestamp ev))"
proof -
  define s1 where "s1 = upsertAssetLocked ev (s\<lparr>stEvents := stEvents s @ [ev]\<rparr>)"
  have s': "snd (AddEvent io ev s) = snd (persistLocked io (enforceRetentionLocked io s1))"
    by (simp add: AddEvent_def s1_def)
  have pre: "assets_ok (s\<lparr>stEvents := stEvents s @ [ev]\<rparr>)"
    using assms(1) by (simp add: store_ok_def assets_ok_def)
  have ok: "store_ok s1"
    using assms(1,2) assets_ok_upsert [OF pre assms(2)] by (auto simp: s1_def store_ok_def)
  have r: "recentIn s1 = recentIn s"
    by (simp add: s1_def recentIn_def fun_eq_iff)
  have s1: "stEvents s1 = stEvents s @ [ev]" "stAlerts s1 = stAlerts s" "stActions s1 = stActions s"
    "stAudits s1 = stAudits s" "stRetentionWindow s1 = stRetentionWindow s" "tenantAssets u s1 = tenantAssets u s"
    using tenantAssets_upsert [OF pre assms(2), of u] assms(4) by (simp_all add: s1_def) (simp add: tenantAssets_def)
  have lists: "ListEventsForTenant (snd (AddEvent io ev s)) u = filter (\<lambda>e. recentIn s (ioNow io) (evTimestamp e)) (ListEventsForTenant s u)"
    "ListAlertsForTenant (snd (AddEvent io ev s)) u = filter (\<lambda>a. recentIn s (ioNow io) (alCreatedAt a)) (ListAlertsForTenant s u)"
    "ListActionsForTenant (snd (AddEvent io ev s)) u = filter (\<lambda>a. recentIn s (ioNow io) (raCreatedAt a)) (ListActionsForTenant s u)"
    "ListAuditsForTenant (snd (AddEvent io ev s)) u = filter (\<lambda>a. recentIn s (ioNow io) (auTimestamp a)) (ListAuditsForTenant s u)"
    unfolding s' ListEventsForTenant_def ListEvents_def ListAlertsForTenant_def ListAlerts_def ListActionsForTenant_def
      ListActions_def ListAuditsForTenant_def ListAudits_def persist_frame enforce_recent r s1
      events.scope_eq alerts.scope_eq actions.scope_eq audits.scope_eq filter_filter_sort
    using assms(3,4) by (simp_all add: sort_desc_by_def filter_sort sameTenant_def)
  have "tenantAssets u (snd (AddEvent io ev s)) = tenantAssets u (enforceRetentionLocked io s1)"
    unfolding s' by (simp add: tenantAssets_def)
  then have view: "tenantAssets u (snd (AddEvent io ev s)) = tenantAssets u s
    \<or> 0 < stRetentionWindow s \<and> tenantAssets u (snd (AddEvent io ev s)) =
        inventoryOf (filter (\<lambda>e. sameTenant (evTenant e) u \<and> recentIn s (ioNow io) (evTimestamp e)) (stEvents s))
          (filter (\<lambda>a. sameTenant (alTenant a) u \<and> recentIn s (ioNow io) (alCreatedAt a)) (stAlerts s))"
    using enforce_tenant [OF ok, of u io] assms(4) unfolding r s1 by simp
  have own: "ev \<in> set (ListEventsForTenant (snd (AddEvent io ev s)) (tenantOrDefault (evTenant ev))) \<longleftrightarrow> recentIn s (ioNow io) (evTimestamp ev)"
    unfolding s' by (simp add: ListEventsForTenant_def ListEvents_def events.scope_mem enforce_recent r s1 sameTenant_def)
  show ?thesis
    using lists view own assets_listing [OF assms(3)] unfolding Let_def recentIn_def by auto
qed

theorem events_are_tenant_isolated_witness:
  "let s' = snd (AddEvent sample_io sample_event NewStore) in
      ListEventsForTenant s' ''other'' = [] \<and> ListAlertsForTenant s' ''other'' = []
    \<and> ListAssetsForTenant s' ''other'' = ListAssetsForTenant NewStore ''other''
    \<and> sample_event \<in> set (ListEventsForTenant s' (tenantOrDefault (evTenant sample_event)))"
proof -
  have other: "\<not> sameTenant (evTenant sample_event) ''other''" by code_simp
  have new: "stRetentionWindow NewStore = 0" "ListEventsForTenant NewStore ''other'' = []"
    "ListAlertsForTenant NewStore ''other'' = []"
    by (simp_all add: ListEventsForTenant_def ListEvents_def ListAlertsForTenant_def ListAlerts_def events.scope_eq alerts.scope_eq
        sort_desc_by_def) (simp_all add: NewStore_def)
  show ?thesis
    using events_are_tenant_isolated [OF store_ok_New sample_plain(1) _ other, of sample_io] by (simp add: new Let_def)
qed

lemma finish_fields:
  assumes "GetAction s i = Some a" "\<And>x. raID (f x) = raID x"
  shows "finishAction io i f s =
    (let (err, t) = persistLocked io (s\<lparr>stActions := update_first (\<lambda>x. raID x = i) f (stActions s)\<rparr>) in
     (case err of Some e \<Rightarrow> (empty_action, True, Some e) | None \<Rightarrow> (f a, True, None), t))"
proof -
  have "find (\<lambda>x. raID x = i) (update_first (\<lambda>x. raID x = i) f (stActions s)) = Some (f a)"
    using assms by (subst find_update_first) (auto simp: GetAction_def)
  then have "GetAction (snd (persistLocked io (s\<lparr>stActions := update_first (\<lambda>x. raID x = i) f (stActions s)\<rparr>))) i = Some (f a)"
    by (simp add: GetAction_def)
  then show ?thesis
    by (simp add: finishAction_def Let_def case_prod_beta split: option.split)
qed

text \<open>C14: an approval changes exactly one action. An unknown ID changes nothing; a blocked tool call or
  MCP proxy action is refused and unchanged; any other action is marked approved with the approver and
  the time, and every other action, record and asset stays as it was.\<close>

theorem approve_action_spec:
  "let (result, s') = ApproveAction io i who at s in
   case GetAction s i of
     None \<Rightarrow> result = (empty_action, False, None) \<and> s' = s
   | Some a \<Rightarrow>
       if raType a \<in> {''gateway_tool_call'', ''mcp_proxy''} \<and> raExecutionStatus a = ''blocked''
       then s' = s \<and> snd (snd result) = Some ''blocked gateway actions cannot be approved''
       else GetAction s' i = Some (a\<lparr>raApprovalStatus := ''approved'', raApprovedBy := who, raApprovedAt := Some at\<rparr>)
         \<and> (snd (snd result) = None \<longrightarrow>
              fst result = a\<lparr>raApprovalStatus := ''approved'', raApprovedBy := who, raApprovedAt := Some at\<rparr>)
         \<and> (\<forall>j. j \<noteq> i \<longrightarrow> GetAction s' j = GetAction s j)
         \<and> map raID (stActions s') = map raID (stActions s)
         \<and> stEvents s' = stEvents s \<and> stAlerts s' = stAlerts s \<and> stAudits s' = stAudits s \<and> stAssets s' = stAssets s"
proof (cases "GetAction s i")
  case (Some a)
  let ?f = "approve who at"
  let ?P = "\<lambda>x. raID x = i"
  have keep: "raID (?f x) = raID x" for x by (simp add: approve_def)
  have hit: "find ?P (update_first ?P ?f (stActions s)) = Some (?f a)"
    using Some keep by (subst find_update_first) (auto simp: GetAction_def)
  have other: "find (\<lambda>x. raID x = j) (update_first ?P ?f (stActions s)) = find (\<lambda>x. raID x = j) (stActions s)" if "j \<noteq> i" for j
    using that keep by (intro find_update_first_other) auto
  have ids: "map raID (update_first ?P ?f (stActions s)) = map raID (stActions s)"
    by (rule map_update_first_same) (simp add: keep)
  show ?thesis
  proof (cases "raType a \<in> {''gateway_tool_call'', ''mcp_proxy''} \<and> raExecutionStatus a = ''blocked''")
    case True
    with Some show ?thesis by (auto simp: ApproveAction_def)
  next
    case False
    then have "ApproveAction io i who at s = finishAction io i ?f s"
      using Some by (auto simp: ApproveAction_def)
    then show ?thesis
      using Some False hit other ids
      by (simp add: finish_fields [OF Some keep] Let_def case_prod_beta GetAction_def split: option.split)
        (auto simp: approve_def)
  qed
qed (simp add: ApproveAction_def)

definition sample_action :: "string \<Rightarrow> string \<Rightarrow> response_action" where
  "sample_action typ status = empty_action\<lparr>raID := ''act1'', raType := typ, raExecutionStatus := status, raCreatedAt := 90\<rparr>"

theorem approve_action_spec_witness:
  "snd (ApproveAction sample_io ''act1'' ''op'' 99 (NewStore\<lparr>stActions := [sample_action ''mcp_proxy'' ''blocked'']\<rparr>)) =
     NewStore\<lparr>stActions := [sample_action ''mcp_proxy'' ''blocked'']\<rparr>
   \<and> GetAction (snd (ApproveAction sample_io ''act1'' ''op'' 99 (NewStore\<lparr>stActions := [sample_action ''notify'' []]\<rparr>))) ''act1'' =
     Some ((sample_action ''notify'' [])\<lparr>raApprovalStatus := ''approved'', raApprovedBy := ''op'', raApprovedAt := Some 99\<rparr>)"
proof -
  have get: "GetAction (NewStore\<lparr>stActions := [sample_action t st]\<rparr>) ''act1'' = Some (sample_action t st)" for t st
    by (simp add: GetAction_def sample_action_def)
  have fields: "raType (sample_action t st) = t" "raExecutionStatus (sample_action t st) = st" for t st
    by (simp_all add: sample_action_def)
  show ?thesis
    using approve_action_spec [of sample_io "''act1''" "''op''" 99 "NewStore\<lparr>stActions := [sample_action ''mcp_proxy'' ''blocked'']\<rparr>"]
      approve_action_spec [of sample_io "''act1''" "''op''" 99 "NewStore\<lparr>stActions := [sample_action ''notify'' []]\<rparr>"]
    by (simp add: get fields Let_def case_prod_beta)
qed

text \<open>C15: setting a retention window drops exactly the records whose time stamp is older than the window;
  records without a time stamp are kept, and the order of the rest is unchanged.\<close>

theorem retention_is_exact:
  assumes "0 < w"
  shows "let s' = snd (SetRetention io w s); recent = (\<lambda>t. t = 0 \<or> ioNow io - w \<le> t) in
      stEvents s' = filter (\<lambda>e. recent (evTimestamp e)) (stEvents s)
    \<and> stAlerts s' = filter (\<lambda>a. recent (alCreatedAt a)) (stAlerts s)
    \<and> stActions s' = filter (\<lambda>a. recent (raCreatedAt a)) (stActions s)
    \<and> stAudits s' = filter (\<lambda>a. recent (auTimestamp a)) (stAudits s)
    \<and> stRetentionWindow s' = w"
  using assms enforce_lists [of "s\<lparr>stRetentionWindow := w\<rparr>" io]
  by (simp add: SetRetention_def Let_def keep_events.keep_eq keep_alerts.keep_eq keep_actions.keep_eq keep_audits.keep_eq)

theorem retention_is_exact_witness:
  "let s' = snd (SetRetention sample_io 20 (NewStore\<lparr>stEvents := [sample_event, sample_event\<lparr>evTimestamp := 70\<rparr>]\<rparr>)) in
     stEvents s' = [sample_event]"
  using retention_is_exact [of 20 sample_io "NewStore\<lparr>stEvents := [sample_event, sample_event\<lparr>evTimestamp := 70\<rparr>]\<rparr>"]
  by (simp add: Let_def sample_io_def sample_event_def)

text \<open>A store whose records are all text: writing them as JSON and reading them back changes nothing.\<close>

definition text_store :: "store \<Rightarrow> bool" where
  "text_store s \<longleftrightarrow> map json_event (stEvents s) = stEvents s \<and> map json_alert (stAlerts s) = stAlerts s
     \<and> map json_action (stActions s) = stActions s \<and> map json_audit (stAudits s) = stAudits s
     \<and> json_map json_asset (stAssets s) = stAssets s"

lemma persist_file:
  assumes "stPath s \<noteq> []" "stMode s = ''file''" "persistLocked io s = (None, s')"
  obtains data where "ioMarshal io (snapshotLocked (ioNow io) s) = Inr data" "stDisk s' = Some data"
  using assms by (auto simp: persistLocked_def split: disk_outcome.splits sum.splits)

lemma reload_file:
  assumes "stPath s \<noteq> []" "stMode s = ''file''" "persistLocked io s = (None, s')"
    and "\<forall>data. ioMarshal io (snapshotLocked (ioNow io) s) = Inr data \<longrightarrow>
           decode data = Inr (json_snapshot (snapshotLocked (ioNow io) s))"
  obtains t where "NewWithPath rt os decode (stPath s) (Inr (stDisk s')) = Inr (rebuildAuditChainLocked rt os t)"
    "stEvents t = map json_event (stEvents s)" "stAlerts t = map json_alert (stAlerts s)"
    "stActions t = map json_action (stActions s)" "stAudits t = map json_audit (stAudits s)"
    "stAssets t = json_map json_asset (stAssets s)" "stPath t = stPath s"
    "stFingerprints t = addFingerprints (map json_alert (stAlerts s)) []"
proof -
  obtain data where data: "ioMarshal io (snapshotLocked (ioNow io) s) = Inr data" "stDisk s' = Some data"
    using persist_file [OF assms(1-3)] by blast
  define t where "t = loadSnapshot (json_snapshot (snapshotLocked (ioNow io) s))
    (NewStore\<lparr>stPath := stPath s, stMode := ''file'', stDisk := Some data\<rparr>)"
  have "decode data = Inr (json_snapshot (snapshotLocked (ioNow io) s))"
    using assms(4) data(1) by blast
  then have "NewWithPath rt os decode (stPath s) (Inr (stDisk s')) = Inr (rebuildAuditChainLocked rt os t)"
    using assms(1) by (simp add: NewWithPath_def data(2) t_def Let_def json_snapshot_def snapshotLocked_def snapshotVersion_def)
  then show thesis
    by (rule that) (simp_all add: t_def loadSnapshot_def json_snapshot_def snapshotLocked_def Let_def rebuildFingerprintsLocked_def)
qed

text \<open>C16: a store in file mode that has written its snapshot comes back from it after a restart, when the
  file reads back as JSON does: with every string of the records as JSON text. If all strings are valid
  UTF-8, the records and assets are the same, the duplicate filter knows the same fingerprints, and a
  chain that was in order has the same head, anchor and validity.\<close>

theorem snapshot_restart:
  assumes "digests_32 rt" "store_ok s" "stPath s \<noteq> []" "stMode s = ''file''" "persistLocked io s = (None, s')"
    and "\<forall>data. ioMarshal io (snapshotLocked (ioNow io) s) = Inr data \<longrightarrow>
           decode data = Inr (json_snapshot (snapshotLocked (ioNow io) s))"
  shows "\<exists>r. NewWithPath rt os decode (stPath s) (Inr (stDisk s')) = Inr r \<and> stPath r = stPath s
    \<and> stEvents r = map json_event (stEvents s) \<and> stAlerts r = map json_alert (stAlerts s)
    \<and> stActions r = map json_action (stActions s) \<and> stAudits r = map json_audit (stAudits s)
    \<and> stAssets r = json_map json_asset (stAssets s)
    \<and> set (stFingerprints r) = {json_text (alFingerprint a) | a. a \<in> set (stAlerts s)} - {[]}
    \<and> (text_store s \<longrightarrow>
         stEvents r = stEvents s \<and> stAlerts r = stAlerts s \<and> stActions r = stActions s \<and> stAudits r = stAudits s
       \<and> stAssets r = stAssets s \<and> set (stFingerprints r) = set (stFingerprints s)
       \<and> (chain_inv rt os s \<and> stAudits s \<noteq> [] \<longrightarrow> chainFields r = chainFields s))"
proof -
  obtain t where t: "NewWithPath rt os decode (stPath s) (Inr (stDisk s')) = Inr (rebuildAuditChainLocked rt os t)"
    "stEvents t = map json_event (stEvents s)" "stAlerts t = map json_alert (stAlerts s)"
    "stActions t = map json_action (stActions s)" "stAudits t = map json_audit (stAudits s)"
    "stAssets t = json_map json_asset (stAssets s)" "stPath t = stPath s"
    "stFingerprints t = addFingerprints (map json_alert (stAlerts s)) []"
    using reload_file [OF assms(3-6)] by blast
  have fps: "set (stFingerprints t) = {json_text (alFingerprint a) | a. a \<in> set (stAlerts s)} - {[]}"
    unfolding t(8) addFingerprints_set by (auto simp: fingerprintsOf_def json_alert_def)
  have same: "set (stFingerprints t) = set (stFingerprints s)" if "text_store s"
    using that assms(2) unfolding t(8) addFingerprints_set by (simp add: text_store_def store_ok_def)
  have chain: "chainFields (rebuildAuditChainLocked rt os t) = chainFields s"
    if "text_store s" "chain_inv rt os s" "stAudits s \<noteq> []"
    by (rule chain_rebuild_fields [OF assms(1) that(2,3)]) (use that(1) t(5) in \<open>simp add: text_store_def\<close>)
  show ?thesis
    using t fps same chain
    by (intro exI [of _ "rebuildAuditChainLocked rt os t"]) (simp add: text_store_def)
qed

definition file_store :: store where
  "file_store = snd (AddAudit digest_runtime audit_host sample_io (sample_audit ''acme'')
     (NewStore\<lparr>stPath := ''s.json'', stMode := ''file''\<rparr>))"

lemma file_store_run: "store_run digest_runtime audit_host file_store"
proof -
  have "store_run digest_runtime audit_host (NewStore\<lparr>stPath := ''s.json'', stMode := ''file''\<rparr>)"
    by (rule run_new [of _ _ _ "''s.json''"]) (simp add: NewWithPath_def)
  moreover have "stRetentionWindow file_store \<le> 0"
    by (simp add: file_store_def AddAudit_def prepareAuditChainLocked_def Let_def NewStore_def)
  ultimately show ?thesis
    unfolding file_store_def by (blast intro: run_step st_audit)
qed

lemma file_store_facts:
  "store_ok file_store" "stPath file_store = ''s.json''" "stMode file_store = ''file''" "stAudits file_store \<noteq> []"
  "persistLocked sample_io file_store = (None, snd (persistLocked sample_io file_store))"
proof -
  show "store_ok file_store"
    unfolding file_store_def
    by (rule store_ok_step [OF st_audit]) (simp add: store_ok_def NewStore_def fingerprintsOf_def assets_ok_def)
  show path: "stPath file_store = ''s.json''" "stMode file_store = ''file''" "stAudits file_store \<noteq> []"
    by (simp_all add: file_store_def AddAudit_def prepareAuditChainLocked_def Let_def NewStore_def enforce_off)
  show "persistLocked sample_io file_store = (None, snd (persistLocked sample_io file_store))"
    by (simp add: persistLocked_def path sample_io_def)
qed

lemma json_text_hash: "json_text (auditEventHash rt ev h) = auditEventHash rt ev h"
  by (rule json_text_ascii) (simp add: auditEventHash_def hex_encode_ascii)

lemma file_store_text: "text_store file_store"
proof -
  have lists: "stEvents file_store = []" "stAlerts file_store = []" "stActions file_store = []" "stAssets file_store = []"
    by (simp_all add: file_store_def AddAudit_def prepareAuditChainLocked_def Let_def NewStore_def enforce_off)
  have words: "json_text ''a1'' = ''a1''" "json_text ''acme'' = ''acme''" "json_text ''admin'' = ''admin''"
    "json_text ''login'' = ''login''" "json_text ''ok'' = ''ok''"
    by code_simp+
  have "map json_audit (stAudits file_store) = stAudits file_store"
    by (simp add: file_store_def AddAudit_def prepareAuditChainLocked_def Let_def NewStore_def enforce_off json_audit_def
        sample_audit_def json_text_hash words)
  then show ?thesis by (simp add: text_store_def lists)
qed

theorem snapshot_restart_witness:
  "\<exists>r. NewWithPath digest_runtime audit_host (\<lambda>_. Inr (json_snapshot (snapshotLocked 100 file_store))) ''s.json''
       (Inr (stDisk (snd (persistLocked sample_io file_store)))) = Inr r
     \<and> stAudits r = stAudits file_store \<and> chainFields r = chainFields file_store"
  using snapshot_restart [OF digest_runtime_32 file_store_facts(1) _ file_store_facts(3,5), where os = audit_host
      and decode = "\<lambda>_. Inr (json_snapshot (snapshotLocked 100 file_store))"]
    file_store_facts(2,4) file_store_text run_chain_inv [OF file_store_run digest_runtime_32]
  by (auto simp: sample_io_def)

text \<open>C10: along every run without a retention window (operations other than the restore of a snapshot, and
  restarts from a file that holds the audit records unchanged) the audit records stay linked, the report
  counts them all as linked, and the head is the hash of the last record. The report says valid exactly
  when an anchor key is configured or there is no record yet.\<close>

theorem audit_chain_stays_valid:
  assumes "digests_32 rt" "store_run rt os s"
  shows "audits_linked rt [] (stAudits s) \<and> stAuditChainHead s = chain_head auHash [] (stAudits s)
    \<and> acUnlinked (AuditChain s) = 0 \<and> acLinked (AuditChain s) = acTotal (AuditChain s)
    \<and> (acValid (AuditChain s) \<longleftrightarrow> auditChainAnchorKey rt os \<noteq> [] \<or> stAudits s = [])"
  using AuditChain_valid [OF assms(1) run_chain_inv [OF assms(2,1)]] run_chain_inv [OF assms(2,1)]
  by (simp add: chain_inv_def chain_ok_def)

lemma audit_host_key: "auditChainAnchorKey digest_runtime audit_host \<noteq> []"
  by code_simp

theorem audit_chain_stays_valid_witness:
  "audits_linked digest_runtime [] (stAudits file_store)
    \<and> stAuditChainHead file_store = chain_head auHash [] (stAudits file_store)
    \<and> acUnlinked (AuditChain file_store) = 0 \<and> acLinked (AuditChain file_store) = acTotal (AuditChain file_store)
    \<and> acValid (AuditChain file_store)"
  using audit_chain_stays_valid [OF digest_runtime_32 file_store_run] audit_host_key by simp

section \<open>Where the chain report and the chain part\<close>

lemma AddAudit_fields:
  assumes "stRetentionWindow s \<le> 0"
  shows "stAudits (snd (AddAudit rt os io au s)) = stAudits s @ [au\<lparr>auChainIndex := int (length (stAudits s)) + 1,
      auPrevHash := stAuditChainHead s, auHash := auditEventHash rt au (stAuditChainHead s)\<rparr>]"
    "stAuditChainHead (snd (AddAudit rt os io au s)) = auditEventHash rt au (stAuditChainHead s)"
    "stRetentionWindow (snd (AddAudit rt os io au s)) = stRetentionWindow s"
  using assms by (simp_all add: AddAudit_def prepareAuditChainLocked_def Let_def enforce_off)

text \<open>One tenant's view of a sound chain is reported broken. When the first record belongs to another
  tenant, the chain of the whole store is valid and the report for the tenant of the second record is
  not, because its first record links to a record outside the view.\<close>

theorem tenant_chain_report_breaks:
  assumes "digests_32 rt" "auditChainAnchorKey rt os \<noteq> []"
    and "\<not> sameTenant (auTenant a) u" "sameTenant (auTenant b) u"
  shows "let s = snd (AddAudit rt os io' b (snd (AddAudit rt os io a NewStore))) in
    acValid (AuditChain s) \<and> \<not> acValid (AuditChainForTenant rt os u s)"
proof -
  define s1 where "s1 = snd (AddAudit rt os io a NewStore)"
  define s where "s = snd (AddAudit rt os io' b s1)"
  have w: "stRetentionWindow NewStore \<le> 0" "stRetentionWindow s1 \<le> 0"
    by (simp_all add: s1_def AddAudit_fields(3)) (simp_all add: NewStore_def AddAudit_fields(3))
  have ok1: "chain_inv rt os s1" unfolding s1_def using chain_ok_new w(1) by (rule chain_inv_AddAudit)
  then have "chain_inv rt os s" unfolding s_def using w(2) by (intro chain_inv_AddAudit) (simp add: chain_inv_def)
  then have valid: "acValid (AuditChain s)" using AuditChain_valid [OF assms(1)] assms(2) by blast
  have nb: "TrimSpace (auditEventHash rt e p) \<noteq> []" "auditEventHash rt e p \<noteq> []" for e p
    using auditEventHash_nonblank [OF assms(1)] by blast+
  have "stAudits NewStore = []" "stAuditChainHead NewStore = []" by (simp_all add: NewStore_def)
  then have "stAuditChainHead s1 = auditEventHash rt a []" "stAudits s1 = [a\<lparr>auChainIndex := 1, auPrevHash := [], auHash := auditEventHash rt a []\<rparr>]"
    using AddAudit_fields [OF w(1), of rt os io a] by (simp_all add: s1_def)
  then have "stAudits s = [a\<lparr>auChainIndex := 1, auPrevHash := [], auHash := auditEventHash rt a []\<rparr>,
      b\<lparr>auChainIndex := 2, auPrevHash := auditEventHash rt a [], auHash := auditEventHash rt b (auditEventHash rt a [])\<rparr>]"
    using AddAudit_fields(1) [OF w(2), of rt os io' b] by (simp add: s_def)
  then have "\<not> acValid (AuditChainForTenant rt os u s)"
    using assms(3,4) nb
    by (simp add: AuditChainForTenant_def auditChainSnapshotForTenantLocked_def finalizeAuditChainSnapshot_def Let_def)
  with valid show ?thesis
    by (simp add: s_def s1_def)
qed

theorem tenant_chain_report_breaks_witness:
  "let s = snd (AddAudit digest_runtime audit_host sample_io (sample_audit ''b'')
     (snd (AddAudit digest_runtime audit_host sample_io (sample_audit ''a'') NewStore))) in
    acValid (AuditChain s) \<and> \<not> acValid (AuditChainForTenant digest_runtime audit_host ''b'' s)"
proof (rule tenant_chain_report_breaks [OF digest_runtime_32 audit_host_key])
  show "\<not> sameTenant (auTenant (sample_audit ''a'')) ''b''" "sameTenant (auTenant (sample_audit ''b'')) ''b''"
    by code_simp+
qed

text \<open>Restoring a snapshot does not restore the chain's head: a store that takes over the audit records
  of a snapshot reports its chain invalid, although the records are linked, and the next record links to
  the empty hash.\<close>

theorem restore_loses_chain_head:
  assumes "snVersion snap \<le> 1" "snAudits snap \<noteq> []" "RestoreSnapshot io snap NewStore = (err, s)"
  shows "stAudits s = snAudits snap \<and> stAuditChainHead s = [] \<and> \<not> acValid (AuditChain s)
    \<and> auPrevHash (last (stAudits (snd (AddAudit rt os io' au s)))) = []"
proof -
  define r where "r = loadSnapshot (snap\<lparr>snAssets := map_option cloneAssets (snAssets snap)\<rparr>) NewStore"
  define t where "t = (rebuildFingerprintsLocked (NewStore\<lparr>stEvents := stEvents r, stAlerts := stAlerts r,
      stActions := stActions r, stAudits := stAudits r, stAssets := cloneAssets (stAssets r)\<rparr>))\<lparr>stLastErr := []\<rparr>"
  have "stAudits r = snAudits snap"
    by (simp add: r_def loadSnapshot_def Let_def split: option.split)
  then have t: "stAudits t = snAudits snap" "stAuditChainHead t = []" "stRetentionWindow t \<le> 0"
    by (simp_all add: t_def rebuildFingerprintsLocked_def) (simp_all add: NewStore_def)
  have "s = snd (persistLocked io (enforceRetentionLocked io t))"
    using assms(1,3) unfolding RestoreSnapshot_def Let_def r_def [symmetric] t_def [symmetric]
    by (simp add: snapshotVersion_def)
  then have s: "stAudits s = snAudits snap" "stAuditChainHead s = []" "stRetentionWindow s \<le> 0"
    using t by (simp_all add: enforce_off)
  then have "\<not> acValid (AuditChain s)"
    using assms(2) by (simp add: AuditChain_def auditChainSnapshotLocked_def finalizeAuditChainSnapshot_def Let_def)
  with s show ?thesis
    by (simp add: AddAudit_fields)
qed

theorem restore_loses_chain_head_witness:
  "let s = snd (RestoreSnapshot sample_io (snapshotLocked 100 file_store) NewStore) in
     stAudits file_store \<noteq> [] \<and> stAudits s = stAudits file_store \<and> stAuditChainHead s = [] \<and> \<not> acValid (AuditChain s)"
proof -
  obtain err s where r: "RestoreSnapshot sample_io (snapshotLocked 100 file_store) NewStore = (err, s)"
    by fastforce
  have ne: "stAudits file_store \<noteq> []"
    by (simp add: file_store_def AddAudit_def prepareAuditChainLocked_def Let_def NewStore_def enforce_off)
  show ?thesis
    using restore_loses_chain_head [OF _ _ r, of digest_runtime audit_host sample_io "sample_audit []"] ne r
    by (simp add: snapshotLocked_def snapshotVersion_def)
qed

text \<open>Text that JSON cannot keep breaks the chain on a restart. The chain hashes the raw bytes of a record;
  the file holds them as JSON text. When a record changes in that way and its digest with it, the chain
  of the restarted store is reported broken, although nobody tampered with the file.\<close>

lemma rebuildLoop_checks:
  "snd (snd (rebuildLoop rt as p k v)) \<Longrightarrow> v \<and> (\<forall>a \<in> set as. TrimSpace (auHash a) = [] \<or> auHash a = auditEventHash rt a (auPrevHash a))"
proof (induction as arbitrary: p k v)
  case (Cons a as)
  show ?case
    by (cases "TrimSpace (auHash a) = []") (use Cons.prems in \<open>force dest!: Cons.IH\<close>)+
qed simp

theorem invalid_text_breaks_chain:
  assumes "stPath s \<noteq> []" "stMode s = ''file''" "persistLocked io s = (None, s')"
    and "\<forall>data. ioMarshal io (snapshotLocked (ioNow io) s) = Inr data \<longrightarrow>
           decode data = Inr (json_snapshot (snapshotLocked (ioNow io) s))"
    and "a \<in> set (stAudits s)" "TrimSpace (json_text (auHash a)) \<noteq> []"
    and "json_text (auHash a) \<noteq> auditEventHash rt (json_audit a) (json_text (auPrevHash a))"
  shows "\<exists>r. NewWithPath rt os decode (stPath s) (Inr (stDisk s')) = Inr r \<and> \<not> stAuditChainValid r"
proof -
  obtain t where t: "NewWithPath rt os decode (stPath s) (Inr (stDisk s')) = Inr (rebuildAuditChainLocked rt os t)"
    "stAudits t = map json_audit (stAudits s)"
    using reload_file [OF assms(1-4)] by blast
  have a: "json_audit a \<in> set (stAudits t)" "auHash (json_audit a) = json_text (auHash a)" "auPrevHash (json_audit a) = json_text (auPrevHash a)"
    using assms(5) t(2) by (auto simp: json_audit_def)
  have "\<not> snd (snd (rebuildLoop rt (stAudits t) [] 0 True))"
  proof
    assume "snd (snd (rebuildLoop rt (stAudits t) [] 0 True))"
    then have "TrimSpace (auHash (json_audit a)) = [] \<or> auHash (json_audit a) = auditEventHash rt (json_audit a) (auPrevHash (json_audit a))"
      using rebuildLoop_checks a(1) by blast
    then show False using assms(6,7) a(2,3) by simp
  qed
  then show ?thesis
    using t(1) by (simp add: rebuildAuditChainLocked_def Let_def case_prod_beta)
qed

theorem invalid_text_breaks_chain_witness:
  "let s = snd (AddAudit digest_runtime audit_host sample_io ((sample_audit ''acme'')\<lparr>auID := [CHR 0xFF]\<rparr>)
         (NewStore\<lparr>stPath := ''s.json'', stMode := ''file''\<rparr>)) in
     acValid (AuditChain s)
     \<and> (\<exists>r. NewWithPath digest_runtime audit_host (\<lambda>_. Inr (json_snapshot (snapshotLocked 100 s))) ''s.json''
            (Inr (stDisk (snd (persistLocked sample_io s)))) = Inr r \<and> \<not> stAuditChainValid r)"
proof -
  let ?a = "(sample_audit ''acme'')\<lparr>auID := [CHR 0xFF]\<rparr>"
  let ?n = "NewStore\<lparr>stPath := ''s.json'', stMode := ''file''\<rparr>"
  let ?h = "auditEventHash digest_runtime ?a []"
  let ?b = "?a\<lparr>auChainIndex := 1, auPrevHash := [], auHash := ?h\<rparr>"
  define s where "s = snd (AddAudit digest_runtime audit_host sample_io ?a ?n)"
  have n: "chain_inv digest_runtime audit_host ?n" "stRetentionWindow ?n \<le> 0"
    by (rule chain_inv_New) (simp_all add: chainFields_def NewStore_def)
  have "chain_inv digest_runtime audit_host s"
    unfolding s_def by (rule chain_inv_AddAudit) (use n in \<open>simp_all add: chain_inv_def\<close>)
  then have valid: "acValid (AuditChain s)"
    using AuditChain_valid [OF digest_runtime_32] audit_host_key by blast
  have fs: "stPath s = ''s.json''" "stMode s = ''file''" "stAudits s = [?b]"
    by (simp_all add: s_def AddAudit_def prepareAuditChainLocked_def Let_def NewStore_def enforce_off auditEventHash_def auditMessage_def)
  have p: "persistLocked sample_io s = (None, snd (persistLocked sample_io s))"
    by (simp add: persistLocked_def fs sample_io_def)
  have "?h \<noteq> auditEventHash digest_runtime (json_audit ?b) []"
    by (simp add: auditEventHash_def auditMessage_def digest_runtime_def json_audit_def json_text_invalid hex_digit_def)
  then have "\<exists>r. NewWithPath digest_runtime audit_host (\<lambda>_. Inr (json_snapshot (snapshotLocked 100 s))) (stPath s)
            (Inr (stDisk (snd (persistLocked sample_io s)))) = Inr r \<and> \<not> stAuditChainValid r"
    using auditEventHash_nonblank [OF digest_runtime_32]
    by (intro invalid_text_breaks_chain [OF _ fs(2) p, where a = ?b]) (simp_all add: fs sample_io_def json_text_hash)
  with valid show ?thesis
    by (simp add: s_def [symmetric] fs(1))
qed

lemma rebuildLoop_invalid: "\<not> snd (snd (rebuildLoop rt as p k False))"
  by (induction as arbitrary: p k) auto

text \<open>Retention cuts the chain: once the oldest record of a sound chain has been dropped, a restart
  from the file reports the chain invalid.\<close>

theorem retention_breaks_chain_on_restart:
  assumes "digests_32 rt" "audits_linked rt [] (a # b # rest)" "stAudits s = b # rest"
  shows "\<not> stAuditChainValid (rebuildAuditChainLocked rt os s)"
proof -
  have "TrimSpace (auHash b) \<noteq> []" "auPrevHash b \<noteq> []"
    using assms(2) auditEventHash_nonblank [OF assms(1)] by auto
  then have "\<not> snd (snd (rebuildLoop rt (stAudits s) [] 0 True))"
    using rebuildLoop_invalid by (simp add: assms(3))
  then show ?thesis
    by (simp add: rebuildAuditChainLocked_def Let_def case_prod_beta)
qed

theorem retention_breaks_chain_on_restart_witness:
  "\<exists>a b. audits_linked digest_runtime [] [a, b]
     \<and> \<not> stAuditChainValid (rebuildAuditChainLocked digest_runtime audit_host (NewStore\<lparr>stAudits := [b]\<rparr>))"
proof -
  let ?a = "sample_linked ''x''"
  let ?b = "(sample_audit ''y'')\<lparr>auPrevHash := auHash ?a, auHash := auditEventHash digest_runtime (sample_audit ''y'') (auHash ?a)\<rparr>"
  have linked: "audits_linked digest_runtime [] [?a, ?b]"
    by (simp add: sample_linked_facts)
  have "\<not> stAuditChainValid (rebuildAuditChainLocked digest_runtime audit_host (NewStore\<lparr>stAudits := [?b]\<rparr>))"
    by (rule retention_breaks_chain_on_restart [OF digest_runtime_32 linked]) simp
  with linked show ?thesis by blast
qed

end
