(* ===== verification/Tenants.thy ===== *)
theory Tenants
  imports StoreOps
begin

text \<open>
  \<open>internal/server/tenants.go\<close> and the per-tenant store functions of \<open>internal/server/server.go\<close>: the
  registry of tenant backends, the store that serves a tenant, and the reads and writes the handlers
  make through it. A \<open>*store.Store\<close> that may be shared is a reference: the base store, or one of the
  stores the registry opened. What the host gives (the clock, the disk, the contents of a snapshot file,
  the registry file, a PostgreSQL store, Go's duration and float parsers) is the record \<open>tenant_env\<close>.
\<close>

section \<open>State\<close>

record tenant_backend_config =
  tbMode :: string
  tbPostgresDSN :: string
  tbDataPath :: string
  tbAdmins :: "string list option"
  tbPolicyProfile :: string
  tbRetentionWindow :: string
  tbSSOProfile :: string
  tbBackupTarget :: string
  tbLabels :: "string list option"
  tbNotes :: string
  tbCreatedAt :: string
  tbUpdatedAt :: string
  tbActive :: bool
  tbSchemaVersion :: int

definition emptyBackend :: tenant_backend_config where
  "emptyBackend = \<lparr> tbMode = [], tbPostgresDSN = [], tbDataPath = [], tbAdmins = None, tbPolicyProfile = [],
     tbRetentionWindow = [], tbSSOProfile = [], tbBackupTarget = [], tbLabels = None, tbNotes = [], tbCreatedAt = [],
     tbUpdatedAt = [], tbActive = False, tbSchemaVersion = 0 \<rparr>"

datatype store_ref = BaseStore | OwnStore nat

record tenant_registry =
  rgPath :: string
  rgPhysicalMode :: bool
  rgPostgresTemplate :: string
  rgDataPathTemplate :: string
  rgBackends :: "(string, tenant_backend_config) gomap"
  rgStores :: "(string, store_ref) gomap"

text \<open>The base store, the stores the registry has opened, and the registry, which may be absent.\<close>

record tenancy =
  tsBase :: store
  tsOpened :: "store list"
  tsRegistry :: "tenant_registry option"

record tenant_env =
  teRuntime :: runtime
  teHost :: host_os
  teIO :: io_env
  teSnapshotFile :: "string \<Rightarrow> string + string option"
  teDecodeSnapshot :: "string \<Rightarrow> string + snapshot_data"
  teRegistryFile :: "string \<Rightarrow> string + (string, tenant_backend_config) gomap option"
  tePersistError :: "string option"
  teOpenPostgres :: "string \<Rightarrow> string + store"
  teParseDuration :: "string \<Rightarrow> duration option"
  teParseScaled :: "string \<Rightarrow> duration \<Rightarrow> string + duration"

definition teNowText :: "tenant_env \<Rightarrow> string" where
  "teNowText env = RFC3339Nano (ioNow (teIO env))"

section \<open>Values\<close>

definition parseTenantIsolationMode :: "runtime \<Rightarrow> string \<Rightarrow> bool" where
  "parseTenantIsolationMode rt v \<longleftrightarrow> ToLower rt (TrimSpace v) = ''physical''"

definition normalizeTenantMode :: "runtime \<Rightarrow> string \<Rightarrow> string" where
  "normalizeTenantMode rt v = (let m = ToLower rt (TrimSpace v) in
     if m = [] \<or> m = ''logical'' then ''logical'' else m)"

fun tenantValuesLoop :: "runtime \<Rightarrow> string list \<Rightarrow> string list \<Rightarrow> string list" where
  "tenantValuesLoop rt [] seen = []"
| "tenantValuesLoop rt (v # vs) seen = (let v = TrimSpace v; key = ToLower rt v in
     if v = [] then tenantValuesLoop rt vs seen
     else if key \<in> set seen then tenantValuesLoop rt vs seen
     else v # tenantValuesLoop rt vs (key # seen))"

definition normalizeTenantValues :: "runtime \<Rightarrow> string list \<Rightarrow> string list" where
  "normalizeTenantValues rt vs = tenantValuesLoop rt vs []"

definition defaultTenantModeForBase :: "runtime \<Rightarrow> string \<Rightarrow> string" where
  "defaultTenantModeForBase rt base = (let b = ToLower rt (TrimSpace base) in
     if b = ''postgres'' then ''postgres'' else if b = ''file'' then ''file'' else ''logical'')"

definition TrimSuffix :: "string \<Rightarrow> string \<Rightarrow> string" where
  "TrimSuffix s p = (if HasSuffix s p then take (length s - length p) s else s)"

definition parseFlexibleDurationValue :: "tenant_env \<Rightarrow> string \<Rightarrow> string + duration option" where
  "parseFlexibleDurationValue env value =
     (let value = TrimSpace value in
      if value = [] then Inr None
      else (case teParseDuration env value of
        Some d \<Rightarrow> Inr (Some d)
      | None \<Rightarrow>
          if HasSuffix value ''w'' then
            (case teParseScaled env (TrimSpace (TrimSuffix value ''w'')) (7 * 24 * hour) of Inl e \<Rightarrow> Inl e | Inr d \<Rightarrow> Inr (Some d))
          else if HasSuffix value ''d'' then
            (case teParseScaled env (TrimSpace (TrimSuffix value ''d'')) (24 * hour) of Inl e \<Rightarrow> Inl e | Inr d \<Rightarrow> Inr (Some d))
          else Inl (''invalid duration '' @ Quote (teRuntime env) value)))"

definition slugRune :: "nat \<Rightarrow> nat" where
  "slugRune r = (if 97 \<le> r \<and> r \<le> 122 then r else if 48 \<le> r \<and> r \<le> 57 then r
     else if r = 45 \<or> r = 95 \<or> r = 46 then r else 45)"

definition sanitizeTenantSlug :: "runtime \<Rightarrow> string \<Rightarrow> string" where
  "sanitizeTenantSlug rt value =
     (let value = ToLower rt (TrimSpace value) in
      if value = [] then ''default''
      else (let slug = TrimFunc (\<lambda>r. r \<in> {45, 95, 46}) (MapRunes (\<lambda>r. Some (slugRune r)) value) in
        if slug = [] then ''tenant'' else slug))"

definition redactTenantDSN :: "string \<Rightarrow> string" where
  "redactTenantDSN value =
     (let value = TrimSpace value in
      if value = [] then []
      else (case index_of (CHR ''@'') value of
        None \<Rightarrow> value
      | Some idx \<Rightarrow> (case last_index_of (CHR '':'') (take idx value) of
          None \<Rightarrow> value
        | Some colon \<Rightarrow> take (colon + 1) (take idx value) @ ''****'' @ drop idx value)))"

record tenant_backend_view =
  tvTenant :: string
  tvConfig :: tenant_backend_config

definition tenantConfigToMap :: "string \<Rightarrow> tenant_backend_config \<Rightarrow> tenant_backend_view" where
  "tenantConfigToMap tenant cfg = \<lparr> tvTenant = tenant, tvConfig = cfg\<lparr>tbPostgresDSN := redactTenantDSN (tbPostgresDSN cfg)\<rparr> \<rparr>"

text \<open>\<open>strings.ReplaceAll(s, old, new)\<close> for an \<open>old\<close> that is not empty.\<close>

function ReplaceAll :: "string \<Rightarrow> string \<Rightarrow> string \<Rightarrow> string" where
  "ReplaceAll [] old new = []"
| "ReplaceAll (c # cs) old new =
     (if old \<noteq> [] \<and> HasPrefix (c # cs) old then new @ ReplaceAll (drop (length old) (c # cs)) old new
      else c # ReplaceAll cs old new)"
  by pat_completeness auto
termination
  by (relation "measure (\<lambda>(s, _, _). length s)") auto

section \<open>The registry\<close>

definition loadRegistry :: "tenant_env \<Rightarrow> tenant_registry \<Rightarrow> string + tenant_registry" where
  "loadRegistry env r =
     (if rgPath r = [] then Inr r
      else (case teRegistryFile env (rgPath r) of
        Inl e \<Rightarrow> Inl e
      | Inr None \<Rightarrow> Inr r
      | Inr (Some tenants) \<Rightarrow>
          Inr (r\<lparr>rgBackends := fold (\<lambda>(t, cfg) m. gm_put (tenantOrDefault t) cfg m) tenants (rgBackends r)\<rparr>)))"

definition newTenantRegistry :: "tenant_env \<Rightarrow> string \<Rightarrow> string \<Rightarrow> string \<Rightarrow> string \<Rightarrow> string + tenant_registry" where
  "newTenantRegistry env path mode postgresTemplate dataPathTemplate =
     loadRegistry env \<lparr> rgPath = TrimSpace path, rgPhysicalMode = parseTenantIsolationMode (teRuntime env) mode,
       rgPostgresTemplate = TrimSpace postgresTemplate, rgDataPathTemplate = TrimSpace dataPathTemplate,
       rgBackends = [], rgStores = [] \<rparr>"

definition persistRegistry :: "tenant_env \<Rightarrow> tenant_registry \<Rightarrow> string option" where
  "persistRegistry env r = (if rgPath r = [] then None else tePersistError env)"

definition baseBackend :: "tenancy \<Rightarrow> tenant_backend_config" where
  "baseBackend ts = emptyBackend\<lparr>tbMode := stMode (tsBase ts), tbActive := True, tbSchemaVersion := stSchemaVersion (tsBase ts)\<rparr>"

definition registryCount :: "tenant_registry \<Rightarrow> nat" where
  "registryCount r = (if \<not> rgPhysicalMode r then 1 else length (rgBackends r))"

definition listAsMaps :: "tenancy \<Rightarrow> tenant_registry \<Rightarrow> tenant_backend_view list" where
  "listAsMaps ts r = (if \<not> rgPhysicalMode r then [tenantConfigToMap ''default'' (baseBackend ts)]
     else map (\<lambda>(t, cfg). tenantConfigToMap t cfg) (rgBackends r))"

definition registryGet :: "tenancy \<Rightarrow> tenant_registry \<Rightarrow> string \<Rightarrow> tenant_backend_config option" where
  "registryGet ts r tenant = (let tenant = tenantOrDefault tenant in
     if \<not> rgPhysicalMode r \<and> tenant = ''default'' then Some (baseBackend ts) else gm_get (rgBackends r) tenant)"

text \<open>The store a configuration opens; a store of its own is not yet at an address.\<close>

definition openBackend :: "tenant_env \<Rightarrow> tenant_backend_config \<Rightarrow> string + store option" where
  "openBackend env cfg =
     (let mode = normalizeTenantMode (teRuntime env) (tbMode cfg) in
      if mode = [] \<or> mode = ''logical'' then Inr None
      else if mode = ''postgres'' then
        (if TrimSpace (tbPostgresDSN cfg) = [] then Inl ''tenant postgres dsn is required''
         else (case teOpenPostgres env (tbPostgresDSN cfg) of Inl e \<Rightarrow> Inl e | Inr st \<Rightarrow> Inr (Some st)))
      else if mode = ''file'' then
        (if TrimSpace (tbDataPath cfg) = [] then Inl ''tenant data path is required''
         else (case NewWithPath (teRuntime env) (teHost env) (teDecodeSnapshot env) (tbDataPath cfg) (teSnapshotFile env (tbDataPath cfg)) of
                 Inl e \<Rightarrow> Inl e | Inr st \<Rightarrow> Inr (Some st)))
      else Inl (''unsupported tenant backend mode '' @ Quote (teRuntime env) (tbMode cfg)))"

definition applyTenantSettings :: "tenant_env \<Rightarrow> tenant_backend_config \<Rightarrow> bool \<Rightarrow> store \<Rightarrow> string option \<times> store" where
  "applyTenantSettings env cfg applyRetention st =
     (if \<not> applyRetention then (None, st)
      else (case parseFlexibleDurationValue env (tbRetentionWindow cfg) of
        Inl e \<Rightarrow> (Some e, st)
      | Inr None \<Rightarrow> (None, st)
      | Inr (Some d) \<Rightarrow> SetRetention (teIO env) d st))"

definition deref :: "tenancy \<Rightarrow> store_ref \<Rightarrow> store" where
  "deref ts ref = (case ref of BaseStore \<Rightarrow> tsBase ts | OwnStore n \<Rightarrow> tsOpened ts ! n)"

definition assign :: "store_ref \<Rightarrow> store \<Rightarrow> tenancy \<Rightarrow> tenancy" where
  "assign ref st ts = (case ref of BaseStore \<Rightarrow> ts\<lparr>tsBase := st\<rparr> | OwnStore n \<Rightarrow> ts\<lparr>tsOpened := (tsOpened ts)[n := st]\<rparr>)"

text \<open>
  Opening the backend of a configuration, applying its settings, and entering it in the registry: the
  part that \<open>upsertTenant\<close> and \<open>ensureTenantStore\<close> share. A store of its own gets the next address.
\<close>

definition openConfigured :: "tenant_env \<Rightarrow> tenant_registry \<Rightarrow> tenant_backend_config \<Rightarrow> tenancy \<Rightarrow> (string + store_ref) \<times> tenancy" where
  "openConfigured env r cfg ts =
     (case openBackend env cfg of
        Inl e \<Rightarrow> (Inl e, ts)
      | Inr opened \<Rightarrow>
          (let st = (case opened of None \<Rightarrow> tsBase ts | Some st \<Rightarrow> st);
               (err, st) = applyTenantSettings env cfg
                 (rgPhysicalMode r \<or> normalizeTenantMode (teRuntime env) (tbMode cfg) \<noteq> ''logical'') st;
               (ref, ts) = (case opened of None \<Rightarrow> (BaseStore, ts\<lparr>tsBase := st\<rparr>)
                            | Some _ \<Rightarrow> (OwnStore (length (tsOpened ts)), ts\<lparr>tsOpened := tsOpened ts @ [st]\<rparr>))
           in case err of Some e \<Rightarrow> (Inl e, ts) | None \<Rightarrow> (Inr ref, ts)))"

definition enterTenant :: "string \<Rightarrow> store_ref \<Rightarrow> tenant_backend_config \<Rightarrow> tenancy \<Rightarrow> tenant_registry \<Rightarrow> tenant_backend_config \<times> tenant_registry" where
  "enterTenant tenant ref cfg ts r =
     (let cfg = cfg\<lparr>tbActive := True, tbSchemaVersion := stSchemaVersion (deref ts ref)\<rparr> in
      (cfg, r\<lparr>rgStores := gm_put tenant ref (rgStores r), rgBackends := gm_put tenant cfg (rgBackends r)\<rparr>))"

definition defaultBackendForTenant :: "tenant_env \<Rightarrow> tenancy \<Rightarrow> tenant_registry \<Rightarrow> string \<Rightarrow> string + tenant_backend_config" where
  "defaultBackendForTenant env ts r tenant =
     (let slug = sanitizeTenantSlug (teRuntime env) tenant; mode = stMode (tsBase ts) in
      if mode = ''postgres'' then
        (if rgPostgresTemplate r = [] then Inl ''tenant physical isolation requires --tenant-postgres-dsn-template''
         else Inr (emptyBackend\<lparr>tbMode := ''postgres'', tbPostgresDSN := ReplaceAll (rgPostgresTemplate r) ''{tenant}'' slug,
           tbCreatedAt := teNowText env, tbUpdatedAt := teNowText env\<rparr>))
      else if mode = ''file'' then
        (if rgDataPathTemplate r = [] then Inl ''tenant physical isolation requires --tenant-data-path-template''
         else Inr (emptyBackend\<lparr>tbMode := ''file'', tbDataPath := ReplaceAll (rgDataPathTemplate r) ''{tenant}'' slug,
           tbCreatedAt := teNowText env, tbUpdatedAt := teNowText env\<rparr>))
      else Inl (''unsupported base backend '' @ Quote (teRuntime env) mode))"

definition registerTenantBackend :: "tenant_env \<Rightarrow> string \<Rightarrow> tenant_backend_config \<Rightarrow> tenant_registry \<Rightarrow> string option \<times> tenant_registry" where
  "registerTenantBackend env tenant cfg r =
     (let tenant = tenantOrDefault tenant in
      if tenant = ''default'' then (Some ''default tenant is reserved'', r)
      else (let cfg = cfg\<lparr>tbActive := False, tbCreatedAt := (if tbCreatedAt cfg = [] then teNowText env else tbCreatedAt cfg),
                  tbUpdatedAt := teNowText env\<rparr>;
                r = r\<lparr>rgBackends := gm_put tenant cfg (rgBackends r)\<rparr>
            in (persistRegistry env r, r)))"

text \<open>Go's \<open>append([]string(nil), values...)\<close> is nil for an empty slice.\<close>

definition copiedValues :: "string list option \<Rightarrow> string list option" where
  "copiedValues vs = (if vs = Some [] then None else vs)"

text \<open>The configuration that \<open>upsertTenant\<close> stores, from the new one and the existing one.\<close>

definition mergedBackend :: "tenant_env \<Rightarrow> tenancy \<Rightarrow> tenant_registry \<Rightarrow> tenant_backend_config option \<Rightarrow> tenant_backend_config \<Rightarrow> tenant_backend_config" where
  "mergedBackend env ts r existing cfg =
     (let now = teNowText env; mode = ToLower (teRuntime env) (TrimSpace (tbMode cfg)) in
      case existing of
        None \<Rightarrow> cfg\<lparr>tbCreatedAt := now, tbUpdatedAt := now,
          tbMode := (if mode \<noteq> [] then mode
                     else if rgPhysicalMode r then defaultTenantModeForBase (teRuntime env) (stMode (tsBase ts))
                     else stMode (tsBase ts))\<rparr>
      | Some old \<Rightarrow> cfg\<lparr>tbCreatedAt := (if tbCreatedAt old = [] then now else tbCreatedAt old), tbUpdatedAt := now,
          tbMode := (if mode \<noteq> [] then mode else if tbMode old \<noteq> [] then tbMode old
                     else if rgPhysicalMode r then defaultTenantModeForBase (teRuntime env) (stMode (tsBase ts))
                     else stMode (tsBase ts)),
          tbAdmins := (if tbAdmins cfg = None then copiedValues (tbAdmins old) else tbAdmins cfg),
          tbLabels := (if tbLabels cfg = None then copiedValues (tbLabels old) else tbLabels cfg),
          tbPolicyProfile := (if tbPolicyProfile cfg = [] then tbPolicyProfile old else tbPolicyProfile cfg),
          tbRetentionWindow := (if tbRetentionWindow cfg = [] then tbRetentionWindow old else tbRetentionWindow cfg),
          tbSSOProfile := (if tbSSOProfile cfg = [] then tbSSOProfile old else tbSSOProfile cfg),
          tbBackupTarget := (if tbBackupTarget cfg = [] then tbBackupTarget old else tbBackupTarget cfg),
          tbNotes := (if tbNotes cfg = [] then tbNotes old else tbNotes cfg)\<rparr>)"

definition upsertTenant ::
  "tenant_env \<Rightarrow> string \<Rightarrow> tenant_backend_config \<Rightarrow> tenant_registry \<Rightarrow> tenancy \<Rightarrow> (string + tenant_backend_view) \<times> tenancy" where
  "upsertTenant env tenant cfg r ts =
     (let tenant = tenantOrDefault tenant in
      if tenant = ''default'' \<and> rgPhysicalMode r then (Inl ''default tenant is reserved'', ts)
      else (let cfg = mergedBackend env ts r (gm_get (rgBackends r) tenant) cfg in
        case openConfigured env r cfg ts of
          (Inl e, ts) \<Rightarrow> (Inl e, ts)
        | (Inr ref, ts) \<Rightarrow>
            (let (cfg, r) = enterTenant tenant ref cfg ts r; ts = ts\<lparr>tsRegistry := Some r\<rparr> in
             case persistRegistry env r of
               Some e \<Rightarrow> (Inl e, ts)
             | None \<Rightarrow> (Inr (tenantConfigToMap tenant cfg), ts))))"

definition deleteTenant :: "tenant_env \<Rightarrow> string \<Rightarrow> tenant_registry \<Rightarrow> tenancy \<Rightarrow> (string + tenant_backend_view) \<times> tenancy" where
  "deleteTenant env tenant r ts =
     (let tenant = tenantOrDefault tenant in
      if tenant = ''default'' \<and> rgPhysicalMode r then (Inl ''default tenant is reserved'', ts)
      else (case gm_get (rgBackends r) tenant of
        None \<Rightarrow> if \<not> rgPhysicalMode r then (Inr (tenantConfigToMap tenant (baseBackend ts)), ts)
                 else (Inl ''tenant not found'', ts)
      | Some cfg \<Rightarrow>
          (let r = r\<lparr>rgStores := gm_del tenant (rgStores r), rgBackends := gm_del tenant (rgBackends r)\<rparr>;
               ts = ts\<lparr>tsRegistry := Some r\<rparr> in
           case persistRegistry env r of
             Some e \<Rightarrow> (Inl e, ts)
           | None \<Rightarrow> (Inr (tenantConfigToMap tenant (cfg\<lparr>tbActive := False\<rparr>)), ts))))"

definition openTenant ::
  "tenant_env \<Rightarrow> string \<Rightarrow> tenant_backend_config \<Rightarrow> tenant_registry \<Rightarrow> tenancy \<Rightarrow> (string + store_ref) \<times> tenancy" where
  "openTenant env tenant cfg r ts = (case openConfigured env r cfg ts of
     (Inl e, ts) \<Rightarrow> (Inl e, ts)
   | (Inr ref, ts) \<Rightarrow> (Inr ref, ts\<lparr>tsRegistry := Some (snd (enterTenant tenant ref cfg ts r))\<rparr>))"

definition ensureTenantStore :: "tenant_env \<Rightarrow> string \<Rightarrow> tenant_registry \<Rightarrow> tenancy \<Rightarrow> (string + store_ref) \<times> tenancy" where
  "ensureTenantStore env tenant r ts =
     (let tenant = tenantOrDefault tenant in
      if tenant = ''default'' \<and> \<not> rgPhysicalMode r then (Inr BaseStore, ts)
      else (case gm_get (rgStores r) tenant of
        Some ref \<Rightarrow> (Inr ref, ts)
      | None \<Rightarrow> (case gm_get (rgBackends r) tenant of
          Some cfg \<Rightarrow> openTenant env tenant cfg r ts
        | None \<Rightarrow>
            if \<not> rgPhysicalMode r then (Inr BaseStore, ts)
            else (case defaultBackendForTenant env ts r tenant of
              Inl e \<Rightarrow> (Inl e, ts)
            | Inr cfg \<Rightarrow> (case registerTenantBackend env tenant cfg r of
                (Some e, r) \<Rightarrow> (Inl e, ts\<lparr>tsRegistry := Some r\<rparr>)
              | (None, r) \<Rightarrow> openTenant env tenant cfg r (ts\<lparr>tsRegistry := Some r\<rparr>))))))"

text \<open>The settings of \<open>registerTenant\<close> and \<open>updateTenant\<close>.\<close>

record tenant_settings =
  tqMode :: string
  tqPostgresDSN :: string
  tqDataPath :: string
  tqAdmins :: "string list"
  tqPolicyProfile :: string
  tqRetentionWindow :: string
  tqSSOProfile :: string
  tqBackupTarget :: string
  tqLabels :: "string list"
  tqNotes :: string

definition registeredBackend ::
  "tenant_env \<Rightarrow> tenancy \<Rightarrow> tenant_registry \<Rightarrow> string \<Rightarrow> tenant_settings \<Rightarrow> string + tenant_backend_config" where
  "registeredBackend env ts r tenant q =
     (let rt = teRuntime env; mode = normalizeTenantMode rt (tqMode q);
          cfg = \<lparr> tbMode = mode, tbPostgresDSN = [], tbDataPath = [], tbAdmins = Some (normalizeTenantValues rt (tqAdmins q)),
            tbPolicyProfile = TrimSpace (tqPolicyProfile q), tbRetentionWindow = TrimSpace (tqRetentionWindow q),
            tbSSOProfile = TrimSpace (tqSSOProfile q), tbBackupTarget = TrimSpace (tqBackupTarget q),
            tbLabels = Some (normalizeTenantValues rt (tqLabels q)), tbNotes = TrimSpace (tqNotes q),
            tbCreatedAt = teNowText env, tbUpdatedAt = teNowText env, tbActive = False, tbSchemaVersion = 0 \<rparr> in
      if mode = [] then
        Inr (cfg\<lparr>tbMode := (if rgPhysicalMode r then defaultTenantModeForBase rt (stMode (tsBase ts)) else ''logical'')\<rparr>)
      else if mode = ''logical'' then Inr cfg
      else if mode = ''postgres'' then
        (if TrimSpace (tqPostgresDSN q) \<noteq> [] then Inr (cfg\<lparr>tbPostgresDSN := TrimSpace (tqPostgresDSN q)\<rparr>)
         else if \<not> rgPhysicalMode r then Inl ''postgres dsn is required for physical tenant provisioning''
         else (case defaultBackendForTenant env ts r tenant of
                 Inl e \<Rightarrow> Inl e | Inr template \<Rightarrow> Inr (cfg\<lparr>tbPostgresDSN := tbPostgresDSN template\<rparr>)))
      else if mode = ''file'' then
        (if TrimSpace (tqDataPath q) \<noteq> [] then Inr (cfg\<lparr>tbDataPath := TrimSpace (tqDataPath q)\<rparr>)
         else if \<not> rgPhysicalMode r then Inl ''data path is required for physical tenant provisioning''
         else (case defaultBackendForTenant env ts r tenant of
                 Inl e \<Rightarrow> Inl e | Inr template \<Rightarrow> Inr (cfg\<lparr>tbDataPath := tbDataPath template\<rparr>)))
      else Inl (''unsupported tenant mode '' @ Quote rt mode))"

definition registerTenant ::
  "tenant_env \<Rightarrow> string \<Rightarrow> tenant_settings \<Rightarrow> tenant_registry \<Rightarrow> tenancy \<Rightarrow> (string + tenant_backend_view) \<times> tenancy" where
  "registerTenant env tenant q r ts =
     (let tenant = tenantOrDefault tenant in
      if tenant = ''default'' then (Inl ''default tenant is reserved'', ts)
      else (case registeredBackend env ts r tenant q of
        Inl e \<Rightarrow> (Inl e, ts)
      | Inr cfg \<Rightarrow> upsertTenant env tenant cfg r ts))"

definition overwrite :: "string \<Rightarrow> string \<Rightarrow> string" where
  "overwrite new old = (if TrimSpace new \<noteq> [] then TrimSpace new else old)"

definition updateTenant ::
  "tenant_env \<Rightarrow> string \<Rightarrow> tenant_settings \<Rightarrow> tenant_registry \<Rightarrow> tenancy \<Rightarrow> (string + tenant_backend_view) \<times> tenancy" where
  "updateTenant env tenant q r ts =
     (let rt = teRuntime env; tenant = tenantOrDefault tenant;
          existing = (case registryGet ts r tenant of Some cfg \<Rightarrow> cfg
            | None \<Rightarrow> if tenant = ''default'' then emptyBackend\<lparr>tbMode := stMode (tsBase ts)\<rparr> else emptyBackend);
          cfg = existing\<lparr>
            tbMode := (if TrimSpace (tqMode q) \<noteq> [] then normalizeTenantMode rt (TrimSpace (tqMode q)) else tbMode existing),
            tbPostgresDSN := overwrite (tqPostgresDSN q) (tbPostgresDSN existing),
            tbDataPath := overwrite (tqDataPath q) (tbDataPath existing),
            tbAdmins := (if tqAdmins q \<noteq> [] then Some (normalizeTenantValues rt (tqAdmins q)) else tbAdmins existing),
            tbPolicyProfile := overwrite (tqPolicyProfile q) (tbPolicyProfile existing),
            tbRetentionWindow := overwrite (tqRetentionWindow q) (tbRetentionWindow existing),
            tbSSOProfile := overwrite (tqSSOProfile q) (tbSSOProfile existing),
            tbBackupTarget := overwrite (tqBackupTarget q) (tbBackupTarget existing),
            tbLabels := (if tqLabels q \<noteq> [] then Some (normalizeTenantValues rt (tqLabels q)) else tbLabels existing),
            tbNotes := overwrite (tqNotes q) (tbNotes existing)\<rparr>
      in upsertTenant env tenant cfg r ts)"

section \<open>The store of a tenant\<close>

definition physicalTenancy :: "tenancy \<Rightarrow> bool" where
  "physicalTenancy ts = (case tsRegistry ts of None \<Rightarrow> False | Some r \<Rightarrow> rgPhysicalMode r)"

definition storeForTenant :: "tenant_env \<Rightarrow> string \<Rightarrow> tenancy \<Rightarrow> (string + store_ref) \<times> tenancy" where
  "storeForTenant env tenant ts = (case tsRegistry ts of
     None \<Rightarrow> (Inr BaseStore, ts) | Some r \<Rightarrow> ensureTenantStore env tenant r ts)"

text \<open>
  The shape of every per-tenant read and write of the server: the base store with the tenant's filter in
  logical mode, the tenant's own store without a filter in physical mode.
\<close>

definition readTenant :: "tenant_env \<Rightarrow> string \<Rightarrow> (store \<Rightarrow> 'a) \<Rightarrow> (store \<Rightarrow> 'a) \<Rightarrow> 'a \<Rightarrow> tenancy \<Rightarrow> 'a \<times> tenancy" where
  "readTenant env tenant logical physical missing ts =
     (if \<not> physicalTenancy ts then (logical (tsBase ts), ts)
      else (case storeForTenant env tenant ts of
        (Inl _, ts) \<Rightarrow> (missing, ts) | (Inr ref, ts) \<Rightarrow> (physical (deref ts ref), ts)))"

definition writeTenant :: "tenant_env \<Rightarrow> string \<Rightarrow> (store \<Rightarrow> 'a \<times> store) \<Rightarrow> (string \<Rightarrow> 'a) \<Rightarrow> tenancy \<Rightarrow> 'a \<times> tenancy" where
  "writeTenant env tenant write failed ts =
     (if \<not> physicalTenancy ts then (let (x, st) = write (tsBase ts) in (x, ts\<lparr>tsBase := st\<rparr>))
      else (case storeForTenant env tenant ts of
        (Inl e, ts) \<Rightarrow> (failed e, ts)
      | (Inr ref, ts) \<Rightarrow> (let (x, st) = write (deref ts ref) in (x, assign ref st ts))))"

definition countsForTenant :: "tenant_env \<Rightarrow> string \<Rightarrow> tenancy \<Rightarrow> (nat \<times> nat \<times> nat \<times> nat \<times> nat) \<times> tenancy" where
  "countsForTenant env tenant = readTenant env tenant (\<lambda>s. CountsForTenant s tenant) Counts (0, 0, 0, 0, 0)"

definition listEventsForTenant :: "tenant_env \<Rightarrow> string \<Rightarrow> tenancy \<Rightarrow> event list \<times> tenancy" where
  "listEventsForTenant env tenant = readTenant env tenant (\<lambda>s. ListEventsForTenant s tenant) ListEvents []"

definition listAlertsForTenant :: "tenant_env \<Rightarrow> string \<Rightarrow> tenancy \<Rightarrow> alert list \<times> tenancy" where
  "listAlertsForTenant env tenant = readTenant env tenant (\<lambda>s. ListAlertsForTenant s tenant) ListAlerts []"

definition listAssetsForTenant :: "tenant_env \<Rightarrow> string \<Rightarrow> tenancy \<Rightarrow> asset list \<times> tenancy" where
  "listAssetsForTenant env tenant = readTenant env tenant (\<lambda>s. ListAssetsForTenant s tenant) ListAssets []"

definition listAuditsForTenant :: "tenant_env \<Rightarrow> string \<Rightarrow> tenancy \<Rightarrow> audit_event list \<times> tenancy" where
  "listAuditsForTenant env tenant = readTenant env tenant (\<lambda>s. ListAuditsForTenant s tenant) ListAudits []"

definition emptyChainSnapshot :: audit_chain_snapshot where
  "emptyChainSnapshot = \<lparr> acTotal = 0, acLinked = 0, acUnlinked = 0, acHead = [], acPrevious = [], acValid = False,
     acAnchor = [], acAnchored = False, acLastAuditID = [], acLastTimestamp = 0 \<rparr>"

definition auditChainForTenant :: "tenant_env \<Rightarrow> string \<Rightarrow> tenancy \<Rightarrow> audit_chain_snapshot \<times> tenancy" where
  "auditChainForTenant env tenant = readTenant env tenant (AuditChainForTenant (teRuntime env) (teHost env) tenant) AuditChain emptyChainSnapshot"

definition listActionsForTenant :: "tenant_env \<Rightarrow> string \<Rightarrow> tenancy \<Rightarrow> response_action list \<times> tenancy" where
  "listActionsForTenant env tenant = readTenant env tenant (\<lambda>s. ListActionsForTenant s tenant) ListActions []"

definition listPendingGatewayActionsForTenant :: "tenant_env \<Rightarrow> string \<Rightarrow> tenancy \<Rightarrow> response_action list \<times> tenancy" where
  "listPendingGatewayActionsForTenant env tenant =
     readTenant env tenant (\<lambda>s. ListPendingGatewayActionsForTenant s tenant) ListPendingGatewayActions []"

definition getActionForTenant :: "tenant_env \<Rightarrow> string \<Rightarrow> string \<Rightarrow> tenancy \<Rightarrow> response_action option \<times> tenancy" where
  "getActionForTenant env i tenant = readTenant env tenant (\<lambda>s. GetActionForTenant s i tenant) (\<lambda>s. GetAction s i) None"

definition getAlertForTenant :: "tenant_env \<Rightarrow> string \<Rightarrow> string \<Rightarrow> tenancy \<Rightarrow> alert option \<times> tenancy" where
  "getAlertForTenant env i tenant = readTenant env tenant (\<lambda>s. GetAlertForTenant s i tenant) (\<lambda>s. GetAlert s i) None"

fun addEventsLoop :: "io_env \<Rightarrow> event list \<Rightarrow> store \<Rightarrow> string option \<times> store" where
  "addEventsLoop io [] s = (None, s)"
| "addEventsLoop io (e # es) s = (case AddEvent io e s of (Some err, s) \<Rightarrow> (Some err, s) | (None, s) \<Rightarrow> addEventsLoop io es s)"

definition addEventsForTenant :: "tenant_env \<Rightarrow> event list \<Rightarrow> string \<Rightarrow> tenancy \<Rightarrow> string option \<times> tenancy" where
  "addEventsForTenant env es tenant = writeTenant env tenant (addEventsLoop (teIO env) es) Some"

definition addAlertsForTenant :: "tenant_env \<Rightarrow> alert list \<Rightarrow> string \<Rightarrow> tenancy \<Rightarrow> (alert list \<times> string option) \<times> tenancy" where
  "addAlertsForTenant env als tenant = writeTenant env tenant (AddAlerts (teIO env) als) (\<lambda>e. ([], Some e))"

definition addActionsForTenant :: "tenant_env \<Rightarrow> response_action list \<Rightarrow> string \<Rightarrow> tenancy \<Rightarrow> string option \<times> tenancy" where
  "addActionsForTenant env acts tenant = writeTenant env tenant (AddActions (teIO env) acts) Some"

definition approveActionForTenant ::
  "tenant_env \<Rightarrow> string \<Rightarrow> string \<Rightarrow> time \<Rightarrow> string \<Rightarrow> tenancy \<Rightarrow> action_result \<times> tenancy" where
  "approveActionForTenant env i approvedBy approvedAt tenant =
     writeTenant env tenant (ApproveAction (teIO env) i approvedBy approvedAt) (\<lambda>e. (empty_action, False, Some e))"

definition recordActionExecutionForTenant ::
  "tenant_env \<Rightarrow> string \<Rightarrow> time \<Rightarrow> string \<Rightarrow> string \<Rightarrow> string \<Rightarrow> tenancy \<Rightarrow> action_result \<times> tenancy" where
  "recordActionExecutionForTenant env i executedAt status err tenant =
     writeTenant env tenant (RecordActionExecution (teIO env) i executedAt status err) (\<lambda>e. (empty_action, False, Some e))"

definition addAuditForTenant :: "tenant_env \<Rightarrow> audit_event \<Rightarrow> string \<Rightarrow> tenancy \<Rightarrow> string option \<times> tenancy" where
  "addAuditForTenant env ev tenant = writeTenant env tenant (AddAudit (teRuntime env) (teHost env) (teIO env) ev) Some"

definition tenantAllowedForIdentity :: "string \<Rightarrow> tenancy \<Rightarrow> bool" where
  "tenantAllowedForIdentity tenant ts =
     (let tenant = tenantOrDefault tenant in
      if tenant = ''default'' then True
      else (case tsRegistry ts of None \<Rightarrow> False | Some r \<Rightarrow> registryGet ts r tenant \<noteq> None))"

definition listTenantBackends :: "tenancy \<Rightarrow> tenant_backend_view list" where
  "listTenantBackends ts = (case tsRegistry ts of None \<Rightarrow> [] | Some r \<Rightarrow> listAsMaps ts r)"

definition tenantIsolationMode :: "tenancy \<Rightarrow> string" where
  "tenantIsolationMode ts = (if physicalTenancy ts then ''physical'' else ''logical'')"

definition tenantCount :: "tenancy \<Rightarrow> nat" where
  "tenantCount ts = (case tsRegistry ts of None \<Rightarrow> 1 | Some r \<Rightarrow> registryCount r)"

definition noRegistry :: "string + tenant_backend_view" where
  "noRegistry = Inl ''tenant registry is not configured''"

definition appRegisterTenant :: "tenant_env \<Rightarrow> string \<Rightarrow> tenant_settings \<Rightarrow> tenancy \<Rightarrow> (string + tenant_backend_view) \<times> tenancy" where
  "appRegisterTenant env tenant q ts = (case tsRegistry ts of None \<Rightarrow> (noRegistry, ts) | Some r \<Rightarrow> registerTenant env tenant q r ts)"

definition appUpdateTenant :: "tenant_env \<Rightarrow> string \<Rightarrow> tenant_settings \<Rightarrow> tenancy \<Rightarrow> (string + tenant_backend_view) \<times> tenancy" where
  "appUpdateTenant env tenant q ts = (case tsRegistry ts of None \<Rightarrow> (noRegistry, ts) | Some r \<Rightarrow> updateTenant env tenant q r ts)"

definition appDeleteTenant :: "tenant_env \<Rightarrow> string \<Rightarrow> tenancy \<Rightarrow> (string + tenant_backend_view) \<times> tenancy" where
  "appDeleteTenant env tenant ts = (case tsRegistry ts of None \<Rightarrow> (noRegistry, ts) | Some r \<Rightarrow> deleteTenant env tenant r ts)"

section \<open>The registry's invariant\<close>

definition valid_ref :: "tenancy \<Rightarrow> store_ref \<Rightarrow> bool" where
  "valid_ref ts ref = (case ref of BaseStore \<Rightarrow> True | OwnStore n \<Rightarrow> n < length (tsOpened ts))"

definition registry_ok :: "tenant_registry \<Rightarrow> tenancy \<Rightarrow> bool" where
  "registry_ok r ts \<longleftrightarrow> gm_ok (rgStores r) \<and> gm_ok (rgBackends r) \<and>
     (\<forall>t ref. gm_get (rgStores r) t = Some ref \<longrightarrow> valid_ref ts ref) \<and>
     (\<forall>t t' n. gm_get (rgStores r) t = Some (OwnStore n) \<longrightarrow> gm_get (rgStores r) t' = Some (OwnStore n) \<longrightarrow> t = t')"

definition tenancy_ok :: "tenancy \<Rightarrow> bool" where
  "tenancy_ok ts = (case tsRegistry ts of None \<Rightarrow> True | Some r \<Rightarrow> registry_ok r ts)"

text \<open>What \<open>openConfigured\<close> does: the base store may get a new retention window, or one store is opened at a
  new address.\<close>

lemma openConfigured_cases:
  assumes "openConfigured env r cfg ts = (res, ts')"
  shows "tsRegistry ts' = tsRegistry ts \<and>
    (ts' = ts \<and> (\<exists>e. res = Inl e) \<or>
     (\<exists>st. ts' = ts\<lparr>tsBase := st\<rparr> \<and> (res = Inr BaseStore \<or> (\<exists>e. res = Inl e))) \<or>
     (\<exists>st. ts' = ts\<lparr>tsOpened := tsOpened ts @ [st]\<rparr> \<and> (res = Inr (OwnStore (length (tsOpened ts))) \<or> (\<exists>e. res = Inl e))))"
  using assms unfolding openConfigured_def
  by (auto simp: Let_def split_beta split: sum.splits option.splits)

lemma openConfigured_res:
  "openConfigured env r cfg ts = (Inr ref, ts') \<Longrightarrow>
     valid_ref ts' ref \<and> (\<forall>n. ref = OwnStore n \<longrightarrow> n = length (tsOpened ts))"
  by (drule openConfigured_cases) (auto simp: valid_ref_def)

lemma openConfigured_valid:
  "openConfigured env r cfg ts = (res, ts') \<Longrightarrow> valid_ref ts ref \<Longrightarrow> valid_ref ts' ref"
  by (drule openConfigured_cases) (auto simp: valid_ref_def split: store_ref.splits)

lemma openConfigured_deref:
  "openConfigured env r cfg ts = (res, ts') \<Longrightarrow> n < length (tsOpened ts) \<Longrightarrow> deref ts' (OwnStore n) = deref ts (OwnStore n)"
  by (drule openConfigured_cases) (auto simp: deref_def nth_append)

lemma registry_ok_mono:
  "registry_ok r ts \<Longrightarrow> (\<And>ref. valid_ref ts ref \<Longrightarrow> valid_ref ts' ref) \<Longrightarrow> registry_ok r ts'"
  unfolding registry_ok_def by blast

lemma enter_ok:
  assumes "registry_ok r ts" "openConfigured env r0 cfg ts = (Inr ref, ts')"
  shows "registry_ok (snd (enterTenant tenant ref cfg' ts'' r)) ts'"
proof -
  have r: "registry_ok r ts'"
    using assms openConfigured_valid registry_ok_mono by blast
  note new = openConfigured_res [OF assms(2)]
  have fresh: "gm_get (rgStores r) t \<noteq> Some (OwnStore n)" if "ref = OwnStore n" for t n
  proof
    assume "gm_get (rgStores r) t = Some (OwnStore n)"
    then have "valid_ref ts (OwnStore n)"
      using assms(1) by (simp add: registry_ok_def)
    then show False
      using new that by (simp add: valid_ref_def)
  qed
  show ?thesis
    using r new fresh unfolding registry_ok_def enterTenant_def Let_def by (auto split: if_splits)
qed

lemma registry_ok_backends: "registry_ok r ts \<Longrightarrow> registry_ok (r\<lparr>rgBackends := gm_put t cfg (rgBackends r)\<rparr>) ts"
  by (simp add: registry_ok_def)

lemma registerTenantBackend_ok:
  "registerTenantBackend env tenant cfg r = (e, r') \<Longrightarrow> registry_ok r ts \<Longrightarrow>
     registry_ok r' ts \<and> rgStores r' = rgStores r \<and> rgPhysicalMode r' = rgPhysicalMode r"
  by (auto simp: registerTenantBackend_def Let_def registry_ok_backends split: if_splits)

lemma tenancy_ok_Some: "tsRegistry ts = Some r \<Longrightarrow> tenancy_ok ts \<longleftrightarrow> registry_ok r ts"
  by (simp add: tenancy_ok_def)

lemma registry_ok_same_opened: "tsOpened ts' = tsOpened ts \<Longrightarrow> registry_ok r ts' = registry_ok r ts"
  by (simp add: registry_ok_def valid_ref_def cong: store_ref.case_cong)

lemma tenancy_ok_registry:
  "tenancy_ok (ts\<lparr>tsRegistry := Some r\<rparr>) = registry_ok r ts"
  using registry_ok_same_opened [of "ts\<lparr>tsRegistry := Some r\<rparr>" ts r] by (simp add: tenancy_ok_def)

lemma openConfigured_tenancy_ok:
  "openConfigured env r cfg ts = (res, ts') \<Longrightarrow> tenancy_ok ts \<Longrightarrow> tenancy_ok ts'"
  using openConfigured_cases [of env r cfg ts res ts'] openConfigured_valid [of env r cfg ts res ts'] registry_ok_mono
  by (auto simp: tenancy_ok_def split: option.splits)

lemma upsertTenant_ok:
  assumes "tsRegistry ts = Some r" "tenancy_ok ts"
  shows "tenancy_ok (snd (upsertTenant env tenant cfg r ts))"
proof -
  let ?cfg = "mergedBackend env ts r (gm_get (rgBackends r) (tenantOrDefault tenant)) cfg"
  obtain res ts1 where oc: "openConfigured env r ?cfg ts = (res, ts1)"
    by fastforce
  have r: "registry_ok r ts"
    using assms by (simp add: tenancy_ok_Some)
  have "tenancy_ok ts1"
    using oc assms(2) by (rule openConfigured_tenancy_ok)
  moreover have "tenancy_ok (ts1\<lparr>tsRegistry := Some (snd (enterTenant t ref c ts1 r))\<rparr>)" if "res = Inr ref" for ref t c
    using enter_ok [OF r] oc that by (simp add: tenancy_ok_registry)
  ultimately show ?thesis
    unfolding upsertTenant_def Let_def oc using assms(2)
    by (simp add: split_beta split: sum.split option.split)
qed

lemma deleteTenant_ok:
  assumes "tsRegistry ts = Some r" "tenancy_ok ts"
  shows "tenancy_ok (snd (deleteTenant env tenant r ts))"
proof -
  have "registry_ok (r\<lparr>rgStores := gm_del t (rgStores r), rgBackends := gm_del t (rgBackends r)\<rparr>) ts" for t
    using assms unfolding tenancy_ok_Some [OF assms(1)] registry_ok_def by (auto split: if_splits)
  then show ?thesis
    using assms(2) unfolding deleteTenant_def
    by (auto simp: Let_def tenancy_ok_registry split: option.splits)
qed

lemma openTenant_ok:
  assumes "registry_ok r ts" "tenancy_ok ts" "openTenant env tenant cfg r ts = (res, ts')"
  shows "tenancy_ok ts' \<and> (\<forall>ref. res = Inr ref \<longrightarrow> valid_ref ts' ref)"
proof -
  obtain res1 ts1 where oc: "openConfigured env r cfg ts = (res1, ts1)"
    by fastforce
  show ?thesis
  proof (cases res1)
    case (Inl e)
    then show ?thesis
      using assms(3) oc openConfigured_tenancy_ok [OF oc assms(2)] by (auto simp: openTenant_def)
  next
    case (Inr ref)
    then have "registry_ok (snd (enterTenant tenant ref cfg ts1 r)) ts1" "valid_ref ts1 ref"
      using enter_ok [OF assms(1)] openConfigured_res oc by blast+
    then show ?thesis
      using assms(3) oc Inr by (auto simp: openTenant_def tenancy_ok_registry valid_ref_def split: store_ref.splits)
  qed
qed

lemma ensureTenantStore_ok:
  assumes "tsRegistry ts = Some r" "tenancy_ok ts" "ensureTenantStore env tenant r ts = (res, ts')"
  shows "tenancy_ok ts' \<and> (\<forall>ref. res = Inr ref \<longrightarrow> valid_ref ts' ref)"
proof -
  have r: "registry_ok r ts"
    using assms(1,2) by (simp add: tenancy_ok_Some)
  have base: ?thesis if "res = Inr BaseStore" "ts' = ts"
    using that assms(2) by (simp add: valid_ref_def)
  have stored: ?thesis if "gm_get (rgStores r) t = Some ref" "res = Inr ref" "ts' = ts" for t ref
    using r that assms(2) by (simp add: registry_ok_def)
  have registered: ?thesis
    if "registerTenantBackend env t cfg r = (e, r2)"
      "e \<noteq> None \<and> (\<exists>e. res = Inl e) \<and> ts' = ts\<lparr>tsRegistry := Some r2\<rparr> \<or> openTenant env t cfg r2 (ts\<lparr>tsRegistry := Some r2\<rparr>) = (res, ts')"
    for t cfg e r2
  proof -
    have "registry_ok r2 (ts\<lparr>tsRegistry := Some r2\<rparr>)" "tenancy_ok (ts\<lparr>tsRegistry := Some r2\<rparr>)"
      using registerTenantBackend_ok [OF that(1) r] registry_ok_same_opened [of "ts\<lparr>tsRegistry := Some r2\<rparr>" ts r2]
      by (simp_all add: tenancy_ok_registry)
    then show ?thesis
      using that(2) openTenant_ok by blast
  qed
  have "(res = Inr BaseStore \<and> ts' = ts) \<or> (\<exists>t ref. gm_get (rgStores r) t = Some ref \<and> res = Inr ref \<and> ts' = ts) \<or>
    (\<exists>t cfg. openTenant env t cfg r ts = (res, ts')) \<or> (ts' = ts \<and> (\<exists>e. res = Inl e)) \<or>
    (\<exists>t cfg e r2. registerTenantBackend env t cfg r = (e, r2) \<and>
      (e \<noteq> None \<and> (\<exists>e. res = Inl e) \<and> ts' = ts\<lparr>tsRegistry := Some r2\<rparr> \<or> openTenant env t cfg r2 (ts\<lparr>tsRegistry := Some r2\<rparr>) = (res, ts')))"
    using assms(3) unfolding ensureTenantStore_def Let_def
    by (auto split: if_splits option.splits sum.splits prod.splits) blast+
  then show ?thesis
    using base stored registered openTenant_ok [OF r assms(2)] assms(2) by blast
qed

lemma assign_ok: "tenancy_ok (assign ref st ts) = tenancy_ok ts"
  by (simp add: assign_def tenancy_ok_def registry_ok_def valid_ref_def split: option.split store_ref.split)

lemma storeForTenant_ok:
  assumes "tenancy_ok ts" "storeForTenant env tenant ts = (res, ts')"
  shows "tenancy_ok ts' \<and> (\<forall>ref. res = Inr ref \<longrightarrow> valid_ref ts' ref)"
  using assms ensureTenantStore_ok
  by (auto simp: storeForTenant_def valid_ref_def split: option.splits)

lemma storeForTenant_state: "tenancy_ok ts \<Longrightarrow> tenancy_ok (snd (storeForTenant env tenant ts))"
  using storeForTenant_ok [of ts env tenant "fst (storeForTenant env tenant ts)"] by simp

lemma readTenant_ok: "tenancy_ok ts \<Longrightarrow> tenancy_ok (snd (readTenant env tenant f g d ts))"
  using storeForTenant_ok by (auto simp: readTenant_def split: prod.split sum.split)

lemma tenancy_ok_base: "tenancy_ok (ts\<lparr>tsBase := st\<rparr>) = tenancy_ok ts"
  using assign_ok [of BaseStore st ts] by (simp add: assign_def)

lemma writeTenant_ok: "tenancy_ok ts \<Longrightarrow> tenancy_ok (snd (writeTenant env tenant f d ts))"
  using storeForTenant_state [of ts env tenant]
  by (auto simp: writeTenant_def split_beta Let_def tenancy_ok_base assign_ok split: prod.split sum.split)

lemma registry_steps_ok:
  assumes "tenancy_ok ts"
  shows "tenancy_ok (snd (appRegisterTenant env tenant q ts))" "tenancy_ok (snd (appUpdateTenant env tenant q ts))"
    "tenancy_ok (snd (appDeleteTenant env tenant ts))"
  using assms upsertTenant_ok deleteTenant_ok
  by (auto simp: appRegisterTenant_def appUpdateTenant_def appDeleteTenant_def registerTenant_def updateTenant_def Let_def
      split: option.split sum.split)

section \<open>Runs\<close>

text \<open>Every state that a server's stores can reach: the start, and any per-tenant read or write and any change
  of the registry.\<close>

inductive tenancy_reach :: "bool \<Rightarrow> tenancy \<Rightarrow> bool" for phys where
  start: "newTenantRegistry env path mode pt dt = Inr r \<Longrightarrow> rgPhysicalMode r = phys \<Longrightarrow>
    tenancy_reach phys \<lparr> tsBase = st, tsOpened = [], tsRegistry = Some r \<rparr>"
| register: "tenancy_reach phys ts \<Longrightarrow> tenancy_reach phys (snd (appRegisterTenant env tenant q ts))"
| update: "tenancy_reach phys ts \<Longrightarrow> tenancy_reach phys (snd (appUpdateTenant env tenant q ts))"
| delete: "tenancy_reach phys ts \<Longrightarrow> tenancy_reach phys (snd (appDeleteTenant env tenant ts))"
| read_events: "tenancy_reach phys ts \<Longrightarrow> tenancy_reach phys (snd (listEventsForTenant env tenant ts))"
| read_alerts: "tenancy_reach phys ts \<Longrightarrow> tenancy_reach phys (snd (listAlertsForTenant env tenant ts))"
| write_events: "tenancy_reach phys ts \<Longrightarrow> tenancy_reach phys (snd (addEventsForTenant env es tenant ts))"
| write_alerts: "tenancy_reach phys ts \<Longrightarrow> tenancy_reach phys (snd (addAlertsForTenant env als tenant ts))"
| write_actions: "tenancy_reach phys ts \<Longrightarrow> tenancy_reach phys (snd (addActionsForTenant env acts tenant ts))"
| write_audit: "tenancy_reach phys ts \<Longrightarrow> tenancy_reach phys (snd (addAuditForTenant env ev tenant ts))"
| approve_action: "tenancy_reach phys ts \<Longrightarrow> tenancy_reach phys (snd (approveActionForTenant env i by at tenant ts))"
| record_action: "tenancy_reach phys ts \<Longrightarrow> tenancy_reach phys (snd (recordActionExecutionForTenant env i at st er tenant ts))"

lemma gm_ok_fold_put: "gm_ok m \<Longrightarrow> gm_ok (fold (\<lambda>(t, cfg) m. gm_put (f t) cfg m) xs m)"
  by (induction xs arbitrary: m) (auto split: prod.split)

lemma newTenantRegistry_ok:
  "newTenantRegistry env path mode pt dt = Inr r \<Longrightarrow> rgStores r = [] \<and> gm_ok (rgBackends r)"
  by (auto simp: newTenantRegistry_def loadRegistry_def gm_ok_fold_put split: if_splits sum.splits option.splits)

lemma tenancy_reach_ok: "tenancy_reach phys ts \<Longrightarrow> tenancy_ok ts"
proof (induction rule: tenancy_reach.induct)
  case (start env path mode pt dt r st)
  then show ?case
    using newTenantRegistry_ok by (auto simp: tenancy_ok_def registry_ok_def)
qed (simp_all add: registry_steps_ok listEventsForTenant_def listAlertsForTenant_def readTenant_ok addEventsForTenant_def
    addAlertsForTenant_def addActionsForTenant_def addAuditForTenant_def approveActionForTenant_def
    recordActionExecutionForTenant_def writeTenant_ok)

section \<open>Physical isolation\<close>

lemma storeForTenant_stored:
  assumes "tsRegistry ts = Some r" "gm_get (rgStores r) (tenantOrDefault t) = Some ref" "rgPhysicalMode r"
  shows "storeForTenant env t ts = (Inr ref, ts)"
  using assms by (simp add: storeForTenant_def ensureTenantStore_def Let_def)

lemma write_then_read:
  assumes "tenancy_ok ts" "tsRegistry ts = Some r" "rgPhysicalMode r"
    and "gm_get (rgStores r) (tenantOrDefault t) = Some ref" "gm_get (rgStores r) (tenantOrDefault t') = Some ref'"
    and "tenantOrDefault t \<noteq> tenantOrDefault t'" "ref \<noteq> BaseStore \<or> ref' \<noteq> BaseStore"
  shows "fst (readTenant env' t' f g d (snd (writeTenant env t w e ts))) = fst (readTenant env' t' f g d ts)"
proof -
  have "ref \<noteq> ref'"
    using assms unfolding tenancy_ok_Some [OF assms(2)] registry_ok_def by (cases ref) auto
  then have "deref (assign ref st ts) ref' = deref ts ref'" for st
    by (cases ref; cases ref') (auto simp: deref_def assign_def)
  moreover have "tsRegistry (assign ref st ts) = Some r" for st
    using assms(2) by (simp add: assign_def split: store_ref.split)
  moreover have phys: "physicalTenancy ts'" if "tsRegistry ts' = Some r" for ts'
    using that assms(3) by (simp add: physicalTenancy_def)
  ultimately show ?thesis
    using assms(2-5)
    by (simp add: readTenant_def writeTenant_def storeForTenant_stored [OF assms(2)] phys split_beta Let_def
        storeForTenant_stored [where ref = ref'])
qed

text \<open>C26: Physical isolation of tenants. In every state that a server in physical mode can reach, take two
  different tenants that both have a store in the registry and are not both on the base store. Then what
  one of them writes, events, alerts, actions, audit records, approvals or execution results, changes
  nothing that the other lists.\<close>

theorem physical_isolation:
  assumes "tenancy_reach True ts" "tsRegistry ts = Some r" "rgPhysicalMode r"
    and "gm_get (rgStores r) (tenantOrDefault t) = Some ref" "gm_get (rgStores r) (tenantOrDefault t') = Some ref'"
    and "tenantOrDefault t \<noteq> tenantOrDefault t'" "ref \<noteq> BaseStore \<or> ref' \<noteq> BaseStore"
    and "ts' \<in> {snd (addEventsForTenant env es t ts), snd (addAlertsForTenant env als t ts), snd (addActionsForTenant env acts t ts),
      snd (addAuditForTenant env ev t ts), snd (approveActionForTenant env i approver at t ts),
      snd (recordActionExecutionForTenant env i at status er t ts)}"
  shows "fst (listEventsForTenant env' t' ts') = fst (listEventsForTenant env' t' ts) \<and>
    fst (listAlertsForTenant env' t' ts') = fst (listAlertsForTenant env' t' ts) \<and>
    fst (listActionsForTenant env' t' ts') = fst (listActionsForTenant env' t' ts) \<and>
    fst (listAuditsForTenant env' t' ts') = fst (listAuditsForTenant env' t' ts) \<and>
    fst (listAssetsForTenant env' t' ts') = fst (listAssetsForTenant env' t' ts)"
proof -
  note frame = write_then_read [OF tenancy_reach_ok [OF assms(1)] assms(2-7)]
  show ?thesis
    using assms(8)
    unfolding addEventsForTenant_def addAlertsForTenant_def addActionsForTenant_def addAuditForTenant_def
      approveActionForTenant_def recordActionExecutionForTenant_def
      listEventsForTenant_def listAlertsForTenant_def listActionsForTenant_def listAuditsForTenant_def listAssetsForTenant_def
    by (elim insertE emptyE) (simp_all add: frame)
qed

text \<open>A server in physical mode on a file store, with the tenants \<open>acme\<close> and \<open>beta\<close>.\<close>

definition demo_env :: tenant_env where
  "demo_env = \<lparr> teRuntime = digest_runtime, teHost = audit_host, teIO = sample_io, teSnapshotFile = (\<lambda>_. Inr None),
     teDecodeSnapshot = (\<lambda>_. Inl ''not a snapshot''),
     teRegistryFile = (\<lambda>_. Inr None), tePersistError = None, teOpenPostgres = (\<lambda>_. Inl ''no database''),
     teParseDuration = (\<lambda>_. None), teParseScaled = (\<lambda>_ _. Inl ''not a number'') \<rparr>"

definition demo_registry :: tenant_registry where
  "demo_registry = \<lparr> rgPath = [], rgPhysicalMode = True, rgPostgresTemplate = [], rgDataPathTemplate = ''data/{tenant}.json'',
     rgBackends = [], rgStores = [] \<rparr>"

definition demo_start :: tenancy where
  "demo_start = \<lparr> tsBase = NewStore\<lparr>stMode := ''file'', stPath := ''base.json''\<rparr>, tsOpened = [], tsRegistry = Some demo_registry \<rparr>"

definition tenant_event :: "string \<Rightarrow> event" where
  "tenant_event t = sample_event\<lparr>evTenant := t\<rparr>"

definition demo_tenancy :: tenancy where
  "demo_tenancy = snd (addEventsForTenant demo_env [tenant_event ''beta''] ''beta''
     (snd (addEventsForTenant demo_env [tenant_event ''acme''] ''acme'' demo_start)))"

lemma demo_start_reach: "tenancy_reach True demo_start"
proof -
  have "newTenantRegistry demo_env [] ''Physical'' [] ''data/{tenant}.json'' = Inr demo_registry"
    by code_simp
  then show ?thesis
    unfolding demo_start_def by (rule tenancy_reach.start) (simp add: demo_registry_def)
qed

lemma demo_tenancy_reach: "tenancy_reach True demo_tenancy"
  unfolding demo_tenancy_def by (intro tenancy_reach.write_events demo_start_reach)

lemma demo_tenancy_stores:
  "map_option rgStores (tsRegistry demo_tenancy) = Some [(''acme'', OwnStore 0), (''beta'', OwnStore 1)]"
  "map_option rgPhysicalMode (tsRegistry demo_tenancy) = Some True"
  "tenantOrDefault ''acme'' = ''acme''" "tenantOrDefault ''beta'' = ''beta''"
  by code_simp+

theorem physical_isolation_witness:
  "fst (listEventsForTenant demo_env ''beta'' (snd (addEventsForTenant demo_env [tenant_event ''acme''] ''acme'' demo_tenancy))) =
     fst (listEventsForTenant demo_env ''beta'' demo_tenancy)"
proof -
  obtain r where r: "tsRegistry demo_tenancy = Some r" "rgStores r = [(''acme'', OwnStore 0), (''beta'', OwnStore 1)]" "rgPhysicalMode r"
    using demo_tenancy_stores(1,2) by auto
  then show ?thesis
    using physical_isolation [OF demo_tenancy_reach, of r "''acme''" "OwnStore 0" "''beta''" "OwnStore 1"
        "snd (addEventsForTenant demo_env [tenant_event ''acme''] ''acme'' demo_tenancy)" demo_env "[tenant_event ''acme'']"]
      demo_tenancy_stores(3,4) by simp
qed

section \<open>Where the isolation ends\<close>

text \<open>The base store is not isolated: a tenant registered in physical mode without a mode is put on the base
  store (the mode is normalised to \<open>logical\<close> before the switch that would choose the physical default), where
  reads are not filtered, so two such tenants see each other's events.\<close>

definition plain_settings :: tenant_settings where
  "plain_settings = \<lparr> tqMode = [], tqPostgresDSN = [], tqDataPath = [], tqAdmins = [], tqPolicyProfile = [], tqRetentionWindow = [],
     tqSSOProfile = [], tqBackupTarget = [], tqLabels = [], tqNotes = [] \<rparr>"

definition shared_tenancy :: tenancy where
  "shared_tenancy = snd (appRegisterTenant demo_env ''beta'' plain_settings (snd (appRegisterTenant demo_env ''acme'' plain_settings demo_start)))"

theorem physical_mode_shares_base:
  "map_option rgStores (tsRegistry shared_tenancy) = Some [(''acme'', BaseStore), (''beta'', BaseStore)] \<and>
   map evTenant (fst (listEventsForTenant demo_env ''beta'' (snd (addEventsForTenant demo_env [tenant_event ''acme''] ''acme'' shared_tenancy)))) =
     [''acme'']"
  by code_simp

text \<open>In physical mode the default tenant has no store: its backend cannot be registered. Every write for it fails
  and leaves every store unchanged; the audit records of anonymous requests belong to it.\<close>

lemma default_not_registered: "registerTenantBackend env ''default'' cfg r = (Some ''default tenant is reserved'', r)"
  by (simp add: registerTenantBackend_def tenantOrDefault_def Let_def)

theorem physical_default_has_no_store:
  assumes "tsRegistry ts = Some r" "rgPhysicalMode r" "tenantOrDefault t = ''default''"
    and "gm_get (rgStores r) ''default'' = None" "gm_get (rgBackends r) ''default'' = None"
  shows "\<exists>e. addAuditForTenant env ev t ts = (Some e, ts) \<and> fst (listAuditsForTenant env t ts) = [] \<and>
    addEventsForTenant env es t ts = (Some e, ts)"
proof -
  have "ts\<lparr>tsRegistry := Some r\<rparr> = ts"
    using assms(1) by (cases ts) simp
  then have "\<exists>e. storeForTenant env t ts = (Inl e, ts)"
    using assms by (auto simp: storeForTenant_def ensureTenantStore_def Let_def default_not_registered split: sum.split)
  then show ?thesis
    using assms(1,2)
    by (auto simp: addAuditForTenant_def addEventsForTenant_def listAuditsForTenant_def readTenant_def writeTenant_def physicalTenancy_def)
qed

text \<open>The file name of a tenant is not injective: tenants that differ in case or in punctuation get the same file.\<close>

theorem tenant_slug_collision:
  "\<not> sameTenant ''Acme'' ''acme'' \<and> \<not> sameTenant ''acme/eu'' ''acme-eu'' \<and>
   map (\<lambda>t. map_sum id tbDataPath (defaultBackendForTenant demo_env demo_start demo_registry t)) [''Acme'', ''acme'', ''acme/eu'', ''acme-eu''] =
     [Inr ''data/acme.json'', Inr ''data/acme.json'', Inr ''data/acme-eu.json'', Inr ''data/acme-eu.json'']"
  by code_simp

text \<open>The redaction of a connection string ends at the first \<open>@\<close>, which may stand in the password.\<close>

theorem redact_leaks_password_tail:
  "redactTenantDSN ''postgres://oatd:pa@ss@db/oatd'' = ''postgres://oatd:****@ss@db/oatd'' \<and>
   redactTenantDSN ''host=db user=oatd password=secret'' = ''host=db user=oatd password=secret''"
  by code_simp

end
