(* ===== verification/Correlator.thy ===== *)
theory Correlator
  imports Domain
begin

text \<open>
  \<open>internal/correlator/correlator.go\<close>: the events of the correlation window are grouped by asset,
  ordered by time, and each group is scanned for the first discovery, credential, agent-tool and
  egress event. \<open>sort.Slice\<close> leaves the order of events with equal timestamps open, so the sort is
  an argument of the model and the theorems hold for every sort that orders by timestamp. The locale
  \<open>sequence_slot\<close> is the contract of one of the four fields of \<open>sequenceState\<close>: the first matching
  event of the group sets it, and nothing changes it afterwards.
\<close>

section \<open>Model\<close>

record correlator =
  corWindow :: duration

definition NewCorrelator :: "duration \<Rightarrow> correlator" where
  "NewCorrelator w = \<lparr> corWindow = w \<rparr>"

record sequence_state =
  sqDiscovery :: string
  sqCredential :: string
  sqAgentTool :: string
  sqEgress :: string
  sqLatest :: string
  sqEventIDs :: "string list"

definition sequenceStart :: sequence_state where
  "sequenceStart = \<lparr> sqDiscovery = [], sqCredential = [], sqAgentTool = [], sqEgress = [], sqLatest = [],
     sqEventIDs = [] \<rparr>"

fun correlatorContainsAny :: "runtime \<Rightarrow> string \<Rightarrow> string list \<Rightarrow> bool" where
  "correlatorContainsAny rt v [] = False"
| "correlatorContainsAny rt v (n # ns) = (if Contains v (ToLower rt n) then True else correlatorContainsAny rt v ns)"

fun appendUniqueLoop :: "string list \<Rightarrow> string \<Rightarrow> bool" where
  "appendUniqueLoop [] v = False"
| "appendUniqueLoop (x # xs) v = (if x = v then True else appendUniqueLoop xs v)"

definition appendUnique :: "string list \<Rightarrow> string \<Rightarrow> string list" where
  "appendUnique xs v = (if appendUniqueLoop xs v then xs else xs @ [v])"

definition eventText :: "runtime \<Rightarrow> event \<Rightarrow> string" where
  "eventText rt e = ToLower rt
     (Join [evSignal e, evCommand e, evProcess e, evToolName e, Join (evLabels e) '' ''] '' '')"

definition discoveryNeedles :: "string list" where
  "discoveryNeedles = [''scan'', ''discovery'', ''whoami'', ''ipconfig'', ''ifconfig'', ''netstat'', ''arp -a'', ''nmap'']"

definition credentialNeedles :: "string list" where
  "credentialNeedles = [''credential'', ''secret'', ''token'', ''password'', ''api_key'', ''ssh_key'', ''env'']"

definition isDiscovery :: "runtime \<Rightarrow> event \<Rightarrow> bool" where
  "isDiscovery rt e \<longleftrightarrow> correlatorContainsAny rt (eventText rt e) discoveryNeedles"

definition isCredential :: "runtime \<Rightarrow> event \<Rightarrow> bool" where
  "isCredential rt e \<longleftrightarrow> correlatorContainsAny rt (eventText rt e) credentialNeedles"

definition isAgentTool :: "event \<Rightarrow> bool" where
  "isAgentTool e \<longleftrightarrow> evKind e = EventAgentToolCall"

definition isEgress :: "event \<Rightarrow> bool" where
  "isEgress e \<longleftrightarrow> evKind e = EventNetworkFlow \<and> evDestination e \<noteq> []"

text \<open>One round of the loop of \<open>classifySequence\<close>, with its four conditionals in order.\<close>

definition classifyEvent :: "runtime \<Rightarrow> event \<Rightarrow> sequence_state \<Rightarrow> sequence_state" where
  "classifyEvent rt e s = (if evID e = [] then s else
     let s1 = (if sqDiscovery s = [] \<and> isDiscovery rt e
           then s\<lparr>sqDiscovery := evID e, sqEventIDs := appendUnique (sqEventIDs s) (evID e)\<rparr> else s);
         s2 = (if sqCredential s1 = [] \<and> isCredential rt e
           then s1\<lparr>sqCredential := evID e, sqEventIDs := appendUnique (sqEventIDs s1) (evID e)\<rparr> else s1);
         s3 = (if sqAgentTool s2 = [] \<and> isAgentTool e
           then s2\<lparr>sqAgentTool := evID e, sqEventIDs := appendUnique (sqEventIDs s2) (evID e)\<rparr> else s2);
         s4 = (if sqEgress s3 = [] \<and> isEgress e
           then s3\<lparr>sqEgress := evID e, sqEventIDs := appendUnique (sqEventIDs s3) (evID e)\<rparr> else s3)
     in s4\<lparr>sqLatest := evID e\<rparr>)"

definition classifySequence :: "runtime \<Rightarrow> event list \<Rightarrow> sequence_state" where
  "classifySequence rt es = fold (classifyEvent rt) es sequenceStart"

text \<open>The grouping loop of \<open>Evaluate\<close>.\<close>

definition inWindow :: "time \<Rightarrow> duration \<Rightarrow> event \<Rightarrow> bool" where
  "inWindow now w e \<longleftrightarrow> \<not> (\<not> time_is_zero (evTimestamp e) \<and> evTimestamp e < now - w)"

definition addToAsset :: "time \<Rightarrow> duration \<Rightarrow> event \<Rightarrow> (string, event list) gomap \<Rightarrow> (string, event list) gomap" where
  "addToAsset now w e m = (if evAssetID e = [] then m else if \<not> inWindow now w e then m
     else gm_put (evAssetID e) ((case gm_get m (evAssetID e) of None \<Rightarrow> [] | Some es \<Rightarrow> es) @ [e]) m)"

definition byAsset :: "time \<Rightarrow> duration \<Rightarrow> event list \<Rightarrow> (string, event list) gomap" where
  "byAsset now w es = fold (addToAsset now w) es []"

definition correlationAlert :: "string \<Rightarrow> string \<Rightarrow> string \<Rightarrow> severity \<Rightarrow> string \<Rightarrow> sequence_state \<Rightarrow> string_map \<Rightarrow> alert" where
  "correlationAlert rule title descr sev asset s evidence =
     \<lparr> alID = [], alFingerprint = rule @ '':'' @ asset @ '':'' @ sqLatest s, alRuleID = rule, alTitle = title,
       alDescription = descr, alSeverity = sev, alStatus = AlertOpen, alAssetID = asset, alTenant = [],
       alCreatedAt = 0, alEventIDs = sqEventIDs s, alEvidence = evidence, alRecommendedActions = [] \<rparr>"

definition sequenceRule :: string where "sequenceRule = ''correlation.agentic.sequence''"
definition egressRule :: string where "egressRule = ''correlation.discovery.egress''"

definition assetAlerts :: "string \<Rightarrow> sequence_state \<Rightarrow> alert list" where
  "assetAlerts asset s =
     (if sqDiscovery s \<noteq> [] \<and> sqCredential s \<noteq> [] \<and> sqAgentTool s \<noteq> [] \<and> sqEgress s \<noteq> [] then
        [correlationAlert sequenceRule ''Correlated agentic threat sequence''
           ''Discovery, credential-touch, agent-tool activity, and external egress appeared on the same asset inside the correlation window.''
           SeverityCritical asset s
           [(''discovery_event'', sqDiscovery s), (''credential_event'', sqCredential s),
            (''agent_tool_event'', sqAgentTool s), (''egress_event'', sqEgress s)]]
      else if sqDiscovery s \<noteq> [] \<and> sqEgress s \<noteq> [] then
        [correlationAlert egressRule ''Discovery followed by unexpected egress''
           ''Discovery-like process activity was followed by outbound network flow from the same asset.''
           SeverityHigh asset s
           [(''discovery_event'', sqDiscovery s), (''egress_event'', sqEgress s)]]
      else [])"

definition CorrelatorEvaluate ::
  "runtime \<Rightarrow> (event list \<Rightarrow> event list) \<Rightarrow> time \<Rightarrow> event list \<Rightarrow> correlator \<Rightarrow> alert list \<times> correlator" where
  "CorrelatorEvaluate rt sortSlice now es c =
     (let c = (if corWindow c = 0 then c\<lparr>corWindow := 30 * minute\<rparr> else c) in
      (concat (map (\<lambda>(asset, aes). assetAlerts asset (classifySequence rt (sortSlice aes)))
         (byAsset now (corWindow c) es)), c))"

section \<open>The scan of a group\<close>

lemma appendUnique_add_new: "appendUnique xs v = add_new v xs"
proof -
  have "appendUniqueLoop xs v \<longleftrightarrow> v \<in> set xs"
    by (induction xs) auto
  then show ?thesis
    by (simp add: appendUnique_def add_new_def)
qed

lemma correlatorContainsAny_iff:
  "correlatorContainsAny rt v ns \<longleftrightarrow> (\<exists>n \<in> set ns. Contains v (ToLower rt n))"
  by (induction ns) auto

locale sequence_slot =
  fixes slot :: "'s \<Rightarrow> string" and hit :: "event \<Rightarrow> bool" and step :: "event \<Rightarrow> 's \<Rightarrow> 's"
  assumes slot_step: "slot (step e s) = (if evID e \<noteq> [] \<and> slot s = [] \<and> hit e then evID e else slot s)"
begin

lemma slot_set: "slot s \<noteq> [] \<Longrightarrow> slot (fold step es s) = slot s"
  by (induction es arbitrary: s) (auto simp: slot_step)

lemma slot_first:
  "slot s = [] \<Longrightarrow> slot (fold step es s) =
     (case find (\<lambda>e. evID e \<noteq> [] \<and> hit e) es of None \<Rightarrow> [] | Some e \<Rightarrow> evID e)"
proof (induction es arbitrary: s)
  case (Cons e es)
  show ?case
  proof (cases "evID e \<noteq> [] \<and> hit e")
    case True
    then have "slot (step e s) = evID e"
      using Cons.prems by (simp add: slot_step)
    then show ?thesis
      using True slot_set [of "step e s" es] by simp
  next
    case False
    then have "slot (step e s) = []"
      using Cons.prems by (auto simp: slot_step)
    then show ?thesis
      using False Cons.IH by auto
  qed
qed simp

lemma slot_not_Nil:
  "slot s = [] \<Longrightarrow> slot (fold step es s) \<noteq> [] \<longleftrightarrow> (\<exists>e \<in> set es. evID e \<noteq> [] \<and> hit e)"
  by (cases "find (\<lambda>e. evID e \<noteq> [] \<and> hit e) es")
    (auto simp: slot_first find_None_iff dest: find_Some_mem split: option.splits)

text \<open>In a list ordered by time the slot holds the ID of an earliest matching event.\<close>

lemma slot_earliest:
  assumes "slot s = []" "slot (fold step es s) \<noteq> []" "sorted (map evTimestamp es)"
  shows "\<exists>e \<in> set es. evID e \<noteq> [] \<and> hit e \<and> slot (fold step es s) = evID e \<and>
    (\<forall>e' \<in> set es. evID e' \<noteq> [] \<and> hit e' \<longrightarrow> evTimestamp e \<le> evTimestamp e')"
  using assms
proof (induction es arbitrary: s)
  case (Cons x es)
  show ?case
  proof (cases "evID x \<noteq> [] \<and> hit x")
    case True
    then have "slot (step x s) = evID x"
      using Cons.prems(1) by (simp add: slot_step)
    then have "slot (fold step (x # es) s) = evID x"
      using True slot_set [of "step x s" es] by simp
    then show ?thesis
      using True Cons.prems(3) by (intro bexI [of _ x]) auto
  next
    case False
    then have "slot (step x s) = []"
      using Cons.prems(1) by (auto simp: slot_step)
    then show ?thesis
      using False Cons.IH [of "step x s"] Cons.prems by auto
  qed
qed simp

end

lemma classifyEvent_slots:
  "sqDiscovery (classifyEvent rt e s) = (if evID e \<noteq> [] \<and> sqDiscovery s = [] \<and> isDiscovery rt e then evID e else sqDiscovery s)"
  "sqCredential (classifyEvent rt e s) = (if evID e \<noteq> [] \<and> sqCredential s = [] \<and> isCredential rt e then evID e else sqCredential s)"
  "sqAgentTool (classifyEvent rt e s) = (if evID e \<noteq> [] \<and> sqAgentTool s = [] \<and> isAgentTool e then evID e else sqAgentTool s)"
  "sqEgress (classifyEvent rt e s) = (if evID e \<noteq> [] \<and> sqEgress s = [] \<and> isEgress e then evID e else sqEgress s)"
  by (simp_all add: classifyEvent_def Let_def)

interpretation discovery_slot: sequence_slot sqDiscovery "isDiscovery rt" "classifyEvent rt" for rt
  by unfold_locales (rule classifyEvent_slots)

interpretation credential_slot: sequence_slot sqCredential "isCredential rt" "classifyEvent rt" for rt
  by unfold_locales (rule classifyEvent_slots)

interpretation agent_tool_slot: sequence_slot sqAgentTool isAgentTool "classifyEvent rt" for rt
  by unfold_locales (rule classifyEvent_slots)

interpretation egress_slot: sequence_slot sqEgress isEgress "classifyEvent rt" for rt
  by unfold_locales (rule classifyEvent_slots)

lemma sequenceStart_slots [simp]:
  "sqDiscovery sequenceStart = []" "sqCredential sequenceStart = []"
  "sqAgentTool sequenceStart = []" "sqEgress sequenceStart = []"
  by (simp_all add: sequenceStart_def)

lemma classifySequence_slots:
  "sqDiscovery (classifySequence rt es) \<noteq> [] \<longleftrightarrow> (\<exists>e \<in> set es. evID e \<noteq> [] \<and> isDiscovery rt e)"
  "sqCredential (classifySequence rt es) \<noteq> [] \<longleftrightarrow> (\<exists>e \<in> set es. evID e \<noteq> [] \<and> isCredential rt e)"
  "sqAgentTool (classifySequence rt es) \<noteq> [] \<longleftrightarrow> (\<exists>e \<in> set es. evID e \<noteq> [] \<and> isAgentTool e)"
  "sqEgress (classifySequence rt es) \<noteq> [] \<longleftrightarrow> (\<exists>e \<in> set es. evID e \<noteq> [] \<and> isEgress e)"
  unfolding classifySequence_def
  by (rule discovery_slot.slot_not_Nil credential_slot.slot_not_Nil agent_tool_slot.slot_not_Nil
      egress_slot.slot_not_Nil, simp)+

section \<open>The grouping\<close>

abbreviation groupOf :: "time \<Rightarrow> duration \<Rightarrow> event list \<Rightarrow> string \<Rightarrow> event list" where
  "groupOf now w es a \<equiv> filter (\<lambda>e. evAssetID e = a \<and> inWindow now w e) es"

lemma addToAsset_ok: "gm_ok m \<Longrightarrow> gm_ok (addToAsset now w e m)"
  by (simp add: addToAsset_def)

lemma byAsset_fold_ok: "gm_ok m \<Longrightarrow> gm_ok (fold (addToAsset now w) es m)"
  by (induction es arbitrary: m) (simp_all add: addToAsset_ok)

lemma byAsset_fold_get:
  "gm_get (fold (addToAsset now w) es m) a = (if a = [] \<or> groupOf now w es a = [] then gm_get m a
     else Some ((case gm_get m a of None \<Rightarrow> [] | Some xs \<Rightarrow> xs) @ groupOf now w es a))"
  by (induction es arbitrary: m) (auto simp: addToAsset_def split: option.splits)

lemma byAsset_ok: "gm_ok (byAsset now w es)"
  by (simp add: byAsset_def byAsset_fold_ok)

lemma byAsset_mem:
  "(a, aes) \<in> set (byAsset now w es) \<longleftrightarrow> a \<noteq> [] \<and> aes \<noteq> [] \<and> aes = groupOf now w es a"
proof -
  have "(a, aes) \<in> set (byAsset now w es) \<longleftrightarrow> gm_get (byAsset now w es) a = Some aes"
    using byAsset_ok by (auto simp: gm_ok_def)
  then show ?thesis
    by (auto simp: byAsset_def byAsset_fold_get)
qed

section \<open>The alerts\<close>

lemma alert_rules_differ [simp]: "sequenceRule \<noteq> egressRule" "egressRule \<noteq> sequenceRule"
  by code_simp+

lemma assetAlerts_mem:
  "al \<in> set (assetAlerts a s) \<Longrightarrow> alAssetID al = a \<and> alEventIDs al = sqEventIDs s \<and>
     sqDiscovery s \<noteq> [] \<and> sqEgress s \<noteq> [] \<and>
     gm_str (alEvidence al) ''discovery_event'' = sqDiscovery s \<and>
     gm_str (alEvidence al) ''egress_event'' = sqEgress s"
  by (auto simp: assetAlerts_def correlationAlert_def gm_str_def split: if_splits)

lemma assetAlerts_rules:
  "(\<exists>al \<in> set (assetAlerts a s). alRuleID al = sequenceRule) \<longleftrightarrow>
     sqDiscovery s \<noteq> [] \<and> sqCredential s \<noteq> [] \<and> sqAgentTool s \<noteq> [] \<and> sqEgress s \<noteq> []"
  "(\<exists>al \<in> set (assetAlerts a s). alRuleID al = egressRule) \<longleftrightarrow>
     sqDiscovery s \<noteq> [] \<and> sqEgress s \<noteq> [] \<and> (sqCredential s = [] \<or> sqAgentTool s = [])"
  by (auto simp: assetAlerts_def correlationAlert_def)

lemma assetAlerts_length: "length (assetAlerts a s) \<le> 1"
  by (simp add: assetAlerts_def)

lemma CorrelatorEvaluate_mem:
  "al \<in> set (fst (CorrelatorEvaluate rt srt now es c)) \<longleftrightarrow>
    (\<exists>a. a \<noteq> [] \<and> groupOf now (corWindow (snd (CorrelatorEvaluate rt srt now es c))) es a \<noteq> [] \<and>
     al \<in> set (assetAlerts a (classifySequence rt
       (srt (groupOf now (corWindow (snd (CorrelatorEvaluate rt srt now es c))) es a)))))"
proof -
  have "al \<in> set (fst (CorrelatorEvaluate rt srt now es c)) \<longleftrightarrow>
    (\<exists>a aes. (a, aes) \<in> set (byAsset now (corWindow (snd (CorrelatorEvaluate rt srt now es c))) es) \<and>
       al \<in> set (assetAlerts a (classifySequence rt (srt aes))))"
    unfolding CorrelatorEvaluate_def Let_def by (simp add: Bex_def split_beta)
  then show ?thesis
    unfolding byAsset_mem by blast
qed

lemma distinct_concat_singletons:
  "distinct (map fst m) \<Longrightarrow> (\<And>a v al. al \<in> set (f a v) \<Longrightarrow> g al = a) \<Longrightarrow> (\<And>a v. length (f a v) \<le> 1) \<Longrightarrow>
     distinct (map g (concat (map (\<lambda>(a, v). f a v) m)))"
proof (induction m)
  case (Cons p m)
  obtain a v where p: "p = (a, v)" by fastforce
  have 1: "distinct (map g (f a v))"
    using Cons.prems(3) [of a v] by (cases "f a v") auto
  have 2: "g ` set (f a v) \<subseteq> {a}"
    using Cons.prems(2) by blast
  have 3: "g ` (\<Union>(b, w) \<in> set m. set (f b w)) \<subseteq> fst ` set m"
  proof clarify
    fix al b w assume m: "(b, w) \<in> set m" and "al \<in> set (f b w)"
    then have b: "g al = b"
      by (intro Cons.prems(2))
    show "g al \<in> fst ` set m"
      unfolding b by (rule rev_image_eqI [OF m]) (rule fst_conv [symmetric])
  qed
  have "a \<notin> fst ` set m"
    using Cons.prems(1) p by simp
  then have "g ` set (f a v) \<inter> g ` (\<Union>(b, w) \<in> set m. set (f b w)) = {}"
    using subset_trans [OF Int_mono [OF 2 3], of "{}"] by simp
  moreover have "distinct (map g (concat (map (\<lambda>(a, v). f a v) m)))"
    using Cons by simp
  moreover have "set (concat (map (\<lambda>(a, v). f a v) m)) = (\<Union>(b, w) \<in> set m. set (f b w))"
    by auto
  ultimately show ?case
    unfolding p list.map concat.simps map_append prod.case distinct_append set_map using 1 by simp
qed simp

lemma CorrelatorEvaluate_distinct:
  "distinct (map alAssetID (fst (CorrelatorEvaluate rt srt now es c)))"
  unfolding CorrelatorEvaluate_def Let_def fst_conv
proof (rule distinct_concat_singletons)
  show "distinct (map fst (byAsset now (corWindow (if corWindow c = 0 then c\<lparr>corWindow := 30 * minute\<rparr> else c)) es))"
    using byAsset_ok by (simp add: gm_ok_def)
qed (use assetAlerts_mem assetAlerts_length in blast)+

section \<open>Properties\<close>

definition slice_sort :: "(event list \<Rightarrow> event list) \<Rightarrow> bool" where
  "slice_sort srt \<longleftrightarrow> (\<forall>es. mset (srt es) = mset es \<and> sorted (map evTimestamp (srt es)))"

lemma slice_sort_set: "slice_sort srt \<Longrightarrow> set (srt es) = set es"
  unfolding slice_sort_def by (metis set_mset_mset)

lemma slice_sort_sort_key: "slice_sort (sort_key evTimestamp)"
  by (simp add: slice_sort_def)

definition correlated :: "time \<Rightarrow> duration \<Rightarrow> event list \<Rightarrow> string \<Rightarrow> event set" where
  "correlated now w es a = {e \<in> set es. a \<noteq> [] \<and> evAssetID e = a \<and> inWindow now w e \<and> evID e \<noteq> []}"

lemma evaluate_rule_iff:
  assumes "\<And>b s. (\<exists>al \<in> set (assetAlerts b s). alRuleID al = r) \<longleftrightarrow> Q s"
    and "\<not> Q (classifySequence rt (srt []))"
  shows "(\<exists>al \<in> set (fst (CorrelatorEvaluate rt srt now es c)). alRuleID al = r \<and> alAssetID al = a) \<longleftrightarrow>
    a \<noteq> [] \<and> Q (classifySequence rt (srt (groupOf now (corWindow (snd (CorrelatorEvaluate rt srt now es c))) es a)))"
    (is "?L \<longleftrightarrow> a \<noteq> [] \<and> Q (?C a)")
proof
  assume ?L
  then obtain b where b: "b \<noteq> []" "\<exists>al \<in> set (assetAlerts b (?C b)). alRuleID al = r \<and> alAssetID al = a"
    unfolding CorrelatorEvaluate_mem Bex_def by blast
  moreover have "b = a"
    using b(2) assetAlerts_mem by blast
  ultimately show "a \<noteq> [] \<and> Q (?C a)"
    using assms(1) by blast
next
  assume R: "a \<noteq> [] \<and> Q (?C a)"
  then obtain al where al: "al \<in> set (assetAlerts a (?C a))" "alRuleID al = r"
    using assms(1) by blast
  moreover have "groupOf now (corWindow (snd (CorrelatorEvaluate rt srt now es c))) es a \<noteq> []"
    using R assms(2) by metis
  ultimately show ?L
    using R assetAlerts_mem [OF al(1)] unfolding CorrelatorEvaluate_mem Bex_def by blast
qed

text \<open>The evidence of an alert: the earliest events of the asset that were classified as discovery and as egress.\<close>

lemma alert_evidence:
  fixes now w es rt
  assumes srt: "slice_sort srt" and a: "a \<noteq> []" and mem: "al \<in> set (assetAlerts a (classifySequence rt (srt (groupOf now w es a))))"
  shows "\<exists>d \<in> correlated now w es a. \<exists>x \<in> correlated now w es a. isDiscovery rt d \<and> isEgress x \<and>
    gm_str (alEvidence al) ''discovery_event'' = evID d \<and> gm_str (alEvidence al) ''egress_event'' = evID x \<and>
    (\<forall>e \<in> correlated now w es a. (isDiscovery rt e \<longrightarrow> evTimestamp d \<le> evTimestamp e) \<and> (isEgress e \<longrightarrow> evTimestamp x \<le> evTimestamp e))"
proof -
  let ?g = "srt (groupOf now w es a)"
  note al = assetAlerts_mem [OF mem]
  have g: "e \<in> correlated now w es a \<longleftrightarrow> e \<in> set ?g \<and> evID e \<noteq> []" for e
    using a by (auto simp: correlated_def slice_sort_set [OF srt])
  have sorted: "sorted (map evTimestamp ?g)"
    using srt by (simp add: slice_sort_def)
  obtain d where d: "d \<in> set ?g" "evID d \<noteq> []" "isDiscovery rt d" "sqDiscovery (classifySequence rt ?g) = evID d"
      "\<forall>e \<in> set ?g. evID e \<noteq> [] \<and> isDiscovery rt e \<longrightarrow> evTimestamp d \<le> evTimestamp e"
    using discovery_slot.slot_earliest [OF sequenceStart_slots(1) _ sorted] al unfolding classifySequence_def by blast
  obtain x where x: "x \<in> set ?g" "evID x \<noteq> []" "isEgress x" "sqEgress (classifySequence rt ?g) = evID x"
      "\<forall>e \<in> set ?g. evID e \<noteq> [] \<and> isEgress e \<longrightarrow> evTimestamp x \<le> evTimestamp e"
    using egress_slot.slot_earliest [OF sequenceStart_slots(4) _ sorted] al unfolding classifySequence_def by blast
  have "gm_str (alEvidence al) ''discovery_event'' = evID d" "gm_str (alEvidence al) ''egress_event'' = evID x"
    using al d(4) x(4) by simp_all
  then show ?thesis
    using d(1-3,5) x(1-3,5) by (intro bexI [of _ d] bexI [of _ x]) (simp_all add: g)
qed

text \<open>C17: What the correlator reports. Take any sort that orders the events of a group by timestamp
  (events with equal timestamps in any order). The window in force is the configured one, or thirty
  minutes when that is zero. For every asset the events that count are those that name the asset and
  have an ID and that either have no timestamp or are not older than the window. Then the critical
  alert is raised for an asset exactly when its events contain a discovery, a credential, an agent
  tool call and an egress event; the high alert exactly when they contain a discovery and an egress
  event and one of the other two is missing; each asset gets at most one alert; and the evidence of an
  alert names a discovery and an egress event of the asset, each of them an earliest one.\<close>

theorem correlation_alerts:
  fixes rt now es and c :: correlator
  assumes srt: "slice_sort srt"
  defines "w \<equiv> (if corWindow c = 0 then 30 * minute else corWindow c)"
  defines "alerts \<equiv> fst (CorrelatorEvaluate rt srt now es c)"
  shows "((\<exists>al \<in> set alerts. alRuleID al = sequenceRule \<and> alAssetID al = a) \<longleftrightarrow>
      (\<exists>e \<in> correlated now w es a. isDiscovery rt e) \<and> (\<exists>e \<in> correlated now w es a. isCredential rt e) \<and>
      (\<exists>e \<in> correlated now w es a. isAgentTool e) \<and> (\<exists>e \<in> correlated now w es a. isEgress e)) \<and>
    ((\<exists>al \<in> set alerts. alRuleID al = egressRule \<and> alAssetID al = a) \<longleftrightarrow>
      (\<exists>e \<in> correlated now w es a. isDiscovery rt e) \<and> (\<exists>e \<in> correlated now w es a. isEgress e) \<and>
      \<not> ((\<exists>e \<in> correlated now w es a. isCredential rt e) \<and> (\<exists>e \<in> correlated now w es a. isAgentTool e))) \<and>
    distinct (map alAssetID alerts) \<and>
    (\<forall>al \<in> set alerts. \<exists>d \<in> correlated now w es (alAssetID al). \<exists>x \<in> correlated now w es (alAssetID al).
      isDiscovery rt d \<and> isEgress x \<and>
      gm_str (alEvidence al) ''discovery_event'' = evID d \<and> gm_str (alEvidence al) ''egress_event'' = evID x \<and>
      (\<forall>e \<in> correlated now w es (alAssetID al). (isDiscovery rt e \<longrightarrow> evTimestamp d \<le> evTimestamp e) \<and>
         (isEgress e \<longrightarrow> evTimestamp x \<le> evTimestamp e))) \<and>
    snd (CorrelatorEvaluate rt srt now es c) = \<lparr> corWindow = w \<rparr>"
    (is "?sequence \<and> ?egress \<and> ?distinct \<and> ?evidence \<and> ?window")
proof (intro conjI)
  show window: ?window
    by (simp add: CorrelatorEvaluate_def w_def Let_def)
  have srtset: "set (srt xs) = set xs" for xs
    using srt by (rule slice_sort_set)
  have nil: "sqDiscovery (classifySequence rt (srt [])) = []"
    using classifySequence_slots(1) [of rt "srt []"] srtset [of "[]"] by simp
  show ?sequence
    unfolding alerts_def
    by (subst evaluate_rule_iff [OF assetAlerts_rules(1)])
      (auto simp: nil window classifySequence_slots srtset correlated_def)
  show ?egress
    unfolding alerts_def
    by (subst evaluate_rule_iff [where r = egressRule and Q = "\<lambda>s. sqDiscovery s \<noteq> [] \<and> sqEgress s \<noteq> [] \<and>
          \<not> (sqCredential s \<noteq> [] \<and> sqAgentTool s \<noteq> [])"])
      (auto simp: nil window assetAlerts_rules classifySequence_slots srtset correlated_def)
  show ?distinct
    unfolding alerts_def by (rule CorrelatorEvaluate_distinct)
  show ?evidence
  proof
    fix al assume "al \<in> set alerts"
    then obtain a where a: "a \<noteq> []" "al \<in> set (assetAlerts a (classifySequence rt (srt (groupOf now w es a))))"
      unfolding alerts_def CorrelatorEvaluate_mem window by auto
    then have "alAssetID al = a"
      using assetAlerts_mem by blast
    then show "\<exists>d \<in> correlated now w es (alAssetID al). \<exists>x \<in> correlated now w es (alAssetID al).
      isDiscovery rt d \<and> isEgress x \<and>
      gm_str (alEvidence al) ''discovery_event'' = evID d \<and> gm_str (alEvidence al) ''egress_event'' = evID x \<and>
      (\<forall>e \<in> correlated now w es (alAssetID al). (isDiscovery rt e \<longrightarrow> evTimestamp d \<le> evTimestamp e) \<and>
         (isEgress e \<longrightarrow> evTimestamp x \<le> evTimestamp e))"
      using alert_evidence [OF srt a] by simp
  qed
qed

definition flow_event :: "string \<Rightarrow> time \<Rightarrow> event_kind \<Rightarrow> string \<Rightarrow> string \<Rightarrow> event" where
  "flow_event i t k sig dst = \<lparr> evID = i, evTimestamp = t, evTenant = [], evKind = k, evAssetID = ''host-1'', evHostname = [],
     evActor = [], evSourceIP = [], evDestination = dst, evProcess = [], evToolName = [], evCommand = [], evSignal = sig,
     evLabels = [], evMetadata = [] \<rparr>"

definition late_discovery :: "event list" where
  "late_discovery = [flow_event ''e1'' 100 EventNetworkFlow [] ''203.0.113.9'', flow_event ''e2'' 200 EventProcessStart ''nmap scan'' []]"

lemma late_discovery_events:
  "e \<in> correlated 300 (30 * minute) late_discovery ''host-1'' \<longleftrightarrow> e \<in> set late_discovery"
  "\<exists>e \<in> set late_discovery. isDiscovery ascii_runtime e" "\<exists>e \<in> set late_discovery. isEgress e"
  "\<not> (\<exists>e \<in> set late_discovery. isAgentTool e)"
  subgoal by (auto simp: correlated_def late_discovery_def flow_event_def inWindow_def duration_defs)
  by code_simp+

theorem correlation_alerts_witness:
  "slice_sort (sort_key evTimestamp) \<and>
   (\<exists>al \<in> set (fst (CorrelatorEvaluate ascii_runtime (sort_key evTimestamp) 300 late_discovery (NewCorrelator 0))).
      alRuleID al = egressRule \<and> alAssetID al = ''host-1'')"
  using correlation_alerts [OF slice_sort_sort_key, of ascii_runtime 300 late_discovery "NewCorrelator 0" "''host-1''"]
    late_discovery_events slice_sort_sort_key
  by (simp add: NewCorrelator_def Bex_def)

text \<open>The correlator does not look at the order of the events. The alert titled
  \<open>Discovery followed by unexpected egress\<close> is raised for an asset whose only egress happened before
  the only discovery.\<close>

theorem correlation_ignores_order:
  "map (\<lambda>al. (alRuleID al, alEvidence al))
     (fst (CorrelatorEvaluate ascii_runtime (sort_key evTimestamp) 300 late_discovery (NewCorrelator 0))) =
     [(egressRule, [(''discovery_event'', ''e2''), (''egress_event'', ''e1'')])] \<and>
   map evTimestamp late_discovery = [100, 200] \<and> map evID late_discovery = [''e1'', ''e2'']"
  by code_simp

end
