(* ===== verification/Planner.thy ===== *)
theory Planner
  imports Correlator
begin

text \<open>
  \<open>internal/response/planner.go\<close>: the response actions recommended for an alert. The theorems give
  the exact conditions of each action and the plan of a correlated alert.
\<close>

section \<open>Model\<close>

record planner =
  plMode :: string

definition NewDryRun :: planner where
  "NewDryRun = \<lparr> plMode = ''dry-run'' \<rparr>"

fun firstNonEmpty :: "string list \<Rightarrow> string" where
  "firstNonEmpty [] = []"
| "firstNonEmpty (v # vs) = (if v \<noteq> [] then v else firstNonEmpty vs)"

definition plannedAction :: "string \<Rightarrow> string \<Rightarrow> string \<Rightarrow> string \<Rightarrow> string \<Rightarrow> string \<Rightarrow> response_action" where
  "plannedAction typ mode asset target reason approval = empty_action\<lparr> raType := typ, raMode := mode,
     raAssetID := asset, raTarget := target, raReason := reason, raApprovalStatus := approval \<rparr>"

definition Plan :: "planner \<Rightarrow> alert \<Rightarrow> response_action list" where
  "Plan p al = (let mode = (if plMode p = [] then ''dry-run'' else plMode p); asset = alAssetID al in
     [plannedAction ''create_incident_ticket'' mode asset (alID al)
        ''Create an audit trail and assign incident ownership.'' ''not_required''] @
     (if Rank (alSeverity al) \<ge> Rank SeverityHigh then
       [plannedAction ''isolate_host'' mode asset asset
          ''Contain high-severity activity before lateral movement expands.'' ''required''] else []) @
     (if Contains (alRuleID al) ''egress'' \<or> Contains (alRuleID al) ''sequence'' \<or> Contains (alRuleID al) ''model.runtime'' then
       [plannedAction ''block_egress'' mode asset
          (firstNonEmpty [gm_str (alEvidence al) ''destination'', gm_str (alEvidence al) ''egress_event'', ''unknown''])
          ''Stop unexpected external communication while preserving evidence.'' ''required''] else []) @
     (if Contains (alRuleID al) ''agent.tool'' then
       [plannedAction ''disable_agent_tool'' mode asset
          (firstNonEmpty [gm_str (alEvidence al) ''tool'', ''unknown''])
          ''Remove unapproved tool access from the agent runtime.'' ''required''] else []) @
     (if Contains (alRuleID al) ''secret'' \<or> Contains (alRuleID al) ''canary'' \<or> Contains (alRuleID al) ''deception'' then
       [plannedAction ''rotate_related_secrets'' mode asset asset
          ''Invalidate credentials that may have been exposed or touched.'' ''required''] else []))"

section \<open>Properties\<close>

lemma plannedAction_simps [simp]:
  "raType (plannedAction t m a g r s) = t" "raMode (plannedAction t m a g r s) = m"
  "raAssetID (plannedAction t m a g r s) = a" "raTarget (plannedAction t m a g r s) = g"
  "raApprovalStatus (plannedAction t m a g r s) = s" "raApprovedBy (plannedAction t m a g r s) = []"
  "raExecutionStatus (plannedAction t m a g r s) = []"
  by (simp_all add: plannedAction_def empty_action_def)

lemma firstNonEmpty_not_Nil: "v \<in> set vs \<Longrightarrow> v \<noteq> [] \<Longrightarrow> firstNonEmpty vs \<noteq> []"
  by (induction vs) auto

text \<open>Appending a conditional singleton, seen through a field of its element.\<close>

lemma map_if_singleton: "map f (if b then [x] else []) = (if b then [f x] else [])"
  by simp

lemma Plan_types:
  "map raType (Plan p al) =
     [''create_incident_ticket''] @
     (if Rank (alSeverity al) \<ge> 4 then [''isolate_host''] else []) @
     (if Contains (alRuleID al) ''egress'' \<or> Contains (alRuleID al) ''sequence'' \<or> Contains (alRuleID al) ''model.runtime''
      then [''block_egress''] else []) @
     (if Contains (alRuleID al) ''agent.tool'' then [''disable_agent_tool''] else []) @
     (if Contains (alRuleID al) ''secret'' \<or> Contains (alRuleID al) ''canary'' \<or> Contains (alRuleID al) ''deception''
      then [''rotate_related_secrets''] else [])"
  unfolding Plan_def Let_def map_append map_if_singleton plannedAction_simps Rank.simps list.map by (rule refl)

definition planned_ok :: "planner \<Rightarrow> alert \<Rightarrow> response_action \<Rightarrow> bool" where
  "planned_ok p al ac \<longleftrightarrow> raAssetID ac = alAssetID al \<and> raMode ac = (if plMode p = [] then ''dry-run'' else plMode p) \<and>
    raApprovedBy ac = [] \<and> raExecutionStatus ac = [] \<and>
    raApprovalStatus ac = (if raType ac = ''create_incident_ticket'' then ''not_required'' else ''required'')"

lemma planned_ok_action:
  "planned_ok p al (plannedAction t (if plMode p = [] then ''dry-run'' else plMode p) (alAssetID al) g r s) \<longleftrightarrow>
     s = (if t = ''create_incident_ticket'' then ''not_required'' else ''required'')"
  by (simp only: planned_ok_def plannedAction_simps simp_thms)

lemma list_all_if_singleton: "list_all P (if b then [x] else []) \<longleftrightarrow> (b \<longrightarrow> P x)"
  by simp

lemma Plan_mem: "list_all (planned_ok p al) (Plan p al)"
  unfolding Plan_def Let_def list_all_append list_all_if_singleton list.pred_inject planned_ok_action
  by (intro conjI impI) simp_all

text \<open>The plan of an alert. Whatever the alert, the plan opens with an incident ticket, which needs
  no approval, and every other action is planned as requiring approval, unapproved and unexecuted, on
  the asset of the alert and in the mode of the planner (dry-run when none is set). Hosts are isolated
  exactly from high severity on, egress is blocked exactly for rules that name an egress, a sequence
  or a model runtime, the tool is disabled exactly for agent-tool rules, secrets are rotated exactly
  for secret, canary and deception rules, and no action is planned twice.\<close>

theorem plan_spec:
  "(\<exists>rest. map raType (Plan p al) = ''create_incident_ticket'' # rest) \<and>
   (''isolate_host'' \<in> raType ` set (Plan p al) \<longleftrightarrow> alSeverity al \<in> {SeverityHigh, SeverityCritical}) \<and>
   (''block_egress'' \<in> raType ` set (Plan p al) \<longleftrightarrow>
      (\<exists>w \<in> {''egress'', ''sequence'', ''model.runtime''}. sublist w (alRuleID al))) \<and>
   (''disable_agent_tool'' \<in> raType ` set (Plan p al) \<longleftrightarrow> sublist ''agent.tool'' (alRuleID al)) \<and>
   (''rotate_related_secrets'' \<in> raType ` set (Plan p al) \<longleftrightarrow>
      (\<exists>w \<in> {''secret'', ''canary'', ''deception''}. sublist w (alRuleID al))) \<and>
   distinct (map raType (Plan p al)) \<and>
   (\<forall>ac \<in> set (Plan p al). raAssetID ac = alAssetID al \<and>
      raMode ac = (if plMode p = [] then ''dry-run'' else plMode p) \<and> raApprovedBy ac = [] \<and> raExecutionStatus ac = [] \<and>
      raApprovalStatus ac = (if raType ac = ''create_incident_ticket'' then ''not_required'' else ''required''))"
proof -
  have rank: "4 \<le> Rank (alSeverity al) \<longleftrightarrow> alSeverity al \<in> {SeverityHigh, SeverityCritical}"
    by (cases "alSeverity al") simp_all
  have types: "t \<in> raType ` set (Plan p al) \<longleftrightarrow> t \<in> set (map raType (Plan p al))" for t
    by simp
  have "distinct (map raType (Plan p al))"
    unfolding Plan_types by auto
  moreover have "\<forall>ac \<in> set (Plan p al). raAssetID ac = alAssetID al \<and>
      raMode ac = (if plMode p = [] then ''dry-run'' else plMode p) \<and> raApprovedBy ac = [] \<and> raExecutionStatus ac = [] \<and>
      raApprovalStatus ac = (if raType ac = ''create_incident_ticket'' then ''not_required'' else ''required'')"
    using Plan_mem [of p al] unfolding list_all_iff planned_ok_def [abs_def] by blast
  ultimately show ?thesis
    unfolding types Plan_types rank Contains_iff by (intro conjI) auto
qed

definition canary_alert :: alert where
  "canary_alert = \<lparr> alID = ''a1'', alFingerprint = [], alRuleID = ''deception.canary.touched'', alTitle = [],
     alDescription = [], alSeverity = SeverityCritical, alStatus = AlertOpen, alAssetID = ''host-1'', alTenant = [],
     alCreatedAt = 0, alEventIDs = [], alEvidence = [], alRecommendedActions = [] \<rparr>"

theorem plan_spec_witness:
  "map (\<lambda>ac. (raType ac, raApprovalStatus ac)) (Plan NewDryRun canary_alert) =
     [(''create_incident_ticket'', ''not_required''), (''isolate_host'', ''required''), (''rotate_related_secrets'', ''required'')] \<and>
   ''isolate_host'' \<in> raType ` set (Plan NewDryRun canary_alert)"
proof
  show "map (\<lambda>ac. (raType ac, raApprovalStatus ac)) (Plan NewDryRun canary_alert) =
     [(''create_incident_ticket'', ''not_required''), (''isolate_host'', ''required''), (''rotate_related_secrets'', ''required'')]"
    by code_simp
  show "''isolate_host'' \<in> raType ` set (Plan NewDryRun canary_alert)"
    using plan_spec [of NewDryRun canary_alert] by (simp add: canary_alert_def del: set_map)
qed

text \<open>The plan of a correlated alert blocks the egress that its evidence names.\<close>

lemma correlated_alert_plan:
  assumes "al \<in> set (assetAlerts a s)"
  shows "\<exists>ac \<in> set (Plan p al). raType ac = ''block_egress'' \<and> raTarget ac = sqEgress s \<and> raAssetID ac = a"
    and "''isolate_host'' \<in> raType ` set (Plan p al)"
proof -
  note al = assetAlerts_mem [OF assms]
  have rule: "alRuleID al \<in> {sequenceRule, egressRule}" "Rank (alSeverity al) \<ge> 4"
      "gm_str (alEvidence al) ''destination'' = []"
    using assms by (auto simp: assetAlerts_def correlationAlert_def gm_str_def split: if_splits)
  have "Contains sequenceRule ''sequence''" "Contains egressRule ''egress''"
    by code_simp+
  then have c: "Contains (alRuleID al) ''egress'' \<or> Contains (alRuleID al) ''sequence'' \<or> Contains (alRuleID al) ''model.runtime''"
    using rule(1) by auto
  have "firstNonEmpty [gm_str (alEvidence al) ''destination'', gm_str (alEvidence al) ''egress_event'', ''unknown''] = sqEgress s"
    using al rule(3) by simp
  then have "plannedAction ''block_egress'' (if plMode p = [] then ''dry-run'' else plMode p) a (sqEgress s)
      ''Stop unexpected external communication while preserving evidence.'' ''required'' \<in> set (Plan p al)"
    using al unfolding Plan_def Let_def set_append by (simp only: c if_True list.set Un_iff insert_iff simp_thms)
  then show "\<exists>ac \<in> set (Plan p al). raType ac = ''block_egress'' \<and> raTarget ac = sqEgress s \<and> raAssetID ac = a"
    by (rule bexI [rotated]) (simp only: plannedAction_simps simp_thms)
  have "''isolate_host'' \<in> set (map raType (Plan p al))"
    unfolding Plan_types using rule(2) by simp
  then show "''isolate_host'' \<in> raType ` set (Plan p al)"
    by simp
qed

end
