(* ===== verification/License.thy ===== *)
theory License
  imports Sessions
begin

text \<open>
  \<open>internal/license/license.go\<close>: license tokens signed with Ed25519. The signature scheme, its key
  generation and the JSON encoding of a license are the fields of \<open>license_lib\<close>; the theorems name what
  they need of them (a signature made with the private key of a pair verifies under its public key, and
  the payload decodes to the license that was encoded).
\<close>

section \<open>Model\<close>

record license =
  liOrg :: string
  liEdition :: string
  liFeatures :: "string list"
  liIssuedAt :: time
  liExpiresAt :: time

record license_status =
  lsLicense :: license
  lsValid :: bool
  lsReason :: string

record license_lib =
  edSign :: "string \<Rightarrow> string \<Rightarrow> string"
  edVerify :: "string \<Rightarrow> string \<Rightarrow> string \<Rightarrow> bool"
  edGenerateKey :: "string + string \<times> string"
  jsonMarshalLicense :: "license \<Rightarrow> string + string"
  jsonUnmarshalLicense :: "string \<Rightarrow> string + license"

definition emptyLicense :: license where
  "emptyLicense = \<lparr> liOrg = [], liEdition = [], liFeatures = [], liIssuedAt = 0, liExpiresAt = 0 \<rparr>"

fun featureListed :: "runtime \<Rightarrow> string \<Rightarrow> string list \<Rightarrow> bool" where
  "featureListed rt n [] = False"
| "featureListed rt n (f # fs) = (if ToLower rt (TrimSpace f) = n then True else featureListed rt n fs)"

definition HasFeature :: "runtime \<Rightarrow> license \<Rightarrow> string \<Rightarrow> bool" where
  "HasFeature rt l name = featureListed rt (ToLower rt (TrimSpace name)) (liFeatures l)"

definition GenerateKeyPair :: "license_lib \<Rightarrow> string + string \<times> string" where
  "GenerateKeyPair lib = (case edGenerateKey lib of
     Inl e \<Rightarrow> Inl e
   | Inr (pub, priv) \<Rightarrow> Inr (b64_encode False True pub, b64_encode False True priv))"

definition PrivateKeySize :: nat where "PrivateKeySize = 64"
definition PublicKeySize :: nat where "PublicKeySize = 32"

definition decodePrivateKey :: "string \<Rightarrow> string + string" where
  "decodePrivateKey b64 = (case b64_decode False True (TrimSpace b64) of
     None \<Rightarrow> Inl ''invalid base64 private key''
   | Some raw \<Rightarrow> if length raw \<noteq> PrivateKeySize then Inl ''invalid ed25519 private key size'' else Inr raw)"

definition decodePublicKey :: "string \<Rightarrow> string + string" where
  "decodePublicKey b64 = (case b64_decode False True (TrimSpace b64) of
     None \<Rightarrow> Inl ''invalid base64 public key''
   | Some raw \<Rightarrow> if length raw \<noteq> PublicKeySize then Inl ''invalid ed25519 public key size'' else Inr raw)"

definition issuedLicense :: "time \<Rightarrow> license \<Rightarrow> license" where
  "issuedLicense now l = l\<lparr>liIssuedAt := (if time_is_zero (liIssuedAt l) then now else liIssuedAt l),
     liEdition := (if TrimSpace (liEdition l) = [] then ''commercial'' else liEdition l)\<rparr>"

definition Issue :: "license_lib \<Rightarrow> time \<Rightarrow> license \<Rightarrow> string \<Rightarrow> string + string" where
  "Issue lib now l privateKey = (case decodePrivateKey privateKey of
     Inl e \<Rightarrow> Inl e
   | Inr priv \<Rightarrow> (case jsonMarshalLicense lib (issuedLicense now l) of
       Inl e \<Rightarrow> Inl e
     | Inr payload \<Rightarrow> Inr (b64_encode True False payload @ ''.'' @ b64_encode True False (edSign lib priv payload))))"

text \<open>\<open>strings.SplitN(s, d, 2)\<close>: everything after the first separator is one part.\<close>

definition SplitN2 :: "char \<Rightarrow> string \<Rightarrow> string list" where
  "SplitN2 d s = (case dropWhile (\<lambda>c. c \<noteq> d) s of [] \<Rightarrow> [s] | _ # rest \<Rightarrow> [takeWhile (\<lambda>c. c \<noteq> d) s, rest])"

definition Verify :: "license_lib \<Rightarrow> string \<Rightarrow> string \<Rightarrow> string + license" where
  "Verify lib token publicKey = (case decodePublicKey publicKey of
     Inl e \<Rightarrow> Inl e
   | Inr pub \<Rightarrow> (case SplitN2 (CHR ''.'') (TrimSpace token) of
       [left, right] \<Rightarrow> (case b64_decode True False left of
           None \<Rightarrow> Inl ''malformed license payload''
         | Some payload \<Rightarrow> (case b64_decode True False right of
             None \<Rightarrow> Inl ''malformed license signature''
           | Some sig \<Rightarrow> if \<not> edVerify lib pub payload sig then Inl ''license signature is invalid''
               else jsonUnmarshalLicense lib payload))
     | _ \<Rightarrow> Inl ''malformed license token''))"

definition EvaluateLicense :: "license_lib \<Rightarrow> string \<Rightarrow> string \<Rightarrow> time \<Rightarrow> license_status" where
  "EvaluateLicense lib token publicKey now = (case Verify lib token publicKey of
     Inl e \<Rightarrow> \<lparr> lsLicense = emptyLicense, lsValid = False, lsReason = e \<rparr>
   | Inr l \<Rightarrow> if \<not> time_is_zero (liExpiresAt l) \<and> now > liExpiresAt l
       then \<lparr> lsLicense = l, lsValid = False, lsReason = ''license expired'' \<rparr>
       else \<lparr> lsLicense = l, lsValid = True, lsReason = [] \<rparr>)"

definition Community :: license_status where
  "Community = \<lparr> lsLicense = emptyLicense\<lparr>liEdition := ''community''\<rparr>, lsValid = False, lsReason = ''no commercial license configured'' \<rparr>"

section \<open>Properties\<close>

lemma featureListed_iff: "featureListed rt n fs \<longleftrightarrow> n \<in> (\<lambda>f. ToLower rt (TrimSpace f)) ` set fs"
  by (induction fs) auto

lemma SplitN2_token: "d \<notin> set a \<Longrightarrow> SplitN2 d (a @ d # b) = [a, b]"
  by (simp add: SplitN2_def dropWhile_append takeWhile_append)

lemma SplitN2_pair: "SplitN2 d s = [a, b] \<longleftrightarrow> s = a @ d # b \<and> d \<notin> set a"
proof
  assume s: "SplitN2 d s = [a, b]"
  then obtain c where c: "dropWhile (\<lambda>c. c \<noteq> d) s = c # b" "a = takeWhile (\<lambda>c. c \<noteq> d) s"
    by (auto simp: SplitN2_def split: list.splits)
  have "c = d"
    using c(1) hd_dropWhile [of "\<lambda>c. c \<noteq> d" s] by (metis list.discI list.sel(1))
  moreover have "s = a @ c # b"
    using c takeWhile_dropWhile_id [of "\<lambda>c. c \<noteq> d" s] by simp
  moreover have "d \<notin> set a"
    using c(2) by (auto dest: set_takeWhileD)
  ultimately show "s = a @ d # b \<and> d \<notin> set a"
    by simp
qed (simp add: SplitN2_token)

lemma Verify_Inr_iff:
  "Verify lib token publicKey = Inr l \<longleftrightarrow>
     (\<exists>pub left right payload sig. decodePublicKey publicKey = Inr pub \<and>
        TrimSpace token = left @ ''.'' @ right \<and> CHR ''.'' \<notin> set left \<and>
        b64_decode True False left = Some payload \<and> b64_decode True False right = Some sig \<and>
        edVerify lib pub payload sig \<and> jsonUnmarshalLicense lib payload = Inr l)"
proof -
  have "Verify lib token publicKey = Inr l \<longleftrightarrow>
     (\<exists>pub left right payload sig. decodePublicKey publicKey = Inr pub \<and>
        SplitN2 (CHR ''.'') (TrimSpace token) = [left, right] \<and>
        b64_decode True False left = Some payload \<and> b64_decode True False right = Some sig \<and>
        edVerify lib pub payload sig \<and> jsonUnmarshalLicense lib payload = Inr l)"
    unfolding Verify_def by (auto split: sum.splits list.splits option.splits if_splits)
  then show ?thesis
    by (simp add: SplitN2_pair)
qed

lemma decode_generated:
  "length raw = PublicKeySize \<Longrightarrow> decodePublicKey (b64_encode False True raw) = Inr raw"
  "length raw = PrivateKeySize \<Longrightarrow> decodePrivateKey (b64_encode False True raw) = Inr raw"
  by (simp_all add: decodePublicKey_def decodePrivateKey_def TrimSpace_visible b64_encode_visible b64_decode_encode)


text \<open>C25: Issue and verify. For a key pair as \<open>GenerateKeyPair\<close> prints it, when signatures of that pair
  verify and the payload decodes to the license it was encoded from, an issued token evaluates, with or
  without a trailing newline, to the license with its issue time and edition filled in; it is valid up to
  and including its expiry time and expired afterwards.\<close>

theorem license_issue_evaluate:
  assumes keys: "edGenerateKey lib = Inr (pub, priv)" "GenerateKeyPair lib = Inr (publicKey, privateKey)"
      "length pub = PublicKeySize" "length priv = PrivateKeySize"
    and sign: "\<forall>d. edVerify lib pub d (edSign lib priv d)"
    and codec: "jsonMarshalLicense lib (issuedLicense t0 l) = Inr payload"
      "jsonUnmarshalLicense lib payload = Inr (issuedLicense t0 l)"
  shows "\<exists>token. Issue lib t0 l privateKey = Inr token \<and>
    (\<forall>tok \<in> {token, token @ [CHR 0x0A]}. \<forall>now. EvaluateLicense lib tok publicKey now =
      (if liExpiresAt l = 0 \<or> now \<le> liExpiresAt l
       then \<lparr> lsLicense = issuedLicense t0 l, lsValid = True, lsReason = [] \<rparr>
       else \<lparr> lsLicense = issuedLicense t0 l, lsValid = False, lsReason = ''license expired'' \<rparr>))"
proof -
  let ?left = "b64_encode True False payload" and ?right = "b64_encode True False (edSign lib priv payload)"
  let ?token = "?left @ ''.'' @ ?right"
  have k: "publicKey = b64_encode False True pub" "privateKey = b64_encode False True priv"
    using keys(1,2) by (simp_all add: GenerateKeyPair_def)
  have issue: "Issue lib t0 l privateKey = Inr ?token"
    unfolding Issue_def k(2) decode_generated(2) [OF keys(4)] using codec(1) by simp
  have vis: "visible ?token"
    by (simp only: visible_append b64_encode_visible simp_thms) (simp add: visible_def)
  have "Verify lib tok publicKey = Inr (issuedLicense t0 l)" if "tok \<in> {?token, ?token @ [CHR 0x0A]}" for tok
  proof -
    have "TrimSpace tok = ?token"
      using that TrimSpace_visible [OF vis] TrimSpace_visible_newline [OF vis] by blast
    then show ?thesis
      unfolding Verify_Inr_iff
      using k(1) decode_generated(1) [OF keys(3)] b64_encode_no_dot b64_decode_encode sign codec(2) by blast
  qed
  then have "\<forall>tok \<in> {?token, ?token @ [CHR 0x0A]}. \<forall>now. EvaluateLicense lib tok publicKey now =
      (if liExpiresAt l = 0 \<or> now \<le> liExpiresAt l
       then \<lparr> lsLicense = issuedLicense t0 l, lsValid = True, lsReason = [] \<rparr>
       else \<lparr> lsLicense = issuedLicense t0 l, lsValid = False, lsReason = ''license expired'' \<rparr>)"
    by (auto simp: EvaluateLicense_def issuedLicense_def)
  with issue show ?thesis
    by blast
qed

text \<open>A signature scheme for the example: the signature repeats the payload under the key's byte.\<close>

definition demo_license :: license where
  "demo_license = \<lparr> liOrg = ''acme'', liEdition = [], liFeatures = [''SSO''], liIssuedAt = 0, liExpiresAt = hour \<rparr>"

definition demo_lib :: license_lib where
  "demo_lib = \<lparr> edSign = (\<lambda>k d. take 1 k @ d), edVerify = (\<lambda>k d s. s = take 1 k @ d),
     edGenerateKey = Inr (replicate 32 (CHR ''k''), replicate 64 (CHR ''k'')),
     jsonMarshalLicense = (\<lambda>l. Inr (liOrg l)), jsonUnmarshalLicense = (\<lambda>d. Inr (issuedLicense second demo_license)) \<rparr>"

lemma demo_keys: "GenerateKeyPair demo_lib = Inr (b64_encode False True (replicate 32 (CHR ''k'')), b64_encode False True (replicate 64 (CHR ''k'')))"
  by (simp only: GenerateKeyPair_def demo_lib_def license_lib.simps sum.case prod.case)

theorem license_issue_evaluate_witness:
  "\<exists>token. Issue demo_lib second demo_license (b64_encode False True (replicate 64 (CHR ''k''))) = Inr token \<and>
     lsValid (EvaluateLicense demo_lib token (b64_encode False True (replicate 32 (CHR ''k''))) (2 * second))"
proof -
  have "edGenerateKey demo_lib = Inr (replicate 32 (CHR ''k''), replicate 64 (CHR ''k''))"
    by (simp add: demo_lib_def)
  moreover have "\<forall>d. edVerify demo_lib (replicate 32 (CHR ''k'')) d (edSign demo_lib (replicate 64 (CHR ''k'')) d)"
    by (simp add: demo_lib_def)
  moreover have "jsonMarshalLicense demo_lib (issuedLicense second demo_license) = Inr ''acme''"
      "jsonUnmarshalLicense demo_lib ''acme'' = Inr (issuedLicense second demo_license)"
    by (simp_all add: demo_lib_def issuedLicense_def demo_license_def)
  moreover have "2 * second \<le> liExpiresAt demo_license"
    by (simp add: demo_license_def duration_defs)
  ultimately show ?thesis
    using license_issue_evaluate [OF _ demo_keys, of _ _ second demo_license "''acme''"]
    by (fastforce simp: PublicKeySize_def PrivateKeySize_def)
qed

end
