(* ===== verification/Exporters.thy ===== *)
theory Exporters
  imports Http
begin

text \<open>
  \<open>internal/exporter\<close>: the connectors that carry alerts and response actions out of the program: the
  webhook, GitHub, Jira and ServiceNow. A connector builds one POST request; sending it is the argument
  \<open>net\<close>, which gives either the error of \<open>json.Marshal\<close>, \<open>http.NewRequest\<close> or \<open>client.Do\<close>, or the
  status code, the status line and at most the first 4096 bytes of the response body.
\<close>

section \<open>Requests\<close>

datatype export_payload =
    AlertPayload string time "alert list"
  | IncidentTicketPayload string time response_action
  | ResponseActionPayload string time response_action
  | GitHubIssueRequest string string "string list"
  | GitHubWorkflowDispatchRequest string string_map
  | JiraIssue string string string string
  | ServiceNowIncident string_map

record export_post =
  epURL :: string
  epHeaders :: string_map
  epPayload :: export_payload

type_synonym export_net = "export_post \<Rightarrow> string + int \<times> string \<times> string"

text \<open>\<open>strings.TrimRight(s, "/")\<close>.\<close>

definition TrimRightSlash :: "string \<Rightarrow> string" where
  "TrimRightSlash s = rev (dropWhile (\<lambda>c. c = CHR ''/'') (rev s))"

definition newline :: string where "newline = [CHR 0x0A]"

section \<open>Webhook\<close>

record webhook =
  whURL :: string
  whToken :: string

definition webhookPostJSON :: "export_net \<Rightarrow> webhook \<Rightarrow> export_payload \<Rightarrow> string option" where
  "webhookPostJSON net w payload =
     (let headers = [(''Content-Type'', ''application/json'')];
          headers = (if whToken w \<noteq> [] then gm_put ''Authorization'' (''Bearer '' @ whToken w) headers else headers) in
      case net \<lparr> epURL = whURL w, epHeaders = headers, epPayload = payload \<rparr> of
        Inl e \<Rightarrow> Some e
      | Inr (code, status, body) \<Rightarrow>
          if code < 200 \<or> 300 \<le> code
          then Some (''response webhook returned '' @ status @ '': '' @ TrimSpace body) else None)"

definition ExportAlerts :: "export_net \<Rightarrow> time \<Rightarrow> webhook \<Rightarrow> alert list \<Rightarrow> string option" where
  "ExportAlerts net now w alerts =
     (if whURL w = [] \<or> length alerts = 0 then None
      else webhookPostJSON net w (AlertPayload ''oadtd.alerts'' now alerts))"

definition ExportIncidentTicket :: "export_net \<Rightarrow> time \<Rightarrow> webhook \<Rightarrow> response_action \<Rightarrow> string option" where
  "ExportIncidentTicket net now w action =
     (if whURL w = [] then None
      else webhookPostJSON net w (IncidentTicketPayload ''oadtd.incident_ticket'' now action))"

definition ExportResponseAction :: "export_net \<Rightarrow> time \<Rightarrow> webhook \<Rightarrow> response_action \<Rightarrow> string option" where
  "ExportResponseAction net now w action =
     (if whURL w = [] then None
      else webhookPostJSON net w (ResponseActionPayload ''oadtd.response_action'' now action))"

section \<open>GitHub\<close>

record github =
  ghBaseURL :: string
  ghOwner :: string
  ghRepo :: string
  ghToken :: string
  ghWorkflowFile :: string
  ghWorkflowRef :: string

definition githubEnabled :: "github \<Rightarrow> bool" where
  "githubEnabled g \<longleftrightarrow> ghOwner g \<noteq> [] \<and> ghRepo g \<noteq> [] \<and> ghToken g \<noteq> []"

fun firstNonEmptyString :: "string list \<Rightarrow> string" where
  "firstNonEmptyString [] = []"
| "firstNonEmptyString (v # vs) = (if TrimSpace v \<noteq> [] then v else firstNonEmptyString vs)"

definition githubEndpoint :: "github \<Rightarrow> string \<Rightarrow> string" where
  "githubEndpoint g path =
     (let base = TrimRightSlash (ghBaseURL g) in (if base = [] then ''https://api.github.com'' else base) @ path)"

definition workflowRef :: "github \<Rightarrow> string" where
  "workflowRef g = (if TrimSpace (ghWorkflowRef g) \<noteq> [] then TrimSpace (ghWorkflowRef g) else ''main'')"

definition issueTitle :: "response_action \<Rightarrow> string" where
  "issueTitle a = ''OATD: '' @ raType a @ '' on '' @ firstNonEmptyString [raAssetID a, raTarget a, ''unknown'']"

definition issueBody :: "response_action \<Rightarrow> string" where
  "issueBody a =
     ''Response action `'' @ raType a @ ''` was planned by OATD.'' @ newline @ newline
     @ ''- Asset: `'' @ raAssetID a @ ''`'' @ newline
     @ ''- Target: `'' @ raTarget a @ ''`'' @ newline
     @ ''- Reason: '' @ raReason a @ newline
     @ ''- Approval: `'' @ raApprovalStatus a @ ''`'' @ newline
     @ (if raApprovedBy a \<noteq> [] then ''- Approved by: `'' @ raApprovedBy a @ ''`'' @ newline else [])
     @ (if raExecutionStatus a \<noteq> [] then ''- Execution status: `'' @ raExecutionStatus a @ ''`'' @ newline else [])
     @ (case raExecutedAt a of None \<Rightarrow> [] | Some t \<Rightarrow> ''- Executed at: `'' @ RFC3339 t @ ''`'' @ newline)"

definition githubPostJSON :: "export_net \<Rightarrow> github \<Rightarrow> string \<Rightarrow> export_payload \<Rightarrow> int \<Rightarrow> string option" where
  "githubPostJSON net g endpoint payload expectedStatus =
     (case net \<lparr> epURL = endpoint,
        epHeaders = [(''Accept'', ''application/vnd.github+json''), (''Authorization'', ''Bearer '' @ ghToken g),
          (''Content-Type'', ''application/json'')], epPayload = payload \<rparr> of
        Inl e \<Rightarrow> Some e
      | Inr (code, status, body) \<Rightarrow>
          if code \<noteq> expectedStatus
          then Some (''github returned '' @ status @ '': '' @ TrimSpace body) else None)"

definition CreateIssue :: "export_net \<Rightarrow> github \<Rightarrow> response_action \<Rightarrow> string option" where
  "CreateIssue net g action =
     (if \<not> githubEnabled g then None
      else githubPostJSON net g (githubEndpoint g (''/repos/'' @ ghOwner g @ ''/'' @ ghRepo g @ ''/issues''))
        (GitHubIssueRequest (issueTitle action) (issueBody action) [''oatd'', ''incident'']) 201)"

definition DispatchWorkflow :: "export_net \<Rightarrow> github \<Rightarrow> response_action \<Rightarrow> string option" where
  "DispatchWorkflow net g action =
     (if \<not> githubEnabled g \<or> ghWorkflowFile g = [] then None
      else githubPostJSON net g
        (githubEndpoint g (''/repos/'' @ ghOwner g @ ''/'' @ ghRepo g @ ''/actions/workflows/'' @ ghWorkflowFile g @ ''/dispatches''))
        (GitHubWorkflowDispatchRequest (workflowRef g)
          [(''action_id'', raID action), (''action_type'', raType action), (''asset_id'', raAssetID action),
           (''target'', raTarget action), (''reason'', raReason action), (''approved_by'', raApprovedBy action)]) 204)"

section \<open>Tickets\<close>

definition ticketSummary :: "response_action \<Rightarrow> string" where
  "ticketSummary a =
     (let summary = TrimSpace (raReason a);
          summary = (if summary = [] then ''OATD response action'' else summary);
          t = TrimSpace (raType a);
          summary = (if t \<noteq> [] then t @ '': '' @ summary else summary)
      in if raAssetID a \<noteq> [] then summary @ '' ['' @ raAssetID a @ '']'' else summary)"

definition ticketDescription :: "response_action \<Rightarrow> string" where
  "ticketDescription a =
     ''OATD response action '' @ raID a @ newline
     @ ''type='' @ raType a @ '' asset='' @ raAssetID a @ newline
     @ (if raReason a \<noteq> [] then ''reason='' @ raReason a @ newline else [])
     @ concat (map (\<lambda>line. line @ newline) (metadata_parts (raMetadata a)))"

definition postJSONTo ::
  "export_net \<Rightarrow> string \<Rightarrow> export_payload \<Rightarrow> string_map \<Rightarrow> string \<Rightarrow> string option" where
  "postJSONTo net endpoint payload headers connector =
     (case net \<lparr> epURL = endpoint,
        epHeaders = fold (\<lambda>(k, v) m. gm_put k v m) headers [(''Content-Type'', ''application/json'')],
        epPayload = payload \<rparr> of
        Inl e \<Rightarrow> Some e
      | Inr (code, status, body) \<Rightarrow>
          if code < 200 \<or> 300 \<le> code
          then Some (connector @ '' connector returned '' @ status @ '': '' @ TrimSpace body) else None)"

record jira =
  jiBaseURL :: string
  jiEmail :: string
  jiAPIToken :: string
  jiProjectKey :: string
  jiIssueType :: string

definition jiraEnabled :: "jira \<Rightarrow> bool" where
  "jiraEnabled j \<longleftrightarrow> TrimSpace (jiBaseURL j) \<noteq> [] \<and> TrimSpace (jiProjectKey j) \<noteq> []
     \<and> TrimSpace (jiEmail j) \<noteq> [] \<and> TrimSpace (jiAPIToken j) \<noteq> []"

definition jiraCreateIncident :: "export_net \<Rightarrow> jira \<Rightarrow> response_action \<Rightarrow> string option" where
  "jiraCreateIncident net j action =
     (if \<not> jiraEnabled j then None
      else (let issueType = TrimSpace (jiIssueType j); issueType = (if issueType = [] then ''Task'' else issueType) in
        postJSONTo net (TrimRightSlash (jiBaseURL j) @ ''/rest/api/2/issue'')
          (JiraIssue (jiProjectKey j) (ticketSummary action) (ticketDescription action) issueType)
          [(''Authorization'', ''Basic '' @ b64_encode False True (jiEmail j @ '':'' @ jiAPIToken j))] ''jira''))"

record servicenow =
  snInstanceURL :: string
  snUser :: string
  snPassword :: string

definition servicenowEnabled :: "servicenow \<Rightarrow> bool" where
  "servicenowEnabled s \<longleftrightarrow> TrimSpace (snInstanceURL s) \<noteq> [] \<and> TrimSpace (snUser s) \<noteq> [] \<and> TrimSpace (snPassword s) \<noteq> []"

definition servicenowCreateIncident :: "export_net \<Rightarrow> servicenow \<Rightarrow> response_action \<Rightarrow> string option" where
  "servicenowCreateIncident net s action =
     (if \<not> servicenowEnabled s then None
      else postJSONTo net (TrimRightSlash (snInstanceURL s) @ ''/api/now/table/incident'')
        (ServiceNowIncident [(''short_description'', ticketSummary action), (''description'', ticketDescription action),
          (''category'', ''security''), (''u_source'', ''open-agentic-threat-defense'')])
        [(''Authorization'', ''Basic '' @ b64_encode False True (snUser s @ '':'' @ snPassword s)), (''Accept'', ''application/json'')]
        ''servicenow'')"

end
