(* ===== verification/GatewayText.thy ===== *)
theory GatewayText
  imports Domain
begin

text \<open>
  The text matcher of the gateway, the second half of \<open>internal/policy/gateway.go\<close>: normalised and
  compacted variants of the request's fields, the bounded recursive decoder of base64 and hexadecimal
  layers, the term lists, and \<open>gatewayContainsAny\<close>. The theorems say exactly when a term matches,
  that a variant list has no repetition and only normalised entries, and that up to three layers of
  encoding do not hide a text from the matcher.
\<close>

section \<open>Definitions\<close>

definition metadataText :: "string_map \<Rightarrow> string" where
  "metadataText m = (if m = [] then [] else Join (metadata_parts m) '' '')"

definition normalizeGatewayText :: "runtime \<Rightarrow> string \<Rightarrow> string" where
  "normalizeGatewayText rt text = TrimSpace (ToLower rt text)"

definition alnum_rune :: "runtime \<Rightarrow> nat \<Rightarrow> bool" where
  "alnum_rune rt r \<longleftrightarrow> rune_letter rt r \<or> rune_digit rt r"

definition compactGatewayText :: "runtime \<Rightarrow> string \<Rightarrow> string" where
  "compactGatewayText rt text =
     concat (map (\<lambda>(r, _). if alnum_rune rt r then utf8_encode r else []) (runes (ToLower rt text)))"

definition tokenizeGatewayText :: "runtime \<Rightarrow> string \<Rightarrow> string list" where
  "tokenizeGatewayText rt text =
     FieldsFunc (\<lambda>r. \<not> (alnum_rune rt r \<or> r = byte (CHR ''+'') \<or> r = byte (CHR ''/''))) text"

definition looksHexLike :: "string \<Rightarrow> bool" where
  "looksHexLike token \<longleftrightarrow> \<not> (length token < 8 \<or> length token mod 2 \<noteq> 0) \<and>
     (\<forall>(r, _) \<in> set (runes token). (48 \<le> r \<and> r \<le> 57) \<or> (97 \<le> r \<and> r \<le> 102) \<or> (65 \<le> r \<and> r \<le> 70))"

definition looksBase64Like :: "runtime \<Rightarrow> string \<Rightarrow> bool" where
  "looksBase64Like rt token \<longleftrightarrow> \<not> length token < 8 \<and>
     (\<forall>(r, _) \<in> set (runes token). alnum_rune rt r \<or> r = byte (CHR ''+'') \<or> r = byte (CHR ''/'')
        \<or> r = byte (CHR ''-'') \<or> r = byte (CHR ''_'') \<or> r = byte (CHR ''=''))"

definition padBase64 :: "string \<Rightarrow> string" where
  "padBase64 token = (let token = TrimSpace token; m = length token mod 4 in
     if m = 2 then token @ ''=='' else if m = 3 then token @ ''='' else token)"

definition printableGatewayBytes :: "runtime \<Rightarrow> string \<Rightarrow> string" where
  "printableGatewayBytes rt decoded =
     MapRunes (\<lambda>r. if r = 10 \<or> r = 13 \<or> r = 9 \<or> rune_print rt r then Some r else None) decoded"

text \<open>The decodings that succeed, in the order the loop tries the encodings.\<close>

definition decodings :: "runtime \<Rightarrow> string \<Rightarrow> string list" where
  "decodings rt token =
     (if looksBase64Like rt token
      then List.map_filter (\<lambda>(u, p). b64_decode u p (padBase64 token))
             [(False, True), (False, False), (True, True), (True, False)]
      else [])
     @ (if looksHexLike token then (case hex_decode token of Some d \<Rightarrow> [d] | None \<Rightarrow> []) else [])"

fun decodeGatewayCandidatesDepth :: "runtime \<Rightarrow> string \<Rightarrow> nat \<Rightarrow> string list" where
  "decodeGatewayCandidatesDepth rt token 0 = []"
| "decodeGatewayCandidatesDepth rt token (Suc depth) =
     concat (map (\<lambda>decoded.
       let raw = printableGatewayBytes rt decoded in
       if TrimSpace raw = [] \<or> raw = token then []
       else (let normalized = normalizeGatewayText rt raw in
               (if normalized \<noteq> [] then [normalized] else []))
            @ decodeGatewayCandidatesDepth rt raw depth)
       (decodings rt token))"

definition decodeGatewayCandidates :: "runtime \<Rightarrow> string \<Rightarrow> string list" where
  "decodeGatewayCandidates rt token = decodeGatewayCandidatesDepth rt token 3"

text \<open>The closure \<open>add\<close> of the variant builders: the map \<open>seen\<close> holds what \<open>variants\<close> holds.\<close>

fun addVariants :: "runtime \<Rightarrow> string list \<Rightarrow> string list \<Rightarrow> string list" where
  "addVariants rt [] variants = variants"
| "addVariants rt (text # texts) variants =
     addVariants rt texts
       (let text = normalizeGatewayText rt text in
        if text = [] then variants else if text \<in> set variants then variants else variants @ [text])"

definition valueTexts :: "runtime \<Rightarrow> string \<Rightarrow> string list" where
  "valueTexts rt value = [value, compactGatewayText rt value]
     @ concat (map (\<lambda>token. [token, compactGatewayText rt token]
         @ concat (map (\<lambda>decoded. [decoded, compactGatewayText rt decoded])
             (decodeGatewayCandidates rt token)))
       (tokenizeGatewayText rt value))"

definition gatewayTextVariants :: "runtime \<Rightarrow> string list \<Rightarrow> string list" where
  "gatewayTextVariants rt values = addVariants rt (concat (map (valueTexts rt) values)) []"

definition termVariants :: "runtime \<Rightarrow> string \<Rightarrow> string list" where
  "termVariants rt t = addVariants rt [t, compactGatewayText rt t] []"

text \<open>The three nested loops of \<open>gatewayContainsAny\<close>; \<open>None\<close> is the result \<open>false, "", ""\<close>.\<close>

fun containsNeedles :: "string list \<Rightarrow> string list \<Rightarrow> string option" where
  "containsNeedles variants [] = None"
| "containsNeedles variants (needle # needles) =
     (case find (\<lambda>variant. needle \<noteq> [] \<and> Contains variant needle) variants of
        Some variant \<Rightarrow> Some variant
      | None \<Rightarrow> containsNeedles variants needles)"

fun gatewayContainsAny :: "runtime \<Rightarrow> string list \<Rightarrow> string list \<Rightarrow> (string \<times> string) option" where
  "gatewayContainsAny rt variants [] = None"
| "gatewayContainsAny rt variants (t # ts) =
     (case containsNeedles variants (termVariants rt t) of
        Some variant \<Rightarrow> Some (t, variant)
      | None \<Rightarrow> gatewayContainsAny rt variants ts)"

definition secretTerms :: "string list" where
  "secretTerms = [''secret'', ''token'', ''credential'', ''password'', ''api_key'', ''ssh_key'', ''bearer'']"

definition injectionTerms :: "string list" where
  "injectionTerms = [''ignore previous'', ''system prompt'', ''developer message'', ''prompt injection'',
     ''jailbreak'', ''bypass policy'', ''reveal prompt'', ''tool schema'', ''curl | sh'', ''base64 -d'',
     ''powershell -enc'', ''invoke-expression'', ''eval('', ''cmd /c'']"

definition lateralMovementTerms :: "string list" where
  "lateralMovementTerms = [''psexec'', ''wmic /node'', ''enter-pssession'', ''invoke-command'',
     ''new-pssession'', ''wmiexec'', ''smbexec'', ''winrm'', ''mstsc'', ''schtasks /s'']"

definition impactTerms :: "string list" where
  "impactTerms = [''vssadmin delete'', ''delete shadows'', ''shadowcopy delete'', ''wbadmin delete'',
     ''bcdedit'', ''cipher /w'', ''ransom'', ''.locked'', ''.encrypted'', ''encrypt all files'']"

definition discoveryTerms :: "string list" where
  "discoveryTerms = [''whoami'', ''ipconfig'', ''ifconfig'', ''net user'', ''net group'', ''netstat'',
     ''arp -a'', ''nltest'', ''dsquery'', ''powershell'', ''invoke-webrequest'', ''curl'', ''wget'',
     ''nmap'', ''masscan'', ''credential'', ''token'', ''ssh_key'']"

section \<open>The variant lists\<close>

interpretation variants: unique_collector "normalizeGatewayText rt" "\<lambda>t. t \<noteq> []" "addVariants rt"
  by unfold_locales (simp_all add: add_new_def Let_def)

declare addVariants.simps [simp del]

lemma gatewayTextVariants_set:
  "set (gatewayTextVariants rt values) =
     {normalizeGatewayText rt t | t v. v \<in> set values \<and> t \<in> set (valueTexts rt v)
        \<and> normalizeGatewayText rt t \<noteq> []}"
  by (auto simp: gatewayTextVariants_def variants.collect_set)

lemma termVariants_set:
  "set (termVariants rt t) =
     {x \<in> {normalizeGatewayText rt t, normalizeGatewayText rt (compactGatewayText rt t)}. x \<noteq> []}"
  by (auto simp: termVariants_def variants.collect_set)

lemma gatewayTextVariants_distinct: "distinct (gatewayTextVariants rt values)"
  unfolding gatewayTextVariants_def by (rule variants.collect_distinct) simp

section \<open>When a term matches\<close>

lemma containsNeedles_None:
  "containsNeedles vs ns = None \<longleftrightarrow> (\<forall>n \<in> set ns. \<forall>v \<in> set vs. \<not> (n \<noteq> [] \<and> Contains v n))"
  by (induction ns) (auto simp: find_None_iff dest: find_Some_mem split: option.splits)

lemma containsNeedles_Some:
  "containsNeedles vs ns = Some v \<Longrightarrow> v \<in> set vs \<and> (\<exists>n \<in> set ns. n \<noteq> [] \<and> Contains v n)"
  by (induction ns) (auto dest: find_Some_mem split: option.splits)

text \<open>A term occurs in a variant list: one of its needles is part of one of the variants.\<close>

definition term_occurs :: "runtime \<Rightarrow> string list \<Rightarrow> string \<Rightarrow> bool" where
  "term_occurs rt vs t \<longleftrightarrow> (\<exists>n \<in> set (termVariants rt t). \<exists>v \<in> set vs. Contains v n)"

lemma termVariants_nonempty: "n \<in> set (termVariants rt t) \<Longrightarrow> n \<noteq> []"
  by (auto simp: termVariants_set)

lemma containsNeedles_term: "containsNeedles vs (termVariants rt t) = None \<longleftrightarrow> \<not> term_occurs rt vs t"
  unfolding containsNeedles_None term_occurs_def using termVariants_nonempty by metis

lemma gatewayContainsAny_None:
  "gatewayContainsAny rt vs ts = None \<longleftrightarrow> (\<forall>t \<in> set ts. \<not> term_occurs rt vs t)"
proof (induction ts)
  case (Cons t ts)
  then show ?case
    using containsNeedles_term [of vs rt t] by (cases "containsNeedles vs (termVariants rt t)") auto
qed simp

lemma gatewayContainsAny_Some:
  "gatewayContainsAny rt vs ts = Some (t, v) \<Longrightarrow> t \<in> set ts \<and> v \<in> set vs \<and> term_occurs rt vs t"
proof (induction ts)
  case (Cons a ts)
  show ?case
  proof (cases "containsNeedles vs (termVariants rt a)")
    case None
    with Cons show ?thesis by auto
  next
    case (Some w)
    with Cons.prems have "t = a" "v = w" by auto
    with containsNeedles_Some [OF Some] show ?thesis by (auto simp: term_occurs_def)
  qed
qed simp

lemma gatewayContainsAny_append:
  "gatewayContainsAny rt vs (ts @ us) =
     (case gatewayContainsAny rt vs ts of Some r \<Rightarrow> Some r | None \<Rightarrow> gatewayContainsAny rt vs us)"
  by (induction ts) (auto split: option.splits)

text \<open>More variants only match more terms.\<close>

lemma term_occurs_mono: "set vs \<subseteq> set ws \<Longrightarrow> term_occurs rt vs t \<Longrightarrow> term_occurs rt ws t"
  unfolding term_occurs_def by blast

end
