(* ===== verification/Engine.thy ===== *)
theory Engine
  imports GatewayText ThreatPack
begin

text \<open>
  \<open>internal/policy/engine.go\<close> and \<open>internal/policy/tenant.go\<close>: the policy engine's configuration
  (approved tools and hosts, tool provenance, agent identities), the registry of deception tokens,
  the tenant overlays and the evaluation of an event. The engine's locks protect the fields of one
  record, and every method is a function on it; \<open>now\<close> is what \<open>time.Now().UTC()\<close> returns.
  A \<open>map[string]struct{}\<close> is the list of its keys.
\<close>

section \<open>State\<close>

record tool_provenance_entry =
  tpeTool :: string
  tpePublisher :: string
  tpeFingerprint :: string

record agent_identity =
  aiAgentID :: string
  aiKeyHash :: string

record compiled_tenant_policy =
  ctApprovedTools :: "string list"
  ctApprovedEgress :: "string list"
  ctTools :: "string list"
  ctEgress :: "string list"

record tenant_policy =
  tpoTenantID :: string
  tpoApprovedTools :: "string list"
  tpoApprovedEgress :: "string list"

record gateway_history_state =
  ghCalls :: int
  ghAllowCount :: int
  ghApprovalCount :: int
  ghDenyCount :: int
  ghRiskScoreMax :: int
  ghLastSeen :: time
  ghLastTool :: string
  ghLastVerdict :: "gateway_verdict option"
  ghRecentFactors :: "string list"

record engine =
  enApprovedTools :: "string list"
  enToolProvenance :: "(string, tool_provenance_entry) gomap"
  enAgentIdentities :: "(string, agent_identity) gomap"
  enApprovedEgressHosts :: "string list"
  enPack :: threat_pack
  enDeception :: "(string, deception_token) gomap"
  enDeceptionSeq :: nat
  enTenantPolicies :: "(string, compiled_tenant_policy) gomap"
  enHistory :: "(string, gateway_history_state) gomap"

record policy_config =
  pcApprovedTools :: "string list"
  pcApprovedEgressHosts :: "string list"
  pcThreatPack :: threat_pack
  pcDeceptionTokens :: "deception_token list"
  pcToolProvenance :: "tool_provenance_entry list"
  pcAgentIdentities :: "agent_identity list"

section \<open>Hosts\<close>

definition normalizeHost :: "runtime \<Rightarrow> string \<Rightarrow> string" where
  "normalizeHost rt destination =
     (if destination = [] then []
      else (let parsed = (case rt_url_parse rt destination of None \<Rightarrow> [] | Some u \<Rightarrow> urlHostname u) in
        if parsed \<noteq> [] then ToLower rt parsed
        else (let host = takeWhile (\<lambda>c. c \<noteq> CHR ''/'') destination;
                  host = (if CHR '':'' \<in> set host
                          then (case SplitHostPort host of Some (h, _) \<Rightarrow> h | None \<Rightarrow> host) else host)
              in ToLower rt (TrimSpace host))))"

fun IsLoopback :: "ip_addr \<Rightarrow> bool" where
  "IsLoopback (IPv4 a b c d) \<longleftrightarrow> a = 127"
| "IsLoopback (IPv6 gs) \<longleftrightarrow> gs = [0, 0, 0, 0, 0, 0, 0, 1]"

fun IsPrivate :: "ip_addr \<Rightarrow> bool" where
  "IsPrivate (IPv4 a b c d) \<longleftrightarrow> a = 10 \<or> (a = 172 \<and> b div 16 = 1) \<or> (a = 192 \<and> b = 168)"
| "IsPrivate (IPv6 gs) \<longleftrightarrow> (case gs of [] \<Rightarrow> False | g # _ \<Rightarrow> g div 512 = 126)"

fun IsLinkLocalUnicast :: "ip_addr \<Rightarrow> bool" where
  "IsLinkLocalUnicast (IPv4 a b c d) \<longleftrightarrow> a = 169 \<and> b = 254"
| "IsLinkLocalUnicast (IPv6 gs) \<longleftrightarrow> (case gs of [] \<Rightarrow> False | g # _ \<Rightarrow> g div 64 = 1018)"

fun IsLinkLocalMulticast :: "ip_addr \<Rightarrow> bool" where
  "IsLinkLocalMulticast (IPv4 a b c d) \<longleftrightarrow> a = 224 \<and> b = 0 \<and> c = 0"
| "IsLinkLocalMulticast (IPv6 gs) \<longleftrightarrow> (case gs of [] \<Rightarrow> False | g # _ \<Rightarrow> g div 256 = 255 \<and> g mod 16 = 2)"

definition isExternalDestination :: "runtime \<Rightarrow> string \<Rightarrow> bool" where
  "isExternalDestination rt destination =
     (let host = normalizeHost rt destination in
      if host = [] then False
      else if HasSuffix host ''.local'' \<or> host = ''localhost'' then False
      else (case rt_parse_ip rt host of
        None \<Rightarrow> True
      | Some ip \<Rightarrow> \<not> (IsLoopback ip \<or> IsPrivate ip \<or> IsLinkLocalUnicast ip \<or> IsLinkLocalMulticast ip)))"

section \<open>Deception tokens\<close>

definition empty_deception_token :: deception_token where
  "empty_deception_token = \<lparr> dtID = [], dtName = [], dtKind = [], dtValue = [], dtCreatedAt = 0,
     dtLabels = [], dtMetadata = [] \<rparr>"

definition normalizeDeceptionToken :: "runtime \<Rightarrow> time \<Rightarrow> deception_token \<Rightarrow> deception_token" where
  "normalizeDeceptionToken rt now token =
     (let kind = orDefault (ToLower rt (TrimSpace (dtKind token))) ''secret'';
          name = orDefault (TrimSpace (dtName token)) (kind @ ''-canary'')
      in token\<lparr>dtID := TrimSpace (dtID token), dtValue := TrimSpace (dtValue token), dtKind := kind,
           dtName := name,
           dtCreatedAt := (if time_is_zero (dtCreatedAt token) then now else dtCreatedAt token)\<rparr>)"

definition deceptionID :: "nat \<Rightarrow> string" where
  "deceptionID n = ''dt-'' @ nat_str n"

text \<open>The keys of the registry that the counter has not passed yet: the loop's measure.\<close>

definition ids_ahead :: "string list \<Rightarrow> nat \<Rightarrow> nat set" where
  "ids_ahead ids seq = {n. seq < n \<and> deceptionID n \<in> set ids}"

function nextDeceptionID :: "string list \<Rightarrow> nat \<Rightarrow> string \<times> nat" where
  "nextDeceptionID ids seq =
     (let seq' = Suc seq; i = deceptionID seq' in
      if i \<in> set ids then nextDeceptionID ids seq' else (i, seq'))"
  by pat_completeness auto

lemma finite_ids_ahead: "finite (ids_ahead ids seq)"
proof -
  have "inj deceptionID"
    by (rule injI) (simp add: deceptionID_def nat_str_inj)
  then have "finite (deceptionID -` set ids)"
    by (simp add: finite_vimageI)
  then show ?thesis
    by (rule rev_finite_subset) (auto simp: ids_ahead_def)
qed

termination nextDeceptionID
proof (relation "measure (\<lambda>(ids, seq). card (ids_ahead ids seq))")
  fix ids seq seq' i
  assume "seq' = Suc seq" "i = deceptionID seq'" "i \<in> set ids"
  then have "ids_ahead ids seq' \<subset> ids_ahead ids seq"
    by (auto simp: ids_ahead_def)
  then show "((ids, seq'), ids, seq) \<in> measure (\<lambda>(ids, seq). card (ids_ahead ids seq))"
    by (simp add: psubset_card_mono finite_ids_ahead)
qed simp

declare nextDeceptionID.simps [simp del]

definition nextDeceptionIDLocked :: "engine \<Rightarrow> string \<times> engine" where
  "nextDeceptionIDLocked e =
     (let (i, seq) = nextDeceptionID (map fst (enDeception e)) (enDeceptionSeq e) in
      (i, e\<lparr>enDeceptionSeq := seq\<rparr>))"

text \<open>The tail that \<open>SetDeceptionTokens\<close> and \<open>AddDeceptionToken\<close> share: an ID when there is none, and the insertion.\<close>

definition registerDeception :: "deception_token \<Rightarrow> engine \<Rightarrow> deception_token \<times> engine" where
  "registerDeception token e =
     (let (i, e) = (if dtID token = [] then nextDeceptionIDLocked e else (dtID token, e));
          token = token\<lparr>dtID := i\<rparr>
      in (token, e\<lparr>enDeception := gm_put i token (enDeception e)\<rparr>))"

definition SetDeceptionTokens :: "runtime \<Rightarrow> time \<Rightarrow> deception_token list \<Rightarrow> engine \<Rightarrow> engine" where
  "SetDeceptionTokens rt now tokens e =
     fold (\<lambda>token e. let token = normalizeDeceptionToken rt now token in
             if dtValue token = [] then e else snd (registerDeception token e))
       tokens (e\<lparr>enDeception := [], enDeceptionSeq := 0\<rparr>)"

definition AddDeceptionToken ::
  "runtime \<Rightarrow> time \<Rightarrow> deception_token \<Rightarrow> engine \<Rightarrow> (string + deception_token) \<times> engine" where
  "AddDeceptionToken rt now token e =
     (if TrimSpace (dtValue token) = [] then (Inl ''deception token value is required'', e)
      else (let (token, e) = registerDeception (normalizeDeceptionToken rt now token) e in (Inr token, e)))"

definition ListDeceptionTokens :: "engine \<Rightarrow> deception_token list" where
  "ListDeceptionTokens e = sort_key dtID (map snd (enDeception e))"

definition RemoveDeceptionToken :: "string \<Rightarrow> engine \<Rightarrow> bool \<times> engine" where
  "RemoveDeceptionToken i e =
     (let i = TrimSpace i in
      if i = [] then (False, e)
      else if gm_get (enDeception e) i = None then (False, e)
      else (True, e\<lparr>enDeception := gm_del i (enDeception e)\<rparr>))"

text \<open>\<open>MatchDeception\<close>: the registry's order is the order in which \<open>range\<close> visits the map.\<close>

definition MatchDeception :: "runtime \<Rightarrow> engine \<Rightarrow> string list \<Rightarrow> deception_token option" where
  "MatchDeception rt e values =
     (if enDeception e = [] then None
      else (let variants = gatewayTextVariants rt values in
        find (\<lambda>token. let needle = normalizeGatewayText rt (dtValue token) in
                needle \<noteq> [] \<and> (\<exists>variant \<in> set variants. Contains variant needle))
          (map snd (enDeception e))))"

section \<open>Construction and reload\<close>

definition DefaultConfig :: policy_config where
  "DefaultConfig = \<lparr> pcApprovedTools = tpApprovedTools DefaultThreatPack,
     pcApprovedEgressHosts = tpApprovedEgressHosts DefaultThreatPack,
     pcThreatPack = DefaultThreatPack, pcDeceptionTokens = [], pcToolProvenance = [],
     pcAgentIdentities = [] \<rparr>"

definition withDefaults :: "policy_config \<Rightarrow> policy_config" where
  "withDefaults config = config\<lparr>
     pcApprovedTools := orDefault (pcApprovedTools config) (pcApprovedTools DefaultConfig),
     pcApprovedEgressHosts := orDefault (pcApprovedEgressHosts config) (pcApprovedEgressHosts DefaultConfig),
     pcThreatPack := (if tpVersion (pcThreatPack config) = [] then pcThreatPack DefaultConfig
                      else pcThreatPack config)\<rparr>"

fun addTools :: "runtime \<Rightarrow> string list \<Rightarrow> string list \<Rightarrow> string list" where
  "addTools rt [] acc = acc"
| "addTools rt (tool # tools) acc =
     addTools rt tools
       (let tool = ToLower rt (TrimSpace tool) in
        if tool \<noteq> [] \<and> tool \<notin> set acc then acc @ [tool] else acc)"

fun addHosts :: "runtime \<Rightarrow> string list \<Rightarrow> string list \<Rightarrow> string list" where
  "addHosts rt [] acc = acc"
| "addHosts rt (host # hosts) acc =
     addHosts rt hosts
       (let host = normalizeHost rt host in
        if host \<noteq> [] \<and> host \<notin> set acc then acc @ [host] else acc)"

fun addProvenance :: "runtime \<Rightarrow> tool_provenance_entry list \<Rightarrow> (string, tool_provenance_entry) gomap
    \<Rightarrow> (string, tool_provenance_entry) gomap" where
  "addProvenance rt [] m = m"
| "addProvenance rt (entry # entries) m =
     addProvenance rt entries
       (let name = ToLower rt (TrimSpace (tpeTool entry)) in
        if name = [] \<or> TrimSpace (tpeFingerprint entry) = [] then m
        else gm_put name \<lparr> tpeTool = name, tpePublisher = TrimSpace (tpePublisher entry),
                            tpeFingerprint = TrimSpace (tpeFingerprint entry) \<rparr> m)"

fun addIdentities :: "runtime \<Rightarrow> agent_identity list \<Rightarrow> (string, agent_identity) gomap
    \<Rightarrow> (string, agent_identity) gomap" where
  "addIdentities rt [] m = m"
| "addIdentities rt (entry # entries) m =
     addIdentities rt entries
       (let i = ToLower rt (TrimSpace (aiAgentID entry)); h = ToLower rt (TrimSpace (aiKeyHash entry)) in
        if i = [] \<or> h = [] then m else gm_put i \<lparr> aiAgentID = i, aiKeyHash = h \<rparr> m)"

text \<open>The pack that \<open>New\<close> keeps.\<close>

definition installedPack :: "policy_config \<Rightarrow> threat_pack" where
  "installedPack config =
     (let pack = (case Validate (pcThreatPack config) of None \<Rightarrow> pcThreatPack config
                  | Some _ \<Rightarrow> DefaultThreatPack);
          rules = orDefault (tpRules pack) (defaultRuleDescriptors (tpName pack) (tpVersion pack))
      in pack\<lparr>
        tpApprovedTools := orDefault (tpApprovedTools pack) (pcApprovedTools config),
        tpApprovedEgressHosts := orDefault (tpApprovedEgressHosts pack) (pcApprovedEgressHosts config),
        tpRules := map (\<lambda>r. r\<lparr>rdPackName := orDefault (rdPackName r) (tpName pack),
                               rdPackVersion := orDefault (rdPackVersion r) (tpVersion pack)\<rparr>) rules\<rparr>)"

definition New :: "runtime \<Rightarrow> time \<Rightarrow> policy_config \<Rightarrow> engine" where
  "New rt now config =
     (let config = withDefaults config in
      SetDeceptionTokens rt now (pcDeceptionTokens config)
        \<lparr> enApprovedTools = addTools rt (pcApprovedTools config) [],
          enToolProvenance = addProvenance rt (pcToolProvenance config) [],
          enAgentIdentities = addIdentities rt (pcAgentIdentities config) [],
          enApprovedEgressHosts = addHosts rt (pcApprovedEgressHosts config) [],
          enPack = installedPack config,
          enDeception = [], enDeceptionSeq = 0, enTenantPolicies = [], enHistory = [] \<rparr>)"

definition NewDefault :: "runtime \<Rightarrow> time \<Rightarrow> engine" where
  "NewDefault rt now = New rt now DefaultConfig"

definition Reload :: "runtime \<Rightarrow> time \<Rightarrow> policy_config \<Rightarrow> engine \<Rightarrow> engine" where
  "Reload rt now config e =
     (let rebuilt = New rt now config in
      e\<lparr>enApprovedTools := enApprovedTools rebuilt, enToolProvenance := enToolProvenance rebuilt,
        enAgentIdentities := enAgentIdentities rebuilt,
        enApprovedEgressHosts := enApprovedEgressHosts rebuilt, enPack := enPack rebuilt\<rparr>)"

definition Rules :: "engine \<Rightarrow> rule_descriptor list" where
  "Rules e = tpRules (enPack e)"

definition isToolApproved :: "engine \<Rightarrow> string \<Rightarrow> bool" where
  "isToolApproved e tool \<longleftrightarrow> tool \<in> set (enApprovedTools e)"

definition isApprovedEgress :: "runtime \<Rightarrow> engine \<Rightarrow> string \<Rightarrow> bool" where
  "isApprovedEgress rt e destination =
     (let host = normalizeHost rt destination in
      if host = [] then False else host \<in> set (enApprovedEgressHosts e))"

section \<open>Provenance and agent identity\<close>

datatype provenance_status = ProvenanceNotRequired | ProvenanceVerified | ProvenanceMissing | ProvenanceMismatch

definition checkToolProvenance :: "runtime \<Rightarrow> engine \<Rightarrow> string \<Rightarrow> tool_call_request \<Rightarrow> provenance_status" where
  "checkToolProvenance rt e tool request =
     (case gm_get (enToolProvenance e) tool of
        None \<Rightarrow> ProvenanceNotRequired
      | Some entry \<Rightarrow>
          (let claimed = TrimSpace (tcToolFingerprint request) in
           if claimed = [] then ProvenanceMissing
           else if \<not> EqualFold rt claimed (tpeFingerprint entry) then ProvenanceMismatch
           else if tpePublisher entry \<noteq> [] \<and>
             \<not> EqualFold rt (TrimSpace (tcToolPublisher request)) (tpePublisher entry) then ProvenanceMismatch
           else ProvenanceVerified))"

datatype agent_identity_status = AgentNotRequired | AgentVerified | AgentUnidentified | AgentUnknown | AgentMismatch

definition hashAgentToken :: "runtime \<Rightarrow> string \<Rightarrow> string" where
  "hashAgentToken rt token = hex_encode (rt_sha256 rt (TrimSpace token))"

definition checkAgentIdentity :: "runtime \<Rightarrow> engine \<Rightarrow> tool_call_request \<Rightarrow> agent_identity_status" where
  "checkAgentIdentity rt e request =
     (if length (enAgentIdentities e) = 0 then AgentNotRequired
      else if TrimSpace (tcAgentID request) = [] then AgentUnidentified
      else (case gm_get (enAgentIdentities e) (ToLower rt (TrimSpace (tcAgentID request))) of
        None \<Rightarrow> AgentUnknown
      | Some entry \<Rightarrow>
          if TrimSpace (tcAgentToken request) = [] then AgentMismatch
          else if hashAgentToken rt (tcAgentToken request) \<noteq> aiKeyHash entry then AgentMismatch
          else AgentVerified))"

section \<open>Tenant overlays\<close>

definition hasTools :: "compiled_tenant_policy \<Rightarrow> bool" where
  "hasTools p \<longleftrightarrow> 0 < length (ctApprovedTools p)"

definition hasEgress :: "compiled_tenant_policy \<Rightarrow> bool" where
  "hasEgress p \<longleftrightarrow> 0 < length (ctApprovedEgress p)"

definition tenantPolicyView :: "string \<Rightarrow> compiled_tenant_policy \<Rightarrow> tenant_policy" where
  "tenantPolicyView tenantID compiled =
     \<lparr> tpoTenantID = tenantID, tpoApprovedTools = ctTools compiled, tpoApprovedEgress = ctEgress compiled \<rparr>"

definition compileTenantPolicy :: "runtime \<Rightarrow> tenant_policy \<Rightarrow> compiled_tenant_policy" where
  "compileTenantPolicy rt policy =
     (let tools = addTools rt (tpoApprovedTools policy) [];
          hosts = addHosts rt (tpoApprovedEgress policy) []
      in \<lparr> ctApprovedTools = tools, ctApprovedEgress = hosts, ctTools = sort tools, ctEgress = sort hosts \<rparr>)"

definition SetTenantPolicy :: "runtime \<Rightarrow> tenant_policy \<Rightarrow> engine \<Rightarrow> tenant_policy option \<times> engine" where
  "SetTenantPolicy rt policy e =
     (let tenantID = TrimSpace (tpoTenantID policy) in
      if tenantID = [] then (None, e)
      else (let compiled = compileTenantPolicy rt policy in
        (Some (tenantPolicyView tenantID compiled),
         e\<lparr>enTenantPolicies := gm_put tenantID compiled (enTenantPolicies e)\<rparr>)))"

definition RemoveTenantPolicy :: "string \<Rightarrow> engine \<Rightarrow> bool \<times> engine" where
  "RemoveTenantPolicy tenantID e =
     (let tenantID = TrimSpace tenantID in
      if tenantID = [] then (False, e)
      else if gm_get (enTenantPolicies e) tenantID = None then (False, e)
      else (True, e\<lparr>enTenantPolicies := gm_del tenantID (enTenantPolicies e)\<rparr>))"

definition TenantPolicy :: "string \<Rightarrow> engine \<Rightarrow> tenant_policy option" where
  "TenantPolicy tenantID e =
     (let tenantID = TrimSpace tenantID in
      if tenantID = [] then None
      else map_option (tenantPolicyView tenantID) (gm_get (enTenantPolicies e) tenantID))"

definition ListTenantPolicies :: "engine \<Rightarrow> tenant_policy list" where
  "ListTenantPolicies e =
     map (\<lambda>i. tenantPolicyView i (the (gm_get (enTenantPolicies e) i)))
       (sort (map fst (enTenantPolicies e)))"

definition toolApprovedForTenant :: "engine \<Rightarrow> string \<Rightarrow> string \<Rightarrow> bool" where
  "toolApprovedForTenant e tenantID tool =
     (let tenantID = TrimSpace tenantID in
      case (if tenantID \<noteq> [] then gm_get (enTenantPolicies e) tenantID else None) of
        Some compiled \<Rightarrow> if hasTools compiled then tool \<in> set (ctApprovedTools compiled)
                          else isToolApproved e tool
      | None \<Rightarrow> isToolApproved e tool)"

definition egressApprovedForTenant :: "runtime \<Rightarrow> engine \<Rightarrow> string \<Rightarrow> string \<Rightarrow> bool" where
  "egressApprovedForTenant rt e tenantID destination =
     (let host = normalizeHost rt destination in
      if host = [] then False
      else (let tenantID = TrimSpace tenantID in
        case (if tenantID \<noteq> [] then gm_get (enTenantPolicies e) tenantID else None) of
          Some compiled \<Rightarrow> if hasEgress compiled then host \<in> set (ctApprovedEgress compiled)
                            else isApprovedEgress rt e destination
        | None \<Rightarrow> isApprovedEgress rt e destination))"

section \<open>Evaluation of an event\<close>

definition newAlert :: "string \<Rightarrow> string \<Rightarrow> string \<Rightarrow> severity \<Rightarrow> event \<Rightarrow> string_map \<Rightarrow> alert" where
  "newAlert ruleID title description sev event evidence =
     \<lparr> alID = [], alFingerprint = ruleID @ '':'' @ evID event, alRuleID = ruleID, alTitle = title,
       alDescription = description, alSeverity = sev, alStatus = AlertOpen, alAssetID = evAssetID event,
       alTenant = [], alCreatedAt = 0, alEventIDs = [evID event], alEvidence = evidence,
       alRecommendedActions = [] \<rparr>"

definition hasLabel :: "runtime \<Rightarrow> string list \<Rightarrow> string \<Rightarrow> bool" where
  "hasLabel rt labels label \<longleftrightarrow> (\<exists>value \<in> set labels. EqualFold rt value label)"

definition containsAny :: "runtime \<Rightarrow> string \<Rightarrow> string list \<Rightarrow> bool" where
  "containsAny rt value needles \<longleftrightarrow> (\<exists>needle \<in> set needles. Contains (ToLower rt value) (ToLower rt needle))"

definition exposureTerms :: "string list" where
  "exposureTerms = [''secret'', ''token'', ''credential'', ''password'', ''env'', ''ssh_key'', ''api_key'']"

definition modelRuntimeTerms :: "string list" where
  "modelRuntimeTerms = [''llama'', ''ollama'', ''vllm'', ''gguf'', ''model-download'', ''cuda'', ''gpu'', ''tool_spawn'']"

definition toolOf :: "runtime \<Rightarrow> string \<Rightarrow> string" where
  "toolOf rt name = orDefault (ToLower rt (TrimSpace name)) ''unknown''"

text \<open>The groups of statements of \<open>Evaluate\<close> in order, each the alerts it appends.\<close>

definition toolAlerts :: "runtime \<Rightarrow> engine \<Rightarrow> event \<Rightarrow> alert list" where
  "toolAlerts rt e event =
     (if evKind event \<noteq> EventAgentToolCall then []
      else (let tool = toolOf rt (evToolName event) in
        (if toolApprovedForTenant e (evTenant event) tool then []
         else [newAlert ''agent.tool.unapproved'' ''Unapproved agent tool call''
           (''Agent invoked tool '' @ Quote rt tool @ '' outside the approved manifest.'')
           SeverityHigh event [(''tool'', tool), (''actor'', evActor event)]]) @
        (case gatewayContainsAny rt (gatewayTextVariants rt
                [evCommand event, evSignal event, tool, metadataText (evMetadata event)]) exposureTerms of
           None \<Rightarrow> []
         | Some (t, _) \<Rightarrow> [newAlert ''agent.secret.exposure''
             ''Potential secret exposure through agent context''
             ''Agent activity referenced secrets, credentials, tokens, or environment material.''
             SeverityCritical event
             [(''tool'', tool), (''command'', evCommand event), (''match'', t)]])))"

definition egressAlerts :: "runtime \<Rightarrow> engine \<Rightarrow> event \<Rightarrow> alert list" where
  "egressAlerts rt e event =
     (if evKind event = EventNetworkFlow \<and> isExternalDestination rt (evDestination event)
         \<and> \<not> egressApprovedForTenant rt e (evTenant event) (evDestination event)
      then [newAlert ''network.egress.unknown'' ''Unknown outbound destination''
        ''Asset opened outbound network flow to a non-private destination outside the approved egress list.''
        SeverityMedium event
        [(''destination'', evDestination event), (''source_ip'', evSourceIP event)]]
      else [])"

definition discoveryAlerts :: "runtime \<Rightarrow> event \<Rightarrow> alert list" where
  "discoveryAlerts rt event =
     (if evKind event = EventProcessStart \<and>
         gatewayContainsAny rt (gatewayTextVariants rt
           [evCommand event, evProcess event, evSignal event, metadataText (evMetadata event)])
           discoveryTerms \<noteq> None
      then [newAlert ''process.discovery.chain'' ''Suspicious discovery process''
        ''Process activity matched discovery, credential-access, or lateral-movement telemetry patterns.''
        SeverityHigh event [(''process'', evProcess event), (''command'', evCommand event)]]
      else [])"

definition canaryAlerts :: "runtime \<Rightarrow> engine \<Rightarrow> event \<Rightarrow> alert list" where
  "canaryAlerts rt e event =
     (if evKind event = EventDeceptionHit \<or> hasLabel rt (evLabels event) ''canary''
         \<or> hasLabel rt (evLabels event) ''deception''
      then [newAlert ''deception.canary.hit'' ''Canary or deception asset touched''
        ''An asset interacted with a decoy token, honey credential, or instrumented deception service.''
        SeverityCritical event [(''signal'', evSignal event), (''destination'', evDestination event)]]
      else []) @
     (case MatchDeception rt e [evCommand event, evSignal event, evToolName event, evDestination event,
             Join (evLabels event) '' '', metadataText (evMetadata event)] of
        None \<Rightarrow> []
      | Some token \<Rightarrow> [newAlert ''deception.canary.hit'' ''Canary or deception asset touched''
          ''Activity referenced a registered deception/canary token from the registry.''
          SeverityCritical event [(''deception_token'', dtName token), (''deception_kind'', dtKind token),
            (''deception_id'', dtID token)]])"

definition modelAlerts :: "runtime \<Rightarrow> event \<Rightarrow> alert list" where
  "modelAlerts rt event =
     (if gatewayContainsAny rt (gatewayTextVariants rt
           [evCommand event, evProcess event, evSignal event, Join (evLabels event) '' '',
            metadataText (evMetadata event)]) modelRuntimeTerms \<noteq> None
         \<and> (evKind event = EventProcessStart \<or> evKind event = EventNetworkFlow
            \<or> evKind event = EventAgentToolCall)
      then [newAlert ''model.runtime.suspicious'' ''Suspicious local model runtime behavior''
        ''Local model runtime activity appeared together with shelling out, downloads, GPU use, or unexpected egress.''
        SeverityHigh event [(''process'', evProcess event), (''destination'', evDestination event)]]
      else [])"

definition Evaluate :: "runtime \<Rightarrow> engine \<Rightarrow> event \<Rightarrow> alert list" where
  "Evaluate rt e event = toolAlerts rt e event @ egressAlerts rt e event @ discoveryAlerts rt event
     @ canaryAlerts rt e event @ modelAlerts rt event"

definition hasAlertRule :: "alert list \<Rightarrow> string \<Rightarrow> bool" where
  "hasAlertRule alerts ruleID \<longleftrightarrow> (\<exists>alert \<in> set alerts. alRuleID alert = ruleID)"

section \<open>The collectors of tools and hosts\<close>

interpretation tools: unique_collector "\<lambda>t. ToLower rt (TrimSpace t)" "\<lambda>t. t \<noteq> []" "addTools rt"
  by unfold_locales (simp_all add: add_new_def Let_def)

interpretation hosts: unique_collector "normalizeHost rt" "\<lambda>t. t \<noteq> []" "addHosts rt"
  by unfold_locales (simp_all add: add_new_def Let_def)

declare addTools.simps [simp del] addHosts.simps [simp del]

lemma addTools_set: "set (addTools rt ts []) = {ToLower rt (TrimSpace t) | t. t \<in> set ts} - {[]}"
  by (auto simp: tools.collect_set)

lemma addHosts_set: "set (addHosts rt hs []) = normalizeHost rt ` set hs - {[]}"
  by (auto simp: hosts.collect_set)

section \<open>The deception registry\<close>

lemma nextDeceptionID_spec:
  "nextDeceptionID ids seq = (i, n) \<Longrightarrow> i = deceptionID n \<and> i \<notin> set ids \<and> seq < n
     \<and> (\<forall>k. seq < k \<and> k < n \<longrightarrow> deceptionID k \<in> set ids)"
proof (induction ids seq rule: nextDeceptionID.induct)
  case (1 ids seq)
  show ?case
  proof (cases "deceptionID (Suc seq) \<in> set ids")
    case True
    then have "nextDeceptionID ids (Suc seq) = (i, n)"
      using "1.prems" by (simp add: nextDeceptionID.simps [of ids seq] Let_def)
    with 1(1) [OF refl refl True] True show ?thesis
      by (metis Suc_lessD Suc_lessI)
  next
    case False
    then show ?thesis
      using "1.prems" by (auto simp: nextDeceptionID.simps [of ids seq] Let_def)
  qed
qed

text \<open>What the registry holds: every token under its own ID, which is not empty, with a value.\<close>

definition deception_ok :: "engine \<Rightarrow> bool" where
  "deception_ok e \<longleftrightarrow> gm_ok (enDeception e)
     \<and> (\<forall>(i, token) \<in> set (enDeception e). dtID token = i \<and> i \<noteq> [] \<and> dtValue token \<noteq> [])"

lemma deceptionID_not_Nil [simp]: "deceptionID n \<noteq> []"
  by (simp add: deceptionID_def)

lemma registerDeception_fields:
  assumes "registerDeception token e = (token', e')"
  shows "token' = token\<lparr>dtID := dtID token'\<rparr>" "dtID token' \<noteq> []"
    "enDeception e' = gm_put (dtID token') token' (enDeception e)"
    "dtID token \<noteq> [] \<Longrightarrow> token' = token"
    "dtID token = [] \<Longrightarrow> gm_get (enDeception e) (dtID token') = None"
    "e' = e\<lparr>enDeception := enDeception e', enDeceptionSeq := enDeceptionSeq e'\<rparr>"
proof -
  obtain i n where next_id: "nextDeceptionID (map fst (enDeception e)) (enDeceptionSeq e) = (i, n)"
    by fastforce
  note spec = nextDeceptionID_spec [OF next_id]
  show "token' = token\<lparr>dtID := dtID token'\<rparr>" "dtID token' \<noteq> []"
    "enDeception e' = gm_put (dtID token') token' (enDeception e)"
    "dtID token \<noteq> [] \<Longrightarrow> token' = token"
    "dtID token = [] \<Longrightarrow> gm_get (enDeception e) (dtID token') = None"
    "e' = e\<lparr>enDeception := enDeception e', enDeceptionSeq := enDeceptionSeq e'\<rparr>"
    using assms spec
    by (auto simp: registerDeception_def nextDeceptionIDLocked_def next_id Let_def map_of_eq_None_iff
        rev_image_eqI split: if_splits)
qed

lemma deception_ok_register:
  assumes "deception_ok e" "dtValue token \<noteq> []"
  shows "deception_ok (snd (registerDeception token e))"
proof -
  obtain token' e' where r: "registerDeception token e = (token', e')" by fastforce
  note f = registerDeception_fields [OF r]
  from f(1) have "dtValue token' = dtValue token"
    by (metis deception_token.select_convs(4) deception_token.surjective deception_token.update_convs(1))
  with assms f(2) have "deception_ok e'"
    unfolding deception_ok_def f(3) using set_gm_put [of "dtID token'" token' "enDeception e"] by auto
  with r show ?thesis by simp
qed

lemma deception_ok_set: "deception_ok (SetDeceptionTokens rt now tokens e)"
proof -
  let ?step = "\<lambda>token e. let token = normalizeDeceptionToken rt now token in
             if dtValue token = [] then e else snd (registerDeception token e)"
  have "deception_ok (fold ?step tokens e)" if "deception_ok e" for e
    using that
  proof (induction tokens arbitrary: e)
    case (Cons t ts)
    have "deception_ok (?step t e)"
      using Cons.prems by (simp add: Let_def deception_ok_register)
    with Cons.IH show ?case by simp
  qed simp
  moreover have "deception_ok (e\<lparr>enDeception := [], enDeceptionSeq := 0\<rparr>)"
    by (simp add: deception_ok_def)
  ultimately show ?thesis
    unfolding SetDeceptionTokens_def by blast
qed

lemma deception_ok_add: "deception_ok e \<Longrightarrow> deception_ok (snd (AddDeceptionToken rt now token e))"
  using deception_ok_register [of e "normalizeDeceptionToken rt now token"]
  by (auto simp: AddDeceptionToken_def normalizeDeceptionToken_def Let_def split: prod.splits)

lemma deception_ok_remove: "deception_ok e \<Longrightarrow> deception_ok (snd (RemoveDeceptionToken i e))"
  using set_gm_del [of "TrimSpace i" "enDeception e"]
  by (auto simp: RemoveDeceptionToken_def deception_ok_def Let_def)

lemma MatchDeception_Some:
  "MatchDeception rt e values = Some token \<Longrightarrow> token \<in> snd ` set (enDeception e)
     \<and> (\<exists>v \<in> set (gatewayTextVariants rt values). Contains v (normalizeGatewayText rt (dtValue token)))"
  by (force simp: MatchDeception_def Let_def dest!: find_Some_mem split: if_splits)

lemma MatchDeception_hit:
  assumes "token \<in> snd ` set (enDeception e)" "normalizeGatewayText rt (dtValue token) \<noteq> []"
    and "v \<in> set (gatewayTextVariants rt values)" "Contains v (normalizeGatewayText rt (dtValue token))"
  shows "MatchDeception rt e values \<noteq> None"
proof -
  from assms have ne: "enDeception e \<noteq> []" by auto
  from assms(1) have "token \<in> set (map snd (enDeception e))" by simp
  then show ?thesis
    unfolding MatchDeception_def Let_def if_not_P [OF ne]
    by (rule find_not_None) (use assms in blast)
qed

text \<open>The text of a field is one of its variants.\<close>

lemma valueTexts_self: "v \<in> set (valueTexts rt v)"
  by (simp add: valueTexts_def)

lemma variant_of_field:
  "v \<in> set values \<Longrightarrow> normalizeGatewayText rt v \<noteq> [] \<Longrightarrow>
     normalizeGatewayText rt v \<in> set (gatewayTextVariants rt values)"
  unfolding gatewayTextVariants_set using valueTexts_self by blast

section \<open>Registries\<close>

text \<open>
  The contract of the engine's two registries (deception tokens by ID, overlays by tenant): removal
  reports whether the key was there and takes away that key only, and the listing shows exactly the
  entries, in the order of their keys.
\<close>

locale registry =
  fixes inv :: "'s \<Rightarrow> bool"
    and get :: "'s \<Rightarrow> string \<Rightarrow> 'v option"
    and remove :: "string \<Rightarrow> 's \<Rightarrow> bool \<times> 's"
    and listing :: "'s \<Rightarrow> 'w list"
    and view :: "string \<Rightarrow> 'v \<Rightarrow> 'w"
    and key :: "'w \<Rightarrow> string"
  assumes inv_remove: "inv s \<Longrightarrow> inv (snd (remove k s))"
    and remove_result: "inv s \<Longrightarrow> fst (remove k s) \<longleftrightarrow> get s (TrimSpace k) \<noteq> None"
    and get_remove: "inv s \<Longrightarrow> get (snd (remove k s)) j = (if j = TrimSpace k then None else get s j)"
    and listing_set: "inv s \<Longrightarrow> set (listing s) = {view k v | k v. get s k = Some v}"
    and listing_sorted: "inv s \<Longrightarrow> sorted (map key (listing s)) \<and> distinct (map key (listing s))"
    and key_view: "inv s \<Longrightarrow> get s k = Some v \<Longrightarrow> key (view k v) = k"
begin

lemma remove_again: "inv s \<Longrightarrow> \<not> fst (remove k (snd (remove k s)))"
  by (simp add: remove_result inv_remove get_remove)

lemma listing_remove:
  assumes "inv s"
  shows "listing (snd (remove k s)) = filter (\<lambda>w. key w \<noteq> TrimSpace k) (listing s)"
proof -
  have set_eq: "set (listing (snd (remove k s))) = set (filter (\<lambda>w. key w \<noteq> TrimSpace k) (listing s))"
    using assms by (auto simp: listing_set inv_remove get_remove key_view split: if_splits)
  have "inj_on key (set (listing s))"
    using listing_sorted [OF assms] by (simp add: distinct_map)
  then have "inj_on key (set (listing (snd (remove k s))) \<union> set (filter (\<lambda>w. key w \<noteq> TrimSpace k) (listing s)))"
    unfolding set_eq by (rule inj_on_subset) auto
  moreover have "sorted (map key (filter (\<lambda>w. key w \<noteq> TrimSpace k) (listing s)))"
    "distinct (map key (filter (\<lambda>w. key w \<noteq> TrimSpace k) (listing s)))"
    using listing_sorted [OF assms] by (simp_all add: sorted_filter distinct_map_filter)
  ultimately show ?thesis
    using listing_sorted [OF inv_remove [OF assms]] set_eq by (blast intro: map_sorted_distinct_set_unique)
qed

lemma removed_not_listed: "inv s \<Longrightarrow> w \<in> set (listing (snd (remove k s))) \<Longrightarrow> key w \<noteq> TrimSpace k"
  by (simp add: listing_remove)

end

text \<open>What the table of overlays holds.\<close>

definition overlays_ok :: "engine \<Rightarrow> bool" where
  "overlays_ok e \<longleftrightarrow> gm_ok (enTenantPolicies e) \<and>
     (\<forall>(t, c) \<in> set (enTenantPolicies e). t \<noteq> [] \<and> distinct (ctApprovedTools c) \<and> distinct (ctApprovedEgress c)
        \<and> [] \<notin> set (ctApprovedTools c) \<and> [] \<notin> set (ctApprovedEgress c)
        \<and> ctTools c = sort (ctApprovedTools c) \<and> ctEgress c = sort (ctApprovedEgress c))"

lemma overlays_ok_remove: "overlays_ok e \<Longrightarrow> overlays_ok (snd (RemoveTenantPolicy t e))"
  using set_gm_del [of "TrimSpace t" "enTenantPolicies e"]
  by (auto simp: RemoveTenantPolicy_def overlays_ok_def Let_def)

lemma gm_sorted_keys: "gm_ok m \<Longrightarrow> sorted (sort (map fst m)) \<and> distinct (sort (map fst m))"
  by (simp add: gm_ok_def)

interpretation deceptions: registry deception_ok "\<lambda>e. gm_get (enDeception e)" RemoveDeceptionToken
  ListDeceptionTokens "\<lambda>_ token. token" dtID
proof
  fix e k j v
  assume ok: "deception_ok e"
  then have m: "gm_ok (enDeception e)" and ids: "\<And>i t. (i, t) \<in> set (enDeception e) \<Longrightarrow> dtID t = i \<and> i \<noteq> []"
    by (auto simp: deception_ok_def)
  show "deception_ok (snd (RemoveDeceptionToken k e))"
    by (rule deception_ok_remove [OF ok])
  have nil: "gm_get (enDeception e) [] = None"
    using ids by (force simp: map_of_eq_None_iff)
  show "fst (RemoveDeceptionToken k e) \<longleftrightarrow> gm_get (enDeception e) (TrimSpace k) \<noteq> None"
    using nil by (simp add: RemoveDeceptionToken_def Let_def)
  show "gm_get (enDeception (snd (RemoveDeceptionToken k e))) j =
      (if j = TrimSpace k then None else gm_get (enDeception e) j)"
    using nil by (auto simp: RemoveDeceptionToken_def Let_def)
  show "set (ListDeceptionTokens e) = {v | k v. gm_get (enDeception e) k = Some v}"
    using m by (force simp: ListDeceptionTokens_def gm_ok_def)
  have "map dtID (map snd (enDeception e)) = map fst (enDeception e)"
    using ids by auto
  then have "distinct (map dtID (map snd (enDeception e)))"
    using m by (simp only: gm_ok_def)
  then show "sorted (map dtID (ListDeceptionTokens e)) \<and> distinct (map dtID (ListDeceptionTokens e))"
    unfolding ListDeceptionTokens_def by (intro conjI sorted_sort_key distinct_map_sort_key)
  show "gm_get (enDeception e) k = Some v \<Longrightarrow> dtID v = k"
    using ids by (auto dest: map_of_SomeD)
qed

interpretation overlays: registry overlays_ok "\<lambda>e. gm_get (enTenantPolicies e)" RemoveTenantPolicy
  ListTenantPolicies tenantPolicyView tpoTenantID
proof
  fix e k j v
  assume ok: "overlays_ok e"
  then have m: "gm_ok (enTenantPolicies e)" and ids: "\<And>i t. (i, t) \<in> set (enTenantPolicies e) \<Longrightarrow> i \<noteq> []"
    by (auto simp: overlays_ok_def)
  show "overlays_ok (snd (RemoveTenantPolicy k e))"
    by (rule overlays_ok_remove [OF ok])
  have nil: "gm_get (enTenantPolicies e) [] = None"
    using ids by (force simp: map_of_eq_None_iff)
  show "fst (RemoveTenantPolicy k e) \<longleftrightarrow> gm_get (enTenantPolicies e) (TrimSpace k) \<noteq> None"
    using nil by (simp add: RemoveTenantPolicy_def Let_def)
  show "gm_get (enTenantPolicies (snd (RemoveTenantPolicy k e))) j =
      (if j = TrimSpace k then None else gm_get (enTenantPolicies e) j)"
    using nil by (auto simp: RemoveTenantPolicy_def Let_def)
  show "set (ListTenantPolicies e) = {tenantPolicyView k v | k v. gm_get (enTenantPolicies e) k = Some v}"
    using m by (force simp: ListTenantPolicies_def gm_ok_def image_iff dest: map_of_SomeD)
  have "map tpoTenantID (ListTenantPolicies e) = sort (map fst (enTenantPolicies e))"
    by (simp add: ListTenantPolicies_def tenantPolicyView_def o_def)
  then show "sorted (map tpoTenantID (ListTenantPolicies e)) \<and> distinct (map tpoTenantID (ListTenantPolicies e))"
    using gm_sorted_keys [OF m] by simp
  show "tpoTenantID (tenantPolicyView k v) = k"
    by (simp add: tenantPolicyView_def)
qed

section \<open>Tenant overlays\<close>

lemma compileTenantPolicy_ok:
  "distinct (ctApprovedTools (compileTenantPolicy rt p))" "distinct (ctApprovedEgress (compileTenantPolicy rt p))"
  "[] \<notin> set (ctApprovedTools (compileTenantPolicy rt p))" "[] \<notin> set (ctApprovedEgress (compileTenantPolicy rt p))"
  "ctTools (compileTenantPolicy rt p) = sort (ctApprovedTools (compileTenantPolicy rt p))"
  "ctEgress (compileTenantPolicy rt p) = sort (ctApprovedEgress (compileTenantPolicy rt p))"
  by (simp_all add: compileTenantPolicy_def Let_def tools.collect_distinct hosts.collect_distinct
      addTools_set addHosts_set)

lemma overlays_ok_set: "overlays_ok e \<Longrightarrow> overlays_ok (snd (SetTenantPolicy rt p e))"
  using set_gm_put [of "TrimSpace (tpoTenantID p)" "compileTenantPolicy rt p" "enTenantPolicies e"]
  by (auto simp: SetTenantPolicy_def overlays_ok_def Let_def compileTenantPolicy_ok)

lemma TenantPolicy_get:
  "TenantPolicy t e = (if TrimSpace t = [] then None
     else map_option (tenantPolicyView (TrimSpace t)) (gm_get (enTenantPolicies e) (TrimSpace t)))"
  by (simp add: TenantPolicy_def Let_def)

lemma ListTenantPolicies_TenantPolicy:
  assumes "overlays_ok e"
  shows "p \<in> set (ListTenantPolicies e) \<longleftrightarrow>
    (\<exists>c. gm_get (enTenantPolicies e) (tpoTenantID p) = Some c \<and> p = tenantPolicyView (tpoTenantID p) c)"
  using overlays.listing_set [OF assms] overlays.key_view [OF assms] by auto

section \<open>What a configured engine holds\<close>

lemma registerDeception_frame:
  "enApprovedTools (snd (registerDeception t e)) = enApprovedTools e"
  "enToolProvenance (snd (registerDeception t e)) = enToolProvenance e"
  "enAgentIdentities (snd (registerDeception t e)) = enAgentIdentities e"
  "enApprovedEgressHosts (snd (registerDeception t e)) = enApprovedEgressHosts e"
  "enPack (snd (registerDeception t e)) = enPack e"
  "enTenantPolicies (snd (registerDeception t e)) = enTenantPolicies e"
  "enHistory (snd (registerDeception t e)) = enHistory e"
  by (simp_all add: registerDeception_def nextDeceptionIDLocked_def Let_def split: prod.split)

lemma SetDeceptionTokens_frame:
  "enApprovedTools (SetDeceptionTokens rt now ts e) = enApprovedTools e"
  "enToolProvenance (SetDeceptionTokens rt now ts e) = enToolProvenance e"
  "enAgentIdentities (SetDeceptionTokens rt now ts e) = enAgentIdentities e"
  "enApprovedEgressHosts (SetDeceptionTokens rt now ts e) = enApprovedEgressHosts e"
  "enPack (SetDeceptionTokens rt now ts e) = enPack e"
  "enTenantPolicies (SetDeceptionTokens rt now ts e) = enTenantPolicies e"
  "enHistory (SetDeceptionTokens rt now ts e) = enHistory e"
proof -
  let ?step = "\<lambda>token e. let token = normalizeDeceptionToken rt now token in
             if dtValue token = [] then e else snd (registerDeception token e)"
  have inv: "f (fold ?step ts e) = f e" if "\<And>t e. f (snd (registerDeception t e)) = f e"
    for f :: "engine \<Rightarrow> 'x" and e
    using that by (induction ts arbitrary: e) (simp_all add: Let_def)
  show "enApprovedTools (SetDeceptionTokens rt now ts e) = enApprovedTools e"
    "enToolProvenance (SetDeceptionTokens rt now ts e) = enToolProvenance e"
    "enAgentIdentities (SetDeceptionTokens rt now ts e) = enAgentIdentities e"
    "enApprovedEgressHosts (SetDeceptionTokens rt now ts e) = enApprovedEgressHosts e"
    "enPack (SetDeceptionTokens rt now ts e) = enPack e"
    "enTenantPolicies (SetDeceptionTokens rt now ts e) = enTenantPolicies e"
    "enHistory (SetDeceptionTokens rt now ts e) = enHistory e"
    unfolding SetDeceptionTokens_def by (simp_all add: inv registerDeception_frame)
qed

lemma addProvenance_ok: "gm_ok m \<Longrightarrow> gm_ok (addProvenance rt es m)"
  by (induction es arbitrary: m) (simp_all add: Let_def)

lemma addIdentities_ok: "gm_ok m \<Longrightarrow> gm_ok (addIdentities rt es m)"
  by (induction es arbitrary: m) (simp_all add: Let_def)

lemma New_fields:
  "enApprovedTools (New rt now c) = addTools rt (orDefault (pcApprovedTools c) (tpApprovedTools DefaultThreatPack)) []"
  "enApprovedEgressHosts (New rt now c) =
     addHosts rt (orDefault (pcApprovedEgressHosts c) (tpApprovedEgressHosts DefaultThreatPack)) []"
  "enToolProvenance (New rt now c) = addProvenance rt (pcToolProvenance c) []"
  "enAgentIdentities (New rt now c) = addIdentities rt (pcAgentIdentities c) []"
  "enTenantPolicies (New rt now c) = []" "enHistory (New rt now c) = []"
  "enPack (New rt now c) = installedPack (withDefaults c)"
  by (simp_all add: New_def SetDeceptionTokens_frame withDefaults_def DefaultConfig_def Let_def)

text \<open>The engine's invariant.\<close>

definition engine_ok :: "engine \<Rightarrow> bool" where
  "engine_ok e \<longleftrightarrow> deception_ok e \<and> overlays_ok e \<and> gm_ok (enToolProvenance e) \<and> gm_ok (enAgentIdentities e)
     \<and> distinct (enApprovedTools e) \<and> [] \<notin> set (enApprovedTools e)
     \<and> distinct (enApprovedEgressHosts e) \<and> [] \<notin> set (enApprovedEgressHosts e)"

lemma engine_ok_New: "engine_ok (New rt now c)"
proof -
  have "deception_ok (New rt now c)"
    by (simp add: New_def Let_def deception_ok_set)
  then show ?thesis
    by (simp add: engine_ok_def overlays_ok_def New_fields addProvenance_ok addIdentities_ok
        tools.collect_distinct hosts.collect_distinct addTools_set addHosts_set)
qed

lemma engine_ok_Reload: "engine_ok e \<Longrightarrow> engine_ok (Reload rt now c e)"
  using engine_ok_New [of rt now c]
  by (simp add: engine_ok_def deception_ok_def overlays_ok_def Reload_def Let_def)

lemma engine_ok_overlays:
  "engine_ok e \<Longrightarrow> engine_ok (snd (SetTenantPolicy rt p e))"
  "engine_ok e \<Longrightarrow> engine_ok (snd (RemoveTenantPolicy t e))"
  using overlays_ok_set [of e rt p] overlays_ok_remove [of e t]
  by (auto simp: engine_ok_def deception_ok_def SetTenantPolicy_def RemoveTenantPolicy_def Let_def)

lemma engine_ok_deception:
  assumes "engine_ok e"
  shows "engine_ok (SetDeceptionTokens rt now ts e)" "engine_ok (snd (AddDeceptionToken rt now t e))"
    "engine_ok (snd (RemoveDeceptionToken i e))"
proof -
  show "engine_ok (SetDeceptionTokens rt now ts e)"
    using assms deception_ok_set [of rt now ts e] by (simp add: engine_ok_def overlays_ok_def SetDeceptionTokens_frame)
  have "f (snd (AddDeceptionToken rt now t e)) = f e" if "\<And>t e. f (snd (registerDeception t e)) = f e"
    for f :: "engine \<Rightarrow> 'x"
    using that [of "normalizeDeceptionToken rt now t" e]
    by (simp add: AddDeceptionToken_def case_prod_beta)
  note frame = this [OF registerDeception_frame(1)] this [OF registerDeception_frame(2)]
    this [OF registerDeception_frame(3)] this [OF registerDeception_frame(4)] this [OF registerDeception_frame(6)]
  show "engine_ok (snd (AddDeceptionToken rt now t e))"
    using assms deception_ok_add [of e rt now t] by (simp add: engine_ok_def overlays_ok_def frame)
  show "engine_ok (snd (RemoveDeceptionToken i e))"
    using assms deception_ok_remove [of e i]
    by (auto simp: engine_ok_def overlays_ok_def RemoveDeceptionToken_def Let_def)
qed

section \<open>Alerts\<close>

lemma newAlert_fields [simp]:
  "alRuleID (newAlert r t d sv ev m) = r" "alSeverity (newAlert r t d sv ev m) = sv"
  "alFingerprint (newAlert r t d sv ev m) = r @ '':'' @ evID ev"
  "alStatus (newAlert r t d sv ev m) = AlertOpen" "alAssetID (newAlert r t d sv ev m) = evAssetID ev"
  "alEventIDs (newAlert r t d sv ev m) = [evID ev]" "alEvidence (newAlert r t d sv ev m) = m"
  "alRecommendedActions (newAlert r t d sv ev m) = []"
  by (simp_all add: newAlert_def)

lemma hasAlertRule_simps [simp]:
  "\<not> hasAlertRule [] r"
  "hasAlertRule (a # as) r \<longleftrightarrow> alRuleID a = r \<or> hasAlertRule as r"
  "hasAlertRule (as @ bs) r \<longleftrightarrow> hasAlertRule as r \<or> hasAlertRule bs r"
  by (auto simp: hasAlertRule_def)

text \<open>The fields of an event that each rule reads.\<close>

definition exposureFields :: "runtime \<Rightarrow> event \<Rightarrow> string list" where
  "exposureFields rt ev = [evCommand ev, evSignal ev, toolOf rt (evToolName ev), metadataText (evMetadata ev)]"

definition processFields :: "event \<Rightarrow> string list" where
  "processFields ev = [evCommand ev, evProcess ev, evSignal ev, metadataText (evMetadata ev)]"

definition deceptionFields :: "event \<Rightarrow> string list" where
  "deceptionFields ev = [evCommand ev, evSignal ev, evToolName ev, evDestination ev,
     Join (evLabels ev) '' '', metadataText (evMetadata ev)]"

definition modelFields :: "event \<Rightarrow> string list" where
  "modelFields ev = [evCommand ev, evProcess ev, evSignal ev, Join (evLabels ev) '' '', metadataText (evMetadata ev)]"

lemmas rule_fields = exposureFields_def processFields_def deceptionFields_def modelFields_def

text \<open>A text names one of the terms.\<close>

definition mentions :: "runtime \<Rightarrow> string list \<Rightarrow> string list \<Rightarrow> bool" where
  "mentions rt fs terms \<longleftrightarrow> (\<exists>t \<in> set terms. term_occurs rt (gatewayTextVariants rt fs) t)"

lemma contains_mentions:
  "gatewayContainsAny rt (gatewayTextVariants rt fs) terms \<noteq> None \<longleftrightarrow> mentions rt fs terms"
  by (simp only: gatewayContainsAny_None mentions_def) blast

lemma contains_mentions_Some:
  "(\<exists>r. gatewayContainsAny rt (gatewayTextVariants rt fs) terms = Some r) \<longleftrightarrow> mentions rt fs terms"
  using contains_mentions by (metis not_None_eq)

lemma toolAlerts_rules:
  "hasAlertRule (toolAlerts rt e ev) r \<longleftrightarrow> evKind ev = EventAgentToolCall \<and>
     (r = ''agent.tool.unapproved'' \<and> \<not> toolApprovedForTenant e (evTenant ev) (toolOf rt (evToolName ev))
      \<or> r = ''agent.secret.exposure'' \<and> mentions rt (exposureFields rt ev) exposureTerms)"
  unfolding contains_mentions [symmetric] exposureFields_def
  by (auto simp: toolAlerts_def Let_def split: option.splits)

lemma egressAlerts_rules:
  "hasAlertRule (egressAlerts rt e ev) r \<longleftrightarrow> r = ''network.egress.unknown'' \<and> evKind ev = EventNetworkFlow
     \<and> isExternalDestination rt (evDestination ev)
     \<and> \<not> egressApprovedForTenant rt e (evTenant ev) (evDestination ev)"
  by (auto simp: egressAlerts_def)

lemma discoveryAlerts_rules:
  "hasAlertRule (discoveryAlerts rt ev) r \<longleftrightarrow> r = ''process.discovery.chain'' \<and> evKind ev = EventProcessStart
     \<and> mentions rt (processFields ev) discoveryTerms"
  unfolding contains_mentions [symmetric] processFields_def by (auto simp: discoveryAlerts_def)

lemma canaryAlerts_rules:
  "hasAlertRule (canaryAlerts rt e ev) r \<longleftrightarrow> r = ''deception.canary.hit'' \<and>
     (evKind ev = EventDeceptionHit \<or> hasLabel rt (evLabels ev) ''canary'' \<or> hasLabel rt (evLabels ev) ''deception''
      \<or> MatchDeception rt e (deceptionFields ev) \<noteq> None)"
  unfolding deceptionFields_def by (auto simp: canaryAlerts_def split: option.splits)

lemma modelAlerts_rules:
  "hasAlertRule (modelAlerts rt ev) r \<longleftrightarrow> r = ''model.runtime.suspicious'' \<and> mentions rt (modelFields ev) modelRuntimeTerms
     \<and> evKind ev \<in> {EventProcessStart, EventNetworkFlow, EventAgentToolCall}"
  unfolding contains_mentions [symmetric] modelFields_def by (auto simp: modelAlerts_def)

lemmas alert_group_rules = toolAlerts_rules egressAlerts_rules discoveryAlerts_rules canaryAlerts_rules
  modelAlerts_rules

lemma Evaluate_alert_shape:
  "a \<in> set (Evaluate rt e ev) \<Longrightarrow> alFingerprint a = alRuleID a @ '':'' @ evID ev \<and> alStatus a = AlertOpen
     \<and> alAssetID a = evAssetID ev \<and> alEventIDs a = [evID ev] \<and> alRecommendedActions a = []"
  by (auto simp: Evaluate_def toolAlerts_def egressAlerts_def discoveryAlerts_def canaryAlerts_def
      modelAlerts_def Let_def split: if_splits option.splits)

lemma approval_frame:
  "isToolApproved (e\<lparr>enTenantPolicies := m\<rparr>) = isToolApproved e"
  "isApprovedEgress rt (e\<lparr>enTenantPolicies := m\<rparr>) = isApprovedEgress rt e"
  by (simp_all add: isToolApproved_def isApprovedEgress_def fun_eq_iff)

section \<open>Properties\<close>

text \<open>The loop that generates a deception-token ID returns: it picks the first ID \<open>dt-n\<close> after the
  counter that the registry does not hold, and moves only the counter.\<close>

theorem deception_id_fresh:
  assumes "nextDeceptionIDLocked e = (i, e')"
  shows "\<exists>n > enDeceptionSeq e. i = ''dt-'' @ nat_str n \<and> gm_get (enDeception e) i = None
    \<and> (\<forall>k. enDeceptionSeq e < k \<and> k < n \<longrightarrow> gm_get (enDeception e) (''dt-'' @ nat_str k) \<noteq> None)
    \<and> e' = e\<lparr>enDeceptionSeq := n\<rparr>"
proof -
  obtain j n where next_id: "nextDeceptionID (map fst (enDeception e)) (enDeceptionSeq e) = (j, n)"
    by fastforce
  with assms have "i = j" "e' = e\<lparr>enDeceptionSeq := n\<rparr>"
    by (simp_all add: nextDeceptionIDLocked_def)
  with nextDeceptionID_spec [OF next_id] show ?thesis
    unfolding deceptionID_def map_of_eq_None_iff by auto
qed

text \<open>An engine with one canary under an ID of the counter's own form, and with one overlay.\<close>

definition sample_canary :: deception_token where
  "sample_canary = \<lparr> dtID = ''dt-1'', dtName = ''bait'', dtKind = ''secret'', dtValue = ''AKIA-DECOY-01'',
     dtCreatedAt = 1, dtLabels = [], dtMetadata = [] \<rparr>"

definition sample_engine :: engine where
  "sample_engine = \<lparr> enApprovedTools = [''siem_search''], enToolProvenance = [], enAgentIdentities = [],
     enApprovedEgressHosts = [''github.com''], enPack = DefaultThreatPack,
     enDeception = [(''dt-1'', sample_canary)], enDeceptionSeq = 0,
     enTenantPolicies = [(''acme'', \<lparr> ctApprovedTools = [''deploy''], ctApprovedEgress = [], ctTools = [''deploy''],
        ctEgress = [] \<rparr>)], enHistory = [] \<rparr>"

lemma sample_engine_ok: "engine_ok sample_engine"
  by (simp add: engine_ok_def sample_engine_def sample_canary_def deception_ok_def overlays_ok_def gm_ok_def)

lemma sample_next_id: "nextDeceptionIDLocked sample_engine = (''dt-2'', sample_engine\<lparr>enDeceptionSeq := 2\<rparr>)"
proof -
  have "nextDeceptionID [''dt-1''] 0 = (''dt-2'', 2)" by code_simp
  then show ?thesis by (simp add: nextDeceptionIDLocked_def sample_engine_def)
qed

theorem deception_id_fresh_witness:
  "\<exists>n > enDeceptionSeq sample_engine. ''dt-2'' = ''dt-'' @ nat_str n \<and> gm_get (enDeception sample_engine) ''dt-2'' = None
    \<and> (\<forall>k. enDeceptionSeq sample_engine < k \<and> k < n \<longrightarrow>
         gm_get (enDeception sample_engine) (''dt-'' @ nat_str k) \<noteq> None)
    \<and> sample_engine\<lparr>enDeceptionSeq := 2\<rparr> = sample_engine\<lparr>enDeceptionSeq := n\<rparr>"
  by (rule deception_id_fresh [OF sample_next_id])

text \<open>A canary that was registered is found: when the text of a field, one of its tokens or a text
  decoded from them contains the value, the registry reports a token it holds that the fields contain.\<close>

theorem registered_canary_is_found:
  assumes "AddDeceptionToken rt now token e = (Inr token', e')"
    and "v \<in> set values" "u \<in> set (valueTexts rt v)"
    and "normalizeGatewayText rt (dtValue token') \<noteq> []"
    and "Contains (normalizeGatewayText rt u) (normalizeGatewayText rt (dtValue token'))"
  shows "\<exists>hit. MatchDeception rt e' values = Some hit \<and> hit \<in> snd ` set (enDeception e')
    \<and> (\<exists>x \<in> set (gatewayTextVariants rt values). Contains x (normalizeGatewayText rt (dtValue hit)))"
proof -
  from assms(1) have r: "registerDeception (normalizeDeceptionToken rt now token) e = (token', e')"
    by (auto simp: AddDeceptionToken_def split: if_splits prod.splits)
  have "gm_get (enDeception e') (dtID token') = Some token'"
    by (simp add: registerDeception_fields(3) [OF r])
  then have held: "token' \<in> snd ` set (enDeception e')"
    by (force dest: map_of_SomeD)
  have "normalizeGatewayText rt u \<noteq> []"
    using assms(4,5) by (cases "normalizeGatewayText rt u") auto
  with assms have "normalizeGatewayText rt u \<in> set (gatewayTextVariants rt values)"
    unfolding gatewayTextVariants_set by blast
  then obtain hit where "MatchDeception rt e' values = Some hit"
    using MatchDeception_hit [OF held assms(4) _ assms(5)] by blast
  with MatchDeception_Some [OF this] show ?thesis by blast
qed

theorem registered_canary_is_found_witness:
  "\<exists>token' e' hit. AddDeceptionToken ascii_runtime 5 sample_canary sample_engine = (Inr token', e')
     \<and> MatchDeception ascii_runtime e' [''run akia-decoy-01 now''] = Some hit \<and> hit \<in> snd ` set (enDeception e')"
proof -
  have kept: "normalizeDeceptionToken ascii_runtime 5 sample_canary = sample_canary"
    and ne: "TrimSpace (dtValue sample_canary) \<noteq> []" "normalizeGatewayText ascii_runtime (dtValue sample_canary) \<noteq> []"
    and inside: "Contains (normalizeGatewayText ascii_runtime ''run akia-decoy-01 now'')
      (normalizeGatewayText ascii_runtime (dtValue sample_canary))"
    by code_simp+
  have "AddDeceptionToken ascii_runtime 5 sample_canary sample_engine = (Inr sample_canary,
      sample_engine\<lparr>enDeception := gm_put ''dt-1'' sample_canary (enDeception sample_engine)\<rparr>)"
  proof -
    have "registerDeception sample_canary sample_engine = (sample_canary,
        sample_engine\<lparr>enDeception := gm_put ''dt-1'' sample_canary (enDeception sample_engine)\<rparr>)"
      by (simp add: registerDeception_def sample_canary_def Let_def)
    with ne show ?thesis by (simp add: AddDeceptionToken_def kept)
  qed
  note add = this
  show ?thesis
    using add registered_canary_is_found [OF add, of "''run akia-decoy-01 now''" "[''run akia-decoy-01 now'']"
        "''run akia-decoy-01 now''"] valueTexts_self ne(2) inside by force
qed

text \<open>C7: an overlay takes effect for its tenant only. After it is set it reads back as the normalised
  policy; a list with a usable entry replaces the global list, an empty one leaves it in force, and
  every other tenant's decisions are what they were.\<close>

theorem tenant_overlay_decides:
  assumes "SetTenantPolicy rt p e = (Some view, e')" and "TrimSpace t \<noteq> []"
  shows "let mine = (TrimSpace t = TrimSpace (tpoTenantID p));
      ts = {ToLower rt (TrimSpace x) | x. x \<in> set (tpoApprovedTools p)} - {[]};
      hs = normalizeHost rt ` set (tpoApprovedEgress p) - {[]}
    in TenantPolicy (tpoTenantID p) e' = Some view
    \<and> set (tpoApprovedTools view) = ts \<and> set (tpoApprovedEgress view) = hs
    \<and> toolApprovedForTenant e' t tool =
       (if mine then (if ts \<noteq> {} then tool \<in> ts else isToolApproved e tool) else toolApprovedForTenant e t tool)
    \<and> egressApprovedForTenant rt e' t d =
       (if mine then normalizeHost rt d \<noteq> [] \<and>
          (if hs \<noteq> {} then normalizeHost rt d \<in> hs else isApprovedEgress rt e d)
        else egressApprovedForTenant rt e t d)"
proof -
  let ?c = "compileTenantPolicy rt p"
  define mine where "mine = (TrimSpace t = TrimSpace (tpoTenantID p))"
  define ts where "ts = {ToLower rt (TrimSpace x) | x. x \<in> set (tpoApprovedTools p)} - {[]}"
  define hs where "hs = normalizeHost rt ` set (tpoApprovedEgress p) - {[]}"
  from assms(1) have tid: "TrimSpace (tpoTenantID p) \<noteq> []"
    and view: "view = tenantPolicyView (TrimSpace (tpoTenantID p)) ?c"
    and e': "e' = e\<lparr>enTenantPolicies := gm_put (TrimSpace (tpoTenantID p)) ?c (enTenantPolicies e)\<rparr>"
    by (auto simp: SetTenantPolicy_def Let_def split: if_splits)
  have c: "set (ctApprovedTools ?c) = ts" "set (ctApprovedEgress ?c) = hs"
    by (simp_all add: compileTenantPolicy_def Let_def ts_def hs_def addTools_set addHosts_set)
  then have has: "hasTools ?c \<longleftrightarrow> ts \<noteq> {}" "hasEgress ?c \<longleftrightarrow> hs \<noteq> {}"
    unfolding hasTools_def hasEgress_def by (metis length_greater_0_conv set_empty)+
  have read: "TenantPolicy (tpoTenantID p) e' = Some view"
    using tid by (simp add: TenantPolicy_get e' view)
  have sets: "set (tpoApprovedTools view) = ts" "set (tpoApprovedEgress view) = hs"
    by (simp_all add: view tenantPolicyView_def compileTenantPolicy_ok c)
  have tool: "toolApprovedForTenant e' t tool =
      (if mine then (if ts \<noteq> {} then tool \<in> ts else isToolApproved e tool) else toolApprovedForTenant e t tool)"
    using assms(2) by (simp add: toolApprovedForTenant_def mine_def e' has c approval_frame Let_def split: option.split)
  have egress: "egressApprovedForTenant rt e' t d =
      (if mine then normalizeHost rt d \<noteq> [] \<and>
         (if hs \<noteq> {} then normalizeHost rt d \<in> hs else isApprovedEgress rt e d)
       else egressApprovedForTenant rt e t d)"
    using assms(2) by (simp add: egressApprovedForTenant_def mine_def e' has c approval_frame Let_def split: option.split)
  show ?thesis
    unfolding Let_def mine_def [symmetric] ts_def [symmetric] hs_def [symmetric]
    by (intro conjI read sets tool egress)
qed

definition sample_overlay :: tenant_policy where
  "sample_overlay = \<lparr> tpoTenantID = '' acme '', tpoApprovedTools = [''Deploy''], tpoApprovedEgress = [] \<rparr>"

theorem tenant_overlay_decides_witness:
  "\<exists>view e'. SetTenantPolicy ascii_runtime sample_overlay sample_engine = (Some view, e')
     \<and> TenantPolicy '' acme '' e' = Some view \<and> toolApprovedForTenant e' ''acme'' ''deploy''
     \<and> \<not> toolApprovedForTenant e' ''acme'' ''siem_search''"
proof -
  have t: "TrimSpace (tpoTenantID sample_overlay) = ''acme''" "TrimSpace ''acme'' = ''acme''"
    and d: "ToLower ascii_runtime (TrimSpace ''Deploy'') = ''deploy''"
    by code_simp+
  obtain view e' where set: "SetTenantPolicy ascii_runtime sample_overlay sample_engine = (Some view, e')"
    by (simp add: SetTenantPolicy_def t Let_def)
  have ne: "TrimSpace ''acme'' \<noteq> []" by (simp add: t)
  have ts: "{ToLower ascii_runtime (TrimSpace x) | x. x \<in> set (tpoApprovedTools sample_overlay)} - {[]} = {''deploy''}"
    by (simp add: sample_overlay_def d)
  have id: "tpoTenantID sample_overlay = '' acme ''" by (simp add: sample_overlay_def)
  note decide = tenant_overlay_decides [OF set ne, unfolded Let_def t ts]
  have "TenantPolicy (tpoTenantID sample_overlay) e' = Some view"
    using decide by blast
  moreover have "toolApprovedForTenant e' ''acme'' tool \<longleftrightarrow> tool = ''deploy''" for tool
    using decide [of tool] by simp
  ultimately show ?thesis
    using set unfolding id by auto
qed

text \<open>removing an overlay restores the global decisions for its tenant, reports whether there was
  one, and the listing loses that tenant's entry and no other.\<close>

theorem overlay_removal:
  assumes "engine_ok e" and "RemoveTenantPolicy t e = (found, e')"
  shows "(found \<longleftrightarrow> TenantPolicy t e \<noteq> None) \<and> TenantPolicy t e' = None
    \<and> toolApprovedForTenant e' t tool = isToolApproved e tool
    \<and> ListTenantPolicies e' = filter (\<lambda>p. tpoTenantID p \<noteq> TrimSpace t) (ListTenantPolicies e)"
proof (intro conjI)
  from assms have ok: "overlays_ok e" and e': "e' = snd (RemoveTenantPolicy t e)"
    and found: "found = fst (RemoveTenantPolicy t e)"
    by (simp_all add: engine_ok_def)
  have nil: "gm_get (enTenantPolicies e) [] = None"
    using ok by (force simp: overlays_ok_def map_of_eq_None_iff)
  show "found \<longleftrightarrow> TenantPolicy t e \<noteq> None"
    unfolding found overlays.remove_result [OF ok] TenantPolicy_get using nil by auto
  show "TenantPolicy t e' = None"
    by (simp add: TenantPolicy_get e' overlays.get_remove [OF ok])
  have "enApprovedTools e' = enApprovedTools e"
    by (simp add: e' RemoveTenantPolicy_def Let_def)
  then show "toolApprovedForTenant e' t tool = isToolApproved e tool"
    by (simp add: toolApprovedForTenant_def isToolApproved_def e' overlays.get_remove [OF ok] Let_def)
  show "ListTenantPolicies e' = filter (\<lambda>p. tpoTenantID p \<noteq> TrimSpace t) (ListTenantPolicies e)"
    unfolding e' by (rule overlays.listing_remove [OF ok])
qed

theorem overlay_removal_witness:
  "\<exists>e'. RemoveTenantPolicy ''acme'' sample_engine = (True, e') \<and> TenantPolicy ''acme'' e' = None
     \<and> toolApprovedForTenant e' ''acme'' ''siem_search'' = isToolApproved sample_engine ''siem_search''
     \<and> ListTenantPolicies e' = filter (\<lambda>p. tpoTenantID p \<noteq> TrimSpace ''acme'') (ListTenantPolicies sample_engine)"
proof -
  have t: "TrimSpace ''acme'' = ''acme''" by code_simp
  obtain e' where r: "RemoveTenantPolicy ''acme'' sample_engine = (True, e')"
    by (simp add: RemoveTenantPolicy_def t sample_engine_def)
  with overlay_removal [OF sample_engine_ok r, of "''siem_search''"] show ?thesis by blast
qed

text \<open>a reload replaces the allowlists, the provenance table, the agent identities and the pack by
  what a new engine would have, and keeps the deception registry, the overlays and the call history.\<close>

theorem reload_swaps_configuration:
  "let e' = Reload rt now c e in
     enApprovedTools e' = addTools rt (orDefault (pcApprovedTools c) (tpApprovedTools DefaultThreatPack)) []
   \<and> enApprovedEgressHosts e' =
       addHosts rt (orDefault (pcApprovedEgressHosts c) (tpApprovedEgressHosts DefaultThreatPack)) []
   \<and> enToolProvenance e' = addProvenance rt (pcToolProvenance c) []
   \<and> enAgentIdentities e' = addIdentities rt (pcAgentIdentities c) []
   \<and> enPack e' = installedPack (withDefaults c)
   \<and> enDeception e' = enDeception e \<and> enDeceptionSeq e' = enDeceptionSeq e
   \<and> enTenantPolicies e' = enTenantPolicies e \<and> enHistory e' = enHistory e"
  by (simp add: Reload_def New_fields Let_def)

text \<open>Each of the six detection rules fires exactly under its condition, and nothing else fires.\<close>

lemma evaluate_rules:
  "hasAlertRule (Evaluate rt e ev) r =
    (if r = ''agent.tool.unapproved'' then evKind ev = EventAgentToolCall
        \<and> \<not> toolApprovedForTenant e (evTenant ev) (toolOf rt (evToolName ev))
     else if r = ''agent.secret.exposure'' then evKind ev = EventAgentToolCall
        \<and> mentions rt (exposureFields rt ev) exposureTerms
     else if r = ''network.egress.unknown'' then evKind ev = EventNetworkFlow
        \<and> isExternalDestination rt (evDestination ev)
        \<and> \<not> egressApprovedForTenant rt e (evTenant ev) (evDestination ev)
     else if r = ''process.discovery.chain'' then evKind ev = EventProcessStart
        \<and> mentions rt (processFields ev) discoveryTerms
     else if r = ''deception.canary.hit'' then evKind ev = EventDeceptionHit
        \<or> hasLabel rt (evLabels ev) ''canary'' \<or> hasLabel rt (evLabels ev) ''deception''
        \<or> (\<exists>token. MatchDeception rt e (deceptionFields ev) = Some token)
     else if r = ''model.runtime.suspicious'' then mentions rt (modelFields ev) modelRuntimeTerms
        \<and> evKind ev \<in> {EventProcessStart, EventNetworkFlow, EventAgentToolCall}
     else False)"
  by (simp add: Evaluate_def alert_group_rules)

end
