(* ===== verification/NetAddr.thy ===== *)
theory NetAddr
  imports Engine Http
begin

unbundle bit_operations_syntax

text \<open>
  The network addresses the server decides on: trusted proxies and the address of the client
  (\<open>isTrustedProxy\<close>, \<open>sourceIP\<close>, \<open>requestIsSecure\<close> of \<open>internal/server/server.go\<close>), the check of the
  listen address, and the check of the target of a proxied call (\<open>internal/server/mcp.go\<close>). An
  \<open>net.IPNet\<close> is a pair of byte lists; \<open>Contains\<close> compares the masked bytes. The theorems relate the
  blocked addresses to plain intervals and show what a validated target may be.
\<close>

section \<open>Networks\<close>

record ip_net =
  inIP :: "nat list"
  inMask :: "nat list"

text \<open>The bytes of an address after \<open>To4\<close>: four for IPv4, sixteen for IPv6.\<close>

fun ip_bytes :: "ip_addr \<Rightarrow> nat list" where
  "ip_bytes (IPv4 a b c d) = [a, b, c, d]"
| "ip_bytes (IPv6 gs) = concat (map (\<lambda>g. [g div 256, g mod 256]) gs)"

text \<open>\<open>net.CIDRMask\<close>: the mask of \<open>len\<close> bytes with \<open>ones\<close> leading one bits.\<close>

fun CIDRMask :: "nat \<Rightarrow> nat list \<Rightarrow> nat list" where
  "CIDRMask ones [] = []"
| "CIDRMask ones (_ # rest) =
     (if 8 \<le> ones then 0xFF # CIDRMask (ones - 8) rest
      else (0xFF - drop_bit ones 0xFF) # CIDRMask 0 rest)"

definition NetContains :: "ip_net \<Rightarrow> ip_addr \<Rightarrow> bool" where
  "NetContains n ip =
     (let bs = ip_bytes ip in
      length bs = length (inIP n) \<and>
      list_all (\<lambda>((x, m), y). x AND m = y AND m) (zip (zip (inIP n) (inMask n)) bs))"

definition network :: "ip_addr \<Rightarrow> nat \<Rightarrow> ip_net" where
  "network ip ones = (let bs = ip_bytes ip; m = CIDRMask ones [0..<length bs] in
     \<lparr> inIP = map2 (\<lambda>x y. x AND y) bs m, inMask = m \<rparr>)"

text \<open>
  \<open>net.ParseCIDR\<close>: an address, a slash and a decimal prefix length of at most the width of the address;
  \<open>None\<close> is a \<open>ParseError\<close>. Leading zeros are allowed in the length and values from 0xFFFFFF on are not.
\<close>

definition parse_len :: "string \<Rightarrow> nat option" where
  "parse_len s = (if s \<noteq> [] \<and> list_all (\<lambda>c. ascii_digit (byte c)) s then
     (let n = str_nat s in if n < 0xFFFFFF then Some n else None) else None)"

definition ParseCIDR :: "runtime \<Rightarrow> string \<Rightarrow> ip_net option" where
  "ParseCIDR rt s = (case index_of (CHR ''/'') s of
     None \<Rightarrow> None
   | Some i \<Rightarrow> (case (rt_parse_ip rt (take i s), parse_len (drop (i + 1) s)) of
       (Some ip, Some n) \<Rightarrow> if n \<le> 8 * length (ip_bytes ip) then Some (network ip n) else None
     | _ \<Rightarrow> None))"

text \<open>
  A value without a slash is an address; the code prints it, appends the width and parses the result,
  which is the network of that one address.
\<close>

fun parseTrustedProxies :: "runtime \<Rightarrow> string list \<Rightarrow> string + ip_net list" where
  "parseTrustedProxies rt [] = Inr []"
| "parseTrustedProxies rt (v # vs) =
     (let value = TrimSpace v in
      if value = [] then parseTrustedProxies rt vs
      else (case (if \<not> Contains value ''/'' then
                    (case rt_parse_ip rt value of
                       None \<Rightarrow> Inl (''invalid trusted proxy address: '' @ value)
                     | Some ip \<Rightarrow> Inr (network ip (8 * length (ip_bytes ip))))
                  else
                    (case ParseCIDR rt value of
                       None \<Rightarrow> Inl (''invalid trusted proxy cidr '' @ Quote rt value @ '': invalid CIDR address: '' @ value)
                     | Some n \<Rightarrow> Inr n)) of
        Inl e \<Rightarrow> Inl e
      | Inr n \<Rightarrow> (case parseTrustedProxies rt vs of Inl e \<Rightarrow> Inl e | Inr ns \<Rightarrow> Inr (n # ns))))"

section \<open>The address of the client\<close>

definition hostOf :: "string \<Rightarrow> string" where
  "hostOf addr = (case SplitHostPort (TrimSpace addr) of Some (h, _) \<Rightarrow> h | None \<Rightarrow> TrimSpace addr)"

definition isTrustedProxy :: "runtime \<Rightarrow> ip_net list \<Rightarrow> string \<Rightarrow> bool" where
  "isTrustedProxy rt proxies remoteAddr =
     (if length proxies = 0 then False
      else (case rt_parse_ip rt (hostOf remoteAddr) of
        None \<Rightarrow> False | Some ip \<Rightarrow> (\<exists>n \<in> set proxies. NetContains n ip)))"

definition sourceIP :: "runtime \<Rightarrow> ip_net list \<Rightarrow> http_request \<Rightarrow> string" where
  "sourceIP rt proxies r =
     (let forwarded = TrimSpace (HeaderGet r ''X-Forwarded-For'') in
      if forwarded \<noteq> [] \<and> isTrustedProxy rt proxies (rqRemoteAddr r)
      then TrimSpace (hd (SplitByte (CHR '','') forwarded))
      else (case SplitHostPort (rqRemoteAddr r) of Some (h, _) \<Rightarrow> h | None \<Rightarrow> rqRemoteAddr r))"

text \<open>\<open>tls\<close> is \<open>r.TLS != nil\<close>.\<close>

definition requestIsSecure :: "runtime \<Rightarrow> ip_net list \<Rightarrow> bool \<Rightarrow> http_request \<Rightarrow> bool" where
  "requestIsSecure rt proxies tls r =
     (if tls then True
      else if \<not> isTrustedProxy rt proxies (rqRemoteAddr r) then False
      else (let proto = ToLower rt (TrimSpace (HeaderGet r ''X-Forwarded-Proto'')) in proto = ''https'' \<or> proto = ''wss''))"

definition isLoopbackListenAddress :: "runtime \<Rightarrow> string \<Rightarrow> bool" where
  "isLoopbackListenAddress rt listenAddr =
     (let host = hostOf listenAddr in
      if host = ''localhost'' then True
      else if host = [] then False
      else (case rt_parse_ip rt host of None \<Rightarrow> False | Some ip \<Rightarrow> IsLoopback ip))"

definition ValidateListenAddress :: "runtime \<Rightarrow> string \<Rightarrow> bool \<Rightarrow> bool \<Rightarrow> string option" where
  "ValidateListenAddress rt listenAddr authEnabled insecure =
     (if authEnabled \<or> insecure \<or> isLoopbackListenAddress rt listenAddr then None
      else Some ''refusing to listen on a non-loopback address without authentication; use --insecure for local development'')"

section \<open>The target of a proxied call\<close>

fun IsMulticast :: "ip_addr \<Rightarrow> bool" where
  "IsMulticast (IPv4 a b c d) \<longleftrightarrow> a div 16 = 14"
| "IsMulticast (IPv6 gs) \<longleftrightarrow> (case gs of [] \<Rightarrow> False | g # _ \<Rightarrow> g div 256 = 255)"

fun IsUnspecified :: "ip_addr \<Rightarrow> bool" where
  "IsUnspecified (IPv4 a b c d) \<longleftrightarrow> a = 0 \<and> b = 0 \<and> c = 0 \<and> d = 0"
| "IsUnspecified (IPv6 gs) \<longleftrightarrow> gs = [0, 0, 0, 0, 0, 0, 0, 0]"

definition extraBlockedProxyCIDRs :: "ip_net list" where
  "extraBlockedProxyCIDRs =
     [network (IPv4 100 64 0 0) 10, network (IPv4 0 0 0 0) 8, network (IPv4 192 0 0 0) 24, network (IPv4 198 18 0 0) 15]"

definition isBlockedProxyHost :: "runtime \<Rightarrow> string \<Rightarrow> bool" where
  "isBlockedProxyHost rt host = (ToLower rt (TrimSpace host) \<in> {[], ''localhost'', ''metadata.google.internal''})"

definition isBlockedProxyIP :: "ip_addr \<Rightarrow> bool" where
  "isBlockedProxyIP ip \<longleftrightarrow>
     IsLoopback ip \<or> IsLinkLocalUnicast ip \<or> IsLinkLocalMulticast ip \<or> IsPrivate ip \<or> IsMulticast ip \<or> IsUnspecified ip \<or>
     list_ex (\<lambda>n. NetContains n ip) extraBlockedProxyCIDRs"

text \<open>
  The loop over the resolved addresses: the state is \<open>selected\<close>. \<open>lookup\<close> is
  \<open>net.DefaultResolver.LookupIPAddr\<close>; the reason that \<open>url.Parse\<close> appends to its error is left out.
\<close>

fun selectAddress :: "runtime \<Rightarrow> bool \<Rightarrow> string \<Rightarrow> ip_addr list \<Rightarrow> ip_addr option \<Rightarrow> string + ip_addr option" where
  "selectAddress rt allowLocal host [] selected = Inr selected"
| "selectAddress rt allowLocal host (ip # ips) selected =
     (if isBlockedProxyIP ip \<and> \<not> allowLocal
      then Inl (''upstream host '' @ Quote rt host @ '' resolves to a blocked address'')
      else selectAddress rt allowLocal host ips
        (if selected = None \<and> \<not> isBlockedProxyIP ip then Some ip else selected))"

definition validateProxyUpstreamURL ::
  "runtime \<Rightarrow> (string \<Rightarrow> string + ip_addr list) \<Rightarrow> string \<Rightarrow> bool \<Rightarrow> string + url \<times> ip_addr" where
  "validateProxyUpstreamURL rt lookup raw allowLocal =
     (case rt_url_parse rt (TrimSpace raw) of
        None \<Rightarrow> Inl (''parse '' @ Quote rt (TrimSpace raw))
      | Some parsed \<Rightarrow>
          if urlScheme parsed \<noteq> ''http'' \<and> urlScheme parsed \<noteq> ''https''
          then Inl (''unsupported upstream scheme '' @ Quote rt (urlScheme parsed))
          else (let host = TrimSpace (urlHostname parsed) in
            if host = [] then Inl ''upstream_url must include a host''
            else if isBlockedProxyHost rt host then Inl (''upstream host '' @ Quote rt host @ '' is not allowed'')
            else (case lookup host of
              Inl e \<Rightarrow> Inl e
            | Inr addrs \<Rightarrow> (case selectAddress rt allowLocal host addrs None of
                Inl e \<Rightarrow> Inl e
              | Inr selected \<Rightarrow>
                  (let selected = (if selected = None \<and> addrs \<noteq> [] then Some (hd addrs) else selected) in
                   case selected of
                     None \<Rightarrow> Inl ''upstream host resolved to no usable address''
                   | Some ip \<Rightarrow> Inr (parsed, ip))))))"

text \<open>\<open>http.CanonicalHeaderKey\<close> on a lower-case header name: a capital at the start and after each dash.\<close>

definition upper_char :: "char \<Rightarrow> char" where
  "upper_char c = (if 97 \<le> byte c \<and> byte c \<le> 122 then char_of (byte c - 32) else c)"

fun canonical_from :: "bool \<Rightarrow> string \<Rightarrow> string" where
  "canonical_from up [] = []"
| "canonical_from up (c # cs) = (if up then upper_char c else c) # canonical_from (c = CHR ''-'') cs"

definition CanonicalHeaderKey :: "string \<Rightarrow> string" where
  "CanonicalHeaderKey s = canonical_from True s"

definition allowedProxyHeaders :: "string list" where
  "allowedProxyHeaders = [''accept'', ''content-type'', ''user-agent'', ''x-request-id'', ''x-correlation-id'',
     ''traceparent'', ''tracestate'']"

definition sanitizeProxyHeaders :: "runtime \<Rightarrow> string_map \<Rightarrow> string_map" where
  "sanitizeProxyHeaders rt headers =
     fold (\<lambda>(k, v) m. let key = ToLower rt (TrimSpace k); val = TrimSpace v in
        if key = [] \<or> val = [] then m
        else if key \<notin> set allowedProxyHeaders then m
        else gm_put (CanonicalHeaderKey key) val m) headers []"

section \<open>Blocked addresses as intervals\<close>

text \<open>What \<open>net.ParseIP\<close> and the resolver give: bytes below 256, or eight groups below 65536.\<close>

fun wf_ip :: "ip_addr \<Rightarrow> bool" where
  "wf_ip (IPv4 a b c d) \<longleftrightarrow> a < 256 \<and> b < 256 \<and> c < 256 \<and> d < 256"
| "wf_ip (IPv6 gs) \<longleftrightarrow> length gs = 8 \<and> (\<forall>g \<in> set gs. g < 65536)"

text \<open>The reference: an address as one number, and the blocked intervals.\<close>

fun ip_value :: "ip_addr \<Rightarrow> nat" where
  "ip_value (IPv4 a b c d) = ((a * 256 + b) * 256 + c) * 256 + d"
| "ip_value (IPv6 gs) = foldl (\<lambda>v g. v * 65536 + g) 0 gs"

definition blocked_v4 :: "(nat \<times> nat) list" where
  "blocked_v4 = map (\<lambda>(lo, hi). (ip_value lo, ip_value hi))
     [(IPv4 0 0 0 0, IPv4 0 255 255 255), (IPv4 10 0 0 0, IPv4 10 255 255 255), (IPv4 100 64 0 0, IPv4 100 127 255 255),
      (IPv4 127 0 0 0, IPv4 127 255 255 255), (IPv4 169 254 0 0, IPv4 169 254 255 255), (IPv4 172 16 0 0, IPv4 172 31 255 255),
      (IPv4 192 0 0 0, IPv4 192 0 0 255), (IPv4 192 168 0 0, IPv4 192 168 255 255), (IPv4 198 18 0 0, IPv4 198 19 255 255),
      (IPv4 224 0 0 0, IPv4 239 255 255 255)]"

definition blocked_v6 :: "(nat \<times> nat) list" where
  "blocked_v6 = [(0, 1), (0xfc00 * 2 ^ 112, 0xfe00 * 2 ^ 112 - 1), (0xfe80 * 2 ^ 112, 0xfec0 * 2 ^ 112 - 1),
     (0xff00 * 2 ^ 112, 2 ^ 128 - 1)]"

definition in_ranges :: "nat \<Rightarrow> (nat \<times> nat) list \<Rightarrow> bool" where
  "in_ranges v rs = list_ex (\<lambda>(lo, hi). lo \<le> v \<and> v \<le> hi) rs"

lemma and_high_bits: "b AND push_bit n m = push_bit n (drop_bit n b AND (m :: nat))"
  by (rule bit_eqI) (auto simp: bit_simps)

lemma mask_byte:
  fixes b :: nat
  assumes "b < 256" "n \<le> 8"
  shows "b AND push_bit n (mask (8 - n)) = push_bit n (drop_bit n b)"
proof -
  have "drop_bit n b < 2 ^ (8 - n)"
    using assms power_add [of "2 :: nat" "8 - n" n] by (simp add: drop_bit_eq_div less_mult_imp_div_less)
  then show ?thesis
    by (simp add: and_high_bits flip: take_bit_eq_mask) (simp add: take_bit_nat_eq_self)
qed

lemma masks:
  fixes b :: nat
  assumes "b < 256"
  shows "b AND 255 = b" "64 = b AND 192 \<longleftrightarrow> b div 64 = 1" "18 = b AND 254 \<longleftrightarrow> b div 2 = 9"
  using mask_byte [OF assms, of 0] mask_byte [OF assms, of 6] mask_byte [OF assms, of 1]
  by (simp_all add: mask_eq_exp_minus_1 push_bit_eq_mult drop_bit_eq_div)

lemma extra_networks: "map (\<lambda>n. (inIP n, inMask n)) extraBlockedProxyCIDRs =
    [([100, 64, 0, 0], [255, 192, 0, 0]), ([0, 0, 0, 0], [255, 0, 0, 0]), ([192, 0, 0, 0], [255, 255, 255, 0]),
     ([198, 18, 0, 0], [255, 254, 0, 0])]"
  by code_simp

lemma extra_blocked:
  "wf_ip (IPv4 a b c d) \<Longrightarrow> list_ex (\<lambda>n. NetContains n (IPv4 a b c d)) extraBlockedProxyCIDRs \<longleftrightarrow>
     a = 100 \<and> b div 64 = 1 \<or> a = 0 \<or> a = 192 \<and> b = 0 \<and> c = 0 \<or> a = 198 \<and> b div 2 = 9"
  "wf_ip (IPv6 gs) \<Longrightarrow> \<not> list_ex (\<lambda>n. NetContains n (IPv6 gs)) extraBlockedProxyCIDRs"
proof -
  have nets: "list_ex (\<lambda>n. NetContains n ip) extraBlockedProxyCIDRs \<longleftrightarrow>
      list_ex (\<lambda>(xs, ms). length (ip_bytes ip) = length xs \<and>
        list_all (\<lambda>((x, m), y). x AND m = y AND m) (zip (zip xs ms) (ip_bytes ip)))
        (map (\<lambda>n. (inIP n, inMask n)) extraBlockedProxyCIDRs)" for ip
    by (simp add: list_ex_iff NetContains_def Let_def)
  {
    assume wf: "wf_ip (IPv4 a b c d)"
    show "list_ex (\<lambda>n. NetContains n (IPv4 a b c d)) extraBlockedProxyCIDRs \<longleftrightarrow>
       a = 100 \<and> b div 64 = 1 \<or> a = 0 \<or> a = 192 \<and> b = 0 \<and> c = 0 \<or> a = 198 \<and> b div 2 = 9"
      unfolding nets extra_networks using wf masks [of a] masks [of b] masks [of c]
      by (auto simp del: One_nat_def)
  next
    assume "wf_ip (IPv6 gs)"
    then have "length (ip_bytes (IPv6 gs)) = 16"
      by (simp add: length_concat comp_def sum_list_triv)
    then show "\<not> list_ex (\<lambda>n. NetContains n (IPv6 gs)) extraBlockedProxyCIDRs"
      unfolding nets extra_networks by simp
  }
qed

text \<open>A number in base \<open>m\<close> lies in the block of its leading digits.\<close>

lemma block_value: "r < m \<Longrightarrow> n * m \<le> q * m + r \<and> q * m + r \<le> k * m + (m - 1) \<longleftrightarrow> n \<le> q \<and> q \<le> (k :: nat)"
proof -
  assume r: "r < m"
  have "n * m \<le> q * m + r \<longleftrightarrow> n \<le> q"
  proof
    assume "n * m \<le> q * m + r"
    then have "n * m < (q + 1) * m"
      using r by simp
    then show "n \<le> q"
      by (simp only: mult_less_cancel2) simp
  next
    assume "n \<le> q"
    then have "n * m \<le> q * m"
      by (rule mult_right_mono) simp
    then show "n * m \<le> q * m + r"
      by (rule trans_le_add1)
  qed
  moreover have "q * m + r \<le> k * m + (m - 1) \<longleftrightarrow> q \<le> k"
  proof
    assume "q * m + r \<le> k * m + (m - 1)"
    then have "q * m < (k + 1) * m"
      using r by simp
    then show "q \<le> k"
      by (simp only: mult_less_cancel2) simp
  next
    assume "q \<le> k"
    then have "q * m \<le> k * m"
      by (rule mult_right_mono) simp
    moreover have "r \<le> m - 1"
      using r by simp
    ultimately show "q * m + r \<le> k * m + (m - 1)"
      by (rule add_mono)
  qed
  ultimately show ?thesis
    by simp
qed

lemma div_range: "0 < k \<Longrightarrow> x div k = n \<longleftrightarrow> n * k \<le> x \<and> x < (n + 1) * (k :: nat)"
  using less_eq_div_iff_mult_less_eq [of k n x] div_less_iff_less_mult [of k x "n + 1"] by auto

lemma pair_range:
  fixes a b :: nat
  assumes "b < 256" "hi < 256"
  shows "n * 256 + lo \<le> a * 256 + b \<and> a * 256 + b \<le> n * 256 + hi \<longleftrightarrow> a = n \<and> lo \<le> b \<and> b \<le> hi"
  using assms by (cases a n rule: linorder_cases) auto

lemma v4_blocks:
  assumes "wf_ip (IPv4 a b c d)"
  shows "n * 16777216 \<le> ip_value (IPv4 a b c d) \<and> ip_value (IPv4 a b c d) \<le> k * 16777216 + 16777215 \<longleftrightarrow> n \<le> a \<and> a \<le> k"
    "n * 65536 \<le> ip_value (IPv4 a b c d) \<and> ip_value (IPv4 a b c d) \<le> k * 65536 + 65535 \<longleftrightarrow> n \<le> a * 256 + b \<and> a * 256 + b \<le> k"
    "n * 256 \<le> ip_value (IPv4 a b c d) \<and> ip_value (IPv4 a b c d) \<le> k * 256 + 255 \<longleftrightarrow> n \<le> (a * 256 + b) * 256 + c \<and> (a * 256 + b) * 256 + c \<le> k"
proof -
  show "n * 16777216 \<le> ip_value (IPv4 a b c d) \<and> ip_value (IPv4 a b c d) \<le> k * 16777216 + 16777215 \<longleftrightarrow> n \<le> a \<and> a \<le> k"
    using block_value [of "b * 65536 + c * 256 + d" 16777216 n a k] assms by (simp add: algebra_simps)
  show "n * 65536 \<le> ip_value (IPv4 a b c d) \<and> ip_value (IPv4 a b c d) \<le> k * 65536 + 65535 \<longleftrightarrow> n \<le> a * 256 + b \<and> a * 256 + b \<le> k"
    using block_value [of "c * 256 + d" 65536 n "a * 256 + b" k] assms by (simp add: algebra_simps)
  show "n * 256 \<le> ip_value (IPv4 a b c d) \<and> ip_value (IPv4 a b c d) \<le> k * 256 + 255 \<longleftrightarrow> n \<le> (a * 256 + b) * 256 + c \<and> (a * 256 + b) * 256 + c \<le> k"
    using block_value [of d 256 n "(a * 256 + b) * 256 + c" k] assms by (simp add: algebra_simps)
qed

text \<open>The intervals of the table, read as conditions on the first bytes of the address.\<close>

lemma v4_pair_ranges:
  fixes a b :: nat
  assumes "b < 256"
  shows "25664 \<le> a * 256 + b \<and> a * 256 + b \<le> 25727 \<longleftrightarrow> a = 100 \<and> b div 64 = 1"
    "43518 \<le> a * 256 + b \<and> a * 256 + b \<le> 43518 \<longleftrightarrow> a = 169 \<and> b = 254"
    "44048 \<le> a * 256 + b \<and> a * 256 + b \<le> 44063 \<longleftrightarrow> a = 172 \<and> b div 16 = 1"
    "49320 \<le> a * 256 + b \<and> a * 256 + b \<le> 49320 \<longleftrightarrow> a = 192 \<and> b = 168"
    "50706 \<le> a * 256 + b \<and> a * 256 + b \<le> 50707 \<longleftrightarrow> a = 198 \<and> b div 2 = 9"
    "a * 256 + b = 192 * 256 \<longleftrightarrow> a = 192 \<and> b = 0"
proof -
  note range = pair_range [OF assms]
  show "25664 \<le> a * 256 + b \<and> a * 256 + b \<le> 25727 \<longleftrightarrow> a = 100 \<and> b div 64 = 1"
    using range [of 127 100 64 a] by (simp add: div_range less_Suc_eq_le [symmetric])
  show "43518 \<le> a * 256 + b \<and> a * 256 + b \<le> 43518 \<longleftrightarrow> a = 169 \<and> b = 254"
    using range [of 254 169 254 a] by (simp add: eq_iff conj_ac)
  show "44048 \<le> a * 256 + b \<and> a * 256 + b \<le> 44063 \<longleftrightarrow> a = 172 \<and> b div 16 = 1"
    using range [of 31 172 16 a] by (simp add: div_range less_Suc_eq_le [symmetric])
  show "49320 \<le> a * 256 + b \<and> a * 256 + b \<le> 49320 \<longleftrightarrow> a = 192 \<and> b = 168"
    using range [of 168 192 168 a] by (simp add: eq_iff conj_ac)
  show "50706 \<le> a * 256 + b \<and> a * 256 + b \<le> 50707 \<longleftrightarrow> a = 198 \<and> b div 2 = 9"
    using range [of 19 198 18 a] by (simp add: div_range less_Suc_eq_le [symmetric])
  show "a * 256 + b = 192 * 256 \<longleftrightarrow> a = 192 \<and> b = 0"
    using range [of 0 192 0 a] by auto
qed

lemma v4_triple_range:
  "b < 256 \<Longrightarrow> c < 256 \<Longrightarrow>
     (49152 * 256 \<le> (a * 256 + b) * 256 + c \<and> (a * 256 + b) * 256 + c \<le> 49152 * 256) \<longleftrightarrow> (a = 192 \<and> b = 0) \<and> c = (0::nat)"
  using pair_range [of c 0 49152 0 "a * 256 + b"] v4_pair_ranges(6) [of b a] by simp

lemma v4_byte_ranges:
  "(0::nat) \<le> a \<and> a \<le> 0 \<longleftrightarrow> a = 0" "10 \<le> a \<and> a \<le> 10 \<longleftrightarrow> a = (10::nat)" "127 \<le> a \<and> a \<le> 127 \<longleftrightarrow> a = (127::nat)"
  "224 \<le> a \<and> a \<le> 239 \<longleftrightarrow> a div 16 = (14::nat)" "a = (224::nat) \<longrightarrow> a div 16 = 14"
  by (auto simp: div_range less_Suc_eq_le [symmetric])

lemma blocked_v4_iff:
  assumes wf: "wf_ip (IPv4 a b c d)"
  shows "isBlockedProxyIP (IPv4 a b c d) \<longleftrightarrow> in_ranges (ip_value (IPv4 a b c d)) blocked_v4"
proof -
  define v where "v = ip_value (IPv4 a b c d)"
  note eight = v4_blocks(1) [OF wf, folded v_def] and sixteen = v4_blocks(2) [OF wf, folded v_def]
    and twentyfour = v4_blocks(3) [OF wf, folded v_def]
  have bounds: "b < 256" "c < 256"
    using wf by simp_all
  have "in_ranges v blocked_v4 \<longleftrightarrow>
      (0 \<le> a \<and> a \<le> 0) \<or> (10 \<le> a \<and> a \<le> 10) \<or> (25664 \<le> a * 256 + b \<and> a * 256 + b \<le> 25727) \<or> (127 \<le> a \<and> a \<le> 127) \<or>
      (43518 \<le> a * 256 + b \<and> a * 256 + b \<le> 43518) \<or> (44048 \<le> a * 256 + b \<and> a * 256 + b \<le> 44063) \<or>
      (49152 * 256 \<le> (a * 256 + b) * 256 + c \<and> (a * 256 + b) * 256 + c \<le> 49152 * 256) \<or>
      (49320 \<le> a * 256 + b \<and> a * 256 + b \<le> 49320) \<or> (50706 \<le> a * 256 + b \<and> a * 256 + b \<le> 50707) \<or> (224 \<le> a \<and> a \<le> 239)"
    unfolding in_ranges_def blocked_v4_def list.map list_ex_Nil_iff list_ex_Cons_iff prod.case ip_value.simps
      eight [symmetric] sixteen [symmetric] twentyfour [symmetric]
    by simp
  also have "\<dots> \<longleftrightarrow> isBlockedProxyIP (IPv4 a b c d)"
    unfolding isBlockedProxyIP_def extra_blocked(1) [OF wf] IsLoopback.simps IsPrivate.simps IsLinkLocalUnicast.simps
      IsLinkLocalMulticast.simps IsMulticast.simps IsUnspecified.simps v4_pair_ranges [OF bounds(1)] v4_triple_range [OF bounds] v4_byte_ranges(1-4)
    using v4_byte_ranges(5) [of a] by argo
  finally show ?thesis
    unfolding v_def ..
qed

text \<open>Groups as the digits of a number.\<close>

abbreviation group_value :: "nat \<Rightarrow> nat list \<Rightarrow> nat" where
  "group_value \<equiv> foldl (\<lambda>v g. v * 65536 + g)"

lemma group_value_shift: "group_value v gs = v * 65536 ^ length gs + group_value 0 gs"
proof (induction gs arbitrary: v)
  case (Cons g gs)
  show ?case
    using Cons [of "v * 65536 + g"] Cons [of g] by (simp add: algebra_simps)
qed simp

lemma group_value_bound: "\<forall>g \<in> set gs. g < 65536 \<Longrightarrow> group_value 0 gs < 65536 ^ length gs"
proof (induction gs rule: rev_induct)
  case (snoc g gs)
  then have "group_value 0 gs + 1 \<le> 65536 ^ length gs" "g < 65536"
    by simp_all
  then have "(group_value 0 gs + 1) * 65536 \<le> 65536 ^ length gs * 65536"
    by (rule_tac mult_right_mono) simp_all
  then show ?case
    using \<open>g < 65536\<close> by (simp add: algebra_simps)
qed simp

lemma group_value_inj:
  "length xs = length ys \<Longrightarrow> \<forall>g \<in> set xs \<union> set ys. g < 65536 \<Longrightarrow> group_value 0 xs = group_value 0 ys \<Longrightarrow> xs = ys"
proof (induction xs ys rule: rev_induct2)
  case (4 x xs y ys)
  then have eq: "group_value 0 xs * 65536 + x = group_value 0 ys * 65536 + y" "x < 65536" "y < 65536"
    by simp_all
  from arg_cong [OF eq(1), of "\<lambda>n. n mod 65536"] arg_cong [OF eq(1), of "\<lambda>n. n div 65536"] eq(2,3)
  have "x = y" "group_value 0 xs = group_value 0 ys"
    by simp_all
  then show ?case
    using 4 by simp
qed simp_all

lemma v6_value:
  assumes "wf_ip (IPv6 (g # gs))"
  shows "group_value 0 gs < 2 ^ 112" "ip_value (IPv6 (g # gs)) = g * 2 ^ 112 + group_value 0 gs"
    "group_value 0 gs = 0 \<longleftrightarrow> gs = [0, 0, 0, 0, 0, 0, 0]" "group_value 0 gs = 1 \<longleftrightarrow> gs = [0, 0, 0, 0, 0, 0, 1]"
proof -
  have wf: "length gs = 7" "\<forall>g \<in> set gs. g < 65536"
    using assms by auto
  have same: "group_value 0 gs = group_value 0 ds \<longleftrightarrow> gs = ds" if "length ds = 7" "\<forall>d \<in> set ds. d < 65536" for ds
    using group_value_inj [of gs ds] wf that by auto
  show "group_value 0 gs < 2 ^ 112" "ip_value (IPv6 (g # gs)) = g * 2 ^ 112 + group_value 0 gs"
    using group_value_shift [of g gs] group_value_bound [OF wf(2)] wf(1) by simp_all
  show "group_value 0 gs = 0 \<longleftrightarrow> gs = [0, 0, 0, 0, 0, 0, 0]" "group_value 0 gs = 1 \<longleftrightarrow> gs = [0, 0, 0, 0, 0, 0, 1]"
    using same [of "[0, 0, 0, 0, 0, 0, 0]"] same [of "[0, 0, 0, 0, 0, 0, 1]"] by simp_all
qed

lemma blocked_v6_iff:
  assumes wf: "wf_ip (IPv6 gs)"
  shows "isBlockedProxyIP (IPv6 gs) \<longleftrightarrow> in_ranges (ip_value (IPv6 gs)) blocked_v6"
proof -
  obtain g hs where gs: "gs = g # hs"
    using wf by (cases gs) auto
  define r where "r = group_value 0 hs"
  define m :: nat where "m = 2 ^ 112"
  note r = v6_value [OF wf [unfolded gs], folded r_def m_def, folded gs]
  have g: "g < 65536"
    using wf gs by simp
  have ranges: "blocked_v6 = [(0, 1), (0xfc00 * m, 0xfdff * m + (m - 1)), (0xfe80 * m, 0xfebf * m + (m - 1)), (0xff00 * m, 0xffff * m + (m - 1))]"
    by (simp add: blocked_v6_def m_def)
  have "2 \<le> m"
    by (simp add: m_def)
  then have low: "g * m + r \<le> 1 \<longleftrightarrow> g = 0 \<and> (r = 0 \<or> r = 1)"
    by (cases g) auto
  have "in_ranges (g * m + r) blocked_v6 \<longleftrightarrow>
      g = 0 \<and> (r = 0 \<or> r = 1) \<or> (0xfc00 \<le> g \<and> g \<le> 0xfdff) \<or> (0xfe80 \<le> g \<and> g \<le> 0xfebf) \<or> (0xff00 \<le> g \<and> g \<le> 0xffff)"
    unfolding in_ranges_def ranges list_ex_Cons_iff list_ex_Nil_iff prod.case block_value [OF r(1)] low by simp
  also have "\<dots> \<longleftrightarrow> g = 0 \<and> (r = 0 \<or> r = 1) \<or> g div 512 = 126 \<or> g div 64 = 1018 \<or> g div 256 = 255"
    using g by (simp add: div_range) linarith
  also have "\<dots> \<longleftrightarrow> isBlockedProxyIP (IPv6 gs)"
    unfolding r(3,4) isBlockedProxyIP_def gs using extra_blocked(2) [OF wf] gs by auto
  finally show ?thesis
    unfolding r(2) ..
qed

text \<open>C30: The addresses that a proxied call must not reach. For every well-formed address, the chain of
  predicates and masked comparisons of \<open>isBlockedProxyIP\<close> (loopback, link-local, private, multicast,
  unspecified and the four extra networks) accepts exactly the addresses whose number lies in one of ten
  intervals of the IPv4 space, or in one of four intervals of the IPv6 space.\<close>

theorem blocked_ip_ranges:
  assumes "wf_ip ip"
  shows "isBlockedProxyIP ip \<longleftrightarrow>
    in_ranges (ip_value ip) (case ip of IPv4 _ _ _ _ \<Rightarrow> blocked_v4 | IPv6 _ \<Rightarrow> blocked_v6)"
  using assms blocked_v4_iff blocked_v6_iff by (cases ip) simp_all

theorem blocked_ip_ranges_witness:
  "isBlockedProxyIP (IPv4 100 127 255 255) \<and> \<not> isBlockedProxyIP (IPv4 100 128 0 0) \<and> \<not> isBlockedProxyIP (IPv4 198 20 0 0) \<and>
   isBlockedProxyIP (IPv6 [0xfdff, 0, 0, 0, 0, 0, 0, 9])"
proof -
  have "wf_ip (IPv4 100 127 255 255)" "wf_ip (IPv4 100 128 0 0)" "wf_ip (IPv4 198 20 0 0)" "wf_ip (IPv6 [0xfdff, 0, 0, 0, 0, 0, 0, 9])"
    by simp_all
  then show ?thesis
    by (simp add: blocked_ip_ranges in_ranges_def blocked_v4_def blocked_v6_def)
qed

section \<open>The validated target\<close>

lemma selectAddress_strict:
  "selectAddress rt False host ips None = Inr sel \<longleftrightarrow> (\<forall>ip \<in> set ips. \<not> isBlockedProxyIP ip) \<and> sel = (if ips = [] then None else Some (hd ips))"
proof -
  have "selectAddress rt False host ips (Some x) = Inr sel \<longleftrightarrow> (\<forall>ip \<in> set ips. \<not> isBlockedProxyIP ip) \<and> sel = Some x" for x
    by (induction ips) auto
  then show ?thesis
    by (cases ips) auto
qed

lemma selectAddress_open:
  "\<exists>sel'. selectAddress rt True host ips sel = Inr sel' \<and>
     sel' = (case sel of Some ip \<Rightarrow> Some ip | None \<Rightarrow> find (\<lambda>ip. \<not> isBlockedProxyIP ip) ips)"
  by (induction ips arbitrary: sel) (auto split: option.splits)

lemma validated_target_iff:
  "validateProxyUpstreamURL rt lookup raw allowLocal = Inr (u, ip) \<longleftrightarrow>
     rt_url_parse rt (TrimSpace raw) = Some u \<and> (urlScheme u = ''http'' \<or> urlScheme u = ''https'') \<and>
     TrimSpace (urlHostname u) \<noteq> [] \<and> \<not> isBlockedProxyHost rt (TrimSpace (urlHostname u)) \<and>
     (\<exists>addrs. lookup (TrimSpace (urlHostname u)) = Inr addrs \<and> addrs \<noteq> [] \<and>
        (if allowLocal then ip = (case find (\<lambda>ip. \<not> isBlockedProxyIP ip) addrs of Some x \<Rightarrow> x | None \<Rightarrow> hd addrs)
         else ip = hd addrs \<and> (\<forall>x \<in> set addrs. \<not> isBlockedProxyIP x)))"
proof (cases "rt_url_parse rt (TrimSpace raw)")
  case (Some parsed)
  define host where "host = TrimSpace (urlHostname parsed)"
  show ?thesis
  proof (cases "(urlScheme parsed = ''http'' \<or> urlScheme parsed = ''https'') \<and> host \<noteq> [] \<and> \<not> isBlockedProxyHost rt host")
    case True
    show ?thesis
    proof (cases "lookup host")
      case (Inr addrs)
      obtain sel where sel: "selectAddress rt True host addrs None = Inr sel" "sel = find (\<lambda>ip. \<not> isBlockedProxyIP ip) addrs"
        using selectAddress_open [of rt host addrs None] by auto
      have start: "validateProxyUpstreamURL rt lookup raw allowLocal =
          (case selectAddress rt allowLocal host addrs None of Inl e \<Rightarrow> Inl e
           | Inr selected \<Rightarrow> (case (if selected = None \<and> addrs \<noteq> [] then Some (hd addrs) else selected) of
               None \<Rightarrow> Inl ''upstream host resolved to no usable address'' | Some ip \<Rightarrow> Inr (parsed, ip)))"
        using True unfolding validateProxyUpstreamURL_def Some option.case Let_def host_def [symmetric] Inr sum.case
        by (simp only: de_Morgan_conj de_Morgan_disj not_not if_False simp_thms) (rule if_not_P, argo)
      have "validateProxyUpstreamURL rt lookup raw allowLocal = Inr (u, ip) \<longleftrightarrow> u = parsed \<and> addrs \<noteq> [] \<and>
          (if allowLocal then ip = (case find (\<lambda>ip. \<not> isBlockedProxyIP ip) addrs of Some x \<Rightarrow> x | None \<Rightarrow> hd addrs)
           else ip = hd addrs \<and> (\<forall>x \<in> set addrs. \<not> isBlockedProxyIP x))"
      proof (cases allowLocal)
        case True
        then show ?thesis
          unfolding start using sel by (cases addrs) (auto split: option.splits)
      next
        case False
        then show ?thesis
          unfolding start using selectAddress_strict [of rt host addrs]
          by (cases "selectAddress rt False host addrs None") (auto split: option.splits if_splits)
      qed
      then show ?thesis
        using Some True Inr unfolding host_def by auto
    qed (use Some True in \<open>auto simp: validateProxyUpstreamURL_def Let_def host_def\<close>)
  qed (use Some in \<open>auto simp: validateProxyUpstreamURL_def Let_def host_def\<close>)
qed (simp add: validateProxyUpstreamURL_def)

text \<open>C29: The target of a proxied call. With local targets disallowed, \<open>validateProxyUpstreamURL\<close> accepts a
  URL exactly when it parses to an http or https URL whose host is neither empty nor blocked by name and
  resolves to at least one address, none of them blocked; the address to dial is the first one. With local
  targets allowed it is the first address that is not blocked, and the first address when all are blocked.\<close>

theorem proxy_target_validated:
  "validateProxyUpstreamURL rt lookup raw allowLocal = Inr (u, ip) \<longleftrightarrow>
     rt_url_parse rt (TrimSpace raw) = Some u \<and> (urlScheme u = ''http'' \<or> urlScheme u = ''https'') \<and>
     TrimSpace (urlHostname u) \<noteq> [] \<and> \<not> isBlockedProxyHost rt (TrimSpace (urlHostname u)) \<and>
     (\<exists>addrs. lookup (TrimSpace (urlHostname u)) = Inr addrs \<and> addrs \<noteq> [] \<and>
        (if allowLocal then ip = (case find (\<lambda>ip. \<not> isBlockedProxyIP ip) addrs of Some x \<Rightarrow> x | None \<Rightarrow> hd addrs)
         else ip = hd addrs \<and> (\<forall>x \<in> set addrs. \<not> isBlockedProxyIP x)))"
  by (rule validated_target_iff)

definition model_url :: url where
  "model_url = \<lparr> urlScheme = ''https'', urlHostname = ''models.example'', urlHasUser = False \<rparr>"

theorem proxy_target_validated_witness:
  "validateProxyUpstreamURL (ascii_runtime\<lparr>rt_url_parse := (\<lambda>_. Some model_url)\<rparr>) (\<lambda>_. Inr [IPv4 203 0 113 7]) ''https://models.example'' False =
     Inr (model_url, IPv4 203 0 113 7)"
proof -
  have "\<not> isBlockedProxyHost (ascii_runtime\<lparr>rt_url_parse := (\<lambda>_. Some model_url)\<rparr>) (TrimSpace (urlHostname model_url))"
    "TrimSpace (urlHostname model_url) \<noteq> []" "\<not> isBlockedProxyIP (IPv4 203 0 113 7)"
    by code_simp+
  then show ?thesis
    unfolding proxy_target_validated by (simp add: model_url_def)
qed

section \<open>The address of the client behind a proxy\<close>

text \<open>
  Proxies append the address they see to \<open>X-Forwarded-For\<close>. The server takes the first entry, which is
  whatever the client sent, also as the key of the login back-off.
\<close>

theorem forwarded_address_is_claimed:
  assumes "isTrustedProxy rt proxies (rqRemoteAddr r)"
    and "HeaderGet r ''X-Forwarded-For'' = claimed @ '','' @ seen"
    and "visible claimed" "visible seen" "CHR '','' \<notin> set claimed"
  shows "sourceIP rt proxies r = claimed"
proof -
  have "visible (claimed @ '','' @ seen)"
    using assms(3,4) by (auto simp: visible_def)
  then have "TrimSpace (claimed @ '','' @ seen) = claimed @ '','' @ seen" "TrimSpace claimed = claimed"
    using TrimSpace_visible assms(3) by blast+
  then show ?thesis
    unfolding sourceIP_def assms(2) Let_def using assms(1,5) SplitByte_append [of "CHR '',''" claimed seen] by simp
qed

text \<open>Without a trusted proxy the header is ignored.\<close>

lemma direct_address:
  "\<not> isTrustedProxy rt proxies (rqRemoteAddr r) \<Longrightarrow>
     sourceIP rt proxies r = (case SplitHostPort (rqRemoteAddr r) of Some (h, _) \<Rightarrow> h | None \<Rightarrow> rqRemoteAddr r)"
  by (simp add: sourceIP_def Let_def)

end
