(* ===== verification/ConfigLoad.thy ===== *)
theory ConfigLoad
  imports Engine Auth
begin

text \<open>
  \<open>internal/config/config.go\<close>: the policy file and the policy configuration made from it. JSON decoding
  and \<open>time.ParseDuration\<close> are arguments. The theorem shows which allowlist the engine gets.
\<close>

record file_config =
  fcApprovedTools :: "string list"
  fcApprovedEgressHosts :: "string list"
  fcCorrelationWindow :: string
  fcThreatPackPath :: string
  fcUsers :: "user_config list"
  fcToolProvenance :: "tool_provenance_entry list"
  fcAgentIdentities :: "agent_identity list"

definition emptyConfig :: file_config where
  "emptyConfig = \<lparr> fcApprovedTools = [], fcApprovedEgressHosts = [], fcCorrelationWindow = [], fcThreatPackPath = [],
     fcUsers = [], fcToolProvenance = [], fcAgentIdentities = [] \<rparr>"

definition DefaultCorrelationWindow :: duration where "DefaultCorrelationWindow = 30 * minute"

datatype config_error = ConfigRead string | ConfigDecode string | ConfigPack pack_error

text \<open>The UTF-8 byte order mark that \<open>bytes.TrimPrefix\<close> drops.\<close>

definition byte_order_mark :: string where
  "byte_order_mark = [CHR 0xEF, CHR 0xBB, CHR 0xBF]"

definition TrimPrefix :: "string \<Rightarrow> string \<Rightarrow> string" where
  "TrimPrefix s pre = (if HasPrefix s pre then drop (length pre) s else s)"

definition LoadConfig :: "(string \<Rightarrow> file_config option) \<Rightarrow> host_os \<Rightarrow> string \<Rightarrow> config_error + file_config" where
  "LoadConfig unmarshal os path =
     (if path = [] then Inr emptyConfig
      else (case osFiles os path of
        None \<Rightarrow> Inl (ConfigRead path)
      | Some data \<Rightarrow>
          (let data = TrimPrefix data byte_order_mark in
           case unmarshal data of None \<Rightarrow> Inl (ConfigDecode path) | Some config \<Rightarrow> Inr config)))"

definition PolicyConfig ::
  "runtime \<Rightarrow> (string \<Rightarrow> threat_pack option) \<Rightarrow> host_os \<Rightarrow> file_config \<Rightarrow> config_error + policy_config" where
  "PolicyConfig rt unmarshal os c =
     (case LoadThreatPack rt unmarshal os (fcThreatPackPath c) of
        Inl e \<Rightarrow> Inl (ConfigPack e)
      | Inr pack \<Rightarrow>
          (let pack = (if 0 < length (fcApprovedTools c) then pack\<lparr>tpApprovedTools := fcApprovedTools c\<rparr> else pack);
               pack = (if 0 < length (fcApprovedEgressHosts c)
                       then pack\<lparr>tpApprovedEgressHosts := fcApprovedEgressHosts c\<rparr> else pack)
           in Inr \<lparr> pcApprovedTools = fcApprovedTools c, pcApprovedEgressHosts = fcApprovedEgressHosts c,
                pcThreatPack = pack, pcDeceptionTokens = [], pcToolProvenance = fcToolProvenance c,
                pcAgentIdentities = fcAgentIdentities c \<rparr>))"

definition CorrelationWindowDuration :: "(string \<Rightarrow> string + duration) \<Rightarrow> file_config \<Rightarrow> string + duration" where
  "CorrelationWindowDuration parse c =
     (if fcCorrelationWindow c = [] then Inr DefaultCorrelationWindow else parse (fcCorrelationWindow c))"

text \<open>
  The approved tools and egress hosts of the engine come from the policy file, and from the built-in pack
  when the file lists none: the lists of the loaded threat pack are kept in the pack and are never asked.
\<close>

theorem allowlist_ignores_pack:
  assumes "PolicyConfig rt unmarshal os c = Inr pc"
  shows "enApprovedTools (New rt now pc) =
      addTools rt (if fcApprovedTools c = [] then tpApprovedTools DefaultThreatPack else fcApprovedTools c) [] \<and>
    enApprovedEgressHosts (New rt now pc) =
      addHosts rt (if fcApprovedEgressHosts c = [] then tpApprovedEgressHosts DefaultThreatPack else fcApprovedEgressHosts c) []"
proof -
  have "pcApprovedTools pc = fcApprovedTools c" "pcApprovedEgressHosts pc = fcApprovedEgressHosts c"
    using assms by (auto simp: PolicyConfig_def Let_def split: sum.splits)
  then show ?thesis
    using SetDeceptionTokens_frame by (simp add: New_def withDefaults_def orDefault_def DefaultConfig_def Let_def)
qed

end
