(* ===== verification/History.thy ===== *)
theory History
  imports Engine
begin

text \<open>
  \<open>internal/policy/gateway_history.go\<close>: the gateway's call history per session, run or actor. The
  engine keeps one pointer per key and hands out copies only, so the map holds the states themselves.
  The cap on the number of keys and the size of an eviction batch are package variables; the
  operations take them as arguments \<open>cap\<close> and \<open>batch\<close>, and the gateway passes their values.
\<close>

section \<open>Definitions\<close>

record gateway_history_snapshot =
  hsKey :: string
  hsCalls :: int
  hsAllowCount :: int
  hsApprovalCount :: int
  hsDenyCount :: int
  hsRiskScoreMax :: int
  hsLastSeen :: time
  hsLastTool :: string
  hsLastVerdict :: string
  hsRecentFactors :: "string list"

definition maxGatewayHistoryEntries :: int where "maxGatewayHistoryEntries = 50000"
definition gatewayHistoryEvictBatch :: int where "gatewayHistoryEvictBatch = 5000"

definition historyMetadataKeys :: "string list" where
  "historyMetadataKeys = [''session_id'', ''conversation_id'', ''run_id'', ''agent_id'', ''trace_id'']"

definition gatewayHistoryKey :: "runtime \<Rightarrow> tool_call_request \<Rightarrow> string" where
  "gatewayHistoryKey rt request =
     (case find (\<lambda>key. TrimSpace (gm_str (tcMetadata request) key) \<noteq> []) historyMetadataKeys of
        Some key \<Rightarrow> key @ '':'' @ ToLower rt (TrimSpace (gm_str (tcMetadata request) key))
      | None \<Rightarrow>
          if TrimSpace (tcActor request) \<noteq> [] then ''actor:'' @ ToLower rt (TrimSpace (tcActor request))
          else if TrimSpace (tcAssetID request) \<noteq> [] then ''asset:'' @ ToLower rt (TrimSpace (tcAssetID request))
          else ''global'')"

definition snapshot :: "string \<Rightarrow> gateway_history_state \<Rightarrow> gateway_history_snapshot" where
  "snapshot key s = \<lparr> hsKey = key, hsCalls = ghCalls s, hsAllowCount = ghAllowCount s,
     hsApprovalCount = ghApprovalCount s, hsDenyCount = ghDenyCount s, hsRiskScoreMax = ghRiskScoreMax s,
     hsLastSeen = ghLastSeen s, hsLastTool = ghLastTool s,
     hsLastVerdict = (case ghLastVerdict s of None \<Rightarrow> [] | Some v \<Rightarrow> verdict_str v),
     hsRecentFactors = ghRecentFactors s \<rparr>"

definition empty_history :: gateway_history_state where
  "empty_history = \<lparr> ghCalls = 0, ghAllowCount = 0, ghApprovalCount = 0, ghDenyCount = 0,
     ghRiskScoreMax = 0, ghLastSeen = 0, ghLastTool = [], ghLastVerdict = None, ghRecentFactors = [] \<rparr>"

definition gatewayHistorySnapshot :: "runtime \<Rightarrow> engine \<Rightarrow> tool_call_request \<Rightarrow> gateway_history_snapshot" where
  "gatewayHistorySnapshot rt e request =
     (let key = gatewayHistoryKey rt request in
      case gm_get (enHistory e) key of
        None \<Rightarrow> snapshot key empty_history
      | Some state \<Rightarrow> snapshot key state)"

definition appendHistoryValues :: "string list \<Rightarrow> string list \<Rightarrow> nat \<Rightarrow> string list" where
  "appendHistoryValues existing incoming limit =
     (let existing = existing @ filter (\<lambda>v. v \<noteq> []) (map TrimSpace incoming) in
      if 0 < limit \<and> limit < length existing then last_n limit existing else existing)"

definition evictOldestHistoryLocked :: "int \<Rightarrow> engine \<Rightarrow> engine" where
  "evictOldestHistoryLocked n e =
     (if n \<le> 0 \<or> enHistory e = [] then e
      else (let entries = sort_key (\<lambda>(k, s). ghLastSeen s) (enHistory e) in
        e\<lparr>enHistory := fold gm_del (map fst (take (nat n) entries)) (enHistory e)\<rparr>))"

definition updateHistory ::
  "time \<Rightarrow> gateway_verdict \<Rightarrow> int \<Rightarrow> string list \<Rightarrow> string \<Rightarrow> gateway_history_state \<Rightarrow> gateway_history_state" where
  "updateHistory now verdict riskScore factors tool s = s\<lparr>
     ghCalls := ghCalls s + 1, ghLastSeen := now, ghLastTool := tool, ghLastVerdict := Some verdict,
     ghRiskScoreMax := max riskScore (ghRiskScoreMax s),
     ghAllowCount := ghAllowCount s + (if verdict = GatewayAllow then 1 else 0),
     ghApprovalCount := ghApprovalCount s + (if verdict = GatewayRequireApproval then 1 else 0),
     ghDenyCount := ghDenyCount s + (if verdict = GatewayDeny then 1 else 0),
     ghRecentFactors := appendHistoryValues (ghRecentFactors s) factors 8\<rparr>"

definition recordGatewayHistory ::
  "runtime \<Rightarrow> int \<Rightarrow> int \<Rightarrow> time \<Rightarrow> tool_call_request \<Rightarrow> gateway_verdict \<Rightarrow> int \<Rightarrow> string list \<Rightarrow> string
     \<Rightarrow> engine \<Rightarrow> gateway_history_snapshot \<times> engine" where
  "recordGatewayHistory rt cap batch now request verdict riskScore factors tool e =
     (let key = gatewayHistoryKey rt request;
          (state, e) = (case gm_get (enHistory e) key of
            Some state \<Rightarrow> (state, e)
          | None \<Rightarrow> (empty_history,
              if 0 < cap \<and> cap \<le> int (length (enHistory e)) then evictOldestHistoryLocked batch e else e));
          state = updateHistory now verdict riskScore factors tool state
      in (snapshot key state, e\<lparr>enHistory := gm_put key state (enHistory e)\<rparr>))"

definition contextString :: "gateway_history_snapshot \<Rightarrow> string" where
  "contextString s = Join
     ([''calls='' @ Itoa (hsCalls s), ''allow='' @ Itoa (hsAllowCount s),
       ''approval='' @ Itoa (hsApprovalCount s), ''deny='' @ Itoa (hsDenyCount s),
       ''max_risk='' @ Itoa (hsRiskScoreMax s)]
      @ (if hsLastTool s \<noteq> [] then [''last_tool='' @ hsLastTool s] else [])
      @ (if hsLastVerdict s \<noteq> [] then [''last_verdict='' @ hsLastVerdict s] else [])
      @ (if \<not> time_is_zero (hsLastSeen s) then [''last_seen='' @ RFC3339 (hsLastSeen s)] else [])) '';''"

section \<open>The invariant of one key\<close>

definition history_ok :: "gateway_history_state \<Rightarrow> bool" where
  "history_ok s \<longleftrightarrow> ghCalls s = ghAllowCount s + ghApprovalCount s + ghDenyCount s
     \<and> 0 \<le> ghAllowCount s \<and> 0 \<le> ghApprovalCount s \<and> 0 \<le> ghDenyCount s
     \<and> 0 \<le> ghRiskScoreMax s \<and> ghRiskScoreMax s \<le> 100 \<and> length (ghRecentFactors s) \<le> 8"

lemma history_ok_empty [inv_intros]: "history_ok empty_history"
  by (simp add: history_ok_def empty_history_def)

lemma length_appendHistoryValues: "0 < n \<Longrightarrow> length (appendHistoryValues xs ys n) \<le> n"
  by (simp add: appendHistoryValues_def Let_def)

lemma suffix_appendHistoryValues:
  "suffix (appendHistoryValues xs ys n) (xs @ filter (\<lambda>v. v \<noteq> []) (map TrimSpace ys))"
  by (simp add: appendHistoryValues_def Let_def suffix_last_n)

lemma history_ok_update [inv_intros]:
  "history_ok s \<Longrightarrow> 0 \<le> score \<Longrightarrow> score \<le> 100 \<Longrightarrow> history_ok (updateHistory now v score fs tool s)"
  using length_appendHistoryValues [of 8 "ghRecentFactors s" fs]
  by (cases v) (auto simp: history_ok_def updateHistory_def)

section \<open>Eviction\<close>

lemma fold_gm_del: "fold gm_del ks m = filter (\<lambda>(k, _). k \<notin> set ks) m"
proof (induction ks arbitrary: m)
  case (Cons k ks)
  then show ?case
    by (auto simp: AList.delete_eq filter_filter intro!: filter_cong)
qed (auto simp: case_prod_beta)

lemma evict_history:
  assumes "0 < n" "enHistory e \<noteq> []"
  shows "enHistory (evictOldestHistoryLocked n e) =
    filter (\<lambda>(k, _). k \<notin> set (map fst (take (nat n) (sort_key (\<lambda>(k, s). ghLastSeen s) (enHistory e)))))
      (enHistory e)"
  using assms by (simp add: evictOldestHistoryLocked_def fold_gm_del Let_def)

lemma filter_keys_drop:
  assumes "distinct (map fst es)"
  shows "filter (\<lambda>(k, _). k \<notin> set (map fst (take n es))) es = drop n es"
proof -
  let ?P = "\<lambda>(k, _). k \<notin> set (map fst (take n es))"
  have "map fst es = map fst (take n es) @ map fst (drop n es)"
    by (metis append_take_drop_id map_append)
  with assms have "set (map fst (take n es)) \<inter> set (map fst (drop n es)) = {}"
    by (metis distinct_append)
  then have "filter ?P (take n es) = []" "filter ?P (drop n es) = drop n es"
    by (fastforce simp: filter_empty_conv filter_id_conv rev_image_eqI)+
  then show ?thesis
    by (metis append_Nil append_take_drop_id filter_append)
qed

text \<open>Eviction keeps the entries that come last in the order of \<open>LastSeen\<close>.\<close>

lemma evict_mset:
  assumes "0 < n" "gm_ok (enHistory e)"
  shows "mset (enHistory (evictOldestHistoryLocked n e)) =
    mset (drop (nat n) (sort_key (\<lambda>(k, s). ghLastSeen s) (enHistory e)))"
proof (cases "enHistory e = []")
  case False
  let ?es = "sort_key (\<lambda>(k, s). ghLastSeen s) (enHistory e)"
  let ?P = "\<lambda>(k, _). k \<notin> set (map fst (take (nat n) ?es))"
  have "mset (map fst ?es) = mset (map fst (enHistory e))"
    by simp
  then have "distinct (map fst ?es)"
    using assms(2) unfolding gm_ok_def by (metis mset_eq_imp_distinct_iff)
  then have "filter ?P ?es = drop (nat n) ?es"
    by (rule filter_keys_drop)
  moreover have "mset (filter ?P ?es) = mset (filter ?P (enHistory e))"
    by (simp only: mset_filter mset_sort)
  ultimately show ?thesis
    using evict_history [OF assms(1) False] by metis
qed (simp add: evictOldestHistoryLocked_def)

lemma evict_length:
  "0 < n \<Longrightarrow> gm_ok (enHistory e) \<Longrightarrow>
     length (enHistory (evictOldestHistoryLocked n e)) = length (enHistory e) - nat n"
  using evict_mset [of n e] by (metis length_drop length_sort size_mset)

lemma evict_subset: "set (enHistory (evictOldestHistoryLocked n e)) \<subseteq> set (enHistory e)"
  by (auto simp: evictOldestHistoryLocked_def fold_gm_del Let_def)

lemma evict_gm_ok: "gm_ok (enHistory e) \<Longrightarrow> gm_ok (enHistory (evictOldestHistoryLocked n e))"
  by (simp add: evictOldestHistoryLocked_def fold_gm_del Let_def)

lemma evict_oldest:
  assumes "0 < n" "gm_ok (enHistory e)"
    and "x \<in> set (enHistory (evictOldestHistoryLocked n e))"
    and "y \<in> set (enHistory e)" "y \<notin> set (enHistory (evictOldestHistoryLocked n e))"
  shows "ghLastSeen (snd y) \<le> ghLastSeen (snd x)"
proof -
  let ?f = "\<lambda>(k :: string, s). ghLastSeen s"
  let ?es = "sort_key ?f (enHistory e)"
  have kept: "set (enHistory (evictOldestHistoryLocked n e)) = set (drop (nat n) ?es)"
    using evict_mset [OF assms(1,2)] by (metis set_mset_mset)
  have all: "set ?es = set (take (nat n) ?es) \<union> set (drop (nat n) ?es)"
    by (metis append_take_drop_id set_append)
  have "y \<in> set (take (nat n) ?es)" "x \<in> set (drop (nat n) ?es)"
    using assms(3-5) all unfolding kept by auto
  moreover have "sorted (map ?f (take (nat n) ?es @ drop (nat n) ?es))"
    by simp
  ultimately have "?f y \<le> ?f x"
    unfolding map_append sorted_append by (metis image_eqI set_map)
  then show ?thesis
    by (simp add: case_prod_beta)
qed

section \<open>The invariant of the table\<close>

text \<open>Every key's state is sound, and no more keys are held than the cap allows.\<close>

definition histories_ok :: "int \<Rightarrow> engine \<Rightarrow> bool" where
  "histories_ok cap e \<longleftrightarrow> gm_ok (enHistory e) \<and> (\<forall>(k, s) \<in> set (enHistory e). history_ok s)
     \<and> int (length (enHistory e)) \<le> cap"

lemma histories_ok_record:
  assumes "histories_ok cap e" "0 < cap" "0 < batch" "0 \<le> score" "score \<le> 100"
  shows "histories_ok cap (snd (recordGatewayHistory rt cap batch now req v score fs tool e))"
proof -
  define key where "key = gatewayHistoryKey rt req"
  from assms have ok: "gm_ok (enHistory e)" and all: "\<And>k s. (k, s) \<in> set (enHistory e) \<Longrightarrow> history_ok s"
    and len: "int (length (enHistory e)) \<le> cap"
    by (auto simp: histories_ok_def)
  show ?thesis
  proof (cases "gm_get (enHistory e) key")
    case (Some s)
    then have "history_ok s" and "key \<in> fst ` set (enHistory e)"
      using all by (force dest: map_of_SomeD)+
    with Some ok all len assms(4,5) show ?thesis
      using set_gm_put [of key "updateHistory now v score fs tool s" "enHistory e"]
      by (auto simp: histories_ok_def recordGatewayHistory_def key_def [symmetric] Let_def gm_length_put
          history_ok_update)
  next
    case None
    define e1 where "e1 = (if 0 < cap \<and> cap \<le> int (length (enHistory e))
      then evictOldestHistoryLocked batch e else e)"
    have "gm_ok (enHistory e1)" "set (enHistory e1) \<subseteq> set (enHistory e)"
      using ok evict_gm_ok [OF ok] evict_subset by (simp_all add: e1_def)
    moreover have "int (length (enHistory e1)) < cap"
      using assms(2,3) len evict_length [OF assms(3) ok] by (auto simp: e1_def)
    moreover have "history_ok (updateHistory now v score fs tool empty_history)"
      using assms(4,5) by (intro inv_intros)
    moreover have "snd (recordGatewayHistory rt cap batch now req v score fs tool e) =
        e1\<lparr>enHistory := gm_put key (updateHistory now v score fs tool empty_history) (enHistory e1)\<rparr>"
      using None by (simp add: recordGatewayHistory_def key_def [symmetric] e1_def Let_def)
    ultimately show ?thesis
      using all set_gm_put [of key "updateHistory now v score fs tool empty_history" "enHistory e1"]
      by (auto simp: histories_ok_def gm_length_put)
  qed
qed

end
