(* ===== verification/Taint.thy ===== *)
theory Taint
  imports Engine
begin

text \<open>
  \<open>internal/policy/taint.go\<close>: the sources, sinks and flows of a tool call. The theorems say which
  sources and sinks a request has, and that the flows are exactly the pairs of a source and a sink.
\<close>

section \<open>Definitions\<close>

record taint_analysis =
  taSources :: "string list"
  taSinks :: "string list"
  taFlows :: "string list"
  taProvenance :: "string list"
  taSignals :: "string list"

definition HasSourcePrefix :: "taint_analysis \<Rightarrow> string \<Rightarrow> bool" where
  "HasSourcePrefix t p \<longleftrightarrow> (\<exists>v \<in> set (taSources t). HasPrefix v p)"

definition HasSinkPrefix :: "taint_analysis \<Rightarrow> string \<Rightarrow> bool" where
  "HasSinkPrefix t p \<longleftrightarrow> (\<exists>v \<in> set (taSinks t). HasPrefix v p)"

definition HasSignalPrefix :: "taint_analysis \<Rightarrow> string \<Rightarrow> bool" where
  "HasSignalPrefix t p \<longleftrightarrow> (\<exists>v \<in> set (taSignals t). HasPrefix v p)"

definition appendUniqueString :: "string list \<Rightarrow> string \<Rightarrow> string list" where
  "appendUniqueString values v =
     (let v = TrimSpace v in
      if v = [] then values else if v \<in> set values then values else values @ [v])"

definition taintSourceTerms :: "string list" where
  "taintSourceTerms = [''canary'', ''honey'', ''decoy'', ''secret'', ''token'', ''credential'', ''password'',
     ''api_key'', ''ssh_key'', ''bearer'', ''env'', ''vault'']"

definition taintSinkTerms :: "string list" where
  "taintSinkTerms = [''webhook'', ''dispatch'', ''issue'', ''upload'', ''post'', ''send'', ''exfil'', ''github'',
     ''slack'', ''discord'', ''invoke-webrequest'', ''curl'', ''wget'']"

definition classifyTaintSource :: "string \<Rightarrow> string" where
  "classifyTaintSource t =
     (if t \<in> {''canary'', ''honey'', ''decoy''} then ''canary''
      else if t \<in> {''secret'', ''token'', ''credential'', ''password'', ''api_key'', ''ssh_key'', ''bearer'', ''env'', ''vault''}
      then ''secret''
      else ''source'')"

definition taintSinkFromDestination :: "runtime \<Rightarrow> string \<Rightarrow> string" where
  "taintSinkFromDestination rt destination =
     (let host = normalizeHost rt destination in
      if host = [] then []
      else if isExternalDestination rt destination then ''destination:'' @ host
      else ''destination:'' @ host)"

definition appendField :: "string \<Rightarrow> string \<Rightarrow> string list \<Rightarrow> string list" where
  "appendField key v provenance =
     (let v = TrimSpace v in
      if v \<noteq> [] then appendUniqueString provenance (key @ '':'' @ v) else provenance)"

definition provenanceKeys :: "string list" where
  "provenanceKeys = [''session_id'', ''conversation_id'', ''trace_id'', ''run_id'', ''agent_id'']"

definition collectGatewayProvenance :: "tool_call_request \<Rightarrow> string list" where
  "collectGatewayProvenance request =
     fold (\<lambda>key. if TrimSpace (gm_str (tcMetadata request) key) \<noteq> []
                  then appendField key (TrimSpace (gm_str (tcMetadata request) key)) else id)
       provenanceKeys
       (appendField ''request'' (tcID request) (appendField ''actor'' (tcActor request)
         (appendField ''host'' (tcHostname request) (appendField ''asset'' (tcAssetID request) []))))"

definition sourceStep :: "runtime \<Rightarrow> string list \<Rightarrow> string \<Rightarrow> taint_analysis \<Rightarrow> taint_analysis" where
  "sourceStep rt pool t a =
     (case gatewayContainsAny rt pool [t] of
        None \<Rightarrow> a
      | Some (matched, variant) \<Rightarrow>
          a\<lparr>taSources := appendUniqueString (taSources a) (classifyTaintSource t @ '':'' @ matched),
            taProvenance := appendUniqueString (taProvenance a) (''source_variant:'' @ variant),
            taSignals := (if variant \<noteq> t
              then appendUniqueString (taSignals a) (''obfuscated_source:'' @ matched) else taSignals a)\<rparr>)"

definition destinationSinks :: "runtime \<Rightarrow> string \<Rightarrow> string list \<Rightarrow> string list" where
  "destinationSinks rt destination sinks =
     (if destination = [] then sinks
      else (let sinks = (if isExternalDestination rt destination
              then appendUniqueString sinks (''external_destination:'' @ normalizeHost rt destination) else sinks);
              sink = taintSinkFromDestination rt destination
            in if sink \<noteq> [] then appendUniqueString sinks sink else sinks))"

definition sinkStep :: "runtime \<Rightarrow> string list \<Rightarrow> string \<Rightarrow> taint_analysis \<Rightarrow> taint_analysis" where
  "sinkStep rt pool t a =
     (case gatewayContainsAny rt pool [t] of
        None \<Rightarrow> a
      | Some (matched, variant) \<Rightarrow>
          a\<lparr>taSinks := appendUniqueString (taSinks a) (''sink:'' @ matched),
            taProvenance := appendUniqueString (taProvenance a) (''sink_variant:'' @ variant),
            taSignals := (if variant \<noteq> t
              then appendUniqueString (taSignals a) (''obfuscated_sink:'' @ matched) else taSignals a)\<rparr>)"

definition taintFields :: "tool_call_request \<Rightarrow> string \<Rightarrow> string \<Rightarrow> string list" where
  "taintFields request tool command =
     [command, tcSignal request, tcDestination request, Join (tcLabels request) '' '',
      metadataText (tcMetadata request), tcActor request, tcHostname request, tool]"

definition taintPool :: "runtime \<Rightarrow> tool_call_request \<Rightarrow> string \<Rightarrow> string \<Rightarrow> string list" where
  "taintPool rt request tool command = gatewayTextVariants rt (taintFields request tool command)"

definition flowList :: "string list \<Rightarrow> string list \<Rightarrow> string list" where
  "flowList sources sinks = concat (map (\<lambda>source. map (\<lambda>sink. source @ ''->'' @ sink) sinks) sources)"

text \<open>\<open>analyzeGatewayTaint\<close> up to the flows.\<close>

definition collectTaint :: "runtime \<Rightarrow> tool_call_request \<Rightarrow> string \<Rightarrow> string \<Rightarrow> taint_analysis" where
  "collectTaint rt request tool command =
     (let pool = taintPool rt request tool command;
          a = \<lparr> taSources = [], taSinks = [], taFlows = [], taProvenance = collectGatewayProvenance request,
                taSignals = [] \<rparr>;
          a = fold (sourceStep rt pool) taintSourceTerms a;
          a = a\<lparr>taSinks := destinationSinks rt (tcDestination request) (taSinks a)\<rparr>
      in fold (sinkStep rt pool) taintSinkTerms a)"

definition analyzeGatewayTaint :: "runtime \<Rightarrow> tool_call_request \<Rightarrow> string \<Rightarrow> string \<Rightarrow> string \<Rightarrow> taint_analysis" where
  "analyzeGatewayTaint rt request tool command signal =
     (let a = collectTaint rt request tool command in
      if taSources a \<noteq> [] \<and> taSinks a \<noteq> []
      then a\<lparr>taFlows := foldl appendUniqueString (taFlows a) (flowList (taSources a) (taSinks a))\<rparr>
      else a)"

section \<open>Collecting strings\<close>

interpretation uniq: unique_collector TrimSpace "\<lambda>s. s \<noteq> []" "\<lambda>xs acc. foldl appendUniqueString acc xs"
  by unfold_locales (simp_all add: add_new_def appendUniqueString_def Let_def)

lemma set_appendUniqueString:
  "set (appendUniqueString xs v) = (if TrimSpace v = [] then set xs else insert (TrimSpace v) (set xs))"
  by (auto simp: appendUniqueString_def Let_def)

lemma TrimSpace_visible_prefix:
  assumes "visible p" "p \<noteq> []"
  shows "\<exists>s'. TrimSpace (p @ s) = p @ s'"
proof -
  let ?P = "\<lambda>(r, _). rune_space r"
  have rs: "runes (p @ s) = map (\<lambda>c. (byte c, [c])) p @ runes s" for s
    using assms(1) by (induction p) (auto simp: visible_def)
  have none: "\<forall>x \<in> set (map (\<lambda>c. (byte c, [c])) p). \<not> ?P x"
    using visible_not_space [OF assms(1)] by auto
  define q where "q = map (\<lambda>c. (byte c, [c])) p"
  obtain x q' where q: "q = q' @ [x]"
    using assms(2) by (metis q_def map_is_Nil_conv rev_exhaust)
  have "trim_by ?P (q @ runes s) = rev (dropWhile ?P (rev (runes s) @ rev q))"
    using none q unfolding trim_by_def q_def [symmetric]
    by (metis (no_types, lifting) append_is_Nil_conv dropWhile_eq_self_iff hd_append2 hd_in_set rev_append snoc_eq_iff_butlast)
  also have "\<dots> = q @ rev (dropWhile ?P (rev (runes s)))"
  proof (cases "\<forall>x \<in> set (rev (runes s)). ?P x")
    case True
    then have "dropWhile ?P (rev (runes s) @ rev q) = dropWhile ?P (rev q)"
      by (intro dropWhile_append2) blast
    also have "\<dots> = rev q"
      using none by (simp add: q_def dropWhile_none)
    finally show ?thesis using True by (simp add: dropWhile_eq_Nil_conv)
  next
    case False
    then show ?thesis
      by (metis (no_types, lifting) dropWhile_append1 rev_append rev_rev_ident)
  qed
  finally have "TrimSpace (p @ s) = unrunes (q @ rev (dropWhile ?P (rev (runes s))))"
    by (simp add: TrimSpace_def TrimFunc_def rs q_def)
  also have "\<dots> = p @ unrunes (rev (dropWhile ?P (rev (runes s))))"
    by (simp add: unrunes_def q_def o_def)
  finally show ?thesis by blast
qed

section \<open>Sources and sinks\<close>

lemma sourceStep_fields:
  "set (taSources (sourceStep rt pool t a)) = set (taSources a) \<union>
     (if term_occurs rt pool t then {TrimSpace (classifyTaintSource t @ '':'' @ t)} - {[]} else {})"
  "taSinks (sourceStep rt pool t a) = taSinks a" "taFlows (sourceStep rt pool t a) = taFlows a"
  using containsNeedles_term [of pool rt t]
  by (auto simp: sourceStep_def set_appendUniqueString split: option.splits)

lemma sinkStep_fields:
  "set (taSinks (sinkStep rt pool t a)) = set (taSinks a) \<union>
     (if term_occurs rt pool t then {TrimSpace (''sink:'' @ t)} - {[]} else {})"
  "taSources (sinkStep rt pool t a) = taSources a" "taFlows (sinkStep rt pool t a) = taFlows a"
  using containsNeedles_term [of pool rt t]
  by (auto simp: sinkStep_def set_appendUniqueString split: option.splits)

lemma fold_sourceStep:
  "set (taSources (fold (sourceStep rt pool) ts a)) = set (taSources a) \<union>
     ({TrimSpace (classifyTaintSource t @ '':'' @ t) | t. t \<in> set ts \<and> term_occurs rt pool t} - {[]})"
  "taSinks (fold (sourceStep rt pool) ts a) = taSinks a" "taFlows (fold (sourceStep rt pool) ts a) = taFlows a"
  by (induction ts arbitrary: a) (auto simp: sourceStep_fields)

lemma fold_sinkStep:
  "set (taSinks (fold (sinkStep rt pool) ts a)) = set (taSinks a) \<union>
     ({TrimSpace (''sink:'' @ t) | t. t \<in> set ts \<and> term_occurs rt pool t} - {[]})"
  "taSources (fold (sinkStep rt pool) ts a) = taSources a" "taFlows (fold (sinkStep rt pool) ts a) = taFlows a"
  by (induction ts arbitrary: a) (auto simp: sinkStep_fields)

text \<open>The terms are visible ASCII, so trimming leaves them alone.\<close>

lemma trimmed_terms:
  "\<forall>t \<in> set taintSourceTerms. TrimSpace (classifyTaintSource t @ '':'' @ t) = classifyTaintSource t @ '':'' @ t"
  "\<forall>t \<in> set taintSinkTerms. TrimSpace (''sink:'' @ t) = ''sink:'' @ t"
  by code_simp+

lemma analyze_collect:
  "taSources (analyzeGatewayTaint rt req tool cmd sig) = taSources (collectTaint rt req tool cmd)"
  "taSinks (analyzeGatewayTaint rt req tool cmd sig) = taSinks (collectTaint rt req tool cmd)"
  "taFlows (collectTaint rt req tool cmd) = []"
  by (simp_all add: analyzeGatewayTaint_def collectTaint_def Let_def fold_sourceStep(3) fold_sinkStep(3))

lemma analyze_sources:
  "set (taSources (analyzeGatewayTaint rt req tool cmd sig)) =
     {classifyTaintSource t @ '':'' @ t | t. t \<in> set taintSourceTerms \<and> term_occurs rt (taintPool rt req tool cmd) t}"
  using trimmed_terms(1)
  by (auto simp: analyze_collect collectTaint_def Let_def fold_sourceStep fold_sinkStep) force+

lemma isExternalDestination_host: "isExternalDestination rt d \<Longrightarrow> normalizeHost rt d \<noteq> []"
  by (auto simp: isExternalDestination_def Let_def)

lemma normalizeHost_Nil [simp]: "normalizeHost rt [] = []"
  by (simp add: normalizeHost_def)

lemma taintSink_simp:
  "taintSinkFromDestination rt d = (if normalizeHost rt d = [] then [] else ''destination:'' @ normalizeHost rt d)"
  by (simp add: taintSinkFromDestination_def Let_def)

lemma label_prefixes:
  "visible ''external_destination:''" "visible ''destination:''" "visible ''sink:''"
  by code_simp+

lemma set_destinationSinks:
  "set (destinationSinks rt d sinks) = set sinks
     \<union> (if isExternalDestination rt d then {TrimSpace (''external_destination:'' @ normalizeHost rt d)} else {})
     \<union> (if normalizeHost rt d \<noteq> [] then {TrimSpace (''destination:'' @ normalizeHost rt d)} else {})"
proof -
  have ne: "TrimSpace (''external_destination:'' @ h) \<noteq> []" "TrimSpace (''destination:'' @ h) \<noteq> []" for h
    using TrimSpace_visible_prefix [OF label_prefixes(1)] TrimSpace_visible_prefix [OF label_prefixes(2)]
    by (metis append_is_Nil_conv list.distinct(1))+
  show ?thesis
    using isExternalDestination_host [of rt d] ne
    by (cases "d = []") (auto simp: destinationSinks_def Let_def set_appendUniqueString taintSink_simp simp del: append_Cons)
qed

lemma analyze_sinks:
  "set (taSinks (analyzeGatewayTaint rt req tool cmd sig)) =
     (if isExternalDestination rt (tcDestination req)
      then {TrimSpace (''external_destination:'' @ normalizeHost rt (tcDestination req))} else {})
   \<union> (if normalizeHost rt (tcDestination req) \<noteq> []
      then {TrimSpace (''destination:'' @ normalizeHost rt (tcDestination req))} else {})
   \<union> {''sink:'' @ t | t. t \<in> set taintSinkTerms \<and> term_occurs rt (taintPool rt req tool cmd) t}"
proof -
  have "{TrimSpace (''sink:'' @ t) | t. t \<in> set taintSinkTerms \<and> term_occurs rt pool t} - {[]} =
      {''sink:'' @ t | t. t \<in> set taintSinkTerms \<and> term_occurs rt pool t}" for pool
    using trimmed_terms(2) by force
  then show ?thesis
    by (simp add: analyze_collect collectTaint_def Let_def fold_sourceStep(2) fold_sinkStep(1)
        set_destinationSinks Un_assoc insert_commute del: append_Cons)
qed

lemma flowList_Nil [simp]: "flowList [] ys = []" "flowList xs [] = []"
  by (simp_all add: flowList_def)

lemma analyze_flows:
  "set (taFlows (analyzeGatewayTaint rt req tool cmd sig)) =
     {TrimSpace (source @ ''->'' @ sink) | source sink.
        source \<in> set (taSources (analyzeGatewayTaint rt req tool cmd sig))
        \<and> sink \<in> set (taSinks (analyzeGatewayTaint rt req tool cmd sig))} - {[]}"
proof -
  have set_flowList: "set (flowList xs ys) = {x @ ''->'' @ y | x y. x \<in> set xs \<and> y \<in> set ys}" for xs ys
    by (auto simp: flowList_def)
  have "set (taFlows (analyzeGatewayTaint rt req tool cmd sig)) =
      set (foldl appendUniqueString [] (flowList (taSources (collectTaint rt req tool cmd)) (taSinks (collectTaint rt req tool cmd))))"
    by (auto simp: analyzeGatewayTaint_def Let_def analyze_collect)
  also have "\<dots> = {TrimSpace (source @ ''->'' @ sink) | source sink.
        source \<in> set (taSources (collectTaint rt req tool cmd))
        \<and> sink \<in> set (taSinks (collectTaint rt req tool cmd))} - {[]}"
    unfolding uniq.collect_set set_flowList by auto
  finally show ?thesis
    unfolding analyze_collect .
qed

section \<open>Reading an analysis\<close>

text \<open>The source terms of a class.\<close>

definition sourceTermsOf :: "string \<Rightarrow> string list" where
  "sourceTermsOf cls = filter (\<lambda>t. classifyTaintSource t = cls) taintSourceTerms"

lemma class_prefixes:
  "\<forall>t \<in> set taintSourceTerms. HasPrefix (classifyTaintSource t @ '':'' @ t) ''secret:'' \<longleftrightarrow> classifyTaintSource t = ''secret''"
  "\<forall>t \<in> set taintSourceTerms. HasPrefix (classifyTaintSource t @ '':'' @ t) ''canary:'' \<longleftrightarrow> classifyTaintSource t = ''canary''"
  "\<forall>t \<in> set taintSourceTerms. classifyTaintSource t = ''secret'' \<or> classifyTaintSource t = ''canary''"
  "\<forall>t \<in> set taintSinkTerms. \<not> HasPrefix (''sink:'' @ t) ''external_destination:''"
  by code_simp+

lemma HasSourcePrefix_secret:
  "HasSourcePrefix (analyzeGatewayTaint rt req tool cmd sig) ''secret:'' \<longleftrightarrow>
     (\<exists>t \<in> set (sourceTermsOf ''secret''). term_occurs rt (taintPool rt req tool cmd) t)"
  unfolding HasSourcePrefix_def analyze_sources sourceTermsOf_def using class_prefixes(1) by fastforce

lemma HasSourcePrefix_canary:
  "HasSourcePrefix (analyzeGatewayTaint rt req tool cmd sig) ''canary:'' \<longleftrightarrow>
     (\<exists>t \<in> set (sourceTermsOf ''canary''). term_occurs rt (taintPool rt req tool cmd) t)"
  unfolding HasSourcePrefix_def analyze_sources sourceTermsOf_def using class_prefixes(2) by fastforce

lemma taSources_empty_iff:
  "taSources (analyzeGatewayTaint rt req tool cmd sig) = [] \<longleftrightarrow>
     (\<forall>t \<in> set taintSourceTerms. \<not> term_occurs rt (taintPool rt req tool cmd) t)"
  unfolding set_empty [symmetric] analyze_sources by blast

lemma destination_not_external: "\<not> HasPrefix (TrimSpace (''destination:'' @ h)) ''external_destination:''"
proof -
  obtain s where "TrimSpace (''destination:'' @ h) = ''destination:'' @ s"
    using TrimSpace_visible_prefix [OF label_prefixes(2)] by blast
  then show ?thesis
    by (simp add: HasPrefix_def)
qed

lemma HasSinkPrefix_external:
  "HasSinkPrefix (analyzeGatewayTaint rt req tool cmd sig) ''external_destination:'' \<longleftrightarrow>
     isExternalDestination rt (tcDestination req)"
proof -
  obtain s where s: "TrimSpace (''external_destination:'' @ normalizeHost rt (tcDestination req)) = ''external_destination:'' @ s"
    using TrimSpace_visible_prefix [OF label_prefixes(1)] by blast
  have "HasPrefix (''external_destination:'' @ s) ''external_destination:''"
    by (rule HasPrefix_append)
  then show ?thesis
    unfolding HasSinkPrefix_def analyze_sinks s
    using class_prefixes(4) destination_not_external by (auto simp del: append_Cons)
qed

lemma taSinks_empty_iff:
  "taSinks (analyzeGatewayTaint rt req tool cmd sig) = [] \<longleftrightarrow>
     normalizeHost rt (tcDestination req) = [] \<and> (\<forall>t \<in> set taintSinkTerms. \<not> term_occurs rt (taintPool rt req tool cmd) t)"
  unfolding set_empty [symmetric] analyze_sinks using isExternalDestination_host [of rt "tcDestination req"]
  by (auto simp del: append_Cons)

lemmas taint_reading = HasSourcePrefix_secret HasSourcePrefix_canary taSources_empty_iff
  HasSinkPrefix_external taSinks_empty_iff

end
