(* ===== verification/Obfuscation.thy ===== *)
theory Obfuscation
  imports GatewayText
begin

text \<open>
  What the recursive decoder of the gateway's matcher sees through: a printable text of at least six
  bytes, wrapped in one to three layers of padded standard base64 or hexadecimal and placed anywhere
  in a field between separators, is one of the variants that the terms and canaries are searched in.
\<close>

section \<open>Layers\<close>

datatype layer = Base64Layer | HexLayer

fun wrap :: "layer \<Rightarrow> string \<Rightarrow> string" where
  "wrap Base64Layer s = b64_encode False True s"
| "wrap HexLayer s = hex_encode s"

text \<open>The outermost layer as the tokenizer leaves it: without the padding.\<close>

fun wrapToken :: "layer \<Rightarrow> string \<Rightarrow> string" where
  "wrapToken Base64Layer s = b64_encode False False s"
| "wrapToken HexLayer s = hex_encode s"

fun wraps :: "layer list \<Rightarrow> string \<Rightarrow> string" where
  "wraps [] s = s"
| "wraps (l # ls) s = wrap l (wraps ls s)"

text \<open>Printable ASCII, blanks included.\<close>

definition printable :: "string \<Rightarrow> bool" where
  "printable s \<longleftrightarrow> (\<forall>c \<in> set s. 32 \<le> byte c \<and> byte c < 127)"

lemma visible_printable: "visible s \<Longrightarrow> printable s"
  by (force simp: visible_def printable_def)

section \<open>Encoded text\<close>

definition b64_raw_char :: "char \<Rightarrow> bool" where
  "b64_raw_char c \<longleftrightarrow> ascii_letter (byte c) \<or> ascii_digit (byte c) \<or> c = CHR ''+'' \<or> c = CHR ''/''"

lemma b64_raw_char: "v < 64 \<Longrightarrow> b64_raw_char (b64_char False v)"
  by (auto simp: b64_raw_char_def b64_char_def ascii_letter_def ascii_digit_def)

lemma b64_raw_chars: "c \<in> set (b64_encode False False s) \<Longrightarrow> b64_raw_char c"
proof (induction "False" "False" s rule: b64_encode.induct)
qed (auto simp: b64_raw_char)

lemma b64_padded:
  "b64_encode u True s = b64_encode u False s @ replicate ((3 - length s mod 3) mod 3) (CHR ''='')"
  by (induction u "True" s rule: b64_encode.induct) (auto simp: numeral_2_eq_2)

lemma b64_raw_length: "length (b64_encode u False s) mod 4 = (if length s mod 3 = 0 then 0 else Suc (length s mod 3))"
  by (induction u "False" s rule: b64_encode.induct) auto

lemma b64_alphabet_visible_string: "visible (b64_encode u p s)"
proof -
  have "33 \<le> byte c \<and> byte c < 127" if "b64_alphabet c" for c
    using that by (auto simp: b64_alphabet_def ascii_letter_def ascii_digit_def)
  then show ?thesis
    unfolding visible_def using b64_encode_alphabet by blast
qed

lemma padBase64_raw: "padBase64 (b64_encode False False s) = b64_encode False True s"
proof -
  have "length s mod 3 = 0 \<or> length s mod 3 = 1 \<or> length s mod 3 = 2" by linarith
  then show ?thesis
    unfolding padBase64_def TrimSpace_visible [OF b64_alphabet_visible_string] Let_def
    using b64_raw_length [of False s] by (auto simp: b64_padded numeral_2_eq_2)
qed

lemma padBase64_padded: "padBase64 (b64_encode False True s) = b64_encode False True s"
  unfolding padBase64_def TrimSpace_visible [OF b64_alphabet_visible_string] Let_def
  using b64_encode_padded_length [of False s] by simp

lemma b64_alphabet_like:
  "\<forall>c \<in> set t. b64_alphabet c \<Longrightarrow> 8 \<le> length t \<Longrightarrow> looksBase64Like rt t"
proof -
  assume all: "\<forall>c \<in> set t. b64_alphabet c" and len: "8 \<le> length t"
  then have "is_ascii t"
    by (force simp: is_ascii_def b64_alphabet_def ascii_letter_def ascii_digit_def)
  then show ?thesis
    using all len
    by (auto simp: looksBase64Like_def runes_ascii alnum_rune_def b64_alphabet_def rune_letter_def rune_digit_def
        ascii_letter_def ascii_digit_def)
qed

lemma hex_digit_like: "d < 16 \<Longrightarrow> (48 \<le> byte (hex_digit d) \<and> byte (hex_digit d) \<le> 57)
    \<or> (97 \<le> byte (hex_digit d) \<and> byte (hex_digit d) \<le> 102)"
  by (simp add: hex_digit_def)

lemma hex_chars:
  "c \<in> set (hex_encode s) \<Longrightarrow> (48 \<le> byte c \<and> byte c \<le> 57) \<or> (97 \<le> byte c \<and> byte c \<le> 102)"
proof (induction s)
  case (Cons a s)
  have "byte a < 256" by simp
  then have "byte a div 16 < 16" "byte a mod 16 < 16" by linarith simp
  with Cons hex_digit_like [of "byte a div 16"] hex_digit_like [of "byte a mod 16"] show ?case by auto
qed simp

lemma hex_encode_length: "length (hex_encode s) = 2 * length s"
  by (induction s) auto

lemma hex_ascii: "is_ascii (hex_encode s)"
  unfolding is_ascii_def using hex_chars by fastforce

lemma hex_like: "4 \<le> length s \<Longrightarrow> looksHexLike (hex_encode s)"
  using hex_chars [of _ s]
  by (auto simp: looksHexLike_def runes_ascii [OF hex_ascii] hex_encode_length)

lemma hex_raw: "c \<in> set (hex_encode s) \<Longrightarrow> b64_raw_char c"
  using hex_chars [of c s] by (auto simp: b64_raw_char_def ascii_letter_def ascii_digit_def)

lemma hex_visible: "visible (hex_encode s)"
  unfolding visible_def using hex_chars by fastforce

lemma wrap_visible: "visible (wrap l s)"
  by (cases l) (simp_all add: hex_visible b64_alphabet_visible_string)

lemma wrap_longer: "6 \<le> length s \<Longrightarrow> 8 \<le> length (wrap l s) \<and> length s < length (wrap l s)"
  using b64_encode_length_ge [of s False True] by (cases l) (auto simp: hex_encode_length)

lemma wrapToken_longer: "6 \<le> length s \<Longrightarrow> 8 \<le> length (wrapToken l s) \<and> length s < length (wrapToken l s)"
  using b64_encode_length_ge [of s False False] by (cases l) (auto simp: hex_encode_length)

section \<open>One layer is decoded\<close>

lemma decodings_b64:
  assumes "looksBase64Like rt t" "b64_decode False True (padBase64 t) = Some s"
  shows "s \<in> set (decodings rt t)"
proof -
  have first: "s \<in> set (List.map_filter f (x # xs))" if "f x = Some s" for f and x :: "bool \<times> bool" and xs
    using that by (simp add: List.map_filter_def)
  have "s \<in> set (List.map_filter (\<lambda>(u, p). b64_decode u p (padBase64 t))
      [(False, True), (False, False), (True, True), (True, False)])"
    by (rule first) (use assms(2) in simp)
  then show ?thesis
    unfolding decodings_def if_P [OF assms(1)] set_append by (rule UnI1)
qed

lemma decodings_hex:
  assumes "looksHexLike t" "hex_decode t = Some s"
  shows "s \<in> set (decodings rt t)"
  using assms by (simp add: decodings_def)

lemma decodings_wrap:
  assumes "6 \<le> length s"
  shows "s \<in> set (decodings rt (wrap l s))" "s \<in> set (decodings rt (wrapToken l s))"
proof -
  have hex: "s \<in> set (decodings rt (hex_encode s))"
    using assms by (intro decodings_hex hex_like hex_decode_encode) simp
  have b64: "s \<in> set (decodings rt (b64_encode False p s))" for p
  proof (rule decodings_b64)
    show "looksBase64Like rt (b64_encode False p s)"
      using b64_encode_alphabet b64_encode_length_ge [of s False p] assms by (intro b64_alphabet_like) auto
    have "padBase64 (b64_encode False p s) = b64_encode False True s"
      by (cases p) (simp_all add: padBase64_raw padBase64_padded)
    then show "b64_decode False True (padBase64 (b64_encode False p s)) = Some s"
      by (simp add: b64_decode_encode)
  qed
  show "s \<in> set (decodings rt (wrap l s))" "s \<in> set (decodings rt (wrapToken l s))"
    using hex b64 by (cases l; simp)+
qed

lemma printable_ascii: "printable s \<Longrightarrow> is_ascii s"
  by (auto simp: printable_def is_ascii_def)

lemma utf8_encode_ascii: "byte c < 128 \<Longrightarrow> utf8_encode (byte c) = [c]"
  by (simp add: utf8_encode_def)

lemma printableGatewayBytes_id: "printable s \<Longrightarrow> printableGatewayBytes rt s = s"
proof -
  assume p: "printable s"
  have "concat (map (\<lambda>c. case if byte c = 10 \<or> byte c = 13 \<or> byte c = 9 \<or> rune_print rt (byte c)
      then Some (byte c) else None of None \<Rightarrow> [] | Some r \<Rightarrow> utf8_encode r) s) = concat (map (\<lambda>c. [c]) s)"
    using p by (intro arg_cong [where f = concat] map_cong)
      (auto simp: printable_def rune_print_def utf8_encode_ascii)
  then show ?thesis
    by (simp add: printableGatewayBytes_def MapRunes_def runes_ascii [OF printable_ascii [OF p]] o_def)
qed

lemma decode_step:
  assumes "s \<in> set (decodings rt t)" "printable s" "TrimSpace s \<noteq> []" "s \<noteq> t"
  shows "set (decodeGatewayCandidatesDepth rt s depth) \<subseteq> set (decodeGatewayCandidatesDepth rt t (Suc depth))"
    "normalizeGatewayText rt s \<noteq> [] \<Longrightarrow>
       normalizeGatewayText rt s \<in> set (decodeGatewayCandidatesDepth rt t (Suc depth))"
  using assms by (auto simp: Let_def printableGatewayBytes_id intro!: bexI [of _ s])

section \<open>Up to three layers\<close>

text \<open>The text that is hidden.\<close>

definition hideable :: "runtime \<Rightarrow> string \<Rightarrow> bool" where
  "hideable rt s \<longleftrightarrow> printable s \<and> 6 \<le> length s \<and> TrimSpace s \<noteq> [] \<and> normalizeGatewayText rt s \<noteq> []"

lemma wraps_ok:
  assumes "hideable rt s"
  shows "printable (wraps ls s) \<and> 6 \<le> length (wraps ls s) \<and> TrimSpace (wraps ls s) \<noteq> []"
proof (induction ls)
  case (Cons l ls)
  let ?w = "wrap l (wraps ls s)"
  have "8 \<le> length ?w"
    using wrap_longer Cons by blast
  moreover have "TrimSpace ?w = ?w"
    by (rule TrimSpace_visible [OF wrap_visible])
  moreover have "printable ?w"
    by (rule visible_printable [OF wrap_visible])
  ultimately show ?case by auto
qed (use assms in \<open>simp add: hideable_def\<close>)

lemma wraps_decoded:
  assumes "hideable rt s" "ls \<noteq> []" "length ls \<le> depth"
  shows "normalizeGatewayText rt s \<in> set (decodeGatewayCandidatesDepth rt (wraps ls s) depth)"
  using assms(2,3)
proof (induction ls arbitrary: depth)
  case (Cons l ls)
  then obtain d where d: "depth = Suc d" by (cases depth) auto
  have ok: "printable (wraps ls s)" "6 \<le> length (wraps ls s)" "TrimSpace (wraps ls s) \<noteq> []"
    using wraps_ok [OF assms(1), of ls] by auto
  have "wraps ls s \<noteq> wrap l (wraps ls s)"
    using wrap_longer [OF ok(2), of l] by auto
  note step = decode_step [OF decodings_wrap(1) [OF ok(2)] ok(1,3) this]
  show ?case
  proof (cases "ls = []")
    case True
    with step(2) assms(1) show ?thesis by (simp add: d hideable_def)
  next
    case False
    with Cons d have "normalizeGatewayText rt s \<in> set (decodeGatewayCandidatesDepth rt (wraps ls s) d)" by simp
    with step(1) [of rt d] show ?thesis unfolding d wraps.simps by blast
  qed
qed simp

lemma token_decoded:
  assumes "hideable rt s" "length ls \<le> 2"
  shows "normalizeGatewayText rt s \<in> set (decodeGatewayCandidates rt (wrapToken l (wraps ls s)))"
proof -
  have ok: "printable (wraps ls s)" "6 \<le> length (wraps ls s)" "TrimSpace (wraps ls s) \<noteq> []"
    using wraps_ok [OF assms(1), of ls] by auto
  have "wraps ls s \<noteq> wrapToken l (wraps ls s)"
    using wrapToken_longer [OF ok(2), of l] by auto
  note step = decode_step [OF decodings_wrap(2) [OF ok(2)] ok(1,3) this]
  have three: "decodeGatewayCandidates rt t = decodeGatewayCandidatesDepth rt t (Suc 2)" for t
    by (simp add: decodeGatewayCandidates_def numeral_eq_Suc)
  show ?thesis
  proof (cases "ls = []")
    case True
    with step(2) [of rt 2] assms(1) show ?thesis unfolding three by (simp add: hideable_def del: decodeGatewayCandidatesDepth.simps)
  next
    case False
    then show ?thesis
      using wraps_decoded [OF assms(1) False assms(2)] step(1) [of rt 2] unfolding three by blast
  qed
qed

section \<open>Finding the token in a field\<close>

lemma fields_runes_skip:
  "xs \<noteq> [] \<Longrightarrow> P (last xs) \<Longrightarrow> fields_runes P (xs @ zs) cur = fields_runes P xs cur @ fields_runes P zs []"
  by (induction P xs cur rule: fields_runes.induct) (auto split: if_splits)

lemma fields_runes_word: "\<forall>x \<in> set w. \<not> P x \<Longrightarrow> fields_runes P (w @ ys) cur = fields_runes P ys (cur @ w)"
  by (induction w arbitrary: cur) auto

lemma fields_runes_token:
  assumes "xs = [] \<or> P (last xs)" "\<forall>x \<in> set w. \<not> P x" "w \<noteq> []" "ys = [] \<or> P (hd ys)"
  shows "w \<in> set (fields_runes P (xs @ w @ ys) [])"
proof -
  have "w \<in> set (fields_runes P (w @ ys) [])"
    using assms(3,4) fields_runes_word [OF assms(2), of ys "[]"] by (cases ys) auto
  with assms(1) show ?thesis
    using fields_runes_skip [of xs P "w @ ys" "[]"] by (cases "xs = []") auto
qed

text \<open>A byte between tokens.\<close>

definition separator :: "char \<Rightarrow> bool" where
  "separator c \<longleftrightarrow> byte c < 128 \<and> \<not> b64_raw_char c"

lemma separator_split:
  assumes "byte c < 128"
  shows "(\<not> (alnum_rune rt (byte c) \<or> byte c = byte (CHR ''+'') \<or> byte c = byte (CHR ''/''))) \<longleftrightarrow> separator c"
proof -
  have "c = CHR ''+'' \<longleftrightarrow> byte c = byte (CHR ''+'')" "c = CHR ''/'' \<longleftrightarrow> byte c = byte (CHR ''/'')"
    by (simp_all only: of_char_eq_iff)
  with assms show ?thesis
    unfolding separator_def b64_raw_char_def alnum_rune_def rune_letter_def rune_digit_def by simp
qed

lemma tokenize_token:
  assumes "is_ascii a" "is_ascii b" "a = [] \<or> separator (last a)" "b = [] \<or> separator (hd b)"
    and "w \<noteq> []" "\<forall>c \<in> set w. b64_raw_char c"
  shows "w \<in> set (tokenizeGatewayText rt (a @ w @ b))"
proof -
  let ?r = "map (\<lambda>c. (byte c, [c]))"
  let ?P = "\<lambda>(r, _ :: string). \<not> (alnum_rune rt r \<or> r = byte (CHR ''+'') \<or> r = byte (CHR ''/''))"
  have w: "is_ascii w"
    using assms(6) by (force simp: is_ascii_def b64_raw_char_def ascii_letter_def ascii_digit_def)
  then have runes: "runes (a @ w @ b) = ?r a @ ?r w @ ?r b"
    using assms(1,2) runes_ascii [of "a @ w @ b"] by (auto simp: is_ascii_def)
  have sep: "?P (byte c, [c]) \<longleftrightarrow> separator c" if "byte c < 128" for c
    using separator_split [OF that] by simp
  have "?r a = [] \<or> ?P (last (?r a))"
    using assms(1,3) sep by (cases "a = []") (auto simp: last_map is_ascii_def)
  moreover have "?r b = [] \<or> ?P (hd (?r b))"
    using assms(2,4) sep by (cases b) (auto simp: is_ascii_def)
  moreover have "\<forall>x \<in> set (?r w). \<not> ?P x"
    using assms(6) w sep by (auto simp: separator_def is_ascii_def)
  ultimately have "?r w \<in> set (fields_runes ?P (?r a @ ?r w @ ?r b) [])"
    using assms(5) by (intro fields_runes_token) auto
  then have "unrunes (?r w) \<in> set (tokenizeGatewayText rt (a @ w @ b))"
    unfolding tokenizeGatewayText_def FieldsFunc_def runes by simp
  then show ?thesis
    by (simp add: unrunes_def o_def)
qed

lemma wrap_token:
  "\<exists>k. wrap l s = wrapToken l s @ replicate k (CHR ''='')" "\<forall>c \<in> set (wrapToken l s). b64_raw_char c"
proof -
  show "\<exists>k. wrap l s = wrapToken l s @ replicate k (CHR ''='')"
  proof (cases l)
    case Base64Layer
    then show ?thesis by (auto simp: b64_padded)
  next
    case HexLayer
    then show ?thesis by (auto intro: exI [of _ 0])
  qed
  show "\<forall>c \<in> set (wrapToken l s). b64_raw_char c"
    using b64_raw_chars hex_raw by (cases l) auto
qed

lemma separator_pad: "separator (CHR ''='')"
  by code_simp

text \<open>The text decoded from a field is one of the field's texts.\<close>

lemma hidden_text_found:
  assumes "hideable rt s" "ls \<noteq> []" "length ls \<le> 3"
    and "is_ascii a" "is_ascii b" "a = [] \<or> separator (last a)" "b = [] \<or> separator (hd b)"
  shows "normalizeGatewayText rt s \<in> set (valueTexts rt (a @ wraps ls s @ b))"
proof -
  obtain l ms where ls: "ls = l # ms" using assms(2) by (cases ls) auto
  obtain k where k: "wraps ls s = wrapToken l (wraps ms s) @ replicate k (CHR ''='')"
    using wrap_token(1) ls by auto
  let ?w = "wrapToken l (wraps ms s)"
  have "6 \<le> length (wraps ms s)" using wraps_ok [OF assms(1)] by blast
  then have "?w \<noteq> []" using wrapToken_longer [of "wraps ms s" l] by auto
  moreover have "is_ascii (replicate k (CHR ''='') @ b)"
    using assms(5) by (auto simp: is_ascii_def)
  moreover have "replicate k (CHR ''='') @ b = [] \<or> separator (hd (replicate k (CHR ''='') @ b))"
    using assms(7) separator_pad by (cases k) auto
  ultimately have "?w \<in> set (tokenizeGatewayText rt (a @ ?w @ replicate k (CHR ''='') @ b))"
    using assms(4,6) wrap_token(2) by (intro tokenize_token) auto
  then have "?w \<in> set (tokenizeGatewayText rt (a @ wraps ls s @ b))"
    by (simp add: k)
  moreover have "normalizeGatewayText rt s \<in> set (decodeGatewayCandidates rt ?w)"
    using token_decoded [OF assms(1)] assms(3) ls by simp
  ultimately show ?thesis
    by (fastforce simp: valueTexts_def)
qed

section \<open>Normalising ASCII text\<close>

definition lower_ascii :: "string \<Rightarrow> bool" where
  "lower_ascii s \<longleftrightarrow> (\<forall>c \<in> set s. byte c < 128 \<and> \<not> ascii_upper (byte c))"

lemma lower_ascii_ToLower: "lower_ascii s \<Longrightarrow> ToLower rt s = s"
proof -
  assume s: "lower_ascii s"
  then have "is_ascii s" by (auto simp: lower_ascii_def is_ascii_def)
  moreover have "concat (map (\<lambda>c. utf8_encode (rune_lower rt (byte c))) s) = concat (map (\<lambda>c. [c]) s)"
    using s by (intro arg_cong [where f = concat] map_cong)
      (auto simp: lower_ascii_def rune_lower_def utf8_encode_ascii)
  ultimately show ?thesis
    by (simp add: ToLower_def MapRunes_def runes_ascii o_def)
qed

lemma ToLower_lower_ascii: "is_ascii s \<Longrightarrow> lower_ascii (ToLower rt s)"
proof -
  assume s: "is_ascii s"
  have "lower_ascii (utf8_encode (rune_lower rt (byte c)))" if "byte c < 128" for c
    using that by (auto simp: lower_ascii_def rune_lower_def ascii_upper_def utf8_encode_def)
  with s show ?thesis
    by (auto simp: ToLower_def MapRunes_def runes_ascii is_ascii_def lower_ascii_def)
qed

lemma TrimSpace_subset: "set (TrimSpace s) \<subseteq> set s"
proof -
  obtain as bs where "runes s = as @ trim_by (\<lambda>(r, _). rune_space r) (runes s) @ bs"
    using trim_by_split by blast
  then have "unrunes (runes s) = unrunes as @ TrimSpace s @ unrunes bs"
    unfolding TrimSpace_def TrimFunc_def by (metis concat_append map_append unrunes_def)
  then show ?thesis
    by (metis Un_upper1 Un_upper2 order_trans set_append unrunes_runes)
qed

lemma normalize_ascii_idem:
  "is_ascii s \<Longrightarrow> normalizeGatewayText rt (normalizeGatewayText rt s) = normalizeGatewayText rt s"
proof -
  assume "is_ascii s"
  then have "lower_ascii (ToLower rt s)" by (rule ToLower_lower_ascii)
  then have "lower_ascii (TrimSpace (ToLower rt s))"
    using TrimSpace_subset [of "ToLower rt s"] by (auto simp: lower_ascii_def)
  then show ?thesis
    by (simp add: normalizeGatewayText_def lower_ascii_ToLower)
qed

lemma hidden_text_variant:
  assumes "hideable rt s" "ls \<noteq> []" "length ls \<le> 3"
    and "is_ascii a" "is_ascii b" "a = [] \<or> separator (last a)" "b = [] \<or> separator (hd b)"
    and "a @ wraps ls s @ b \<in> set values"
  shows "normalizeGatewayText rt s \<in> set (gatewayTextVariants rt values)"
proof -
  have "is_ascii s" "normalizeGatewayText rt s \<noteq> []"
    using assms(1) printable_ascii by (auto simp: hideable_def)
  then show ?thesis
    using hidden_text_found [OF assms(1-7)] assms(8) normalize_ascii_idem [of s rt]
    unfolding gatewayTextVariants_set by (metis (mono_tags, lifting) mem_Collect_eq)
qed

section \<open>Properties\<close>



text \<open>The limit of six bytes is sharp: the built-in term \<open>token\<close> has five, its base64 form is cut to seven
  characters when the tokenizer drops the padding, and the decoder looks at eight or more.\<close>

theorem short_term_evades:
  "''token'' \<in> set secretTerms \<and> wrap Base64Layer ''token'' = ''dG9rZW4=''
   \<and> gatewayContainsAny ascii_runtime (gatewayTextVariants ascii_runtime [''echo token | sh'']) secretTerms \<noteq> None
   \<and> gatewayContainsAny ascii_runtime (gatewayTextVariants ascii_runtime [''echo dG9rZW4= | sh'']) secretTerms = None"
  by code_simp

end
