(* ===== verification/Gateway.thy ===== *)
theory Gateway
  imports History Taint Obfuscation
begin

text \<open>
  The gateway's decision on a tool call, the first half of \<open>internal/policy/gateway.go\<close>:
  \<open>GateToolCall\<close>, \<open>assessGatewayRequest\<close> and \<open>scoreGatewayRequest\<close>. The chain of
  \<open>case\<close> and \<open>else if\<close> branches of the assessment is kept in the source's order, as four groups
  of branches of which the first that applies decides; a branch is the verdict, the reason, the
  severity that the risk is raised to, and the findings it appends.
\<close>

section \<open>Definitions\<close>

definition cloneStringMap :: "string_map \<Rightarrow> string_map" where
  "cloneStringMap values = (if values = [] then [] else map (\<lambda>(k, v). (k, v)) values)"

definition decisionID :: "string \<Rightarrow> string" where
  "decisionID requestID =
     (let requestID = TrimSpace requestID in if requestID = [] then [] else ''dec-'' @ requestID)"

definition maxSeverity :: "severity \<Rightarrow> severity \<Rightarrow> severity" where
  "maxSeverity a b = (if Rank b \<le> Rank a then a else b)"

definition severityForAlerts :: "alert list \<Rightarrow> severity" where
  "severityForAlerts alerts =
     foldl (\<lambda>risk a. if Rank risk < Rank (alSeverity a) then alSeverity a else risk) SeverityInfo alerts"

definition filterOutAlertRule :: "alert list \<Rightarrow> string \<Rightarrow> alert list" where
  "filterOutAlertRule alerts ruleID = filter (\<lambda>a. alRuleID a \<noteq> ruleID) alerts"

definition em_dash :: string where
  "em_dash = [CHR 0xE2, CHR 0x80, CHR 0x94]"

type_synonym assessment = "gateway_verdict \<times> string \<times> severity \<times> string list"

text \<open>The cases of the \<open>switch\<close> before \<open>default\<close>.\<close>

definition assessGuards ::
  "runtime \<Rightarrow> tool_call_request \<Rightarrow> string \<Rightarrow> alert list \<Rightarrow> provenance_status \<Rightarrow> agent_identity_status
     \<Rightarrow> assessment option" where
  "assessGuards rt request tool alerts provenance agentIdentity =
     (if TrimSpace (tcToolName request) = [] then
        Some (GatewayDeny, ''tool name is required'', SeverityHigh, [])
      else if hasAlertRule alerts ''deception.canary.hit'' then
        Some (GatewayDeny, ''deception asset touched or canary signal detected'', SeverityCritical, [])
      else if hasAlertRule alerts ''agent.tool.unapproved'' then
        Some (GatewayDeny, ''tool '' @ Quote rt tool @ '' is not on the approved manifest'', SeverityHigh, [])
      else if provenance = ProvenanceMismatch then
        Some (GatewayDeny, ''tool '' @ Quote rt tool @ '' provenance mismatch '' @ em_dash
          @ '' possible tool spoofing or tampering'', SeverityCritical, [''provenance=mismatch''])
      else if agentIdentity = AgentMismatch then
        Some (GatewayDeny, ''agent identity verification failed for '' @ Quote rt (tcAgentID request) @ '' ''
          @ em_dash @ '' possible impersonation'', SeverityCritical, [''agent_identity=mismatch''])
      else None)"

text \<open>The taint branches of \<open>default\<close>.\<close>

definition assessTaint :: "taint_analysis \<Rightarrow> assessment option" where
  "assessTaint taint =
     (if HasSourcePrefix taint ''canary:'' \<and> 0 < length (taSinks taint) then
        Some (GatewayDeny, ''canary source reached a sink and must be contained'', SeverityCritical, [])
      else if HasSourcePrefix taint ''secret:'' \<and> 0 < length (taSinks taint) then
        Some (GatewayRequireApproval,
          (if HasSignalPrefix taint ''obfuscated_source:'' \<or> HasSignalPrefix taint ''obfuscated_sink:''
           then ''obfuscated sensitive source may flow to a sink and requires approval''
           else ''sensitive source may flow to a sink and requires approval''), SeverityCritical, [])
      else if HasSourcePrefix taint ''secret:'' then
        Some (GatewayRequireApproval,
          (if HasSignalPrefix taint ''obfuscated_source:''
           then ''obfuscated sensitive material referenced by the tool call''
           else ''sensitive material referenced by the tool call''), SeverityCritical, [])
      else if HasSourcePrefix taint ''canary:'' then
        Some (GatewayDeny, ''canary source detected'', SeverityCritical, [])
      else if HasSinkPrefix taint ''external_destination:'' then
        Some (GatewayRequireApproval, ''tool call targets an external sink and requires operator approval'',
          SeverityHigh, [])
      else if 0 < length (taSinks taint) \<and> 0 < length (taSources taint) then
        Some (GatewayRequireApproval, ''source-to-sink flow requires operator approval'', SeverityHigh, [])
      else None)"

text \<open>The branches that search the payload for terms.\<close>

definition assessContent :: "runtime \<Rightarrow> string list \<Rightarrow> assessment option" where
  "assessContent rt payload =
     (case gatewayContainsAny rt payload injectionTerms of
        Some (t, variant) \<Rightarrow> Some
          (if variant \<noteq> t
           then (GatewayRequireApproval, ''obfuscated prompt-injection-like instruction requires approval'',
             SeverityHigh, [''injection_term='' @ t, ''variant='' @ variant])
           else (GatewayRequireApproval, ''prompt-injection-like instruction requires approval'',
             SeverityHigh, [''injection_term='' @ t]))
      | None \<Rightarrow>
     (case gatewayContainsAny rt payload secretTerms of
        Some (t, variant) \<Rightarrow> Some
          (if variant \<noteq> t
           then (GatewayRequireApproval, ''obfuscated sensitive material referenced by the tool call'',
             SeverityCritical, [''secret_term='' @ t, ''variant='' @ variant])
           else (GatewayRequireApproval, ''sensitive material referenced by the tool call'',
             SeverityCritical, [''secret_term='' @ t]))
      | None \<Rightarrow>
     (case gatewayContainsAny rt payload discoveryTerms of
        Some (t, variant) \<Rightarrow> Some (GatewayRequireApproval,
          (if variant \<noteq> t then ''obfuscated discovery-style tool usage requires approval''
           else ''discovery-style tool usage requires approval''),
          SeverityHigh, [''discovery_term='' @ t])
      | None \<Rightarrow>
     (case gatewayContainsAny rt payload lateralMovementTerms of
        Some (t, variant) \<Rightarrow> Some (GatewayRequireApproval,
          (if variant \<noteq> t then ''obfuscated lateral-movement tooling requires approval''
           else ''lateral-movement tooling requires approval''),
          SeverityHigh, [''lateral_term='' @ t])
      | None \<Rightarrow>
     (case gatewayContainsAny rt payload impactTerms of
        Some (t, variant) \<Rightarrow> Some (GatewayRequireApproval,
          (if variant \<noteq> t then ''obfuscated destructive/impact action requires approval''
           else ''destructive/impact action requires approval''),
          SeverityCritical, [''impact_term='' @ t])
      | None \<Rightarrow> None)))))"

text \<open>The branches on the remaining alerts, the provenance and the agent.\<close>

definition assessAlerts ::
  "runtime \<Rightarrow> tool_call_request \<Rightarrow> string \<Rightarrow> alert list \<Rightarrow> provenance_status \<Rightarrow> agent_identity_status
     \<Rightarrow> assessment option" where
  "assessAlerts rt request tool alerts provenance agentIdentity =
     (if hasAlertRule alerts ''network.egress.unknown'' \<or> hasAlertRule alerts ''process.discovery.chain''
         \<or> hasAlertRule alerts ''model.runtime.suspicious'' then
        Some (GatewayRequireApproval, ''tool call requires operator approval'', severityForAlerts alerts, [])
      else if 0 < length alerts then
        Some (GatewayRequireApproval, ''tool call produced security alerts and requires review'',
          severityForAlerts alerts, [])
      else if provenance = ProvenanceMissing then
        Some (GatewayRequireApproval, ''tool '' @ Quote rt tool
          @ '' is missing required provenance and needs operator approval'', SeverityHigh, [''provenance=missing''])
      else if agentIdentity = AgentUnknown then
        Some (GatewayRequireApproval, ''unregistered agent identity '' @ Quote rt (tcAgentID request)
          @ '' requires operator approval'', SeverityHigh, [''agent_identity=unknown''])
      else if agentIdentity = AgentUnidentified then
        Some (GatewayRequireApproval, ''unidentified agent requires operator approval'', SeverityHigh,
          [''agent_identity=unidentified''])
      else None)"

fun firstAssessment :: "assessment option list \<Rightarrow> assessment option" where
  "firstAssessment [] = None"
| "firstAssessment (Some a # as) = Some a"
| "firstAssessment (None # as) = firstAssessment as"

definition payloadFields :: "tool_call_request \<Rightarrow> string \<Rightarrow> string list" where
  "payloadFields request command = [command, tcSignal request, tcDestination request,
     Join (tcLabels request) '' '', metadataText (tcMetadata request)]"

definition assessGatewayRequest ::
  "runtime \<Rightarrow> engine \<Rightarrow> tool_call_request \<Rightarrow> string \<Rightarrow> string \<Rightarrow> string \<Rightarrow> alert list \<Rightarrow> taint_analysis
     \<Rightarrow> gateway_history_snapshot \<Rightarrow> assessment" where
  "assessGatewayRequest rt e request tool command signal alerts taint history =
     (let payload = gatewayTextVariants rt (payloadFields request command);
          base = severityForAlerts alerts;
          provenance = checkToolProvenance rt e tool request;
          agentIdentity = checkAgentIdentity rt e request;
          (verdict, reason, risk, findings) =
            (case assessGuards rt request tool alerts provenance agentIdentity of
               Some (v, why, sev, fs) \<Rightarrow> (v, why, maxSeverity base sev, fs)
             | None \<Rightarrow>
                 (case firstAssessment [assessTaint taint, assessContent rt payload,
                        assessAlerts rt request tool alerts provenance agentIdentity] of
                    Some (v, why, sev, fs) \<Rightarrow> (v, why, maxSeverity base sev, taFlows taint @ fs)
                  | None \<Rightarrow> (GatewayAllow, ''tool '' @ Quote rt tool @ '' matched the approved manifest'',
                      base, taFlows taint)));
          risk = (if risk = SeverityOther [] then SeverityInfo else risk);
          verdict = (if findings \<noteq> [] \<and> verdict = GatewayAllow then GatewayRequireApproval else verdict);
          findings = (if 0 < hsApprovalCount history \<and> verdict = GatewayAllow
            then findings @ [''history_prior_approvals='' @ Itoa (hsApprovalCount history)] else findings)
      in (verdict, reason, risk, findings))"

text \<open>
  The score: one entry per \<open>if\<close> statement of the source, with its condition, the points it adds and
  the factor it appends.
\<close>

definition scoreParts ::
  "runtime \<Rightarrow> tool_call_request \<Rightarrow> string \<Rightarrow> string \<Rightarrow> string \<Rightarrow> alert list \<Rightarrow> taint_analysis
     \<Rightarrow> gateway_history_snapshot \<Rightarrow> (bool \<times> int \<times> string) list" where
  "scoreParts rt request tool command signal alerts taint history =
     (let injection = gatewayContainsAny rt (gatewayTextVariants rt [command, signal, tcDestination request,
            Join (tcLabels request) '' '', metadataText (tcMetadata request)]) injectionTerms
      in
     [(alerts \<noteq> [], Rank (severityForAlerts alerts) * 8, ''alerts='' @ Itoa (int (length alerts))),
      (HasSourcePrefix taint ''secret:'', 20, ''taint:secret_source''),
      (HasSourcePrefix taint ''canary:'', 35, ''taint:canary_source''),
      (HasSinkPrefix taint ''external_destination:'', 15, ''taint:external_sink''),
      (HasSignalPrefix taint ''obfuscated_source:'' \<or> HasSignalPrefix taint ''obfuscated_sink:'', 10,
        ''taint:obfuscated''),
      (injection \<noteq> None, 18, (case injection of Some (t, variant) \<Rightarrow>
          if variant \<noteq> t then ''injection:obfuscated'' else ''injection:keyword'' | None \<Rightarrow> [])),
      (0 < hsCalls history, min (hsCalls history * 2) 12, ''history:calls='' @ Itoa (hsCalls history)),
      (0 < hsApprovalCount history, min (hsApprovalCount history * 8) 24,
        ''history:approvals='' @ Itoa (hsApprovalCount history)),
      (0 < hsDenyCount history, min (hsDenyCount history * 10) 30, ''history:denies='' @ Itoa (hsDenyCount history)),
      (0 < hsRiskScoreMax history, min (hsRiskScoreMax history div 4) 20,
        ''history:max_risk='' @ Itoa (hsRiskScoreMax history)),
      (TrimSpace (tcDestination request) \<noteq> [], 5, ''context:destination''),
      (tool = ''unknown'', 10, ''tool:unknown''),
      (tcLabels request \<noteq> [], min (int (length (tcLabels request)) * 2) 8,
        ''context:labels='' @ Itoa (int (length (tcLabels request))))])"

definition scoreGatewayRequest ::
  "runtime \<Rightarrow> tool_call_request \<Rightarrow> string \<Rightarrow> string \<Rightarrow> string \<Rightarrow> alert list \<Rightarrow> taint_analysis
     \<Rightarrow> gateway_history_snapshot \<Rightarrow> gateway_verdict \<Rightarrow> severity \<Rightarrow> int \<times> string list" where
  "scoreGatewayRequest rt request tool command signal alerts taint history verdict risk =
     (let parts = filter fst (scoreParts rt request tool command signal alerts taint history);
          score = Rank risk * 10 + sum_list (map (\<lambda>(_, points, _). points) parts);
          factors = [''risk='' @ severity_str risk, ''verdict='' @ verdict_str verdict]
            @ map (\<lambda>(_, _, factor). factor) parts;
          factors = (if 10 < length factors then last_n 10 factors else factors);
          score = (if score < 0 then 0 else score);
          score = (if 100 < score then 100 else score)
      in (score, factors))"

definition gateCommand :: "tool_call_request \<Rightarrow> string" where
  "gateCommand request = TrimSpace (Join [tcCommand request, tcArguments request] '' '')"

definition gateSignal :: "tool_call_request \<Rightarrow> string" where
  "gateSignal request = TrimSpace (Join [tcSignal request, metadataText (tcMetadata request)] '' '')"

definition gateEvent :: "runtime \<Rightarrow> tool_call_request \<Rightarrow> event" where
  "gateEvent rt request =
     \<lparr> evID = tcID request, evTimestamp = tcTimestamp request, evTenant = TrimSpace (tcTenant request),
       evKind = EventAgentToolCall, evAssetID = tcAssetID request, evHostname = tcHostname request,
       evActor = tcActor request, evSourceIP = [], evDestination = tcDestination request, evProcess = [],
       evToolName = toolOf rt (tcToolName request), evCommand = gateCommand request,
       evSignal = gateSignal request, evLabels = tcLabels request,
       evMetadata = cloneStringMap (tcMetadata request) \<rparr>"

definition gateEgressEvent :: "runtime \<Rightarrow> tool_call_request \<Rightarrow> event" where
  "gateEgressEvent rt request = (let event = gateEvent rt request in
     \<lparr> evID = evID event, evTimestamp = evTimestamp event, evTenant = [], evKind = EventNetworkFlow,
       evAssetID = evAssetID event, evHostname = evHostname event, evActor = evActor event,
       evSourceIP = evSourceIP event, evDestination = tcDestination request, evProcess = [],
       evToolName = [], evCommand = [], evSignal = tcSignal request, evLabels = tcLabels request,
       evMetadata = cloneStringMap (tcMetadata request) \<rparr>)"

definition gateAlerts :: "runtime \<Rightarrow> engine \<Rightarrow> tool_call_request \<Rightarrow> alert list" where
  "gateAlerts rt e request =
     (let alerts = Evaluate rt e (gateEvent rt request);
          alerts = (if tcProtocolSurface request then filterOutAlertRule alerts ''agent.tool.unapproved'' else alerts)
      in if tcDestination request \<noteq> [] \<and> isExternalDestination rt (tcDestination request)
            \<and> \<not> egressApprovedForTenant rt e (tcTenant request) (tcDestination request)
         then alerts @ [newAlert ''network.egress.unknown'' ''Unknown outbound destination''
           ''Tool call referenced an outbound destination outside the approved egress list.''
           SeverityMedium (gateEgressEvent rt request)
           [(''destination'', tcDestination request), (''tool'', toolOf rt (tcToolName request)),
            (''actor'', tcActor request)]]
         else alerts)"

text \<open>The two thresholds on the score.\<close>

definition escalate :: "taint_analysis \<Rightarrow> int \<Rightarrow> gateway_verdict \<times> string \<Rightarrow> gateway_verdict \<times> string" where
  "escalate taint riskScore vr =
     (let (verdict, reason) =
        (if fst vr = GatewayAllow \<and> 70 \<le> riskScore
         then (GatewayRequireApproval, ''risk score exceeded the inline allow threshold'') else vr)
      in if verdict = GatewayRequireApproval \<and> 90 \<le> riskScore \<and> HasSourcePrefix taint ''canary:''
         then (GatewayDeny, ''critical taint path exceeded the deny threshold'') else (verdict, reason))"

definition putIf :: "bool \<Rightarrow> string \<Rightarrow> string \<Rightarrow> string_map \<Rightarrow> string_map" where
  "putIf c k v m = (if c then gm_put k v m else m)"

definition decisionMetadata ::
  "tool_call_request \<Rightarrow> string \<Rightarrow> gateway_verdict \<Rightarrow> severity \<Rightarrow> taint_analysis \<Rightarrow> int
     \<Rightarrow> gateway_history_snapshot \<Rightarrow> string list \<Rightarrow> string list \<Rightarrow> string_map" where
  "decisionMetadata request tool verdict risk taint riskScore history findings riskFactors =
     (let m = cloneStringMap (tcMetadata request);
          m = gm_put ''tool'' tool m;
          m = gm_put ''actor'' (tcActor request) m;
          m = gm_put ''asset_id'' (tcAssetID request) m;
          m = gm_put ''hostname'' (tcHostname request) m;
          m = gm_put ''verdict'' (verdict_str verdict) m;
          m = gm_put ''risk'' (severity_str risk) m;
          m = putIf (tcDestination request \<noteq> []) ''destination'' (tcDestination request) m;
          m = putIf (tcSignal request \<noteq> []) ''signal'' (tcSignal request) m;
          m = putIf (tcID request \<noteq> []) ''request_id'' (tcID request) m;
          m = putIf (taSources taint \<noteq> []) ''taint_sources'' (Join (taSources taint) '';'') m;
          m = putIf (taSinks taint \<noteq> []) ''taint_sinks'' (Join (taSinks taint) '';'') m;
          m = putIf (taFlows taint \<noteq> []) ''taint_flows'' (Join (taFlows taint) '';'') m;
          m = putIf (taProvenance taint \<noteq> []) ''taint_provenance'' (Join (taProvenance taint) '';'') m;
          m = gm_put ''risk_score'' (Itoa riskScore) m;
          m = gm_put ''history_context'' (contextString history) m;
          m = putIf (findings \<noteq> []) ''signals'' (Join findings '';'') m
      in putIf (riskFactors \<noteq> []) ''risk_factors'' (Join riskFactors '';'') m)"

text \<open>\<open>now\<close> is the clock when the call starts, \<open>later\<close> when its history is recorded.\<close>

definition GateToolCall ::
  "runtime \<Rightarrow> time \<Rightarrow> time \<Rightarrow> tool_call_request \<Rightarrow> engine \<Rightarrow> tool_call_decision \<times> engine" where
  "GateToolCall rt now later request e =
     (let tool = toolOf rt (tcToolName request);
          command = gateCommand request;
          signal = gateSignal request;
          alerts = gateAlerts rt e request;
          taint = analyzeGatewayTaint rt request tool command signal;
          historyBefore = gatewayHistorySnapshot rt e request;
          (verdict, reason, risk, findings) =
            assessGatewayRequest rt e request tool command signal alerts taint historyBefore;
          (riskScore, riskFactors) =
            scoreGatewayRequest rt request tool command signal alerts taint historyBefore verdict risk;
          (verdict, reason) = escalate taint riskScore (verdict, reason);
          (historyAfter, e') = recordGatewayHistory rt maxGatewayHistoryEntries gatewayHistoryEvictBatch later
            request verdict riskScore (findings @ riskFactors) tool e
      in (\<lparr> dcID = decisionID (tcID request), dcRequestID = tcID request, dcToolName = tool,
            dcVerdict = verdict, dcReason = reason, dcRisk = risk, dcCreatedAt = now, dcAction = None,
            dcAlerts = alerts, dcRecommendedActions = [],
            dcMetadata = decisionMetadata request tool verdict risk taint riskScore historyAfter findings riskFactors \<rparr>, e'))"

section \<open>Severity\<close>

lemma severityForAlerts_empty [simp]: "severityForAlerts [] = SeverityInfo"
  by (simp add: severityForAlerts_def)

lemma foldl_severity:
  "Rank (foldl (\<lambda>risk a. if Rank risk < Rank (alSeverity a) then alSeverity a else risk) r as) =
     foldl max (Rank r) (map (\<lambda>a. Rank (alSeverity a)) as)"
proof (induction as arbitrary: r)
  case (Cons a as)
  show ?case
    using Cons.IH [of "if Rank r < Rank (alSeverity a) then alSeverity a else r"] by (auto simp: max_def)
qed simp

lemma foldl_max_ge: "(m :: int) \<le> foldl max m xs \<and> (\<forall>x \<in> set xs. x \<le> foldl max m xs)"
proof (induction xs arbitrary: m)
  case (Cons x xs)
  from Cons.IH [of "max m x"] show ?case by auto
qed simp

lemma Rank_severityForAlerts_ge: "a \<in> set as \<Longrightarrow> Rank (alSeverity a) \<le> Rank (severityForAlerts as)"
  unfolding severityForAlerts_def foldl_severity using foldl_max_ge by simp

lemma Rank_maxSeverity: "Rank (maxSeverity a b) = max (Rank a) (Rank b)"
  by (simp add: maxSeverity_def)

section \<open>The score\<close>

lemma sum_list_filter_fst:
  "sum_list (map (\<lambda>(_, p, _). p) (filter fst ps)) = sum_list (map (\<lambda>(c, p, _). if c then p else (0::int)) ps)"
  by (induction ps) auto

lemma scoreGatewayRequest_score:
  "fst (scoreGatewayRequest rt req tool cmd sig alerts taint h v risk) =
     max 0 (min 100 (Rank risk * 10 +
       sum_list (map (\<lambda>(c, p, _). if c then p else 0) (scoreParts rt req tool cmd sig alerts taint h))))"
  unfolding scoreGatewayRequest_def Let_def sum_list_filter_fst by simp

lemma score_bounds:
  "0 \<le> fst (scoreGatewayRequest rt req tool cmd sig alerts taint h v risk)"
  "fst (scoreGatewayRequest rt req tool cmd sig alerts taint h v risk) \<le> 100"
  unfolding scoreGatewayRequest_score by simp_all

lemma factors_bound: "length (snd (scoreGatewayRequest rt req tool cmd sig alerts taint h v risk)) \<le> 10"
  by (simp add: scoreGatewayRequest_def Let_def)

text \<open>No statement of the score takes points away.\<close>

lemma scoreParts_nonneg:
  "(c, p, f) \<in> set (scoreParts rt req tool cmd sig alerts taint h) \<Longrightarrow> c \<Longrightarrow> 0 \<le> p"
  using Rank_bounds [of "severityForAlerts alerts"]
  by (auto simp: scoreParts_def Let_def)

lemma sum_parts_nonneg:
  "set ps \<subseteq> set (scoreParts rt req tool cmd sig alerts taint h) \<Longrightarrow>
     0 \<le> sum_list (map (\<lambda>(c, p, _). if c then p else (0::int)) ps)"
proof (induction ps)
  case (Cons x ps)
  obtain c p f where "x = (c, p, f)" by (cases x)
  with Cons scoreParts_nonneg [of c p f rt req tool cmd sig alerts taint h] show ?case by auto
qed simp

text \<open>A canary and a secret source together reach the deny threshold at critical risk.\<close>

lemma score_canary_secret:
  assumes "HasSourcePrefix taint ''secret:''" "HasSourcePrefix taint ''canary:''" "Rank risk = 5"
  shows "90 \<le> fst (scoreGatewayRequest rt req tool cmd sig alerts taint h v risk)"
proof -
  let ?g = "\<lambda>(c, p, _). if c then p else (0::int)"
  let ?ps = "scoreParts rt req tool cmd sig alerts taint h"
  obtain a rest where ps: "?ps = a # (HasSourcePrefix taint ''secret:'', 20, ''taint:secret_source'')
      # (HasSourcePrefix taint ''canary:'', 35, ''taint:canary_source'') # rest"
    unfolding scoreParts_def Let_def by blast
  have "0 \<le> sum_list (map ?g [a])" "0 \<le> sum_list (map ?g rest)"
    using sum_parts_nonneg [of "[a]" rt req tool cmd sig alerts taint h]
      sum_parts_nonneg [of rest rt req tool cmd sig alerts taint h] by (auto simp: ps)
  then show ?thesis
    unfolding scoreGatewayRequest_score ps using assms by simp
qed

section \<open>The decision\<close>

text \<open>The quantities of one call.\<close>

definition gateTaint :: "runtime \<Rightarrow> tool_call_request \<Rightarrow> taint_analysis" where
  "gateTaint rt req = analyzeGatewayTaint rt req (toolOf rt (tcToolName req)) (gateCommand req) (gateSignal req)"

definition gateAssessment :: "runtime \<Rightarrow> engine \<Rightarrow> tool_call_request \<Rightarrow> assessment" where
  "gateAssessment rt e req = assessGatewayRequest rt e req (toolOf rt (tcToolName req)) (gateCommand req)
     (gateSignal req) (gateAlerts rt e req) (gateTaint rt req) (gatewayHistorySnapshot rt e req)"

definition gateScore :: "runtime \<Rightarrow> engine \<Rightarrow> tool_call_request \<Rightarrow> int" where
  "gateScore rt e req = (case gateAssessment rt e req of (verdict, reason, risk, findings) \<Rightarrow>
     fst (scoreGatewayRequest rt req (toolOf rt (tcToolName req)) (gateCommand req) (gateSignal req)
       (gateAlerts rt e req) (gateTaint rt req) (gatewayHistorySnapshot rt e req) verdict risk))"

lemmas gate_quantities = gateTaint_def gateAssessment_def gateScore_def

lemma gate_verdict_reason:
  "(dcVerdict (fst (GateToolCall rt now later req e)), dcReason (fst (GateToolCall rt now later req e))) =
     escalate (gateTaint rt req) (gateScore rt e req)
       (fst (gateAssessment rt e req), fst (snd (gateAssessment rt e req)))"
  by (simp add: GateToolCall_def gate_quantities Let_def split: prod.split)

lemma gateScore_bounds: "0 \<le> gateScore rt e req \<and> gateScore rt e req \<le> 100"
  by (simp add: gateScore_def score_bounds split: prod.split)

lemma gate_alerts: "dcAlerts (fst (GateToolCall rt now later req e)) = gateAlerts rt e req"
  by (simp add: GateToolCall_def Let_def split: prod.split)

text \<open>The thresholds only restrict.\<close>

lemma escalate_ge: "fst vr \<le> fst (escalate t score vr)"
  by (cases vr; cases "fst vr") (auto simp: escalate_def Let_def)

lemma escalate_Allow: "fst (escalate t score vr) = GatewayAllow \<longleftrightarrow> fst vr = GatewayAllow \<and> score < 70"
  by (cases vr; cases "fst vr") (auto simp: escalate_def Let_def)

lemma escalate_Deny:
  "fst (escalate t score vr) = GatewayDeny \<longleftrightarrow> fst vr = GatewayDeny \<or> (90 \<le> score \<and> HasSourcePrefix t ''canary:'')"
  by (cases vr; cases "fst vr") (auto simp: escalate_def Let_def)

lemma gate_Allow:
  "dcVerdict (fst (GateToolCall rt now later req e)) = GatewayAllow \<longleftrightarrow>
     fst (gateAssessment rt e req) = GatewayAllow \<and> gateScore rt e req < 70"
  using gate_verdict_reason [of rt now later req e] escalate_Allow by (metis fst_conv)

lemma gate_Deny:
  "dcVerdict (fst (GateToolCall rt now later req e)) = GatewayDeny \<longleftrightarrow>
     fst (gateAssessment rt e req) = GatewayDeny
     \<or> 90 \<le> gateScore rt e req \<and> HasSourcePrefix (gateTaint rt req) ''canary:''"
  using gate_verdict_reason [of rt now later req e] escalate_Deny by (metis fst_conv)

section \<open>The groups of branches\<close>

lemma assessGuards_None:
  "assessGuards rt req tool alerts prov agent = None \<longleftrightarrow>
     TrimSpace (tcToolName req) \<noteq> [] \<and> \<not> hasAlertRule alerts ''deception.canary.hit''
     \<and> \<not> hasAlertRule alerts ''agent.tool.unapproved'' \<and> prov \<noteq> ProvenanceMismatch \<and> agent \<noteq> AgentMismatch"
  by (simp add: assessGuards_def)

lemma assessGuards_Deny: "assessGuards rt req tool alerts prov agent = Some (v, r) \<Longrightarrow> v = GatewayDeny"
  by (auto simp: assessGuards_def split: if_splits)

lemma assessContent_None:
  "assessContent rt (gatewayTextVariants rt fs) = None \<longleftrightarrow>
     \<not> mentions rt fs injectionTerms \<and> \<not> mentions rt fs secretTerms \<and> \<not> mentions rt fs discoveryTerms
     \<and> \<not> mentions rt fs lateralMovementTerms \<and> \<not> mentions rt fs impactTerms"
  unfolding contains_mentions [symmetric] by (simp add: assessContent_def split: option.split)

lemma assessContent_verdict: "assessContent rt vs = Some (v, r) \<Longrightarrow> v = GatewayRequireApproval"
  by (auto simp: assessContent_def split: option.splits if_splits)

lemma assessAlerts_None:
  "assessAlerts rt req tool alerts prov agent = None \<longleftrightarrow>
     alerts = [] \<and> prov \<noteq> ProvenanceMissing \<and> agent \<noteq> AgentUnknown \<and> agent \<noteq> AgentUnidentified"
  by (auto simp: assessAlerts_def)

lemma assessAlerts_verdict:
  "assessAlerts rt req tool alerts prov agent = Some (v, r) \<Longrightarrow> v = GatewayRequireApproval"
  by (auto simp: assessAlerts_def split: if_splits)

lemma assessTaint_None:
  "assessTaint t = None \<longleftrightarrow> \<not> HasSourcePrefix t ''canary:'' \<and> \<not> HasSourcePrefix t ''secret:''
     \<and> \<not> HasSinkPrefix t ''external_destination:'' \<and> \<not> (taSinks t \<noteq> [] \<and> taSources t \<noteq> [])"
  by (auto simp: assessTaint_def)

lemma assessTaint_verdict:
  "assessTaint t = Some (v, why, sev, fs) \<Longrightarrow>
     v = (if HasSourcePrefix t ''canary:'' \<and> (taSinks t \<noteq> [] \<or> \<not> HasSourcePrefix t ''secret:'')
          then GatewayDeny else GatewayRequireApproval)
     \<and> (HasSourcePrefix t ''secret:'' \<or> HasSourcePrefix t ''canary:'' \<longrightarrow> sev = SeverityCritical)"
  by (auto simp: assessTaint_def split: if_splits)

lemma branches_not_Allow:
  "assessTaint t = Some a \<Longrightarrow> fst a \<noteq> GatewayAllow"
  "assessContent rt vs = Some a \<Longrightarrow> fst a \<noteq> GatewayAllow"
  "assessAlerts rt req tool alerts prov agent = Some a \<Longrightarrow> fst a \<noteq> GatewayAllow"
  using assessTaint_verdict [of t "fst a" "fst (snd a)" "fst (snd (snd a))" "snd (snd (snd a))"]
    assessContent_verdict [of rt vs "fst a" "snd a"]
    assessAlerts_verdict [of rt req tool alerts prov agent "fst a" "snd a"] by (simp_all split: if_splits)

lemma firstAssessment_None: "firstAssessment as = None \<longleftrightarrow> (\<forall>a \<in> set as. a = None)"
  by (induction as rule: firstAssessment.induct) auto

lemma firstAssessment_Some: "firstAssessment as = Some a \<Longrightarrow> Some a \<in> set as"
  by (induction as rule: firstAssessment.induct) auto

section \<open>The verdict of the assessment\<close>

definition gateGuards :: "runtime \<Rightarrow> engine \<Rightarrow> tool_call_request \<Rightarrow> assessment option" where
  "gateGuards rt e req = assessGuards rt req (toolOf rt (tcToolName req)) (gateAlerts rt e req)
     (checkToolProvenance rt e (toolOf rt (tcToolName req)) req) (checkAgentIdentity rt e req)"

definition gateBranches :: "runtime \<Rightarrow> engine \<Rightarrow> tool_call_request \<Rightarrow> assessment option" where
  "gateBranches rt e req = firstAssessment [assessTaint (gateTaint rt req),
     assessContent rt (gatewayTextVariants rt (payloadFields req (gateCommand req))),
     assessAlerts rt req (toolOf rt (tcToolName req)) (gateAlerts rt e req)
       (checkToolProvenance rt e (toolOf rt (tcToolName req)) req) (checkAgentIdentity rt e req)]"

lemma gateBranches_cases:
  assumes "gateBranches rt e req = Some a"
  shows "assessTaint (gateTaint rt req) = Some a \<or> assessTaint (gateTaint rt req) = None \<and> fst a = GatewayRequireApproval"
proof (cases "assessTaint (gateTaint rt req)")
  case None
  with assms have "firstAssessment [assessContent rt (gatewayTextVariants rt (payloadFields req (gateCommand req))),
      assessAlerts rt req (toolOf rt (tcToolName req)) (gateAlerts rt e req)
       (checkToolProvenance rt e (toolOf rt (tcToolName req)) req) (checkAgentIdentity rt e req)] = Some a"
    by (simp add: gateBranches_def)
  from firstAssessment_Some [OF this] have "fst a = GatewayRequireApproval"
    using assessContent_verdict [of rt _ "fst a" "snd a"] assessAlerts_verdict [of rt _ _ _ _ _ "fst a" "snd a"] by auto
  with None show ?thesis by simp
qed (use assms in \<open>simp add: gateBranches_def\<close>)

lemma gateBranches_not_Allow: "gateBranches rt e req = Some a \<Longrightarrow> fst a \<noteq> GatewayAllow"
  using gateBranches_cases [of rt e req a] branches_not_Allow(1) [of "gateTaint rt req" a] by force

lemma gateGuards_Deny: "gateGuards rt e req = Some a \<Longrightarrow> fst a = GatewayDeny"
  unfolding gateGuards_def by (metis assessGuards_Deny prod.collapse)

lemma gateAssessment_verdict:
  "fst (gateAssessment rt e req) =
     (case gateGuards rt e req of Some a \<Rightarrow> GatewayDeny
      | None \<Rightarrow> (case gateBranches rt e req of Some a \<Rightarrow> fst a
          | None \<Rightarrow> if taFlows (gateTaint rt req) \<noteq> [] then GatewayRequireApproval else GatewayAllow))"
  using gateGuards_Deny [of rt e req] gateBranches_not_Allow [of rt e req]
  unfolding gateAssessment_def assessGatewayRequest_def gateGuards_def [symmetric]
    gateBranches_def [symmetric] Let_def
  by (auto simp: case_prod_beta split: option.splits)

lemma gateAssessment_risk:
  assumes "gateGuards rt e req = None" "gateBranches rt e req = Some (v, why, SeverityCritical, fs)"
  shows "Rank (fst (snd (snd (gateAssessment rt e req)))) = 5"
proof -
  have "fst (snd (snd (gateAssessment rt e req))) =
      (let r = maxSeverity (severityForAlerts (gateAlerts rt e req)) SeverityCritical in
       if r = SeverityOther [] then SeverityInfo else r)"
    using assms unfolding gateAssessment_def assessGatewayRequest_def gateGuards_def [symmetric]
      gateBranches_def [symmetric] Let_def by simp
  moreover have five: "Rank (maxSeverity s SeverityCritical) = 5" for s
    using Rank_bounds [of s] by (simp add: Rank_maxSeverity)
  moreover have "maxSeverity s SeverityCritical \<noteq> SeverityOther []" for s
    using five [of s] by auto
  ultimately show ?thesis
    by (simp add: Let_def)
qed

lemma gateTaint_reading:
  "HasSourcePrefix (gateTaint rt req) ''secret:'' \<longleftrightarrow> (\<exists>t \<in> set (sourceTermsOf ''secret'').
     term_occurs rt (taintPool rt req (toolOf rt (tcToolName req)) (gateCommand req)) t)"
  "HasSourcePrefix (gateTaint rt req) ''canary:'' \<longleftrightarrow> (\<exists>t \<in> set (sourceTermsOf ''canary'').
     term_occurs rt (taintPool rt req (toolOf rt (tcToolName req)) (gateCommand req)) t)"
  "taSources (gateTaint rt req) = [] \<longleftrightarrow> (\<forall>t \<in> set taintSourceTerms.
     \<not> term_occurs rt (taintPool rt req (toolOf rt (tcToolName req)) (gateCommand req)) t)"
  "HasSinkPrefix (gateTaint rt req) ''external_destination:'' \<longleftrightarrow> isExternalDestination rt (tcDestination req)"
  unfolding gateTaint_def by (rule taint_reading)+

lemma gateTaint_no_flows: "taSources (gateTaint rt req) = [] \<Longrightarrow> taFlows (gateTaint rt req) = []"
  unfolding gateTaint_def set_empty [symmetric] analyze_flows by auto

lemma gateTaint_sources:
  "taSources (gateTaint rt req) = [] \<longleftrightarrow>
     \<not> HasSourcePrefix (gateTaint rt req) ''canary:'' \<and> \<not> HasSourcePrefix (gateTaint rt req) ''secret:''"
  unfolding gateTaint_reading sourceTermsOf_def using class_prefixes(3) by auto

section \<open>The alerts of a call\<close>

lemma toolApprovedForTenant_trim [simp]: "toolApprovedForTenant e (TrimSpace t) tool = toolApprovedForTenant e t tool"
  by (simp add: toolApprovedForTenant_def)

lemma cloneStringMap_id [simp]: "cloneStringMap m = m"
  by (simp add: cloneStringMap_def case_prod_beta)

lemma gateEvent_fields [simp]:
  "evKind (gateEvent rt req) = EventAgentToolCall" "evTenant (gateEvent rt req) = TrimSpace (tcTenant req)"
  "evToolName (gateEvent rt req) = toolOf rt (tcToolName req)" "evLabels (gateEvent rt req) = tcLabels req"
  by (simp_all add: gateEvent_def)

lemma hasAlertRule_filterOut: "hasAlertRule (filterOutAlertRule as q) r \<longleftrightarrow> hasAlertRule as r \<and> r \<noteq> q"
  by (auto simp: hasAlertRule_def filterOutAlertRule_def)

text \<open>The name under which the engine looks the tool up; it is normalised twice on the way.\<close>

abbreviation gateTool :: "runtime \<Rightarrow> tool_call_request \<Rightarrow> string" where
  "gateTool rt req \<equiv> toolOf rt (toolOf rt (tcToolName req))"

lemma gateAlerts_canary:
  "hasAlertRule (gateAlerts rt e req) ''deception.canary.hit'' \<longleftrightarrow>
     hasLabel rt (tcLabels req) ''canary'' \<or> hasLabel rt (tcLabels req) ''deception''
     \<or> MatchDeception rt e (deceptionFields (gateEvent rt req)) \<noteq> None"
  unfolding gateAlerts_def Let_def Evaluate_def
  by (simp add: alert_group_rules hasAlertRule_filterOut del: not_None_eq)

lemma gateAlerts_unapproved:
  "hasAlertRule (gateAlerts rt e req) ''agent.tool.unapproved'' \<longleftrightarrow>
     \<not> tcProtocolSurface req \<and> \<not> toolApprovedForTenant e (tcTenant req) (gateTool rt req)"
  unfolding gateAlerts_def Let_def Evaluate_def
  by (simp add: alert_group_rules hasAlertRule_filterOut)

lemma filterOut_simps:
  "filterOutAlertRule [] q = []"
  "filterOutAlertRule (a # as) q = (if alRuleID a = q then filterOutAlertRule as q else a # filterOutAlertRule as q)"
  "filterOutAlertRule (as @ bs) q = filterOutAlertRule as q @ filterOutAlertRule bs q"
  by (simp_all add: filterOutAlertRule_def)

lemma toolAlerts_empty:
  assumes "evKind ev = EventAgentToolCall"
  shows "toolAlerts rt e ev = [] \<longleftrightarrow> toolApprovedForTenant e (evTenant ev) (toolOf rt (evToolName ev))
      \<and> \<not> mentions rt (exposureFields rt ev) exposureTerms"
    and "filterOutAlertRule (toolAlerts rt e ev) ''agent.tool.unapproved'' = [] \<longleftrightarrow>
      \<not> mentions rt (exposureFields rt ev) exposureTerms"
  unfolding contains_mentions [symmetric] exposureFields_def
  by (auto simp: toolAlerts_def assms Let_def filterOut_simps split: option.splits)

lemma canaryAlerts_empty:
  "canaryAlerts rt e ev = [] \<longleftrightarrow> \<not> (evKind ev = EventDeceptionHit \<or> hasLabel rt (evLabels ev) ''canary''
     \<or> hasLabel rt (evLabels ev) ''deception'' \<or> MatchDeception rt e (deceptionFields ev) \<noteq> None)"
  "filterOutAlertRule (canaryAlerts rt e ev) ''agent.tool.unapproved'' = canaryAlerts rt e ev"
  unfolding deceptionFields_def by (auto simp: canaryAlerts_def filterOut_simps split: option.splits)

lemma modelAlerts_empty:
  assumes "evKind ev = EventAgentToolCall"
  shows "modelAlerts rt ev = [] \<longleftrightarrow> \<not> mentions rt (modelFields ev) modelRuntimeTerms"
    and "filterOutAlertRule (modelAlerts rt ev) ''agent.tool.unapproved'' = modelAlerts rt ev"
  unfolding contains_mentions [symmetric] modelFields_def
  by (auto simp: modelAlerts_def assms filterOut_simps)

lemma other_groups_empty:
  assumes "evKind ev = EventAgentToolCall"
  shows "egressAlerts rt e ev = []" "discoveryAlerts rt ev = []"
  by (simp_all add: egressAlerts_def discoveryAlerts_def assms)

lemmas alert_groups_empty = toolAlerts_empty canaryAlerts_empty modelAlerts_empty other_groups_empty

lemma gateAlerts_empty:
  "gateAlerts rt e req = [] \<longleftrightarrow>
     (tcProtocolSurface req \<or> toolApprovedForTenant e (tcTenant req) (gateTool rt req))
     \<and> \<not> mentions rt (exposureFields rt (gateEvent rt req)) exposureTerms
     \<and> \<not> (hasLabel rt (tcLabels req) ''canary'' \<or> hasLabel rt (tcLabels req) ''deception''
          \<or> MatchDeception rt e (deceptionFields (gateEvent rt req)) \<noteq> None)
     \<and> \<not> mentions rt (modelFields (gateEvent rt req)) modelRuntimeTerms
     \<and> \<not> (tcDestination req \<noteq> [] \<and> isExternalDestination rt (tcDestination req)
          \<and> \<not> egressApprovedForTenant rt e (tcTenant req) (tcDestination req))"
  by (simp add: gateAlerts_def Let_def Evaluate_def filterOut_simps alert_groups_empty del: not_None_eq)

section \<open>Properties\<close>

text \<open>The fields the taint analysis reads, for one call.\<close>

abbreviation gateTaintFields :: "runtime \<Rightarrow> tool_call_request \<Rightarrow> string list" where
  "gateTaintFields rt req \<equiv> taintFields req (toolOf rt (tcToolName req)) (gateCommand req)"

abbreviation gatePayload :: "tool_call_request \<Rightarrow> string list" where
  "gatePayload req \<equiv> payloadFields req (gateCommand req)"

lemma gateTaint_mentions:
  "HasSourcePrefix (gateTaint rt req) ''canary:'' \<longleftrightarrow> mentions rt (gateTaintFields rt req) (sourceTermsOf ''canary'')"
  "HasSourcePrefix (gateTaint rt req) ''secret:'' \<longleftrightarrow> mentions rt (gateTaintFields rt req) (sourceTermsOf ''secret'')"
  "taSources (gateTaint rt req) = [] \<longleftrightarrow> \<not> mentions rt (gateTaintFields rt req) taintSourceTerms"
  by (simp_all add: gateTaint_reading mentions_def taintPool_def)

lemma gateBranches_None:
  "gateBranches rt e req = None \<longleftrightarrow> \<not> mentions rt (gateTaintFields rt req) taintSourceTerms
     \<and> \<not> isExternalDestination rt (tcDestination req)
     \<and> \<not> mentions rt (gatePayload req) injectionTerms \<and> \<not> mentions rt (gatePayload req) secretTerms
     \<and> \<not> mentions rt (gatePayload req) discoveryTerms \<and> \<not> mentions rt (gatePayload req) lateralMovementTerms
     \<and> \<not> mentions rt (gatePayload req) impactTerms
     \<and> gateAlerts rt e req = [] \<and> checkToolProvenance rt e (toolOf rt (tcToolName req)) req \<noteq> ProvenanceMissing
     \<and> checkAgentIdentity rt e req \<notin> {AgentUnknown, AgentUnidentified}"
  unfolding gateTaint_mentions(3) [symmetric]
  by (auto simp: gateBranches_def firstAssessment_None assessTaint_None assessContent_None assessAlerts_None
      gateTaint_reading(4) gateTaint_sources)

lemma gateGuards_None:
  "gateGuards rt e req = None \<longleftrightarrow> TrimSpace (tcToolName req) \<noteq> []
     \<and> \<not> (hasLabel rt (tcLabels req) ''canary'' \<or> hasLabel rt (tcLabels req) ''deception''
         \<or> MatchDeception rt e (deceptionFields (gateEvent rt req)) \<noteq> None)
     \<and> \<not> (\<not> tcProtocolSurface req \<and> \<not> toolApprovedForTenant e (tcTenant req) (gateTool rt req))
     \<and> checkToolProvenance rt e (toolOf rt (tcToolName req)) req \<noteq> ProvenanceMismatch
     \<and> checkAgentIdentity rt e req \<noteq> AgentMismatch"
  unfolding gateGuards_def assessGuards_None gateAlerts_canary gateAlerts_unapproved by (rule refl)

text \<open>C1: the gateway allows a tool call exactly when nothing speaks against it: the call names a tool
  that is approved for the tenant (or is a protocol operation), its provenance and agent are verified
  or not required, no canary is touched, no sensitive source term occurs in any field under any
  decoding, the destination is not external, the payload names no injection, secret, discovery,
  lateral-movement or impact term, and the score is below the inline threshold.\<close>

theorem gate_allows_iff:
  "dcVerdict (fst (GateToolCall rt now later req e)) = GatewayAllow \<longleftrightarrow>
     TrimSpace (tcToolName req) \<noteq> []
     \<and> (tcProtocolSurface req \<or> toolApprovedForTenant e (tcTenant req) (gateTool rt req))
     \<and> checkToolProvenance rt e (toolOf rt (tcToolName req)) req \<in> {ProvenanceNotRequired, ProvenanceVerified}
     \<and> checkAgentIdentity rt e req \<in> {AgentNotRequired, AgentVerified}
     \<and> \<not> hasLabel rt (tcLabels req) ''canary'' \<and> \<not> hasLabel rt (tcLabels req) ''deception''
     \<and> MatchDeception rt e (deceptionFields (gateEvent rt req)) = None
     \<and> \<not> mentions rt (exposureFields rt (gateEvent rt req)) exposureTerms
     \<and> \<not> mentions rt (modelFields (gateEvent rt req)) modelRuntimeTerms
     \<and> \<not> mentions rt (gateTaintFields rt req) taintSourceTerms
     \<and> \<not> isExternalDestination rt (tcDestination req)
     \<and> \<not> mentions rt (gatePayload req) injectionTerms \<and> \<not> mentions rt (gatePayload req) secretTerms
     \<and> \<not> mentions rt (gatePayload req) discoveryTerms \<and> \<not> mentions rt (gatePayload req) lateralMovementTerms
     \<and> \<not> mentions rt (gatePayload req) impactTerms
     \<and> gateScore rt e req < 70"
proof -
  let ?prov = "checkToolProvenance rt e (toolOf rt (tcToolName req)) req"
  have cases: "?prov \<in> {ProvenanceNotRequired, ProvenanceVerified} \<longleftrightarrow> ?prov \<noteq> ProvenanceMismatch \<and> ?prov \<noteq> ProvenanceMissing"
    "checkAgentIdentity rt e req \<in> {AgentNotRequired, AgentVerified} \<longleftrightarrow>
      checkAgentIdentity rt e req \<noteq> AgentMismatch \<and> checkAgentIdentity rt e req \<notin> {AgentUnknown, AgentUnidentified}"
    by (cases ?prov; simp) (cases "checkAgentIdentity rt e req"; simp)
  have "taFlows (gateTaint rt req) = []" if "gateBranches rt e req = None"
    using that gateTaint_no_flows [of rt req] gateBranches_None gateTaint_mentions(3) by blast
  then have allow: "fst (gateAssessment rt e req) = GatewayAllow \<longleftrightarrow>
      gateGuards rt e req = None \<and> gateBranches rt e req = None"
    using gateBranches_not_Allow [of rt e req] by (auto simp: gateAssessment_verdict split: option.splits)
  show ?thesis
    unfolding gate_Allow allow gateGuards_None gateBranches_None gateAlerts_empty cases by argo
qed

text \<open>C2: the gateway denies a call exactly for a missing tool name, a canary, an unapproved tool, a
  provenance or agent mismatch, or a canary source term anywhere in the request. A canary source
  beside a secret one without a sink is at first only sent for approval, and the score then denies it.\<close>

theorem gate_denies_iff:
  "dcVerdict (fst (GateToolCall rt now later req e)) = GatewayDeny \<longleftrightarrow>
     TrimSpace (tcToolName req) = []
     \<or> hasLabel rt (tcLabels req) ''canary'' \<or> hasLabel rt (tcLabels req) ''deception''
     \<or> MatchDeception rt e (deceptionFields (gateEvent rt req)) \<noteq> None
     \<or> (\<not> tcProtocolSurface req \<and> \<not> toolApprovedForTenant e (tcTenant req) (gateTool rt req))
     \<or> checkToolProvenance rt e (toolOf rt (tcToolName req)) req = ProvenanceMismatch
     \<or> checkAgentIdentity rt e req = AgentMismatch
     \<or> mentions rt (gateTaintFields rt req) (sourceTermsOf ''canary'')"
proof (cases "gateGuards rt e req")
  case (Some a)
  then have "fst (gateAssessment rt e req) = GatewayDeny" by (simp add: gateAssessment_verdict)
  moreover from Some have "gateGuards rt e req \<noteq> None" by simp
  ultimately show ?thesis
    unfolding gate_Deny gateGuards_None by blast
next
  case None
  have "dcVerdict (fst (GateToolCall rt now later req e)) = GatewayDeny \<longleftrightarrow>
      HasSourcePrefix (gateTaint rt req) ''canary:''"
  proof (cases "HasSourcePrefix (gateTaint rt req) ''canary:''")
    case True
    then obtain a where a: "assessTaint (gateTaint rt req) = Some a"
      using assessTaint_None [of "gateTaint rt req"] by blast
    then have b: "gateBranches rt e req = Some a" by (simp add: gateBranches_def)
    obtain v why sev fs where split: "a = (v, why, sev, fs)" by (cases a)
    note tv = assessTaint_verdict [OF a [unfolded split]]
    have "fst (gateAssessment rt e req) = v"
      using None b split by (simp add: gateAssessment_verdict)
    moreover have "90 \<le> gateScore rt e req" if "HasSourcePrefix (gateTaint rt req) ''secret:''"
      using score_canary_secret [OF that True] gateAssessment_risk [OF None] b split tv True
      unfolding gateScore_def by (simp add: case_prod_beta)
    ultimately show ?thesis
      unfolding gate_Deny using True tv by (auto split: if_splits)
  next
    case False
    have "fst a \<noteq> GatewayDeny" if "gateBranches rt e req = Some a" for a
      using gateBranches_cases [OF that] assessTaint_verdict [of "gateTaint rt req" "fst a" "fst (snd a)" "fst (snd (snd a))" "snd (snd (snd a))"] False
      by auto
    then have "fst (gateAssessment rt e req) \<noteq> GatewayDeny"
      using None by (simp add: gateAssessment_verdict split: option.split)
    with False show ?thesis unfolding gate_Deny by simp
  qed
  with None show ?thesis
    unfolding gateGuards_None gateTaint_mentions by blast
qed

text \<open>A call that names a tool outside the allowlist, with a canary under two layers in its arguments.\<close>

definition sample_request :: tool_call_request where
  "sample_request = \<lparr> tcID = ''r1'', tcTimestamp = 1, tcTenant = [], tcAssetID = ''a1'', tcHostname = [],
     tcActor = ''bot'', tcAgentID = [], tcAgentToken = [], tcToolName = ''siem_search'', tcToolFingerprint = [],
     tcToolPublisher = [], tcProtocolSurface = False, tcCommand = ''search'',
     tcArguments = ''q='' @ wraps [HexLayer, Base64Layer] ''AKIA-DECOY-01'' @ '' x'', tcSignal = [],
     tcDestination = [], tcLabels = [], tcMetadata = [] \<rparr>"

theorem gate_denies_iff_witness:
  "dcVerdict (fst (GateToolCall ascii_runtime 1 2 (sample_request\<lparr>tcToolName := ''rm''\<rparr>) sample_engine)) = GatewayDeny"
proof -
  have "\<not> tcProtocolSurface (sample_request\<lparr>tcToolName := ''rm''\<rparr>)"
    "\<not> toolApprovedForTenant sample_engine (tcTenant (sample_request\<lparr>tcToolName := ''rm''\<rparr>))
       (gateTool ascii_runtime (sample_request\<lparr>tcToolName := ''rm''\<rparr>))"
    by code_simp+
  then show ?thesis unfolding gate_denies_iff by blast
qed



text \<open>A canary of five bytes is found as it stands and missed in base64.\<close>

theorem short_canary_evades:
  "let e = sample_engine\<lparr>enDeception := [(''c'', sample_canary\<lparr>dtValue := ''K7x9Q''\<rparr>)]\<rparr> in
   MatchDeception ascii_runtime e (deceptionFields (gateEvent ascii_runtime (sample_request\<lparr>tcArguments := ''q=K7x9Q''\<rparr>))) \<noteq> None
   \<and> MatchDeception ascii_runtime e (deceptionFields (gateEvent ascii_runtime (sample_request\<lparr>tcArguments := ''q='' @ wrap Base64Layer ''K7x9Q''\<rparr>))) = None"
  by code_simp
section \<open>The decision's record\<close>

lemma gm_str_putIf: "gm_str (putIf c k v m) j = (if c \<and> j = k then v else gm_str m j)"
  by (simp add: putIf_def)

lemma decisionMetadata_reads:
  "gm_str (decisionMetadata req tool v r t score h fs rfs) ''verdict'' = verdict_str v"
  "gm_str (decisionMetadata req tool v r t score h fs rfs) ''risk'' = severity_str r"
  "gm_str (decisionMetadata req tool v r t score h fs rfs) ''tool'' = tool"
  "gm_str (decisionMetadata req tool v r t score h fs rfs) ''risk_score'' = Itoa score"
  "gm_str (decisionMetadata req tool v r t score h fs rfs) ''history_context'' = contextString h"
  by (simp_all add: decisionMetadata_def Let_def gm_str_putIf)

lemma GateToolCall_eq:
  "GateToolCall rt now later req e =
     (let (v, why, risk, findings) = gateAssessment rt e req;
          (score, factors) = scoreGatewayRequest rt req (toolOf rt (tcToolName req)) (gateCommand req) (gateSignal req)
            (gateAlerts rt e req) (gateTaint rt req) (gatewayHistorySnapshot rt e req) v risk;
          (v', why') = escalate (gateTaint rt req) score (v, why);
          (h, e') = recordGatewayHistory rt maxGatewayHistoryEntries gatewayHistoryEvictBatch later
            req v' score (findings @ factors) (toolOf rt (tcToolName req)) e
      in (\<lparr> dcID = decisionID (tcID req), dcRequestID = tcID req, dcToolName = toolOf rt (tcToolName req),
            dcVerdict = v', dcReason = why', dcRisk = risk, dcCreatedAt = now, dcAction = None,
            dcAlerts = gateAlerts rt e req, dcRecommendedActions = [],
            dcMetadata = decisionMetadata req (toolOf rt (tcToolName req)) v' risk (gateTaint rt req) score h findings factors \<rparr>, e'))"
  by (simp add: GateToolCall_def gateAssessment_def gateTaint_def Let_def)

lemma GateToolCall_engine:
  "\<exists>v fs. 0 \<le> gateScore rt e req \<and> gateScore rt e req \<le> 100 \<and> v = dcVerdict (fst (GateToolCall rt now later req e)) \<and>
     snd (GateToolCall rt now later req e) = snd (recordGatewayHistory rt maxGatewayHistoryEntries
       gatewayHistoryEvictBatch later req v (gateScore rt e req) fs (toolOf rt (tcToolName req)) e)"
  using gateScore_bounds [of rt e req]
  by (simp add: GateToolCall_eq gateScore_def Let_def case_prod_beta) blast

text \<open>the decision record agrees with the decision: its metadata carries the verdict and risk that
  were decided and the score, which lies between 0 and 100, and the call is answered under the
  request's ID.\<close>

theorem decision_record:
  "let d = fst (GateToolCall rt now later req e) in
     gm_str (dcMetadata d) ''verdict'' = verdict_str (dcVerdict d)
   \<and> gm_str (dcMetadata d) ''risk'' = severity_str (dcRisk d)
   \<and> gm_str (dcMetadata d) ''tool'' = dcToolName d
   \<and> gm_str (dcMetadata d) ''risk_score'' = Itoa (gateScore rt e req)
   \<and> 0 \<le> gateScore rt e req \<and> gateScore rt e req \<le> 100
   \<and> dcRequestID d = tcID req \<and> dcAlerts d = gateAlerts rt e req \<and> dcCreatedAt d = now"
  using gateScore_bounds [of rt e req]
  by (simp add: GateToolCall_eq gateScore_def Let_def case_prod_beta decisionMetadata_reads)

section \<open>The engine as a state machine\<close>

text \<open>One operation on the engine, whatever its arguments.\<close>

inductive engine_step :: "runtime \<Rightarrow> engine \<Rightarrow> engine \<Rightarrow> bool" for rt where
  step_gate: "engine_step rt e (snd (GateToolCall rt now later req e))"
| step_set_tokens: "engine_step rt e (SetDeceptionTokens rt now tokens e)"
| step_add_token: "engine_step rt e (snd (AddDeceptionToken rt now token e))"
| step_remove_token: "engine_step rt e (snd (RemoveDeceptionToken i e))"
| step_set_overlay: "engine_step rt e (snd (SetTenantPolicy rt p e))"
| step_remove_overlay: "engine_step rt e (snd (RemoveTenantPolicy t e))"
| step_reload: "engine_step rt e (Reload rt now c e)"

inductive engine_reachable :: "runtime \<Rightarrow> engine \<Rightarrow> bool" for rt where
  reach_new: "engine_reachable rt (New rt now c)"
| reach_step: "engine_reachable rt e \<Longrightarrow> engine_step rt e e' \<Longrightarrow> engine_reachable rt e'"

inductive_cases engine_stepE: "engine_step rt e e'"

lemma record_frame:
  "engine_ok e \<Longrightarrow> engine_ok (snd (recordGatewayHistory rt cap batch now req v score fs tool e))"
  by (auto simp: engine_ok_def deception_ok_def overlays_ok_def recordGatewayHistory_def
      evictOldestHistoryLocked_def Let_def split: option.splits)

lemma other_steps_history:
  "enHistory (SetDeceptionTokens rt now tokens e) = enHistory e"
  "enHistory (snd (AddDeceptionToken rt now token e)) = enHistory e"
  "enHistory (snd (RemoveDeceptionToken i e)) = enHistory e"
  "enHistory (snd (SetTenantPolicy rt p e)) = enHistory e"
  "enHistory (snd (RemoveTenantPolicy t e)) = enHistory e"
  "enHistory (Reload rt now c e) = enHistory e"
  by (simp_all add: SetDeceptionTokens_frame AddDeceptionToken_def case_prod_beta registerDeception_frame
      RemoveDeceptionToken_def SetTenantPolicy_def RemoveTenantPolicy_def Reload_def Let_def)

definition engine_inv :: "engine \<Rightarrow> bool" where
  "engine_inv e \<longleftrightarrow> engine_ok e \<and> histories_ok maxGatewayHistoryEntries e"

lemma engine_inv_step: "engine_step rt e e' \<Longrightarrow> engine_inv e \<Longrightarrow> engine_inv e'"
proof (induction rule: engine_step.induct)
  case (step_gate e now later req)
  obtain v fs where eq: "snd (GateToolCall rt now later req e) = snd (recordGatewayHistory rt maxGatewayHistoryEntries
       gatewayHistoryEvictBatch later req v (gateScore rt e req) fs (toolOf rt (tcToolName req)) e)"
    using GateToolCall_engine by metis
  have "0 < maxGatewayHistoryEntries" "0 < gatewayHistoryEvictBatch"
    by (simp_all add: maxGatewayHistoryEntries_def gatewayHistoryEvictBatch_def)
  with step_gate show ?case
    unfolding eq engine_inv_def using gateScore_bounds record_frame histories_ok_record by metis
qed (auto simp: engine_inv_def histories_ok_def other_steps_history engine_ok_deception engine_ok_overlays engine_ok_Reload)

text \<open>C5: whatever operations an engine has gone through since it was built, its registries and
  allowlists are well formed, every key's history counts its calls by verdict, keeps at most eight
  factors and a maximal score of at most 100, and no more than 50,000 keys are held.\<close>

theorem reachable_engines_are_sound:
  assumes "engine_reachable rt e"
  shows "engine_ok e \<and> gm_ok (enHistory e) \<and> length (enHistory e) \<le> 50000
    \<and> (\<forall>(k, s) \<in> set (enHistory e). ghCalls s = ghAllowCount s + ghApprovalCount s + ghDenyCount s
         \<and> 0 \<le> ghRiskScoreMax s \<and> ghRiskScoreMax s \<le> 100 \<and> length (ghRecentFactors s) \<le> 8)"
proof -
  from assms have "engine_inv e"
  proof induction
    case (reach_new now c)
    then show ?case
      by (simp add: engine_inv_def engine_ok_New histories_ok_def New_fields maxGatewayHistoryEntries_def)
  next
    case (reach_step e e')
    then show ?case using engine_inv_step by blast
  qed
  then show ?thesis
    by (auto simp: engine_inv_def histories_ok_def history_ok_def maxGatewayHistoryEntries_def)
qed

theorem reachable_engines_are_sound_witness:
  "let e = snd (GateToolCall ascii_runtime 1 2 sample_request (NewDefault ascii_runtime 0)) in
     engine_ok e \<and> gm_ok (enHistory e) \<and> length (enHistory e) \<le> 50000
    \<and> (\<forall>(k, s) \<in> set (enHistory e). ghCalls s = ghAllowCount s + ghApprovalCount s + ghDenyCount s
         \<and> 0 \<le> ghRiskScoreMax s \<and> ghRiskScoreMax s \<le> 100 \<and> length (ghRecentFactors s) \<le> 8)"
  unfolding Let_def NewDefault_def
  by (rule reachable_engines_are_sound) (rule reach_step [OF reach_new step_gate])

end
