(* ===== verification/AppState.thy ===== *)
theory AppState
  imports Tenants Sessions Planner License Exporters NetAddr ConfigLoad Gateway "HOL-Library.Word"
begin

text \<open>
  The state of the server (\<open>App\<close> of \<open>internal/server/server.go\<close>) and the operations every handler is
  made of: identifiers, the preparation of events, alerts and actions, audit records, the export of
  alerts, ingestion, the limit on gateway calls in flight and the latency samples. A handler is a function
  of an environment (\<open>app_env\<close>: the clock, random bytes, the resolver, the network and the JSON decoders),
  a request and the state, and returns a response and the new state.
\<close>

section \<open>State and environment\<close>

record app =
  apTenancy :: tenancy
  apPolicy :: engine
  apCorrelator :: correlator
  apResponder :: planner
  apPolicyPath :: string
  apThreatPackPath :: string
  apAuth :: authenticator
  apTrustedProxies :: "ip_net list"
  apGatewayLimit :: nat
  apGatewayInFlight :: nat
  apGatewaySamples :: "duration list"
  apGatewayRejected :: nat
  apWebhook :: webhook
  apTicketWebhook :: webhook
  apResponseWebhook :: webhook
  apGitHub :: github
  apJira :: jira
  apServiceNow :: servicenow
  apMCPUpstreamURL :: string
  apMCPUpstreamToken :: string
  apProxyAllowLocalTargets :: bool
  apOIDCEnabled :: bool
  apSAMLEnabled :: bool
  apInstanceName :: string
  apPublicURL :: string
  apExportErr :: string
  apStartedAt :: time
  apCounter :: "64 word"
  apLicenseStatus :: license_status

text \<open>The bodies the server decodes; \<open>Inl\<close> is the decoder's error.\<close>

record proxy_body =
  pbUpstreamURL :: string
  pbBody :: string
  pbHeaders :: string_map
  pbToolCall :: tool_call_request

text \<open>
  A JSON-RPC request of the MCP proxy: the method, the raw parameters, and, when they decode to an object,
  its members and the object as \<open>json.Marshal\<close> prints it. A member is what \<open>stringFromAny\<close> tells apart: a
  string, a number with its \<open>%v\<close> text, a boolean, null, or an array or object with its canonical text.
\<close>

datatype json_value = JString string | JNumber string | JBool bool | JNull | JCompound string

record mcp_rpc =
  mrMethod :: string
  mrParams :: string
  mrDecoded :: "((string, json_value) gomap \<times> string) option"

record app_json =
  ajToolCall :: "string \<Rightarrow> string + tool_call_request"
  ajEvents :: "string \<Rightarrow> string + event list"
  ajLogin :: "string \<Rightarrow> string + string \<times> string"
  ajTenant :: "string \<Rightarrow> string + string \<times> tenant_settings"
  ajDeceptionToken :: "string \<Rightarrow> string + deception_token"
  ajTenantPolicy :: "string \<Rightarrow> string + tenant_policy"
  ajApproval :: "string \<Rightarrow> string + string \<times> string"
  ajAlertID :: "string \<Rightarrow> string + string"
  ajProxy :: "string \<Rightarrow> string + proxy_body"
  ajConfig :: "string \<Rightarrow> file_config option"
  ajThreatPack :: "string \<Rightarrow> threat_pack option"
  ajMCP :: "string \<Rightarrow> string + mcp_rpc"
  ajMarshalToolCall :: "tool_call_request \<Rightarrow> string + string"

text \<open>
  What one request sees of the world: the tenants' environment with the clock, a later reading of the
  clock, the duration of the request, the random bytes drawn when the counter has a given value, the order
  \<open>sort.Slice\<close> gives, the network (sending, resolving, forwarding), a URL printed without its user part,
  TLS and the JSON decoders.
\<close>

record app_env =
  aeTenants :: tenant_env
  aeLater :: time
  aeElapsed :: duration
  aeRandom :: "64 word \<Rightarrow> string option"
  aeSortSlice :: "event list \<Rightarrow> event list"
  aeNet :: export_net
  aeLookup :: "string \<Rightarrow> string + ip_addr list"
  aeWithoutUser :: "string \<Rightarrow> string"
  aeForward :: "url \<times> ip_addr \<Rightarrow> string_map \<Rightarrow> string \<Rightarrow> string + int \<times> string_map \<times> string"
  aeCodec :: session_codec
  aeSessionRandom :: "string option"
  aeTLS :: bool
  aeJSON :: app_json

abbreviation aeRuntime :: "app_env \<Rightarrow> runtime" where
  "aeRuntime env \<equiv> teRuntime (aeTenants env)"

abbreviation aeNow :: "app_env \<Rightarrow> time" where
  "aeNow env \<equiv> ioNow (teIO (aeTenants env))"

section \<open>Identifiers\<close>

definition identifierRune :: "nat \<Rightarrow> nat" where
  "identifierRune r = (if 97 \<le> r \<and> r \<le> 122 then r else if 48 \<le> r \<and> r \<le> 57 then r
     else if r = 45 \<or> r = 95 then r else 45)"

definition sanitizeIdentifier :: "runtime \<Rightarrow> string \<Rightarrow> string" where
  "sanitizeIdentifier rt value =
     (let value = ToLower rt (TrimSpace value) in
      if value = [] then ''default''
      else (let result = TrimFunc (\<lambda>r. r = 45) (MapRunes (\<lambda>r. Some (identifierRune r)) value) in
        if result = [] then ''default'' else result))"

definition nextID :: "app_env \<Rightarrow> string \<Rightarrow> app \<Rightarrow> string \<times> app" where
  "nextID env kind a =
     (let n = apCounter a + 1;
          base = kind @ ''-'' @ sanitizeIdentifier (aeRuntime env) (apInstanceName a) @ ''-'' @ nat_str (unat n)
      in (case aeRandom env n of None \<Rightarrow> base | Some buf \<Rightarrow> base @ ''-'' @ hex_encode buf, a\<lparr>apCounter := n\<rparr>))"

section \<open>Preparing records\<close>

definition prepareEvent :: "app_env \<Rightarrow> string \<Rightarrow> event \<Rightarrow> app \<Rightarrow> event \<times> app" where
  "prepareEvent env tenant ev a =
     (let (i, a) = (if evID ev = [] then nextID env ''evt'' a else (evID ev, a))
      in (ev\<lparr>evTenant := tenantOrDefault tenant, evID := i,
            evTimestamp := (if time_is_zero (evTimestamp ev) then aeNow env else evTimestamp ev)\<rparr>, a))"

definition prepareAlert :: "app_env \<Rightarrow> string \<Rightarrow> alert \<Rightarrow> app \<Rightarrow> alert \<times> app" where
  "prepareAlert env tenant al a =
     (let (i, a) = (if alID al = [] then nextID env ''alrt'' a else (alID al, a));
          al = al\<lparr>alTenant := tenant, alID := i,
            alCreatedAt := (if time_is_zero (alCreatedAt al) then aeNow env else alCreatedAt al),
            alStatus := (if alStatus al = AlertStatusOther [] then AlertOpen else alStatus al)\<rparr>
      in (al\<lparr>alRecommendedActions := Plan (apResponder a) al\<rparr>, a))"

fun prepareAlertsLoop :: "app_env \<Rightarrow> string \<Rightarrow> alert list \<Rightarrow> app \<Rightarrow> alert list \<times> app" where
  "prepareAlertsLoop env tenant [] a = ([], a)"
| "prepareAlertsLoop env tenant (al # als) a =
     (let (al, a) = prepareAlert env tenant al a; (als, a) = prepareAlertsLoop env tenant als a in (al # als, a))"

definition prepareAlerts :: "app_env \<Rightarrow> alert list \<Rightarrow> string \<Rightarrow> app \<Rightarrow> alert list \<times> app" where
  "prepareAlerts env als tenant a = prepareAlertsLoop env (tenantOrDefault tenant) als a"

definition prepareAction :: "app_env \<Rightarrow> string \<Rightarrow> response_action \<Rightarrow> app \<Rightarrow> response_action \<times> app" where
  "prepareAction env tenant ac a =
     (let (i, a) = (if raID ac = [] then nextID env ''act'' a else (raID ac, a))
      in (ac\<lparr>raTenant := tenantOrDefault tenant, raID := i,
            raCreatedAt := (if time_is_zero (raCreatedAt ac) then aeNow env else raCreatedAt ac)\<rparr>, a))"

fun prepareActions :: "app_env \<Rightarrow> string \<Rightarrow> response_action list \<Rightarrow> app \<Rightarrow> response_action list \<times> app" where
  "prepareActions env tenant [] a = ([], a)"
| "prepareActions env tenant (ac # acs) a =
     (let (ac, a) = prepareAction env tenant ac a; (acs, a) = prepareActions env tenant acs a in (ac # acs, a))"

definition prepareToolCallRequest :: "app_env \<Rightarrow> tool_call_request \<Rightarrow> app \<Rightarrow> tool_call_request \<times> app" where
  "prepareToolCallRequest env rq a =
     (let (i, a) = (if tcID rq = [] then nextID env ''gw'' a else (tcID rq, a))
      in (rq\<lparr>tcID := i, tcTimestamp := (if time_is_zero (tcTimestamp rq) then aeNow env else tcTimestamp rq)\<rparr>, a))"

definition mergeStringMaps :: "string_map \<Rightarrow> string_map \<Rightarrow> string_map" where
  "mergeStringMaps dst src = fold (\<lambda>(k, v) m. if k = [] \<or> v = [] then m else gm_put k v m) src dst"

definition putIfSet :: "string \<Rightarrow> string \<Rightarrow> string_map \<Rightarrow> string_map" where
  "putIfSet k v m = (if v \<noteq> [] then gm_put k v m else m)"

definition gatewayActionFromDecision ::
  "runtime \<Rightarrow> tool_call_request \<Rightarrow> tool_call_decision \<Rightarrow> string \<Rightarrow> string \<Rightarrow> string \<Rightarrow> response_action" where
  "gatewayActionFromDecision rt rq d tenant approvalStatus executionStatus =
     (let m = mergeStringMaps (cloneStringMap (tcMetadata rq)) (dcMetadata d);
          m = gm_put ''tenant'' (tenantOrDefault tenant) m;
          m = gm_put ''request_id'' (tcID rq) m;
          m = gm_put ''tool'' (TrimSpace (ToLower rt (tcToolName rq))) m;
          m = gm_put ''actor'' (tcActor rq) m;
          m = gm_put ''hostname'' (tcHostname rq) m;
          m = gm_put ''verdict'' (verdict_str (dcVerdict d)) m;
          m = gm_put ''risk'' (severity_str (dcRisk d)) m;
          m = putIfSet ''destination'' (tcDestination rq) m;
          m = putIfSet ''signal'' (tcSignal rq) m;
          m = putIfSet ''command'' (tcCommand rq) m;
          m = putIfSet ''arguments'' (tcArguments rq) m;
          m = (if 0 < length (tcLabels rq) then gm_put ''labels'' (Join (tcLabels rq) '','') m else m)
      in empty_action\<lparr>raType := ''gateway_tool_call'', raMode := ''inline'', raAssetID := tcAssetID rq,
           raTenant := tenantOrDefault tenant, raTarget := tcToolName rq, raReason := dcReason d,
           raApprovalStatus := approvalStatus, raExecutionStatus := executionStatus, raMetadata := m\<rparr>)"

definition decisionActionID :: "response_action option \<Rightarrow> string" where
  "decisionActionID ac = (case ac of None \<Rightarrow> [] | Some ac \<Rightarrow> raID ac)"

definition actionKey :: "response_action \<Rightarrow> string" where
  "actionKey ac = Join [raType ac, raAssetID ac, raTarget ac, raReason ac] ''|''"

fun recommendedLoop :: "response_action list \<Rightarrow> response_action list \<Rightarrow> response_action list" where
  "recommendedLoop [] acc = acc"
| "recommendedLoop (ac # acs) acc =
     recommendedLoop acs (if actionKey ac \<in> actionKey ` set acc then acc else acc @ [ac])"

definition recommendedActionsForAlerts :: "alert list \<Rightarrow> response_action list" where
  "recommendedActionsForAlerts als = recommendedLoop (concat (map alRecommendedActions als)) []"

section \<open>Audit records and exports\<close>

definition anonymous :: principal where
  "anonymous = \<lparr> prName = ''anonymous'', prTenant = [], prRoles = [] \<rparr>"

definition tenantForPrincipal :: "principal \<Rightarrow> string" where
  "tenantForPrincipal p = tenantOrDefault (prTenant p)"

definition auditEvent ::
  "app_env \<Rightarrow> http_request \<Rightarrow> principal \<Rightarrow> string \<Rightarrow> string \<Rightarrow> string \<Rightarrow> string \<Rightarrow> string_map \<Rightarrow> string \<Rightarrow> app \<Rightarrow> audit_event" where
  "auditEvent env r p action resourceType resourceID outcome metadata i a =
     (let tenant = tenantOrDefault (prTenant p) in
      \<lparr> auID = i, auTimestamp = aeNow env, auTenant = tenant, auChainIndex = 0, auPrevHash = [], auHash = [],
        auActor = (if prName p = [] then ''anonymous'' else prName p), auRoles = prRoles p, auAction = action,
        auResourceType = resourceType, auResourceID = resourceID, auOutcome = outcome,
        auSourceIP = sourceIP (aeRuntime env) (apTrustedProxies a) r, auUserAgent = HeaderGet r ''User-Agent'',
        auMetadata = (if tenant \<noteq> [] then gm_put ''tenant'' tenant metadata else metadata) \<rparr>)"

definition recordAudit ::
  "app_env \<Rightarrow> http_request \<Rightarrow> principal \<Rightarrow> string \<Rightarrow> string \<Rightarrow> string \<Rightarrow> string \<Rightarrow> string_map \<Rightarrow> app \<Rightarrow> app" where
  "recordAudit env r p action resourceType resourceID outcome metadata a =
     (let (i, a) = nextID env ''aud'' a;
          ev = auditEvent env r p action resourceType resourceID outcome metadata i a
      in a\<lparr>apTenancy := snd (addAuditForTenant (aeTenants env) ev (tenantOrDefault (prTenant p)) (apTenancy a))\<rparr>)"

definition exportAlerts :: "app_env \<Rightarrow> alert list \<Rightarrow> app \<Rightarrow> app" where
  "exportAlerts env als a =
     (if length als = 0 \<or> whURL (apWebhook a) = [] then a
      else (case ExportAlerts (aeNet env) (aeNow env) (apWebhook a) als of
        Some e \<Rightarrow> a\<lparr>apExportErr := e\<rparr> | None \<Rightarrow> a\<lparr>apExportErr := []\<rparr>))"

section \<open>Stores of the request's tenant\<close>

text \<open>The per-tenant reads and writes of \<open>Tenants\<close>, on the state of the server.\<close>

definition onTenancy :: "(tenancy \<Rightarrow> 'r \<times> tenancy) \<Rightarrow> app \<Rightarrow> 'r \<times> app" where
  "onTenancy f a = (let (x, ts) = f (apTenancy a) in (x, a\<lparr>apTenancy := ts\<rparr>))"

section \<open>Ingestion\<close>

definition maxCorrelationEvents :: nat where "maxCorrelationEvents = 5000"

fun ingestLoop :: "app_env \<Rightarrow> string \<Rightarrow> event list \<Rightarrow> app \<Rightarrow> (string + alert list) \<times> app" where
  "ingestLoop env tenant [] a = (Inr [], a)"
| "ingestLoop env tenant (ev # evs) a =
     (let (ev, a) = prepareEvent env tenant ev a;
          (err, a) = onTenancy (addEventsForTenant (aeTenants env) [ev] tenant) a
      in case err of
           Some e \<Rightarrow> (Inl e, a)
         | None \<Rightarrow>
             (let raised = Evaluate (aeRuntime env) (apPolicy a) ev;
                  (rest, a) = ingestLoop env tenant evs a
              in (case rest of Inl e \<Rightarrow> Inl e | Inr als \<Rightarrow> Inr (raised @ als), a)))"

definition ingest :: "app_env \<Rightarrow> event list \<Rightarrow> string \<Rightarrow> app \<Rightarrow> (string + alert list) \<times> app" where
  "ingest env evs tenant a =
     (let tenant = tenantOrDefault tenant in
      case ingestLoop env tenant evs a of
        (Inl e, a) \<Rightarrow> (Inl e, a)
      | (Inr raised, a) \<Rightarrow>
          (let (seen, a) = onTenancy (listEventsForTenant (aeTenants env) tenant) a;
               (correlated, c) = CorrelatorEvaluate (aeRuntime env) (aeSortSlice env) (aeNow env)
                 (take maxCorrelationEvents seen) (apCorrelator a);
               a = a\<lparr>apCorrelator := c\<rparr>;
               (als, a) = prepareAlerts env (raised @ correlated) tenant a;
               ((added, err), a) = onTenancy (addAlertsForTenant (aeTenants env) als tenant) a
           in case err of
                Some e \<Rightarrow> (Inl e, a)
              | None \<Rightarrow> (Inr added, exportAlerts env added a)))"

section \<open>The gateway's limit and its latency samples\<close>

text \<open>
  The buffered channel of capacity \<open>apGatewayLimit\<close>: the send succeeds when there is room, and the
  release takes one element out.
\<close>

definition gatewayCriticalStart :: "app \<Rightarrow> bool \<times> app" where
  "gatewayCriticalStart a =
     (if apGatewayInFlight a < apGatewayLimit a then (True, a\<lparr>apGatewayInFlight := apGatewayInFlight a + 1\<rparr>)
      else (False, a\<lparr>apGatewayRejected := apGatewayRejected a + 1\<rparr>))"

definition gatewayRelease :: "app \<Rightarrow> app" where
  "gatewayRelease a = a\<lparr>apGatewayInFlight := apGatewayInFlight a - 1\<rparr>"

definition gatewayInFlight :: "app \<Rightarrow> nat" where
  "gatewayInFlight a = (if stMode (tsBase (apTenancy a)) = ''postgres'' then 0 else apGatewayInFlight a)"

definition recordGatewayLatency :: "duration \<Rightarrow> app \<Rightarrow> app" where
  "recordGatewayLatency d a =
     (if d \<le> 0 then a else a\<lparr>apGatewaySamples := last_n 256 (apGatewaySamples a @ [d])\<rparr>)"

text \<open>\<open>int(float64(n-1) * 0.99)\<close> for the at most 256 samples: the product is rounded towards zero.\<close>

definition gatewayP99 :: "app \<Rightarrow> duration" where
  "gatewayP99 a =
     (if length (apGatewaySamples a) = 0 then 0
      else (let samples = sort (apGatewaySamples a);
                idx = (length samples - 1) * 99 div 100
            in samples ! (if idx \<ge> length samples then length samples - 1 else idx)))"

section \<open>Fresh identifiers\<close>

text \<open>The identifiers that a run of calls of \<open>nextID\<close> hands out.\<close>

fun nextIDs :: "(app_env \<times> string) list \<Rightarrow> app \<Rightarrow> string list \<times> app" where
  "nextIDs [] a = ([], a)"
| "nextIDs ((env, kind) # calls) a = (let (i, a) = nextID env kind a; (is, a) = nextIDs calls a in (i # is, a))"

definition idText :: "string \<Rightarrow> string \<Rightarrow> 64 word \<Rightarrow> string option \<Rightarrow> string" where
  "idText kind inst n random =
     kind @ CHR ''-'' # inst @ CHR ''-'' # nat_str (unat n) @ (case random of None \<Rightarrow> [] | Some buf \<Rightarrow> CHR ''-'' # hex_encode buf)"

lemma nextID_eq:
  "nextID env kind a = (idText kind (sanitizeIdentifier (aeRuntime env) (apInstanceName a)) (apCounter a + 1) (aeRandom env (apCounter a + 1)),
     a\<lparr>apCounter := apCounter a + 1\<rparr>)"
  by (simp add: nextID_def idText_def Let_def split: option.split)

lemma takeWhile_dash: "d \<notin> set xs \<Longrightarrow> ys = [] \<or> hd ys = d \<Longrightarrow> takeWhile (\<lambda>c. c \<noteq> d) (xs @ ys) = xs"
  by (cases ys) (auto simp: takeWhile_append)

lemma nat_str_no_dash: "CHR ''-'' \<notin> set (nat_str n)"
  using nat_str_digits [of "CHR ''-''" n] by auto

lemma idText_inj:
  assumes "idText kind inst n random = idText kind' inst n' random'" "CHR ''-'' \<notin> set kind" "CHR ''-'' \<notin> set kind'"
  shows "n = n'"
proof -
  define s s' where "s = (case random of None \<Rightarrow> [] | Some buf \<Rightarrow> CHR ''-'' # hex_encode buf)"
    and "s' = (case random' of None \<Rightarrow> [] | Some buf \<Rightarrow> CHR ''-'' # hex_encode buf)"
  have "kind = kind'"
    using arg_cong [OF assms(1), of "takeWhile (\<lambda>c. c \<noteq> CHR ''-'')"] assms(2,3)
    by (simp add: idText_def takeWhile_dash)
  then have "nat_str (unat n) @ s = nat_str (unat n') @ s'"
    using assms(1) by (simp add: idText_def s_def s'_def)
  moreover have "s = [] \<or> hd s = CHR ''-''" "s' = [] \<or> hd s' = CHR ''-''"
    by (simp_all add: s_def s'_def split: option.split)
  ultimately have "nat_str (unat n) = nat_str (unat n')"
    by (metis takeWhile_dash nat_str_no_dash)
  then show ?thesis
    using nat_str_inj by (metis unsigned_word_eqI)
qed

lemma nextIDs_nth:
  assumes "i < length calls"
  shows "length (fst (nextIDs calls a)) = length calls \<and>
    fst (nextIDs calls a) ! i = idText (snd (calls ! i)) (sanitizeIdentifier (aeRuntime (fst (calls ! i))) (apInstanceName a))
      (apCounter a + of_nat (i + 1)) (aeRandom (fst (calls ! i)) (apCounter a + of_nat (i + 1)))"
  using assms
proof (induction calls arbitrary: a i)
  case (Cons c calls)
  obtain env kind where c: "c = (env, kind)"
    by (cases c)
  define b where "b = a\<lparr>apCounter := apCounter a + 1\<rparr>"
  have run: "fst (nextIDs (c # calls) a) = fst (nextID env kind a) # fst (nextIDs calls b)"
    by (simp add: c nextID_eq b_def split_beta)
  have len: "length (fst (nextIDs calls b)) = length calls"
    using Cons.IH [of 0 b] by (cases calls) auto
  show ?case
  proof (cases i)
    case 0
    then show ?thesis
      unfolding run using len by (simp add: nextID_eq c)
  next
    case (Suc j)
    then have "j < length calls"
      using Cons.prems by simp
    then show ?thesis
      unfolding run using Cons.IH [of j b] Suc by (simp add: b_def c algebra_simps)
  qed
qed simp

text \<open>C32: Identifiers do not repeat. Take any run of at most \<open>2 ^ 64\<close> calls of \<open>nextID\<close>, of any kinds without a
  dash (all of the server's have none) and whatever \<open>rand.Read\<close> returns or fails to return, from any state
  of the 64-bit counter. Then the identifiers are pairwise different, although the counter wraps around.\<close>

theorem ids_are_distinct:
  assumes "length calls \<le> 2 ^ 64"
    and "\<forall>(env, kind) \<in> set calls. aeRuntime env = rt \<and> CHR ''-'' \<notin> set kind"
  shows "distinct (fst (nextIDs calls a))"
proof (cases calls)
  case (Cons c cs)
  then have len: "length (fst (nextIDs calls a)) = length calls"
    using nextIDs_nth [of 0 calls a] by simp
  have counters: "apCounter a + of_nat (i + 1) \<noteq> (apCounter a + of_nat (j + 1) :: 64 word)"
    if "i < length calls" "j < length calls" "i \<noteq> j" for i j
  proof
    assume "apCounter a + of_nat (i + 1) = (apCounter a + of_nat (j + 1) :: 64 word)"
    then have "(of_nat i :: 64 word) = of_nat j"
      by simp
    then have "i mod 2 ^ 64 = j mod 2 ^ 64"
      by (simp add: word_of_nat_eq_iff take_bit_eq_mod)
    then show False
      using that assms(1) by simp
  qed
  have kinds: "aeRuntime (fst (calls ! i)) = rt \<and> CHR ''-'' \<notin> set (snd (calls ! i))" if "i < length calls" for i
    using assms(2) nth_mem [OF that] by (cases "calls ! i") auto
  show ?thesis
    unfolding distinct_conv_nth len
  proof (intro allI impI)
    fix i j
    assume ij: "i < length calls" "j < length calls" "i \<noteq> j"
    show "fst (nextIDs calls a) ! i \<noteq> fst (nextIDs calls a) ! j"
      using nextIDs_nth [OF ij(1), of a] nextIDs_nth [OF ij(2), of a] kinds [OF ij(1)] kinds [OF ij(2)] counters [OF ij] idText_inj by metis
  qed
qed simp

text \<open>A server with one user, a store in memory and no tenant registry, and a request's environment.\<close>

definition web_tenants :: tenant_env where
  "web_tenants = \<lparr> teRuntime = digest_runtime, teHost = audit_host, teIO = sample_io, teSnapshotFile = (\<lambda>_. Inr None),
     teDecodeSnapshot = (\<lambda>_. Inl ''not a snapshot''),
     teRegistryFile = (\<lambda>_. Inr None), tePersistError = None, teOpenPostgres = (\<lambda>_. Inl ''no database''),
     teParseDuration = (\<lambda>_. None), teParseScaled = (\<lambda>_ _. Inl ''not a number'') \<rparr>"

definition web_call :: tool_call_request where
  "web_call = \<lparr> tcID = ''call-1'', tcTimestamp = second, tcTenant = [], tcAssetID = ''host-1'', tcHostname = ''host-1'', tcActor = ''bot'',
     tcAgentID = [], tcAgentToken = [], tcToolName = ''policy_read'', tcToolFingerprint = [], tcToolPublisher = [],
     tcProtocolSurface = False, tcCommand = [], tcArguments = [], tcSignal = [], tcDestination = [], tcLabels = [], tcMetadata = [] \<rparr>"

definition web_json :: app_json where
  "web_json = \<lparr> ajToolCall = (\<lambda>_. Inr web_call), ajEvents = (\<lambda>_. Inr []), ajLogin = (\<lambda>_. Inl ''EOF''), ajTenant = (\<lambda>_. Inl ''EOF''),
     ajDeceptionToken = (\<lambda>_. Inl ''EOF''), ajTenantPolicy = (\<lambda>b. Inr \<lparr> tpoTenantID = b, tpoApprovedTools = [''shell_exec''], tpoApprovedEgress = [] \<rparr>),
     ajApproval = (\<lambda>b. Inr (b, [])), ajAlertID = (\<lambda>b. Inr b), ajProxy = (\<lambda>_. Inl ''EOF''), ajConfig = (\<lambda>_. None),
     ajThreatPack = (\<lambda>_. None), ajMCP = (\<lambda>_. Inl ''EOF''), ajMarshalToolCall = (\<lambda>_. Inl ''unsupported'') \<rparr>"

definition web_env :: app_env where
  "web_env = \<lparr> aeTenants = web_tenants, aeLater = second, aeElapsed = second, aeRandom = (\<lambda>_. None), aeSortSlice = sort_key evTimestamp,
     aeNet = (\<lambda>_. Inl ''offline''), aeLookup = (\<lambda>_. Inl ''offline''), aeWithoutUser = id, aeForward = (\<lambda>_ _ _. Inl ''offline''),
     aeCodec = \<lparr> scMarshal = (\<lambda>_. None), scUnmarshal = (\<lambda>_. None) \<rparr>, aeSessionRandom = None, aeTLS = False, aeJSON = web_json \<rparr>"

definition web_app :: app where
  "web_app = \<lparr> apTenancy = \<lparr> tsBase = NewStore, tsOpened = [], tsRegistry = None \<rparr>, apPolicy = NewDefault digest_runtime 0,
     apCorrelator = NewCorrelator (30 * minute), apResponder = NewDryRun, apPolicyPath = [], apThreatPackPath = [],
     apAuth = NewAuthenticator digest_runtime audit_host [\<lparr> ucName = ''eve'', ucTenant = [], ucTokenHash = HashToken digest_runtime ''viewer-token'',
       ucRoles = [RoleViewer] \<rparr>] [],
     apTrustedProxies = [], apGatewayLimit = 1, apGatewayInFlight = 0, apGatewaySamples = [], apGatewayRejected = 0,
     apWebhook = \<lparr> whURL = [], whToken = [] \<rparr>, apTicketWebhook = \<lparr> whURL = [], whToken = [] \<rparr>, apResponseWebhook = \<lparr> whURL = [], whToken = [] \<rparr>,
     apGitHub = \<lparr> ghBaseURL = [], ghOwner = [], ghRepo = [], ghToken = [], ghWorkflowFile = [], ghWorkflowRef = [] \<rparr>,
     apJira = \<lparr> jiBaseURL = [], jiEmail = [], jiAPIToken = [], jiProjectKey = [], jiIssueType = [] \<rparr>,
     apServiceNow = \<lparr> snInstanceURL = [], snUser = [], snPassword = [] \<rparr>, apMCPUpstreamURL = [], apMCPUpstreamToken = [],
     apProxyAllowLocalTargets = False, apOIDCEnabled = False, apSAMLEnabled = False, apInstanceName = ''primary'', apPublicURL = [],
     apExportErr = [], apStartedAt = 0, apCounter = 0, apLicenseStatus = Community \<rparr>"

theorem ids_are_distinct_witness:
  "distinct (fst (nextIDs [(web_env, ''evt''), (web_env, ''act''), (web_env, ''evt'')] (web_app\<lparr>apCounter := - 1\<rparr>)))"
  by (rule ids_are_distinct [of _ "aeRuntime web_env"]) simp_all

section \<open>The limit on calls in flight\<close>

text \<open>
  The interleaving of gateway calls: each one starts, and the admitted ones release their slot when they
  are done. A finish step is possible while some admitted call is running.
\<close>

datatype gateway_step = StartCall | FinishCall

text \<open>The run of a sequence of steps: the answers to the starts, the running calls and the state.\<close>

fun gatewayRun :: "gateway_step list \<Rightarrow> nat \<times> app \<Rightarrow> bool list \<times> nat \<times> app" where
  "gatewayRun [] (running, a) = ([], running, a)"
| "gatewayRun (StartCall # steps) (running, a) =
     (let (ok, a) = gatewayCriticalStart a; (oks, s) = gatewayRun steps (if ok then running + 1 else running, a) in (ok # oks, s))"
| "gatewayRun (FinishCall # steps) (running, a) =
     (if running = 0 then gatewayRun steps (running, a) else gatewayRun steps (running - 1, gatewayRelease a))"

lemma gatewayRun_inv:
  assumes "apGatewayInFlight a = running" "running \<le> apGatewayLimit a" "gatewayRun steps (running, a) = (oks, running', a')"
  shows "apGatewayInFlight a' = running' \<and> running' \<le> apGatewayLimit a' \<and> apGatewayLimit a' = apGatewayLimit a \<and>
    apGatewayRejected a' = apGatewayRejected a + length (filter Not oks) \<and> apTenancy a' = apTenancy a"
  using assms
proof (induction steps arbitrary: running a oks)
  case (Cons step steps)
  show ?case
  proof (cases step)
    case StartCall
    obtain ok b where start: "gatewayCriticalStart a = (ok, b)"
      by fastforce
    obtain oks' where run: "gatewayRun steps (if ok then running + 1 else running, b) = (oks', running', a')" and oks: "oks = ok # oks'"
      using Cons.prems(3) StartCall start by (auto simp: split_beta Let_def prod_eq_iff)
    have "apGatewayInFlight b = (if ok then running + 1 else running) \<and> (if ok then running + 1 else running) \<le> apGatewayLimit b \<and>
        apGatewayLimit b = apGatewayLimit a \<and> apTenancy b = apTenancy a \<and> apGatewayRejected b = apGatewayRejected a + (if ok then 0 else 1)"
      using start Cons.prems(1,2) by (auto simp: gatewayCriticalStart_def split: if_splits)
    then show ?thesis
      using Cons.IH [OF _ _ run] oks by auto
  next
    case FinishCall
    show ?thesis
    proof (cases "running = 0")
      case True
      then show ?thesis
        using Cons.IH [OF Cons.prems(1,2)] Cons.prems(3) FinishCall by simp
    next
      case False
      then have "apGatewayInFlight (gatewayRelease a) = running - 1" "running - 1 \<le> apGatewayLimit (gatewayRelease a)"
        "gatewayRun steps (running - 1, gatewayRelease a) = (oks, running', a')"
        using Cons.prems FinishCall by (simp_all add: gatewayRelease_def)
      from Cons.IH [OF this] show ?thesis
        by (simp add: gatewayRelease_def)
    qed
  qed
qed simp

text \<open>C31: The limit on gateway calls in flight. From an idle server, after every interleaving of starting and
  finishing calls, the slots in use are exactly the running calls and never exceed the limit, and every
  refused call is counted. The next call is admitted exactly when fewer calls run than the limit; so, with
  a positive limit, once a running call has finished the next start is never refused.\<close>

theorem gateway_limit:
  assumes "apGatewayInFlight a = 0" "gatewayRun steps (0, a) = (oks, running, b)"
  shows "apGatewayInFlight b = running \<and> running \<le> apGatewayLimit b \<and> apGatewayLimit b = apGatewayLimit a \<and>
    apGatewayRejected b = apGatewayRejected a + length (filter Not oks) \<and> apTenancy b = apTenancy a \<and>
    (fst (gatewayCriticalStart b) \<longleftrightarrow> running < apGatewayLimit a) \<and>
    (0 < running \<longrightarrow> fst (gatewayCriticalStart (gatewayRelease b)))"
  using gatewayRun_inv [OF assms(1) _ assms(2)] assms(1) by (auto simp: gatewayCriticalStart_def gatewayRelease_def)

theorem gateway_limit_witness:
  "\<exists>oks running b. gatewayRun [StartCall, StartCall, FinishCall, StartCall] (0, web_app) = (oks, running, b) \<and> oks = [True, False, True] \<and>
     apGatewayInFlight b = 1 \<and> apGatewayRejected b = 1 \<and> fst (gatewayCriticalStart (gatewayRelease b))"
proof -
  obtain oks running b where run: "gatewayRun [StartCall, StartCall, FinishCall, StartCall] (0, web_app) = (oks, running, b)"
    by (metis prod_cases3)
  moreover have "oks = [True, False, True] \<and> running = 1"
    using run by (auto simp: gatewayCriticalStart_def gatewayRelease_def web_app_def)
  moreover have "apGatewayInFlight web_app = 0" "apGatewayRejected web_app = 0"
    by (simp_all add: web_app_def)
  ultimately show ?thesis
    using gateway_limit [OF _ run] by simp
qed

end
