(* ===== verification/AppGateway.thy ===== *)
theory AppGateway
  imports AppState
begin

text \<open>
  The gateway handlers of \<open>internal/server/server.go\<close> and \<open>internal/server/mcp.go\<close>: decide, execute and
  proxy a tool call, the MCP proxy, and the approval and execution of response actions. Every early return
  of a handler is a branch of its definition; the limit on calls in flight and the latency sample frame
  the handlers as their deferred calls do.
\<close>

section \<open>Responses\<close>

record timeline_entry =
  tlTimestamp :: time
  tlKind :: string
  tlID :: string
  tlTitle :: string
  tlDetail :: string
  tlSeverity :: string

datatype reply =
    ErrorReply string
  | EventsReply "event list"
  | IngestReply nat "alert list"
  | DecisionReply tool_call_decision
  | ExecutionReply tool_execution_result
  | ProxyReply tool_call_decision int string response_action
  | ProxyHeldReply tool_call_decision response_action
  | MCPReply string
  | MCPErrorReply int string tool_call_decision response_action
  | PendingReply "response_action list"
  | ActionReply response_action
  | ActionsReply "response_action list"
  | AlertsReply "alert list"
  | AssetsReply "asset list"
  | AuditsReply "audit_event list"
  | ChainReply audit_chain_snapshot
  | TenantsReply "tenant_backend_view list"
  | TenantReply tenant_backend_view
  | RulesReply "rule_descriptor list"
  | ReloadReply nat
  | TokensReply "deception_token list"
  | TokenReply deception_token
  | RemovedReply string
  | TimelineReply string "timeline_entry list"
  | LicenseReply license_status
  | PoliciesReply "tenant_policy list"
  | PolicyReply tenant_policy
  | DemoReply "alert list"
  | SessionReply bool string "(bool \<times> bool) option" "principal option" "time option"
  | StatusReply status
  | HealthReply string
  | ReadyReply string int
  | RedirectReply string
  | ValidationReply time string "string list"

record http_response =
  rsStatus :: int
  rsReply :: reply
  rsRetryAfter :: "string option"
  rsCookies :: "http_cookie list"

definition writeJSON :: "int \<Rightarrow> reply \<Rightarrow> http_response" where
  "writeJSON status body = \<lparr> rsStatus = status, rsReply = body, rsRetryAfter = None, rsCookies = [] \<rparr>"

text \<open>Internal errors are logged and not shown to the client.\<close>

definition writeError :: "int \<Rightarrow> string \<Rightarrow> http_response" where
  "writeError status err =
     writeJSON status (ErrorReply (if status = 500 then ''internal server error'' else err))"

definition methodNotAllowed :: http_response where
  "methodNotAllowed = writeError 405 ''method not allowed''"

text \<open>\<open>gatewayCriticalStart\<close> with the deferred calls of its callers: the latency sample, then the release.\<close>

definition gatewayCritical :: "app_env \<Rightarrow> (app \<Rightarrow> http_response \<times> app) \<Rightarrow> app \<Rightarrow> http_response \<times> app" where
  "gatewayCritical env body a =
     (case gatewayCriticalStart a of
        (False, a) \<Rightarrow> ((writeError 429 ''gateway is saturated'')\<lparr>rsRetryAfter := Some ''1''\<rparr>, a)
      | (True, a) \<Rightarrow> (let (resp, a) = body a in (resp, gatewayRelease (recordGatewayLatency (aeElapsed env) a))))"

section \<open>The decision on a tool call\<close>

text \<open>
  The part the four gateway handlers share: the decision, its alerts prepared and stored, and the
  recommended actions. The decide and execute handlers export the new alerts, the proxies do not.
\<close>

definition gateDecision ::
  "app_env \<Rightarrow> bool \<Rightarrow> tool_call_request \<Rightarrow> string \<Rightarrow> app \<Rightarrow> (string + tool_call_decision) \<times> app" where
  "gateDecision env export rq tenant a =
     (let (d, e) = GateToolCall (aeRuntime env) (aeNow env) (aeLater env) rq (apPolicy a);
          a = a\<lparr>apPolicy := e\<rparr>;
          (als, a) = prepareAlerts env (dcAlerts d) tenant a;
          ((added, err), a) = onTenancy (addAlertsForTenant (aeTenants env) als tenant) a
      in case err of
           Some e \<Rightarrow> (Inl e, a)
         | None \<Rightarrow>
             (Inr (d\<lparr>dcAlerts := added, dcRecommendedActions := recommendedActionsForAlerts added\<rparr>),
              if export \<and> 0 < length added then exportAlerts env added a else a))"

text \<open>The action that a held or blocked call leaves in the store.\<close>

definition storeGatewayAction ::
  "app_env \<Rightarrow> response_action \<Rightarrow> string \<Rightarrow> app \<Rightarrow> (string + response_action) \<times> app" where
  "storeGatewayAction env ac tenant a =
     (let (ac, a) = prepareAction env tenant ac a;
          (err, a) = onTenancy (addActionsForTenant (aeTenants env) [ac] tenant) a
      in case err of Some e \<Rightarrow> (Inl e, a) | None \<Rightarrow> (Inr ac, a))"

definition gatewayAuditMetadata ::
  "tool_call_decision \<Rightarrow> tool_call_request \<Rightarrow> response_action option \<Rightarrow> string_map" where
  "gatewayAuditMetadata d rq ac =
     [(''tool'', dcToolName d), (''asset_id'', tcAssetID rq), (''hostname'', tcHostname rq), (''risk'', severity_str (dcRisk d)),
      (''alerts'', nat_str (length (dcAlerts d))), (''reason'', dcReason d), (''destination'', tcDestination rq),
      (''action_id'', decisionActionID ac)]"

definition handleGatewayDecision :: "app_env \<Rightarrow> http_request \<Rightarrow> principal \<Rightarrow> app \<Rightarrow> http_response \<times> app" where
  "handleGatewayDecision env r p a =
     (if rqMethod r \<noteq> MethodPost then (methodNotAllowed, a)
      else gatewayCritical env (\<lambda>a. case ajToolCall (aeJSON env) (rqBody r) of
          Inl e \<Rightarrow> (writeError 400 e, a)
        | Inr rq \<Rightarrow>
            (let (rq, a) = prepareToolCallRequest env rq a;
                 tenant = tenantForPrincipal p;
                 rq = rq\<lparr>tcTenant := tenant\<rparr>
             in case gateDecision env True rq tenant a of
                  (Inl e, a) \<Rightarrow> (writeError 500 e, a)
                | (Inr d, a) \<Rightarrow>
                    (let answer = (\<lambda>ac a. (writeJSON 202 (DecisionReply (d\<lparr>dcAction := ac\<rparr>)),
                           recordAudit env r p ''gateway.decide'' ''tool_call'' (dcRequestID d) (verdict_str (dcVerdict d))
                             (gatewayAuditMetadata d rq ac) a));
                         hold = (\<lambda>approval execution.
                           case storeGatewayAction env (gatewayActionFromDecision (aeRuntime env) rq d tenant approval execution) tenant a of
                             (Inl e, a) \<Rightarrow> (writeError 500 e, a) | (Inr ac, a) \<Rightarrow> answer (Some ac) a)
                     in case dcVerdict d of
                          GatewayRequireApproval \<Rightarrow> hold ''required'' []
                        | GatewayDeny \<Rightarrow> hold ''not_required'' ''blocked''
                        | GatewayAllow \<Rightarrow> answer None a))) a)"

section \<open>Executing a tool call\<close>

definition runGatewayStubTool :: "runtime \<Rightarrow> response_action \<Rightarrow> string" where
  "runGatewayStubTool rt ac =
     (let tool = ToLower rt (TrimSpace (raTarget ac)); asset = TrimSpace (raAssetID ac) in
      if tool = ''asset_inventory'' then ''inventory completed for '' @ (if asset = [] then ''unknown'' else asset)
      else if tool = ''ticket_create'' then ''ticket stub created for '' @ (if asset = [] then ''unknown'' else asset)
      else if tool = ''policy_read'' then ''policy manifest returned''
      else if tool = ''siem_search'' then ''search completed for '' @ (if asset = [] then ''all-assets'' else asset)
      else ''tool '' @ tool @ '' executed'')"

text \<open>
  An action that \<open>ApproveAction\<close> returned shares its metadata map with the action in the store, so a
  write to the map is seen there too. A nil map (empty here: every stored gateway action has entries) is
  replaced by a new one that is not shared.
\<close>

definition shareMetadata :: "string \<Rightarrow> (string_map \<Rightarrow> string_map) \<Rightarrow> store \<Rightarrow> unit \<times> store" where
  "shareMetadata i f s = ((), s\<lparr>stActions := update_first (\<lambda>ac. raID ac = i)
     (\<lambda>ac. if raMetadata ac = [] then ac else ac\<lparr>raMetadata := f (raMetadata ac)\<rparr>) (stActions s)\<rparr>)"

definition writeShared :: "app_env \<Rightarrow> string \<Rightarrow> string \<Rightarrow> (string_map \<Rightarrow> string_map) \<Rightarrow> app \<Rightarrow> app" where
  "writeShared env tenant i f a = snd (onTenancy (writeTenant (aeTenants env) tenant (shareMetadata i f) (\<lambda>_. ())) a)"

text \<open>
  \<open>executeGatewayToolAction\<close>: the status is \<open>executed\<close> for a fresh action and \<open>proceeded\<close> for one that was
  approved, whose map is shared with the store. The stub tools do not fail.
\<close>

definition executeGatewayToolAction ::
  "app_env \<Rightarrow> http_request \<Rightarrow> principal \<Rightarrow> response_action \<Rightarrow> string \<Rightarrow> app \<Rightarrow> (string + response_action \<times> string) \<times> app" where
  "executeGatewayToolAction env r p ac status a =
     (let tenant = tenantForPrincipal p; now = aeNow env;
          ac = (if status = ''proceeded'' then ac\<lparr>raApprovalStatus := ''approved''\<rparr> else ac);
          result = runGatewayStubTool (aeRuntime env) ac;
          write = (\<lambda>m. putIfSet ''gateway_result'' result
            (gm_put ''gateway_executed_at'' (RFC3339 now) (gm_put ''gateway_execution'' status m)));
          a = (if status = ''proceeded'' then writeShared env tenant (raID ac) write a else a);
          ac = ac\<lparr>raExecutionStatus := status, raExecutionError := [], raExecutedAt := Some now, raMetadata := write (raMetadata ac)\<rparr>;
          ((recorded, ok, err), a) = onTenancy (recordActionExecutionForTenant (aeTenants env) (raID ac) now status [] tenant) a
      in case err of
           Some e \<Rightarrow> (Inl e, a)
         | None \<Rightarrow>
             (let (ac, a) = (if ok then (recorded, a) else (ac, snd (onTenancy (addActionsForTenant (aeTenants env) [ac] tenant) a)))
              in (Inr (ac, result),
                  recordAudit env r p ''gateway.execute'' ''response_action'' (raID ac) ''accepted''
                    [(''tool'', raTarget ac), (''asset_id'', raAssetID ac), (''request_id'', gm_str (raMetadata ac) ''request_id''),
                     (''verdict'', gm_str (raMetadata ac) ''verdict''), (''execution'', raExecutionStatus ac)] a)))"

text \<open>The part of \<open>handleGatewayExecute\<close> after the decision: run the tool, or keep the call for approval or as blocked.\<close>

definition executeDecision ::
  "app_env \<Rightarrow> http_request \<Rightarrow> principal \<Rightarrow> tool_call_request \<Rightarrow> tool_call_decision \<Rightarrow> app \<Rightarrow> http_response \<times> app" where
  "executeDecision env r p rq d a =
     (let tenant = tenantForPrincipal p;
          act = gatewayActionFromDecision (aeRuntime env) rq d tenant;
          answer = (\<lambda>code status result ac a.
            (writeJSON code (ExecutionReply \<lparr> xrDecision = d, xrStatus = status, xrResult = result, xrAction = Some ac \<rparr>),
             recordAudit env r p ''gateway.execute'' ''tool_call'' (dcRequestID d) (if code = 200 then ''executed'' else status)
               (gatewayAuditMetadata d rq (Some ac)) a));
          hold = (\<lambda>code status approval execution.
            case storeGatewayAction env (act approval execution) tenant a of
              (Inl e, a) \<Rightarrow> (writeError 500 e, a) | (Inr ac, a) \<Rightarrow> answer code status [] ac a)
      in case dcVerdict d of
           GatewayAllow \<Rightarrow>
             (let (ac, a) = prepareAction env tenant (act ''not_required'' ''executed'') a in
              case executeGatewayToolAction env r p ac ''executed'' a of
                (Inl e, a) \<Rightarrow> (writeError 500 e, a)
              | (Inr (ac, result), a) \<Rightarrow> answer 200 (raExecutionStatus ac) result ac a)
         | GatewayRequireApproval \<Rightarrow> hold 202 ''pending_approval'' ''required'' []
         | GatewayDeny \<Rightarrow> hold 403 ''blocked'' ''not_required'' ''blocked'')"

definition handleGatewayExecute :: "app_env \<Rightarrow> http_request \<Rightarrow> principal \<Rightarrow> app \<Rightarrow> http_response \<times> app" where
  "handleGatewayExecute env r p a =
     (if rqMethod r \<noteq> MethodPost then (methodNotAllowed, a)
      else gatewayCritical env (\<lambda>a. case ajToolCall (aeJSON env) (rqBody r) of
          Inl e \<Rightarrow> (writeError 400 e, a)
        | Inr rq \<Rightarrow>
            (let (rq, a) = prepareToolCallRequest env rq a;
                 tenant = tenantForPrincipal p;
                 rq = rq\<lparr>tcTenant := tenant\<rparr>
             in case gateDecision env True rq tenant a of
                  (Inl e, a) \<Rightarrow> (writeError 500 e, a)
                | (Inr d, a) \<Rightarrow> executeDecision env r p rq d a)) a)"

section \<open>The forwarding proxy\<close>

definition redactURLCredentials :: "app_env \<Rightarrow> string \<Rightarrow> string" where
  "redactURLCredentials env raw =
     (case rt_url_parse (aeRuntime env) (TrimSpace raw) of
        None \<Rightarrow> raw
      | Some u \<Rightarrow> if \<not> urlHasUser u then raw else aeWithoutUser env (TrimSpace raw))"

definition mcpUpstreamResponseLimit :: nat where "mcpUpstreamResponseLimit = 1048576"

text \<open>The upstream call of the proxies: a transport error, or the status, the headers and the body.\<close>

definition callUpstream ::
  "app_env \<Rightarrow> url \<times> ip_addr \<Rightarrow> string_map \<Rightarrow> string \<Rightarrow> string + int \<times> string_map \<times> string" where
  "callUpstream env target headers body =
     (case aeForward env target headers body of
        Inl e \<Rightarrow> Inl e
      | Inr (code, hs, answer) \<Rightarrow>
          if mcpUpstreamResponseLimit < length answer then Inl ''upstream response too large'' else Inr (code, hs, answer))"

definition proxyHeaders :: "runtime \<Rightarrow> string_map \<Rightarrow> tool_call_decision \<Rightarrow> string_map" where
  "proxyHeaders rt headers d =
     (let hs = sanitizeProxyHeaders rt headers;
          hs = (if gm_str hs ''Content-Type'' = [] then gm_put ''Content-Type'' ''application/json'' hs else hs)
      in gm_put ''X-Oatd-Request-Id'' (dcRequestID d) (gm_put ''X-Oatd-Tool'' (dcToolName d)
           (gm_put ''X-Oatd-Decision'' (verdict_str (dcVerdict d)) hs)))"

definition proxyAuditMetadata ::
  "tool_call_decision \<Rightarrow> tool_call_request \<Rightarrow> string \<Rightarrow> response_action \<Rightarrow> string_map" where
  "proxyAuditMetadata d rq upstream ac =
     [(''tool'', dcToolName d), (''asset_id'', tcAssetID rq), (''hostname'', tcHostname rq), (''risk'', severity_str (dcRisk d)),
      (''reason'', dcReason d), (''destination'', upstream), (''action_id'', raID ac)]"

definition handleGatewayProxy :: "app_env \<Rightarrow> http_request \<Rightarrow> principal \<Rightarrow> app \<Rightarrow> http_response \<times> app" where
  "handleGatewayProxy env r p a =
     (if rqMethod r \<noteq> MethodPost then (methodNotAllowed, a)
      else gatewayCritical env (\<lambda>a. case ajProxy (aeJSON env) (rqBody r) of
          Inl e \<Rightarrow> (writeError 400 e, a)
        | Inr body \<Rightarrow>
            if TrimSpace (pbUpstreamURL body) = [] then (writeError 400 ''upstream_url is required'', a)
            else (case validateProxyUpstreamURL (aeRuntime env) (aeLookup env) (pbUpstreamURL body) (apProxyAllowLocalTargets a) of
              Inl e \<Rightarrow> (writeError 400 e, a)
            | Inr target \<Rightarrow>
                (let upstream = redactURLCredentials env (pbUpstreamURL body);
                     rq = pbToolCall body;
                     rq = rq\<lparr>tcToolName := (if tcToolName rq = [] then ''proxy_forward'' else tcToolName rq), tcDestination := upstream\<rparr>;
                     (rq, a) = prepareToolCallRequest env rq a;
                     tenant = tenantForPrincipal p;
                     rq = rq\<lparr>tcTenant := tenant\<rparr>
                 in case gateDecision env False rq tenant a of
                      (Inl e, a) \<Rightarrow> (writeError 500 e, a)
                    | (Inr d, a) \<Rightarrow>
                        (let act = (\<lambda>approval execution. let ac = gatewayActionFromDecision (aeRuntime env) rq d tenant approval execution
                               in ac\<lparr>raType := ''gateway_proxy'', raMetadata := gm_put ''proxy_upstream_url'' upstream (raMetadata ac)\<rparr>);
                             hold = (\<lambda>code outcome approval execution.
                               case storeGatewayAction env (act approval execution) tenant a of
                                 (Inl e, a) \<Rightarrow> (writeError 500 e, a)
                               | (Inr ac, a) \<Rightarrow>
                                   (writeJSON code (ProxyHeldReply (d\<lparr>dcAction := Some ac\<rparr>) ac),
                                    recordAudit env r p ''gateway.proxy'' ''tool_call'' (dcRequestID d) outcome
                                      (proxyAuditMetadata d rq upstream ac) a))
                         in case dcVerdict d of
                              GatewayAllow \<Rightarrow>
                                (case (if pbBody body = [] then ajMarshalToolCall (aeJSON env) rq else Inr (pbBody body)) of
                                   Inl e \<Rightarrow> (writeError 500 e, a)
                                 | Inr payload \<Rightarrow>
                                     (case callUpstream env target (proxyHeaders (aeRuntime env) (pbHeaders body) d) payload of
                                        Inl e \<Rightarrow> (writeError 502 e, a)
                                      | Inr (code, hs, answer) \<Rightarrow>
                                          (let ac = act ''not_required'' ''executed'';
                                               ac = ac\<lparr>raMetadata := gm_put ''proxy_content_type'' (gm_str hs ''Content-Type'')
                                                 (gm_put ''proxy_upstream_status'' (Itoa code) (raMetadata ac))\<rparr>
                                           in case storeGatewayAction env ac tenant a of
                                                (Inl e, a) \<Rightarrow> (writeError 500 e, a)
                                              | (Inr ac, a) \<Rightarrow>
                                                  (writeJSON code (ProxyReply d code answer ac),
                                                   recordAudit env r p ''gateway.proxy'' ''tool_call'' (dcRequestID d) ''executed''
                                                     (proxyAuditMetadata d rq upstream ac @ [(''status'', Itoa code)]) a))))
                            | GatewayRequireApproval \<Rightarrow> hold 202 ''pending_approval'' ''required'' []
                            | GatewayDeny \<Rightarrow> hold 403 ''blocked'' ''not_required'' ''blocked'')))) a)"

section \<open>The MCP proxy\<close>

definition gatewayMCPUpstream :: "app \<Rightarrow> string" where
  "gatewayMCPUpstream a = TrimSpace (apMCPUpstreamURL a)"

definition gatewayMCPUpstreamToken :: "app \<Rightarrow> string" where
  "gatewayMCPUpstreamToken a = TrimSpace (apMCPUpstreamToken a)"

definition isMCPPassthroughMethod :: "string \<Rightarrow> bool" where
  "isMCPPassthroughMethod method =
     (let m = TrimSpace method in
      HasPrefix m ''notifications/'' \<or>
      m \<in> {''initialize'', ''ping'', ''tools/list'', ''resources/list'', ''resources/templates/list'', ''prompts/list'', ''roots/list''})"

definition mcpSurface :: "string \<Rightarrow> string" where
  "mcpSurface method =
     (let m = TrimSpace method in
      if m = ''tools/call'' then ''tool''
      else if m = ''resources/read'' \<or> m = ''resources/subscribe'' then ''resource''
      else if m = ''prompts/get'' then ''prompt''
      else if m = ''sampling/createMessage'' then ''sampling''
      else if m = ''completion/complete'' then ''completion''
      else ''other'')"

fun stringFromAny :: "json_value option \<Rightarrow> string option" where
  "stringFromAny None = None"
| "stringFromAny (Some (JString s)) = Some (TrimSpace s)"
| "stringFromAny (Some (JNumber s)) = Some (TrimSpace s)"
| "stringFromAny (Some (JBool b)) = Some (if b then ''true'' else ''false'')"
| "stringFromAny (Some JNull) = None"
| "stringFromAny (Some (JCompound text)) = (if TrimSpace text = [] then None else Some text)"

definition orText :: "string option \<Rightarrow> string \<Rightarrow> string" where
  "orText new old = (case new of Some v \<Rightarrow> v | None \<Rightarrow> old)"

definition toolCallFromMCPRequest :: "mcp_rpc \<Rightarrow> app \<Rightarrow> tool_call_request" where
  "toolCallFromMCPRequest rpc a =
     (let method = TrimSpace (mrMethod rpc); surface = mcpSurface method; upstream = gatewayMCPUpstream a;
          meta = [(''mcp_method'', method), (''mcp_surface'', surface)];
          meta = (if TrimSpace upstream \<noteq> [] then gm_put ''mcp_upstream_url'' upstream meta else meta);
          rq = \<lparr> tcID = [], tcTimestamp = 0, tcTenant = [], tcAssetID = [], tcHostname = [], tcActor = [], tcAgentID = [],
            tcAgentToken = [], tcToolName = ''mcp_'' @ method, tcToolFingerprint = [], tcToolPublisher = [],
            tcProtocolSurface = (surface \<noteq> ''tool'' \<and> surface \<noteq> ''other''), tcCommand = [], tcArguments = [],
            tcSignal = ''mcp_method='' @ method @ '' mcp_surface='' @ surface, tcDestination = [],
            tcLabels = [''mcp'', ''mcp_surface:'' @ surface], tcMetadata = meta \<rparr>
      in if length (mrParams rpc) = 0 then rq
         else (case mrDecoded rpc of
           None \<Rightarrow> rq\<lparr>tcCommand := mrParams rpc\<rparr>
         | Some (params, text) \<Rightarrow>
             (let get = (\<lambda>k. stringFromAny (gm_get params k)); uri = get ''uri'';
                  command = orText (get ''message'') (orText (get ''prompt'') (orText uri []));
                  arguments = orText (get ''arguments'') (orText uri [])
              in rq\<lparr>tcToolName := (if surface = ''tool'' then orText (get ''name'') (tcToolName rq) else tcToolName rq),
                   tcDestination := (case uri of None \<Rightarrow> [] | Some v \<Rightarrow>
                     if surface = ''resource'' \<and> (HasPrefix v ''http://'' \<or> HasPrefix v ''https://'') then v else []),
                   tcCommand := (if command = [] then text else command),
                   tcArguments := (if arguments = [] then text else arguments),
                   tcMetadata := fold (\<lambda>(k, v) m. case stringFromAny (Some v) of None \<Rightarrow> m | Some t \<Rightarrow> gm_put (''mcp_'' @ k) t m)
                     params (tcMetadata rq)\<rparr>)))"

definition forwardMCPRequest :: "app_env \<Rightarrow> string \<Rightarrow> string \<Rightarrow> string \<Rightarrow> string \<Rightarrow> string + string \<times> int" where
  "forwardMCPRequest env raw method upstreamURL upstreamToken =
     (case validateProxyUpstreamURL (aeRuntime env) (aeLookup env) upstreamURL True of
        Inl e \<Rightarrow> Inl e
      | Inr target \<Rightarrow>
          (let hs = [(''Content-Type'', ''application/json''), (''Accept'', ''application/json''), (''X-Oatd-Proxy'', ''mcp''),
                 (''X-Oatd-Method'', method)];
               hs = (if TrimSpace upstreamToken \<noteq> [] then hs @ [(''Authorization'', ''Bearer '' @ TrimSpace upstreamToken)] else hs)
           in case callUpstream env target hs raw of
                Inl e \<Rightarrow> Inl e | Inr (code, _, answer) \<Rightarrow> Inr (answer, code)))"

definition emptyUpstreamResponse :: string where
  "emptyUpstreamResponse = ''{\"jsonrpc\":\"2.0\",\"error\":{\"code\":500,\"message\":\"empty upstream response\"}}''"

definition writeMCPResponse :: "int \<Rightarrow> string \<Rightarrow> http_response" where
  "writeMCPResponse status body = writeJSON status (MCPReply (if length body = 0 then emptyUpstreamResponse else body))"

definition mcpAuditMetadata :: "string \<Rightarrow> tool_call_decision \<Rightarrow> string \<Rightarrow> response_action \<Rightarrow> string_map" where
  "mcpAuditMetadata method d upstream ac =
     [(''method'', method), (''tool'', dcToolName d), (''risk'', severity_str (dcRisk d)), (''reason'', dcReason d),
      (''destination'', upstream), (''action_id'', raID ac)]"

definition handleMCPProxy :: "app_env \<Rightarrow> http_request \<Rightarrow> principal \<Rightarrow> app \<Rightarrow> http_response \<times> app" where
  "handleMCPProxy env r p a =
     (if rqMethod r \<noteq> MethodPost then (methodNotAllowed, a)
      else gatewayCritical env (\<lambda>a.
        let upstream = gatewayMCPUpstream a; raw = rqBody r;
            forward = (\<lambda>rpc. forwardMCPRequest env raw (mrMethod rpc) upstream (gatewayMCPUpstreamToken a)) in
        if upstream = [] then (writeError 503 ''MCP upstream is not configured'', a)
        else if 1048576 < length raw then (writeError 400 ''http: request body too large'', a)
        else if length (TrimSpace raw) = 0 then (writeError 400 ''empty request body'', a)
        else (case ajMCP (aeJSON env) raw of
          Inl e \<Rightarrow> (writeError 400 e, a)
        | Inr rpc \<Rightarrow>
            if isMCPPassthroughMethod (mrMethod rpc) then
              (case forward rpc of Inl e \<Rightarrow> (writeError 502 e, a) | Inr (answer, code) \<Rightarrow> (writeMCPResponse code answer, a))
            else
              (let tenant = tenantForPrincipal p; rq = (toolCallFromMCPRequest rpc a)\<lparr>tcTenant := tenant\<rparr> in
               case gateDecision env False rq tenant a of
                 (Inl e, a) \<Rightarrow> (writeError 500 e, a)
               | (Inr d, a) \<Rightarrow>
                   (let act = (\<lambda>approval execution. let ac = gatewayActionFromDecision (aeRuntime env) rq d tenant approval execution
                          in ac\<lparr>raType := ''mcp_proxy'', raMetadata := gm_put ''mcp_raw_request'' (b64_encode True False raw)
                               (gm_put ''mcp_upstream_url'' upstream (gm_put ''mcp_method'' (mrMethod rpc) (raMetadata ac)))\<rparr>);
                        hold = (\<lambda>code message status outcome approval execution.
                          case storeGatewayAction env (act approval execution) tenant a of
                            (Inl e, a) \<Rightarrow> (writeError 500 e, a)
                          | (Inr ac, a) \<Rightarrow>
                              (writeJSON status (MCPErrorReply code message (d\<lparr>dcAction := Some ac\<rparr>) ac),
                               recordAudit env r p ''mcp.proxy'' ''tool_call'' (dcRequestID d) outcome
                                 (mcpAuditMetadata (mrMethod rpc) d upstream ac) a))
                    in case dcVerdict d of
                         GatewayAllow \<Rightarrow>
                           (case forward rpc of
                              Inl e \<Rightarrow> (writeError 502 e, a)
                            | Inr (answer, code) \<Rightarrow>
                                (case storeGatewayAction env (act ''not_required'' ''executed'') tenant a of
                                   (Inl e, a) \<Rightarrow> (writeError 500 e, a)
                                 | (Inr ac, a) \<Rightarrow>
                                     (writeMCPResponse code answer,
                                      recordAudit env r p ''mcp.proxy'' ''tool_call'' (dcRequestID d) ''executed''
                                        (mcpAuditMetadata (mrMethod rpc) d upstream ac @ [(''status'', Itoa code)]) a)))
                       | GatewayRequireApproval \<Rightarrow> hold 425 ''approval required'' 202 ''pending_approval'' ''required'' []
                       | GatewayDeny \<Rightarrow> hold 403 ''blocked by policy'' 403 ''blocked'' ''not_required'' ''blocked'')))) a)"

section \<open>The gateway handlers carry out the verdict\<close>

text \<open>A server without physical isolation whose base store is in memory and keeps everything.\<close>

abbreviation baseStore :: "app \<Rightarrow> store" where
  "baseStore a \<equiv> tsBase (apTenancy a)"

definition plain_app :: "app \<Rightarrow> bool" where
  "plain_app a \<longleftrightarrow> \<not> physicalTenancy (apTenancy a) \<and> stPath (baseStore a) = [] \<and> stRetentionWindow (baseStore a) \<le> 0"

text \<open>A step that keeps such a server, its actions and its slots.\<close>

definition quiet :: "app \<Rightarrow> app \<Rightarrow> bool" where
  "quiet a b \<longleftrightarrow> plain_app b \<and> stActions (baseStore b) = stActions (baseStore a) \<and> apGatewayInFlight b = apGatewayInFlight a \<and>
     apGatewayLimit b = apGatewayLimit a"

lemma quiet_trans: "quiet a b \<Longrightarrow> quiet b c \<Longrightarrow> quiet a c"
  by (simp add: quiet_def)

lemma quiet_plain: "quiet a b \<Longrightarrow> plain_app b"
  by (simp add: quiet_def)

lemma physical_base [simp]: "physicalTenancy (ts\<lparr>tsBase := s\<rparr>) = physicalTenancy ts"
  by (simp add: physicalTenancy_def)

lemma onTenancy_write:
  "plain_app a \<Longrightarrow> onTenancy (writeTenant te tenant w f) a =
     (fst (w (baseStore a)), a\<lparr>apTenancy := (apTenancy a)\<lparr>tsBase := snd (w (baseStore a))\<rparr>\<rparr>)"
  by (simp add: onTenancy_def writeTenant_def plain_app_def split_beta)

lemma quiet_write:
  assumes "plain_app a" "stPath s = []" "stRetentionWindow s \<le> 0" "stActions s = stActions (baseStore a)"
  shows "quiet a (a\<lparr>apTenancy := (apTenancy a)\<lparr>tsBase := s\<rparr>\<rparr>)"
  using assms by (simp add: quiet_def plain_app_def)

lemma quiet_fields:
  assumes "plain_app a"
  shows "quiet a (a\<lparr>apCounter := n\<rparr>)" "quiet a (a\<lparr>apPolicy := e\<rparr>)" "quiet a (a\<lparr>apExportErr := x\<rparr>)" "quiet a a"
  using assms by (simp_all add: quiet_def plain_app_def)

lemma quiet_nextID: "plain_app a \<Longrightarrow> quiet a (snd (nextID env kind a))"
  by (simp add: nextID_eq quiet_fields)

lemma quiet_prepareAlert: "plain_app a \<Longrightarrow> quiet a (snd (prepareAlert env t al a))"
  by (simp add: prepareAlert_def split_beta Let_def quiet_nextID quiet_fields)

lemma quiet_prepareAlerts: "plain_app a \<Longrightarrow> quiet a (snd (prepareAlertsLoop env t als a))"
proof (induction als arbitrary: a)
  case (Cons al als)
  have first: "quiet a (snd (prepareAlert env t al a))"
    using Cons.prems by (rule quiet_prepareAlert)
  show ?case
    using quiet_trans [OF first Cons.IH [OF quiet_plain [OF first]]] by (simp add: split_beta Let_def)
qed (simp add: quiet_fields)

lemma prepareAction_fields:
  "raType (fst (prepareAction env t ac a)) = raType ac" "raApprovalStatus (fst (prepareAction env t ac a)) = raApprovalStatus ac"
  "raExecutionStatus (fst (prepareAction env t ac a)) = raExecutionStatus ac" "raTenant (fst (prepareAction env t ac a)) = tenantOrDefault t"
  by (simp_all add: prepareAction_def split_beta Let_def)

lemma quiet_prepareAction: "plain_app a \<Longrightarrow> quiet a (snd (prepareAction env t ac a))"
  by (simp add: prepareAction_def split_beta Let_def quiet_nextID quiet_fields)

lemma quiet_prepareToolCall: "plain_app a \<Longrightarrow> quiet a (snd (prepareToolCallRequest env rq a))"
  by (simp add: prepareToolCallRequest_def split_beta Let_def quiet_nextID quiet_fields)

lemma quiet_export: "plain_app a \<Longrightarrow> quiet a (exportAlerts env als a)"
  by (simp add: exportAlerts_def quiet_fields split: option.split)

lemma memory_persist: "stPath s = [] \<Longrightarrow> persistLocked io s = (None, s\<lparr>stLastErr := []\<rparr>)"
  by (simp add: persistLocked_def)

lemma asset_path: "stPath (raiseAssetRiskLocked al s) = stPath s"
  by (simp add: raiseAssetRiskLocked_def Let_def split: option.split)

lemma loop_path: "stPath (snd (addAlertsLoop als s)) = stPath s"
  by (induction als arbitrary: s) (auto simp: addAlertsLoop_Cons pushAlert_def asset_path)

lemma memory_AddAlerts:
  assumes "stPath s = []" "stRetentionWindow s \<le> 0"
  shows "snd (fst (AddAlerts io als s)) = None \<and> stPath (snd (AddAlerts io als s)) = [] \<and>
    stRetentionWindow (snd (AddAlerts io als s)) \<le> 0 \<and> stActions (snd (AddAlerts io als s)) = stActions s"
  using assms by (simp add: AddAlerts_def split_beta Let_def enforce_off memory_persist loop_path loop_fields)

lemma quiet_recordAudit: "plain_app a \<Longrightarrow> quiet a (recordAudit env r p action rt i out m a)"
proof -
  assume plain: "plain_app a"
  define b where "b = a\<lparr>apCounter := apCounter a + 1\<rparr>"
  have b: "quiet a b" "plain_app b"
    using plain by (simp_all add: b_def quiet_fields plain_app_def)
  define ev where "ev = auditEvent env r p action rt i out m (fst (nextID env ''aud'' a)) b"
  have "recordAudit env r p action rt i out m a =
      b\<lparr>apTenancy := (apTenancy b)\<lparr>tsBase := snd (AddAudit (aeRuntime env) (teHost (aeTenants env)) (teIO (aeTenants env)) ev (baseStore b))\<rparr>\<rparr>"
    using b(2) by (simp add: recordAudit_def nextID_eq ev_def b_def addAuditForTenant_def writeTenant_def plain_app_def split_beta Let_def)
  moreover have "quiet b (b\<lparr>apTenancy := (apTenancy b)\<lparr>tsBase := snd (AddAudit (aeRuntime env) (teHost (aeTenants env)) (teIO (aeTenants env)) ev (baseStore b))\<rparr>\<rparr>)"
    using b(2) by (intro quiet_write) (simp_all add: plain_app_def AddAudit_def prepareAuditChainLocked_def Let_def enforce_off memory_persist)
  ultimately show ?thesis
    using quiet_trans [OF b(1)] by simp
qed

lemma gateDecision_runs:
  assumes "plain_app a"
  shows "\<exists>d b. gateDecision env export rq tenant a = (Inr d, b) \<and> quiet a b \<and>
    dcVerdict d = dcVerdict (fst (GateToolCall (aeRuntime env) (aeNow env) (aeLater env) rq (apPolicy a))) \<and>
    dcRequestID d = tcID rq"
proof -
  obtain d e where gate: "GateToolCall (aeRuntime env) (aeNow env) (aeLater env) rq (apPolicy a) = (d, e)"
    by fastforce
  define a1 where "a1 = a\<lparr>apPolicy := e\<rparr>"
  obtain als a2 where prep: "prepareAlerts env (dcAlerts d) tenant a1 = (als, a2)"
    by fastforce
  have a1: "quiet a a1"
    using assms by (simp add: a1_def quiet_fields)
  have a2: "quiet a a2" "plain_app a2"
    using quiet_trans [OF a1] quiet_prepareAlerts [OF quiet_plain [OF a1], of env "tenantOrDefault tenant" "dcAlerts d"] prep quiet_plain
    by (auto simp: prepareAlerts_def)
  define s where "s = AddAlerts (teIO (aeTenants env)) als (baseStore a2)"
  define a3 where "a3 = a2\<lparr>apTenancy := (apTenancy a2)\<lparr>tsBase := snd s\<rparr>\<rparr>"
  have "onTenancy (addAlertsForTenant (aeTenants env) als tenant) a2 = ((fst (fst s), None), a3)"
    unfolding addAlertsForTenant_def onTenancy_write [OF a2(2)] s_def a3_def
    using memory_AddAlerts [of "baseStore a2" "teIO (aeTenants env)" als] a2(2) by (simp add: plain_app_def prod_eq_iff)
  moreover have a3: "quiet a a3"
    using quiet_trans [OF a2(1) quiet_write [OF a2(2)]] memory_AddAlerts [of "baseStore a2"] a2(2)
    by (simp add: a3_def s_def plain_app_def)
  moreover have "dcRequestID d = tcID rq"
    using gate by (auto simp: GateToolCall_def Let_def split: prod.splits)
  ultimately show ?thesis
    using prep gate quiet_trans [OF a3 quiet_export [OF quiet_plain [OF a3]]] quiet_plain [OF a3]
    by (auto simp: gateDecision_def a1_def [symmetric] Let_def)
qed

lemma storeGatewayAction_runs:
  assumes "plain_app a"
  shows "\<exists>b. storeGatewayAction env ac tenant a = (Inr (fst (prepareAction env tenant ac a)), b) \<and> plain_app b \<and>
    stActions (baseStore b) = stActions (baseStore a) @ [fst (prepareAction env tenant ac a)] \<and>
    apGatewayInFlight b = apGatewayInFlight a \<and> apGatewayLimit b = apGatewayLimit a"
proof -
  obtain ac' a1 where prep: "prepareAction env tenant ac a = (ac', a1)"
    by fastforce
  then have a1: "quiet a a1" "plain_app a1"
    using quiet_prepareAction [OF assms, of env tenant ac] quiet_plain by auto
  show ?thesis
    unfolding storeGatewayAction_def prep Let_def prod.case addActionsForTenant_def onTenancy_write [OF a1(2)]
    using a1 by (simp add: AddActions_def enforce_off memory_persist plain_app_def quiet_def)
qed

lemma memory_RecordActionExecution:
  assumes "stPath s = []" "stRetentionWindow s \<le> 0"
  shows "GetAction s i = None \<Longrightarrow> RecordActionExecution io i t status err s = ((empty_action, False, None), s)"
    "GetAction s i \<noteq> None \<Longrightarrow> \<exists>ac s'. RecordActionExecution io i t status err s = ((ac, True, None), s') \<and> stPath s' = [] \<and>
       stRetentionWindow s' \<le> 0 \<and> raID ac = i"
proof -
  show "GetAction s i = None \<Longrightarrow> RecordActionExecution io i t status err s = ((empty_action, False, None), s)"
    by (simp add: RecordActionExecution_def)
  assume "GetAction s i \<noteq> None"
  then obtain ac where ac: "GetAction s i = Some ac"
    by blast
  define s' where "s' = s\<lparr>stActions := update_first (\<lambda>a. raID a = i) (executed t status err) (stActions s), stLastErr := []\<rparr>"
  have "GetAction s' i = Some (executed t status err ac)"
    using ac find_update_first [of "\<lambda>a. raID a = i" "executed t status err"]
    by (simp add: s'_def GetAction_def executed_def)
  then have "RecordActionExecution io i t status err s = ((executed t status err ac, True, None), s')"
    using assms ac by (simp add: RecordActionExecution_def finishAction_def Let_def memory_persist s'_def)
  moreover have "raID (executed t status err ac) = i"
    using ac by (auto simp: GetAction_def executed_def dest: find_Some_mem)
  ultimately show "\<exists>ac s'. RecordActionExecution io i t status err s = ((ac, True, None), s') \<and> stPath s' = [] \<and>
      stRetentionWindow s' \<le> 0 \<and> raID ac = i"
    using assms by (auto simp: s'_def)
qed

lemma fresh_GetAction: "GetAction s i = None \<longleftrightarrow> i \<notin> raID ` set (stActions s)"
  by (auto simp: GetAction_def find_None_iff)

text \<open>
  What \<open>executeGatewayToolAction\<close> does on such a server: it marks the action as executed, in the store when it is there and as a new one otherwise,
  and writes one audit record.
\<close>

definition executedAction :: "app_env \<Rightarrow> response_action \<Rightarrow> response_action" where
  "executedAction env ac = ac\<lparr>raExecutionStatus := ''executed'', raExecutionError := [], raExecutedAt := Some (aeNow env),
    raMetadata := putIfSet ''gateway_result'' (runGatewayStubTool (aeRuntime env) ac) (gm_put ''gateway_executed_at'' (RFC3339 (aeNow env))
      (gm_put ''gateway_execution'' ''executed'' (raMetadata ac)))\<rparr>"

definition executionAudit :: "app_env \<Rightarrow> http_request \<Rightarrow> principal \<Rightarrow> response_action \<Rightarrow> app \<Rightarrow> app" where
  "executionAudit env r p ac = recordAudit env r p ''gateway.execute'' ''response_action'' (raID ac) ''accepted''
    [(''tool'', raTarget ac), (''asset_id'', raAssetID ac), (''request_id'', gm_str (raMetadata ac) ''request_id''),
     (''verdict'', gm_str (raMetadata ac) ''verdict''), (''execution'', raExecutionStatus ac)]"

lemma executedAction_fields:
  "raID (executedAction env ac) = raID ac" "raType (executedAction env ac) = raType ac" "raTenant (executedAction env ac) = raTenant ac"
  "raApprovalStatus (executedAction env ac) = raApprovalStatus ac" "raExecutionStatus (executedAction env ac) = ''executed''"
  by (simp_all add: executedAction_def)

lemma executeGatewayToolAction_eq:
  "executeGatewayToolAction env r p ac ''executed'' a =
      (let ((recorded, ok, err), a) = onTenancy (recordActionExecutionForTenant (aeTenants env) (raID ac) (aeNow env) ''executed'' [] (tenantForPrincipal p)) a
       in case err of Some e \<Rightarrow> (Inl e, a)
         | None \<Rightarrow> (let (ac', a) = (if ok then (recorded, a)
               else (executedAction env ac, snd (onTenancy (addActionsForTenant (aeTenants env) [executedAction env ac] (tenantForPrincipal p)) a)))
             in (Inr (ac', runGatewayStubTool (aeRuntime env) ac), executionAudit env r p ac' a)))"
  unfolding executeGatewayToolAction_def executedAction_def executionAudit_def Let_def by simp

lemma execute_new_action:
  assumes "plain_app a" and none: "GetAction (baseStore a) (raID ac) = None"
  shows "\<exists>b. executeGatewayToolAction env r p ac ''executed'' a =
      (Inr (executedAction env ac, runGatewayStubTool (aeRuntime env) ac), executionAudit env r p (executedAction env ac) b) \<and> plain_app b \<and>
    stActions (baseStore b) = stActions (baseStore a) @ [executedAction env ac] \<and>
    apGatewayInFlight b = apGatewayInFlight a \<and> apGatewayLimit b = apGatewayLimit a"
proof -
  have store: "stPath (baseStore a) = []" "stRetentionWindow (baseStore a) \<le> 0"
    using assms(1) by (simp_all add: plain_app_def)
  define b where "b = a\<lparr>apTenancy := (apTenancy a)\<lparr>tsBase := (baseStore a)\<lparr>stActions := stActions (baseStore a) @ [executedAction env ac], stLastErr := []\<rparr>\<rparr>\<rparr>"
  have "snd (onTenancy (addActionsForTenant (aeTenants env) [executedAction env ac] (tenantForPrincipal p)) a) = b"
    using store unfolding addActionsForTenant_def onTenancy_write [OF assms(1)]
    by (simp add: AddActions_def enforce_off memory_persist b_def)
  then have "executeGatewayToolAction env r p ac ''executed'' a =
      (Inr (executedAction env ac, runGatewayStubTool (aeRuntime env) ac), executionAudit env r p (executedAction env ac) b)"
    unfolding executeGatewayToolAction_eq recordActionExecutionForTenant_def onTenancy_write [OF assms(1)]
      memory_RecordActionExecution(1) [OF store none] by simp
  then show ?thesis
    using assms(1) by (intro exI [of _ b]) (simp add: b_def plain_app_def)
qed

lemma execute_stored_action:
  assumes "plain_app a" and some: "GetAction (baseStore a) (raID ac) \<noteq> None"
  shows "\<exists>ac' b. executeGatewayToolAction env r p ac ''executed'' a =
      (Inr (ac', runGatewayStubTool (aeRuntime env) ac), executionAudit env r p ac' b) \<and> plain_app b \<and> raID ac' = raID ac \<and>
    apGatewayInFlight b = apGatewayInFlight a \<and> apGatewayLimit b = apGatewayLimit a"
proof -
  have store: "stPath (baseStore a) = []" "stRetentionWindow (baseStore a) \<le> 0"
    using assms(1) by (simp_all add: plain_app_def)
  from memory_RecordActionExecution(2) [OF store some] obtain ac' s'
    where rec: "RecordActionExecution (teIO (aeTenants env)) (raID ac) (aeNow env) ''executed'' [] (baseStore a) = ((ac', True, None), s')"
      and s': "stPath s' = []" "stRetentionWindow s' \<le> 0" "raID ac' = raID ac"
    by blast
  define b where "b = a\<lparr>apTenancy := (apTenancy a)\<lparr>tsBase := s'\<rparr>\<rparr>"
  have "executeGatewayToolAction env r p ac ''executed'' a = (Inr (ac', runGatewayStubTool (aeRuntime env) ac), executionAudit env r p ac' b)"
    unfolding executeGatewayToolAction_eq recordActionExecutionForTenant_def onTenancy_write [OF assms(1)] rec by (simp add: b_def)
  then show ?thesis
    using assms(1) s' by (intro exI [of _ ac'] exI [of _ b]) (simp add: b_def plain_app_def)
qed

lemma executeGatewayToolAction_runs:
  assumes "plain_app a"
  shows "\<exists>ac' b. executeGatewayToolAction env r p ac ''executed'' a = (Inr (ac', runGatewayStubTool (aeRuntime env) ac), b) \<and> plain_app b \<and>
    raID ac' = raID ac \<and> apGatewayInFlight b = apGatewayInFlight a \<and> apGatewayLimit b = apGatewayLimit a \<and>
    (raID ac \<notin> raID ` set (stActions (baseStore a)) \<longrightarrow> stActions (baseStore b) = stActions (baseStore a) @ [ac'] \<and>
       raType ac' = raType ac \<and> raTenant ac' = raTenant ac \<and> raApprovalStatus ac' = raApprovalStatus ac \<and> raExecutionStatus ac' = ''executed'')"
proof -
  have quiet: "plain_app b \<Longrightarrow> quiet b (executionAudit env r p x b)" for x b
    unfolding executionAudit_def by (rule quiet_recordAudit)
  show ?thesis
  proof (cases "GetAction (baseStore a) (raID ac)")
    case None
    then show ?thesis
      using execute_new_action [OF assms None, of env r p] quiet by (fastforce simp: quiet_def executedAction_fields)
  next
    case (Some x)
    then have "GetAction (baseStore a) (raID ac) \<noteq> None"
      by simp
    from execute_stored_action [OF assms this, of env r p] show ?thesis
      using quiet Some fresh_GetAction [of "baseStore a" "raID ac"] by (fastforce simp: quiet_def)
  qed
qed

text \<open>The abstract contract: status code, status, approval and execution status for each verdict.\<close>

fun verdict_outcome :: "gateway_verdict \<Rightarrow> int \<times> string \<times> string \<times> string" where
  "verdict_outcome GatewayAllow = (200, ''executed'', ''not_required'', ''executed'')"
| "verdict_outcome GatewayRequireApproval = (202, ''pending_approval'', ''required'', [])"
| "verdict_outcome GatewayDeny = (403, ''blocked'', ''not_required'', ''blocked'')"

lemma gatewayCritical_admitted:
  "apGatewayInFlight a < apGatewayLimit a \<Longrightarrow> gatewayCritical env body a =
     (fst (body (a\<lparr>apGatewayInFlight := apGatewayInFlight a + 1\<rparr>)),
      gatewayRelease (recordGatewayLatency (aeElapsed env) (snd (body (a\<lparr>apGatewayInFlight := apGatewayInFlight a + 1\<rparr>)))))"
  by (simp add: gatewayCritical_def gatewayCriticalStart_def split_beta)

lemma release_fields:
  "stActions (baseStore (gatewayRelease (recordGatewayLatency d b))) = stActions (baseStore b)"
  "apGatewayInFlight (gatewayRelease (recordGatewayLatency d b)) = apGatewayInFlight b - 1"
  by (simp_all add: gatewayRelease_def recordGatewayLatency_def)


lemma gatewayAction_fields:
  "raType (gatewayActionFromDecision rt rq d tenant approval execution) = ''gateway_tool_call''"
  "raApprovalStatus (gatewayActionFromDecision rt rq d tenant approval execution) = approval"
  "raExecutionStatus (gatewayActionFromDecision rt rq d tenant approval execution) = execution"
  by (simp_all add: gatewayActionFromDecision_def Let_def)

lemma stub_result_nonempty: "runGatewayStubTool rt ac \<noteq> []"
  by (simp add: runGatewayStubTool_def Let_def)

lemma tenantForPrincipal_named: "tenantOrDefault (tenantForPrincipal p) = tenantForPrincipal p"
  by (simp add: tenantForPrincipal_def)

definition executed_as :: "gateway_verdict \<Rightarrow> string \<Rightarrow> app \<Rightarrow> http_response \<Rightarrow> app \<Rightarrow> bool" where
  "executed_as verdict tenant a resp b =
     (case rsReply resp of
        ExecutionReply x \<Rightarrow>
          (let (code, status, approval, execution) = verdict_outcome verdict in
           rsStatus resp = code \<and> dcVerdict (xrDecision x) = verdict \<and> (xrResult x \<noteq> [] \<longleftrightarrow> verdict = GatewayAllow) \<and>
           apGatewayInFlight b = apGatewayInFlight a \<and>
           (case xrAction x of
              None \<Rightarrow> False
            | Some ac \<Rightarrow>
                raID ac \<in> raID ` set (stActions (baseStore a)) \<or>
                stActions (baseStore b) = stActions (baseStore a) @ [ac] \<and> xrStatus x = status \<and>
                raType ac = ''gateway_tool_call'' \<and> raTenant ac = tenant \<and> raApprovalStatus ac = approval \<and>
                raExecutionStatus ac = execution))
      | _ \<Rightarrow> False)"

lemma prepareToolCall_slots:
  "fst (prepareToolCallRequest env rq (a\<lparr>apGatewayInFlight := n\<rparr>)) = fst (prepareToolCallRequest env rq a)"
  "apPolicy (snd (prepareToolCallRequest env rq a)) = apPolicy a"
  by (simp_all add: prepareToolCallRequest_def nextID_eq split_beta Let_def)

text \<open>The answer of the endpoint on an action, with its audit record, and that of a held or denied call.\<close>

definition executionAnswer ::
  "app_env \<Rightarrow> http_request \<Rightarrow> principal \<Rightarrow> tool_call_request \<Rightarrow> tool_call_decision \<Rightarrow> int \<Rightarrow> string \<Rightarrow> string \<Rightarrow> response_action \<Rightarrow> app \<Rightarrow> http_response \<times> app" where
  "executionAnswer env r p rq d code status result ac a =
    (writeJSON code (ExecutionReply \<lparr> xrDecision = d, xrStatus = status, xrResult = result, xrAction = Some ac \<rparr>),
     recordAudit env r p ''gateway.execute'' ''tool_call'' (dcRequestID d) (if code = 200 then ''executed'' else status)
       (gatewayAuditMetadata d rq (Some ac)) a)"

definition executionHold ::
  "app_env \<Rightarrow> http_request \<Rightarrow> principal \<Rightarrow> tool_call_request \<Rightarrow> tool_call_decision \<Rightarrow> int \<Rightarrow> string \<Rightarrow> string \<Rightarrow> string \<Rightarrow> app \<Rightarrow> http_response \<times> app" where
  "executionHold env r p rq d code status approval execution a =
    (case storeGatewayAction env (gatewayActionFromDecision (aeRuntime env) rq d (tenantForPrincipal p) approval execution) (tenantForPrincipal p) a of
       (Inl e, a) \<Rightarrow> (writeError 500 e, a) | (Inr ac, a) \<Rightarrow> executionAnswer env r p rq d code status [] ac a)"

lemma executeDecision_eq:
  "executeDecision env r p rq d a = (case dcVerdict d of
      GatewayAllow \<Rightarrow>
        (let (ac, a) = prepareAction env (tenantForPrincipal p)
               (gatewayActionFromDecision (aeRuntime env) rq d (tenantForPrincipal p) ''not_required'' ''executed'') a in
         case executeGatewayToolAction env r p ac ''executed'' a of
           (Inl e, a) \<Rightarrow> (writeError 500 e, a)
         | (Inr (ac, result), a) \<Rightarrow> executionAnswer env r p rq d 200 (raExecutionStatus ac) result ac a)
    | GatewayRequireApproval \<Rightarrow> executionHold env r p rq d 202 ''pending_approval'' ''required'' [] a
    | GatewayDeny \<Rightarrow> executionHold env r p rq d 403 ''blocked'' ''not_required'' ''blocked'' a)"
  unfolding executeDecision_def Let_def executionAnswer_def executionHold_def ..

lemma executionAnswer_store:
  "plain_app b \<Longrightarrow> stActions (baseStore (snd (executionAnswer env r p rq d code status result ac b))) = stActions (baseStore b)"
  "plain_app b \<Longrightarrow> apGatewayInFlight (snd (executionAnswer env r p rq d code status result ac b)) = apGatewayInFlight b"
  "fst (executionAnswer env r p rq d code status result ac b) =
     writeJSON code (ExecutionReply \<lparr> xrDecision = d, xrStatus = status, xrResult = result, xrAction = Some ac \<rparr>)"
  using quiet_recordAudit by (auto simp: executionAnswer_def quiet_def)

lemma executionHold_runs:
  assumes "plain_app a" and verdict: "verdict_outcome (dcVerdict d) = (code, status, approval, execution)" "dcVerdict d \<noteq> GatewayAllow"
  shows "case executionHold env r p rq d code status approval execution a of (resp, b) \<Rightarrow> executed_as (dcVerdict d) (tenantForPrincipal p) a resp b"
proof -
  let ?act = "gatewayActionFromDecision (aeRuntime env) rq d (tenantForPrincipal p) approval execution"
  define ac where "ac = fst (prepareAction env (tenantForPrincipal p) ?act a)"
  obtain c where c: "storeGatewayAction env ?act (tenantForPrincipal p) a = (Inr ac, c)" "plain_app c"
      "stActions (baseStore c) = stActions (baseStore a) @ [ac]" "apGatewayInFlight c = apGatewayInFlight a"
    using storeGatewayAction_runs [OF assms(1), of env ?act "tenantForPrincipal p"] by (auto simp: ac_def)
  have "executionHold env r p rq d code status approval execution a = executionAnswer env r p rq d code status [] ac c"
    by (simp add: executionHold_def c(1))
  then show ?thesis
    using c(3,4) verdict executionAnswer_store(1,2) [OF c(2)]
    by (simp add: executionAnswer_store(3) executed_as_def case_prod_unfold writeJSON_def ac_def prepareAction_fields gatewayAction_fields tenantForPrincipal_named)
qed

lemma executionAllow_runs:
  assumes "plain_app a" and allow: "dcVerdict d = GatewayAllow"
  shows "case executeDecision env r p rq d a of (resp, b) \<Rightarrow> executed_as GatewayAllow (tenantForPrincipal p) a resp b"
proof -
  let ?act = "gatewayActionFromDecision (aeRuntime env) rq d (tenantForPrincipal p) ''not_required'' ''executed''"
  obtain ac a1 where prep: "prepareAction env (tenantForPrincipal p) ?act a = (ac, a1)"
    by fastforce
  then have ac: "raType ac = ''gateway_tool_call''" "raApprovalStatus ac = ''not_required''" "raTenant ac = tenantForPrincipal p"
    using prepareAction_fields [of env "tenantForPrincipal p" ?act a] by (simp_all add: gatewayAction_fields tenantForPrincipal_named)
  have a1: "quiet a a1"
    using quiet_prepareAction [OF assms(1), of env "tenantForPrincipal p" ?act] prep by simp
  obtain ac' b where run: "executeGatewayToolAction env r p ac ''executed'' a1 = (Inr (ac', runGatewayStubTool (aeRuntime env) ac), b)" "plain_app b"
      "raID ac' = raID ac" "apGatewayInFlight b = apGatewayInFlight a1"
      "raID ac \<notin> raID ` set (stActions (baseStore a1)) \<longrightarrow> stActions (baseStore b) = stActions (baseStore a1) @ [ac'] \<and>
        raType ac' = raType ac \<and> raTenant ac' = raTenant ac \<and> raApprovalStatus ac' = raApprovalStatus ac \<and> raExecutionStatus ac' = ''executed''"
    using executeGatewayToolAction_runs [OF quiet_plain [OF a1]] by metis
  define resp where "resp = executionAnswer env r p rq d 200 (raExecutionStatus ac') (runGatewayStubTool (aeRuntime env) ac) ac' b"
  have "executed_as GatewayAllow (tenantForPrincipal p) a (fst resp) (snd resp)"
    using run(3-5) a1 ac allow executionAnswer_store(1,2) [OF run(2)]
    by (auto simp: resp_def executed_as_def writeJSON_def quiet_def stub_result_nonempty executionAnswer_store(3))
  then show ?thesis
    unfolding executeDecision_eq allow prep by (simp add: run(1) resp_def [symmetric] case_prod_unfold)
qed

lemma executeDecision_runs:
  assumes "plain_app a"
  shows "case executeDecision env r p rq d a of (resp, b) \<Rightarrow> executed_as (dcVerdict d) (tenantForPrincipal p) a resp b"
proof (cases "dcVerdict d")
  case GatewayAllow
  then show ?thesis
    using executionAllow_runs [OF assms] by simp
qed (use executionHold_runs [OF assms, of d] in \<open>simp_all add: executeDecision_eq\<close>)

text \<open>C28: The execution endpoint refines the verdict table. On a server without physical isolation whose store is in
  memory without retention, a POST that finds a free slot and decodes is answered as the decision of the
  policy engine on the prepared request of the caller's own tenant says: 200 and the result of the tool
  when it is allowed, 202 and no result when it needs approval, 403 and no result when it is denied. The
  slot is free again afterwards, and, unless an identifier is handed out twice, exactly one action of type
  \<open>gateway_tool_call\<close> is added for that tenant with the approval and execution status of the verdict.\<close>

theorem execute_follows_verdict:
  assumes "plain_app a" "rqMethod r = MethodPost" "apGatewayInFlight a < apGatewayLimit a"
    and decoded: "ajToolCall (aeJSON env) (rqBody r) = Inr rq0"
  shows "case handleGatewayExecute env r p a of (resp, b) \<Rightarrow>
    executed_as (dcVerdict (fst (GateToolCall (aeRuntime env) (aeNow env) (aeLater env)
      ((fst (prepareToolCallRequest env rq0 a))\<lparr>tcTenant := tenantForPrincipal p\<rparr>) (apPolicy a)))) (tenantForPrincipal p) a resp b"
proof -
  define a0 where "a0 = a\<lparr>apGatewayInFlight := apGatewayInFlight a + 1\<rparr>"
  have a0: "plain_app a0"
    using assms(1) by (simp add: a0_def plain_app_def)
  obtain rqp a1 where prep: "prepareToolCallRequest env rq0 a0 = (rqp, a1)"
    by fastforce
  define rq where "rq = rqp\<lparr>tcTenant := tenantForPrincipal p\<rparr>"
  have rq: "rq = (fst (prepareToolCallRequest env rq0 a))\<lparr>tcTenant := tenantForPrincipal p\<rparr>" "apPolicy a1 = apPolicy a"
    using prep prepareToolCall_slots(1) [of env rq0 "apGatewayInFlight a + 1" a] prepareToolCall_slots(2) [of env rq0 a0] by (simp_all add: rq_def a0_def)
  have a1: "quiet a0 a1"
    using quiet_prepareToolCall [OF a0, of env rq0] prep by simp
  obtain d a2 where gate: "gateDecision env True rq (tenantForPrincipal p) a1 = (Inr d, a2)" and a2: "quiet a1 a2"
      and verdict: "dcVerdict d = dcVerdict (fst (GateToolCall (aeRuntime env) (aeNow env) (aeLater env) rq (apPolicy a1)))"
    using gateDecision_runs [OF quiet_plain [OF a1]] by metis
  note quiet = quiet_trans [OF a1 a2]
  have post: "(rqMethod r \<noteq> MethodPost) = False"
    by (simp add: assms(2))
  define x where "x = executeDecision env r p rq d a2"
  have answer: "handleGatewayExecute env r p a = (fst x, gatewayRelease (recordGatewayLatency (aeElapsed env) (snd x)))"
    unfolding handleGatewayExecute_def gatewayCritical_admitted [OF assms(3)] a0_def [symmetric] decoded Let_def
      sum.case prep prod.case rq_def [symmetric] gate post if_False x_def ..
  have "executed_as (dcVerdict d) (tenantForPrincipal p) a2 (fst x) (snd x)"
    using executeDecision_runs [OF quiet_plain [OF a2], of d p env r rq] by (simp add: x_def split_beta)
  then show ?thesis
    using quiet unfolding answer prod.case rq(1) [symmetric] verdict rq(2) [symmetric]
    by (auto simp: executed_as_def quiet_def a0_def release_fields split: reply.splits option.splits prod.splits)
qed

definition web_post :: "string \<Rightarrow> string \<Rightarrow> http_request" where
  "web_post path body = \<lparr> rqMethod = MethodPost, rqPath = path, rqQuery = [], rqHeaders = [], rqCookies = [],
     rqRemoteAddr = ''192.0.2.1:4711'', rqBody = body \<rparr>"

definition rm_env :: app_env where
  "rm_env = web_env\<lparr>aeJSON := web_json\<lparr>ajToolCall := (\<lambda>_. Inr (web_call\<lparr>tcToolName := ''rm''\<rparr>))\<rparr>\<rparr>"

lemma unapproved_denied:
  assumes "\<not> tcProtocolSurface rq" "\<not> toolApprovedForTenant e (tcTenant rq) (gateTool rt rq)"
  shows "dcVerdict (fst (GateToolCall rt now later rq e)) = GatewayDeny"
proof -
  have "gateGuards rt e rq \<noteq> None"
    using assms unfolding gateGuards_None by blast
  then show ?thesis
    unfolding gate_Deny gateAssessment_verdict by auto
qed

theorem execute_follows_verdict_witness:
  "case handleGatewayExecute rm_env (web_post ''/api/gateway/execute'' ''{}'') anonymous web_app of (resp, b) \<Rightarrow>
     executed_as GatewayDeny ''default'' web_app resp b \<and> rsStatus resp = 403"
proof -
  have plain: "plain_app web_app" and slot: "apGatewayInFlight web_app < apGatewayLimit web_app" and tenant: "tenantForPrincipal anonymous = ''default''"
    by code_simp+
  have decoded: "ajToolCall (aeJSON rm_env) body = Inr (web_call\<lparr>tcToolName := ''rm''\<rparr>)" for body
    by (simp add: rm_env_def)
  define rq where "rq = (fst (prepareToolCallRequest rm_env (web_call\<lparr>tcToolName := ''rm''\<rparr>) web_app))\<lparr>tcTenant := ''default''\<rparr>"
  have "\<not> tcProtocolSurface rq \<and> \<not> toolApprovedForTenant (apPolicy web_app) (tcTenant rq) (gateTool (aeRuntime rm_env) rq)"
    unfolding rq_def by code_simp
  then have denied: "dcVerdict (fst (GateToolCall (aeRuntime rm_env) (aeNow rm_env) (aeLater rm_env) rq (apPolicy web_app))) = GatewayDeny"
    by (intro unapproved_denied) simp_all
  have "executed_as GatewayDeny t web_app resp b \<Longrightarrow> rsStatus resp = 403" for t resp b
    by (auto simp: executed_as_def split: reply.splits)
  moreover have "rqMethod (web_post ''/api/gateway/execute'' ''{}'') = MethodPost"
    by (simp add: web_post_def)
  ultimately show ?thesis
    using execute_follows_verdict [OF plain _ slot decoded, of "web_post ''/api/gateway/execute'' ''{}''" anonymous, unfolded tenant, folded rq_def, unfolded denied]
    by auto
qed

end
