(* ===== verification/Detection.thy ===== *)
theory Detection
  imports AppGateway
begin

text \<open>
  From an event to a stored alert: the rules of \<open>Engine.Evaluate\<close>, the preparation of what they raise, and the
  deduplicating store, composed as \<open>ingest\<close> of \<open>internal/server/server.go\<close> composes them. The theorem follows one event through
  all of them; the limit of the composition, one alert of two for a doubly recognised canary, is at the end.
\<close>

section \<open>Alerts of a batch\<close>

text \<open>Of the alerts of a batch with one fingerprint the first is stored, unless the store knows the fingerprint.\<close>

lemma loop_first:
  "f \<noteq> [] \<Longrightarrow> filter (\<lambda>x. alFingerprint x = f) (fst (addAlertsLoop als s)) =
     (if f \<in> set (stFingerprints s) then []
      else case find (\<lambda>x. alFingerprint x = f) als of None \<Rightarrow> [] | Some x \<Rightarrow> [x])"
proof (induction als arbitrary: s)
  case (Cons a als)
  show ?case
    using Cons.IH [OF Cons.prems, of s] Cons.IH [OF Cons.prems, of "pushAlert a s"] Cons.prems
    by (auto simp: addAlertsLoop_Cons)
qed simp

text \<open>A store without repeated fingerprints holds one alert for a fingerprint it knows, and none for any other.\<close>

lemma once_in_distinct:
  assumes "distinct (filter (\<lambda>g. g \<noteq> []) (map key xs))" "f \<noteq> []"
  shows "length (filter (\<lambda>x. key x = f) xs) = (if f \<in> key ` set xs then 1 else 0)"
  using assms(1)
proof (induction xs)
  case (Cons x xs)
  have "f \<notin> key ` set xs" if "key x = f"
    using that Cons.prems assms(2) by auto
  with Cons show ?case by (auto split: if_splits)
qed simp

lemma stored_once:
  assumes "store_ok s" "f \<noteq> []"
  shows "length (filter (\<lambda>x. alFingerprint x = f) (stAlerts s)) = (if f \<in> set (stFingerprints s) then 1 else 0)"
proof -
  have "f \<in> set (stFingerprints s) \<longleftrightarrow> f \<in> alFingerprint ` set (stAlerts s)"
    using assms by (auto simp: store_ok_def fingerprintsOf_def)
  then show ?thesis
    using assms once_in_distinct [of alFingerprint "stAlerts s" f] by (simp add: store_ok_def fingerprintsOf_def)
qed

section \<open>What the rules raise\<close>

text \<open>A raised alert carries the identifier, title and severity of one rule of the catalogue, and the event.\<close>

definition catalogued :: "event \<Rightarrow> alert \<Rightarrow> bool" where
  "catalogued ev al \<longleftrightarrow> (\<exists>d \<in> set builtinRules. alRuleID al = rdID d \<and> alTitle al = rdName d \<and> alSeverity al = rdSeverity d)
     \<and> alFingerprint al = alRuleID al @ '':'' @ evID ev \<and> alEventIDs al = [evID ev] \<and> alAssetID al = evAssetID ev"

lemma catalogued_new:
  assumes "(r, t, sev) \<in> (\<lambda>d. (rdID d, rdName d, rdSeverity d)) ` set builtinRules"
  shows "catalogued ev (newAlert r t desc sev ev m)"
  using assms by (auto simp: catalogued_def newAlert_def)

lemma raised_catalogued: "al \<in> set (Evaluate rt e ev) \<Longrightarrow> catalogued ev al"
proof -
  have cat: "(\<lambda>d. (rdID d, rdName d, rdSeverity d)) ` set builtinRules =
    {(''agent.tool.unapproved'', ''Unapproved agent tool call'', SeverityHigh),
     (''agent.secret.exposure'', ''Potential secret exposure through agent context'', SeverityCritical),
     (''network.egress.unknown'', ''Unknown outbound destination'', SeverityMedium),
     (''process.discovery.chain'', ''Suspicious discovery process'', SeverityHigh),
     (''deception.canary.hit'', ''Canary or deception asset touched'', SeverityCritical),
     (''model.runtime.suspicious'', ''Suspicious local model runtime behavior'', SeverityHigh)}"
    by (simp add: builtinRules_def rule_def)
  note new = catalogued_new [unfolded cat]
  assume "al \<in> set (Evaluate rt e ev)"
  then consider "al \<in> set (toolAlerts rt e ev)" | "al \<in> set (egressAlerts rt e ev)" | "al \<in> set (discoveryAlerts rt ev)"
    | "al \<in> set (canaryAlerts rt e ev)" | "al \<in> set (modelAlerts rt ev)"
    by (auto simp: Evaluate_def)
  then show "catalogued ev al"
  proof cases
    case 1
    then show ?thesis
      unfolding toolAlerts_def Let_def by (auto simp: new split: if_splits option.splits)
  next
    case 4
    then show ?thesis
      unfolding canaryAlerts_def by (auto simp: new split: if_splits option.splits)
  qed (auto simp: egressAlerts_def discoveryAlerts_def modelAlerts_def new split: if_splits)
qed

section \<open>Ingestion in memory\<close>

lemma prepareEvent_fields:
  "evTenant (fst (prepareEvent env t ev a)) = tenantOrDefault t" "deceptionFields (fst (prepareEvent env t ev a)) = deceptionFields ev"
  "evID ev \<noteq> [] \<Longrightarrow> evID (fst (prepareEvent env t ev a)) = evID ev"
  by (simp_all add: prepareEvent_def deceptionFields_def split_beta Let_def)

lemma prepareEvent_frame: "\<exists>n. snd (prepareEvent env t ev a) = a\<lparr>apCounter := n\<rparr>"
  by (cases "evID ev = []") (auto simp: prepareEvent_def nextID_eq split_beta Let_def intro: exI [of _ "apCounter a"])

text \<open>What is raised is prepared: the tenant is set, and the rule, the severity and the event stay.\<close>

definition prepared_from :: "string \<Rightarrow> alert \<Rightarrow> alert \<Rightarrow> bool" where
  "prepared_from t al x \<longleftrightarrow> alFingerprint x = alFingerprint al \<and> alRuleID x = alRuleID al \<and> alTitle x = alTitle al
     \<and> alSeverity x = alSeverity al \<and> alEventIDs x = alEventIDs al \<and> alAssetID x = alAssetID al \<and> alTenant x = t"

lemma prepareAlerts_frame:
  "list_all2 (prepared_from t) als (fst (prepareAlertsLoop env t als a)) \<and> (\<exists>n. snd (prepareAlertsLoop env t als a) = a\<lparr>apCounter := n\<rparr>)"
proof (induction als arbitrary: a)
  case (Cons al als)
  have "prepared_from t al (fst (prepareAlert env t al a))" "\<exists>n. snd (prepareAlert env t al a) = a\<lparr>apCounter := n\<rparr>"
    by (auto simp: prepareAlert_def prepared_from_def nextID_eq split_beta Let_def intro: exI [of _ "apCounter a"])
  moreover have "\<exists>m. snd (prepareAlertsLoop env t als (a\<lparr>apCounter := n\<rparr>)) = a\<lparr>apCounter := m\<rparr>" for n
    using Cons.IH [of "a\<lparr>apCounter := n\<rparr>"] by force
  ultimately show ?case
    using Cons.IH [of "snd (prepareAlert env t al a)"] by (auto simp: split_beta Let_def)
next
  case Nil
  show ?case by (auto intro: exI [of _ "apCounter a"])
qed

lemma export_frame: "baseStore (exportAlerts env als a) = baseStore a"
  by (simp add: exportAlerts_def split: option.split)

lemma memory_AddEvent:
  assumes "stPath s = []" "stRetentionWindow s \<le> 0"
  shows "fst (AddEvent io ev s) = None" "stEvents (snd (AddEvent io ev s)) = stEvents s @ [ev]" "stAlerts (snd (AddEvent io ev s)) = stAlerts s"
    "stFingerprints (snd (AddEvent io ev s)) = stFingerprints s" "stPath (snd (AddEvent io ev s)) = []"
    "stRetentionWindow (snd (AddEvent io ev s)) \<le> 0"
  using assms by (simp_all add: AddEvent_def enforce_off memory_persist Let_def upsertAssetLocked_def)

text \<open>The whole of \<open>ingest\<close> on one event: what it stores.\<close>

lemma ingest_one:
  assumes "plain_app a" "ev' = fst (prepareEvent env (tenantOrDefault tenant) ev a)"
  shows "\<exists>added a' others als s.
     ingest env [ev] tenant a = (Inr added, a') \<and> s = snd (AddEvent (teIO (aeTenants env)) ev' (baseStore a))
   \<and> list_all2 (prepared_from (tenantOrDefault tenant)) (Evaluate (aeRuntime env) (apPolicy a) ev' @ others) als
   \<and> added = fst (addAlertsLoop als s) \<and> stAlerts (baseStore a') = stAlerts s @ added
   \<and> stEvents (baseStore a') = stEvents (baseStore a) @ [ev'] \<and> baseStore a' = snd (AddAlerts (teIO (aeTenants env)) als s)"
proof -
  let ?t = "tenantOrDefault tenant" and ?io = "teIO (aeTenants env)"
  obtain n where n: "prepareEvent env ?t ev a = (ev', a\<lparr>apCounter := n\<rparr>)"
    using prepareEvent_frame [of env ?t ev a] by (metis assms(2) prod.collapse)
  define s where "s = snd (AddEvent ?io ev' (baseStore a))"
  define a2 where "a2 = a\<lparr>apCounter := n, apTenancy := (apTenancy a)\<lparr>tsBase := s\<rparr>\<rparr>"
  have mem: "stPath (baseStore a) = []" "stRetentionWindow (baseStore a) \<le> 0" "\<not> physicalTenancy (apTenancy a)"
    using assms(1) by (simp_all add: plain_app_def)
  note add = memory_AddEvent [OF mem(1,2), of ?io ev']
  have "plain_app (a\<lparr>apCounter := n\<rparr>)"
    using assms(1) by (simp add: plain_app_def)
  then have w: "onTenancy (addEventsForTenant (aeTenants env) [ev'] ?t) (a\<lparr>apCounter := n\<rparr>) = (None, a2)"
    unfolding addEventsForTenant_def using add(1) by (subst onTenancy_write) (auto simp: a2_def s_def split: prod.splits)
  let ?raised = "Evaluate (aeRuntime env) (apPolicy a) ev'"
  have loop: "ingestLoop env ?t [ev] a = (Inr ?raised, a2)"
    by (simp add: n w) (simp add: a2_def)
  have plain2: "plain_app a2"
    using mem(3) add(5,6) by (simp add: a2_def s_def plain_app_def)
  obtain seen where seen: "onTenancy (listEventsForTenant (aeTenants env) ?t) a2 = (seen, a2)"
    using plain2 by (simp add: onTenancy_def listEventsForTenant_def readTenant_def plain_app_def)
  obtain others c where c: "CorrelatorEvaluate (aeRuntime env) (aeSortSlice env) (aeNow env) (take maxCorrelationEvents seen) (apCorrelator a2) = (others, c)"
    by fastforce
  define a3 where "a3 = a2\<lparr>apCorrelator := c\<rparr>"
  obtain als m where als: "prepareAlerts env (?raised @ others) ?t a3 = (als, a3\<lparr>apCounter := m\<rparr>)"
    and prep: "list_all2 (prepared_from ?t) (?raised @ others) als"
    using prepareAlerts_frame [of ?t "?raised @ others" env a3] by (metis prepareAlerts_def prod.collapse tenantOrDefault_idem)
  define a4 where "a4 = a3\<lparr>apCounter := m\<rparr>"
  have a4: "plain_app a4" "baseStore a4 = s"
    using plain2 by (simp_all add: a4_def a3_def a2_def plain_app_def)
  have ok: "snd (fst (AddAlerts ?io als s)) = None"
    using memory_AddAlerts [of s ?io als] a4 by (simp add: plain_app_def)
  have added: "fst (fst (AddAlerts ?io als s)) = fst (addAlertsLoop als s)"
    "stAlerts (snd (AddAlerts ?io als s)) = stAlerts s @ fst (addAlertsLoop als s)"
    "stEvents (snd (AddAlerts ?io als s)) = stEvents s"
    using a4 by (simp_all add: AddAlerts_def split_beta Let_def enforce_off loop_fields plain_app_def)
  define a5 where "a5 = a4\<lparr>apTenancy := (apTenancy a4)\<lparr>tsBase := snd (AddAlerts ?io als s)\<rparr>\<rparr>"
  have "onTenancy (addAlertsForTenant (aeTenants env) als ?t) a4 = ((fst (addAlertsLoop als s), None), a5)"
    unfolding addAlertsForTenant_def onTenancy_write [OF a4(1)] a5_def a4(2) using ok added(1) by (simp add: prod_eq_iff)
  then have "ingest env [ev] tenant a = (Inr (fst (addAlertsLoop als s)), exportAlerts env (fst (addAlertsLoop als s)) a5)"
    unfolding ingest_def Let_def loop by (simp add: seen c a3_def [symmetric] als a4_def [symmetric])
  moreover have "baseStore (exportAlerts env (fst (addAlertsLoop als s)) a5) = snd (AddAlerts ?io als s)"
    by (simp add: export_frame a5_def)
  ultimately show ?thesis
    using prep added add(2) by (auto simp: s_def)
qed

section \<open>Detection from end to end\<close>

lemma find_prepared:
  "list_all2 (prepared_from t) xs ys \<Longrightarrow> find (\<lambda>x. alFingerprint x = f) xs = Some x \<Longrightarrow>
     \<exists>y. find (\<lambda>x. alFingerprint x = f) ys = Some y \<and> prepared_from t x y"
  by (induction rule: list_all2_induct) (auto simp: prepared_from_def split: if_splits)

lemma find_in_front: "x \<in> set xs \<Longrightarrow> P x \<Longrightarrow> \<exists>y \<in> set xs. P y \<and> find P (xs @ ys) = Some y"
  by (induction xs) auto

text \<open>The fingerprint determines the rule, and the rule its title and severity.\<close>

lemma catalogued_same:
  assumes "catalogued ev al" "catalogued ev x" "alFingerprint x = alFingerprint al"
  shows "alRuleID x = alRuleID al \<and> alTitle x = alTitle al \<and> alSeverity x = alSeverity al"
proof -
  have r: "alRuleID x = alRuleID al"
    using assms by (simp add: catalogued_def)
  have "inj_on rdID (set builtinRules)"
    by (simp add: builtinRules_def rule_def)
  with assms r show ?thesis
    unfolding catalogued_def by (metis inj_onD)
qed

text \<open>What becomes of one raised alert.\<close>

lemma raised_stored:
  assumes "store_ok s" "al \<in> set (Evaluate rt e ev)" "list_all2 (prepared_from t) (Evaluate rt e ev @ others) als"
  shows "length (filter (\<lambda>x. alFingerprint x = alFingerprint al) (stAlerts s @ fst (addAlertsLoop als s))) = 1"
    and "alFingerprint al \<in> set (stFingerprints s) \<or> (\<exists>x \<in> set (fst (addAlertsLoop als s)). alFingerprint x = alFingerprint al \<and> alTenant x = t
      \<and> alRuleID x = alRuleID al \<and> alTitle x = alTitle al \<and> alSeverity x = alSeverity al \<and> alEventIDs x = [evID ev])"
proof -
  have cat: "catalogued ev al" by (rule raised_catalogued [OF assms(2)])
  then have ne: "alFingerprint al \<noteq> []" by (simp add: catalogued_def)
  obtain y where y: "y \<in> set (Evaluate rt e ev)" "alFingerprint y = alFingerprint al"
    "find (\<lambda>x. alFingerprint x = alFingerprint al) (Evaluate rt e ev @ others) = Some y"
    using find_in_front [OF assms(2), of "\<lambda>x. alFingerprint x = alFingerprint al"] by blast
  obtain z where z: "find (\<lambda>x. alFingerprint x = alFingerprint al) als = Some z" "prepared_from t y z"
    using find_prepared [OF assms(3) y(3)] by blast
  have stored: "filter (\<lambda>x. alFingerprint x = alFingerprint al) (fst (addAlertsLoop als s)) =
      (if alFingerprint al \<in> set (stFingerprints s) then [] else [z])"
    using loop_first [OF ne, of als s] z(1) by simp
  then show "length (filter (\<lambda>x. alFingerprint x = alFingerprint al) (stAlerts s @ fst (addAlertsLoop als s))) = 1"
    using stored_once [OF assms(1) ne] by simp
  have caty: "catalogued ev y" by (rule raised_catalogued [OF y(1)])
  show "alFingerprint al \<in> set (stFingerprints s) \<or> (\<exists>x \<in> set (fst (addAlertsLoop als s)). alFingerprint x = alFingerprint al \<and> alTenant x = t
      \<and> alRuleID x = alRuleID al \<and> alTitle x = alTitle al \<and> alSeverity x = alSeverity al \<and> alEventIDs x = [evID ev])"
  proof (cases "alFingerprint al \<in> set (stFingerprints s)")
    case False
    then have "z \<in> set (filter (\<lambda>x. alFingerprint x = alFingerprint al) (fst (addAlertsLoop als s)))"
      unfolding stored by simp
    then have "z \<in> set (fst (addAlertsLoop als s))" by simp
    then show ?thesis
      using z(2) catalogued_same [OF cat caty y(2)] caty y(2) by (auto simp: prepared_from_def catalogued_def)
  qed simp
qed

lemma hidden_canary_raises:
  assumes "token \<in> snd ` set (enDeception e)" "hideable rt (dtValue token)" "ls \<noteq> []" "length ls \<le> 3"
    and "is_ascii x" "is_ascii y" "x = [] \<or> separator (last x)" "y = [] \<or> separator (hd y)"
    and "x @ wraps ls (dtValue token) @ y \<in> set (deceptionFields ev)"
  shows "\<exists>al \<in> set (Evaluate rt e ev). alRuleID al = ''deception.canary.hit''"
proof -
  have "normalizeGatewayText rt (dtValue token) \<in> set (gatewayTextVariants rt (deceptionFields ev))"
    by (rule hidden_text_variant [OF assms(2-9)])
  then have "MatchDeception rt e (deceptionFields ev) \<noteq> None"
    using assms(1,2) by (intro MatchDeception_hit [of token]) (auto simp: hideable_def)
  then obtain hit where "MatchDeception rt e (deceptionFields ev) = Some hit" by blast
  then show ?thesis
    by (force simp: Evaluate_def canaryAlerts_def deceptionFields_def newAlert_def)
qed

text \<open>C6: An event is detected from end to end. On a server with one shared store in memory and no retention window, whose store is sound,
  ingesting an event for a tenant succeeds and stores the event. Of every alert the rules raise for it the store then holds exactly one with
  its fingerprint, which is the rule and the event; unless the store knew it before, it is new, belongs to the tenant and names the event,
  and it has the title and severity of its rule in the catalogue. An event of any kind with a registered canary in one of the searched
  fields, even under up to three layers of encoding (with the conditions of the decoder), has its critical canary alert among them.\<close>

theorem ingested_event_is_detected:
  assumes "plain_app a" "store_ok (baseStore a)" "plain_tenant tenant"
  shows "\<exists>added a'. ingest env [ev] tenant a = (Inr added, a') \<and>
    (let ev' = fst (prepareEvent env (tenantOrDefault tenant) ev a); s = baseStore a; s' = baseStore a' in
       stEvents s' = stEvents s @ [ev'] \<and> stAlerts s' = stAlerts s @ added
     \<and> (\<forall>al \<in> set (Evaluate (aeRuntime env) (apPolicy a) ev').
          alFingerprint al = alRuleID al @ '':'' @ evID ev'
        \<and> length (filter (\<lambda>x. alFingerprint x = alFingerprint al) (stAlerts s')) = 1
        \<and> (alFingerprint al \<in> set (stFingerprints s) \<or> (\<exists>x \<in> set added. alFingerprint x = alFingerprint al
              \<and> alTenant x = tenantOrDefault tenant \<and> alEventIDs x = [evID ev'] \<and> alRuleID x = alRuleID al
              \<and> (\<exists>d \<in> set builtinRules. alRuleID x = rdID d \<and> alTitle x = rdName d \<and> alSeverity x = rdSeverity d))))
     \<and> (\<forall>token ls x y. token \<in> snd ` set (enDeception (apPolicy a)) \<and> hideable (aeRuntime env) (dtValue token)
          \<and> ls \<noteq> [] \<and> length ls \<le> 3 \<and> is_ascii x \<and> is_ascii y \<and> (x = [] \<or> separator (last x)) \<and> (y = [] \<or> separator (hd y))
          \<and> x @ wraps ls (dtValue token) @ y \<in> set (deceptionFields ev)
          \<longrightarrow> (\<exists>al \<in> set (stAlerts s'). alFingerprint al = ''deception.canary.hit:'' @ evID ev')))"
proof -
  let ?t = "tenantOrDefault tenant" and ?io = "teIO (aeTenants env)" and ?rt = "aeRuntime env"
  define ev' where "ev' = fst (prepareEvent env ?t ev a)"
  obtain added a' others als s where i: "ingest env [ev] tenant a = (Inr added, a')" "s = snd (AddEvent ?io ev' (baseStore a))"
    "list_all2 (prepared_from ?t) (Evaluate ?rt (apPolicy a) ev' @ others) als" "added = fst (addAlertsLoop als s)"
    "stAlerts (baseStore a') = stAlerts s @ added" "stEvents (baseStore a') = stEvents (baseStore a) @ [ev']"
    using ingest_one [OF assms(1) ev'_def] by blast
  have fs: "evTenant ev' = ?t" "deceptionFields ev' = deceptionFields ev"
    by (simp_all add: ev'_def prepareEvent_fields)
  have ok: "store_ok s"
    unfolding i(2) by (rule store_ok_AddEvent [OF assms(2)]) (use assms(3) fs(1) in simp)
  have same: "stAlerts s = stAlerts (baseStore a)" "stFingerprints s = stFingerprints (baseStore a)"
    using memory_AddEvent(3,4) [of "baseStore a" ?io ev'] assms(1) by (simp_all add: i(2) plain_app_def)
  have each: "alFingerprint al = alRuleID al @ '':'' @ evID ev'
      \<and> length (filter (\<lambda>x. alFingerprint x = alFingerprint al) (stAlerts (baseStore a'))) = 1
      \<and> (alFingerprint al \<in> set (stFingerprints (baseStore a)) \<or> (\<exists>x \<in> set added. alFingerprint x = alFingerprint al
            \<and> alTenant x = ?t \<and> alEventIDs x = [evID ev'] \<and> alRuleID x = alRuleID al
            \<and> (\<exists>d \<in> set builtinRules. alRuleID x = rdID d \<and> alTitle x = rdName d \<and> alSeverity x = rdSeverity d)))"
    if "al \<in> set (Evaluate ?rt (apPolicy a) ev')" for al
    using raised_stored [OF ok that i(3)] raised_catalogued [OF that] unfolding i(4,5) same catalogued_def by metis
  have canary: "\<exists>al \<in> set (stAlerts (baseStore a')). alFingerprint al = ''deception.canary.hit:'' @ evID ev'"
    if h: "token \<in> snd ` set (enDeception (apPolicy a))" "hideable ?rt (dtValue token)" "ls \<noteq> []" "length ls \<le> 3"
      "is_ascii x" "is_ascii y" "x = [] \<or> separator (last x)" "y = [] \<or> separator (hd y)"
      "x @ wraps ls (dtValue token) @ y \<in> set (deceptionFields ev)" for token ls x y
  proof -
    obtain al where al: "al \<in> set (Evaluate ?rt (apPolicy a) ev')" "alRuleID al = ''deception.canary.hit''"
      using hidden_canary_raises [OF h(1-8), of ev'] h(9) fs(2) by auto
    then have "filter (\<lambda>x. alFingerprint x = ''deception.canary.hit:'' @ evID ev') (stAlerts (baseStore a')) \<noteq> []"
      using each [OF al(1)] by auto
    then show ?thesis by (auto simp: filter_empty_conv)
  qed
  have grown: "stAlerts (baseStore a') = stAlerts (baseStore a) @ added"
    using i(5) same(1) by simp
  show ?thesis
    unfolding Let_def ev'_def [symmetric]
    by (rule exI [of _ added], rule exI [of _ a'], rule conjI [OF i(1)], rule conjI [OF i(6)], rule conjI [OF grown], rule conjI,
        rule ballI, erule each, intro allI impI, elim conjE) (rule canary; assumption)
qed

text \<open>An event that hides the canary of the engine under two layers.\<close>

definition canary_event :: event where
  "canary_event = sample_event\<lparr>evCommand := ''search q='' @ wraps [HexLayer, Base64Layer] (dtValue sample_canary) @ '' x''\<rparr>"

definition canary_app :: app where
  "canary_app = web_app\<lparr>apPolicy := sample_engine\<rparr>"

theorem ingested_event_is_detected_witness:
  "\<exists>added a'. ingest web_env [canary_event] ''acme'' canary_app = (Inr added, a')
     \<and> (\<exists>al \<in> set (stAlerts (baseStore a')). alFingerprint al = ''deception.canary.hit:e1'')"
proof -
  have app: "plain_app canary_app" "store_ok (baseStore canary_app)" "plain_tenant ''acme''" "apPolicy canary_app = sample_engine"
    using store_ok_New sample_plain(1) by (simp_all add: canary_app_def web_app_def plain_app_def physicalTenancy_def sample_event_def)
      (simp add: NewStore_def)
  have ev: "evID (fst (prepareEvent web_env (tenantOrDefault ''acme'') canary_event canary_app)) = ''e1''"
    using prepareEvent_fields(3) [of canary_event] by (simp add: canary_event_def sample_event_def)
  have h: "sample_canary \<in> snd ` set (enDeception sample_engine)" "hideable (aeRuntime web_env) (dtValue sample_canary)"
    "[HexLayer, Base64Layer] \<noteq> []" "length [HexLayer, Base64Layer] \<le> 3" "is_ascii ''search q=''" "is_ascii '' x''"
    "''search q='' = [] \<or> separator (last ''search q='')" "'' x'' = [] \<or> separator (hd '' x'')"
    by code_simp+
  have "''search q='' @ wraps [HexLayer, Base64Layer] (dtValue sample_canary) @ '' x'' \<in> set (deceptionFields canary_event)"
    by (simp add: canary_event_def deceptionFields_def)
  note h = conjI [OF h(1) conjI [OF h(2) conjI [OF h(3) conjI [OF h(4) conjI [OF h(5) conjI [OF h(6) conjI [OF h(7) conjI [OF h(8) this]]]]]]]]
  show ?thesis
    using ingested_event_is_detected [OF app(1-3), of web_env canary_event] unfolding Let_def app(4) ev
    apply (elim exE conjE)
    subgoal premises p for added a'
      using p(1) p(5) [rule_format, OF h] by auto
    done
qed

text \<open>
  Where two rules share an identifier one alert is lost: an event that is labelled as a canary hit and names a registered token raises two
  alerts under one fingerprint, and the store keeps the first, without the evidence of which token was touched.
\<close>

theorem labelled_canary_loses_token:
  "let raised = Evaluate ascii_runtime sample_engine (sample_event\<lparr>evLabels := [''canary''], evSignal := dtValue sample_canary\<rparr>);
       stored = fst (addAlertsLoop raised NewStore) in
   map (\<lambda>al. gm_get (alEvidence al) ''deception_token'') raised = [None, Some (dtName sample_canary)]
   \<and> map (\<lambda>al. gm_get (alEvidence al) ''deception_token'') stored = [None]"
  by code_simp

end
