(* ===== verification/ProxyClient.thy ===== *)
theory ProxyClient
  imports AppGateway
begin

text \<open>
  The HTTP client of the two proxies (\<open>validatedHTTPClient\<close> of \<open>internal/server/mcp.go\<close>): it dials the address that the validation of the target
  selected, whatever the URL says. A \<open>Client.Do\<close> of \<open>net/http\<close> follows up to ten requests through redirects, so the model has them: the
  servers, the parser of \<open>Location\<close> and the headers that a redirect keeps are arguments. \<open>redirects_stay_on_target\<close> says that neither a redirect
  nor a later answer of the resolver leads a proxied call to another address. \<open>pinnedForward\<close> has the type of the argument \<open>aeForward\<close> of the handlers.
\<close>

section \<open>The client\<close>

text \<open>An address to dial is an IP address with a port; the name of the network and the address of the URL are what the transport asks for.\<close>

record http_client =
  hcDial :: "string \<Rightarrow> string \<Rightarrow> ip_addr \<times> string"
  hcServerName :: "string option"
  hcTimeout :: duration

definition validatedHTTPClient :: "(url \<Rightarrow> string) \<Rightarrow> url \<times> ip_addr \<Rightarrow> http_client" where
  "validatedHTTPClient portOf = (\<lambda>(u, ip).
     let port = portOf u; port = (if port = [] then (if urlScheme u = ''https'' then ''443'' else ''80'') else port) in
     \<lparr> hcDial = (\<lambda>network addr. (ip, port)), hcServerName = (if urlScheme u = ''https'' then Some (urlHostname u) else None),
       hcTimeout = 15 * second \<rparr>)"

section \<open>Requests and redirects\<close>

record upstream_request =
  uqMethod :: string
  uqURL :: url
  uqHeaders :: string_map
  uqBody :: string

text \<open>A connection: the address that was dialled, the name that the certificate has to match, and the request.\<close>

record connection =
  cnAddress :: "ip_addr \<times> string"
  cnServerName :: "string option"
  cnRequest :: upstream_request

text \<open>\<open>uwAnswer\<close> answers on a connection after the earlier ones; \<open>uwLocation\<close> resolves a \<open>Location\<close> against the URL of the request.\<close>

record upstream_world =
  uwAnswer :: "connection list \<Rightarrow> connection \<Rightarrow> string + int \<times> string_map \<times> string"
  uwLocation :: "url \<Rightarrow> string \<Rightarrow> url option"
  uwHeaders :: "upstream_request \<Rightarrow> url \<Rightarrow> string_map"
  uwPort :: "url \<Rightarrow> string"

definition connect :: "upstream_world \<Rightarrow> http_client \<Rightarrow> upstream_request \<Rightarrow> connection" where
  "connect w c q =
     \<lparr> cnAddress = hcDial c ''tcp'' (urlHostname (uqURL q) @ '':'' @ uwPort w (uqURL q)),
       cnServerName = (if urlScheme (uqURL q) \<noteq> ''https'' then None
         else (case hcServerName c of Some n \<Rightarrow> Some n | None \<Rightarrow> Some (urlHostname (uqURL q)))),
       cnRequest = q \<rparr>"

text \<open>The request after a redirect: 307 and 308 repeat the method and the body, the others ask with GET.\<close>

definition redirected :: "upstream_world \<Rightarrow> int \<Rightarrow> upstream_request \<Rightarrow> url \<Rightarrow> upstream_request" where
  "redirected w code q u =
     (if code = 307 \<or> code = 308 then q\<lparr>uqURL := u, uqHeaders := uwHeaders w q u\<rparr>
      else \<lparr> uqMethod = (if uqMethod q = MethodHead then MethodHead else MethodGet), uqURL = u, uqHeaders = uwHeaders w q u, uqBody = [] \<rparr>)"

text \<open>\<open>left\<close> is the number of redirects that may still be followed, \<open>cs\<close> the connections so far.\<close>

fun followRedirects ::
  "upstream_world \<Rightarrow> http_client \<Rightarrow> nat \<Rightarrow> connection list \<Rightarrow> upstream_request \<Rightarrow> (string + int \<times> string_map \<times> string) \<times> connection list" where
  "followRedirects w c left cs q =
     (if urlScheme (uqURL q) \<noteq> ''http'' \<and> urlScheme (uqURL q) \<noteq> ''https''
      then (Inl (''unsupported protocol scheme '' @ urlScheme (uqURL q)), cs)
      else (let cn = connect w c q; cs' = cs @ [cn] in
        case uwAnswer w cs cn of
          Inl e \<Rightarrow> (Inl e, cs')
        | Inr (code, hs, body) \<Rightarrow>
            if code \<notin> set [301, 302, 303, 307, 308] \<or> gm_str hs ''Location'' = [] then (Inr (code, hs, body), cs')
            else (case uwLocation w (uqURL q) (gm_str hs ''Location'') of
              None \<Rightarrow> (Inl ''failed to parse Location header'', cs')
            | Some u \<Rightarrow> (case left of
                0 \<Rightarrow> (Inl ''stopped after 10 redirects'', cs')
              | Suc left \<Rightarrow> followRedirects w c left cs' (redirected w code q u)))))"

declare followRedirects.simps [simp del]

definition pinnedExchange ::
  "upstream_world \<Rightarrow> url \<times> ip_addr \<Rightarrow> string_map \<Rightarrow> string \<Rightarrow> (string + int \<times> string_map \<times> string) \<times> connection list" where
  "pinnedExchange w target headers body =
     followRedirects w (validatedHTTPClient (uwPort w) target) 9 [] \<lparr> uqMethod = MethodPost, uqURL = fst target, uqHeaders = headers, uqBody = body \<rparr>"

definition pinnedForward :: "upstream_world \<Rightarrow> url \<times> ip_addr \<Rightarrow> string_map \<Rightarrow> string \<Rightarrow> string + int \<times> string_map \<times> string" where
  "pinnedForward w target headers body = fst (pinnedExchange w target headers body)"

section \<open>Where the connections go\<close>

definition on_target :: "(url \<Rightarrow> string) \<Rightarrow> url \<times> ip_addr \<Rightarrow> connection \<Rightarrow> bool" where
  "on_target portOf target cn \<longleftrightarrow>
     cnAddress cn = (snd target, if portOf (fst target) \<noteq> [] then portOf (fst target) else if urlScheme (fst target) = ''https'' then ''443'' else ''80'') \<and>
     (urlScheme (fst target) = ''https'' \<longrightarrow> cnServerName cn \<in> {None, Some (urlHostname (fst target))}) \<and>
     urlScheme (uqURL (cnRequest cn)) \<in> {''http'', ''https''}"

lemma connect_on_target:
  "urlScheme (uqURL q) \<in> {''http'', ''https''} \<Longrightarrow> on_target portOf target (connect w (validatedHTTPClient portOf target) q)"
  by (cases target) (auto simp: on_target_def connect_def validatedHTTPClient_def Let_def)

lemma followRedirects_connections:
  "followRedirects w (validatedHTTPClient portOf target) left cs q = (r, cs') \<Longrightarrow>
     \<exists>new. cs' = cs @ new \<and> length new \<le> Suc left \<and> (\<forall>cn \<in> set new. on_target portOf target cn)"
proof (induction left arbitrary: cs q)
  case 0
  then show ?case
    using connect_on_target [of q portOf target w]
    by (subst (asm) followRedirects.simps) (auto simp: Let_def split: if_splits sum.splits prod.splits option.splits)
next
  case (Suc left)
  let ?cn = "connect w (validatedHTTPClient portOf target) q"
  consider "cs' = cs" | "cs' = cs @ [?cn]" "on_target portOf target ?cn"
    | q' where "on_target portOf target ?cn" "followRedirects w (validatedHTTPClient portOf target) left (cs @ [?cn]) q' = (r, cs')"
    using Suc.prems connect_on_target [of q portOf target w]
    by (subst (asm) followRedirects.simps) (auto simp: Let_def split: if_splits sum.splits prod.splits option.splits)
  then show ?case
  proof cases
    case (3 q')
    then obtain new where "cs' = cs @ ?cn # new" "length new \<le> Suc left" "\<forall>cn \<in> set new. on_target portOf target cn"
      using Suc.IH by fastforce
    then show ?thesis
      using 3(1) by (intro exI [of _ "?cn # new"]) simp
  qed auto
qed

text \<open>
  Let the validation, with local targets disallowed, accept a URL. Then a forwarded call opens at least one and at most ten connections, all of
  them to the address that was validated, which is none of the blocked ones, and to the port of the URL; for an https target the
  certificate has to match the host of the URL whatever the redirects say. The resolver has no part in it: a name that resolves to
  another address by the time of the call does not matter.
\<close>

theorem redirects_stay_on_target:
  assumes valid: "validateProxyUpstreamURL rt lookup raw False = Inr target"
  shows "\<exists>r cs. pinnedExchange w target headers body = (r, cs) \<and> cs \<noteq> [] \<and> length cs \<le> 10 \<and>
    (\<forall>cn \<in> set cs. on_target (uwPort w) target cn \<and> \<not> isBlockedProxyIP (fst (cnAddress cn)))"
proof -
  obtain u ip where target: "target = (u, ip)"
    by fastforce
  have u: "urlScheme u = ''http'' \<or> urlScheme u = ''https''" and ip: "\<not> isBlockedProxyIP ip"
    using valid hd_in_set unfolding target validated_target_iff by auto
  obtain r cs where run: "pinnedExchange w target headers body = (r, cs)"
    by fastforce
  then have "length cs \<le> 10 \<and> (\<forall>cn \<in> set cs. on_target (uwPort w) target cn)"
    unfolding pinnedExchange_def by (auto dest!: followRedirects_connections)
  moreover have "cs \<noteq> []"
    using run u unfolding pinnedExchange_def target
    by (subst (asm) followRedirects.simps) (auto simp: Let_def split: sum.splits prod.splits if_splits option.splits nat.splits dest!: followRedirects_connections)
  ultimately show ?thesis
    using run ip by (auto simp: on_target_def target)
qed

text \<open>A server that redirects to the metadata service of a cloud: the second request goes to the first address.\<close>

definition metadata_url :: url where
  "metadata_url = \<lparr> urlScheme = ''http'', urlHostname = ''169.254.169.254'', urlHasUser = False \<rparr>"

definition redirect_world :: upstream_world where
  "redirect_world = \<lparr> uwAnswer = (\<lambda>cs cn. if cs = [] then Inr (307, [(''Location'', ''http://169.254.169.254/'')], []) else Inr (200, [], ''ok'')),
     uwLocation = (\<lambda>_ _. Some metadata_url), uwHeaders = (\<lambda>q u. uqHeaders q), uwPort = (\<lambda>_. []) \<rparr>"

lemma redirect_to_metadata:
  "let (r, cs) = pinnedExchange redirect_world (model_url, IPv4 203 0 113 7) [] ''{}'' in
   r = Inr (200, [], ''ok'') \<and> map cnAddress cs = [(IPv4 203 0 113 7, ''443''), (IPv4 203 0 113 7, ''443'')]"
  by code_simp

end
