(* ===== verification/AppActions.thy ===== *)
theory AppActions
  imports AppGateway
begin

text \<open>
  Response actions (\<open>handleResponses\<close>, \<open>handleResponseApproval\<close> and the functions that execute an approved
  action, \<open>internal/server/server.go\<close>): planning the actions of an alert, approving one, and carrying it
  out through the first configured connector.
\<close>

section \<open>Recording the outcome of a connector\<close>

text \<open>
  The end of the three functions that execute an action: the outcome goes to the store, and the stored
  action is returned, or the local one when the store does not have it.
\<close>

definition recordExecution ::
  "app_env \<Rightarrow> principal \<Rightarrow> response_action \<Rightarrow> string \<Rightarrow> string \<Rightarrow> app \<Rightarrow> (string + response_action) \<times> app" where
  "recordExecution env p ac status executionError a =
     (let ((recorded, ok, err), a) =
            onTenancy (recordActionExecutionForTenant (aeTenants env) (raID ac) (aeNow env) status executionError (tenantForPrincipal p)) a
      in case err of
           Some e \<Rightarrow> (Inl e, a)
         | None \<Rightarrow> (Inr (if ok then recorded else executed (aeNow env) status executionError ac), a))"

definition auditConnector ::
  "app_env \<Rightarrow> http_request \<Rightarrow> principal \<Rightarrow> response_action \<Rightarrow> string \<Rightarrow> string option \<Rightarrow> app \<Rightarrow> app" where
  "auditConnector env r p ac connector err a =
     (case err of
        Some e \<Rightarrow> recordAudit env r p ''responses.execute'' ''response_action'' (raID ac) ''failed'' [(''error'', e), (''connector'', connector)] a
      | None \<Rightarrow> recordAudit env r p ''responses.execute'' ''response_action'' (raID ac) ''accepted'' [(''connector'', connector)] a)"

text \<open>Sending an action through a connector, or through none.\<close>

definition executeVia ::
  "app_env \<Rightarrow> http_request \<Rightarrow> principal \<Rightarrow> response_action \<Rightarrow> (string \<times> (response_action \<Rightarrow> string option)) option \<Rightarrow> app
     \<Rightarrow> (string + response_action) \<times> app" where
  "executeVia env r p ac connector a =
     (case connector of
        None \<Rightarrow> recordExecution env p ac ''not_configured'' [] a
      | Some (name, send) \<Rightarrow>
          (case send ac of
             Some e \<Rightarrow> recordExecution env p ac ''failed'' e (auditConnector env r p ac name (Some e) a)
           | None \<Rightarrow> recordExecution env p ac ''sent'' [] (auditConnector env r p ac name None a)))"

definition ticketConnectors :: "app_env \<Rightarrow> app \<Rightarrow> (string \<times> bool \<times> (response_action \<Rightarrow> string option)) list" where
  "ticketConnectors env a =
     [(''github_issue'', githubEnabled (apGitHub a), CreateIssue (aeNet env) (apGitHub a)),
      (''jira_issue'', jiraEnabled (apJira a), jiraCreateIncident (aeNet env) (apJira a)),
      (''servicenow_incident'', servicenowEnabled (apServiceNow a), servicenowCreateIncident (aeNet env) (apServiceNow a)),
      (''incident_ticket'', whURL (apTicketWebhook a) \<noteq> [], ExportIncidentTicket (aeNet env) (aeNow env) (apTicketWebhook a))]"

definition executeTicketAction ::
  "app_env \<Rightarrow> http_request \<Rightarrow> principal \<Rightarrow> response_action \<Rightarrow> app \<Rightarrow> (string + response_action) \<times> app" where
  "executeTicketAction env r p ac a =
     executeVia env r p ac
       (map_option (\<lambda>(name, _, send). (name, send)) (find (\<lambda>(_, enabled, _). enabled) (ticketConnectors env a))) a"

definition executeMCPProxyAction ::
  "app_env \<Rightarrow> http_request \<Rightarrow> principal \<Rightarrow> response_action \<Rightarrow> app \<Rightarrow> (string + response_action) \<times> app" where
  "executeMCPProxyAction env r p ac a =
     (let rawValue = TrimSpace (gm_str (raMetadata ac) ''mcp_raw_request'') in
      if rawValue = [] then (Inl ''missing mcp raw request'', a)
      else (case b64_decode True False rawValue of
        None \<Rightarrow> (Inl ''decode mcp raw request'', a)
      | Some raw \<Rightarrow>
          (let method = TrimSpace (gm_str (raMetadata ac) ''mcp_method'');
               method = (if method = [] then ''tools/call'' else method);
               upstream = TrimSpace (gm_str (raMetadata ac) ''mcp_upstream_url'');
               upstream = (if upstream = [] then gatewayMCPUpstream a else upstream)
           in if upstream = [] then (Inl ''MCP upstream is not configured'', a)
              else if raApprovalStatus ac = ''approved'' then
                (case forwardMCPRequest env raw method upstream (gatewayMCPUpstreamToken a) of
                   Inl e \<Rightarrow> recordExecution env p ac ''failed'' e (auditConnector env r p ac ''mcp_proxy'' (Some e) a)
                 | Inr (answer, code) \<Rightarrow>
                     (let write = (\<lambda>m. gm_put ''mcp_response_body'' answer (gm_put ''mcp_response_status'' (Itoa code) m));
                          a = writeShared env (tenantForPrincipal p) (raID ac) write a;
                          ac = ac\<lparr>raMetadata := write (raMetadata ac)\<rparr>
                      in recordExecution env p ac ''sent'' [] (auditConnector env r p ac ''mcp_proxy'' None a)))
              else recordExecution env p ac ''not_configured'' [] a)))"

definition executeResponseAction ::
  "app_env \<Rightarrow> http_request \<Rightarrow> principal \<Rightarrow> response_action \<Rightarrow> app \<Rightarrow> (string + response_action) \<times> app" where
  "executeResponseAction env r p ac a =
     (if raType ac = ''gateway_tool_call'' then
        (case executeGatewayToolAction env r p ac ''proceeded'' a of
           (Inl e, a) \<Rightarrow> (Inl e, a) | (Inr (ac, _), a) \<Rightarrow> (Inr ac, a))
      else if raType ac = ''mcp_proxy'' then executeMCPProxyAction env r p ac a
      else executeVia env r p ac
        (if githubEnabled (apGitHub a) \<and> ghWorkflowFile (apGitHub a) \<noteq> []
         then Some (''github_workflow'', DispatchWorkflow (aeNet env) (apGitHub a))
         else if whURL (apResponseWebhook a) \<noteq> []
         then Some (''response_webhook'', ExportResponseAction (aeNet env) (aeNow env) (apResponseWebhook a))
         else None) a)"

section \<open>Approval\<close>

definition handleResponseApproval :: "app_env \<Rightarrow> http_request \<Rightarrow> principal \<Rightarrow> app \<Rightarrow> http_response \<times> app" where
  "handleResponseApproval env r p a =
     (if rqMethod r \<noteq> MethodPost then (methodNotAllowed, a)
      else gatewayCritical env (\<lambda>a. case ajApproval (aeJSON env) (rqBody r) of
          Inl e \<Rightarrow> (writeError 400 e, a)
        | Inr (actionID, approvedBy) \<Rightarrow>
            if actionID = [] then (writeError 400 ''action_id is required'', a)
            else (let approvedBy = (if approvedBy = [] then ''operator'' else approvedBy);
                      tenant = tenantForPrincipal p;
                      ((ac, ok, err), a) = onTenancy (approveActionForTenant (aeTenants env) actionID approvedBy (aeNow env) tenant) a
                  in case err of
                       Some e \<Rightarrow>
                         if Contains e ''blocked gateway actions cannot be approved'' then (writeError 409 e, a)
                         else (writeError 500 e, a)
                     | None \<Rightarrow>
                         if \<not> ok then (writeError 404 ''action not found'', a)
                         else if \<not> sameTenant (raTenant ac) tenant then (writeError 404 ''action not found'', a)
                         else (let p' = (if prName p = [] then p\<lparr>prName := approvedBy\<rparr> else p);
                                   a = recordAudit env r p' ''responses.approve'' ''response_action'' (raID ac) ''accepted''
                                     [(''approved_by'', approvedBy), (''asset_id'', raAssetID ac), (''action_type'', raType ac)] a
                               in case (if raType ac = ''create_incident_ticket'' then executeTicketAction env r p' ac a
                                        else executeResponseAction env r p' ac a) of
                                    (Inl e, a) \<Rightarrow> (writeError 500 e, a)
                                  | (Inr ac, a) \<Rightarrow> (writeJSON 202 (ActionReply ac), a)))) a)"

section \<open>Planning\<close>

text \<open>The loop that executes the tickets of a plan; \<open>Inl\<close> is the error that ends it.\<close>

fun executeTickets ::
  "app_env \<Rightarrow> http_request \<Rightarrow> principal \<Rightarrow> response_action list \<Rightarrow> app \<Rightarrow> (string + response_action list) \<times> app" where
  "executeTickets env r p [] a = (Inr [], a)"
| "executeTickets env r p (ac # acs) a =
     (case (if raType ac \<noteq> ''create_incident_ticket'' then (Inr ac, a) else executeTicketAction env r p ac a) of
        (Inl e, a) \<Rightarrow> (Inl e, a)
      | (Inr ac, a) \<Rightarrow>
          (case executeTickets env r p acs a of (Inl e, a) \<Rightarrow> (Inl e, a) | (Inr acs, a) \<Rightarrow> (Inr (ac # acs), a)))"

definition handleResponses :: "app_env \<Rightarrow> http_request \<Rightarrow> principal \<Rightarrow> app \<Rightarrow> http_response \<times> app" where
  "handleResponses env r p a =
     (let tenant = tenantForPrincipal p in
      if rqMethod r = MethodGet then
        (let (acs, a) = onTenancy (listActionsForTenant (aeTenants env) tenant) a in (writeJSON 200 (ActionsReply acs), a))
      else if rqMethod r = MethodPost then
        (case ajAlertID (aeJSON env) (rqBody r) of
           Inl e \<Rightarrow> (writeError 400 e, a)
         | Inr alertID \<Rightarrow>
             if alertID = [] then (writeError 400 ''alert_id is required'', a)
             else (case onTenancy (getAlertForTenant (aeTenants env) alertID tenant) a of
               (None, a) \<Rightarrow> (writeError 404 ''alert not found'', a)
             | (Some al, a) \<Rightarrow>
                 (let (acs, a) = prepareActions env tenant (Plan (apResponder a) al) a;
                      (err, a) = onTenancy (addActionsForTenant (aeTenants env) acs tenant) a
                  in case err of
                       Some e \<Rightarrow> (writeError 500 e, a)
                     | None \<Rightarrow>
                         (case executeTickets env r p acs a of
                            (Inl e, a) \<Rightarrow> (writeError 500 e, a)
                          | (Inr acs, a) \<Rightarrow>
                              (writeJSON 202 (ActionsReply acs),
                               recordAudit env r p ''responses.plan'' ''alert'' (alID al) ''accepted''
                                 [(''actions'', nat_str (length acs))] a)))))
      else (methodNotAllowed, a))"

end
