(* ===== verification/AppRoutes.thy ===== *)
theory AppRoutes
  imports AppActions
begin

text \<open>
  The rest of the HTTP surface of \<open>internal/server/server.go\<close>: reads, sessions, tenant and policy
  administration, the deception registry, the timeline, the authorization of requests (\<open>withAuth\<close>) and the
  table of routes (\<open>Routes\<close>). The handlers of the OIDC and SAML logins, readiness, the validation result
  and the static files are in \<open>AppSso\<close>; here their routes are the value \<open>None\<close>.
\<close>

section \<open>Reads\<close>

definition handleEvents :: "app_env \<Rightarrow> http_request \<Rightarrow> principal \<Rightarrow> app \<Rightarrow> http_response \<times> app" where
  "handleEvents env r p a =
     (let tenant = tenantForPrincipal p in
      if rqMethod r = MethodGet then
        (let (evs, a) = onTenancy (listEventsForTenant (aeTenants env) tenant) a in (writeJSON 200 (EventsReply evs), a))
      else if rqMethod r = MethodPost then
        (case ajEvents (aeJSON env) (rqBody r) of
           Inl e \<Rightarrow> (writeError 400 e, a)
         | Inr evs \<Rightarrow>
             (case ingest env evs tenant a of
                (Inl e, a) \<Rightarrow> (writeError 500 e, a)
              | (Inr als, a) \<Rightarrow>
                  (writeJSON 202 (IngestReply (length evs) als),
                   recordAudit env r p ''events.ingest'' ''events'' [] ''accepted''
                     [(''events'', nat_str (length evs)), (''alerts'', nat_str (length als))] a)))
      else (methodNotAllowed, a))"

text \<open>The shape of the handlers that answer a GET with what the tenant lists.\<close>

definition handleRead ::
  "(string \<Rightarrow> tenancy \<Rightarrow> 'r \<times> tenancy) \<Rightarrow> ('r \<Rightarrow> reply) \<Rightarrow> http_request \<Rightarrow> principal \<Rightarrow> app \<Rightarrow> http_response \<times> app" where
  "handleRead list answer r p a =
     (if rqMethod r \<noteq> MethodGet then (methodNotAllowed, a)
      else (let (xs, a) = onTenancy (list (tenantForPrincipal p)) a in (writeJSON 200 (answer xs), a)))"

definition handleGatewayQueue :: "app_env \<Rightarrow> http_request \<Rightarrow> principal \<Rightarrow> app \<Rightarrow> http_response \<times> app" where
  "handleGatewayQueue env = handleRead (listPendingGatewayActionsForTenant (aeTenants env)) PendingReply"

definition handleAlerts :: "app_env \<Rightarrow> http_request \<Rightarrow> principal \<Rightarrow> app \<Rightarrow> http_response \<times> app" where
  "handleAlerts env = handleRead (listAlertsForTenant (aeTenants env)) AlertsReply"

definition handleAssets :: "app_env \<Rightarrow> http_request \<Rightarrow> principal \<Rightarrow> app \<Rightarrow> http_response \<times> app" where
  "handleAssets env = handleRead (listAssetsForTenant (aeTenants env)) AssetsReply"

definition handleAudit :: "app_env \<Rightarrow> http_request \<Rightarrow> principal \<Rightarrow> app \<Rightarrow> http_response \<times> app" where
  "handleAudit env = handleRead (listAuditsForTenant (aeTenants env)) AuditsReply"

definition handleAuditChain :: "app_env \<Rightarrow> http_request \<Rightarrow> principal \<Rightarrow> app \<Rightarrow> http_response \<times> app" where
  "handleAuditChain env = handleRead (auditChainForTenant (aeTenants env)) ChainReply"

definition handleGatewayAction :: "app_env \<Rightarrow> http_request \<Rightarrow> principal \<Rightarrow> app \<Rightarrow> http_response \<times> app" where
  "handleGatewayAction env r p a =
     (if rqMethod r \<noteq> MethodGet then (methodNotAllowed, a)
      else (let i = TrimFunc (\<lambda>c. c = 47) (TrimPrefix (rqPath r) ''/api/gateway/actions/'') in
        if i = [] then (writeError 400 ''action id is required'', a)
        else (case onTenancy (getActionForTenant (aeTenants env) i (tenantForPrincipal p)) a of
          (None, a) \<Rightarrow> (writeError 404 ''action not found'', a)
        | (Some ac, a) \<Rightarrow> (writeJSON 200 (ActionReply ac), a))))"

definition Version :: string where "Version = ''0.3.0''"

text \<open>The whole seconds of the uptime are computed without the rounding of \<open>float64\<close>.\<close>

definition appStatus :: "app_env \<Rightarrow> nat \<times> nat \<times> nat \<times> nat \<times> nat \<Rightarrow> app \<Rightarrow> status" where
  "appStatus env counts a =
     (let (events, alerts, assets, actions, audits) = counts; st = baseStore a in
      \<lparr> suVersion = Version, suInstanceName = apInstanceName a, suPublicURL = apPublicURL a,
        suTenantIsolation = tenantIsolationMode (apTenancy a), suTenantCount = tenantCount (apTenancy a),
        suUptimeSeconds = whole_seconds (aeNow env - apStartedAt a),
        suEventCount = events, suAlertCount = alerts, suAssetCount = assets, suActionCount = actions, suAuditCount = audits,
        suGatewayInFlight = gatewayInFlight a, suGatewayLimit = apGatewayLimit a, suGatewayRejected = apGatewayRejected a,
        suGatewayP99Millis = gatewayP99 a div 1000000, suStartedAt = apStartedAt a,
        suStorageMode = stMode st, suStoragePath = stPath st, suSchemaVersion = stSchemaVersion st,
        suLastStorageError = LastPersistenceError (aeRuntime env) st, suLastExportError = apExportErr a \<rparr>)"

definition handleStatus :: "app_env \<Rightarrow> http_request \<Rightarrow> principal \<Rightarrow> app \<Rightarrow> http_response \<times> app" where
  "handleStatus env r p a =
     (if rqMethod r \<noteq> MethodGet then (methodNotAllowed, a)
      else (let (counts, a) = onTenancy (countsForTenant (aeTenants env) (tenantForPrincipal p)) a in
        (writeJSON 200 (StatusReply (appStatus env counts a)), a)))"

definition handleHealth :: "http_request \<Rightarrow> app \<Rightarrow> http_response \<times> app" where
  "handleHealth r a = (if rqMethod r \<noteq> MethodGet then (methodNotAllowed, a) else (writeJSON 200 (HealthReply Version), a))"

definition handlePolicies :: "http_request \<Rightarrow> app \<Rightarrow> http_response \<times> app" where
  "handlePolicies r a =
     (if rqMethod r \<noteq> MethodGet then (methodNotAllowed, a) else (writeJSON 200 (RulesReply (Rules (apPolicy a))), a))"

definition handleLicense :: "http_request \<Rightarrow> app \<Rightarrow> http_response \<times> app" where
  "handleLicense r a =
     (if rqMethod r \<noteq> MethodGet then (methodNotAllowed, a) else (writeJSON 200 (LicenseReply (apLicenseStatus a)), a))"

section \<open>The timeline of an asset\<close>

fun firstNonEmptyTimeline :: "string list \<Rightarrow> string" where
  "firstNonEmptyTimeline [] = []"
| "firstNonEmptyTimeline (v # vs) = (let s = TrimSpace v in if s \<noteq> [] then s else firstNonEmptyTimeline vs)"

definition eventEntry :: "event \<Rightarrow> timeline_entry" where
  "eventEntry e = \<lparr> tlTimestamp = evTimestamp e, tlKind = ''event'', tlID = evID e, tlTitle = event_kind_str (evKind e),
     tlDetail = firstNonEmptyTimeline [evSignal e, evCommand e, evToolName e, evProcess e, evDestination e], tlSeverity = [] \<rparr>"

definition alertEntry :: "alert \<Rightarrow> timeline_entry" where
  "alertEntry al = \<lparr> tlTimestamp = alCreatedAt al, tlKind = ''alert'', tlID = alID al, tlTitle = alTitle al,
     tlDetail = alRuleID al, tlSeverity = severity_str (alSeverity al) \<rparr>"

definition actionEntry :: "response_action \<Rightarrow> timeline_entry" where
  "actionEntry ac = \<lparr> tlTimestamp = raCreatedAt ac, tlKind = ''action'', tlID = raID ac, tlTitle = raType ac,
     tlDetail = raReason ac, tlSeverity = [] \<rparr>"

definition auditEntry :: "audit_event \<Rightarrow> timeline_entry" where
  "auditEntry au = \<lparr> tlTimestamp = auTimestamp au, tlKind = ''audit'', tlID = auID au, tlTitle = auAction au,
     tlDetail = auOutcome au, tlSeverity = [] \<rparr>"

definition buildTimeline :: "app_env \<Rightarrow> string \<Rightarrow> string \<Rightarrow> app \<Rightarrow> timeline_entry list \<times> app" where
  "buildTimeline env tenant asset a =
     (let te = aeTenants env;
          (evs, a) = onTenancy (listEventsForTenant te tenant) a;
          (als, a) = onTenancy (listAlertsForTenant te tenant) a;
          (acs, a) = onTenancy (listActionsForTenant te tenant) a;
          (aus, a) = onTenancy (listAuditsForTenant te tenant) a
      in (sort_key tlTimestamp
            (map eventEntry (filter (\<lambda>e. evAssetID e = asset) evs) @ map alertEntry (filter (\<lambda>al. alAssetID al = asset) als) @
             map actionEntry (filter (\<lambda>ac. raAssetID ac = asset) acs) @
             map auditEntry (filter (\<lambda>au. TrimSpace (gm_str (auMetadata au) ''asset_id'') = asset) aus)), a))"

definition handleTimeline :: "app_env \<Rightarrow> http_request \<Rightarrow> principal \<Rightarrow> app \<Rightarrow> http_response \<times> app" where
  "handleTimeline env r p a =
     (if rqMethod r \<noteq> MethodGet then (methodNotAllowed, a)
      else (let asset = TrimSpace (gm_str (rqQuery r) ''asset_id'') in
        if asset = [] then (writeError 400 ''asset_id query parameter is required'', a)
        else (let (entries, a) = buildTimeline env (tenantForPrincipal p) asset a in (writeJSON 200 (TimelineReply asset entries), a))))"

section \<open>Administration\<close>

definition isPlatformAdmin :: "principal \<Rightarrow> bool" where
  "isPlatformAdmin p \<longleftrightarrow> HasAny p [RoleAdmin] \<and> tenantOrDefault (prTenant p) = ''default''"

definition canAdministerTenant :: "runtime \<Rightarrow> principal \<Rightarrow> string \<Rightarrow> tenant_backend_config option \<Rightarrow> bool" where
  "canAdministerTenant rt p target backend =
     (if \<not> HasAny p [RoleAdmin] then False
      else if isPlatformAdmin p then True
      else if tenantOrDefault (prTenant p) = tenantOrDefault target then True
      else (case backend of
        None \<Rightarrow> False
      | Some cfg \<Rightarrow> (case tbAdmins cfg of None \<Rightarrow> False
          | Some names \<Rightarrow> (\<exists>name \<in> set names. EqualFold rt (TrimSpace name) (TrimSpace (prName p))))))"

abbreviation MethodPut :: string where "MethodPut \<equiv> ''PUT''"

definition handleTenants :: "app_env \<Rightarrow> http_request \<Rightarrow> principal \<Rightarrow> app \<Rightarrow> http_response \<times> app" where
  "handleTenants env r p a =
     (if \<not> isPlatformAdmin p then (writeError 403 ''platform admin (default tenant) required'', a)
      else if rqMethod r = MethodGet then (writeJSON 200 (TenantsReply (listTenantBackends (apTenancy a))), a)
      else if rqMethod r = MethodPost then
        (case ajTenant (aeJSON env) (rqBody r) of
           Inl e \<Rightarrow> (writeError 400 e, a)
         | Inr (tenant, settings) \<Rightarrow>
             (case onTenancy (appRegisterTenant (aeTenants env) tenant settings) a of
                (Inl e, a) \<Rightarrow> (writeError 400 e, a) | (Inr view, a) \<Rightarrow> (writeJSON 201 (TenantReply view), a)))
      else (methodNotAllowed, a))"

definition handleTenantBackend :: "app_env \<Rightarrow> http_request \<Rightarrow> principal \<Rightarrow> app \<Rightarrow> http_response \<times> app" where
  "handleTenantBackend env r p a =
     (if \<not> HasAny p [RoleAdmin] then (writeError 403 ''admin role required'', a)
      else (case tsRegistry (apTenancy a) of
        None \<Rightarrow> (writeError 404 ''tenant registry is not configured'', a)
      | Some rg \<Rightarrow>
          (let tenant = TrimSpace (TrimPrefix (rqPath r) ''/api/tenants/'') in
           if tenant = [] \<or> Contains tenant ''/'' then (writeError 404 ''tenant not found'', a)
           else (let backend = registryGet (apTenancy a) rg tenant in
             if \<not> canAdministerTenant (aeRuntime env) p tenant backend
             then (writeError 403 ''not authorized to administer this tenant'', a)
             else if rqMethod r = MethodGet then
               (case backend of
                  Some cfg \<Rightarrow> (writeJSON 200 (TenantReply (tenantConfigToMap tenant cfg)), a)
                | None \<Rightarrow> (writeError 404 ''tenant not found'', a))
             else if rqMethod r = MethodPut then
               (case ajTenant (aeJSON env) (rqBody r) of
                  Inl e \<Rightarrow> (writeError 400 e, a)
                | Inr (_, settings) \<Rightarrow>
                    (case onTenancy (appUpdateTenant (aeTenants env) tenant settings) a of
                       (Inl e, a) \<Rightarrow> (writeError 400 e, a) | (Inr view, a) \<Rightarrow> (writeJSON 200 (TenantReply view), a)))
             else if rqMethod r = MethodDelete then
               (case onTenancy (appDeleteTenant (aeTenants env) tenant) a of
                  (Inl e, a) \<Rightarrow> (writeError 400 e, a) | (Inr view, a) \<Rightarrow> (writeJSON 200 (TenantReply view), a))
             else (methodNotAllowed, a)))))"

definition config_error_str :: "config_error \<Rightarrow> string" where
  "config_error_str e = (case e of ConfigRead path \<Rightarrow> ''open '' @ path | ConfigDecode path \<Rightarrow> ''decode '' @ path | ConfigPack _ \<Rightarrow> ''threat pack'')"

definition ReloadPolicy :: "app_env \<Rightarrow> app \<Rightarrow> (string + nat) \<times> app" where
  "ReloadPolicy env a =
     (if apPolicyPath a = [] \<and> apThreatPackPath a = [] then (Inl ''no policy or threat-pack file configured to reload'', a)
      else (case LoadConfig (ajConfig (aeJSON env)) (teHost (aeTenants env)) (apPolicyPath a) of
        Inl e \<Rightarrow> (Inl (config_error_str e), a)
      | Inr cfg \<Rightarrow>
          (let cfg = (if apThreatPackPath a \<noteq> [] then cfg\<lparr>fcThreatPackPath := apThreatPackPath a\<rparr> else cfg) in
           case PolicyConfig (aeRuntime env) (ajThreatPack (aeJSON env)) (teHost (aeTenants env)) cfg of
             Inl e \<Rightarrow> (Inl (config_error_str e), a)
           | Inr pc \<Rightarrow>
               (let a = a\<lparr>apPolicy := Reload (aeRuntime env) (aeNow env) pc (apPolicy a)\<rparr> in (Inr (length (Rules (apPolicy a))), a)))))"

definition handlePolicyReload :: "app_env \<Rightarrow> http_request \<Rightarrow> principal \<Rightarrow> app \<Rightarrow> http_response \<times> app" where
  "handlePolicyReload env r p a =
     (if rqMethod r \<noteq> MethodPost then (methodNotAllowed, a)
      else (case ReloadPolicy env a of
        (Inl e, a) \<Rightarrow> (writeError 500 e, recordAudit env r p ''policy.reload'' ''policy'' [] ''failed'' [(''error'', e)] a)
      | (Inr rules, a) \<Rightarrow>
          (writeJSON 200 (ReloadReply rules),
           recordAudit env r p ''policy.reload'' ''policy'' [] ''accepted'' [(''rules'', nat_str rules)] a)))"

definition handleDeceptionTokens :: "app_env \<Rightarrow> http_request \<Rightarrow> principal \<Rightarrow> app \<Rightarrow> http_response \<times> app" where
  "handleDeceptionTokens env r p a =
     (if rqMethod r = MethodGet then (writeJSON 200 (TokensReply (ListDeceptionTokens (apPolicy a))), a)
      else if rqMethod r = MethodPost then
        (case ajDeceptionToken (aeJSON env) (rqBody r) of
           Inl e \<Rightarrow> (writeError 400 e, a)
         | Inr token \<Rightarrow>
             (case AddDeceptionToken (aeRuntime env) (aeNow env) token (apPolicy a) of
                (Inl e, en) \<Rightarrow> (writeError 400 e, a\<lparr>apPolicy := en\<rparr>)
              | (Inr created, en) \<Rightarrow>
                  (writeJSON 201 (TokenReply created),
                   recordAudit env r p ''deception.register'' ''deception_token'' (dtID created) ''accepted''
                     [(''name'', dtName created), (''kind'', dtKind created)] (a\<lparr>apPolicy := en\<rparr>))))
      else if rqMethod r = MethodDelete then
        (let i = TrimSpace (gm_str (rqQuery r) ''id'') in
         if i = [] then (writeError 400 ''id query parameter is required'', a)
         else (let (removed, en) = RemoveDeceptionToken i (apPolicy a); a = a\<lparr>apPolicy := en\<rparr> in
           if \<not> removed then (writeError 404 ''deception token not found'', a)
           else (writeJSON 200 (RemovedReply i), recordAudit env r p ''deception.remove'' ''deception_token'' i ''accepted'' [] a)))
      else (methodNotAllowed, a))"

definition handleTenantPolicies :: "app_env \<Rightarrow> http_request \<Rightarrow> principal \<Rightarrow> app \<Rightarrow> http_response \<times> app" where
  "handleTenantPolicies env r p a =
     (if \<not> HasAny p [RoleAdmin] then (writeError 403 ''admin role required'', a)
      else if rqMethod r = MethodGet then (writeJSON 200 (PoliciesReply (ListTenantPolicies (apPolicy a))), a)
      else if rqMethod r = MethodPost \<or> rqMethod r = MethodPut then
        (case ajTenantPolicy (aeJSON env) (rqBody r) of
           Inl e \<Rightarrow> (writeError 400 e, a)
         | Inr policy \<Rightarrow>
             (case SetTenantPolicy (aeRuntime env) policy (apPolicy a) of
                (None, en) \<Rightarrow> (writeError 400 ''tenant_id is required'', a\<lparr>apPolicy := en\<rparr>)
              | (Some stored, en) \<Rightarrow>
                  (writeJSON 200 (PolicyReply stored),
                   recordAudit env r p ''policy.tenant.set'' ''policy'' (tpoTenantID stored) ''accepted''
                     [(''tenant'', tpoTenantID stored), (''approved_tools'', nat_str (length (tpoApprovedTools stored))),
                      (''approved_egress'', nat_str (length (tpoApprovedEgress stored)))] (a\<lparr>apPolicy := en\<rparr>))))
      else if rqMethod r = MethodDelete then
        (let tenant = TrimSpace (gm_str (rqQuery r) ''tenant_id'') in
         if tenant = [] then (writeError 400 ''tenant_id query parameter is required'', a)
         else (let (removed, en) = RemoveTenantPolicy tenant (apPolicy a);
                   a = recordAudit env r p ''policy.tenant.remove'' ''policy'' tenant (if removed then ''accepted'' else ''not_found'')
                     [(''tenant'', tenant)] (a\<lparr>apPolicy := en\<rparr>)
               in if \<not> removed then (writeError 404 ''tenant policy not found'', a) else (writeJSON 200 (RemovedReply tenant), a)))
      else (methodNotAllowed, a))"

section \<open>Demo data\<close>

definition demoEvent ::
  "time \<Rightarrow> event_kind \<Rightarrow> string \<Rightarrow> string \<Rightarrow> string list \<Rightarrow> event" where
  "demoEvent t kind asset signal labels = \<lparr> evID = [], evTimestamp = t, evTenant = [], evKind = kind, evAssetID = asset, evHostname = asset,
     evActor = [], evSourceIP = [], evDestination = [], evProcess = [], evToolName = [], evCommand = [], evSignal = signal,
     evLabels = labels, evMetadata = [] \<rparr>"

definition DemoEvents :: "time \<Rightarrow> event list" where
  "DemoEvents now =
    [(demoEvent (now - 18 * minute) EventHostObservation ''win-finance-07'' ''endpoint enrolled'' [''windows'', ''finance''])
       \<lparr>evID := ''demo-evt-1'', evSourceIP := ''10.40.7.19'', evMetadata := [(''os'', ''windows'')]\<rparr>,
     (demoEvent (now - 14 * minute) EventProcessStart ''win-finance-07'' ''discovery sequence'' [''windows'', ''discovery''])
       \<lparr>evID := ''demo-evt-2'', evSourceIP := ''10.40.7.19'', evProcess := ''powershell.exe'', evCommand := ''whoami; ipconfig /all; netstat -ano''\<rparr>,
     (demoEvent (now - 12 * minute) EventAgentToolCall ''win-finance-07'' ''agent tool referenced token material'' [''agent'', ''mcp'', ''credential''])
       \<lparr>evID := ''demo-evt-3'', evActor := ''local-agent'', evToolName := ''shell_exec'', evCommand := ''read env token for connector troubleshooting''\<rparr>,
     (demoEvent (now - 10 * minute) EventNetworkFlow ''win-finance-07'' ''new outbound flow after discovery'' [''egress''])
       \<lparr>evID := ''demo-evt-4'', evSourceIP := ''10.40.7.19'', evDestination := ''203.0.113.77:443''\<rparr>,
     (demoEvent (now - 8 * minute) EventHostObservation ''llm-build-02'' ''local model runtime observed'' [''linux'', ''gpu'', ''model_runtime''])
       \<lparr>evID := ''demo-evt-5'', evSourceIP := ''10.40.9.21'', evMetadata := [(''os'', ''linux'')]\<rparr>,
     (demoEvent (now - 7 * minute) EventNetworkFlow ''llm-build-02'' ''model-download with gpu activity'' [''model-download'', ''gpu''])
       \<lparr>evID := ''demo-evt-6'', evSourceIP := ''10.40.9.21'', evDestination := ''models.example.invalid:443'', evProcess := ''ollama''\<rparr>,
     (demoEvent (now - 4 * minute) EventDeceptionHit ''dev-agent-03'' ''honey credential accessed by agent process'' [''deception'', ''canary'', ''agent''])
       \<lparr>evID := ''demo-evt-7'', evSourceIP := ''10.40.4.44'', evDestination := ''canary-token-vault''\<rparr>]"

definition LoadDemoForTenant :: "app_env \<Rightarrow> string \<Rightarrow> app \<Rightarrow> (string + alert list) \<times> app" where
  "LoadDemoForTenant env tenant a = ingest env (map (\<lambda>e. e\<lparr>evID := []\<rparr>) (DemoEvents (aeNow env))) tenant a"

definition handleDemo :: "app_env \<Rightarrow> http_request \<Rightarrow> principal \<Rightarrow> app \<Rightarrow> http_response \<times> app" where
  "handleDemo env r p a =
     (if rqMethod r \<noteq> MethodPost then (methodNotAllowed, a)
      else (case LoadDemoForTenant env (tenantForPrincipal p) a of
        (Inl e, a) \<Rightarrow> (writeError 500 e, a)
      | (Inr als, a) \<Rightarrow>
          (writeJSON 202 (DemoReply als),
           recordAudit env r p ''demo.load'' ''demo'' [] ''accepted'' [(''alerts'', nat_str (length als))] a)))"

section \<open>Sessions\<close>

definition authenticationConfigured :: "app \<Rightarrow> bool" where
  "authenticationConfigured a \<longleftrightarrow> Enabled (apAuth a) \<or> apOIDCEnabled a \<or> apSAMLEnabled a"

text \<open>\<open>fmt.Sprintf("%.0f", d.Seconds())\<close>: rounded to the nearest second, ties to the even one.\<close>

definition secondsText :: "duration \<Rightarrow> string" where
  "secondsText d =
     (let q = d div second; r = d mod second in
      Itoa (if 2 * r < second then q else if second < 2 * r then q + 1 else if even q then q else q + 1))"

definition onAuth :: "(authenticator \<Rightarrow> 'r \<times> authenticator) \<Rightarrow> app \<Rightarrow> 'r \<times> app" where
  "onAuth f a = (let (x, au) = f (apAuth a) in (x, a\<lparr>apAuth := au\<rparr>))"

text \<open>
  \<open>loginRetryAfter\<close> and \<open>recordLoginAttempt\<close> of the server, outside PostgreSQL mode. A failed attempt answers
  with the error; the mode and the principal are part of the reply.
\<close>

definition handleLogin :: "app_env \<Rightarrow> http_request \<Rightarrow> string \<Rightarrow> string \<Rightarrow> app \<Rightarrow> http_response \<times> app" where
  "handleLogin env r username token a =
     (let key = sourceIP (aeRuntime env) (apTrustedProxies a) r;
          (wait, a) = onAuth (LoginRetryAfter (aeNow env) key) a
      in if 0 < wait then
           ((writeError 429 ''login temporarily rate limited'')\<lparr>rsRetryAfter := Some (secondsText wait)\<rparr>,
            recordAudit env r anonymous ''auth.login'' ''session'' [] ''rate_limited''
              [(''username'', TrimSpace username), (''retry_after'', secondsText wait)] a)
         else (case Login (aeRuntime env) (aeCodec env) (aeNow env) (aeSessionRandom env) username token (apAuth a) of
           None \<Rightarrow>
             (let (wait, a) = onAuth (RecordLoginAttempt (aeNow env) key False) a in
              (writeError 401 ''invalid credentials'',
               recordAudit env r anonymous ''auth.login'' ''session'' [] ''denied''
                 [(''username'', TrimSpace username), (''retry_after'', secondsText wait)] a))
         | Some (info, session) \<Rightarrow>
             (let (_, a) = onAuth (RecordLoginAttempt (aeNow env) key True) a in
              ((writeJSON 202 (SessionReply True ''session'' None (Some (siPrincipal info)) (Some (siExpiresAt info))))
                 \<lparr>rsCookies := [SetSessionCookie (aeNow env) session (siExpiresAt info)
                    (requestIsSecure (aeRuntime env) (apTrustedProxies a) (aeTLS env) r)]\<rparr>,
               recordAudit env r (siPrincipal info) ''auth.login'' ''session'' [] ''accepted'' [(''mode'', ''session'')] a))))"

definition openPrincipal :: principal where
  "openPrincipal = \<lparr> prName = ''anonymous'', prTenant = ''default'', prRoles = [RoleAdmin] \<rparr>"

definition handleSession :: "app_env \<Rightarrow> http_request \<Rightarrow> app \<Rightarrow> http_response \<times> app" where
  "handleSession env r a =
     (let sso = Some (apOIDCEnabled a, apSAMLEnabled a) in
      if rqMethod r = MethodGet then
        (if \<not> authenticationConfigured a
         then (writeJSON 200 (SessionReply True ''open'' (Some (False, False)) (Some openPrincipal) None), a)
         else (case onAuth (Session (aeRuntime env) (aeCodec env) (aeNow env) r) a of
           (Some info, a) \<Rightarrow> (writeJSON 200 (SessionReply True ''session'' sso (Some (siPrincipal info)) (Some (siExpiresAt info))), a)
         | (None, a) \<Rightarrow> (case onAuth (Authenticate (aeRuntime env) (aeCodec env) (aeNow env) r) a of
             (Some p, a) \<Rightarrow> (writeJSON 200 (SessionReply True ''token'' sso (Some p) None), a)
           | (None, a) \<Rightarrow> (writeJSON 200 (SessionReply False [] sso None None), a))))
      else if rqMethod r = MethodPost then
        (if \<not> authenticationConfigured a then (writeJSON 202 (SessionReply True ''open'' None (Some openPrincipal) None), a)
         else (case ajLogin (aeJSON env) (rqBody r) of
           Inl e \<Rightarrow> (writeError 400 e, a) | Inr (username, token) \<Rightarrow> handleLogin env r username token a))
      else if rqMethod r = MethodDelete then
        (if \<not> authenticationConfigured a
         then (writeJSON 200 (SessionReply True ''open'' None (Some (openPrincipal\<lparr>prTenant := []\<rparr>)) None), a)
         else (let (info, a) = onAuth (Session (aeRuntime env) (aeCodec env) (aeNow env) r) a;
                   a = (case info of None \<Rightarrow> a
                        | Some info \<Rightarrow> snd (onAuth (Logout (aeRuntime env) (aeCodec env) (aeNow env) r)
                            (recordAudit env r (siPrincipal info) ''auth.logout'' ''session'' [] ''accepted'' [] a)))
               in ((writeJSON 200 (SessionReply False [] None None None))\<lparr>rsCookies := [ClearSessionCookie]\<rparr>, a)))
      else (methodNotAllowed, a))"

section \<open>Routes and authorization\<close>

definition requiresAuthEvenInOpenMode :: "string \<Rightarrow> bool" where
  "requiresAuthEvenInOpenMode path \<longleftrightarrow> path = ''/api/gateway/proxy'' \<or> path = ''/api/mcp/proxy''"

text \<open>The principal that \<open>principalFromRequest\<close> finds in a request without one.\<close>

definition noPrincipal :: principal where
  "noPrincipal = \<lparr> prName = [], prTenant = [], prRoles = [] \<rparr>"

type_synonym handler = "http_request \<Rightarrow> principal \<Rightarrow> app \<Rightarrow> http_response \<times> app"

definition withAuth :: "app_env \<Rightarrow> handler \<Rightarrow> http_request \<Rightarrow> app \<Rightarrow> http_response \<times> app" where
  "withAuth env handle r a =
     (let path = rqPath r in
      if \<not> authenticationConfigured a \<and> requiresAuthEvenInOpenMode path
      then (writeError 503 ''proxy endpoints require authentication to be configured'', a)
      else if \<not> HasPrefix path ''/api/'' \<or> path = ''/api/session'' \<or> HasPrefix path ''/api/sso/'' \<or> \<not> authenticationConfigured a
      then handle r noPrincipal a
      else (case onAuth (Authenticate (aeRuntime env) (aeCodec env) (aeNow env) r) a of
        (None, a) \<Rightarrow>
          (writeError 401 ''missing or invalid API token'',
           recordAudit env r anonymous ''auth.authenticate'' ''http_request'' path ''denied'' [(''method'', rqMethod r)] a)
      | (Some p, a) \<Rightarrow>
          if \<not> HasAny p (RequiredRoles (rqMethod r) path)
          then (writeError 403 ''insufficient role'',
                recordAudit env r p ''auth.authorize'' ''http_request'' path ''denied'' [(''method'', rqMethod r)] a)
          else handle r p a))"

text \<open>The paths that the multiplexer matches exactly, with their handlers.\<close>

definition exactRoutes :: "app_env \<Rightarrow> (string \<times> handler) list" where
  "exactRoutes env =
    [(''/healthz'', \<lambda>r p. handleHealth r), (''/api/status'', handleStatus env), (''/api/session'', \<lambda>r p. handleSession env r),
     (''/api/gateway/decide'', handleGatewayDecision env), (''/api/gateway/execute'', handleGatewayExecute env),
     (''/api/policy/reload'', handlePolicyReload env), (''/api/policy/tenants'', handleTenantPolicies env),
     (''/api/deception/tokens'', handleDeceptionTokens env), (''/api/timeline'', handleTimeline env),
     (''/api/license'', \<lambda>r p. handleLicense r), (''/api/gateway/queue'', handleGatewayQueue env), (''/api/events'', handleEvents env),
     (''/api/alerts'', handleAlerts env), (''/api/assets'', handleAssets env), (''/api/audit'', handleAudit env),
     (''/api/audit/chain'', handleAuditChain env), (''/api/tenants'', handleTenants env),
     (''/api/responses/approve'', handleResponseApproval env), (''/api/responses'', handleResponses env),
     (''/api/policies'', \<lambda>r p. handlePolicies r), (''/api/demo'', handleDemo env),
     (''/api/gateway/proxy'', handleGatewayProxy env), (''/api/mcp/proxy'', handleMCPProxy env)]"

definition route :: "app_env \<Rightarrow> string \<Rightarrow> handler option" where
  "route env path =
     (case map_of (exactRoutes env) path of
        Some h \<Rightarrow> Some h
      | None \<Rightarrow>
          if HasPrefix path ''/api/gateway/actions/'' then Some (handleGatewayAction env)
          else if HasPrefix path ''/api/tenants/'' then Some (handleTenantBackend env)
          else None)"

definition serve :: "app_env \<Rightarrow> http_request \<Rightarrow> app \<Rightarrow> (http_response \<times> app) option" where
  "serve env r a = map_option (\<lambda>h. withAuth env h r a) (route env (rqPath r))"

section \<open>Who changes what\<close>

text \<open>A handler that leaves the state as it is on every read.\<close>

definition reads_only :: "handler \<Rightarrow> bool" where
  "reads_only h \<longleftrightarrow> (\<forall>r p a. readMethod (rqMethod r) \<longrightarrow> \<not> physicalTenancy (apTenancy a) \<longrightarrow> snd (h r p a) = a)"

lemma onTenancy_read:
  "\<not> physicalTenancy (apTenancy a) \<Longrightarrow> onTenancy (readTenant te tenant f g d) a = (f (tsBase (apTenancy a)), a)"
  by (simp add: onTenancy_def readTenant_def)

lemmas tenant_reads = listEventsForTenant_def listAlertsForTenant_def listAssetsForTenant_def listAuditsForTenant_def
  listActionsForTenant_def countsForTenant_def auditChainForTenant_def listPendingGatewayActionsForTenant_def

lemma read_not_post: "readMethod m \<Longrightarrow> m \<noteq> MethodPost"
  by (auto simp: readMethod_def)

lemma reads_only_posts:
  "reads_only (handleResponseApproval env)" "reads_only (handleDemo env)"
  by (auto simp: reads_only_def handleResponseApproval_def handleDemo_def dest: read_not_post)

lemma reads_only_gets:
  "reads_only (handleEvents env)" "reads_only (handleResponses env)" "reads_only (handleStatus env)"
  "reads_only (handleAlerts env)" "reads_only (handleAssets env)" "reads_only (handleTimeline env)"
  "reads_only (\<lambda>r p. handleLicense r)" "reads_only (\<lambda>r p. handlePolicies r)" "reads_only (\<lambda>r p. handleHealth r)"
proof -
  show "reads_only (handleEvents env)"
    by (auto simp: reads_only_def handleEvents_def Let_def tenant_reads onTenancy_read dest: read_not_post)
  show "reads_only (handleResponses env)"
    by (auto simp: reads_only_def handleResponses_def Let_def tenant_reads onTenancy_read dest: read_not_post)
  show "reads_only (handleTimeline env)"
    by (auto simp: reads_only_def handleTimeline_def buildTimeline_def Let_def tenant_reads onTenancy_read)
qed (auto simp: reads_only_def handleStatus_def handleAlerts_def handleAssets_def handleRead_def handleLicense_def handlePolicies_def
    handleHealth_def Let_def tenant_reads onTenancy_read)

text \<open>The counts of the status are the numbers of records that the same caller can list.\<close>

theorem status_counts_what_is_listed:
  assumes "\<not> physicalTenancy (apTenancy a)" "rqMethod r = MethodGet"
  shows "\<exists>st. handleStatus env r p a = (writeJSON 200 (StatusReply st), a) \<and>
    suEventCount st = length (ListEventsForTenant (baseStore a) (tenantForPrincipal p)) \<and>
    suAlertCount st = length (ListAlertsForTenant (baseStore a) (tenantForPrincipal p)) \<and>
    suAssetCount st = length (ListAssetsForTenant (baseStore a) (tenantForPrincipal p)) \<and>
    suActionCount st = length (ListActionsForTenant (baseStore a) (tenantForPrincipal p)) \<and>
    suAuditCount st = length (ListAuditsForTenant (baseStore a) (tenantForPrincipal p))"
proof -
  let ?st = "appStatus env (CountsForTenant (baseStore a) (tenantForPrincipal p)) a"
  have "handleStatus env r p a = (writeJSON 200 (StatusReply ?st), a)"
    using assms by (simp add: handleStatus_def countsForTenant_def onTenancy_read)
  moreover have "suEventCount ?st = length (ListEventsForTenant (baseStore a) (tenantForPrincipal p))"
      "suAlertCount ?st = length (ListAlertsForTenant (baseStore a) (tenantForPrincipal p))"
      "suAssetCount ?st = length (ListAssetsForTenant (baseStore a) (tenantForPrincipal p))"
      "suActionCount ?st = length (ListActionsForTenant (baseStore a) (tenantForPrincipal p))"
      "suAuditCount ?st = length (ListAuditsForTenant (baseStore a) (tenantForPrincipal p))"
    by (simp_all add: appStatus_def CountsForTenant_def ListEventsForTenant_def ListAlertsForTenant_def ListAssetsForTenant_def
        ListActionsForTenant_def ListAuditsForTenant_def Let_def)
  ultimately show ?thesis
    by blast
qed

lemma exactRoutes_reads:
  "list_all (\<lambda>(path, h). restrictedSurface path \<or> path = ''/api/session'' \<or> reads_only h) (exactRoutes env)"
  by (simp add: exactRoutes_def reads_only_gets reads_only_posts restrictedSurface_def adminSurface_def)

lemma route_reads:
  assumes "route env path = Some h" "\<not> restrictedSurface path" "path \<noteq> ''/api/session''"
  shows "reads_only h"
proof (cases "map_of (exactRoutes env) path")
  case None
  then show ?thesis
    using assms by (auto simp: route_def restrictedSurface_def adminSurface_def HasPrefix_iff split: if_splits)
next
  case (Some h')
  then have "(path, h) \<in> set (exactRoutes env)"
    using assms(1) by (auto simp: route_def dest: map_of_SomeD)
  then show ?thesis
    using exactRoutes_reads [of env] assms(2,3) by (auto simp: list_all_iff)
qed

text \<open>The state after one more audit record.\<close>

definition audited :: "app_env \<Rightarrow> audit_event \<Rightarrow> string \<Rightarrow> app \<Rightarrow> app" where
  "audited env ev tenant a =
     a\<lparr>apCounter := apCounter a + 1, apTenancy := snd (addAuditForTenant (aeTenants env) ev tenant (apTenancy a))\<rparr>"

lemma recordAudit_audited:
  "\<exists>ev. recordAudit env r p action rtype i outcome m a = audited env ev (tenantForPrincipal p) a \<and>
     auAction ev = action \<and> auOutcome ev = outcome \<and> auResourceID ev = i"
  by (rule exI [of _ "auditEvent env r p action rtype i outcome m (fst (nextID env ''aud'' a)) (snd (nextID env ''aud'' a))"])
    (simp add: recordAudit_def nextID_eq audited_def tenantForPrincipal_def auditEvent_def Let_def)

text \<open>A request to the protected part of the interface: authentication, then the roles, then the handler.\<close>

lemma withAuth_protected:
  assumes "authenticationConfigured a" "prefix ''/api/'' (rqPath r)" "rqPath r \<noteq> ''/api/session''" "\<not> prefix ''/api/sso/'' (rqPath r)"
    and auth: "Authenticate (aeRuntime env) (aeCodec env) (aeNow env) r (apAuth a) = (po, au)"
  shows "withAuth env h r a = (case (po, a\<lparr>apAuth := au\<rparr>) of
      (None, a) \<Rightarrow> (writeError 401 ''missing or invalid API token'',
        recordAudit env r anonymous ''auth.authenticate'' ''http_request'' (rqPath r) ''denied'' [(''method'', rqMethod r)] a)
    | (Some p, a) \<Rightarrow> if \<not> HasAny p (RequiredRoles (rqMethod r) (rqPath r))
        then (writeError 403 ''insufficient role'',
          recordAudit env r p ''auth.authorize'' ''http_request'' (rqPath r) ''denied'' [(''method'', rqMethod r)] a)
        else h r p a)"
  using assms(1-4) unfolding withAuth_def Let_def onAuth_def auth prod.case HasPrefix_iff by (simp only: if_False if_True simp_thms)

lemma viewer_passes: "set (prRoles p) = {RoleViewer} \<Longrightarrow> HasAny p (RequiredRoles m path) \<longleftrightarrow> readMethod m \<and> \<not> restrictedSurface path"
  by (auto simp: HasAny_iff RequiredRoles_viewer [symmetric])

lemma rsStatus_writeError: "rsStatus (writeError code e) = code"
  by (simp add: writeError_def writeJSON_def)

text \<open>C27: Requests without rights change nothing. On a server with authentication configured, take a request to a
  modelled API path other than the session and single sign-on paths, from a caller with neither a valid
  session nor a known token. It is answered with 401, and its only effect is one audit record with the
  outcome \<open>denied\<close> (and the pruning of the authenticator's tables). For a caller whose only role is viewer,
  on a server without physical tenant isolation, either the request was a read outside the restricted
  surfaces and the state of the server is as before, or it was answered with 403 and left one such audit
  record. In particular no event, alert, action, policy, token, tenant or session is changed.\<close>

theorem requests_without_rights_change_nothing:
  fixes env r a
  defines "auth \<equiv> Authenticate (aeRuntime env) (aeCodec env) (aeNow env) r (apAuth a)"
  defines "a' \<equiv> a\<lparr>apAuth := snd auth\<rparr>"
  assumes "authenticationConfigured a" "prefix ''/api/'' (rqPath r)" "rqPath r \<noteq> ''/api/session''" "\<not> prefix ''/api/sso/'' (rqPath r)"
    and served: "serve env r a = Some (resp, b)"
  shows "(fst auth = None \<longrightarrow> rsStatus resp = 401 \<and>
      (\<exists>ev. auAction ev = ''auth.authenticate'' \<and> auOutcome ev = ''denied'' \<and> auResourceID ev = rqPath r \<and> b = audited env ev ''default'' a')) \<and>
    (\<forall>p. fst auth = Some p \<longrightarrow> set (prRoles p) = {RoleViewer} \<longrightarrow> \<not> physicalTenancy (apTenancy a) \<longrightarrow>
      (if readMethod (rqMethod r) \<and> \<not> restrictedSurface (rqPath r) then b = a'
       else rsStatus resp = 403 \<and> (\<exists>ev. auAction ev = ''auth.authorize'' \<and> auOutcome ev = ''denied'' \<and>
         auResourceID ev = rqPath r \<and> b = audited env ev (tenantForPrincipal p) a')))"
proof -
  obtain h where route: "route env (rqPath r) = Some h" and run: "withAuth env h r a = (resp, b)"
    using served by (auto simp: serve_def)
  obtain po au where auth: "auth = (po, au)"
    by fastforce
  have a': "a' = a\<lparr>apAuth := au\<rparr>"
    by (simp add: a'_def auth)
  note protected = withAuth_protected [OF assms(3-6) auth [unfolded auth_def], of h, folded a']
  show ?thesis
  proof (cases po)
    case None
    have "tenantForPrincipal anonymous = ''default''"
      by code_simp
    then show ?thesis
      using run recordAudit_audited [of env r anonymous "''auth.authenticate''" "''http_request''" "rqPath r" "''denied''" "[(''method'', rqMethod r)]" a']
      unfolding protected None prod.case option.case by (auto simp: auth None rsStatus_writeError simp del: prod.collapse)
  next
    case (Some p)
    show ?thesis
    proof (cases "HasAny p (RequiredRoles (rqMethod r) (rqPath r))")
      case True
      then have "b = snd (h r p a')"
        using run unfolding protected Some prod.case option.case by (simp add: prod_eq_iff)
      then have "b = a'" if "readMethod (rqMethod r)" "\<not> restrictedSurface (rqPath r)" "\<not> physicalTenancy (apTenancy a)"
        using route_reads [OF route that(2) assms(5)] that(1,3) by (simp add: reads_only_def a')
      then show ?thesis
        using True viewer_passes [of p "rqMethod r" "rqPath r"] by (simp add: auth Some)
    next
      case False
      then have "rsStatus resp = 403" "b = recordAudit env r p ''auth.authorize'' ''http_request'' (rqPath r) ''denied'' [(''method'', rqMethod r)] a'"
        using run unfolding protected Some prod.case option.case by (auto simp: rsStatus_writeError)
      then show ?thesis
        using False viewer_passes [of p "rqMethod r" "rqPath r"] recordAudit_audited [of env r p "''auth.authorize''" "''http_request''" "rqPath r" "''denied''"
          "[(''method'', rqMethod r)]" a'] by (auto simp: auth Some)
    qed
  qed
qed

definition web_request :: "string \<Rightarrow> string \<Rightarrow> string \<Rightarrow> http_request" where
  "web_request method path token = \<lparr> rqMethod = method, rqPath = path, rqQuery = [], rqHeaders = [(''Authorization'', ''Bearer '' @ token)],
     rqCookies = [], rqRemoteAddr = ''192.0.2.1:4711'', rqBody = [] \<rparr>"

lemma web_authenticates:
  "fst (Authenticate (aeRuntime web_env) (aeCodec web_env) (aeNow web_env) (web_request m path ''viewer-token'') (apAuth web_app)) =
     Some \<lparr> prName = ''eve'', prTenant = ''default'', prRoles = [RoleViewer] \<rparr>"
  "fst (Authenticate (aeRuntime web_env) (aeCodec web_env) (aeNow web_env) (web_request m path ''guess'') (apAuth web_app)) = None"
  by code_simp+

lemma serve_total: "route env (rqPath r) \<noteq> None \<Longrightarrow> \<exists>resp b. serve env r a = Some (resp, b)"
  by (auto simp: serve_def)

theorem requests_without_rights_change_nothing_witness:
  "(\<exists>resp b. serve web_env (web_request MethodPost ''/api/demo'' ''viewer-token'') web_app = Some (resp, b) \<and> rsStatus resp = 403) \<and>
   (\<exists>resp b. serve web_env (web_request MethodGet ''/api/alerts'' ''guess'') web_app = Some (resp, b) \<and> rsStatus resp = 401)"
proof (intro conjI)
  have configured: "authenticationConfigured web_app" "\<not> physicalTenancy (apTenancy web_app)"
    by code_simp+
  obtain resp b where served: "serve web_env (web_request MethodPost ''/api/demo'' ''viewer-token'') web_app = Some (resp, b)"
    using serve_total by (force simp: route_def exactRoutes_def web_request_def)
  have "rsStatus resp = 403"
    using requests_without_rights_change_nothing [OF configured(1) _ _ _ served] configured(2) web_authenticates(1)
    by (simp add: web_request_def readMethod_def)
  with served show "\<exists>resp b. serve web_env (web_request MethodPost ''/api/demo'' ''viewer-token'') web_app = Some (resp, b) \<and> rsStatus resp = 403"
    by blast
  obtain resp' b' where served': "serve web_env (web_request MethodGet ''/api/alerts'' ''guess'') web_app = Some (resp', b')"
    using serve_total by (force simp: route_def exactRoutes_def web_request_def)
  have "rsStatus resp' = 401"
    using requests_without_rights_change_nothing [OF configured(1) _ _ _ served'] web_authenticates(2)
    by (simp add: web_request_def)
  with served' show "\<exists>resp b. serve web_env (web_request MethodGet ''/api/alerts'' ''guess'') web_app = Some (resp, b) \<and> rsStatus resp = 401"
    by blast
qed

end
