(* ===== verification/Oidc.thy ===== *)
theory Oidc
  imports Sessions Exporters NetAddr "HOL-Library.Word"
begin

text \<open>
  The OpenID Connect client (\<open>internal/server/oidc.go\<close>): discovery, the signed state of a login, the exchange of the
  code, the verification of the ID token and the mapping of its claims to a principal. The network, the JSON
  decoders and the RSA signature check are arguments.
\<close>

section \<open>Data\<close>

record oidc_discovery =
  odIssuer :: string
  odAuthorizationEndpoint :: string
  odTokenEndpoint :: string
  odJWKSURI :: string

record oidc_provider =
  opIssuerURL :: string
  opClientID :: string
  opClientSecret :: string
  opRedirectURL :: string
  opTenantClaim :: string
  opRoleClaim :: string
  opEmailClaim :: string
  opScopes :: "string list"
  opStateKey :: string
  opDiscovery :: oidc_discovery

record oidc_state_payload =
  osState :: string
  osNonce :: string
  osReturnTo :: string
  osExpiresAt :: time

record oidc_jwk =
  jkKid :: string
  jkKty :: string
  jkN :: string
  jkE :: string

record oidc_jwt_header =
  jhAlg :: string
  jhKid :: string

text \<open>
  A decoded claim: a string, a number with its value truncated to an integer and its text under \<open>fmt.Sprint\<close>, an array with the
  texts of its items and its own text, null, or anything else with its text.
\<close>

datatype claim = CString string | CNumber int string | CList "string list" string | CNull | COther string

type_synonym claims = "(string, claim) gomap"

text \<open>An RSA public key: the modulus and the exponent.\<close>

type_synonym rsa_key = "nat \<times> int"

record oidc_env =
  oeRuntime :: runtime
  oeNow :: time
  oeContextErr :: "string option"
  oeClockText :: string
  oeRandom :: "nat \<Rightarrow> string option"
  oeGet :: "string \<Rightarrow> string + int \<times> string"
  oePostForm :: "string \<Rightarrow> string_map \<Rightarrow> (string \<times> string) option \<Rightarrow> string + int \<times> string"
  oeDiscovery :: "string \<Rightarrow> string + oidc_discovery"
  oeTokenResponse :: "string \<Rightarrow> string + string"
  oeJWKS :: "string \<Rightarrow> string + oidc_jwk list"
  oeHeader :: "string \<Rightarrow> string + oidc_jwt_header"
  oeClaims :: "string \<Rightarrow> string + claims"
  oeMarshalState :: "oidc_state_payload \<Rightarrow> string + string"
  oeUnmarshalState :: "string \<Rightarrow> oidc_state_payload option"
  oeVerifyRSA :: "rsa_key \<Rightarrow> string \<Rightarrow> string \<Rightarrow> bool"
  oeWithQuery :: "string \<Rightarrow> string_map \<Rightarrow> string + string"

section \<open>Discovery\<close>

definition requireSecureOIDCEndpoint :: "runtime \<Rightarrow> string \<Rightarrow> string \<Rightarrow> string option" where
  "requireSecureOIDCEndpoint rt label rawURL =
     (case rt_url_parse rt (TrimSpace rawURL) of
        None \<Rightarrow> Some (''oidc '' @ label @ '' url is invalid'')
      | Some u \<Rightarrow>
          if urlScheme u = ''https'' then None
          else if urlScheme u = ''http'' then
            (if urlHostname u = ''localhost'' \<or> (case rt_parse_ip rt (urlHostname u) of None \<Rightarrow> False | Some ip \<Rightarrow> IsLoopback ip) then None
             else Some (''oidc '' @ label @ '' url must use https (plain http is only allowed for loopback), got '' @ Quote rt rawURL))
          else Some (''oidc '' @ label @ '' url must use https, got scheme '' @ Quote rt (urlScheme u)))"

text \<open>A GET whose answer must have a status of the 200 range.\<close>

definition fetchOK :: "oidc_env \<Rightarrow> string \<Rightarrow> string \<Rightarrow> string + string" where
  "fetchOK env what address =
     (case oeGet env address of
        Inl e \<Rightarrow> Inl e
      | Inr (code, body) \<Rightarrow>
          if code < 200 \<or> 300 \<le> code then Inl (''oidc '' @ what @ '' failed: '' @ TrimSpace body) else Inr body)"

fun firstError :: "string option list \<Rightarrow> string option" where
  "firstError [] = None"
| "firstError (e # es) = (case e of Some x \<Rightarrow> Some x | None \<Rightarrow> firstError es)"

definition fetchOIDCDiscovery :: "oidc_env \<Rightarrow> string \<Rightarrow> string + oidc_discovery" where
  "fetchOIDCDiscovery env issuerURL =
     (let issuer = TrimRightSlash (TrimSpace issuerURL); rt = oeRuntime env in
      case fetchOK env ''discovery'' (issuer @ ''/.well-known/openid-configuration'') of
        Inl e \<Rightarrow> Inl e
      | Inr body \<Rightarrow> (case oeDiscovery env body of
          Inl e \<Rightarrow> Inl e
        | Inr d \<Rightarrow>
            (let d = (if odIssuer d = [] then d\<lparr>odIssuer := issuer\<rparr> else d) in
             if odAuthorizationEndpoint d = [] \<or> odTokenEndpoint d = [] \<or> odJWKSURI d = [] then Inl ''oidc discovery missing endpoints''
             else (case firstError [requireSecureOIDCEndpoint rt ''authorization_endpoint'' (odAuthorizationEndpoint d),
                 requireSecureOIDCEndpoint rt ''token_endpoint'' (odTokenEndpoint d), requireSecureOIDCEndpoint rt ''jwks_uri'' (odJWKSURI d)] of
               Some e \<Rightarrow> Inl e | None \<Rightarrow> Inr d))))"

definition defaultOIDCClaim :: "string \<Rightarrow> string \<Rightarrow> string" where
  "defaultOIDCClaim v fallback = (let v = TrimSpace v in if v = [] then fallback else v)"

text \<open>The options of the provider: issuer, client, secret, redirect URL, scopes and the names of the claims.\<close>

record oidc_options =
  ooIssuerURL :: string
  ooClientID :: string
  ooClientSecret :: string
  ooRedirectURL :: string
  ooScopes :: "string list"
  ooTenantClaim :: string
  ooRoleClaim :: string
  ooEmailClaim :: string

definition newOIDCProvider :: "oidc_env \<Rightarrow> oidc_options \<Rightarrow> string \<Rightarrow> string + oidc_provider option" where
  "newOIDCProvider env opts stateKey =
     (let issuerURL = TrimSpace (ooIssuerURL opts); clientID = TrimSpace (ooClientID opts); redirectURL = TrimSpace (ooRedirectURL opts) in
      if issuerURL = [] \<or> clientID = [] then Inr None
      else if redirectURL = [] then Inl ''oidc redirect url is required''
      else if length stateKey = 0 then Inl ''oidc state key is required''
      else (case requireSecureOIDCEndpoint (oeRuntime env) ''issuer'' issuerURL of
        Some e \<Rightarrow> Inl e
      | None \<Rightarrow> (case fetchOIDCDiscovery env issuerURL of
          Inl e \<Rightarrow> Inl e
        | Inr d \<Rightarrow> Inr (Some \<lparr> opIssuerURL = issuerURL, opClientID = clientID, opClientSecret = ooClientSecret opts, opRedirectURL = redirectURL,
            opTenantClaim = defaultOIDCClaim (ooTenantClaim opts) ''tenant'', opRoleClaim = defaultOIDCClaim (ooRoleClaim opts) ''roles'',
            opEmailClaim = defaultOIDCClaim (ooEmailClaim opts) ''email'',
            opScopes = (if length (ooScopes opts) = 0 then [''openid'', ''profile'', ''email''] else ooScopes opts),
            opStateKey = stateKey, opDiscovery = d \<rparr>))))"

definition oidcEnabled :: "oidc_provider option \<Rightarrow> bool" where
  "oidcEnabled provider = (case provider of
     None \<Rightarrow> False
   | Some p \<Rightarrow> odAuthorizationEndpoint (opDiscovery p) \<noteq> [] \<and> odTokenEndpoint (opDiscovery p) \<noteq> [] \<and> odJWKSURI (opDiscovery p) \<noteq> [] \<and>
       opClientID p \<noteq> [])"

section \<open>The state of a login\<close>

definition oidcStateCookieName :: string where "oidcStateCookieName = ''oatd_oidc_state''"
definition oidcStateTTL :: duration where "oidcStateTTL = 10 * minute"

text \<open>\<open>randomToken(24)\<close>; the fallback hashes the clock.\<close>

definition randomToken :: "oidc_env \<Rightarrow> nat \<Rightarrow> string" where
  "randomToken env i =
     (case oeRandom env i of
        None \<Rightarrow> take 24 (b64_encode True False (rt_sha256 (oeRuntime env) (oeClockText env)))
      | Some raw \<Rightarrow> rev (dropWhile (\<lambda>c. c = CHR ''='') (rev (b64_encode True False raw))))"

definition sanitizeReturnTo :: "string \<Rightarrow> string" where
  "sanitizeReturnTo v =
     (let v = TrimSpace v in if v = [] \<or> \<not> HasPrefix v ''/'' \<or> HasPrefix v ''//'' then ''/'' else v)"

text \<open>The same format as a session: the payload and its HMAC, each in base64.\<close>

definition signOIDCState :: "oidc_env \<Rightarrow> string \<Rightarrow> oidc_state_payload \<Rightarrow> string + string" where
  "signOIDCState env key payload =
     (case oeMarshalState env payload of
        Inl e \<Rightarrow> Inl e
      | Inr raw \<Rightarrow> Inr (b64_encode True False raw @ ''.'' @ b64_encode True False (rt_hmac (oeRuntime env) key raw)))"

definition verifyOIDCState :: "oidc_env \<Rightarrow> string \<Rightarrow> string \<Rightarrow> oidc_state_payload option" where
  "verifyOIDCState env key token =
     (case SplitByte (CHR ''.'') token of
        [p, s] \<Rightarrow> (case b64_decode True False p of
            None \<Rightarrow> None
          | Some raw \<Rightarrow> (case b64_decode True False s of
              None \<Rightarrow> None
            | Some expected \<Rightarrow>
                if rt_hmac (oeRuntime env) key raw \<noteq> expected then None else oeUnmarshalState env raw))
      | _ \<Rightarrow> None)"

text \<open>The URL of the login page and the signed state.\<close>

definition BeginLogin :: "oidc_env \<Rightarrow> oidc_provider \<Rightarrow> http_request \<Rightarrow> string + string \<times> string" where
  "BeginLogin env p r =
     (if \<not> oidcEnabled (Some p) then Inl ''oidc is not configured''
      else (let state = randomToken env 0; nonce = randomToken env 1;
                payload = \<lparr> osState = state, osNonce = nonce, osReturnTo = sanitizeReturnTo (gm_str (rqQuery r) ''return_to''),
                  osExpiresAt = oeNow env + oidcStateTTL \<rparr>
            in case signOIDCState env (opStateKey p) payload of
                 Inl e \<Rightarrow> Inl e
               | Inr token \<Rightarrow>
                   (case oeWithQuery env (odAuthorizationEndpoint (opDiscovery p))
                       [(''response_type'', ''code''), (''client_id'', opClientID p), (''redirect_uri'', opRedirectURL p),
                        (''scope'', Join (opScopes p) '' ''), (''state'', state), (''nonce'', nonce)] of
                      Inl e \<Rightarrow> Inl e | Inr loginURL \<Rightarrow> Inr (loginURL, token))))"

section \<open>Claims\<close>

fun claimText :: "claim \<Rightarrow> string" where
  "claimText (CString s) = s"
| "claimText (CNumber _ text) = text"
| "claimText (CList _ text) = text"
| "claimText CNull = []"
| "claimText (COther text) = text"

definition claimString :: "claims \<Rightarrow> string \<Rightarrow> string" where
  "claimString cs key = (case gm_get cs key of None \<Rightarrow> [] | Some c \<Rightarrow> TrimSpace (claimText c))"

fun compactLoop :: "string list \<Rightarrow> string list \<Rightarrow> string list" where
  "compactLoop [] acc = acc"
| "compactLoop (v # vs) acc =
     (let v = TrimSpace v in compactLoop vs (if v = [] \<or> v \<in> set acc then acc else acc @ [v]))"

definition compactStrings :: "string list \<Rightarrow> string list" where
  "compactStrings vs = compactLoop vs []"

definition claimStrings :: "claims \<Rightarrow> string \<Rightarrow> string list" where
  "claimStrings cs key =
     (case gm_get cs key of
        None \<Rightarrow> []
      | Some CNull \<Rightarrow> []
      | Some (CString s) \<Rightarrow> compactStrings (FieldsFunc (\<lambda>r. r = 44 \<or> r = 59 \<or> r = 32 \<or> r = 9) s)
      | Some (CList items _) \<Rightarrow> compactStrings (map TrimSpace items)
      | Some c \<Rightarrow> compactStrings [TrimSpace (claimText c)])"

fun audienceIsMultiValued :: "claim option \<Rightarrow> bool" where
  "audienceIsMultiValued (Some (CList items _)) \<longleftrightarrow> 1 < length items"
| "audienceIsMultiValued _ \<longleftrightarrow> False"

definition claimHasAudience :: "claim option \<Rightarrow> string \<Rightarrow> bool" where
  "claimHasAudience c audience =
     (let audience = TrimSpace audience in
      if audience = [] then False
      else (case c of
        Some (CString s) \<Rightarrow> TrimSpace s = audience
      | Some (CList items _) \<Rightarrow> list_ex (\<lambda>s. TrimSpace s = audience) items
      | _ \<Rightarrow> False))"

fun claimUnix :: "claim option \<Rightarrow> int" where
  "claimUnix (Some (CNumber i _)) = i"
| "claimUnix _ = 0"

definition principalFromClaims :: "oidc_provider \<Rightarrow> claims \<Rightarrow> principal" where
  "principalFromClaims p cs =
     (let name = claimString cs (opEmailClaim p);
          name = (if name = [] then claimString cs ''preferred_username'' else name);
          name = (if name = [] then claimString cs ''sub'' else name);
          tenant = claimString cs (opTenantClaim p);
          tenant = (if tenant = [] then ''default'' else tenant);
          roles = claimStrings cs (opRoleClaim p);
          roles = (if length roles = 0 then claimStrings cs ''groups'' else roles);
          roles = (if length roles = 0 then [RoleViewer] else roles)
      in \<lparr> prName = name, prTenant = tenant, prRoles = roles \<rparr>)"

section \<open>The ID token\<close>

text \<open>The exponent is accumulated in a 64-bit \<open>int\<close>.\<close>

definition rsaExponent :: "string \<Rightarrow> int" where
  "rsaExponent bytes = sint (foldl (\<lambda>e c. push_bit 8 e + of_nat (byte c)) (0 :: 64 word) bytes)"

definition rsaModulus :: "string \<Rightarrow> nat" where
  "rsaModulus bytes = foldl (\<lambda>n c. 256 * n + byte c) 0 bytes"

definition selectRSAKey :: "oidc_jwk list \<Rightarrow> string \<Rightarrow> string + rsa_key" where
  "selectRSAKey ks kid =
     (case find (\<lambda>k. TrimSpace (jkKty k) = ''RSA'' \<and> (kid = [] \<or> jkKid k = kid)) ks of
        None \<Rightarrow> Inl ''oidc jwks key not found''
      | Some k \<Rightarrow> (case b64_decode True False (jkN k) of
          None \<Rightarrow> Inl ''illegal base64 data''
        | Some n \<Rightarrow> (case b64_decode True False (jkE k) of
            None \<Rightarrow> Inl ''illegal base64 data''
          | Some e \<Rightarrow> if rsaExponent e = 0 then Inl ''invalid oidc jwks exponent'' else Inr (rsaModulus n, rsaExponent e))))"

definition fetchJWKS :: "oidc_env \<Rightarrow> oidc_provider \<Rightarrow> string + oidc_jwk list" where
  "fetchJWKS env p = (case fetchOK env ''jwks fetch'' (odJWKSURI (opDiscovery p)) of Inl e \<Rightarrow> Inl e | Inr body \<Rightarrow> oeJWKS env body)"

text \<open>The checks on the claims of a token whose signature is good; \<open>None\<close> when they pass.\<close>

definition claimsError :: "oidc_env \<Rightarrow> oidc_provider \<Rightarrow> string \<Rightarrow> claims \<Rightarrow> string option" where
  "claimsError env p nonce cs =
     (if claimString cs ''iss'' \<noteq> odIssuer (opDiscovery p) then Some ''oidc issuer mismatch''
      else if \<not> claimHasAudience (gm_get cs ''aud'') (opClientID p) then Some ''oidc audience mismatch''
      else if audienceIsMultiValued (gm_get cs ''aud'') \<and> claimString cs ''azp'' \<noteq> opClientID p
      then Some ''oidc azp must equal client_id for a multi-audience token''
      else if 0 < claimUnix (gm_get cs ''exp'') \<and> unix_epoch + claimUnix (gm_get cs ''exp'') * second < oeNow env then Some ''oidc token expired''
      else if nonce \<noteq> [] \<and> claimString cs ''nonce'' \<noteq> nonce then Some ''oidc nonce mismatch''
      else None)"

definition verifyIDToken :: "oidc_env \<Rightarrow> oidc_provider \<Rightarrow> string \<Rightarrow> string \<Rightarrow> string + claims" where
  "verifyIDToken env p idToken nonce =
     (case SplitByte (CHR ''.'') idToken of
        [h, b, s] \<Rightarrow>
          (case b64_decode True False h of
             None \<Rightarrow> Inl ''illegal base64 data''
           | Some headerBytes \<Rightarrow> (case oeHeader env headerBytes of
               Inl e \<Rightarrow> Inl e
             | Inr header \<Rightarrow>
                 if jhAlg header \<noteq> ''RS256'' then Inl (''unsupported oidc signing algorithm '' @ jhAlg header)
                 else (case fetchJWKS env p of
                   Inl e \<Rightarrow> Inl e
                 | Inr ks \<Rightarrow> (case selectRSAKey ks (jhKid header) of
                     Inl e \<Rightarrow> Inl e
                   | Inr key \<Rightarrow> (case b64_decode True False s of
                       None \<Rightarrow> Inl ''illegal base64 data''
                     | Some sig \<Rightarrow>
                         if \<not> oeVerifyRSA env key (rt_sha256 (oeRuntime env) (h @ ''.'' @ b)) sig then Inl ''crypto/rsa: verification error''
                         else (case b64_decode True False b of
                           None \<Rightarrow> Inl ''illegal base64 data''
                         | Some payload \<Rightarrow> (case oeClaims env payload of
                             Inl e \<Rightarrow> Inl e
                           | Inr cs \<Rightarrow> (case claimsError env p nonce cs of Some e \<Rightarrow> Inl e | None \<Rightarrow> Inr cs))))))))
      | _ \<Rightarrow> Inl ''invalid id token'')"

section \<open>The callback\<close>

text \<open>The ID token that the exchange of the code returns.\<close>

definition exchangeCode :: "oidc_env \<Rightarrow> oidc_provider \<Rightarrow> string \<Rightarrow> string + string" where
  "exchangeCode env p code =
     (let secret = TrimSpace (opClientSecret p) \<noteq> [];
          form = [(''grant_type'', ''authorization_code''), (''code'', code), (''redirect_uri'', opRedirectURL p), (''client_id'', opClientID p)] @
            (if secret then [(''client_secret'', opClientSecret p)] else [])
      in case oePostForm env (odTokenEndpoint (opDiscovery p)) form (if secret then Some (opClientID p, opClientSecret p) else None) of
           Inl e \<Rightarrow> Inl e
         | Inr (status, body) \<Rightarrow>
             if status < 200 \<or> 300 \<le> status then Inl (''oidc token exchange failed: '' @ TrimSpace body)
             else (case oeTokenResponse env body of
               Inl e \<Rightarrow> Inl e
             | Inr idToken \<Rightarrow> if TrimSpace idToken = [] then Inl ''oidc token response missing id_token'' else Inr idToken))"

definition HandleCallback :: "oidc_env \<Rightarrow> oidc_provider \<Rightarrow> http_request \<Rightarrow> string + principal \<times> string" where
  "HandleCallback env p r =
     (if \<not> oidcEnabled (Some p) then Inl ''oidc is not configured''
      else (case oeContextErr env of Some e \<Rightarrow> Inl e | None \<Rightarrow>
        (let code = TrimSpace (gm_str (rqQuery r) ''code'') in
        if code = [] then Inl ''missing authorization code''
        else (case RequestCookie r oidcStateCookieName of
          None \<Rightarrow> Inl ''missing oidc state''
        | Some token \<Rightarrow> (case verifyOIDCState env (opStateKey p) token of
            None \<Rightarrow> Inl ''invalid oidc state''
          | Some state \<Rightarrow>
              if osExpiresAt state < oeNow env then Inl ''oidc state expired''
              else if osState state \<noteq> TrimSpace (gm_str (rqQuery r) ''state'') then Inl ''oidc state mismatch''
              else (case exchangeCode env p code of
                Inl e \<Rightarrow> Inl e
              | Inr idToken \<Rightarrow> (case verifyIDToken env p idToken (osNonce state) of
                  Inl e \<Rightarrow> Inl e
                | Inr cs \<Rightarrow>
                    (let principal = principalFromClaims p cs in
                     if prName principal = [] then Inl ''oidc principal is empty'' else Inr (principal, osReturnTo state)))))))))"

section \<open>What a login proves\<close>

text \<open>The state of a login has the envelope of a session: the laws of the locale \<open>sealed_payload\<close> apply to it.\<close>

lemma verifyOIDCState_session:
  "verifyOIDCState env key token = Option.bind (verifySession (oeRuntime env) key token) (oeUnmarshalState env)"
  unfolding verifyOIDCState_def verifySession_def by (auto split: list.split option.split)

lemma signOIDCState_session:
  "signOIDCState env key payload =
     (case oeMarshalState env payload of Inl e \<Rightarrow> Inl e | Inr raw \<Rightarrow> Inr (signSession (oeRuntime env) key raw))"
  unfolding signOIDCState_def signSession_def by (auto split: sum.split)

lemma verify_signed_state:
  assumes "signOIDCState env key payload = Inr token"
    and "\<And>raw. oeMarshalState env payload = Inr raw \<Longrightarrow> oeUnmarshalState env raw = Some payload"
  shows "verifyOIDCState env key token = Some payload"
  using assms by (auto simp: verifyOIDCState_session signOIDCState_session session_token.unseal_seal split: sum.splits)

lemma SplitByte_parts: "p \<in> set (SplitByte d s) \<Longrightarrow> d \<notin> set p"
  by (induction s arbitrary: p) (auto split: if_splits list.splits)

lemma split_two_iff: "SplitByte d s = [x, y] \<longleftrightarrow> s = x @ [d] @ y \<and> d \<notin> set (x @ y)"
proof
  assume "SplitByte d s = [x, y]"
  then show "s = x @ [d] @ y \<and> d \<notin> set (x @ y)"
    using Join_SplitByte [of d s] SplitByte_parts [of _ d s] by auto
qed (simp add: SplitByte_append SplitByte_absent)

text \<open>
  A state that is signed: the cookie is two parts in base64, the second of which is the HMAC of the first under the server's key, and the
  first decodes to the state.
\<close>

definition signed_state :: "oidc_env \<Rightarrow> string \<Rightarrow> string \<Rightarrow> oidc_state_payload \<Rightarrow> bool" where
  "signed_state env key token state \<longleftrightarrow>
     (\<exists>x y raw. SplitByte (CHR ''.'') token = [x, y] \<and> b64_decode True False x = Some raw \<and>
        b64_decode True False y = Some (rt_hmac (oeRuntime env) key raw) \<and> oeUnmarshalState env raw = Some state)"

lemma verifyOIDCState_iff: "verifyOIDCState env key token = Some state \<longleftrightarrow> signed_state env key token state"
  unfolding verifyOIDCState_def signed_state_def by (auto split: list.splits option.splits if_splits)

text \<open>
  A code that is exchanged: the form with the code and the client goes to the token endpoint, which answers with a status of the 200 range and
  an ID token.
\<close>

definition code_exchanged :: "oidc_env \<Rightarrow> oidc_provider \<Rightarrow> string \<Rightarrow> string \<Rightarrow> bool" where
  "code_exchanged env p code idToken \<longleftrightarrow>
     (\<exists>status body form basic.
        form = [(''grant_type'', ''authorization_code''), (''code'', code), (''redirect_uri'', opRedirectURL p), (''client_id'', opClientID p)] @
          (if TrimSpace (opClientSecret p) = [] then [] else [(''client_secret'', opClientSecret p)]) \<and>
        basic = (if TrimSpace (opClientSecret p) = [] then None else Some (opClientID p, opClientSecret p)) \<and>
        oePostForm env (odTokenEndpoint (opDiscovery p)) form basic = Inr (status, body) \<and> 200 \<le> status \<and> status < 300 \<and>
        oeTokenResponse env body = Inr idToken \<and> TrimSpace idToken \<noteq> [])"

lemma exchangeCode_iff: "exchangeCode env p code = Inr idToken \<longleftrightarrow> code_exchanged env p code idToken"
  unfolding exchangeCode_def code_exchanged_def Let_def by (auto split: sum.splits prod.splits if_splits)

text \<open>
  The key of the provider for a key ID: the first RSA key of the set, fetched from the key endpoint, that has this ID (any RSA key when the
  token names none), with a modulus and an exponent that decode, the exponent not zero.
\<close>

definition provider_key :: "oidc_env \<Rightarrow> oidc_provider \<Rightarrow> string \<Rightarrow> rsa_key \<Rightarrow> bool" where
  "provider_key env p kid key \<longleftrightarrow>
     (\<exists>status body ks i n e. oeGet env (odJWKSURI (opDiscovery p)) = Inr (status, body) \<and> 200 \<le> status \<and> status < 300 \<and>
        oeJWKS env body = Inr ks \<and> i < length ks \<and>
        (\<forall>j \<le> i. (TrimSpace (jkKty (ks ! j)) = ''RSA'' \<and> (kid = [] \<or> jkKid (ks ! j) = kid)) = (j = i)) \<and>
        b64_decode True False (jkN (ks ! i)) = Some n \<and> b64_decode True False (jkE (ks ! i)) = Some e \<and>
        rsaExponent e \<noteq> 0 \<and> key = (rsaModulus n, rsaExponent e))"

lemma find_first_iff: "find P xs = Some x \<longleftrightarrow> (\<exists>i < length xs. x = xs ! i \<and> (\<forall>j \<le> i. P (xs ! j) = (j = i)))"
  unfolding find_Some_iff by (metis le_neq_implies_less less_irrefl less_or_eq_imp_le order_refl)

lemma selectRSAKey_iff:
  "selectRSAKey ks kid = Inr key \<longleftrightarrow>
     (\<exists>i n e. i < length ks \<and> (\<forall>j \<le> i. (TrimSpace (jkKty (ks ! j)) = ''RSA'' \<and> (kid = [] \<or> jkKid (ks ! j) = kid)) = (j = i)) \<and>
        b64_decode True False (jkN (ks ! i)) = Some n \<and> b64_decode True False (jkE (ks ! i)) = Some e \<and>
        rsaExponent e \<noteq> 0 \<and> key = (rsaModulus n, rsaExponent e))"
proof -
  let ?P = "\<lambda>k. TrimSpace (jkKty k) = ''RSA'' \<and> (kid = [] \<or> jkKid k = kid)"
  have "selectRSAKey ks kid = Inr key \<longleftrightarrow> (\<exists>k n e. find ?P ks = Some k \<and> b64_decode True False (jkN k) = Some n \<and>
      b64_decode True False (jkE k) = Some e \<and> rsaExponent e \<noteq> 0 \<and> key = (rsaModulus n, rsaExponent e))"
    unfolding selectRSAKey_def by (auto split: option.splits)
  then show ?thesis
    unfolding find_first_iff by blast
qed

lemma provider_key_iff: "provider_key env p kid key \<longleftrightarrow> (\<exists>ks. fetchJWKS env p = Inr ks \<and> selectRSAKey ks kid = Inr key)"
proof -
  have "fetchJWKS env p = Inr ks \<longleftrightarrow> (\<exists>status body. oeGet env (odJWKSURI (opDiscovery p)) = Inr (status, body) \<and> 200 \<le> status \<and> status < 300 \<and>
      oeJWKS env body = Inr ks)" for ks
    unfolding fetchJWKS_def fetchOK_def by (auto split: sum.splits prod.splits if_splits)
  then show ?thesis
    unfolding provider_key_def selectRSAKey_iff by (auto 0 4)
qed

text \<open>
  The checks on an ID token as two predicates: three parts, RS256 in the header, and a signature that verifies under the
  provider's key; claims that name this issuer and this client, are not past their expiry, and repeat the nonce.
\<close>

definition signed_by_provider :: "oidc_env \<Rightarrow> oidc_provider \<Rightarrow> string \<Rightarrow> claims \<Rightarrow> bool" where
  "signed_by_provider env p idToken cs \<longleftrightarrow>
     (\<exists>h b s hb header key sig payload.
        SplitByte (CHR ''.'') idToken = [h, b, s] \<and> b64_decode True False h = Some hb \<and> oeHeader env hb = Inr header \<and>
        jhAlg header = ''RS256'' \<and> provider_key env p (jhKid header) key \<and>
        b64_decode True False s = Some sig \<and> oeVerifyRSA env key (rt_sha256 (oeRuntime env) (h @ ''.'' @ b)) sig \<and>
        b64_decode True False b = Some payload \<and> oeClaims env payload = Inr cs)"

definition claims_for_client :: "oidc_env \<Rightarrow> oidc_provider \<Rightarrow> string \<Rightarrow> claims \<Rightarrow> bool" where
  "claims_for_client env p nonce cs \<longleftrightarrow>
     claimString cs ''iss'' = odIssuer (opDiscovery p) \<and> claimHasAudience (gm_get cs ''aud'') (opClientID p) \<and>
     (audienceIsMultiValued (gm_get cs ''aud'') \<longrightarrow> claimString cs ''azp'' = opClientID p) \<and>
     (0 < claimUnix (gm_get cs ''exp'') \<longrightarrow> oeNow env \<le> unix_epoch + claimUnix (gm_get cs ''exp'') * second) \<and>
     (nonce \<noteq> [] \<longrightarrow> claimString cs ''nonce'' = nonce)"

lemma claimsError_None: "claimsError env p nonce cs = None \<longleftrightarrow> claims_for_client env p nonce cs"
  unfolding claimsError_def claims_for_client_def by auto

lemma verifyIDToken_iff:
  "verifyIDToken env p idToken nonce = Inr cs \<longleftrightarrow> signed_by_provider env p idToken cs \<and> claims_for_client env p nonce cs"
  unfolding verifyIDToken_def signed_by_provider_def claimsError_None [symmetric] provider_key_iff
  by (auto split: list.splits option.splits sum.splits if_splits)

text \<open>The whole callback.\<close>

definition login_proves :: "oidc_env \<Rightarrow> oidc_provider \<Rightarrow> http_request \<Rightarrow> principal \<Rightarrow> string \<Rightarrow> bool" where
  "login_proves env p r q returnTo \<longleftrightarrow>
     (\<exists>token state idToken cs. oeContextErr env = None \<and> RequestCookie r oidcStateCookieName = Some token \<and>
        signed_state env (opStateKey p) token state \<and> oeNow env \<le> osExpiresAt state \<and>
        osState state = TrimSpace (gm_str (rqQuery r) ''state'') \<and>
        TrimSpace (gm_str (rqQuery r) ''code'') \<noteq> [] \<and> code_exchanged env p (TrimSpace (gm_str (rqQuery r) ''code'')) idToken \<and>
        signed_by_provider env p idToken cs \<and> claims_for_client env p (osNonce state) cs \<and>
        q = principalFromClaims p cs \<and> prName q \<noteq> [] \<and> returnTo = osReturnTo state)"

lemma HandleCallback_iff:
  "HandleCallback env p r = Inr (q, returnTo) \<longleftrightarrow> oidcEnabled (Some p) \<and> login_proves env p r q returnTo"
proof -
  have "HandleCallback env p r = Inr (q, returnTo) \<longleftrightarrow> oidcEnabled (Some p) \<and>
     (\<exists>token state idToken cs. oeContextErr env = None \<and> RequestCookie r oidcStateCookieName = Some token \<and>
        verifyOIDCState env (opStateKey p) token = Some state \<and> oeNow env \<le> osExpiresAt state \<and>
        osState state = TrimSpace (gm_str (rqQuery r) ''state'') \<and>
        TrimSpace (gm_str (rqQuery r) ''code'') \<noteq> [] \<and> exchangeCode env p (TrimSpace (gm_str (rqQuery r) ''code'')) = Inr idToken \<and>
        verifyIDToken env p idToken (osNonce state) = Inr cs \<and>
        q = principalFromClaims p cs \<and> prName q \<noteq> [] \<and> returnTo = osReturnTo state)"
    unfolding HandleCallback_def Let_def by (auto split: option.splits sum.splits if_splits)
  then show ?thesis
    unfolding login_proves_def verifyIDToken_iff verifyOIDCState_iff exchangeCode_iff by blast
qed

text \<open>A principal of a login is named, has a tenant and has a role.\<close>

lemma principalFromClaims_filled: "prTenant (principalFromClaims p cs) \<noteq> []" "prRoles (principalFromClaims p cs) \<noteq> []"
  by (auto simp: principalFromClaims_def Let_def)

text \<open>Where a login returns to: a path of this server, with one slash.\<close>

lemma sanitizeReturnTo_path: "HasPrefix (sanitizeReturnTo v) ''/'' \<and> \<not> HasPrefix (sanitizeReturnTo v) ''//''"
  by (auto simp: sanitizeReturnTo_def Let_def HasPrefix_iff)

text \<open>
  A browser reads a backslash in a location as a slash, and the check lets it through: a login started with this parameter
  ends at another host.
\<close>

theorem return_to_backslash:
  "sanitizeReturnTo (CHR ''/'' # CHR 92 # ''evil.example'') = CHR ''/'' # CHR 92 # ''evil.example''"
  by code_simp

text \<open>A token whose claims have no expiry is accepted at every time.\<close>

lemma token_without_expiry:
  assumes "claims_for_client env p nonce cs" "gm_get cs ''exp'' = None"
  shows "claims_for_client (env\<lparr>oeNow := t\<rparr>) p nonce cs"
  using assms by (simp add: claims_for_client_def)

text \<open>
  The key of the states is the key of the sessions: any session token opens as a state. \<open>json.Unmarshal\<close> ignores the members it does not
  know, so a session decodes to a state with an empty value and an empty nonce that expires with the session; with it, the callback
  asks for an empty \<open>state\<close> parameter and compares no nonce.
\<close>

theorem session_is_a_login_state:
  assumes "RequestCookie r oidcStateCookieName = Some (signSession (oeRuntime env) (opStateKey p) data)"
    and "oeUnmarshalState env data = Some \<lparr> osState = [], osNonce = [], osReturnTo = [], osExpiresAt = expiry \<rparr>"
    and "oeNow env \<le> expiry" "oidcEnabled (Some p)" "oeContextErr env = None" "gm_str (rqQuery r) ''state'' = []"
    and "TrimSpace (gm_str (rqQuery r) ''code'') \<noteq> []" "exchangeCode env p (TrimSpace (gm_str (rqQuery r) ''code'')) = Inr idToken"
    and "signed_by_provider env p idToken cs" "claims_for_client env p [] cs" "prName (principalFromClaims p cs) \<noteq> []"
  shows "HandleCallback env p r = Inr (principalFromClaims p cs, [])"
  unfolding HandleCallback_iff login_proves_def verifyOIDCState_iff [symmetric] exchangeCode_iff [symmetric]
  using assms by (auto simp: verifyOIDCState_session session_token.unseal_seal)

text \<open>
  A login from start to end: with the state that \<open>BeginLogin\<close> signed, the callback accepts only an answer that repeats its state
  value, and a token that repeats its nonce.
\<close>

lemma b64_encode_no_pad: "CHR ''='' \<notin> set (b64_encode u False s)"
  by (induction u False s rule: b64_encode.induct) (simp_all add: b64_char_not_pad [THEN not_sym])

lemma randomToken_raw: "oeRandom env i = Some raw \<Longrightarrow> randomToken env i = b64_encode True False raw"
  using b64_encode_no_pad [of True raw]
  by (simp add: randomToken_def) (metis dropWhile_eq_self_iff list.set_sel(1) rev_rev_ident set_rev)

lemma login_round_trip:
  assumes started: "BeginLogin env p r0 = Inr (loginURL, token)"
    and codec: "\<And>payload raw. oeMarshalState env payload = Inr raw \<Longrightarrow> oeUnmarshalState env' raw = Some payload"
    and same: "oeRuntime env' = oeRuntime env"
    and nonce: "oeRandom env 1 = Some raw" "raw \<noteq> []"
    and answer: "RequestCookie r oidcStateCookieName = Some token" "HandleCallback env' p r = Inr (q, returnTo)"
  obtains idToken cs where "exchangeCode env' p (TrimSpace (gm_str (rqQuery r) ''code'')) = Inr idToken"
    "signed_by_provider env' p idToken cs" "claimString cs ''nonce'' = randomToken env 1" "q = principalFromClaims p cs"
    "TrimSpace (gm_str (rqQuery r) ''state'') = randomToken env 0" "oeNow env' \<le> oeNow env + oidcStateTTL"
    "returnTo = sanitizeReturnTo (gm_str (rqQuery r0) ''return_to'')"
proof -
  let ?payload = "\<lparr> osState = randomToken env 0, osNonce = randomToken env 1,
    osReturnTo = sanitizeReturnTo (gm_str (rqQuery r0) ''return_to''), osExpiresAt = oeNow env + oidcStateTTL \<rparr>"
  obtain raw' where raw': "oeMarshalState env ?payload = Inr raw'" "token = signSession (oeRuntime env) (opStateKey p) raw'"
    using started by (auto simp: BeginLogin_def signOIDCState_session Let_def split: if_splits sum.splits)
  then have "verifyOIDCState env' (opStateKey p) token = Some ?payload"
    using codec same by (simp add: verifyOIDCState_session session_token.unseal_seal)
  moreover have "randomToken env 1 \<noteq> []"
    using nonce by (simp add: randomToken_raw b64_encode_not_Nil)
  ultimately show ?thesis
    using answer that
    unfolding HandleCallback_iff login_proves_def claims_for_client_def verifyOIDCState_iff [symmetric] exchangeCode_iff [symmetric] by auto
qed

end
