(* ===== verification/AppSso.thy ===== *)
theory AppSso
  imports AppRoutes Oidc
begin

text \<open>
  Single sign-on and the start of the server: the SAML provider (\<open>internal/server/saml.go\<close>), the handlers of the two login flows, the
  readiness and validation handlers, the request wrappers and the constructor \<open>NewWithOptions\<close> of \<open>internal/server/server.go\<close>. The SAML
  library, the file system and the certificate parsers are arguments. \<open>oidc_callback_sound\<close> says when a login by OpenID Connect ends in
  a session.
\<close>

section \<open>Values\<close>

definition defaultString :: "string \<Rightarrow> string \<Rightarrow> string" where
  "defaultString v fallback = (if TrimSpace v = [] then fallback else v)"

fun firstNonEmptyAttribute :: "string list \<Rightarrow> string" where
  "firstNonEmptyAttribute [] = []"
| "firstNonEmptyAttribute (v # vs) = (let v = TrimSpace v in if v \<noteq> [] then v else firstNonEmptyAttribute vs)"

definition splitAttributeValues :: "string \<Rightarrow> string list" where
  "splitAttributeValues v =
     (if v = [] then []
      else filter (\<lambda>f. f \<noteq> [])
        (map TrimSpace (FieldsFunc (\<lambda>r. r = 44 \<or> r = 59 \<or> r = 32 \<or> r = 9 \<or> r = 10 \<or> r = 13) v)))"

definition normalizeReturnTo :: "string \<Rightarrow> string" where
  "normalizeReturnTo v =
     (let v = TrimSpace v in
      if v = [] then [] else if \<not> HasPrefix v ''/'' then [] else if HasPrefix v ''//'' then [] else v)"

text \<open>Control characters but the tab become spaces, so that a value cannot start a new line of the log.\<close>

definition sanitizeLogValue :: "string \<Rightarrow> string" where
  "sanitizeLogValue s = MapRunes (\<lambda>r. Some (if r = 10 \<or> r = 13 \<or> (r < 32 \<and> r \<noteq> 9) then 32 else r)) s"

section \<open>SAML\<close>

record saml_options =
  soRootURL :: string
  soIDPMetadataURL :: string
  soKeyPath :: string
  soCertPath :: string
  soCompletePath :: string
  soLoginPath :: string
  soMetadataPath :: string
  soACSPath :: string
  soTenantAttribute :: string
  soRoleAttribute :: string
  soNameAttribute :: string

record saml_provider =
  smMiddleware :: bool
  smLoginPath :: string
  smCompletePath :: string
  smMetadataPath :: string
  smACSPath :: string
  smTenantAttribute :: string
  smRoleAttribute :: string
  smNameAttribute :: string

text \<open>The attributes of a SAML session: how many there are, and the library's \<open>Get\<close>.\<close>

record saml_attributes =
  saCount :: nat
  saGet :: "string \<Rightarrow> string"

text \<open>
  Files, \<open>encoding/pem\<close>, \<open>crypto/x509\<close> (a PKCS 8 key says whether it is RSA), and of the SAML library the fetch of the metadata, the
  middleware's constructor (its error), the session in the request's context, and \<open>RequireAccount\<close>, which answers itself or calls the handler.
\<close>

record saml_env =
  seReadFile :: "string \<Rightarrow> string + string"
  sePEM :: "string \<Rightarrow> string option"
  sePKCS1 :: "string \<Rightarrow> string option"
  sePKCS8 :: "string \<Rightarrow> string + (bool \<times> string)"
  seCertificate :: "string \<Rightarrow> string + string"
  seFetchMetadata :: "url \<Rightarrow> string + string"
  seNewMiddleware :: "url \<Rightarrow> string \<Rightarrow> string \<Rightarrow> string \<Rightarrow> string option"
  seSession :: "http_request \<Rightarrow> saml_attributes option"
  seRequireAccount :: "handler \<Rightarrow> handler"
  seQueryEscape :: "string \<Rightarrow> string"

definition parseSAMLPrivateKey :: "saml_env \<Rightarrow> string \<Rightarrow> string + string" where
  "parseSAMLPrivateKey se text =
     (case sePEM se text of
        None \<Rightarrow> Inl ''saml private key PEM is invalid''
      | Some block \<Rightarrow> (case sePKCS1 se block of
          Some key \<Rightarrow> Inr key
        | None \<Rightarrow> (case sePKCS8 se block of
            Inl e \<Rightarrow> Inl (''parse saml private key: '' @ e)
          | Inr (isRSA, key) \<Rightarrow> if isRSA then Inr key else Inl ''saml private key must be RSA'')))"

definition parseSAMLCertificate :: "saml_env \<Rightarrow> string \<Rightarrow> string + string" where
  "parseSAMLCertificate se text =
     (case sePEM se text of
        None \<Rightarrow> Inl ''saml certificate PEM is invalid''
      | Some block \<Rightarrow> (case seCertificate se block of Inl e \<Rightarrow> Inl (''parse saml certificate: '' @ e) | Inr c \<Rightarrow> Inr c))"

definition loadSAMLKeyPair :: "saml_env \<Rightarrow> string \<Rightarrow> string \<Rightarrow> string + string \<times> string" where
  "loadSAMLKeyPair se keyPath certPath =
     (if keyPath = [] \<or> certPath = [] then Inl ''saml key path and cert path must both be set''
      else (case seReadFile se keyPath of
        Inl e \<Rightarrow> Inl (''read saml key: '' @ e)
      | Inr keyPEM \<Rightarrow> (case seReadFile se certPath of
          Inl e \<Rightarrow> Inl (''read saml cert: '' @ e)
        | Inr certPEM \<Rightarrow> (case parseSAMLPrivateKey se keyPEM of
            Inl e \<Rightarrow> Inl e
          | Inr key \<Rightarrow> (case parseSAMLCertificate se certPEM of Inl e \<Rightarrow> Inl e | Inr cert \<Rightarrow> Inr (key, cert))))))"

definition newSAMLProvider :: "saml_env \<Rightarrow> runtime \<Rightarrow> saml_options \<Rightarrow> string + saml_provider option" where
  "newSAMLProvider se rt opts =
     (let rootURL = TrimSpace (soRootURL opts); idpMetadataURL = TrimSpace (soIDPMetadataURL opts);
          keyPath = TrimSpace (soKeyPath opts); certPath = TrimSpace (soCertPath opts) in
      if rootURL = [] \<and> idpMetadataURL = [] \<and> keyPath = [] \<and> certPath = [] then Inr None
      else if rootURL = [] then Inl ''saml root url is required''
      else if idpMetadataURL = [] then Inl ''saml idp metadata url is required''
      else (case rt_url_parse rt rootURL of
        None \<Rightarrow> Inl ''invalid saml root url''
      | Some serviceURL \<Rightarrow> (case rt_url_parse rt idpMetadataURL of
          None \<Rightarrow> Inl ''invalid saml idp metadata url''
        | Some metadataURL \<Rightarrow> (case loadSAMLKeyPair se keyPath certPath of
            Inl e \<Rightarrow> Inl e
          | Inr (key, cert) \<Rightarrow> (case seFetchMetadata se metadataURL of
              Inl e \<Rightarrow> Inl e
            | Inr idpMetadata \<Rightarrow> (case seNewMiddleware se serviceURL key cert idpMetadata of
                Some e \<Rightarrow> Inl e
              | None \<Rightarrow> Inr (Some \<lparr> smMiddleware = True, smLoginPath = soLoginPath opts, smCompletePath = soCompletePath opts,
                  smMetadataPath = soMetadataPath opts, smACSPath = soACSPath opts,
                  smTenantAttribute = defaultString (soTenantAttribute opts) ''tenant'',
                  smRoleAttribute = defaultString (soRoleAttribute opts) ''roles'',
                  smNameAttribute = defaultString (soNameAttribute opts) ''email'' \<rparr>)))))))"

definition samlEnabled :: "saml_provider option \<Rightarrow> bool" where
  "samlEnabled provider = (case provider of None \<Rightarrow> False | Some p \<Rightarrow> smMiddleware p)"

definition principalFromAttributes :: "saml_provider \<Rightarrow> saml_attributes \<Rightarrow> string + principal" where
  "principalFromAttributes p attrs =
     (if saCount attrs = 0 then Inl ''saml attributes are missing''
      else (let name = firstNonEmptyAttribute [saGet attrs (smNameAttribute p), saGet attrs ''name'', saGet attrs ''displayName'',
                  saGet attrs ''uid'', saGet attrs ''sub''] in
        if name = [] then Inl ''saml principal name is missing''
        else (let tenant = firstNonEmptyAttribute [saGet attrs (smTenantAttribute p), ''default''];
                  roles = splitAttributeValues (saGet attrs (smRoleAttribute p));
                  roles = (if length roles = 0 then [RoleViewer] else roles)
              in Inr \<lparr> prName = name, prTenant = tenant, prRoles = roles \<rparr>)))"

section \<open>The login handlers\<close>

text \<open>\<open>http.Redirect\<close> with status 302: the reply holds its argument.\<close>

definition redirect :: "string \<Rightarrow> http_response" where
  "redirect location = writeJSON 302 (RedirectReply location)"

definition oidcStateCookie :: "string \<Rightarrow> time \<Rightarrow> int \<Rightarrow> bool \<Rightarrow> http_cookie" where
  "oidcStateCookie v expires maxAge secure = \<lparr> ckName = oidcStateCookieName, ckValue = v, ckPath = ''/api/sso/oidc'', ckExpires = expires,
     ckMaxAge = maxAge, ckHttpOnly = True, ckSecure = secure, ckSameSiteLax = True \<rparr>"

abbreviation requestSecure :: "app_env \<Rightarrow> http_request \<Rightarrow> app \<Rightarrow> bool" where
  "requestSecure env r a \<equiv> requestIsSecure (aeRuntime env) (apTrustedProxies a) (aeTLS env) r"

definition handleOIDCLogin :: "app_env \<Rightarrow> oidc_env \<Rightarrow> oidc_provider option \<Rightarrow> http_request \<Rightarrow> app \<Rightarrow> http_response \<times> app" where
  "handleOIDCLogin env oe provider r a =
     (if rqMethod r \<noteq> MethodGet then (methodNotAllowed, a)
      else (case provider of
        None \<Rightarrow> (writeError 404 ''oidc sso is not configured'', a)
      | Some p \<Rightarrow>
          if \<not> oidcEnabled (Some p) then (writeError 404 ''oidc sso is not configured'', a)
          else (case BeginLogin oe p r of
            Inl e \<Rightarrow> (writeError 500 e, a)
          | Inr (loginURL, stateToken) \<Rightarrow>
              ((redirect loginURL)\<lparr>rsCookies := [oidcStateCookie stateToken (oeNow oe + oidcStateTTL) 0 (requestSecure env r a)]\<rparr>, a))))"

text \<open>The callback checks the tenant of the identity, mints a session, sets its cookie and records the login.\<close>

definition handleOIDCCallback :: "app_env \<Rightarrow> oidc_env \<Rightarrow> oidc_provider option \<Rightarrow> http_request \<Rightarrow> app \<Rightarrow> http_response \<times> app" where
  "handleOIDCCallback env oe provider r a =
     (if rqMethod r \<noteq> MethodGet then (methodNotAllowed, a)
      else (case provider of
        None \<Rightarrow> (writeError 404 ''oidc sso is not configured'', a)
      | Some p \<Rightarrow>
          if \<not> oidcEnabled (Some p) then (writeError 404 ''oidc sso is not configured'', a)
          else (case HandleCallback oe p r of
            Inl e \<Rightarrow> ((writeError 401 e)\<lparr>rsCookies := [ClearSessionCookie, oidcStateCookie [] unix_epoch (-1) False]\<rparr>, a)
          | Inr (q, returnTo) \<Rightarrow>
              if \<not> tenantAllowedForIdentity (prTenant q) (apTenancy a)
              then ((writeError 401 ''tenant is not allowed'')\<lparr>rsCookies := [ClearSessionCookie]\<rparr>, a)
              else (case MintSession (aeRuntime env) (aeCodec env) (aeNow env) (aeSessionRandom env) q (apAuth a) of
                None \<Rightarrow> (writeError 500 ''unable to mint session'', a)
              | Some (info, session) \<Rightarrow>
                  ((redirect (if returnTo = [] then ''/'' else returnTo))
                     \<lparr>rsCookies := [SetSessionCookie (aeNow env) session (siExpiresAt info) (requestSecure env r a),
                        oidcStateCookie [] unix_epoch (-1) False]\<rparr>,
                   recordAudit env r q ''auth.login'' ''session'' [] ''accepted'' [(''mode'', ''oidc'')] a)))))"

definition requireSAMLAccount :: "saml_env \<Rightarrow> saml_provider option \<Rightarrow> handler \<Rightarrow> handler" where
  "requireSAMLAccount se provider handle = (if \<not> samlEnabled provider then handle else seRequireAccount se handle)"

definition handleSAMLLogin :: "saml_env \<Rightarrow> saml_provider option \<Rightarrow> http_request \<Rightarrow> app \<Rightarrow> http_response \<times> app" where
  "handleSAMLLogin se provider r a =
     (if rqMethod r \<noteq> MethodGet then (methodNotAllowed, a)
      else if \<not> samlEnabled provider then (writeError 404 ''saml sso is not configured'', a)
      else (let returnTo = normalizeReturnTo (gm_str (rqQuery r) ''return_to'') in
        (redirect (''/api/sso/saml/complete'' @ (if returnTo \<noteq> [] then ''?return_to='' @ seQueryEscape se returnTo else [])), a)))"

definition handleSAMLComplete :: "app_env \<Rightarrow> saml_env \<Rightarrow> saml_provider option \<Rightarrow> http_request \<Rightarrow> app \<Rightarrow> http_response \<times> app" where
  "handleSAMLComplete env se provider r a =
     (if rqMethod r \<noteq> MethodGet then (methodNotAllowed, a)
      else (case provider of
        None \<Rightarrow> (writeError 404 ''saml sso is not configured'', a)
      | Some p \<Rightarrow>
          if \<not> samlEnabled (Some p) then (writeError 404 ''saml sso is not configured'', a)
          else (case seSession se r of
            None \<Rightarrow> (writeError 401 ''missing saml session'', a)
          | Some attrs \<Rightarrow> (case principalFromAttributes p attrs of
              Inl e \<Rightarrow> (writeError 401 e, a)
            | Inr q \<Rightarrow>
                if \<not> tenantAllowedForIdentity (prTenant q) (apTenancy a) then (writeError 401 ''tenant is not allowed'', a)
                else (case MintSession (aeRuntime env) (aeCodec env) (aeNow env) (aeSessionRandom env) q (apAuth a) of
                  None \<Rightarrow> (writeError 500 ''unable to mint session'', a)
                | Some (info, session) \<Rightarrow>
                    (let returnTo = normalizeReturnTo (gm_str (rqQuery r) ''return_to'') in
                     ((redirect (if returnTo = [] then ''/'' else returnTo))
                        \<lparr>rsCookies := [SetSessionCookie (aeNow env) session (siExpiresAt info) (requestSecure env r a)]\<rparr>,
                      recordAudit env r q ''auth.login'' ''session'' [] ''accepted'' [(''mode'', ''saml'')] a))))))) "

section \<open>Readiness and validation results\<close>

text \<open>\<open>Ping\<close> asks the database, when there is one.\<close>

definition Ping :: "string option \<Rightarrow> store \<Rightarrow> string option" where
  "Ping database st = (if stMode st = ''postgres'' then database else None)"

definition handleReady :: "string option \<Rightarrow> http_request \<Rightarrow> app \<Rightarrow> http_response \<times> app" where
  "handleReady database r a =
     (if rqMethod r \<noteq> MethodGet then (methodNotAllowed, a)
      else (case Ping database (tsBase (apTenancy a)) of
        Some e \<Rightarrow> (writeError 503 e, a)
      | None \<Rightarrow> (writeJSON 200 (ReadyReply (stMode (tsBase (apTenancy a))) (stSchemaVersion (tsBase (apTenancy a)))), a)))"

text \<open>
  The files of the last validation run: their paths, the modification time and content of a file, and \<open>json.Unmarshal\<close> into a raw message.
\<close>

record validation_files =
  vfResultPath :: string
  vfHistoryPath :: string
  vfStat :: "string \<Rightarrow> time option"
  vfRead :: "string \<Rightarrow> string option"
  vfRaw :: "string \<Rightarrow> string option"

fun validationEntries :: "validation_files \<Rightarrow> string list \<Rightarrow> string list" where
  "validationEntries vf [] = []"
| "validationEntries vf (line # rest) =
     (let line = TrimSpace line in
      if line = [] then validationEntries vf rest
      else (case vfRaw vf line of None \<Rightarrow> validationEntries vf rest | Some raw \<Rightarrow> raw # validationEntries vf rest))"

definition readValidationHistory :: "validation_files \<Rightarrow> string \<Rightarrow> nat \<Rightarrow> string list" where
  "readValidationHistory vf path limit =
     (case vfRead vf path of
        None \<Rightarrow> []
      | Some text \<Rightarrow>
          (let entries = validationEntries vf (SplitByte (CHR 0x0A) (TrimSpace text)) in
           if 0 < limit \<and> limit < length entries then drop (length entries - limit) entries else entries))"

definition handleValidationResult :: "validation_files \<Rightarrow> http_request \<Rightarrow> app \<Rightarrow> http_response \<times> app" where
  "handleValidationResult vf r a =
     (if rqMethod r \<noteq> MethodGet then (methodNotAllowed, a)
      else if vfResultPath vf = [] then (writeError 404 ''detection validation result not configured'', a)
      else (case vfStat vf (vfResultPath vf) of
        None \<Rightarrow> (writeError 404 ''no detection validation result available yet'', a)
      | Some modified \<Rightarrow> (case vfRead vf (vfResultPath vf) of
          None \<Rightarrow> (writeError 500 ''could not read validation result'', a)
        | Some text \<Rightarrow> (case vfRaw vf text of
            None \<Rightarrow> (writeError 500 ''validation result is not valid JSON'', a)
          | Some raw \<Rightarrow>
              (writeJSON 200 (ValidationReply modified raw
                 (if vfHistoryPath vf \<noteq> [] then readValidationHistory vf (vfHistoryPath vf) 50 else [])), a)))))"

section \<open>Requests\<close>

text \<open>
  The body of \<open>POST /api/events\<close>. The first JSON value is read from at most one mebibyte; after it there may be only JSON white space. A
  decoder returns the text of the first value and what follows it; the flag tells it that the body goes on beyond the limit.
\<close>

record event_decoder =
  edFirst :: "string \<Rightarrow> bool \<Rightarrow> string + string \<times> string"
  edEvents :: "string \<Rightarrow> string + event list"
  edEvent :: "string \<Rightarrow> string + event"

definition maxEventBytes :: nat where "maxEventBytes = 2 ^ 20"

definition jsonBlank :: "string \<Rightarrow> bool" where
  "jsonBlank s = list_all (\<lambda>c. byte c = 32 \<or> byte c = 9 \<or> byte c = 10 \<or> byte c = 13) s"

definition decodeEvents :: "event_decoder \<Rightarrow> string \<Rightarrow> string + event list" where
  "decodeEvents dec body =
     (let over = maxEventBytes < length body in
      case edFirst dec (take maxEventBytes body) over of
        Inl e \<Rightarrow> Inl e
      | Inr (raw, rest) \<Rightarrow>
          if over \<or> \<not> jsonBlank rest then Inl ''request body must contain a single JSON value''
          else (let trimmed = TrimSpace raw in
            if trimmed = [] then Inl ''empty request body''
            else if HasPrefix trimmed ''['' then edEvents dec raw
            else (case edEvent dec raw of Inl e \<Rightarrow> Inl e | Inr ev \<Rightarrow> Inr [ev])))"

definition maxRequestBodyBytes :: nat where "maxRequestBodyBytes = 4 * 2 ^ 20"

text \<open>\<open>http.MaxBytesReader\<close>: a handler reads at most the limit; a decoder that needs more fails there.\<close>

definition withBodyLimit :: "handler \<Rightarrow> handler" where
  "withBodyLimit handle r p a =
     handle (if rqMethod r = MethodPost \<or> rqMethod r = ''PUT'' \<or> rqMethod r = ''PATCH''
             then r\<lparr>rqBody := take maxRequestBodyBytes (rqBody r)\<rparr> else r) p a"

definition quoted :: "string \<Rightarrow> string" where
  "quoted s = CHR 39 # s @ [CHR 39]"

definition contentSecurityPolicy :: string where
  "contentSecurityPolicy = concat
    [''default-src '', quoted ''self'', ''; base-uri '', quoted ''self'', ''; object-src '', quoted ''none'', ''; frame-ancestors '', quoted ''none'',
     ''; frame-src '', quoted ''none'', ''; form-action '', quoted ''self'', ''; img-src '', quoted ''self'', '' data:; style-src '', quoted ''self'',
     '' '', quoted ''unsafe-inline'', ''; script-src '', quoted ''self'', ''; connect-src '', quoted ''self'']"

definition securityHeaders :: string_map where
  "securityHeaders = [(''Content-Security-Policy'', contentSecurityPolicy), (''X-Content-Type-Options'', ''nosniff''),
     (''X-Frame-Options'', ''DENY''), (''Referrer-Policy'', ''no-referrer'')]"

definition withSecurityHeaders :: "(http_request \<Rightarrow> app \<Rightarrow> http_response \<times> app) \<Rightarrow> http_request \<Rightarrow> app \<Rightarrow> (string_map \<times> http_response) \<times> app" where
  "withSecurityHeaders handle r a = (let (rsp, a) = handle r a in ((securityHeaders, rsp), a))"

definition LoadDemo :: "app_env \<Rightarrow> app \<Rightarrow> (string + alert list) \<times> app" where
  "LoadDemo env a = LoadDemoForTenant env ''default'' a"

text \<open>The lockout of the logins: the store's, when it is shared in PostgreSQL, else the authenticator's.\<close>

definition loginRetryAfter :: "time \<Rightarrow> (string \<Rightarrow> string + duration) \<Rightarrow> string \<Rightarrow> app \<Rightarrow> (string + duration) \<times> app" where
  "loginRetryAfter now shared key a =
     (if stMode (tsBase (apTenancy a)) = ''postgres'' then (shared key, a)
      else (let (wait, a) = onAuth (LoginRetryAfter now key) a in (Inr wait, a)))"

definition recordLoginAttempt :: "time \<Rightarrow> (string \<Rightarrow> bool \<Rightarrow> string + duration) \<Rightarrow> string \<Rightarrow> bool \<Rightarrow> app \<Rightarrow> (string + duration) \<times> app" where
  "recordLoginAttempt now shared key success a =
     (if stMode (tsBase (apTenancy a)) = ''postgres'' then (shared key success, a)
      else (let (wait, a) = onAuth (RecordLoginAttempt now key success) a in (Inr wait, a)))"

section \<open>The server\<close>

record server_options =
  svDataPath :: string
  svPostgresDSN :: string
  svAPIToken :: string
  svUsers :: "user_config list"
  svPolicy :: policy_config
  svCorrelationWindow :: duration
  svThreatPackPath :: string
  svPolicyPath :: string
  svDeceptionTokens :: "deception_token list"
  svTenantPolicies :: "tenant_policy list"
  svLicenseToken :: string
  svLicensePublicKey :: string
  svAlertWebhook :: webhook
  svTicketWebhook :: webhook
  svResponseWebhook :: webhook
  svGitHub :: github
  svJira :: jira
  svServiceNow :: servicenow
  svMCPUpstreamURL :: string
  svMCPUpstreamToken :: string
  svProxyAllowLocalTargets :: bool
  svOIDC :: oidc_options
  svPublicURL :: string
  svInstanceName :: string
  svSAMLRootURL :: string
  svSAMLIDPMetadataURL :: string
  svSAMLKeyPath :: string
  svSAMLCertPath :: string
  svSAMLTenantAttribute :: string
  svSAMLRoleAttribute :: string
  svSAMLEmailAttribute :: string
  svTenantIsolationMode :: string
  svTenantRegistryPath :: string
  svTenantPostgresDSNTemplate :: string
  svTenantDataPathTemplate :: string
  svTrustedProxies :: "string list"
  svRetentionWindow :: duration
  svGatewayMaxInFlight :: int

text \<open>The provider of SAML, when one of its options is set.\<close>

definition startSAML :: "saml_env \<Rightarrow> runtime \<Rightarrow> server_options \<Rightarrow> string + saml_provider option" where
  "startSAML se rt opts =
     (if list_all (\<lambda>v. TrimSpace v = []) [svSAMLRootURL opts, svSAMLIDPMetadataURL opts, svSAMLKeyPath opts, svSAMLCertPath opts,
           svSAMLTenantAttribute opts, svSAMLRoleAttribute opts, svSAMLEmailAttribute opts]
      then Inr None
      else newSAMLProvider se rt
        \<lparr> soRootURL = defaultString (TrimSpace (svPublicURL opts)) (TrimSpace (svSAMLRootURL opts)),
          soIDPMetadataURL = TrimSpace (svSAMLIDPMetadataURL opts), soKeyPath = TrimSpace (svSAMLKeyPath opts),
          soCertPath = TrimSpace (svSAMLCertPath opts), soCompletePath = ''/api/sso/saml/complete'', soLoginPath = ''/api/sso/saml/login'',
          soMetadataPath = ''/saml/metadata'', soACSPath = ''/saml/acs'',
          soTenantAttribute = defaultString (TrimSpace (svSAMLTenantAttribute opts)) ''tenant'',
          soRoleAttribute = defaultString (TrimSpace (svSAMLRoleAttribute opts)) ''roles'',
          soNameAttribute = defaultString (TrimSpace (svSAMLEmailAttribute opts)) ''email'' \<rparr>)"

definition startLicense :: "license_lib \<Rightarrow> time \<Rightarrow> server_options \<Rightarrow> license_status" where
  "startLicense lib now opts =
     (if TrimSpace (svLicenseToken opts) \<noteq> [] \<and> TrimSpace (svLicensePublicKey opts) \<noteq> []
      then EvaluateLicense lib (TrimSpace (svLicenseToken opts)) (svLicensePublicKey opts) now else Community)"

definition startApp ::
  "tenant_env \<Rightarrow> license_lib \<Rightarrow> server_options \<Rightarrow> tenancy \<Rightarrow> ip_net list \<Rightarrow> oidc_provider option \<Rightarrow> saml_provider option \<Rightarrow> app" where
  "startApp te lib opts ts proxies oidc saml =
     (let rt = teRuntime te; now = ioNow (teIO te) in
      \<lparr> apTenancy = ts,
        apPolicy = fold (\<lambda>policy e. snd (SetTenantPolicy rt policy e)) (svTenantPolicies opts)
          (New rt now ((svPolicy opts)\<lparr>pcDeceptionTokens := svDeceptionTokens opts\<rparr>)),
        apCorrelator = NewCorrelator (if svCorrelationWindow opts = 0 then 30 * minute else svCorrelationWindow opts),
        apResponder = NewDryRun, apPolicyPath = TrimSpace (svPolicyPath opts), apThreatPackPath = TrimSpace (svThreatPackPath opts),
        apAuth = NewAuthenticator rt (teHost te) (svUsers opts) (svAPIToken opts), apTrustedProxies = proxies,
        apGatewayLimit = (if svGatewayMaxInFlight opts \<le> 0 then 64 else nat (svGatewayMaxInFlight opts)),
        apGatewayInFlight = 0, apGatewaySamples = [], apGatewayRejected = 0,
        apWebhook = svAlertWebhook opts, apTicketWebhook = svTicketWebhook opts, apResponseWebhook = svResponseWebhook opts,
        apGitHub = svGitHub opts, apJira = svJira opts, apServiceNow = svServiceNow opts, apMCPUpstreamURL = svMCPUpstreamURL opts,
        apMCPUpstreamToken = svMCPUpstreamToken opts, apProxyAllowLocalTargets = svProxyAllowLocalTargets opts,
        apOIDCEnabled = oidcEnabled oidc, apSAMLEnabled = samlEnabled saml,
        apInstanceName = defaultString (TrimSpace (svInstanceName opts)) ''primary'', apPublicURL = TrimSpace (svPublicURL opts),
        apExportErr = [], apStartedAt = now, apCounter = 0, apLicenseStatus = startLicense lib now opts \<rparr>)"

definition NewWithOptions ::
  "tenant_env \<Rightarrow> oidc_env \<Rightarrow> saml_env \<Rightarrow> license_lib \<Rightarrow> server_options \<Rightarrow> string + app \<times> oidc_provider option \<times> saml_provider option" where
  "NewWithOptions te oe se lib opts =
     (let rt = teRuntime te in
      case (if svPostgresDSN opts \<noteq> [] then teOpenPostgres te (svPostgresDSN opts)
            else NewWithPath rt (teHost te) (teDecodeSnapshot te) (svDataPath opts) (teSnapshotFile te (svDataPath opts))) of
        Inl e \<Rightarrow> Inl e
      | Inr st \<Rightarrow> (case newTenantRegistry te (svTenantRegistryPath opts) (svTenantIsolationMode opts) (svTenantPostgresDSNTemplate opts)
            (svTenantDataPathTemplate opts) of
          Inl e \<Rightarrow> Inl e
        | Inr reg \<Rightarrow> (case parseTrustedProxies rt (svTrustedProxies opts) of
            Inl e \<Rightarrow> Inl e
          | Inr proxies \<Rightarrow> (case SetRetention (teIO te) (if svRetentionWindow opts < 0 then 0 else svRetentionWindow opts) st of
              (Some e, _) \<Rightarrow> Inl e
            | (None, st) \<Rightarrow>
                (let key = atSessionKey (NewAuthenticator rt (teHost te) (svUsers opts) (svAPIToken opts)) in
                 case newOIDCProvider oe (svOIDC opts) key of
                   Inl e \<Rightarrow> Inl e
                 | Inr oidc \<Rightarrow> (case startSAML se rt opts of
                     Inl e \<Rightarrow> Inl e
                   | Inr saml \<Rightarrow>
                       Inr (startApp te lib opts \<lparr> tsBase = st, tsOpened = [], tsRegistry = Some reg \<rparr> proxies oidc saml, oidc, saml)))))))"

text \<open>All the routes of \<open>Routes\<close>: those of \<open>AppRoutes\<close>, the two login flows, readiness, the validation result and the SAML endpoints.\<close>

definition ssoRoutes ::
  "app_env \<Rightarrow> oidc_env \<Rightarrow> saml_env \<Rightarrow> validation_files \<Rightarrow> string option \<Rightarrow> oidc_provider option \<Rightarrow> saml_provider option \<Rightarrow> (string \<times> handler) list" where
  "ssoRoutes env oe se vf database oidc saml =
    [(''/readyz'', \<lambda>r p. handleReady database r), (''/api/sso/oidc/login'', \<lambda>r p. handleOIDCLogin env oe oidc r),
     (''/api/sso/oidc/callback'', \<lambda>r p. handleOIDCCallback env oe oidc r), (''/api/sso/saml/login'', \<lambda>r p. handleSAMLLogin se saml r),
     (''/api/sso/saml/complete'', requireSAMLAccount se saml (\<lambda>r p. handleSAMLComplete env se saml r)),
     (''/api/gateway/validation'', \<lambda>r p. handleValidationResult vf r)]"

text \<open>The files of the dashboard; a path under \<open>/api/\<close> that no route matches is not a file.\<close>

definition staticHandler :: "handler \<Rightarrow> handler" where
  "staticHandler files r p a = (if HasPrefix (rqPath r) ''/api/'' then (writeJSON 404 (ErrorReply ''404 page not found''), a) else files r p a)"

definition Routes ::
  "app_env \<Rightarrow> oidc_env \<Rightarrow> saml_env \<Rightarrow> validation_files \<Rightarrow> string option \<Rightarrow> oidc_provider option \<Rightarrow> saml_provider option \<Rightarrow> handler \<Rightarrow> handler \<Rightarrow>
   http_request \<Rightarrow> app \<Rightarrow> (string_map \<times> http_response) \<times> app" where
  "Routes env oe se vf database oidc saml samlEndpoints files r a =
     (let h = (case map_of (ssoRoutes env oe se vf database oidc saml) (rqPath r) of
          Some h \<Rightarrow> h
        | None \<Rightarrow> (case route env (rqPath r) of
            Some h \<Rightarrow> h
          | None \<Rightarrow> if samlEnabled saml \<and> HasPrefix (rqPath r) ''/saml/'' then samlEndpoints else staticHandler files))
      in withSecurityHeaders (withAuth env (withBodyLimit h)) r a)"

section \<open>Properties\<close>

text \<open>A response that sets a session.\<close>

definition grants_session :: "http_response \<Rightarrow> string \<Rightarrow> bool" where
  "grants_session rsp session \<longleftrightarrow> session \<noteq> [] \<and> (\<exists>c \<in> set (rsCookies rsp). ckName c = sessionCookieName \<and> ckValue c = session)"

lemma MintSession_token: "MintSession rt codec now random q au = Some (info, session) \<Longrightarrow> session \<noteq> []"
  by (auto simp: MintSession_def issueSession_def signSession_def Let_def split: if_splits option.splits)

lemma no_session [simp]:
  "\<not> grants_session (writeError status e) session" "\<not> grants_session methodNotAllowed session"
  by (simp_all add: grants_session_def writeError_def writeJSON_def methodNotAllowed_def)

lemma cookies_session [simp]:
  "grants_session (rsp\<lparr>rsCookies := cs\<rparr>) session \<longleftrightarrow> session \<noteq> [] \<and> (\<exists>c \<in> set cs. ckName c = sessionCookieName \<and> ckValue c = session)"
  "ckName ClearSessionCookie = sessionCookieName" "ckValue ClearSessionCookie = []" "ckName (SetSessionCookie now s t secure) = sessionCookieName"
  "ckValue (SetSessionCookie now s t secure) = s" "ckName (oidcStateCookie v t m secure) \<noteq> sessionCookieName"
  by (simp_all add: grants_session_def ClearSessionCookie_def SetSessionCookie_def oidcStateCookie_def oidcStateCookieName_def sessionCookieName_def)

lemma statuses [simp]: "rsStatus (redirect l) = 302" "rsStatus (writeError status e) = status"
  by (simp_all add: redirect_def writeError_def writeJSON_def)

text \<open>The callback after its method check, with the checks of \<open>HandleCallback\<close> read as \<open>login_proves\<close>.\<close>

definition oidc_grant :: "app_env \<Rightarrow> oidc_env \<Rightarrow> oidc_provider option \<Rightarrow> http_request \<Rightarrow> app \<Rightarrow> session_info \<Rightarrow> string \<Rightarrow> bool" where
  "oidc_grant env oe provider r a info session \<longleftrightarrow>
     (\<exists>p q returnTo. provider = Some p \<and> oidcEnabled (Some p) \<and> login_proves oe p r q returnTo \<and>
        tenantAllowedForIdentity (prTenant q) (apTenancy a) \<and>
        MintSession (aeRuntime env) (aeCodec env) (aeNow env) (aeSessionRandom env) q (apAuth a) = Some (info, session))"

text \<open>The callback with a provider whose checks prove a login of \<open>q\<close>: the session is granted, or nothing is.\<close>

lemma callback_proved:
  assumes p: "rqMethod r = MethodGet" "provider = Some p" "oidcEnabled (Some p)" and proved: "HandleCallback oe p r = Inr (q, ret)"
  obtains "\<forall>info session. \<not> oidc_grant env oe provider r a info session" "snd (handleOIDCCallback env oe provider r a) = a"
      "\<forall>session. \<not> grants_session (fst (handleOIDCCallback env oe provider r a)) session"
  | info session where "\<forall>i s. oidc_grant env oe provider r a i s \<longleftrightarrow> i = info \<and> s = session"
      "rsStatus (fst (handleOIDCCallback env oe provider r a)) = 302"
      "\<forall>s. grants_session (fst (handleOIDCCallback env oe provider r a)) s \<longleftrightarrow> s = session"
proof -
  let ?mint = "MintSession (aeRuntime env) (aeCodec env) (aeNow env) (aeSessionRandom env) q (apAuth a)"
  have "login_proves oe p r q' ret' \<longleftrightarrow> q' = q \<and> ret' = ret" for q' ret'
    using HandleCallback_iff [of oe p r q' ret'] p proved by auto
  then have grant: "oidc_grant env oe provider r a i s \<longleftrightarrow> tenantAllowedForIdentity (prTenant q) (apTenancy a) \<and> ?mint = Some (i, s)" for i s
    using p by (auto simp: oidc_grant_def)
  show ?thesis
  proof (cases "tenantAllowedForIdentity (prTenant q) (apTenancy a) \<and> ?mint \<noteq> None")
    case False
    then consider "\<not> tenantAllowedForIdentity (prTenant q) (apTenancy a)" | "tenantAllowedForIdentity (prTenant q) (apTenancy a)" "?mint = None"
      by blast
    then show ?thesis
      by cases (use that(1) p proved grant in \<open>auto simp: handleOIDCCallback_def\<close>)
  next
    case True
    then obtain info session where mint: "?mint = Some (info, session)"
      by auto
    then have "session \<noteq> []"
      using MintSession_token by blast
    then show ?thesis
      using True that(2) [of info session] p proved grant mint by (auto simp: handleOIDCCallback_def)
  qed
qed

lemma callback_cases:
  obtains "\<forall>info session. \<not> oidc_grant env oe provider r a info session" "snd (handleOIDCCallback env oe provider r a) = a"
      "\<forall>session. \<not> grants_session (fst (handleOIDCCallback env oe provider r a)) session"
  | info session where "rqMethod r = MethodGet" "\<forall>i s. oidc_grant env oe provider r a i s \<longleftrightarrow> i = info \<and> s = session"
      "rsStatus (fst (handleOIDCCallback env oe provider r a)) = 302"
      "\<forall>s. grants_session (fst (handleOIDCCallback env oe provider r a)) s \<longleftrightarrow> s = session"
  | "rqMethod r \<noteq> MethodGet" "handleOIDCCallback env oe provider r a = (methodNotAllowed, a)"
proof (cases "rqMethod r = MethodGet \<and> (\<exists>p. provider = Some p \<and> oidcEnabled (Some p))")
  case False
  show ?thesis
  proof (cases "rqMethod r = MethodGet")
    case True
    then have "handleOIDCCallback env oe provider r a = (writeError 404 ''oidc sso is not configured'', a)"
      using False by (cases provider) (simp_all add: handleOIDCCallback_def)
    then show ?thesis
      using False True that(1) by (auto simp: oidc_grant_def)
  qed (rule that(3), simp_all add: handleOIDCCallback_def)
next
  case True
  then obtain p where p: "rqMethod r = MethodGet" "provider = Some p" "oidcEnabled (Some p)"
    by blast
  show ?thesis
  proof (cases "HandleCallback oe p r")
    case (Inl e)
    then have "\<not> login_proves oe p r q returnTo" for q returnTo
      using HandleCallback_iff [of oe p r q returnTo] p by simp
    then show ?thesis
      using that(1) p Inl by (auto simp: handleOIDCCallback_def oidc_grant_def)
  next
    case (Inr x)
    then have "HandleCallback oe p r = Inr (fst x, snd x)"
      by simp
    then show ?thesis
      by (cases rule: callback_proved [OF p, where env = env and a = a]) (use that(1,2) p(1) in blast)+
  qed
qed

text \<open>C33: What an OpenID Connect login takes. The callback sets a session exactly when the request is a GET, the browser is still there, its state
  cookie is two parts in base64 of which the second is the HMAC of the first under the server's key, the state has not expired and repeats the
  state parameter, the token endpoint answered the code with a token of three parts that says RS256, whose signature verifies under the first
  RSA key of the provider's key set with the token's key ID, whose claims name the issuer, this client (and as the
  authorized party, if it is one of several), are not past their expiry and repeat the nonce of the state, the identity has a name and a
  tenant that is registered, and a session could be minted for it; otherwise no session is set and the state of the server is as before.\<close>

theorem oidc_callback_sound:
  "(grants_session (fst (handleOIDCCallback env oe provider r a)) session \<longleftrightarrow>
      rqMethod r = MethodGet \<and>
      (\<exists>p cookie sig raw state idToken cs info. provider = Some p \<and> oidcEnabled provider \<and> oeContextErr oe = None \<and>
         RequestCookie r oidcStateCookieName = Some (cookie @ ''.'' @ sig) \<and> CHR ''.'' \<notin> set (cookie @ sig) \<and>
         b64_decode True False cookie = Some raw \<and> b64_decode True False sig = Some (rt_hmac (oeRuntime oe) (opStateKey p) raw) \<and>
         oeUnmarshalState oe raw = Some state \<and> oeNow oe \<le> osExpiresAt state \<and>
         osState state = TrimSpace (gm_str (rqQuery r) ''state'') \<and> TrimSpace (gm_str (rqQuery r) ''code'') \<noteq> [] \<and>
         code_exchanged oe p (TrimSpace (gm_str (rqQuery r) ''code'')) idToken \<and>
         signed_by_provider oe p idToken cs \<and>
         claims_for_client oe p (osNonce state) cs \<and> prName (principalFromClaims p cs) \<noteq> [] \<and>
         tenantAllowedForIdentity (prTenant (principalFromClaims p cs)) (apTenancy a) \<and>
         MintSession (aeRuntime env) (aeCodec env) (aeNow env) (aeSessionRandom env) (principalFromClaims p cs) (apAuth a) = Some (info, session)))
   \<and> ((\<exists>s. grants_session (fst (handleOIDCCallback env oe provider r a)) s) \<or> snd (handleOIDCCallback env oe provider r a) = a)"
    (is "(?got \<longleftrightarrow> ?get \<and> ?proof) \<and> ?rest")
proof -
  have "?proof \<longleftrightarrow> (\<exists>info. oidc_grant env oe provider r a info session)"
    unfolding oidc_grant_def login_proves_def signed_state_def split_two_iff by fastforce
  moreover have "?got \<longleftrightarrow> ?get \<and> (\<exists>info. oidc_grant env oe provider r a info session)" and ?rest
    by (cases rule: callback_cases [of env oe provider r a]; force)+
  ultimately show ?thesis
    by blast
qed

text \<open>
  A login that is accepted: a provider with one key, a token of three parts whose claims name issuer, client, nonce and user, and a
  signature check that compares with the digest.
\<close>

definition demo_oidc :: oidc_provider where
  "demo_oidc = \<lparr> opIssuerURL = ''https://idp'', opClientID = ''oadtd'', opClientSecret = [], opRedirectURL = ''https://oadtd/cb'',
     opTenantClaim = ''tenant'', opRoleClaim = ''roles'', opEmailClaim = ''email'', opScopes = [''openid''], opStateKey = ''k'',
     opDiscovery = \<lparr> odIssuer = ''https://idp'', odAuthorizationEndpoint = ''https://idp/a'', odTokenEndpoint = ''https://idp/t'',
       odJWKSURI = ''https://idp/k'' \<rparr> \<rparr>"

definition demo_id_token :: string where
  "demo_id_token = b64_encode True False ''H'' @ ''.'' @ b64_encode True False ''B'' @ ''.'' @ b64_encode True False ''S''"

definition demo_state :: oidc_state_payload where
  "demo_state = \<lparr> osState = ''st'', osNonce = ''no'', osReturnTo = ''/alerts'', osExpiresAt = 5 * second \<rparr>"

definition demo_oidc_env :: oidc_env where
  "demo_oidc_env = \<lparr> oeRuntime = ascii_runtime, oeNow = 2 * second, oeContextErr = None, oeClockText = [], oeRandom = (\<lambda>_. None),
     oeGet = (\<lambda>_. Inr (200, ''K'')), oePostForm = (\<lambda>_ _ _. Inr (200, ''T'')), oeDiscovery = (\<lambda>_. Inl ''unused''),
     oeTokenResponse = (\<lambda>_. Inr demo_id_token),
     oeJWKS = (\<lambda>_. Inr [\<lparr> jkKid = ''1'', jkKty = ''RSA'', jkN = b64_encode True False ''N'', jkE = b64_encode True False ''E'' \<rparr>]),
     oeHeader = (\<lambda>_. Inr \<lparr> jhAlg = ''RS256'', jhKid = ''1'' \<rparr>),
     oeClaims = (\<lambda>_. Inr [(''iss'', CString ''https://idp''), (''aud'', CString ''oadtd''), (''nonce'', CString ''no''), (''email'', CString ''ada''),
       (''tenant'', CString ''default''), (''roles'', CString ''operator'')]),
     oeMarshalState = (\<lambda>_. Inr ''{}''), oeUnmarshalState = (\<lambda>d. if d = ''{}'' then Some demo_state else None),
     oeVerifyRSA = (\<lambda>_ _ sig. sig = ''S''), oeWithQuery = (\<lambda>u _. Inr u) \<rparr>"

definition demo_callback :: "string \<Rightarrow> http_request" where
  "demo_callback state = \<lparr> rqMethod = MethodGet, rqPath = ''/api/sso/oidc/callback'', rqQuery = [(''code'', ''c''), (''state'', state)], rqHeaders = [],
     rqCookies = [(oidcStateCookieName, signSession ascii_runtime ''k'' ''{}'')], rqRemoteAddr = [], rqBody = [] \<rparr>"

lemma demo_login:
  "HandleCallback demo_oidc_env demo_oidc (demo_callback ''st'') = Inr (\<lparr> prName = ''ada'', prTenant = ''default'', prRoles = [''operator''] \<rparr>, ''/alerts'')"
  "HandleCallback demo_oidc_env demo_oidc (demo_callback ''xx'') = Inl ''oidc state mismatch''"
  "HandleCallback (demo_oidc_env\<lparr>oeVerifyRSA := \<lambda>_ _ _. False\<rparr>) demo_oidc (demo_callback ''st'') = Inl ''crypto/rsa: verification error''"
  "HandleCallback (demo_oidc_env\<lparr>oeHeader := \<lambda>_. Inr \<lparr> jhAlg = ''none'', jhKid = [] \<rparr>\<rparr>) demo_oidc (demo_callback ''st'') =
     Inl ''unsupported oidc signing algorithm none''"
  by code_simp+

text \<open>
  The key of a started server's login states is its session key, and it is not empty: a provider without a session secret is an error of the
  start. This is the hypothesis of \<open>session_is_a_login_state\<close>.
\<close>

lemma newOIDCProvider_key:
  assumes "newOIDCProvider oe opts key = Inr (Some p)"
  shows "opStateKey p = key" "key \<noteq> []"
  using assms by (auto simp: newOIDCProvider_def Let_def split: if_splits option.splits sum.splits)

lemma NewWithOptions_start:
  assumes "NewWithOptions te oe se lib opts = Inr (a, oidc, saml)"
  obtains st reg proxies where "a = startApp te lib opts \<lparr> tsBase = st, tsOpened = [], tsRegistry = Some reg \<rparr> proxies oidc saml"
    "newOIDCProvider oe (svOIDC opts) (atSessionKey (apAuth a)) = Inr oidc" "startSAML se (teRuntime te) opts = Inr saml"
  using assms by (auto simp: NewWithOptions_def startApp_def Let_def split: sum.splits prod.splits option.splits)

lemma started_server:
  assumes "NewWithOptions te oe se lib opts = Inr (a, oidc, saml)"
  shows "apOIDCEnabled a = oidcEnabled oidc" "apSAMLEnabled a = samlEnabled saml" "0 < apGatewayLimit a" "apGatewayInFlight a = 0"
    and "oidc = Some p \<Longrightarrow> opStateKey p = atSessionKey (apAuth a) \<and> atSessionKey (apAuth a) \<noteq> []"
proof -
  obtain st reg proxies where a: "a = startApp te lib opts \<lparr> tsBase = st, tsOpened = [], tsRegistry = Some reg \<rparr> proxies oidc saml"
      and oidc: "newOIDCProvider oe (svOIDC opts) (atSessionKey (apAuth a)) = Inr oidc"
    using NewWithOptions_start [OF assms] by metis
  show "apOIDCEnabled a = oidcEnabled oidc" "apSAMLEnabled a = samlEnabled saml" "0 < apGatewayLimit a" "apGatewayInFlight a = 0"
    by (simp_all add: a startApp_def Let_def)
  show "opStateKey p = atSessionKey (apAuth a) \<and> atSessionKey (apAuth a) \<noteq> []" if "oidc = Some p"
    using newOIDCProvider_key [OF oidc [unfolded that]] by simp
qed

end
