(* ===== verification/Collectors.thy ===== *)
theory Collectors
  imports ConfigLoad Http
begin

text \<open>
  The collectors (\<open>internal/collectors/collectors.go\<close>, \<open>internal/telemetry/jsonl.go\<close>): lines of auditd,
  Suricata, Sysmon and Zeek logs are turned into events. \<open>bufio.Scanner\<close> with its limit on the length
  of a line is modelled; the JSON and CSV readers and the parsers of times and floating-point numbers are
  arguments. A collector returns the events up to the first error, and that error.
\<close>

section \<open>Scanning lines\<close>

definition line_feed :: char where "line_feed = CHR 0x0A"

definition dropCR :: "string \<Rightarrow> string" where
  "dropCR s = (if s \<noteq> [] \<and> last s = CHR 0x0D then butlast s else s)"

text \<open>
  \<open>bufio.Scanner\<close> with \<open>ScanLines\<close>: the lines without their ends. A line that does not fit the buffer
  ends the scan with an error; an empty rest at the end is not a line.
\<close>

definition ScannerLines :: "nat \<Rightarrow> string \<Rightarrow> string list \<times> string option" where
  "ScannerLines limit s =
     (let parts = SplitByte line_feed s;
          parts = (if last parts = [] then butlast parts else parts);
          fit = takeWhile (\<lambda>p. length p < limit) parts
      in (map dropCR fit, if length fit < length parts then Some ''bufio.Scanner: token too long'' else None))"

text \<open>The lines with their numbers, without surrounding space and byte order mark, that are not empty.\<close>

definition numberedLines :: "string list \<Rightarrow> (nat \<times> string) list" where
  "numberedLines ls = filter (\<lambda>(n, l). l \<noteq> [])
     (map (\<lambda>(n, l). (n, TrimPrefix (TrimSpace l) byte_order_mark)) (zip [1..<Suc (length ls)] ls))"

text \<open>Handling the lines one by one: the events so far, and the error that ends the loop.\<close>

fun handleLines :: "(nat \<Rightarrow> string \<Rightarrow> string + event list) \<Rightarrow> (nat \<times> string) list \<Rightarrow> event list \<times> string option" where
  "handleLines handle [] = ([], None)"
| "handleLines handle ((n, l) # ls) =
     (case handle n l of
        Inl e \<Rightarrow> ([], Some e)
      | Inr evs \<Rightarrow> (let (rest, err) = handleLines handle ls in (evs @ rest, err)))"

definition scanLines :: "(nat \<Rightarrow> string \<Rightarrow> string + event list) \<Rightarrow> string \<Rightarrow> event list \<times> string option" where
  "scanLines handle s =
     (let (ls, scanErr) = ScannerLines 4194304 s; (evs, err) = handleLines handle (numberedLines ls)
      in (evs, case err of Some e \<Rightarrow> Some e | None \<Rightarrow> scanErr))"

section \<open>Values\<close>

text \<open>
  A decoded JSON value, with what the collectors print of it. A number has its value when it is integral,
  its shortest decimal text, and its text under \<open>fmt.Sprint\<close>; other values have the latter.
\<close>

datatype any_value =
    AString string
  | ANumber "int option" string string
  | ANull
  | AObject "(string \<times> any_value) list" string
  | AOther string

type_synonym any_map = "(string, any_value) gomap"

record collector_env =
  ceRuntime :: runtime
  ceJSON :: "string \<Rightarrow> string + any_map"
  ceCSV :: "string \<Rightarrow> string + string list"
  ceParseTime :: "string \<Rightarrow> string \<Rightarrow> time option"
  ceParseFloat :: "string \<Rightarrow> (int \<times> int) option"

fun anyText :: "any_value \<Rightarrow> string" where
  "anyText (AString s) = s"
| "anyText (ANumber _ _ text) = text"
| "anyText ANull = ''<nil>''"
| "anyText (AObject _ text) = text"
| "anyText (AOther text) = text"

definition stringValue :: "any_map \<Rightarrow> string \<Rightarrow> string" where
  "stringValue raw key =
     (case gm_get raw key of
        None \<Rightarrow> []
      | Some ANull \<Rightarrow> []
      | Some (AString s) \<Rightarrow> s
      | Some (ANumber (Some i) _ _) \<Rightarrow> Itoa i
      | Some (ANumber None decimal _) \<Rightarrow> decimal
      | Some v \<Rightarrow> anyText v)"

definition intStringValue :: "any_map \<Rightarrow> string \<Rightarrow> string" where
  "intStringValue raw key = (let v = stringValue raw key in if v = ''<nil>'' then [] else v)"

fun collectorFirstNonEmpty :: "string list \<Rightarrow> string" where
  "collectorFirstNonEmpty [] = []"
| "collectorFirstNonEmpty (v # vs) = (if TrimSpace v \<noteq> [] \<and> v \<noteq> ''-'' then TrimSpace v else collectorFirstNonEmpty vs)"

definition trimQuotes :: "string \<Rightarrow> string" where
  "trimQuotes s = TrimFunc (\<lambda>r. r = 34) s"

definition joinHostPort :: "string \<Rightarrow> string \<Rightarrow> string" where
  "joinHostPort host port =
     (let host = TrimSpace host; port = TrimSpace port in
      if host = [] then [] else if port = [] \<or> port = ''-'' then host else host @ '':'' @ port)"

text \<open>\<open>strings.Cut\<close> at the first equals sign; \<open>None\<close> when there is none.\<close>

definition cutEquals :: "string \<Rightarrow> (string \<times> string) option" where
  "cutEquals part = map_option (\<lambda>i. (take i part, drop (Suc i) part)) (index_of (CHR ''='') part)"

definition keyValues :: "string \<Rightarrow> string_map" where
  "keyValues line = fold (\<lambda>part m. case cutEquals part of None \<Rightarrow> m | Some (k, v) \<Rightarrow> gm_put k (trimQuotes v) m)
     (FieldsFunc rune_space line) []"

text \<open>The scalar strings, then the members of the nested objects, which overwrite them.\<close>

definition nestedData :: "any_map \<Rightarrow> string \<Rightarrow> string_map \<Rightarrow> string_map" where
  "nestedData raw key m =
     (case gm_get raw key of
        Some (AObject ps _) \<Rightarrow> fold (\<lambda>(k, v) m. gm_put k (anyText v) m) ps m
      | _ \<Rightarrow> m)"

definition flattenEventData :: "any_map \<Rightarrow> string_map" where
  "flattenEventData raw =
     nestedData raw ''event_data'' (nestedData raw ''EventData''
       (fold (\<lambda>(k, v) m. case v of AString s \<Rightarrow> gm_put k s m | _ \<Rightarrow> m) raw []))"

definition timeFormats :: "string list" where
  "timeFormats = [''2006-01-02T15:04:05.999999999Z07:00'', ''2006-01-02T15:04:05Z07:00'', ''2006-01-02 15:04:05.999'', ''2006-01-02 15:04:05'']"

definition parseTime :: "(string \<Rightarrow> string \<Rightarrow> time option) \<Rightarrow> string \<Rightarrow> time" where
  "parseTime parse text =
     (let v = TrimSpace text in
      if v = [] then 0
      else (case find (\<lambda>f. parse f v \<noteq> None) timeFormats of None \<Rightarrow> 0 | Some f \<Rightarrow> the (parse f v)))"

definition parseZeekTime :: "collector_env \<Rightarrow> string \<Rightarrow> time" where
  "parseZeekTime env text =
     (if text = [] then 0
      else (case ceParseFloat env text of
        Some (whole, nanos) \<Rightarrow> unix_epoch + whole * second + nanos
      | None \<Rightarrow> parseTime (ceParseTime env) text))"

section \<open>The collectors\<close>

definition emptyEvent :: event where
  "emptyEvent = \<lparr> evID = [], evTimestamp = 0, evTenant = [], evKind = EventKindOther [], evAssetID = [], evHostname = [], evActor = [],
     evSourceIP = [], evDestination = [], evProcess = [], evToolName = [], evCommand = [], evSignal = [], evLabels = [], evMetadata = [] \<rparr>"

definition auditdType :: "string_map \<Rightarrow> string \<Rightarrow> string" where
  "auditdType kv line =
     (let t = TrimPrefix (gm_str kv ''type'') ''type='' in
      if t \<noteq> [] then t
      else if Contains line ''type=EXECVE'' then ''EXECVE''
      else if Contains line ''type=SYSCALL'' then ''SYSCALL'' else [])"

definition auditdEvent :: "runtime \<Rightarrow> nat \<Rightarrow> string \<Rightarrow> string + event list" where
  "auditdEvent rt n line =
     (let kv = keyValues line; get = gm_str kv; t = auditdType kv line;
          host = collectorFirstNonEmpty [get ''node'', get ''hostname'']
      in if t \<noteq> ''SYSCALL'' \<and> t \<noteq> ''EXECVE'' \<and> t \<noteq> ''USER_AUTH'' \<and> t \<noteq> ''USER_LOGIN'' then Inr []
         else Inr [emptyEvent\<lparr>
           evKind := (if t = ''USER_AUTH'' \<or> t = ''USER_LOGIN'' then EventAuth else EventProcessStart),
           evAssetID := collectorFirstNonEmpty [get ''node'', get ''hostname'', ''auditd-host''],
           evHostname := host,
           evProcess := trimQuotes (collectorFirstNonEmpty [get ''comm'', get ''exe'']),
           evCommand := trimQuotes (collectorFirstNonEmpty [get ''cmd'', get ''comm'', get ''exe'']),
           evSignal := ''auditd '' @ t,
           evLabels := [''auditd'', ToLower rt t],
           evMetadata := [(''collector'', ''auditd''), (''line_number'', nat_str n), (''auid'', trimQuotes (get ''auid'')),
             (''uid'', trimQuotes (get ''uid''))]\<rparr>])"

definition normalizeAuditd :: "collector_env \<Rightarrow> string \<Rightarrow> event list \<times> string option" where
  "normalizeAuditd env = scanLines (auditdEvent (ceRuntime env))"

text \<open>A line of JSON: the decoder's error carries the line number.\<close>

definition jsonLine :: "collector_env \<Rightarrow> (any_map \<Rightarrow> nat \<Rightarrow> event list) \<Rightarrow> nat \<Rightarrow> string \<Rightarrow> string + event list" where
  "jsonLine env f n line =
     (case ceJSON env line of Inl e \<Rightarrow> Inl (''line '' @ nat_str n @ '': '' @ e) | Inr raw \<Rightarrow> Inr (f raw n))"

definition suricataEvent :: "collector_env \<Rightarrow> any_map \<Rightarrow> nat \<Rightarrow> event list" where
  "suricataEvent env eve n =
     (let get = stringValue eve; t = get ''event_type'' in
      if t = [] then []
      else (let ev = emptyEvent\<lparr>
              evTimestamp := parseTime (ceParseTime env) (get ''timestamp''),
              evKind := EventNetworkFlow,
              evAssetID := collectorFirstNonEmpty [get ''host'', get ''src_ip'', ''suricata-sensor''],
              evHostname := get ''host'', evSourceIP := get ''src_ip'',
              evDestination := joinHostPort (get ''dest_ip'') (intStringValue eve ''dest_port''),
              evSignal := ''suricata '' @ t, evLabels := [''suricata'', t],
              evMetadata := [(''collector'', ''suricata-eve''), (''line_number'', nat_str n), (''proto'', get ''proto'')]\<rparr>
            in case gm_get eve ''alert'' of
                 Some (AObject alert _) \<Rightarrow>
                   [ev\<lparr>evKind := EventFinding, evSignal := collectorFirstNonEmpty [stringValue alert ''signature'', evSignal ev],
                      evMetadata := evMetadata ev @ [(''signature_id'', intStringValue alert ''signature_id''),
                        (''category'', stringValue alert ''category''), (''severity'', intStringValue alert ''severity'')]\<rparr>]
               | _ \<Rightarrow> [ev]))"

definition normalizeSuricataEVE :: "collector_env \<Rightarrow> string \<Rightarrow> event list \<times> string option" where
  "normalizeSuricataEVE env = scanLines (jsonLine env (suricataEvent env))"

definition sysmonEvent :: "collector_env \<Rightarrow> any_map \<Rightarrow> nat \<Rightarrow> event list" where
  "sysmonEvent env raw n =
     (let flat = flattenEventData raw; data = gm_str flat; get = stringValue raw;
          eventID = collectorFirstNonEmpty [get ''EventID'', get ''event_id'', data ''EventID''];
          host = collectorFirstNonEmpty [get ''Computer'', get ''Hostname'', data ''Computer'', data ''Hostname''];
          ev = emptyEvent\<lparr>
            evTimestamp := parseTime (ceParseTime env)
              (collectorFirstNonEmpty [get ''UtcTime'', get ''TimeCreated'', data ''UtcTime'', data ''TimeCreated'']),
            evKind := EventHostObservation,
            evAssetID := collectorFirstNonEmpty [host, data ''SourceIp'', data ''DestinationIp'', ''sysmon-host''],
            evHostname := host, evSourceIP := data ''SourceIp'',
            evProcess := collectorFirstNonEmpty [data ''Image'', data ''ProcessName''],
            evCommand := data ''CommandLine'',
            evSignal := ''sysmon event '' @ eventID, evLabels := [''sysmon'', ''event-'' @ eventID],
            evMetadata := [(''collector'', ''sysmon-json''), (''line_number'', nat_str n), (''event_id'', eventID),
              (''rule_name'', data ''RuleName'')]\<rparr>
      in if eventID = ''1'' then [ev\<lparr>evKind := EventProcessStart\<rparr>]
         else if eventID = ''3'' then
           [ev\<lparr>evKind := EventNetworkFlow,
              evDestination := joinHostPort (collectorFirstNonEmpty [data ''DestinationHostname'', data ''DestinationIp'']) (data ''DestinationPort'')\<rparr>]
         else [ev])"

definition normalizeSysmonJSON :: "collector_env \<Rightarrow> string \<Rightarrow> event list \<times> string option" where
  "normalizeSysmonJSON env = scanLines (jsonLine env (sysmonEvent env))"

definition zeekConnEvent :: "collector_env \<Rightarrow> any_map \<Rightarrow> nat \<Rightarrow> event" where
  "zeekConnEvent env raw n =
     (let get = stringValue raw;
          sourceIP = collectorFirstNonEmpty [get ''id.orig_h'', get ''src_ip''];
          dest = collectorFirstNonEmpty [get ''id.resp_h'', get ''dest_ip''];
          port = collectorFirstNonEmpty [get ''id.resp_p'', intStringValue raw ''dest_port'']
      in emptyEvent\<lparr>
           evTimestamp := parseZeekTime env (collectorFirstNonEmpty [get ''ts'', get ''timestamp'']),
           evKind := EventNetworkFlow, evAssetID := collectorFirstNonEmpty [sourceIP, ''zeek-sensor''],
           evSourceIP := sourceIP, evDestination := joinHostPort dest port, evSignal := ''zeek conn flow'',
           evLabels := [''zeek'', ''conn''],
           evMetadata := [(''collector'', ''zeek-conn''), (''line_number'', nat_str n), (''uid'', get ''uid''),
             (''proto'', get ''proto''), (''service'', get ''service'')]\<rparr>)"

definition normalizeZeekConnJSON :: "collector_env \<Rightarrow> string \<Rightarrow> event list \<times> string option" where
  "normalizeZeekConnJSON env = scanLines (jsonLine env (\<lambda>raw n. [zeekConnEvent env raw n]))"

definition zeekDefaultFields :: "string list" where
  "zeekDefaultFields = [''ts'', ''uid'', ''id.orig_h'', ''id.orig_p'', ''id.resp_h'', ''id.resp_p'', ''proto'', ''service'']"

text \<open>The loop over the lines of a tab-separated log; the header line sets the names of the columns.\<close>

fun zeekLines :: "collector_env \<Rightarrow> string list \<Rightarrow> nat \<Rightarrow> string list \<Rightarrow> string + event list" where
  "zeekLines env columns n [] = Inr []"
| "zeekLines env columns n (line # ls) =
     (if HasPrefix line ''#fields'' then zeekLines env (tl (FieldsFunc rune_space line)) (Suc n) ls
      else if HasPrefix line ''#'' \<or> TrimSpace line = [] then zeekLines env columns (Suc n) ls
      else (let columns = (if length columns = 0 then zeekDefaultFields else columns) in
        case ceCSV env line of
          Inl e \<Rightarrow> Inl (''line '' @ nat_str n @ '': '' @ e)
        | Inr parts \<Rightarrow>
            (let raw = fold (\<lambda>(c, p) m. gm_put c (AString p) m) (zip columns parts) [] in
             case zeekLines env columns (Suc n) ls of
               Inl e \<Rightarrow> Inl e | Inr evs \<Rightarrow> Inr (zeekConnEvent env raw n # evs))))"

text \<open>An error of a line returns no events; an error of the scanner returns those before it.\<close>

definition normalizeZeekConnTSV :: "collector_env \<Rightarrow> string \<Rightarrow> event list \<times> string option" where
  "normalizeZeekConnTSV env s =
     (let (ls, scanErr) = ScannerLines 65536 s in
      case zeekLines env [] 1 ls of Inl e \<Rightarrow> ([], Some e) | Inr evs \<Rightarrow> (evs, scanErr))"

definition normalizeZeekConn :: "collector_env \<Rightarrow> string \<Rightarrow> event list \<times> string option" where
  "normalizeZeekConn env s =
     (if s = [] then ([], None)
      else if hd s = CHR ''{'' then normalizeZeekConnJSON env s else normalizeZeekConnTSV env s)"

definition CollectorSources :: "string list" where
  "CollectorSources = [''auditd'', ''suricata-eve'', ''sysmon-json'', ''zeek-conn'']"

definition Normalize :: "collector_env \<Rightarrow> string \<Rightarrow> string \<Rightarrow> event list \<times> string option" where
  "Normalize env source s =
     (if source = ''auditd'' then normalizeAuditd env s
      else if source = ''suricata-eve'' then normalizeSuricataEVE env s
      else if source = ''sysmon-json'' then normalizeSysmonJSON env s
      else if source = ''zeek-conn'' then normalizeZeekConn env s
      else ([], Some (''unsupported collector source '' @ Quote (ceRuntime env) source)))"

section \<open>Files of events\<close>

definition ReadJSONL :: "(string \<Rightarrow> string + event) \<Rightarrow> string \<Rightarrow> string + event list" where
  "ReadJSONL unmarshal s =
     (let (ls, scanErr) = ScannerLines 2097152 s;
          (evs, err) = handleLines (\<lambda>n line. case unmarshal line of
            Inl e \<Rightarrow> Inl (''line '' @ nat_str n @ '': '' @ e) | Inr ev \<Rightarrow> Inr [ev]) (numberedLines ls)
      in case (case err of Some e \<Rightarrow> Some e | None \<Rightarrow> scanErr) of Some e \<Rightarrow> Inl e | None \<Rightarrow> Inr evs)"

end
