(* ===== verification/Agent.thy ===== *)
theory Agent
  imports Collectors Exporters "HOL-Library.Word"
begin

text \<open>
  The collector agent (\<open>internal/agent/agent.go\<close>): it follows a log file, or asks a native log reader,
  turns what is new into events and posts them in batches to the server. One round of its loop is
  \<open>runRound\<close>; its state is the offset in the file, the rest of an unfinished line, and the cursor of a native
  source. The file, the commands it runs, the server and the JSON decoders are arguments.
\<close>

section \<open>Configuration and state\<close>

record agent_config =
  acSource :: string
  acPath :: string
  acBaseURL :: string
  acToken :: string
  acBatchSize :: int
  acPollInterval :: duration
  acStatePath :: string
  acOnce :: bool
  acNativeLogName :: string
  acNativeJournalUnit :: string

record agent_state =
  asOffset :: int
  asRemainder :: string
  asLastSize :: int
  asUpdatedAt :: time
  asCursor :: string
  asRecordID :: int

definition emptyState :: agent_state where
  "emptyState = \<lparr> asOffset = 0, asRemainder = [], asLastSize = 0, asUpdatedAt = 0, asCursor = [], asRecordID = 0 \<rparr>"

record windows_record =
  wrRecordID :: int
  wrEventID :: int
  wrProviderName :: string
  wrMachineName :: string
  wrTimeCreated :: string
  wrMessage :: string

record journal_record =
  jrCursor :: string
  jrTimestamp :: string
  jrHostname :: string
  jrUnit :: string
  jrIdentifier :: string
  jrPriority :: string
  jrMessage :: string

record agent_post =
  poEndpoint :: string
  poToken :: string
  poEvents :: "event list"

text \<open>
  The world of one round: the clock, the size that \<open>Stat\<close> reports (\<open>None\<close>: no such file), what the file
  holds when it is read, the commands, the answers of the server and the decoders. \<open>Inl\<close> is an error.
\<close>

record agent_env =
  aaCollect :: collector_env
  aaNow :: time
  aaStat :: "string + nat option"
  aaRead :: "string + string"
  aaRunner :: "string \<Rightarrow> string list \<Rightarrow> string + string"
  aaPost :: "agent_post \<Rightarrow> string + int \<times> string \<times> string"
  aaMarshal :: "event list \<Rightarrow> string option"
  aaWindows :: "string \<Rightarrow> string + windows_record"
  aaJournal :: "string \<Rightarrow> string + journal_record"
  aaGOOS :: string
  aaSaveError :: "string option"

section \<open>Delays\<close>

definition collectorRetryBackoffCap :: duration where "collectorRetryBackoffCap = 1 * minute"

text \<open>The shift is done on 64 bits, and the comparison is signed.\<close>

definition collectorRetryDelay :: "int \<Rightarrow> duration" where
  "collectorRetryDelay attempt =
     (let attempt = (if attempt < 1 then 1 else attempt);
          delay = sint (push_bit (nat (attempt - 1)) (word_of_int second :: 64 word))
      in if collectorRetryBackoffCap < delay then collectorRetryBackoffCap else delay)"

section \<open>Lines\<close>

fun trimEmptyLines :: "string list \<Rightarrow> string list" where
  "trimEmptyLines [] = []"
| "trimEmptyLines (l # ls) =
     (let line = TrimSpace (TrimPrefix l byte_order_mark) in if line = [] then trimEmptyLines ls else line # trimEmptyLines ls)"

definition splitCompleteLines :: "string \<Rightarrow> string list \<times> string" where
  "splitCompleteLines content =
     (if content = [] then ([], [])
      else (let parts = SplitByte line_feed content in
        if HasSuffix content [line_feed] then (trimEmptyLines parts, [])
        else if length parts = 1 then ([], hd parts)
        else (trimEmptyLines (butlast parts), last parts)))"

fun replaceCRLF :: "string \<Rightarrow> string" where
  "replaceCRLF (a # b # s) = (if a = CHR 0x0D \<and> b = line_feed then line_feed # replaceCRLF s else a # replaceCRLF (b # s))"
| "replaceCRLF s = s"

definition splitOutputLines :: "string \<Rightarrow> string list" where
  "splitOutputLines output = trimEmptyLines (SplitByte line_feed (replaceCRLF output))"

section \<open>Posting\<close>

text \<open>
  The loop over the batches, with the posts made so far; \<open>None\<close> stands for a loop that does not end,
  which a batch size of zero would be.
\<close>

partial_function (option) postLoop ::
  "agent_env \<Rightarrow> string \<Rightarrow> string \<Rightarrow> nat \<Rightarrow> event list \<Rightarrow> agent_post list \<Rightarrow> (string option \<times> agent_post list) option" where
  "postLoop env endpoint token batch evs sent =
     (if evs = [] then Some (None, sent)
      else (case aaMarshal env (take batch evs) of
        Some e \<Rightarrow> Some (Some e, sent)
      | None \<Rightarrow>
          (let post = \<lparr> poEndpoint = endpoint, poToken = token, poEvents = take batch evs \<rparr>; sent = sent @ [post] in
           case aaPost env post of
             Inl e \<Rightarrow> Some (Some e, sent)
           | Inr (code, status, body) \<Rightarrow>
               if code < 200 \<or> 300 \<le> code
               then Some (Some (''POST '' @ endpoint @ '' returned '' @ status @ '': '' @ TrimSpace (take 65536 body)), sent)
               else postLoop env endpoint token batch (drop batch evs) sent)))"

definition postEvents :: "agent_env \<Rightarrow> agent_config \<Rightarrow> event list \<Rightarrow> (string option \<times> agent_post list) option" where
  "postEvents env cfg evs =
     postLoop env (TrimRightSlash (acBaseURL cfg) @ ''/api/events'') (acToken cfg) (nat (acBatchSize cfg)) evs []"

section \<open>One look at a file\<close>

definition isNativeSource :: "string \<Rightarrow> bool" where
  "isNativeSource source \<longleftrightarrow> source = ''windows-eventlog'' \<or> source = ''journald''"

text \<open>The result of a round: an error or the number processed, the posts made and the new state.\<close>

type_synonym round_result = "((string + int) \<times> agent_post list \<times> agent_state) option"

definition processFile :: "agent_env \<Rightarrow> agent_config \<Rightarrow> agent_state \<Rightarrow> round_result" where
  "processFile env cfg st =
     (case aaStat env of
        Inl e \<Rightarrow> Some (Inl e, [], st)
      | Inr None \<Rightarrow> Some (Inr 0, [], st)
      | Inr (Some fileSize) \<Rightarrow>
          (let truncated = int fileSize < asOffset st;
               offset = (if truncated then 0 else asOffset st);
               remainder = (if truncated then [] else asRemainder st)
           in case aaRead env of
                Inl e \<Rightarrow> Some (Inl e, [], st)
              | Inr content \<Rightarrow>
                  (let data = drop (nat offset) content in
                   if data = [] then Some (Inr 0, [], st)
                   else (let (ls, nextRemainder) = splitCompleteLines (remainder @ data);
                             nextOffset = int fileSize - int (length nextRemainder);
                             nextOffset = (if nextOffset < 0 then 0 else nextOffset);
                             next = st\<lparr>asLastSize := int fileSize, asUpdatedAt := aaNow env, asRemainder := nextRemainder, asOffset := nextOffset\<rparr>
                         in if ls = [] then Some (Inr (int (length data)), [], next)
                            else (case Normalize (aaCollect env) (acSource cfg) (Join ls [line_feed]) of
                              (_, Some e) \<Rightarrow> Some (Inl e, [], st)
                            | (evs, None) \<Rightarrow>
                                if evs = [] then Some (Inr (int (length data)), [], next)
                                else (case postEvents env cfg evs of
                                  None \<Rightarrow> None
                                | Some (Some e, sent) \<Rightarrow> Some (Inl e, sent, st)
                                | Some (None, sent) \<Rightarrow> Some (Inr (int (length evs)), sent, next)))))))"

section \<open>Native sources\<close>

fun agentFirstNonEmpty :: "string list \<Rightarrow> string" where
  "agentFirstNonEmpty [] = []"
| "agentFirstNonEmpty (v # vs) = (if TrimSpace v \<noteq> [] then v else agentFirstNonEmpty vs)"

text \<open>\<open>strconv.ParseInt(s, 10, 64)\<close>.\<close>

definition ParseInt64 :: "string \<Rightarrow> int option" where
  "ParseInt64 s =
     (let neg = (s \<noteq> [] \<and> hd s = CHR ''-''); digits = (if s \<noteq> [] \<and> (hd s = CHR ''-'' \<or> hd s = CHR ''+'') then tl s else s);
          v = (if neg then - int (str_nat digits) else int (str_nat digits))
      in if digits \<noteq> [] \<and> list_all (\<lambda>c. 48 \<le> byte c \<and> byte c \<le> 57) digits \<and> - (2 ^ 63) \<le> v \<and> v < 2 ^ 63 then Some v else None)"

definition parseJournalTime :: "agent_env \<Rightarrow> string \<Rightarrow> time" where
  "parseJournalTime env text =
     (let raw = TrimSpace text in
      if raw = [] then 0
      else (case ParseInt64 raw of
        Some micros \<Rightarrow> unix_epoch + micros * 1000
      | None \<Rightarrow> parseTime (ceParseTime (aaCollect env)) raw))"

definition looksLikeAuthMessage :: "runtime \<Rightarrow> string \<Rightarrow> bool" where
  "looksLikeAuthMessage rt msg =
     (let msg = ToLower rt msg in
      Contains msg ''failed password'' \<or> Contains msg ''accepted password'' \<or> Contains msg ''authentication failure'')"

definition windowEventToDomain :: "agent_env \<Rightarrow> windows_record \<Rightarrow> event" where
  "windowEventToDomain env r =
     (let t = parseTime (ceParseTime (aaCollect env)) (wrTimeCreated r); k = wrEventID r in
      emptyEvent\<lparr>
        evTimestamp := (if time_is_zero t then aaNow env else t),
        evKind := (if k = 1 \<or> k = 4688 then EventProcessStart else if k = 3 then EventNetworkFlow
          else if k = 4624 \<or> k = 4625 then EventAuth else EventHostObservation),
        evAssetID := agentFirstNonEmpty [wrMachineName r, ''windows-host''], evHostname := wrMachineName r,
        evSignal := agentFirstNonEmpty [wrProviderName r, ''windows''] @ '' event '' @ Itoa k,
        evLabels := [''windows'', ToLower (ceRuntime (aaCollect env)) (agentFirstNonEmpty [wrProviderName r, ''eventlog''])],
        evMetadata := [(''collector'', ''windows-eventlog''), (''provider'', wrProviderName r), (''record_id'', Itoa (wrRecordID r)),
          (''event_id'', Itoa k), (''message'', wrMessage r), (''source_os'', aaGOOS env)]\<rparr>)"

definition journalRecordToDomain :: "agent_env \<Rightarrow> journal_record \<Rightarrow> event" where
  "journalRecordToDomain env r =
     (let t = parseJournalTime env (jrTimestamp r); rt = ceRuntime (aaCollect env); msg = ToLower rt (jrMessage r) in
      emptyEvent\<lparr>
        evTimestamp := (if time_is_zero t then aaNow env else t),
        evKind := (if Contains msg ''execve'' \<or> Contains msg ''process'' then EventProcessStart
          else if looksLikeAuthMessage rt (jrMessage r) then EventAuth else EventHostObservation),
        evAssetID := agentFirstNonEmpty [jrHostname r, ''journal-host''], evHostname := jrHostname r,
        evSignal := agentFirstNonEmpty [jrMessage r, jrIdentifier r, ''journald event''],
        evLabels := [''journald'', ToLower rt (agentFirstNonEmpty [jrUnit r, jrIdentifier r, ''event''])],
        evMetadata := [(''collector'', ''journald''), (''cursor'', jrCursor r), (''unit'', jrUnit r), (''identifier'', jrIdentifier r),
          (''priority'', jrPriority r)]\<rparr>)"

text \<open>Decoding the lines of a native source; \<open>Inl\<close> is the error with the number of the line.\<close>

fun decodeLines :: "string \<Rightarrow> (string \<Rightarrow> string + 'r) \<Rightarrow> nat \<Rightarrow> string list \<Rightarrow> string + 'r list" where
  "decodeLines what unmarshal n [] = Inr []"
| "decodeLines what unmarshal n (l # ls) =
     (case unmarshal l of
        Inl e \<Rightarrow> Inl (what @ '' line '' @ nat_str n @ '': '' @ e)
      | Inr r \<Rightarrow> (case decodeLines what unmarshal (Suc n) ls of Inl e \<Rightarrow> Inl e | Inr rs \<Rightarrow> Inr (r # rs)))"

definition parseWindowsEventLog :: "agent_env \<Rightarrow> string \<Rightarrow> agent_state \<Rightarrow> string + event list \<times> agent_state" where
  "parseWindowsEventLog env output st =
     (let ls = splitOutputLines output in
      case decodeLines ''windows event'' (aaWindows env) 1 ls of
        Inl e \<Rightarrow> Inl e
      | Inr rs \<Rightarrow> Inr (map (windowEventToDomain env) rs,
          st\<lparr>asRecordID := fold (\<lambda>r m. if m < wrRecordID r then wrRecordID r else m) rs (asRecordID st),
             asUpdatedAt := (if 0 < length ls then aaNow env else asUpdatedAt st)\<rparr>))"

definition parseJournalRecords :: "agent_env \<Rightarrow> string \<Rightarrow> agent_state \<Rightarrow> string + event list \<times> agent_state" where
  "parseJournalRecords env output st =
     (let ls = splitOutputLines output in
      case decodeLines ''journal'' (aaJournal env) 1 ls of
        Inl e \<Rightarrow> Inl e
      | Inr rs \<Rightarrow> Inr (map (journalRecordToDomain env) rs,
          st\<lparr>asCursor := fold (\<lambda>r c. if jrCursor r \<noteq> [] then jrCursor r else c) rs (asCursor st),
             asUpdatedAt := (if 0 < length ls then aaNow env else asUpdatedAt st)\<rparr>))"

definition windowsScript :: "runtime \<Rightarrow> string \<Rightarrow> int \<Rightarrow> int \<Rightarrow> string" where
  "windowsScript rt logName recent most =
     ''$log = '' @ Quote rt logName @ ''; $last = '' @ Itoa recent @ ''; $max = '' @ Itoa most @
     ''; $events = Get-WinEvent -LogName $log -MaxEvents $max | Where-Object { $_.RecordId -gt $last } | Sort-Object RecordId; '' @
     ''$events | ForEach-Object { [pscustomobject]@'' @ ''{ RecordId = [int64]$_.RecordId; EventId = [int]$_.Id; '' @
     ''ProviderName = $_.ProviderName; MachineName = $_.MachineName; TimeCreated = $_.TimeCreated.ToUniversalTime().ToString(\"o\"); '' @
     ''Message = $_.Message } | ConvertTo-Json -Compress }''"

definition collectWindowsEventLog :: "agent_env \<Rightarrow> agent_config \<Rightarrow> agent_state \<Rightarrow> string + event list \<times> agent_state" where
  "collectWindowsEventLog env cfg st =
     (let logName = (if acNativeLogName cfg = [] then ''Microsoft-Windows-Sysmon/Operational'' else acNativeLogName cfg);
          script = windowsScript (ceRuntime (aaCollect env)) logName (asRecordID st) (max 1 (acBatchSize cfg))
      in case aaRunner env ''powershell'' [''-NoProfile'', ''-NonInteractive'', ''-Command'', script] of
           Inl e \<Rightarrow> Inl e | Inr output \<Rightarrow> parseWindowsEventLog env output st)"

definition collectJournalctl :: "agent_env \<Rightarrow> agent_config \<Rightarrow> agent_state \<Rightarrow> string + event list \<times> agent_state" where
  "collectJournalctl env cfg st =
     (let args = [''--no-pager'', ''--output=json''] @
            (if acNativeJournalUnit cfg \<noteq> [] then [''-u'', acNativeJournalUnit cfg] else []) @
            (if asCursor st \<noteq> [] then [''--after-cursor'', asCursor st] else [''-n'', Itoa (max 1 (acBatchSize cfg))])
      in case aaRunner env ''journalctl'' args of Inl e \<Rightarrow> Inl e | Inr output \<Rightarrow> parseJournalRecords env output st)"

definition processNativeOnce :: "agent_env \<Rightarrow> agent_config \<Rightarrow> agent_state \<Rightarrow> round_result" where
  "processNativeOnce env cfg st =
     (let deliver = (\<lambda>collected. case collected of
            Inl e \<Rightarrow> Some (Inl e, [], st)
          | Inr (evs, next) \<Rightarrow>
              if evs = [] then Some (Inr 0, [], st)
              else (case postEvents env cfg evs of
                None \<Rightarrow> None
              | Some (Some e, sent) \<Rightarrow> Some (Inl e, sent, st)
              | Some (None, sent) \<Rightarrow> Some (Inr (int (length evs)), sent, next)))
      in if acSource cfg = ''windows-eventlog'' then deliver (collectWindowsEventLog env cfg st)
         else if acSource cfg = ''journald'' then deliver (collectJournalctl env cfg st)
         else Some (Inl (''unsupported native collector source '' @ Quote (ceRuntime (aaCollect env)) (acSource cfg)), [], st))"

definition processOnce :: "agent_env \<Rightarrow> agent_config \<Rightarrow> agent_state \<Rightarrow> round_result" where
  "processOnce env cfg st =
     (if isNativeSource (acSource cfg) then processNativeOnce env cfg st else processFile env cfg st)"

section \<open>The loop\<close>

text \<open>The checks and defaults before the loop.\<close>

definition startConfig :: "agent_config \<Rightarrow> string + agent_config" where
  "startConfig cfg =
     (if acSource cfg = [] then Inl ''source is required''
      else if \<not> isNativeSource (acSource cfg) \<and> acPath cfg = [] then Inl ''path is required''
      else if acBaseURL cfg = [] then Inl ''base URL is required''
      else Inr (cfg\<lparr>acBatchSize := (if acBatchSize cfg < 1 then 100 else acBatchSize cfg),
        acPollInterval := (if acPollInterval cfg \<le> 0 then 5 * second else acPollInterval cfg)\<rparr>))"

definition loadState :: "(string \<Rightarrow> string + agent_state) \<Rightarrow> string \<Rightarrow> string + string option \<Rightarrow> string + agent_state" where
  "loadState unmarshal path stored =
     (if path = [] then Inr emptyState
      else (case stored of Inl e \<Rightarrow> Inl e | Inr None \<Rightarrow> Inr emptyState | Inr (Some data) \<Rightarrow> unmarshal data))"

text \<open>\<open>saveState\<close>: nothing to do without a path, otherwise the outcome of the file operations.\<close>

definition saveState :: "agent_env \<Rightarrow> string \<Rightarrow> string option" where
  "saveState env path = (if path = [] then None else aaSaveError env)"

text \<open>How a round ends: the agent returns, or waits and goes on.\<close>

datatype round_end = Returned "string option" | Waits duration

record agent_run =
  arState :: agent_state
  arErrors :: int

definition runRound :: "agent_env \<Rightarrow> agent_config \<Rightarrow> agent_run \<Rightarrow> (round_end \<times> agent_post list \<times> agent_run) option" where
  "runRound env cfg run =
     (case processOnce env cfg (arState run) of
        None \<Rightarrow> None
      | Some (Inl e, sent, st) \<Rightarrow>
          if acOnce cfg then Some (Returned (Some e), sent, run\<lparr>arState := st\<rparr>)
          else (let n = arErrors run + 1 in Some (Waits (collectorRetryDelay n), sent, \<lparr> arState = st, arErrors = n \<rparr>))
      | Some (Inr processed, sent, st) \<Rightarrow>
          (case saveState env (acStatePath cfg) of
             Some e \<Rightarrow>
               if acOnce cfg then Some (Returned (Some e), sent, \<lparr> arState = st, arErrors = 0 \<rparr>)
               else Some (Waits (collectorRetryDelay 1), sent, \<lparr> arState = st, arErrors = 1 \<rparr>)
           | None \<Rightarrow>
               if acOnce cfg then Some (Returned None, sent, \<lparr> arState = st, arErrors = 0 \<rparr>)
               else Some (Waits (acPollInterval cfg), sent, \<lparr> arState = st, arErrors = 0 \<rparr>)))"

section \<open>The delay between retries\<close>

lemma shifted_second: "push_bit k (word_of_int second :: 64 word) = word_of_int (second * 2 ^ k)"
  by (simp add: push_bit_eq_mult)

lemma sint_small:
  assumes "0 \<le> i" "i < 2 ^ 63"
  shows "sint (word_of_int i :: 64 word) = i"
  using assms by (simp add: signed_of_int signed_take_bit_int_eq_self)

text \<open>The delay between retries. For the first 34 failures in a row the agent waits a second, twice as long after
  each failure, at most a minute. After 56 failures the shift has pushed every bit out of the 64-bit word and the
  delay is zero: the agent retries without waiting.\<close>

theorem retry_delay:
  "(1 \<le> n \<and> n \<le> 34 \<longrightarrow> collectorRetryDelay n = min (2 ^ nat (n - 1) * second) minute) \<and> (56 \<le> n \<longrightarrow> collectorRetryDelay n = 0)"
proof (intro conjI impI)
  assume n: "1 \<le> n \<and> n \<le> 34"
  have "second * 2 ^ nat (n - 1) \<le> second * 2 ^ 33"
    using n by (intro mult_left_mono power_increasing) (auto simp: second_def)
  then have "sint (push_bit (nat (n - 1)) (word_of_int second :: 64 word)) = second * 2 ^ nat (n - 1)"
    unfolding shifted_second by (intro sint_small) (auto simp: second_def)
  then show "collectorRetryDelay n = min (2 ^ nat (n - 1) * second) minute"
    using n by (simp add: collectorRetryDelay_def collectorRetryBackoffCap_def Let_def mult.commute)
next
  assume n: "56 \<le> n"
  then obtain k where k: "nat (n - 1) = 55 + k"
    using nat_le_iff_add [of 55 "nat (n - 1)"] by auto
  have "second * 2 ^ (55 + k) = 2 ^ 64 * (1953125 * 2 ^ k)"
    by (simp add: second_def power_add)
  then have "2 ^ 64 dvd second * 2 ^ nat (n - 1)"
    unfolding k by (rule dvdI)
  then have "push_bit (nat (n - 1)) (word_of_int second :: 64 word) = 0"
    unfolding shifted_second word_of_int_eq_0_iff by simp
  then show "collectorRetryDelay n = 0"
    using n unfolding collectorRetryDelay_def Let_def by (simp add: collectorRetryBackoffCap_def duration_defs)
qed

theorem retry_delay_witness: "collectorRetryDelay 3 = 4 * second \<and> collectorRetryDelay 100 = 0"
  using retry_delay [of 3] retry_delay [of 100] by (simp add: duration_defs)

section \<open>Following a file\<close>

text \<open>The events of the complete lines of a text.\<close>

definition lineEvents :: "agent_env \<Rightarrow> agent_config \<Rightarrow> string \<Rightarrow> event list \<times> string option" where
  "lineEvents env cfg text = Normalize (aaCollect env) (acSource cfg) (Join (trimEmptyLines (SplitByte line_feed text)) [line_feed])"

text \<open>
  Polls of a file that grows: before each poll one more chunk has been written. The result is the list of posts and the
  last state; \<open>None\<close> when a poll fails.
\<close>

fun followFile :: "agent_env \<Rightarrow> agent_config \<Rightarrow> string \<Rightarrow> string list \<Rightarrow> agent_state \<Rightarrow> (agent_post list \<times> agent_state) option" where
  "followFile env cfg written [] st = Some ([], st)"
| "followFile env cfg written (d # ds) st =
     (case processOnce (env\<lparr>aaStat := Inr (Some (length (written @ d))), aaRead := Inr (written @ d)\<rparr>) cfg st of
        Some (Inr _, sent, st) \<Rightarrow>
          (case followFile env cfg (written @ d) ds st of None \<Rightarrow> None | Some (later, st) \<Rightarrow> Some (sent @ later, st))
      | _ \<Rightarrow> None)"

text \<open>A server that accepts every post.\<close>

definition accepting :: "agent_env \<Rightarrow> bool" where
  "accepting env \<longleftrightarrow> (\<forall>evs. aaMarshal env evs = None) \<and>
     (\<forall>post. \<exists>code status body. aaPost env post = Inr (code, status, body) \<and> 200 \<le> code \<and> code < 300)"

lemma postLoop_delivers:
  assumes "accepting env" "0 < batch"
  shows "\<exists>later. postLoop env endpoint token batch evs sent = Some (None, sent @ later) \<and> concat (map poEvents later) = evs \<and>
    (\<forall>p \<in> set later. length (poEvents p) \<le> batch)"
proof (induction "length evs" arbitrary: evs sent rule: less_induct)
  case less
  show ?case
  proof (cases "evs = []")
    case True
    then show ?thesis
      by (subst postLoop.simps) simp
  next
    case False
    define post where "post = \<lparr> poEndpoint = endpoint, poToken = token, poEvents = take batch evs \<rparr>"
    obtain code status body where answer: "aaPost env post = Inr (code, status, body)" "200 \<le> code" "code < 300"
      using assms(1) unfolding accepting_def by metis
    have shorter: "length (drop batch evs) < length evs"
      using False assms(2) by simp
    obtain later where later: "postLoop env endpoint token batch (drop batch evs) (sent @ [post]) = Some (None, (sent @ [post]) @ later)"
        "concat (map poEvents later) = drop batch evs" "\<forall>p \<in> set later. length (poEvents p) \<le> batch"
      using less.hyps [OF shorter] by blast
    have "postLoop env endpoint token batch evs sent = Some (None, sent @ (post # later))"
      using False assms(1) answer later(1) by (subst postLoop.simps) (simp add: post_def [symmetric] accepting_def)
    then show ?thesis
      using later(2,3) by (intro exI [of _ "post # later"]) (simp add: post_def)
  qed
qed

lemma postEvents_delivers:
  assumes "accepting env" "1 \<le> acBatchSize cfg"
  shows "\<exists>sent. postEvents env cfg evs = Some (None, sent) \<and> concat (map poEvents sent) = evs \<and>
    (\<forall>p \<in> set sent. length (poEvents p) \<le> nat (acBatchSize cfg))"
  unfolding postEvents_def using postLoop_delivers [OF assms(1), of "nat (acBatchSize cfg)"] assms(2) by fastforce

lemma scan_nothing: "scanLines handle [] = ([], None)"
  by (simp add: scanLines_def ScannerLines_def numberedLines_def)

lemma Normalize_nothing: "snd (Normalize env source []) = None \<Longrightarrow> fst (Normalize env source []) = []"
  by (auto simp: Normalize_def normalizeAuditd_def normalizeSuricataEVE_def normalizeSysmonJSON_def normalizeZeekConn_def scan_nothing
      split: if_splits)

lemma HasSuffix_single: "HasSuffix s [c] \<longleftrightarrow> s \<noteq> [] \<and> last s = c"
  by (cases s rule: rev_cases) (auto simp: HasSuffix_def)

lemma complete_lines: "d \<noteq> [] \<Longrightarrow> last d = line_feed \<Longrightarrow> splitCompleteLines d = (trimEmptyLines (SplitByte line_feed d), [])"
  by (simp add: splitCompleteLines_def HasSuffix_single)

text \<open>One poll after a chunk of complete lines.\<close>

lemma poll_chunk:
  assumes "accepting env" "1 \<le> acBatchSize cfg" "\<not> isNativeSource (acSource cfg)"
    and "asOffset st = int (length written)" "asRemainder st = []" "d \<noteq> []" "last d = line_feed" "snd (lineEvents env cfg d) = None"
  shows "\<exists>n sent st'. processOnce (env\<lparr>aaStat := Inr (Some (length (written @ d))), aaRead := Inr (written @ d)\<rparr>) cfg st = Some (Inr n, sent, st') \<and>
    concat (map poEvents sent) = fst (lineEvents env cfg d) \<and> (\<forall>p \<in> set sent. length (poEvents p) \<le> nat (acBatchSize cfg)) \<and>
    asOffset st' = int (length (written @ d)) \<and> asRemainder st' = []"
proof -
  define env' where "env' = env\<lparr>aaStat := Inr (Some (length (written @ d))), aaRead := Inr (written @ d)\<rparr>"
  define ls where "ls = trimEmptyLines (SplitByte line_feed d)"
  define nxt where "nxt = st\<lparr>asLastSize := int (length (written @ d)), asUpdatedAt := aaNow env, asRemainder := [], asOffset := int (length (written @ d))\<rparr>"
  obtain evs where evs: "Normalize (aaCollect env) (acSource cfg) (Join ls [line_feed]) = (evs, None)" "fst (lineEvents env cfg d) = evs"
    using assms(8) by (cases "lineEvents env cfg d") (auto simp: lineEvents_def ls_def)
  have no_events: "ls = [] \<Longrightarrow> evs = []"
    using Normalize_nothing [of "aaCollect env" "acSource cfg"] evs(1) by auto
  have "accepting env'"
    using assms(1) by (simp add: accepting_def env'_def)
  from postEvents_delivers [OF this assms(2)] obtain sent where sent: "postEvents env' cfg evs = Some (None, sent)"
      "concat (map poEvents sent) = evs" "\<forall>p \<in> set sent. length (poEvents p) \<le> nat (acBatchSize cfg)"
    by blast
  have "processOnce env' cfg st = Some (if evs = [] then (Inr (int (length d)), [], nxt) else (Inr (int (length evs)), sent, nxt))"
  proof (cases "ls = []")
    case True
    then have "evs = []"
      by (rule no_events)
    with True show ?thesis
      using assms(3-6) complete_lines [OF assms(6,7)]
      by (simp add: processOnce_def processFile_def env'_def nxt_def ls_def Let_def)
  next
    case False
    then show ?thesis
      using assms(3-6) evs(1) sent(1) complete_lines [OF assms(6,7)]
      by (simp add: processOnce_def processFile_def env'_def nxt_def ls_def Let_def)
  qed
  moreover have "asOffset nxt = int (length (written @ d))" "asRemainder nxt = []"
    by (simp_all add: nxt_def)
  ultimately show ?thesis
    using sent(2,3) evs(2) by (cases "evs = []") (auto simp: env'_def)
qed

text \<open>C36: Each complete line is delivered once. Let a log file grow by chunks that end with a line feed, with one poll after each
  chunk, a server that accepts every post, a batch size of at least one, and lines that the collector of the source
  accepts. Then every poll returns, the posts carry exactly the events of the chunks, in order, in batches within
  the batch size, and the state ends at the end of the file with no rest of a line.\<close>

theorem complete_lines_delivered_once:
  assumes "accepting env" "1 \<le> acBatchSize cfg" "\<not> isNativeSource (acSource cfg)"
    and "asOffset st = int (length written)" "asRemainder st = []"
    and "list_all (\<lambda>d. d \<noteq> [] \<and> last d = line_feed \<and> snd (lineEvents env cfg d) = None) ds"
  shows "\<exists>sent st'. followFile env cfg written ds st = Some (sent, st') \<and>
    concat (map poEvents sent) = concat (map (\<lambda>d. fst (lineEvents env cfg d)) ds) \<and>
    (\<forall>p \<in> set sent. length (poEvents p) \<le> nat (acBatchSize cfg)) \<and>
    asOffset st' = int (length (written @ concat ds)) \<and> asRemainder st' = []"
  using assms(4-6)
proof (induction ds arbitrary: written st)
  case (Cons d ds)
  have d: "d \<noteq> []" "last d = line_feed" "snd (lineEvents env cfg d) = None"
    using Cons.prems(3) by simp_all
  obtain n sent st' where poll: "processOnce (env\<lparr>aaStat := Inr (Some (length (written @ d))), aaRead := Inr (written @ d)\<rparr>) cfg st = Some (Inr n, sent, st')"
      "concat (map poEvents sent) = fst (lineEvents env cfg d)" "\<forall>p \<in> set sent. length (poEvents p) \<le> nat (acBatchSize cfg)"
      "asOffset st' = int (length (written @ d))" "asRemainder st' = []"
    using poll_chunk [OF assms(1-3) Cons.prems(1,2) d] by blast
  obtain later st'' where rest: "followFile env cfg (written @ d) ds st' = Some (later, st'')"
      "concat (map poEvents later) = concat (map (\<lambda>d. fst (lineEvents env cfg d)) ds)"
      "\<forall>p \<in> set later. length (poEvents p) \<le> nat (acBatchSize cfg)"
      "asOffset st'' = int (length ((written @ d) @ concat ds))" "asRemainder st'' = []"
    using Cons.IH [OF poll(4,5)] Cons.prems(3) by auto
  show ?case
    using poll(1-3) rest by auto
qed simp

definition follow_env :: agent_env where
  "follow_env = \<lparr> aaCollect = \<lparr> ceRuntime = ascii_runtime, ceJSON = (\<lambda>_. Inl ''EOF''), ceCSV = (\<lambda>_. Inl ''EOF''), ceParseTime = (\<lambda>_ _. None),
       ceParseFloat = (\<lambda>_. None) \<rparr>,
     aaNow = second, aaStat = Inr None, aaRead = Inr [], aaRunner = (\<lambda>_ _. Inl ''not found''), aaPost = (\<lambda>_. Inr (202, ''202 Accepted'', [])),
     aaMarshal = (\<lambda>_. None), aaWindows = (\<lambda>_. Inl ''EOF''), aaJournal = (\<lambda>_. Inl ''EOF''), aaGOOS = ''linux'', aaSaveError = None \<rparr>"

definition follow_config :: agent_config where
  "follow_config = \<lparr> acSource = ''auditd'', acPath = ''audit.log'', acBaseURL = ''http://localhost:8080'', acToken = [], acBatchSize = 100,
     acPollInterval = second, acStatePath = [], acOnce = False, acNativeLogName = [], acNativeJournalUnit = [] \<rparr>"

theorem complete_lines_delivered_once_witness:
  "\<exists>sent st'. followFile follow_env follow_config [] [''type=SYSCALL comm=sh'' @ [line_feed], ''type=EXECVE comm=id'' @ [line_feed]] emptyState = Some (sent, st') \<and>
     map evSignal (concat (map poEvents sent)) = [''auditd SYSCALL'', ''auditd EXECVE''] \<and> asOffset st' = 41"
proof -
  let ?ds = "[''type=SYSCALL comm=sh'' @ [line_feed], ''type=EXECVE comm=id'' @ [line_feed]]"
  have "accepting follow_env"
    by (simp add: accepting_def follow_env_def)
  moreover have "1 \<le> acBatchSize follow_config" "\<not> isNativeSource (acSource follow_config)"
    by (simp_all add: follow_config_def isNativeSource_def)
  moreover have "list_all (\<lambda>d. d \<noteq> [] \<and> last d = line_feed \<and> snd (lineEvents follow_env follow_config d) = None) ?ds"
    by code_simp
  moreover have "map evSignal (concat (map (\<lambda>d. fst (lineEvents follow_env follow_config d)) ?ds)) = [''auditd SYSCALL'', ''auditd EXECVE'']"
    by code_simp
  ultimately show ?thesis
    using complete_lines_delivered_once [of follow_env follow_config emptyState "[]" ?ds] by (force simp: emptyState_def)
qed

text \<open>
  A line that is not finished at a poll is kept as the rest, but the offset is set back to its beginning as well. The next poll
  reads it again and appends it to itself.
\<close>

lemma no_newline_rest: "p \<noteq> [] \<Longrightarrow> line_feed \<notin> set p \<Longrightarrow> splitCompleteLines p = ([], p)"
  by (auto simp: splitCompleteLines_def SplitByte_absent HasSuffix_single Let_def dest: last_in_set)

theorem partial_line_is_doubled:
  assumes "p \<noteq> []" "line_feed \<notin> set p" "line_feed \<notin> set q"
    and "\<not> isNativeSource (acSource cfg)"
  shows "\<exists>n st. processOnce (env\<lparr>aaStat := Inr (Some (length p)), aaRead := Inr p\<rparr>) cfg emptyState = Some (Inr n, [], st) \<and>
    asOffset st = 0 \<and> asRemainder st = p \<and>
    fst (splitCompleteLines (asRemainder st @ drop (nat (asOffset st)) (p @ q @ [line_feed]))) = trimEmptyLines [p @ p @ q, []]"
proof -
  have "SplitByte line_feed ((p @ p @ q) @ line_feed # []) = [p @ p @ q, []]"
    using assms(2,3) by (subst SplitByte_append) simp_all
  then show ?thesis
    using assms(1,4) no_newline_rest [OF assms(1,2)] complete_lines [of "p @ p @ q @ [line_feed]"]
    by (simp add: processOnce_def processFile_def emptyState_def)
qed

end
