(* ===== verification/Daemon.thy ===== *)
theory Daemon
  imports AppSso Agent
begin

text \<open>
  The server program (\<open>cmd/oadtd/main.go\<close>): its flags and their defaults from the environment, the checks before it listens, and the
  options it hands to \<open>NewWithOptions\<close>. The parsing of the command line, the files, the listener and the JSON decoders are arguments.
  \<open>daemon_start_guard\<close> says which configurations serve, and \<open>partial_sso_serves_open\<close> which of them serve without authentication.
\<close>

section \<open>Values of flags and variables\<close>

definition splitCSV :: "string \<Rightarrow> string list" where
  "splitCSV v = filter (\<lambda>part. part \<noteq> []) (map TrimSpace (SplitByte (CHR '','') v))"

definition defaultIntEnv :: "string \<Rightarrow> int \<Rightarrow> int" where
  "defaultIntEnv v fallback =
     (if TrimSpace v = [] then fallback else (case ParseInt64 (TrimSpace v) of None \<Rightarrow> fallback | Some parsed \<Rightarrow> parsed))"

definition parseBoolEnv :: "runtime \<Rightarrow> string \<Rightarrow> bool" where
  "parseBoolEnv rt v \<longleftrightarrow> ToLower rt (TrimSpace v) \<in> set [''1'', ''true'', ''yes'', ''on'']"

text \<open>\<open>strconv.ParseFloat\<close> and the multiplication of floats are the argument \<open>teParseScaled\<close>, as in \<open>Tenants\<close>.\<close>

fun parseUnits :: "tenant_env \<Rightarrow> string \<Rightarrow> (string \<times> duration) list \<Rightarrow> string + duration" where
  "parseUnits te v [] = Inl ''invalid duration''"
| "parseUnits te v ((unit, multiplier) # units) =
     (if \<not> HasSuffix v unit then parseUnits te v units
      else (let number = TrimSpace (TrimSuffix v unit) in
        if number = [] then Inl ''duration is empty'' else teParseScaled te number multiplier))"

definition parseFlexibleDuration :: "tenant_env \<Rightarrow> string \<Rightarrow> string + duration" where
  "parseFlexibleDuration te v =
     (let v = TrimSpace v in
      if v = [] then Inl ''duration is empty''
      else (case teParseDuration te v of
        Some d \<Rightarrow> Inr d
      | None \<Rightarrow> parseUnits te v [(''w'', 7 * 24 * hour), (''d'', 24 * hour)]))"

section \<open>Flags\<close>

record daemon_flags =
  fgAddr :: string
  fgWebDir :: string
  fgDataPath :: string
  fgPostgresDSN :: string
  fgPolicyPath :: string
  fgAPIToken :: string
  fgThreatPackPath :: string
  fgDeceptionTokensPath :: string
  fgTenantPoliciesPath :: string
  fgLicenseFile :: string
  fgLicensePublicKey :: string
  fgAlertWebhook :: webhook
  fgTicketWebhook :: webhook
  fgResponseWebhook :: webhook
  fgGitHub :: github
  fgJira :: jira
  fgServiceNow :: servicenow
  fgMCPUpstreamURL :: string
  fgMCPUpstreamToken :: string
  fgProxyAllowLocalTargets :: bool
  fgOIDCIssuerURL :: string
  fgOIDCClientID :: string
  fgOIDCClientSecret :: string
  fgOIDCRedirectURL :: string
  fgOIDCScopes :: string
  fgOIDCTenantClaim :: string
  fgOIDCRoleClaim :: string
  fgOIDCEmailClaim :: string
  fgSAMLRootURL :: string
  fgSAMLIDPMetadataURL :: string
  fgSAMLKeyPath :: string
  fgSAMLCertPath :: string
  fgSAMLTenantAttribute :: string
  fgSAMLRoleAttribute :: string
  fgSAMLEmailAttribute :: string
  fgPublicURL :: string
  fgInstanceName :: string
  fgTenantIsolationMode :: string
  fgTenantRegistryPath :: string
  fgTenantPostgresDSNTemplate :: string
  fgTenantDataPathTemplate :: string
  fgTrustedProxies :: string
  fgRetentionWindow :: string
  fgGatewayMaxInFlight :: int
  fgValidationResultPath :: string
  fgValidationHistoryPath :: string
  fgInsecure :: bool
  fgDemo :: bool

text \<open>The values before the command line is parsed; \<open>getenv\<close> is \<open>os.Getenv\<close>.\<close>

definition flagDefaults :: "runtime \<Rightarrow> (string \<Rightarrow> string) \<Rightarrow> daemon_flags" where
  "flagDefaults rt getenv =
     \<lparr> fgAddr = '':8080'', fgWebDir = ''web'', fgDataPath = [], fgPostgresDSN = getenv ''OATD_POSTGRES_DSN'', fgPolicyPath = [],
       fgAPIToken = getenv ''OATD_API_TOKEN'', fgThreatPackPath = getenv ''OATD_THREAT_PACK'',
       fgDeceptionTokensPath = getenv ''OATD_DECEPTION_TOKENS'', fgTenantPoliciesPath = getenv ''OATD_TENANT_POLICIES'',
       fgLicenseFile = getenv ''OATD_LICENSE_FILE'', fgLicensePublicKey = getenv ''OATD_LICENSE_PUBLIC_KEY'',
       fgAlertWebhook = \<lparr> whURL = getenv ''OATD_ALERT_WEBHOOK_URL'', whToken = getenv ''OATD_ALERT_WEBHOOK_TOKEN'' \<rparr>,
       fgTicketWebhook = \<lparr> whURL = getenv ''OATD_TICKET_WEBHOOK_URL'', whToken = getenv ''OATD_TICKET_WEBHOOK_TOKEN'' \<rparr>,
       fgResponseWebhook = \<lparr> whURL = getenv ''OATD_RESPONSE_WEBHOOK_URL'', whToken = getenv ''OATD_RESPONSE_WEBHOOK_TOKEN'' \<rparr>,
       fgGitHub = \<lparr> ghBaseURL = getenv ''OATD_GITHUB_API_BASE'', ghOwner = getenv ''OATD_GITHUB_OWNER'', ghRepo = getenv ''OATD_GITHUB_REPO'',
         ghToken = getenv ''OATD_GITHUB_TOKEN'', ghWorkflowFile = getenv ''OATD_GITHUB_WORKFLOW_FILE'', ghWorkflowRef = getenv ''OATD_GITHUB_WORKFLOW_REF'' \<rparr>,
       fgJira = \<lparr> jiBaseURL = getenv ''OATD_JIRA_BASE_URL'', jiEmail = getenv ''OATD_JIRA_EMAIL'', jiAPIToken = getenv ''OATD_JIRA_API_TOKEN'',
         jiProjectKey = getenv ''OATD_JIRA_PROJECT_KEY'', jiIssueType = getenv ''OATD_JIRA_ISSUE_TYPE'' \<rparr>,
       fgServiceNow = \<lparr> snInstanceURL = getenv ''OATD_SERVICENOW_URL'', snUser = getenv ''OATD_SERVICENOW_USER'',
         snPassword = getenv ''OATD_SERVICENOW_PASSWORD'' \<rparr>,
       fgMCPUpstreamURL = getenv ''OATD_MCP_UPSTREAM_URL'', fgMCPUpstreamToken = getenv ''OATD_MCP_UPSTREAM_TOKEN'',
       fgProxyAllowLocalTargets = parseBoolEnv rt (getenv ''OATD_PROXY_ALLOW_LOCAL_TARGETS''),
       fgOIDCIssuerURL = getenv ''OATD_OIDC_ISSUER_URL'', fgOIDCClientID = getenv ''OATD_OIDC_CLIENT_ID'',
       fgOIDCClientSecret = getenv ''OATD_OIDC_CLIENT_SECRET'', fgOIDCRedirectURL = getenv ''OATD_OIDC_REDIRECT_URL'',
       fgOIDCScopes = defaultString (getenv ''OATD_OIDC_SCOPES'') ''openid,profile,email'',
       fgOIDCTenantClaim = getenv ''OATD_OIDC_TENANT_CLAIM'', fgOIDCRoleClaim = getenv ''OATD_OIDC_ROLE_CLAIM'',
       fgOIDCEmailClaim = getenv ''OATD_OIDC_EMAIL_CLAIM'', fgSAMLRootURL = getenv ''OATD_SAML_ROOT_URL'',
       fgSAMLIDPMetadataURL = getenv ''OATD_SAML_IDP_METADATA_URL'', fgSAMLKeyPath = getenv ''OATD_SAML_KEY_PATH'',
       fgSAMLCertPath = getenv ''OATD_SAML_CERT_PATH'', fgSAMLTenantAttribute = getenv ''OATD_SAML_TENANT_ATTRIBUTE'',
       fgSAMLRoleAttribute = getenv ''OATD_SAML_ROLE_ATTRIBUTE'', fgSAMLEmailAttribute = getenv ''OATD_SAML_EMAIL_ATTRIBUTE'',
       fgPublicURL = getenv ''OATD_PUBLIC_URL'', fgInstanceName = getenv ''OATD_INSTANCE_NAME'',
       fgTenantIsolationMode = defaultString (getenv ''OATD_TENANT_ISOLATION_MODE'') ''logical'',
       fgTenantRegistryPath = getenv ''OATD_TENANT_REGISTRY_PATH'',
       fgTenantPostgresDSNTemplate = getenv ''OATD_TENANT_POSTGRES_DSN_TEMPLATE'',
       fgTenantDataPathTemplate = getenv ''OATD_TENANT_DATA_PATH_TEMPLATE'', fgTrustedProxies = getenv ''OATD_TRUSTED_PROXIES'',
       fgRetentionWindow = defaultString (getenv ''OATD_RETENTION_WINDOW'') ''30d'',
       fgGatewayMaxInFlight = defaultIntEnv (getenv ''OATD_GATEWAY_MAX_IN_FLIGHT'') 64,
       fgValidationResultPath = getenv ''OATD_VALIDATION_RESULT_PATH'', fgValidationHistoryPath = getenv ''OATD_VALIDATION_HISTORY_PATH'',
       fgInsecure = parseBoolEnv rt (getenv ''OATD_INSECURE''), fgDemo = False \<rparr>"

section \<open>The start of the program\<close>

text \<open>
  The world of the start: the parser of the command line (\<open>None\<close>: it exits with the usage), the reader of files, the decoders and the
  listener, which answers with the address it got.
\<close>

record daemon_env =
  dmApp :: app_env
  dmOIDC :: oidc_env
  dmSAML :: saml_env
  dmLicense :: license_lib
  dmParse :: "daemon_flags \<Rightarrow> daemon_flags option"
  dmReadFile :: "string \<Rightarrow> string + string"
  dmTokens :: "string \<Rightarrow> string + deception_token list"
  dmPolicies :: "string \<Rightarrow> string + tenant_policy list"
  dmWindow :: "string \<Rightarrow> string + duration"
  dmListen :: "string \<Rightarrow> string + string"

record serving =
  svgAddr :: string
  svgApp :: app
  svgOIDC :: "oidc_provider option"
  svgSAML :: "saml_provider option"

datatype daemon_result = Usage | Fatal string | Serving serving

definition authConfigured :: "daemon_flags \<Rightarrow> file_config \<Rightarrow> bool" where
  "authConfigured f cfg \<longleftrightarrow>
     0 < length (fcUsers cfg) \<or> TrimSpace (fgAPIToken f) \<noteq> [] \<or>
     TrimSpace (fgOIDCIssuerURL f) \<noteq> [] \<or> TrimSpace (fgOIDCClientID f) \<noteq> [] \<or>
     TrimSpace (fgOIDCClientSecret f) \<noteq> [] \<or> TrimSpace (fgOIDCRedirectURL f) \<noteq> [] \<or>
     TrimSpace (fgSAMLRootURL f) \<noteq> [] \<or> TrimSpace (fgSAMLIDPMetadataURL f) \<noteq> [] \<or>
     TrimSpace (fgSAMLKeyPath f) \<noteq> [] \<or> TrimSpace (fgSAMLCertPath f) \<noteq> []"

text \<open>A file that may be named: nothing without a name, else what the decoder makes of its content.\<close>

definition readOptional :: "daemon_env \<Rightarrow> string \<Rightarrow> (string \<Rightarrow> string + 'a) \<Rightarrow> 'a \<Rightarrow> string + 'a" where
  "readOptional env path decode none =
     (let path = TrimSpace path in
      if path = [] then Inr none else (case dmReadFile env path of Inl e \<Rightarrow> Inl e | Inr data \<Rightarrow> decode data))"

definition serverOptions ::
  "daemon_flags \<Rightarrow> file_config \<Rightarrow> duration \<Rightarrow> policy_config \<Rightarrow> deception_token list \<Rightarrow> tenant_policy list \<Rightarrow> string \<Rightarrow> duration \<Rightarrow> server_options" where
  "serverOptions f cfg window pc tokens policies licenseToken retention =
     \<lparr> svDataPath = fgDataPath f, svPostgresDSN = fgPostgresDSN f, svAPIToken = fgAPIToken f, svUsers = fcUsers cfg, svPolicy = pc,
       svCorrelationWindow = window, svThreatPackPath = TrimSpace (fgThreatPackPath f), svPolicyPath = TrimSpace (fgPolicyPath f),
       svDeceptionTokens = tokens, svTenantPolicies = policies, svLicenseToken = licenseToken,
       svLicensePublicKey = TrimSpace (fgLicensePublicKey f), svAlertWebhook = fgAlertWebhook f, svTicketWebhook = fgTicketWebhook f,
       svResponseWebhook = fgResponseWebhook f, svGitHub = fgGitHub f, svJira = fgJira f, svServiceNow = fgServiceNow f,
       svMCPUpstreamURL = fgMCPUpstreamURL f, svMCPUpstreamToken = fgMCPUpstreamToken f, svProxyAllowLocalTargets = fgProxyAllowLocalTargets f,
       svOIDC = \<lparr> ooIssuerURL = fgOIDCIssuerURL f, ooClientID = fgOIDCClientID f, ooClientSecret = fgOIDCClientSecret f,
         ooRedirectURL = fgOIDCRedirectURL f, ooScopes = splitCSV (fgOIDCScopes f), ooTenantClaim = fgOIDCTenantClaim f,
         ooRoleClaim = fgOIDCRoleClaim f, ooEmailClaim = fgOIDCEmailClaim f \<rparr>,
       svPublicURL = fgPublicURL f, svInstanceName = fgInstanceName f, svSAMLRootURL = fgSAMLRootURL f,
       svSAMLIDPMetadataURL = fgSAMLIDPMetadataURL f, svSAMLKeyPath = fgSAMLKeyPath f, svSAMLCertPath = fgSAMLCertPath f,
       svSAMLTenantAttribute = fgSAMLTenantAttribute f, svSAMLRoleAttribute = fgSAMLRoleAttribute f, svSAMLEmailAttribute = fgSAMLEmailAttribute f,
       svTenantIsolationMode = fgTenantIsolationMode f, svTenantRegistryPath = fgTenantRegistryPath f,
       svTenantPostgresDSNTemplate = fgTenantPostgresDSNTemplate f, svTenantDataPathTemplate = fgTenantDataPathTemplate f,
       svTrustedProxies = splitCSV (fgTrustedProxies f), svRetentionWindow = retention, svGatewayMaxInFlight = fgGatewayMaxInFlight f \<rparr>"

text \<open>The end of the start: the demo telemetry, when asked for, and the listener.\<close>

definition startListening :: "daemon_env \<Rightarrow> daemon_flags \<Rightarrow> app \<times> oidc_provider option \<times> saml_provider option \<Rightarrow> daemon_result" where
  "startListening env f = (\<lambda>(a, oidc, saml).
     case (if fgDemo f then LoadDemo (dmApp env) a else (Inr [], a)) of
       (Inl e, _) \<Rightarrow> Fatal e
     | (Inr _, a) \<Rightarrow> (case dmListen env (fgAddr f) of
         Inl e \<Rightarrow> Fatal e
       | Inr actual \<Rightarrow> Serving \<lparr> svgAddr = actual, svgApp = a, svgOIDC = oidc, svgSAML = saml \<rparr>))"

text \<open>The files of the configuration, read after the checks on the listener.\<close>

definition startServer :: "daemon_env \<Rightarrow> daemon_flags \<Rightarrow> file_config \<Rightarrow> daemon_result" where
  "startServer env f cfg =
     (let te = aeTenants (dmApp env) in
      case CorrelationWindowDuration (dmWindow env) cfg of
        Inl e \<Rightarrow> Fatal e
      | Inr window \<Rightarrow> (case PolicyConfig (teRuntime te) (ajThreatPack (aeJSON (dmApp env))) (teHost te) cfg of
          Inl e \<Rightarrow> Fatal (config_error_str e)
        | Inr pc \<Rightarrow> (case readOptional env (fgDeceptionTokensPath f) (dmTokens env) [] of
            Inl e \<Rightarrow> Fatal e
          | Inr tokens \<Rightarrow> (case readOptional env (fgTenantPoliciesPath f) (dmPolicies env) [] of
              Inl e \<Rightarrow> Fatal e
            | Inr policies \<Rightarrow> (case readOptional env (fgLicenseFile f) (\<lambda>data. Inr (TrimSpace data)) [] of
                Inl e \<Rightarrow> Fatal e
              | Inr licenseToken \<Rightarrow> (case parseFlexibleDuration te (TrimSpace (fgRetentionWindow f)) of
                  Inl e \<Rightarrow> Fatal e
                | Inr retention \<Rightarrow>
                    (case NewWithOptions te (dmOIDC env) (dmSAML env) (dmLicense env)
                            (serverOptions f cfg window pc tokens policies licenseToken retention) of
                       Inl e \<Rightarrow> Fatal e
                     | Inr started \<Rightarrow> startListening env f started)))))))"

definition daemonMain :: "daemon_env \<Rightarrow> daemon_result" where
  "daemonMain env =
     (let te = aeTenants (dmApp env); rt = teRuntime te in
      case dmParse env (flagDefaults rt (osEnv (teHost te))) of
        None \<Rightarrow> Usage
      | Some f \<Rightarrow> (case LoadConfig (ajConfig (aeJSON (dmApp env))) (teHost te) (fgPolicyPath f) of
          Inl e \<Rightarrow> Fatal (config_error_str e)
        | Inr cfg \<Rightarrow>
            (let cfg = (if TrimSpace (fgThreatPackPath f) \<noteq> [] then cfg\<lparr>fcThreatPackPath := TrimSpace (fgThreatPackPath f)\<rparr> else cfg);
                 auth = authConfigured f cfg in
             case ValidateListenAddress rt (fgAddr f) auth (fgInsecure f) of
               Some e \<Rightarrow> Fatal e
             | None \<Rightarrow>
                 if auth \<and> TrimSpace (osEnv (teHost te) ''OATD_SESSION_SECRET'') = []
                 then Fatal ''OATD_SESSION_SECRET is required when authentication or SSO is configured''
                 else startServer env f cfg)))"

text \<open>A hangup signal reloads the policy while the server runs; a failed reload is logged and changes nothing.\<close>

definition onHangup :: "app_env \<Rightarrow> serving \<Rightarrow> string \<times> serving" where
  "onHangup env s =
     (case ReloadPolicy env (svgApp s) of
        (Inl e, a) \<Rightarrow> (''policy reload failed: '' @ e, s\<lparr>svgApp := a\<rparr>)
      | (Inr rules, a) \<Rightarrow> (''policy reloaded: '' @ nat_str rules @ '' rules active'', s\<lparr>svgApp := a\<rparr>))"

section \<open>What serves, and for whom\<close>

subsection \<open>The demo telemetry leaves the access configuration alone\<close>

definition access :: "app \<Rightarrow> authenticator \<times> bool \<times> bool" where
  "access a = (apAuth a, apOIDCEnabled a, apSAMLEnabled a)"

lemma authenticationConfigured_access: "access a = access b \<Longrightarrow> authenticationConfigured a = authenticationConfigured b"
  by (simp add: access_def authenticationConfigured_def)

lemma access_updates [simp]:
  "access (a\<lparr>apTenancy := ts\<rparr>) = access a" "access (a\<lparr>apCounter := n\<rparr>) = access a" "access (a\<lparr>apCorrelator := c\<rparr>) = access a"
  "access (a\<lparr>apExportErr := e\<rparr>) = access a"
  by (simp_all add: access_def)

lemma access_steps [simp]:
  "access (snd (nextID env kind a)) = access a" "access (snd (onTenancy f a)) = access a" "access (exportAlerts env als a) = access a"
  "access (snd (prepareEvent env tenant ev a)) = access a" "access (snd (prepareAlert env tenant al a)) = access a"
  by (simp_all add: nextID_eq onTenancy_def exportAlerts_def prepareEvent_def prepareAlert_def split_beta Let_def split: option.split)

lemma access_prepareAlerts [simp]: "access (snd (prepareAlerts env als tenant a)) = access a"
proof -
  have "access (snd (prepareAlertsLoop env t als a)) = access a" for t
    by (induction als arbitrary: a) (simp_all add: split_beta Let_def)
  then show ?thesis
    by (simp add: prepareAlerts_def)
qed

lemma access_ingestLoop [simp]: "access (snd (ingestLoop env tenant evs a)) = access a"
  by (induction evs arbitrary: a) (simp_all add: split_beta Let_def split: option.split)

lemma access_LoadDemo: "LoadDemo env a = (r, b) \<Longrightarrow> access b = access a"
proof -
  have "access (snd (ingest env evs tenant a)) = access a" for evs tenant
    unfolding ingest_def Let_def split_beta
    by (auto split: option.split sum.split simp: prod.case_eq_if)
  then show "LoadDemo env a = (r, b) \<Longrightarrow> access b = access a"
    by (metis LoadDemo_def LoadDemoForTenant_def snd_conv)
qed

subsection \<open>The start\<close>

text \<open>
  What the server can check a request with: a user with a name and a token hash, an API token, a client of an OpenID Connect issuer, or SAML.
\<close>

definition usableAuth :: "daemon_flags \<Rightarrow> file_config \<Rightarrow> bool" where
  "usableAuth f cfg \<longleftrightarrow>
     (\<exists>u \<in> set (fcUsers cfg). TrimSpace (ucName u) \<noteq> [] \<and> TrimSpace (ucTokenHash u) \<noteq> []) \<or> fgAPIToken f \<noteq> [] \<or>
     (TrimSpace (fgOIDCIssuerURL f) \<noteq> [] \<and> TrimSpace (fgOIDCClientID f) \<noteq> []) \<or>
     TrimSpace (fgSAMLRootURL f) \<noteq> [] \<or> TrimSpace (fgSAMLIDPMetadataURL f) \<noteq> [] \<or>
     TrimSpace (fgSAMLKeyPath f) \<noteq> [] \<or> TrimSpace (fgSAMLCertPath f) \<noteq> []"

lemma MapRunes_eq_Nil: "MapRunes (\<lambda>r. Some (f r)) s = [] \<longleftrightarrow> s = []"
proof -
  have "utf8_encode r \<noteq> []" for r
    by (simp add: utf8_encode_def Let_def)
  then have "MapRunes (\<lambda>r. Some (f r)) s = [] \<longleftrightarrow> runes s = []"
    by (cases "runes s") (auto simp: MapRunes_def split_beta)
  then show ?thesis
    by simp
qed

lemma normalizeUsers_Nil:
  "normalizeUsers rt us = [] \<longleftrightarrow> (\<forall>u \<in> set us. TrimSpace (ucName u) = [] \<or> TrimSpace (ucTokenHash u) = [])"
  by (induction us) (auto simp: Let_def ToLower_def MapRunes_eq_Nil)

lemma Enabled_NewAuthenticator:
  assumes "digests_32 rt"
  shows "Enabled (NewAuthenticator rt os users token) \<longleftrightarrow>
    (\<exists>u \<in> set users. TrimSpace (ucName u) \<noteq> [] \<and> TrimSpace (ucTokenHash u) \<noteq> []) \<or> token \<noteq> []"
proof -
  have "rt_sha256 rt token \<noteq> []"
    using assms by (metis digests_32_def list.size(3) zero_neq_numeral)
  then have "HashToken rt token \<noteq> []"
    by (simp add: HashToken_def hex_encode_nonempty)
  then show ?thesis
    using normalizeUsers_Nil [of rt users] by (auto simp: Enabled_def NewAuthenticator_def)
qed

lemma newOIDCProvider_enabled:
  assumes "newOIDCProvider oe opts key = Inr oidc"
  shows "oidcEnabled oidc \<longleftrightarrow> TrimSpace (ooIssuerURL opts) \<noteq> [] \<and> TrimSpace (ooClientID opts) \<noteq> []"
  using assms
  by (auto simp: newOIDCProvider_def fetchOIDCDiscovery_def oidcEnabled_def Let_def split: if_splits option.splits sum.splits)

lemma newSAMLProvider_enabled:
  assumes "newSAMLProvider se rt opts = Inr saml"
  shows "samlEnabled saml \<longleftrightarrow> TrimSpace (soRootURL opts) \<noteq> [] \<and> TrimSpace (soIDPMetadataURL opts) \<noteq> []" (is "_ \<longleftrightarrow> ?root \<and> ?idp")
    and "TrimSpace (soRootURL opts) \<noteq> [] \<or> TrimSpace (soIDPMetadataURL opts) \<noteq> [] \<or> TrimSpace (soKeyPath opts) \<noteq> [] \<or>
      TrimSpace (soCertPath opts) \<noteq> [] \<Longrightarrow> TrimSpace (soRootURL opts) \<noteq> [] \<and> TrimSpace (soIDPMetadataURL opts) \<noteq> []"
proof -
  show "?root \<and> ?idp" if "?root \<or> ?idp \<or> TrimSpace (soKeyPath opts) \<noteq> [] \<or> TrimSpace (soCertPath opts) \<noteq> []"
    using assms that unfolding newSAMLProvider_def Let_def by (auto split: if_splits)
  show "samlEnabled saml \<longleftrightarrow> ?root \<and> ?idp"
  proof (cases "?root \<and> ?idp")
    case True
    then show ?thesis
      using assms by (auto simp: newSAMLProvider_def samlEnabled_def Let_def split: option.splits sum.splits)
  next
    case False
    then have "saml = None"
      using assms unfolding newSAMLProvider_def Let_def by (auto split: if_splits)
    with False show ?thesis
      by (auto simp: samlEnabled_def)
  qed
qed

lemma startSAML_enabled:
  assumes "startSAML se rt opts = Inr saml"
  shows "samlEnabled saml \<longleftrightarrow> TrimSpace (svSAMLRootURL opts) \<noteq> [] \<or> TrimSpace (svSAMLIDPMetadataURL opts) \<noteq> [] \<or>
    TrimSpace (svSAMLKeyPath opts) \<noteq> [] \<or> TrimSpace (svSAMLCertPath opts) \<noteq> []" (is "_ \<longleftrightarrow> ?any")
proof (cases "list_all (\<lambda>v. TrimSpace v = []) [svSAMLRootURL opts, svSAMLIDPMetadataURL opts, svSAMLKeyPath opts, svSAMLCertPath opts,
    svSAMLTenantAttribute opts, svSAMLRoleAttribute opts, svSAMLEmailAttribute opts]")
  case True
  then show ?thesis
    using assms by (auto simp: startSAML_def samlEnabled_def)
next
  case False
  define so where "so = \<lparr> soRootURL = defaultString (TrimSpace (svPublicURL opts)) (TrimSpace (svSAMLRootURL opts)),
          soIDPMetadataURL = TrimSpace (svSAMLIDPMetadataURL opts), soKeyPath = TrimSpace (svSAMLKeyPath opts),
          soCertPath = TrimSpace (svSAMLCertPath opts), soCompletePath = ''/api/sso/saml/complete'', soLoginPath = ''/api/sso/saml/login'',
          soMetadataPath = ''/saml/metadata'', soACSPath = ''/saml/acs'',
          soTenantAttribute = defaultString (TrimSpace (svSAMLTenantAttribute opts)) ''tenant'',
          soRoleAttribute = defaultString (TrimSpace (svSAMLRoleAttribute opts)) ''roles'',
          soNameAttribute = defaultString (TrimSpace (svSAMLEmailAttribute opts)) ''email'' \<rparr>"
  have start: "newSAMLProvider se rt so = Inr saml"
    using assms unfolding startSAML_def so_def if_not_P [OF False] .
  show ?thesis
    using newSAMLProvider_enabled [OF start] by (auto simp: so_def defaultString_def)
qed

lemma startListening_access: "startListening env f (a, oidc, saml) = Serving s \<Longrightarrow> access (svgApp s) = access a"
  by (auto simp: startListening_def split: if_splits prod.splits sum.splits dest: access_LoadDemo)

lemma startServer_access:
  assumes digests: "digests_32 (aeRuntime (dmApp env))" and serving: "startServer env f cfg = Serving s"
  shows "authenticationConfigured (svgApp s) \<longleftrightarrow> usableAuth f cfg"
proof -
  obtain window pc tokens policies licenseToken retention a oidc saml where
      new: "NewWithOptions (aeTenants (dmApp env)) (dmOIDC env) (dmSAML env) (dmLicense env)
        (serverOptions f cfg window pc tokens policies licenseToken retention) = Inr (a, oidc, saml)" (is "NewWithOptions _ _ _ _ ?opts = _")
      and listen: "startListening env f (a, oidc, saml) = Serving s"
    using serving unfolding startServer_def Let_def by (auto split: sum.splits)
  obtain st reg proxies where a: "a = startApp (aeTenants (dmApp env)) (dmLicense env) ?opts \<lparr> tsBase = st, tsOpened = [], tsRegistry = Some reg \<rparr> proxies oidc saml"
      and oidc: "newOIDCProvider (dmOIDC env) (svOIDC ?opts) (atSessionKey (apAuth a)) = Inr oidc"
      and saml: "startSAML (dmSAML env) (aeRuntime (dmApp env)) ?opts = Inr saml"
    using NewWithOptions_start [OF new] by metis
  have "apAuth a = NewAuthenticator (aeRuntime (dmApp env)) (teHost (aeTenants (dmApp env))) (fcUsers cfg) (fgAPIToken f)"
      "apOIDCEnabled a = oidcEnabled oidc" "apSAMLEnabled a = samlEnabled saml"
    by (simp_all add: a startApp_def serverOptions_def Let_def)
  then have "authenticationConfigured a \<longleftrightarrow> usableAuth f cfg"
    using newOIDCProvider_enabled [OF oidc] startSAML_enabled [OF saml] Enabled_NewAuthenticator [OF digests]
    by (simp add: authenticationConfigured_def usableAuth_def serverOptions_def)
  then show ?thesis
    using authenticationConfigured_access [OF startListening_access [OF listen]] by simp
qed

lemma config_pack_path [simp]:
  "authConfigured f (cfg\<lparr>fcThreatPackPath := path\<rparr>) = authConfigured f cfg" "usableAuth f (cfg\<lparr>fcThreatPackPath := path\<rparr>) = usableAuth f cfg"
  by (simp_all add: authConfigured_def usableAuth_def)

text \<open>C37: What the server program serves. A server that listens was started with some flag or user of authentication and with a session
  secret, or else with \<open>--insecure\<close> or on a loopback address; and the server checks the requests of its clients exactly when the
  configuration is one it can check them with: a user with a name and a token hash, an API token, an issuer together with a client, or one
  of the SAML options. The demo telemetry changes neither.\<close>

theorem daemon_start_guard:
  assumes serving: "daemonMain env = Serving s"
    and flags: "dmParse env (flagDefaults (aeRuntime (dmApp env)) (osEnv (teHost (aeTenants (dmApp env))))) = Some f"
    and config: "LoadConfig (ajConfig (aeJSON (dmApp env))) (teHost (aeTenants (dmApp env))) (fgPolicyPath f) = Inr cfg"
    and digests: "digests_32 (aeRuntime (dmApp env))"
  shows "(if authConfigured f cfg then TrimSpace (osEnv (teHost (aeTenants (dmApp env))) ''OATD_SESSION_SECRET'') \<noteq> []
          else fgInsecure f \<or> isLoopbackListenAddress (aeRuntime (dmApp env)) (fgAddr f)) \<and>
         (authenticationConfigured (svgApp s) \<longleftrightarrow> usableAuth f cfg)"
proof -
  define cfg' where "cfg' = (if TrimSpace (fgThreatPackPath f) \<noteq> [] then cfg\<lparr>fcThreatPackPath := TrimSpace (fgThreatPackPath f)\<rparr> else cfg)"
  have same: "authConfigured f cfg' = authConfigured f cfg" "usableAuth f cfg' = usableAuth f cfg"
    by (simp_all add: cfg'_def)
  have "daemonMain env =
      (case ValidateListenAddress (aeRuntime (dmApp env)) (fgAddr f) (authConfigured f cfg') (fgInsecure f) of
         Some e \<Rightarrow> Fatal e
       | None \<Rightarrow>
           if authConfigured f cfg' \<and> TrimSpace (osEnv (teHost (aeTenants (dmApp env))) ''OATD_SESSION_SECRET'') = []
           then Fatal ''OATD_SESSION_SECRET is required when authentication or SSO is configured'' else startServer env f cfg')"
    unfolding daemonMain_def Let_def flags option.case config sum.case cfg'_def ..
  then have checks: "ValidateListenAddress (aeRuntime (dmApp env)) (fgAddr f) (authConfigured f cfg') (fgInsecure f) = None"
      "\<not> (authConfigured f cfg' \<and> TrimSpace (osEnv (teHost (aeTenants (dmApp env))) ''OATD_SESSION_SECRET'') = [])"
      "startServer env f cfg' = Serving s"
    using serving by (auto split: option.splits if_splits)
  show ?thesis
    using checks(1,2) startServer_access [OF digests checks(3)] by (auto simp: same ValidateListenAddress_def split: if_splits)
qed

text \<open>
  A server with the environment of \<open>web_env\<close>, a session secret and one option of single sign-on: the client, without its issuer. It listens on
  all addresses, without \<open>--insecure\<close>.
\<close>

definition sso_host :: host_os where
  "sso_host = audit_host\<lparr>osEnv := (\<lambda>v. if v = ''OATD_SESSION_SECRET'' then ''secret'' else osEnv audit_host v)\<rparr>"

definition sso_tenants :: tenant_env where
  "sso_tenants = web_tenants\<lparr>teHost := sso_host, teParseScaled := (\<lambda>n unit. Inr (int (str_nat n) * unit))\<rparr>"

definition sso_daemon :: "string \<Rightarrow> daemon_env" where
  "sso_daemon token =
     \<lparr> dmApp = web_env\<lparr>aeTenants := sso_tenants\<rparr>, dmOIDC = demo_oidc_env,
       dmSAML = \<lparr> seReadFile = (\<lambda>_. Inl ''no file''), sePEM = (\<lambda>_. None), sePKCS1 = (\<lambda>_. None), sePKCS8 = (\<lambda>_. Inl ''no key''),
         seCertificate = (\<lambda>_. Inl ''no certificate''), seFetchMetadata = (\<lambda>_. Inl ''offline''), seNewMiddleware = (\<lambda>_ _ _ _. None),
         seSession = (\<lambda>_. None), seRequireAccount = id, seQueryEscape = id \<rparr>,
       dmLicense = demo_lib, dmParse = (\<lambda>f. Some (f\<lparr>fgOIDCClientID := ''oadtd'', fgAPIToken := token\<rparr>)), dmReadFile = (\<lambda>_. Inl ''no file''),
       dmTokens = (\<lambda>_. Inl ''EOF''), dmPolicies = (\<lambda>_. Inl ''EOF''), dmWindow = (\<lambda>_. Inl ''not a duration''), dmListen = Inr \<rparr>"

definition serves :: "daemon_result \<Rightarrow> bool" where
  "serves r = (case r of Serving s \<Rightarrow> True | _ \<Rightarrow> False)"

lemma sso_daemon_serves: "serves (daemonMain (sso_daemon ''t''))"
  by code_simp

lemma sso_daemon_start:
  "aeRuntime (dmApp (sso_daemon token)) = digest_runtime" "teHost (aeTenants (dmApp (sso_daemon token))) = sso_host"
  "dmParse (sso_daemon token) f = Some (f\<lparr>fgOIDCClientID := ''oadtd'', fgAPIToken := token\<rparr>)"
  "LoadConfig unmarshal os [] = Inr emptyConfig" "fgPolicyPath (flagDefaults rt getenv) = []"
  by (simp_all add: sso_daemon_def sso_tenants_def web_tenants_def web_env_def LoadConfig_def flagDefaults_def)

theorem daemon_start_guard_witness:
  "\<exists>s. daemonMain (sso_daemon ''t'') = Serving s \<and> authenticationConfigured (svgApp s)"
proof -
  obtain s where s: "daemonMain (sso_daemon ''t'') = Serving s"
    using sso_daemon_serves by (auto simp: serves_def split: daemon_result.splits)
  have "authenticationConfigured (svgApp s) \<longleftrightarrow>
      usableAuth ((flagDefaults digest_runtime (osEnv sso_host))\<lparr>fgOIDCClientID := ''oadtd'', fgAPIToken := ''t''\<rparr>) emptyConfig"
    using daemon_start_guard [OF s] by (simp add: sso_daemon_start digest_runtime_32)
  then show ?thesis
    using s by (simp add: usableAuth_def)
qed

text \<open>
  One option of single sign-on is enough for the program to take the server for authenticated and to listen on every address, but an
  OpenID Connect client without its issuer makes no provider: the server runs, checks no request, and hands each request but those to the
  two proxies to its handler without a principal. A user without a token hash has the same effect.
\<close>

theorem partial_sso_serves_open:
  "\<exists>s. daemonMain (sso_daemon []) = Serving s \<and> svgAddr s = '':8080'' \<and>
     (\<forall>env handle r. \<not> requiresAuthEvenInOpenMode (rqPath r) \<longrightarrow> withAuth env handle r (svgApp s) = handle r noPrincipal (svgApp s))"
proof -
  have "case daemonMain (sso_daemon []) of Serving s \<Rightarrow> \<not> authenticationConfigured (svgApp s) \<and> svgAddr s = '':8080'' | _ \<Rightarrow> False"
    by code_simp
  then obtain s where "daemonMain (sso_daemon []) = Serving s" "\<not> authenticationConfigured (svgApp s)" "svgAddr s = '':8080''"
    by (auto split: daemon_result.splits)
  then show ?thesis
    by (auto simp: withAuth_def Let_def)
qed

end
