(* ===== verification/Postgres.thy ===== *)
theory Postgres
  imports StoreOps Auth
begin

text \<open>
  The PostgreSQL mode of the store (\<open>internal/store/postgres.go\<close> and the database branches of \<open>persistence.go\<close> and
  \<open>store.go\<close>): the tables, the statements the code sends, and several instances that share one database. A table is a map from its primary
  key; the columns that no query reads are copies of members of the stored record and are left out; a record is kept as what the JSON
  text the code encodes it to reads back as (\<open>json_event\<close> and its companions), and a timestamp column keeps microseconds. A transaction takes
  effect as a whole or not at all: the code locks the row of the chain state with \<open>SELECT ... FOR UPDATE\<close>, so that two transactions that add audit records run one after the other. Every call of the database can
  fail, and a commit can fail after it took effect.
\<close>

section \<open>Tables\<close>

record 'a timed_row =
  trAt :: "time option"
  trData :: 'a

record alert_row =
  arFingerprint :: "string option"
  arCreatedAt :: "time option"
  arData :: alert

record chain_row =
  csHead :: string
  csIndex :: int
  csValid :: bool
  csAnchor :: string

record login_row =
  lrFailures :: int
  lrBlockedUntil :: "time option"
  lrLastSeen :: time

record pg_tables =
  ptMigrations :: "(int, string) gomap"
  ptEvents :: "(string, event timed_row) gomap"
  ptAlerts :: "(string, alert_row) gomap"
  ptActions :: "(string, response_action timed_row) gomap"
  ptAssets :: "(string \<times> string, asset) gomap"
  ptAudits :: "(string, audit_event timed_row) gomap"
  ptChain :: "chain_row option"
  ptLogins :: "(string, login_row) gomap"

datatype commit_outcome = Committed | NotCommitted string | CommittedUnseen string

text \<open>
  What one operation sees: the clock; the error of its n-th fallible call, if it has one; what the commit does; the identifiers of rows whose
  data does not decode; the error that ends a scan of rows; and the order of texts in the database's collation.
\<close>

record pg_env =
  peNow :: time
  peFault :: "nat \<Rightarrow> string option"
  peCommit :: commit_outcome
  peUndecodable :: "string \<Rightarrow> bool"
  peRowsErr :: "string option"
  peTextLE :: "string \<Rightarrow> string \<Rightarrow> bool"

definition shift :: "nat \<Rightarrow> pg_env \<Rightarrow> pg_env" where
  "shift k pe = pe\<lparr>peFault := \<lambda>n. peFault pe (n + k)\<rparr>"

fun firstFault :: "pg_env \<Rightarrow> nat list \<Rightarrow> string option" where
  "firstFault pe [] = None"
| "firstFault pe (n # ns) = (case peFault pe n of Some e \<Rightarrow> Some e | None \<Rightarrow> firstFault pe ns)"

definition emptyTables :: pg_tables where
  "emptyTables = \<lparr> ptMigrations = [], ptEvents = [], ptAlerts = [], ptActions = [], ptAssets = [], ptAudits = [], ptChain = None, ptLogins = [] \<rparr>"

definition pgTime :: "time \<Rightarrow> time" where
  "pgTime t = t div 1000 * 1000"

definition nullableTime :: "time \<Rightarrow> time option" where
  "nullableTime t = (if time_is_zero t then None else Some (pgTime t))"

definition nullEmpty :: "string \<Rightarrow> string option" where
  "nullEmpty v = (if v = [] then None else Some v)"

definition redactDSN :: "string \<Rightarrow> string" where
  "redactDSN dsn = (if dsn = [] then [] else ''postgres'')"

text \<open>\<open>ORDER BY\<close>: insertion sort by a comparison of rows.\<close>

fun insertRow :: "('r \<Rightarrow> 'r \<Rightarrow> bool) \<Rightarrow> 'r \<Rightarrow> 'r list \<Rightarrow> 'r list" where
  "insertRow le x [] = [x]"
| "insertRow le x (y # ys) = (if le x y then x # y # ys else y # insertRow le x ys)"

definition orderRows :: "('r \<Rightarrow> 'r \<Rightarrow> bool) \<Rightarrow> 'r list \<Rightarrow> 'r list" where
  "orderRows le rows = foldr (insertRow le) rows []"

text \<open>\<open>ASC NULLS LAST\<close> on the first column, then the rest.\<close>

definition nullsLast :: "time option \<Rightarrow> time option \<Rightarrow> bool \<Rightarrow> bool" where
  "nullsLast x y rest = (case (x, y) of
     (None, None) \<Rightarrow> rest | (None, Some _) \<Rightarrow> False | (Some _, None) \<Rightarrow> True | (Some s, Some t) \<Rightarrow> s < t \<or> (s = t \<and> rest))"

section \<open>Migrations\<close>

definition postgresMigrations :: "(int \<times> string) list" where
  "postgresMigrations = [(1, ''initial_schema''), (2, ''audit_chain_state_and_login_attempts''), (3, ''audit_chain_anchor_hmac''), (4, ''assets_tenant_scope'')]"

definition zeroChain :: chain_row where
  "zeroChain = \<lparr> csHead = [], csIndex = 0, csValid = True, csAnchor = [] \<rparr>"

text \<open>Of the statements of the migrations, one inserts a row.\<close>

definition migrationRows :: "int \<Rightarrow> pg_tables \<Rightarrow> pg_tables" where
  "migrationRows version db = (if version = 2 \<and> ptChain db = None then db\<lparr>ptChain := Some zeroChain\<rparr> else db)"

definition applyPostgresMigration :: "pg_env \<Rightarrow> int \<times> string \<Rightarrow> pg_tables \<Rightarrow> string option \<times> pg_tables" where
  "applyPostgresMigration pe m db =
     (case firstFault pe [0, 1, 2] of
        Some e \<Rightarrow> (Some e, db)
      | None \<Rightarrow>
          (let db' = migrationRows (fst m) db;
               db' = (if gm_get (ptMigrations db') (fst m) = None then db'\<lparr>ptMigrations := gm_put (fst m) (snd m) (ptMigrations db')\<rparr> else db')
           in case peCommit pe of
                Committed \<Rightarrow> (None, db') | NotCommitted e \<Rightarrow> (Some e, db) | CommittedUnseen e \<Rightarrow> (Some e, db')))"

fun migrateLoop :: "pg_env \<Rightarrow> int list \<Rightarrow> (int \<times> string) list \<Rightarrow> pg_tables \<Rightarrow> string option \<times> pg_tables" where
  "migrateLoop pe applied [] db = (None, db)"
| "migrateLoop pe applied (m # ms) db =
     (if fst m \<in> set applied then migrateLoop pe applied ms db
      else (case applyPostgresMigration pe m db of
        (Some e, db) \<Rightarrow> (Some e, db) | (None, db) \<Rightarrow> migrateLoop (shift 3 pe) (fst m # applied) ms db))"

definition postgresCurrentSchemaVersion :: "pg_tables \<Rightarrow> int" where
  "postgresCurrentSchemaVersion db = (if ptMigrations db = [] then 0 else Max (set (map fst (ptMigrations db))))"

definition postgresMigrate :: "pg_env \<Rightarrow> store \<Rightarrow> pg_tables \<Rightarrow> (string + store) \<times> pg_tables" where
  "postgresMigrate pe s db =
     (case firstFault pe [0, 1, 2] of
        Some e \<Rightarrow> (Inl e, db)
      | None \<Rightarrow> (case migrateLoop (shift 4 pe) (map fst (ptMigrations db)) postgresMigrations db of
          (Some e, db) \<Rightarrow> (Inl e, db)
        | (None, db) \<Rightarrow> (case peFault pe 3 of
            Some e \<Rightarrow> (Inl e, db) | None \<Rightarrow> (Inr (s\<lparr>stSchemaVersion := postgresCurrentSchemaVersion db\<rparr>), db))))"

section \<open>Loading\<close>

text \<open>The rows of a query: its error, a row that does not decode, or the error after the last row.\<close>

definition readRows :: "pg_env \<Rightarrow> nat \<Rightarrow> string list \<Rightarrow> 'a \<Rightarrow> string + 'a" where
  "readRows pe n ids found =
     (case peFault pe n of
        Some e \<Rightarrow> Inl e
      | None \<Rightarrow> if list_ex (peUndecodable pe) ids then Inl ''invalid row''
          else (case peRowsErr pe of Some e \<Rightarrow> Inl e | None \<Rightarrow> Inr found))"

definition timedLE :: "pg_env \<Rightarrow> string \<times> 'a timed_row \<Rightarrow> string \<times> 'a timed_row \<Rightarrow> bool" where
  "timedLE pe x y = nullsLast (trAt (snd x)) (trAt (snd y)) (peTextLE pe (fst x) (fst y))"

definition alertLE :: "pg_env \<Rightarrow> string \<times> alert_row \<Rightarrow> string \<times> alert_row \<Rightarrow> bool" where
  "alertLE pe x y = nullsLast (arCreatedAt (snd x)) (arCreatedAt (snd y)) (peTextLE pe (fst x) (fst y))"

definition postgresLoadEvents :: "pg_env \<Rightarrow> nat \<Rightarrow> pg_tables \<Rightarrow> store \<Rightarrow> string + store" where
  "postgresLoadEvents pe n db s = readRows pe n (map fst (ptEvents db))
     (s\<lparr>stEvents := stEvents s @ map (trData \<circ> snd) (orderRows (timedLE pe) (ptEvents db))\<rparr>)"

definition postgresLoadAlerts :: "pg_env \<Rightarrow> nat \<Rightarrow> pg_tables \<Rightarrow> store \<Rightarrow> string + store" where
  "postgresLoadAlerts pe n db s = readRows pe n (map fst (ptAlerts db))
     (s\<lparr>stAlerts := stAlerts s @ map (arData \<circ> snd) (orderRows (alertLE pe) (ptAlerts db))\<rparr>)"

definition postgresLoadActions :: "pg_env \<Rightarrow> nat \<Rightarrow> pg_tables \<Rightarrow> store \<Rightarrow> string + store" where
  "postgresLoadActions pe n db s = readRows pe n (map fst (ptActions db))
     (s\<lparr>stActions := stActions s @ map (trData \<circ> snd) (orderRows (timedLE pe) (ptActions db))\<rparr>)"

definition loadAsset :: "(string \<times> string) \<times> asset \<Rightarrow> (string, asset) gomap \<Rightarrow> (string, asset) gomap" where
  "loadAsset row m =
     (let a = snd row; a = (if asTenant a = [] then a\<lparr>asTenant := tenantOrDefault (fst (fst row))\<rparr> else a)
      in if asID a \<noteq> [] then gm_put (assetKey (asTenant a) (asID a)) a m else m)"

definition postgresLoadAssets :: "pg_env \<Rightarrow> nat \<Rightarrow> pg_tables \<Rightarrow> store \<Rightarrow> string + store" where
  "postgresLoadAssets pe n db s = readRows pe n (map (snd \<circ> fst) (ptAssets db)) (s\<lparr>stAssets := fold loadAsset (ptAssets db) (stAssets s)\<rparr>)"

definition postgresLoadAudits :: "pg_env \<Rightarrow> nat \<Rightarrow> pg_tables \<Rightarrow> store \<Rightarrow> string + store" where
  "postgresLoadAudits pe n db s = readRows pe n (map fst (ptAudits db))
     (s\<lparr>stAudits := stAudits s @ map (trData \<circ> snd) (orderRows (timedLE pe) (ptAudits db))\<rparr>)"

text \<open>The five reads of \<open>postgresLoad\<close> and what it rebuilds in memory; the write of the chain state comes after them.\<close>

definition postgresLoadRows :: "pg_env \<Rightarrow> runtime \<Rightarrow> host_os \<Rightarrow> pg_tables \<Rightarrow> store \<Rightarrow> string + store" where
  "postgresLoadRows pe rt os db s =
     (case postgresLoadEvents pe 0 db s of Inl e \<Rightarrow> Inl e | Inr s \<Rightarrow>
     (case postgresLoadAlerts pe 1 db s of Inl e \<Rightarrow> Inl e | Inr s \<Rightarrow>
     (case postgresLoadActions pe 2 db s of Inl e \<Rightarrow> Inl e | Inr s \<Rightarrow>
     (case postgresLoadAssets pe 3 db s of Inl e \<Rightarrow> Inl e | Inr s \<Rightarrow>
     (case postgresLoadAudits pe 4 db s of Inl e \<Rightarrow> Inl e | Inr s \<Rightarrow>
        (let s = rebuildFingerprintsLocked s;
             s = (if length (stAssets s) = 0 then rebuildAssetsLocked s else s)
         in Inr (rebuildAuditChainLocked rt os s)))))))"

definition int4 :: "int \<Rightarrow> bool" where
  "int4 n \<longleftrightarrow> n < 2 ^ 31"

definition postgresSyncAuditChainState :: "pg_env \<Rightarrow> store \<Rightarrow> pg_tables \<Rightarrow> string option \<times> pg_tables" where
  "postgresSyncAuditChainState pe s db =
     (case peFault pe 5 of
        Some e \<Rightarrow> (Some e, db)
      | None \<Rightarrow>
          if \<not> int4 (int (length (stAudits s))) then (Some ''integer out of range'', db)
          else (None, db\<lparr>ptChain := Some \<lparr> csHead = stAuditChainHead s, csIndex = int (length (stAudits s)), csValid = stAuditChainValid s,
             csAnchor = stAuditChainAnchor s \<rparr>\<rparr>))"

definition postgresLoad :: "pg_env \<Rightarrow> runtime \<Rightarrow> host_os \<Rightarrow> store \<Rightarrow> pg_tables \<Rightarrow> (string + store) \<times> pg_tables" where
  "postgresLoad pe rt os s db =
     (case postgresLoadRows pe rt os db s of
        Inl e \<Rightarrow> (Inl e, db)
      | Inr s \<Rightarrow> (case postgresSyncAuditChainState pe s db of (Some e, db) \<Rightarrow> (Inl e, db) | (None, db) \<Rightarrow> (Inr s, db)))"

text \<open>\<open>NewWithPostgres\<close>: opening and pinging the database are the first two calls.\<close>

definition NewWithPostgres :: "pg_env \<Rightarrow> runtime \<Rightarrow> host_os \<Rightarrow> string \<Rightarrow> pg_tables \<Rightarrow> (string + store) \<times> pg_tables" where
  "NewWithPostgres pe rt os dsn db =
     (case firstFault pe [0, 1] of
        Some e \<Rightarrow> (Inl e, db)
      | None \<Rightarrow> (case postgresMigrate (shift 2 pe) (NewStore\<lparr>stMode := ''postgres'', stPath := redactDSN dsn\<rparr>) db of
          (Inl e, db) \<Rightarrow> (Inl e, db)
        | (Inr s, db) \<Rightarrow> postgresLoad (shift 18 pe) rt os s db))"

section \<open>The audit chain\<close>

definition auditRow :: "audit_event \<Rightarrow> audit_event timed_row" where
  "auditRow ev = \<lparr> trAt = Some (pgTime (auTimestamp ev)), trData = json_audit ev \<rparr>"

definition chainRow :: "runtime \<Rightarrow> host_os \<Rightarrow> audit_event \<Rightarrow> chain_row" where
  "chainRow rt os ev = \<lparr> csHead = auHash ev, csIndex = auChainIndex ev, csValid = True,
     csAnchor = auditChainAnchorValue rt os (auHash ev) (auChainIndex ev) True \<rparr>"

text \<open>The record that the transaction writes: the next index, the head as the previous hash, and the digest.\<close>

definition chainedEvent :: "runtime \<Rightarrow> chain_row \<Rightarrow> audit_event \<Rightarrow> audit_event" where
  "chainedEvent rt row ev =
     (let ev = ev\<lparr>auChainIndex := csIndex row + 1, auPrevHash := csHead row\<rparr> in ev\<lparr>auHash := auditEventHash rt ev (auPrevHash ev)\<rparr>)"

definition postgresAddAuditLocked ::
  "pg_env \<Rightarrow> runtime \<Rightarrow> host_os \<Rightarrow> audit_event \<Rightarrow> store \<Rightarrow> pg_tables \<Rightarrow> (string + audit_event) \<times> store \<times> pg_tables" where
  "postgresAddAuditLocked pe rt os ev s db =
     (case firstFault pe [0, 1, 2, 3, 4, 5] of
        Some e \<Rightarrow> (Inl e, s, db)
      | None \<Rightarrow>
          (let ev = chainedEvent rt (case ptChain db of None \<Rightarrow> zeroChain | Some row \<Rightarrow> row) ev;
               db' = db\<lparr>ptAudits := gm_put (auID ev) (auditRow ev) (ptAudits db), ptChain := Some (chainRow rt os ev)\<rparr>;
               s' = s\<lparr>stAuditChainHead := auHash ev, stAuditChainValid := True,
                 stAuditChainAnchor := auditChainAnchorValue rt os (auHash ev) (auChainIndex ev) True\<rparr>
           in if \<not> int4 (auChainIndex ev) then (Inl ''integer out of range'', s, db)
              else (case peCommit pe of
                Committed \<Rightarrow> (Inr ev, s', db')
              | NotCommitted e \<Rightarrow> (Inl e, s, db)
              | CommittedUnseen e \<Rightarrow> (Inl e, s, db'))))"

text \<open>
  The order of the check of the chain: by the index in the data, which is absent when it is zero, then by time and identifier.
\<close>

definition chainLE :: "pg_env \<Rightarrow> string \<times> audit_event timed_row \<Rightarrow> string \<times> audit_event timed_row \<Rightarrow> bool" where
  "chainLE pe x y =
     (let index = (\<lambda>r. if auChainIndex (trData r) = 0 then None else Some (auChainIndex (trData r)))
      in nullsLast (index (snd x)) (index (snd y)) (timedLE pe x y))"

definition zeroSnapshot :: audit_chain_snapshot where
  "zeroSnapshot = \<lparr> acTotal = 0, acLinked = 0, acUnlinked = 0, acHead = [], acPrevious = [], acValid = True, acAnchor = [], acAnchored = False,
     acLastAuditID = [], acLastTimestamp = 0 \<rparr>"

text \<open>The loop over the rows; \<open>n\<close> numbers the scans, and a scan that fails ends the loop.\<close>

fun chainLoop :: "pg_env \<Rightarrow> runtime \<Rightarrow> nat \<Rightarrow> (string \<times> audit_event timed_row) list \<Rightarrow> string \<Rightarrow> audit_chain_snapshot \<Rightarrow> audit_chain_snapshot" where
  "chainLoop pe rt n [] previous snap = snap"
| "chainLoop pe rt n ((i, row) # rows) previous snap =
     (if peFault pe n \<noteq> None then snap\<lparr>acValid := False\<rparr>
      else (let snap = snap\<lparr>acTotal := acTotal snap + 1\<rparr>; ev = trData row in
        if peUndecodable pe i then chainLoop pe rt (n + 1) rows previous (snap\<lparr>acValid := False\<rparr>)
        else if TrimSpace (auHash ev) = [] then chainLoop pe rt (n + 1) rows previous snap
        else chainLoop pe rt (n + 1) rows (auHash ev)
          (snap\<lparr>acLinked := acLinked snap + 1,
             acValid := acValid snap \<and> auPrevHash ev = previous \<and> auHash ev = auditEventHash rt ev (auPrevHash ev),
             acHead := auHash ev, acPrevious := auPrevHash ev, acLastAuditID := i,
             acLastTimestamp := (case trAt row of None \<Rightarrow> 0 | Some t \<Rightarrow> t)\<rparr>)))"

definition postgresAuditChainSnapshot :: "pg_env \<Rightarrow> runtime \<Rightarrow> host_os \<Rightarrow> store \<Rightarrow> pg_tables \<Rightarrow> audit_chain_snapshot" where
  "postgresAuditChainSnapshot pe rt os s db =
     (case (firstFault pe [0, 1], ptChain db) of
        (None, Some row) \<Rightarrow>
          (let snap = chainLoop pe rt 2 (orderRows (chainLE pe) (ptAudits db)) [] zeroSnapshot in
           if peRowsErr pe \<noteq> None then auditChainSnapshotLocked s
           else if acHead snap = [] then snap\<lparr>acValid := (acTotal snap = 0), acAnchored := False\<rparr>
           else (let snap = snap\<lparr>acValid := acValid snap \<and> (TrimSpace (csHead row) = [] \<or> csHead row = acHead snap)\<rparr>;
                     expectedAnchor = auditChainAnchorValue rt os (acHead snap) (acLinked snap) (acValid snap)
                 in snap\<lparr>acAnchor := expectedAnchor, acAnchored := (expectedAnchor \<noteq> []),
                      acValid := acValid snap \<and> (TrimSpace (csAnchor row) = [] \<or> expectedAnchor = [] \<or> csAnchor row = expectedAnchor)\<rparr>))
      | _ \<Rightarrow> auditChainSnapshotLocked s)"

section \<open>The lockout of logins\<close>

definition pgLoginBackoffCap :: duration where "pgLoginBackoffCap = minute"

definition postgresLoginRetryAfter :: "pg_env \<Rightarrow> string \<Rightarrow> pg_tables \<Rightarrow> string + duration" where
  "postgresLoginRetryAfter pe key db =
     (let key = TrimSpace key in
      if key = [] then Inr 0
      else (case peFault pe 0 of
        Some e \<Rightarrow> Inl e
      | None \<Rightarrow> (case gm_get (ptLogins db) key of
          None \<Rightarrow> Inr 0
        | Some row \<Rightarrow> (case lrBlockedUntil row of
            None \<Rightarrow> Inr 0 | Some t \<Rightarrow> if t - peNow pe < 0 then Inr 0 else Inr (t - peNow pe)))))"

text \<open>The count after one more failure, at most 8, and the block it gives.\<close>

definition pgFailures :: "login_row option \<Rightarrow> int" where
  "pgFailures row =
     (let failures = (case row of None \<Rightarrow> 0 | Some row \<Rightarrow> lrFailures row);
          failures = (if failures < 0 then 0 else failures) + 1
      in if 8 < failures then 8 else failures)"

definition pgDelay :: "int \<Rightarrow> duration" where
  "pgDelay failures = (let delay = second * 2 ^ nat (failures - 1) in if pgLoginBackoffCap < delay then pgLoginBackoffCap else delay)"

text \<open>A failure is recorded by a query and a later statement, which are not one transaction.\<close>

definition readLoginRow :: "pg_env \<Rightarrow> string \<Rightarrow> pg_tables \<Rightarrow> string + login_row option" where
  "readLoginRow pe key db = (case peFault pe 0 of Some e \<Rightarrow> Inl e | None \<Rightarrow> Inr (gm_get (ptLogins db) key))"

definition writeLoginRow :: "pg_env \<Rightarrow> string \<Rightarrow> login_row option \<Rightarrow> pg_tables \<Rightarrow> (string + duration) \<times> pg_tables" where
  "writeLoginRow pe key row db =
     (let failures = pgFailures row; delay = pgDelay failures; now = peNow pe
      in case peFault pe 1 of
           Some e \<Rightarrow> (Inl e, db)
         | None \<Rightarrow> (Inr delay, db\<lparr>ptLogins := gm_put key \<lparr> lrFailures = failures, lrBlockedUntil = Some (pgTime (now + delay)),
             lrLastSeen = pgTime now \<rparr> (ptLogins db)\<rparr>))"

definition postgresRecordLoginAttempt :: "pg_env \<Rightarrow> string \<Rightarrow> bool \<Rightarrow> pg_tables \<Rightarrow> (string + duration) \<times> pg_tables" where
  "postgresRecordLoginAttempt pe key success db =
     (let key = TrimSpace key in
      if key = [] then (Inr 0, db)
      else if success then
        (case peFault pe 0 of Some e \<Rightarrow> (Inl e, db) | None \<Rightarrow> (Inr 0, db\<lparr>ptLogins := gm_del key (ptLogins db)\<rparr>))
      else (case readLoginRow pe key db of
        Inl e \<Rightarrow> (Inl e, db)
      | Inr row \<Rightarrow> writeLoginRow pe key row db))"

section \<open>Writing records\<close>

definition upsertEvent :: "event \<Rightarrow> pg_tables \<Rightarrow> string + pg_tables" where
  "upsertEvent ev db = Inr (db\<lparr>ptEvents := gm_put (evID ev) \<lparr> trAt = nullableTime (evTimestamp ev), trData = json_event ev \<rparr> (ptEvents db)\<rparr>)"

text \<open>The column of the fingerprints is unique.\<close>

definition upsertAlert :: "alert \<Rightarrow> pg_tables \<Rightarrow> string + pg_tables" where
  "upsertAlert al db =
     (if alFingerprint al \<noteq> [] \<and> list_ex (\<lambda>(i, row). i \<noteq> alID al \<and> arFingerprint row = Some (alFingerprint al)) (ptAlerts db)
      then Inl ''duplicate key value violates unique constraint''
      else Inr (db\<lparr>ptAlerts := gm_put (alID al) \<lparr> arFingerprint = nullEmpty (alFingerprint al), arCreatedAt = nullableTime (alCreatedAt al),
        arData = json_alert al \<rparr> (ptAlerts db)\<rparr>))"

definition upsertAction :: "response_action \<Rightarrow> pg_tables \<Rightarrow> string + pg_tables" where
  "upsertAction ac db = Inr (db\<lparr>ptActions := gm_put (raID ac) \<lparr> trAt = nullableTime (raCreatedAt ac), trData = json_action ac \<rparr> (ptActions db)\<rparr>)"

definition upsertAuditRow :: "audit_event \<Rightarrow> pg_tables \<Rightarrow> string + pg_tables" where
  "upsertAuditRow ev db = Inr (db\<lparr>ptAudits := gm_put (auID ev) (auditRow ev) (ptAudits db)\<rparr>)"

definition upsertAssetRow :: "asset \<Rightarrow> pg_tables \<Rightarrow> string + pg_tables" where
  "upsertAssetRow a db = Inr (db\<lparr>ptAssets := gm_put (tenantOrDefault (asTenant a), asID a) (json_asset a) (ptAssets db)\<rparr>)"

text \<open>The loop of every writer: encode the record, then send the statement; what was written before an error stays.\<close>

fun writeEach :: "pg_env \<Rightarrow> nat \<Rightarrow> ('r \<Rightarrow> pg_tables \<Rightarrow> string + pg_tables) \<Rightarrow> 'r list \<Rightarrow> pg_tables \<Rightarrow> string option \<times> pg_tables" where
  "writeEach pe n put [] db = (None, db)"
| "writeEach pe n put (x # xs) db =
     (case firstFault pe [n, n + 1] of
        Some e \<Rightarrow> (Some e, db)
      | None \<Rightarrow> (case put x db of Inl e \<Rightarrow> (Some e, db) | Inr db \<Rightarrow> writeEach pe (n + 2) put xs db))"

definition postgresInsertEventsTx :: "pg_env \<Rightarrow> nat \<Rightarrow> event list \<Rightarrow> pg_tables \<Rightarrow> string option \<times> pg_tables" where
  "postgresInsertEventsTx pe n evs db = writeEach pe n upsertEvent evs db"

definition postgresInsertAlertsTx :: "pg_env \<Rightarrow> nat \<Rightarrow> alert list \<Rightarrow> pg_tables \<Rightarrow> string option \<times> pg_tables" where
  "postgresInsertAlertsTx pe n als db = writeEach pe n upsertAlert als db"

definition postgresInsertActionsTx :: "pg_env \<Rightarrow> nat \<Rightarrow> response_action list \<Rightarrow> pg_tables \<Rightarrow> string option \<times> pg_tables" where
  "postgresInsertActionsTx pe n acs db = writeEach pe n upsertAction acs db"

definition postgresInsertAuditsTx :: "pg_env \<Rightarrow> nat \<Rightarrow> audit_event list \<Rightarrow> pg_tables \<Rightarrow> string option \<times> pg_tables" where
  "postgresInsertAuditsTx pe n evs db = writeEach pe n upsertAuditRow evs db"

definition postgresInsertAssetsTx :: "pg_env \<Rightarrow> nat \<Rightarrow> (string, asset) gomap \<Rightarrow> pg_tables \<Rightarrow> string option \<times> pg_tables" where
  "postgresInsertAssetsTx pe n assets db = writeEach pe n upsertAssetRow (map snd assets) db"

definition postgresPersistAssetsLocked :: "pg_env \<Rightarrow> nat \<Rightarrow> store \<Rightarrow> pg_tables \<Rightarrow> string option \<times> pg_tables" where
  "postgresPersistAssetsLocked pe n s db = writeEach pe n upsertAssetRow (map snd (stAssets s)) db"

definition postgresPersistEventLocked :: "pg_env \<Rightarrow> event \<Rightarrow> store \<Rightarrow> pg_tables \<Rightarrow> string option \<times> pg_tables" where
  "postgresPersistEventLocked pe ev s db =
     (case writeEach pe 0 upsertEvent [ev] db of
        (Some e, db) \<Rightarrow> (Some e, db) | (None, db) \<Rightarrow> postgresPersistAssetsLocked pe 2 s db)"

definition postgresPersistAlertsLocked :: "pg_env \<Rightarrow> alert list \<Rightarrow> store \<Rightarrow> pg_tables \<Rightarrow> string option \<times> pg_tables" where
  "postgresPersistAlertsLocked pe als s db =
     (case writeEach pe 0 upsertAlert als db of
        (Some e, db) \<Rightarrow> (Some e, db) | (None, db) \<Rightarrow> postgresPersistAssetsLocked pe (2 * length als) s db)"

definition postgresPersistActionsLocked :: "pg_env \<Rightarrow> response_action list \<Rightarrow> pg_tables \<Rightarrow> string option \<times> pg_tables" where
  "postgresPersistActionsLocked pe acs db = writeEach pe 0 upsertAction acs db"

definition postgresPersistAuditLocked :: "pg_env \<Rightarrow> audit_event \<Rightarrow> pg_tables \<Rightarrow> string option \<times> pg_tables" where
  "postgresPersistAuditLocked pe ev db = writeEach pe 0 upsertAuditRow [ev] db"

text \<open>
  \<open>postgresRestoreSnapshotLocked\<close>: one transaction truncates the tables of the records and inserts those of the snapshot. The chain state and the
  logins are not among the truncated tables.
\<close>

definition restoreRows :: "pg_env \<Rightarrow> snapshot_data \<Rightarrow> pg_tables \<Rightarrow> string option \<times> pg_tables" where
  "restoreRows pe snap db =
     (let db = db\<lparr>ptEvents := [], ptAlerts := [], ptActions := [], ptAudits := [], ptAssets := []\<rparr>;
          n1 = 2; n2 = n1 + 2 * length (snEvents snap); n3 = n2 + 2 * length (snAlerts snap); n4 = n3 + 2 * length (snActions snap);
          n5 = n4 + 2 * length (snAudits snap)
      in case postgresInsertEventsTx pe n1 (snEvents snap) db of (Some e, db) \<Rightarrow> (Some e, db) | (None, db) \<Rightarrow>
        (case postgresInsertAlertsTx pe n2 (snAlerts snap) db of (Some e, db) \<Rightarrow> (Some e, db) | (None, db) \<Rightarrow>
        (case postgresInsertActionsTx pe n3 (snActions snap) db of (Some e, db) \<Rightarrow> (Some e, db) | (None, db) \<Rightarrow>
        (case postgresInsertAuditsTx pe n4 (snAudits snap) db of (Some e, db) \<Rightarrow> (Some e, db) | (None, db) \<Rightarrow>
          postgresInsertAssetsTx pe n5 (case snAssets snap of None \<Rightarrow> [] | Some m \<Rightarrow> m) db))))"

definition postgresRestoreSnapshotLocked :: "pg_env \<Rightarrow> snapshot_data \<Rightarrow> pg_tables \<Rightarrow> string option \<times> pg_tables" where
  "postgresRestoreSnapshotLocked pe snap db =
     (case firstFault pe [0, 1] of
        Some e \<Rightarrow> (Some e, db)
      | None \<Rightarrow> (case restoreRows pe snap db of
          (Some e, _) \<Rightarrow> (Some e, db)
        | (None, db') \<Rightarrow> (case peCommit pe of
            Committed \<Rightarrow> (None, db') | NotCommitted e \<Rightarrow> (Some e, db) | CommittedUnseen e \<Rightarrow> (Some e, db'))))"

section \<open>Operations of the store with a database\<close>

text \<open>Whether the retention window drops a record.\<close>

definition retentionDrops :: "io_env \<Rightarrow> store \<Rightarrow> bool" where
  "retentionDrops io s \<longleftrightarrow> 0 < stRetentionWindow s \<and>
     (let r = retainedStore (ioNow io - stRetentionWindow s) s in
      \<not> (length (stEvents r) = length (stEvents s) \<and> length (stAlerts r) = length (stAlerts s) \<and> length (stActions r) = length (stActions s)
         \<and> length (stAudits r) = length (stAudits s) \<and> length (stAssets r) = length (stAssets s)))"

definition pgEnforceRetentionLocked :: "pg_env \<Rightarrow> io_env \<Rightarrow> store \<Rightarrow> pg_tables \<Rightarrow> string option \<times> store \<times> pg_tables" where
  "pgEnforceRetentionLocked pe io s db =
     (if \<not> retentionDrops io s then (None, enforceRetentionLocked io s, db)
      else (case postgresRestoreSnapshotLocked pe (snapshotLocked (ioNow io) (retainedStore (ioNow io - stRetentionWindow s) s)) db of
        (Some e, db) \<Rightarrow> (Some e, (enforceRetentionLocked io s)\<lparr>stLastErr := stLastErr s\<rparr>, db)
      | (None, db) \<Rightarrow> (None, enforceRetentionLocked io s, db)))"

text \<open>The end of the writers: the error of the rows, then the retention window, then \<open>persistLocked\<close>.\<close>

definition finishWrite :: "pg_env \<Rightarrow> io_env \<Rightarrow> string option \<times> pg_tables \<Rightarrow> store \<Rightarrow> string option \<times> store \<times> pg_tables" where
  "finishWrite pe io written s =
     (case written of
        (Some e, db) \<Rightarrow> (Some e, s\<lparr>stLastErr := e\<rparr>, db)
      | (None, db) \<Rightarrow> (case pgEnforceRetentionLocked pe io s db of
          (Some e, s, db) \<Rightarrow> (Some e, s\<lparr>stLastErr := e\<rparr>, db)
        | (None, s, db) \<Rightarrow> (let (err, s) = persistLocked io s in (err, s, db))))"

definition pgSetRetention :: "pg_env \<Rightarrow> io_env \<Rightarrow> duration \<Rightarrow> store \<Rightarrow> pg_tables \<Rightarrow> string option \<times> store \<times> pg_tables" where
  "pgSetRetention pe io window s db =
     (let window = (if window < 0 then 0 else window); s = s\<lparr>stRetentionWindow := window\<rparr>
      in if window = 0 then (None, s, db) else finishWrite pe io (None, db) s)"

definition pgAddEvent :: "pg_env \<Rightarrow> io_env \<Rightarrow> event \<Rightarrow> store \<Rightarrow> pg_tables \<Rightarrow> string option \<times> store \<times> pg_tables" where
  "pgAddEvent pe io ev s db =
     (let s = upsertAssetLocked ev (s\<lparr>stEvents := stEvents s @ [ev]\<rparr>)
      in finishWrite (shift (2 + 2 * length (stAssets s)) pe) io (postgresPersistEventLocked pe ev s db) s)"

definition pgAddAlerts :: "pg_env \<Rightarrow> io_env \<Rightarrow> alert list \<Rightarrow> store \<Rightarrow> pg_tables \<Rightarrow> (alert list \<times> string option) \<times> store \<times> pg_tables" where
  "pgAddAlerts pe io als s db =
     (let (added, s) = addAlertsLoop als s in
      if added = [] then ((added, None), s, db)
      else (let (err, s, db) = finishWrite (shift (2 * length added + 2 * length (stAssets s)) pe) io
                  (postgresPersistAlertsLocked pe added s db) s
            in ((if err = None then added else [], err), s, db)))"

definition pgAddActions :: "pg_env \<Rightarrow> io_env \<Rightarrow> response_action list \<Rightarrow> store \<Rightarrow> pg_tables \<Rightarrow> string option \<times> store \<times> pg_tables" where
  "pgAddActions pe io acs s db =
     (let s = s\<lparr>stActions := stActions s @ acs\<rparr>
      in finishWrite (shift (2 * length acs) pe) io (postgresPersistActionsLocked pe acs db) s)"

definition pgFinishAction ::
  "pg_env \<Rightarrow> io_env \<Rightarrow> string \<Rightarrow> (response_action \<Rightarrow> response_action) \<Rightarrow> store \<Rightarrow> pg_tables \<Rightarrow> action_result \<times> store \<times> pg_tables" where
  "pgFinishAction pe io i f s db =
     (let s = s\<lparr>stActions := update_first (\<lambda>a. raID a = i) f (stActions s)\<rparr> in
      case postgresPersistActionsLocked pe [the (GetAction s i)] db of
        (Some e, db) \<Rightarrow> ((empty_action, True, Some e), s\<lparr>stLastErr := e\<rparr>, db)
      | (None, db) \<Rightarrow> (case persistLocked io s of
          (Some e, s) \<Rightarrow> ((empty_action, True, Some e), s, db) | (None, s) \<Rightarrow> ((the (GetAction s i), True, None), s, db)))"

definition pgApproveAction :: "pg_env \<Rightarrow> io_env \<Rightarrow> string \<Rightarrow> string \<Rightarrow> time \<Rightarrow> store \<Rightarrow> pg_tables \<Rightarrow> action_result \<times> store \<times> pg_tables" where
  "pgApproveAction pe io i approvedBy approvedAt s db =
     (case GetAction s i of
        None \<Rightarrow> ((empty_action, False, None), s, db)
      | Some a \<Rightarrow>
          if (raType a = ''gateway_tool_call'' \<or> raType a = ''mcp_proxy'') \<and> raExecutionStatus a = ''blocked''
          then ((empty_action, True, Some ''blocked gateway actions cannot be approved''), s, db)
          else pgFinishAction pe io i (approve approvedBy approvedAt) s db)"

definition pgRecordActionExecution ::
  "pg_env \<Rightarrow> io_env \<Rightarrow> string \<Rightarrow> time \<Rightarrow> string \<Rightarrow> string \<Rightarrow> store \<Rightarrow> pg_tables \<Rightarrow> action_result \<times> store \<times> pg_tables" where
  "pgRecordActionExecution pe io i executedAt status executionErr s db =
     (case GetAction s i of
        None \<Rightarrow> ((empty_action, False, None), s, db)
      | Some a \<Rightarrow> pgFinishAction pe io i (executed executedAt status executionErr) s db)"

definition pgAddAudit :: "pg_env \<Rightarrow> runtime \<Rightarrow> host_os \<Rightarrow> audit_event \<Rightarrow> store \<Rightarrow> pg_tables \<Rightarrow> string option \<times> store \<times> pg_tables" where
  "pgAddAudit pe rt os ev s db =
     (case postgresAddAuditLocked pe rt os ev s db of
        (Inl e, s, db) \<Rightarrow> (Some e, s\<lparr>stLastErr := e\<rparr>, db)
      | (Inr recorded, s, db) \<Rightarrow> (None, s\<lparr>stAudits := stAudits s @ [recorded], stLastErr := []\<rparr>, db))"

definition pgAuditChain :: "pg_env \<Rightarrow> runtime \<Rightarrow> host_os \<Rightarrow> store \<Rightarrow> pg_tables \<Rightarrow> audit_chain_snapshot" where
  "pgAuditChain pe rt os s db = finalizeAuditChainSnapshot (postgresAuditChainSnapshot pe rt os s db)"

definition pgRestoreSnapshot :: "pg_env \<Rightarrow> io_env \<Rightarrow> snapshot_data \<Rightarrow> store \<Rightarrow> pg_tables \<Rightarrow> string option \<times> store \<times> pg_tables" where
  "pgRestoreSnapshot pe io snap s db =
     (if snapshotVersion < snVersion snap then (Some ''snapshot version is newer than this binary supports'', s, db)
      else (let restored = loadSnapshot (snap\<lparr>snAssets := map_option cloneAssets (snAssets snap)\<rparr>) NewStore;
                saved = snapshotLocked (ioNow io) restored in
        case postgresRestoreSnapshotLocked pe saved db of
          (Some e, db) \<Rightarrow> (Some e, s, db)
        | (None, db) \<Rightarrow>
            (let s = s\<lparr>stEvents := stEvents restored, stAlerts := stAlerts restored, stActions := stActions restored,
                       stAudits := stAudits restored, stAssets := cloneAssets (stAssets restored)\<rparr>;
                 s = (rebuildFingerprintsLocked s)\<lparr>stLastErr := []\<rparr>
             in case pgEnforceRetentionLocked (shift (2 + 2 * (length (snEvents saved) + length (snAlerts saved) + length (snActions saved)
                    + length (snAudits saved) + length (stAssets restored))) pe) io s db of
                  (Some e, s, db) \<Rightarrow> (Some e, s, db)
                | (None, s, db) \<Rightarrow> (let (err, s) = persistLocked io s in (err, s, db)))))"

end
