(* ===== verification/SharedStore.thy ===== *)
theory SharedStore
  imports Postgres
begin

text \<open>
  Several instances on one database: under which interleavings of their operations the audit table stays one chain, how the shared lockout decides
  as the in-memory one, and what the instances do to each other where the code relies on a single writer.
\<close>

section \<open>The shared chain\<close>

text \<open>Rows that are in order stay as they are.\<close>

lemma orderRows_sorted: "sorted_wrt le xs \<Longrightarrow> orderRows le xs = xs"
proof (induction xs)
  case (Cons x xs)
  then have "insertRow le x xs = x # xs"
    by (cases xs) auto
  with Cons show ?case
    by (simp add: orderRows_def)
qed (simp add: orderRows_def)

text \<open>
  The table holds a chain: the rows, in the order in which they were written, are text that JSON keeps, they are linked, their indices count
  from one, and the chain state is that of the last row.
\<close>

definition chain_state_ok :: "runtime \<Rightarrow> host_os \<Rightarrow> audit_event list \<Rightarrow> chain_row \<Rightarrow> bool" where
  "chain_state_ok rt os evs row \<longleftrightarrow> csHead row = chain_head auHash [] evs \<and> csIndex row = int (length evs) \<and>
     (evs \<noteq> [] \<longrightarrow> csAnchor row = auditChainAnchorValue rt os (csHead row) (csIndex row) True)"

definition shared_chain :: "runtime \<Rightarrow> host_os \<Rightarrow> pg_tables \<Rightarrow> audit_event list \<Rightarrow> bool" where
  "shared_chain rt os db evs \<longleftrightarrow> ptAudits db = map (\<lambda>e. (auID e, auditRow e)) evs \<and> (\<forall>e \<in> set evs. json_audit e = e) \<and>
     audits_linked rt [] evs \<and>
     map auChainIndex evs = map (\<lambda>i. int i + 1) [0..<length evs] \<and>
     (case ptChain db of None \<Rightarrow> evs = [] | Some row \<Rightarrow> chain_state_ok rt os evs row)"

lemma shared_chain_index:
  assumes "shared_chain rt os db evs" "i < length evs"
  shows "auChainIndex (evs ! i) = int i + 1"
  using assms unfolding shared_chain_def by (metis (no_types, lifting) add_0 length_map length_upt map_upt_eqI minus_nat.diff_0 nth_map nth_upt)

lemma shared_chain_sorted:
  assumes "shared_chain rt os db evs"
  shows "sorted_wrt (chainLE pe) (ptAudits db)"
proof -
  have "chainLE pe (auID (evs ! i), auditRow (evs ! i)) (auID (evs ! j), auditRow (evs ! j))" if "i < j" "j < length evs" for i j
    using that shared_chain_index [OF assms, of i] shared_chain_index [OF assms, of j]
    by (simp add: chainLE_def nullsLast_def auditRow_def json_audit_def Let_def)
  then show ?thesis
    using assms by (simp add: shared_chain_def sorted_wrt_iff_nth_less)
qed

subsection \<open>Adding records\<close>

lemma chainedEvent_fields:
  "auID (chainedEvent rt row ev) = auID ev" "auChainIndex (chainedEvent rt row ev) = csIndex row + 1"
  "auPrevHash (chainedEvent rt row ev) = csHead row" "auHash (chainedEvent rt row ev) = auditEventHash rt (chainedEvent rt row ev) (csHead row)"
  by (simp_all add: chainedEvent_def Let_def)

lemma gm_put_fresh: "k \<notin> fst ` set m \<Longrightarrow> gm_put k v m = m @ [(k, v)]"
  by (induction m) auto

text \<open>A record in the state of the chain stays text: the digests are hexadecimal.\<close>

lemma shared_chain_head_text:
  assumes "shared_chain rt os db evs"
  shows "json_text (chain_head auHash [] evs) = chain_head auHash [] evs"
proof (cases evs rule: rev_cases)
  case (snoc as a)
  then have "json_audit a = a"
    using assms by (simp add: shared_chain_def)
  then have "json_text (auHash a) = auHash a"
    by (metis audit_event.select_convs(6) json_audit_def)
  with snoc show ?thesis by (simp add: chain_head_def)
qed (simp add: chain_head_def)

lemma chainedEvent_text:
  assumes "json_audit ev = ev" "json_text (csHead row) = csHead row"
  shows "json_audit (chainedEvent rt row ev) = chainedEvent rt row ev"
proof -
  have "json_audit (e\<lparr>auChainIndex := i, auPrevHash := p, auHash := h\<rparr>) =
      (json_audit e)\<lparr>auChainIndex := i, auPrevHash := json_text p, auHash := json_text h\<rparr>" for e :: audit_event and i p h
    by (simp add: json_audit_def)
  then show ?thesis
    using assms by (simp add: chainedEvent_def Let_def json_text_hash)
qed

lemma shared_chain_add:
  assumes "shared_chain rt os db evs" "auID ev \<notin> fst ` set (ptAudits db)" "json_audit ev = ev"
    and "ev' = chainedEvent rt (case ptChain db of None \<Rightarrow> zeroChain | Some row \<Rightarrow> row) ev"
  shows "shared_chain rt os (db\<lparr>ptAudits := gm_put (auID ev') (auditRow ev') (ptAudits db), ptChain := Some (chainRow rt os ev')\<rparr>) (evs @ [ev'])"
proof -
  let ?row = "case ptChain db of None \<Rightarrow> zeroChain | Some row \<Rightarrow> row"
  have row: "csHead ?row = chain_head auHash [] evs" "csIndex ?row = int (length evs)"
    using assms(1) by (auto simp: shared_chain_def chain_state_ok_def zeroChain_def chain_head_def split: option.splits)
  have ev': "auID ev' = auID ev" "auChainIndex ev' = int (length evs) + 1" "auPrevHash ev' = chain_head auHash [] evs"
      "auHash ev' = auditEventHash rt ev' (chain_head auHash [] evs)"
    using chainedEvent_fields [of rt ?row ev] row assms(4) by simp_all
  have "json_audit ev' = ev'"
    using chainedEvent_text [OF assms(3), of ?row rt] row(1) shared_chain_head_text [OF assms(1)] assms(4) by simp
  moreover have "audits_linked rt [] (evs @ [ev'])"
    using assms(1) ev' audit_chain.chain_snoc [of rt "[]" evs ev'] by (simp add: shared_chain_def)
  moreover have "ptAudits (db\<lparr>ptAudits := gm_put (auID ev') (auditRow ev') (ptAudits db)\<rparr>) = map (\<lambda>e. (auID e, auditRow e)) (evs @ [ev'])"
    using assms(1,2) ev'(1) by (simp add: gm_put_fresh shared_chain_def)
  moreover have "chain_state_ok rt os (evs @ [ev']) (chainRow rt os ev')"
    using ev'(2) by (simp add: chain_state_ok_def chainRow_def chain_head_def)
  ultimately show ?thesis
    using assms(1) ev'(2) by (simp add: shared_chain_def)
qed

lemma pgAddAudit_chain:
  assumes "shared_chain rt os db evs" "auID ev \<notin> fst ` set (ptAudits db)" "json_audit ev = ev" "pgAddAudit pe rt os ev s db = (err, s', db')"
  obtains "db' = db" "err \<noteq> None" | ev' where "shared_chain rt os db' (evs @ [ev'])" "auditMessage ev' [] = auditMessage ev []"
proof -
  let ?ev = "chainedEvent rt (case ptChain db of None \<Rightarrow> zeroChain | Some row \<Rightarrow> row) ev"
  note added = shared_chain_add [OF assms(1-3) refl]
  have "auditMessage ?ev [] = auditMessage ev []"
    by (simp add: chainedEvent_def Let_def)
  then show ?thesis
    using assms(4) added that
    by (auto simp: pgAddAudit_def postgresAddAuditLocked_def Let_def split: option.splits if_splits commit_outcome.splits)
qed

subsection \<open>Other operations\<close>

definition same_chain :: "pg_tables \<Rightarrow> pg_tables \<Rightarrow> bool" where
  "same_chain db db' \<longleftrightarrow> ptAudits db' = ptAudits db \<and> ptChain db' = ptChain db"

lemma same_chain_refl [simp, intro]: "same_chain db db"
  by (simp add: same_chain_def)

lemma same_chain_trans: "same_chain a b \<Longrightarrow> same_chain b c \<Longrightarrow> same_chain a c"
  by (simp add: same_chain_def)

lemma same_chain_shared: "same_chain db db' \<Longrightarrow> shared_chain rt os db' evs \<longleftrightarrow> shared_chain rt os db evs"
  by (simp add: same_chain_def shared_chain_def)

text \<open>What every statement of a loop keeps, the loop keeps; what each of them adds, the loop collects.\<close>

lemma writeEach_frame:
  assumes "\<And>x db db'. put x db = Inr db' \<Longrightarrow> f db' = f db"
  shows "f (snd (writeEach pe n put xs db)) = f db"
  using assms
proof (induction pe n put xs db rule: writeEach.induct)
  case (2 pe n put x xs db)
  then show ?case
    by (cases "put x db") (auto split: option.split)
qed simp

lemma writeEach_kept:
  assumes "\<And>x db db'. put x db = Inr db' \<Longrightarrow> f db' = f db" "writeEach pe n put xs db = (e, db')"
  shows "f db' = f db"
  using writeEach_frame [of put f pe n xs db] assms by simp

lemma writeEach_collect:
  assumes "\<And>x db db'. put x db = Inr db' \<Longrightarrow> f db' = insert (key x) (f db)" "writeEach pe n put xs db = (None, db')"
  shows "f db' = f db \<union> key ` set xs"
  using assms
proof (induction pe n put xs db rule: writeEach.induct)
  case (2 pe n put x xs db)
  then obtain db1 where "put x db = Inr db1" "writeEach pe (n + 2) put xs db1 = (None, db')" "firstFault pe [n, n + 1] = None"
    by (auto split: option.splits sum.splits)
  with 2 show ?case
    by auto
qed simp

lemma writeEach_same:
  assumes "\<And>x db db'. put x db = Inr db' \<Longrightarrow> same_chain db db'"
  shows "same_chain db (snd (writeEach pe n put xs db))"
  using writeEach_frame [of put "\<lambda>db. (ptAudits db, ptChain db)" pe n xs db] assms by (simp add: same_chain_def)

lemma upserts_same:
  "upsertEvent ev db = Inr db' \<Longrightarrow> same_chain db db'" "upsertAlert al db = Inr db' \<Longrightarrow> same_chain db db'"
  "upsertAction ac db = Inr db' \<Longrightarrow> same_chain db db'" "upsertAssetRow a db = Inr db' \<Longrightarrow> same_chain db db'"
  by (auto simp: same_chain_def upsertEvent_def upsertAlert_def upsertAction_def upsertAssetRow_def split: if_splits)

lemma writes_same:
  "same_chain db (snd (writeEach pe n upsertEvent evs db))" "same_chain db (snd (writeEach pe n upsertAlert als db))"
  "same_chain db (snd (writeEach pe n upsertAction acs db))" "same_chain db (snd (writeEach pe n upsertAssetRow assets db))"
  using upserts_same by (blast intro: writeEach_same)+

lemma then_same:
  assumes "same_chain db (snd w)" "\<And>db'. same_chain db' (snd (f db'))"
  shows "same_chain db (snd (case w of (Some e, db) \<Rightarrow> (Some e, db) | (None, db) \<Rightarrow> f db))"
  using assms same_chain_trans by (fastforce split: prod.split option.split)

lemma persists_same:
  "same_chain db (snd (postgresPersistEventLocked pe ev s db))" "same_chain db (snd (postgresPersistAlertsLocked pe als s db))"
  "same_chain db (snd (postgresPersistActionsLocked pe acs db))"
  unfolding postgresPersistEventLocked_def postgresPersistAlertsLocked_def postgresPersistActionsLocked_def postgresPersistAssetsLocked_def
  by (intro then_same writes_same)+

text \<open>Without a retention window nothing is truncated.\<close>

lemma finishWrite_same:
  assumes "stRetentionWindow s = 0" "same_chain db (snd written)"
  shows "same_chain db (snd (snd (finishWrite pe io written s)))"
  using assms by (auto simp: finishWrite_def pgEnforceRetentionLocked_def retentionDrops_def enforceRetentionLocked_def
      split: prod.split option.split)

lemma pgAddEvent_same: "stRetentionWindow s = 0 \<Longrightarrow> same_chain db (snd (snd (pgAddEvent pe io ev s db)))"
  unfolding pgAddEvent_def Let_def by (rule finishWrite_same [OF _ persists_same(1)]) simp

lemma pgAddAlerts_same:
  assumes "stRetentionWindow s = 0"
  shows "same_chain db (snd (snd (pgAddAlerts pe io als s db)))"
proof (cases "addAlertsLoop als s")
  case (Pair added s1)
  then have "stRetentionWindow s1 = 0"
    using assms loop_fields(5) [of als s] by simp
  then have "same_chain db (snd (snd (finishWrite pe' io (postgresPersistAlertsLocked pe added s1 db) s1)))" for pe'
    using finishWrite_same persists_same(2) by blast
  then show ?thesis
    unfolding pgAddAlerts_def Pair Let_def by (auto split: prod.split) (metis snd_conv)
qed

lemma pgAddActions_same: "stRetentionWindow s = 0 \<Longrightarrow> same_chain db (snd (snd (pgAddActions pe io acs s db)))"
  unfolding pgAddActions_def Let_def by (rule finishWrite_same [OF _ persists_same(3)]) simp

lemma pgFinishAction_same: "same_chain db (snd (snd (pgFinishAction pe io i f s db)))"
  using persists_same(3) [of db pe] by (auto simp: pgFinishAction_def Let_def split: prod.splits option.splits) (metis snd_conv)+

lemma pgActions_same:
  "same_chain db (snd (snd (pgApproveAction pe io i by at s db)))" "same_chain db (snd (snd (pgRecordActionExecution pe io i at status e s db)))"
  using pgFinishAction_same by (auto simp: pgApproveAction_def pgRecordActionExecution_def split: option.split)

lemma logins_same: "same_chain db (snd (postgresRecordLoginAttempt pe key success db))"
  by (auto simp: postgresRecordLoginAttempt_def readLoginRow_def writeLoginRow_def same_chain_def Let_def split: option.split sum.split)

lemma login_write_same: "same_chain db (snd (writeLoginRow pe key row db))"
  by (auto simp: writeLoginRow_def same_chain_def Let_def split: option.split)

subsection \<open>Starting an instance\<close>

definition migrated :: "pg_tables \<Rightarrow> pg_tables \<Rightarrow> bool" where
  "migrated db db' \<longleftrightarrow> ptAudits db' = ptAudits db \<and> (ptChain db' = ptChain db \<or> ptChain db = None \<and> ptChain db' = Some zeroChain)"

lemma migrated_trans: "migrated a b \<Longrightarrow> migrated b c \<Longrightarrow> migrated a c"
  by (auto simp: migrated_def)

lemma apply_migrated: "migrated db (snd (applyPostgresMigration pe m db))"
  by (auto simp: applyPostgresMigration_def migrated_def migrationRows_def Let_def split: option.split commit_outcome.split)

lemma migrateLoop_migrated: "migrated db (snd (migrateLoop pe applied ms db))"
proof (induction pe applied ms db rule: migrateLoop.induct)
  case (2 pe applied m ms db)
  then show ?case
    using apply_migrated [of db pe m] migrated_trans by (fastforce split: prod.split option.split)
qed (simp add: migrated_def)

lemma postgresMigrate_migrated:
  "migrated db (snd (postgresMigrate pe s db))"
  "fst (postgresMigrate pe s db) = Inr s' \<Longrightarrow> stAudits s' = stAudits s"
  using migrateLoop_migrated [of db "shift 4 pe" "map fst (ptMigrations db)" postgresMigrations]
  by (auto simp: postgresMigrate_def migrated_def split: option.splits prod.splits)

lemma migrated_shared: "shared_chain rt os db evs \<Longrightarrow> migrated db db' \<Longrightarrow> shared_chain rt os db' evs"
  by (auto simp: shared_chain_def migrated_def chain_state_ok_def zeroChain_def chain_head_def)

text \<open>The order of the load is the order of the chain.\<close>

definition loads_in_order :: "pg_env \<Rightarrow> pg_tables \<Rightarrow> bool" where
  "loads_in_order pe db \<longleftrightarrow> orderRows (timedLE pe) (ptAudits db) = orderRows (chainLE pe) (ptAudits db)"

lemma shift_order: "loads_in_order (shift k pe) db = loads_in_order pe db"
  by (simp add: loads_in_order_def timedLE_def [abs_def] chainLE_def [abs_def] shift_def)

lemma loadRows_audits:
  assumes "postgresLoadRows pe rt os db s = Inr s'"
  obtains s1 where "s' = rebuildAuditChainLocked rt os s1" "stAudits s1 = stAudits s @ map (trData \<circ> snd) (orderRows (timedLE pe) (ptAudits db))"
  using assms
  by (auto simp: postgresLoadRows_def postgresLoadEvents_def postgresLoadAlerts_def postgresLoadActions_def postgresLoadAssets_def
      postgresLoadAudits_def readRows_def Let_def split: sum.splits option.splits if_splits)

text \<open>What a load leaves in memory about the chain it has read.\<close>

definition loaded_ok :: "runtime \<Rightarrow> host_os \<Rightarrow> store \<Rightarrow> bool" where
  "loaded_ok rt os s \<longleftrightarrow> stAuditChainHead s = chain_head auHash [] (stAudits s) \<and>
     stAuditChainAnchor s = auditChainAnchorValue rt os (stAuditChainHead s) (int (length (stAudits s))) True"

lemma shared_chain_data:
  assumes "shared_chain rt os db evs"
  shows "map (trData \<circ> snd) (ptAudits db) = evs"
  using assms by (simp add: shared_chain_def auditRow_def comp_def map_same)

lemma loadRows_shared:
  assumes "digests_32 rt" "shared_chain rt os db evs" "loads_in_order pe db" "stAudits s = []"
    and "postgresLoadRows pe rt os db s = Inr s'"
  shows "stAudits s' = evs \<and> loaded_ok rt os s'"
proof -
  obtain s1 where s1: "s' = rebuildAuditChainLocked rt os s1" "stAudits s1 = map (trData \<circ> snd) (orderRows (timedLE pe) (ptAudits db))"
    using loadRows_audits [OF assms(5)] assms(4) by auto
  then have audits: "stAudits s1 = evs"
    using assms(3) orderRows_sorted [OF shared_chain_sorted [OF assms(2)]] shared_chain_data [OF assms(2)]
    by (simp add: loads_in_order_def)
  have linked: "audits_linked rt [] evs" "\<forall>a \<in> set evs. auChainIndex a \<noteq> 0"
    using assms(2) shared_chain_index [OF assms(2)] by (auto simp: shared_chain_def in_set_conv_nth)
  have "evs \<noteq> [] \<Longrightarrow> auChainIndex (last evs) = int (length evs)"
    using shared_chain_index [OF assms(2), of "length evs - 1"] by (cases evs rule: rev_cases) simp_all
  then have "rebuildLoop rt evs [] 0 True = (chain_head auHash [] evs, int (length evs), True)"
    using rebuildLoop_linked [OF assms(1) linked, of 0] by auto
  then show ?thesis
    by (simp add: s1(1) loaded_ok_def rebuildAuditChainLocked_def audits Let_def)
qed

lemma sync_shared:
  assumes "shared_chain rt os db evs" "loaded_ok rt os s" "stAudits s = evs" "postgresSyncAuditChainState pe s db = (err, db')"
  shows "shared_chain rt os db' evs"
  using assms
  by (auto simp: postgresSyncAuditChainState_def shared_chain_def chain_state_ok_def loaded_ok_def split: option.splits if_splits)

subsection \<open>The check of the chain\<close>

definition healthy :: "pg_env \<Rightarrow> bool" where
  "healthy pe \<longleftrightarrow> (\<forall>n. peFault pe n = None) \<and> (\<forall>i. \<not> peUndecodable pe i) \<and> peRowsErr pe = None"

lemma chainLoop_linked:
  assumes "healthy pe" "digests_32 rt" "audits_linked rt p evs" "\<forall>e \<in> set evs. json_audit e = e"
  shows "acTotal (chainLoop pe rt n (map (\<lambda>e. (auID e, auditRow e)) evs) p snap) = acTotal snap + int (length evs) \<and>
    acLinked (chainLoop pe rt n (map (\<lambda>e. (auID e, auditRow e)) evs) p snap) = acLinked snap + int (length evs) \<and>
    acHead (chainLoop pe rt n (map (\<lambda>e. (auID e, auditRow e)) evs) p snap) = chain_head auHash (acHead snap) evs \<and>
    acValid (chainLoop pe rt n (map (\<lambda>e. (auID e, auditRow e)) evs) p snap) = acValid snap"
  using assms(3,4)
proof (induction evs arbitrary: p n snap)
  case (Cons e evs)
  then have "TrimSpace (auHash e) \<noteq> []" "\<not> peUndecodable pe (auID e)" "peFault pe n = None" "trData (auditRow e) = e"
    using auditEventHash_nonblank [OF assms(2)] assms(1) by (simp_all add: healthy_def auditRow_def)
  moreover have "auditEventHash rt e (auPrevHash e) = auHash e" "p = auPrevHash e" "audits_linked rt (auHash e) evs" "\<forall>e \<in> set evs. json_audit e = e"
    using Cons.prems by auto
  ultimately show ?case
    by (simp add: Cons.IH chain_head_def Let_def)
qed (simp add: chain_head_def)

lemma shared_chain_reported:
  assumes "healthy pe" "digests_32 rt" "shared_chain rt os db evs" "ptChain db \<noteq> None"
  shows "acValid (pgAuditChain pe rt os s db)" "acTotal (pgAuditChain pe rt os s db) = int (length evs)"
    "acUnlinked (pgAuditChain pe rt os s db) = 0" "acHead (pgAuditChain pe rt os s db) = chain_head auHash [] evs"
proof -
  let ?snap = "chainLoop pe rt 2 (orderRows (chainLE pe) (ptAudits db)) [] zeroSnapshot"
  have rows: "orderRows (chainLE pe) (ptAudits db) = map (\<lambda>e. (auID e, auditRow e)) evs" and linked: "audits_linked rt [] evs" "\<forall>e \<in> set evs. json_audit e = e"
    using orderRows_sorted [OF shared_chain_sorted [OF assms(3)]] assms(3) by (simp_all add: shared_chain_def)
  have snap: "acTotal ?snap = int (length evs)" "acLinked ?snap = int (length evs)" "acHead ?snap = chain_head auHash [] evs" "acValid ?snap"
    unfolding rows using chainLoop_linked [OF assms(1,2) linked] by (simp_all add: zeroSnapshot_def)
  have head: "acHead ?snap = [] \<longleftrightarrow> evs = []"
    using snap(3) audit_chain.chain_head_nonempty [OF linked(1)] auditEventHash_nonblank [OF assms(2)] by (auto simp: chain_head_def)
  obtain row where row: "ptChain db = Some row" "chain_state_ok rt os evs row"
    using assms(3,4) by (auto simp: shared_chain_def)
  have ok: "firstFault pe [0, 1] = None" "peRowsErr pe = None"
    using assms(1) by (simp_all add: healthy_def)
  show "acValid (pgAuditChain pe rt os s db)" "acTotal (pgAuditChain pe rt os s db) = int (length evs)"
    "acUnlinked (pgAuditChain pe rt os s db) = 0" "acHead (pgAuditChain pe rt os s db) = chain_head auHash [] evs"
    using snap row ok head unfolding pgAuditChain_def postgresAuditChainSnapshot_def finalizeAuditChainSnapshot_def chain_state_ok_def
    by (auto simp: Let_def simp del: firstFault.simps)
qed

section \<open>Several instances\<close>

text \<open>
  The instances' memories, the instances that are starting, and the shared tables. A step is an operation of one instance, in any environment:
  with any clock and with any of its calls of the database failing. A start takes three steps, between which the others go on: it migrates the
  tables, it reads them, and it writes the chain state. What the code relies on without enforcing it is a condition of the step: the
  read finds the audit records in the order of the chain; no audit record is added between a start's read and its write of the chain state; the
  records have new identifiers and are text that JSON keeps; no instance has a retention window, and none restores a snapshot.
\<close>

datatype starting = Migrated store | Loaded store

definition remove_at :: "nat \<Rightarrow> 'a list \<Rightarrow> 'a list" where
  "remove_at n xs = take n xs @ drop (Suc n) xs"

inductive cluster_step ::
  "runtime \<Rightarrow> host_os \<Rightarrow> store list \<times> starting list \<times> pg_tables \<Rightarrow> store list \<times> starting list \<times> pg_tables \<Rightarrow> bool" for rt os where
  cl_migrate: "postgresMigrate pe (NewStore\<lparr>stMode := ''postgres'', stPath := redactDSN dsn\<rparr>) db = (Inr s, db') \<Longrightarrow>
    cluster_step rt os (ss, st, db) (ss, st @ [Migrated s], db')"
| cl_migrate_failed: "postgresMigrate pe (NewStore\<lparr>stMode := ''postgres'', stPath := redactDSN dsn\<rparr>) db = (Inl e, db') \<Longrightarrow>
    cluster_step rt os (ss, st, db) (ss, st, db')"
| cl_read: "n < length st \<Longrightarrow> st ! n = Migrated s \<Longrightarrow> loads_in_order pe db \<Longrightarrow> postgresLoadRows pe rt os db s = Inr s' \<Longrightarrow>
    cluster_step rt os (ss, st, db) (ss, st[n := Loaded s'], db)"
| cl_sync: "n < length st \<Longrightarrow> st ! n = Loaded s \<Longrightarrow> map (trData \<circ> snd) (ptAudits db) = stAudits s \<Longrightarrow>
    postgresSyncAuditChainState pe s db = (None, db') \<Longrightarrow> cluster_step rt os (ss, st, db) (ss @ [s], remove_at n st, db')"
| cl_start_failed: "cluster_step rt os (ss, st, db) (ss, remove_at n st, db)"
| cl_audit: "n < length ss \<Longrightarrow> auID ev \<notin> fst ` set (ptAudits db) \<Longrightarrow> json_audit ev = ev \<Longrightarrow>
    pgAddAudit pe rt os ev (ss ! n) db = (err, s, db') \<Longrightarrow> cluster_step rt os (ss, st, db) (ss[n := s], st, db')"
| cl_event: "n < length ss \<Longrightarrow> stRetentionWindow (ss ! n) = 0 \<Longrightarrow> pgAddEvent pe io ev (ss ! n) db = (err, s, db') \<Longrightarrow>
    cluster_step rt os (ss, st, db) (ss[n := s], st, db')"
| cl_alerts: "n < length ss \<Longrightarrow> stRetentionWindow (ss ! n) = 0 \<Longrightarrow> pgAddAlerts pe io als (ss ! n) db = (res, s, db') \<Longrightarrow>
    cluster_step rt os (ss, st, db) (ss[n := s], st, db')"
| cl_actions: "n < length ss \<Longrightarrow> stRetentionWindow (ss ! n) = 0 \<Longrightarrow> pgAddActions pe io acs (ss ! n) db = (err, s, db') \<Longrightarrow>
    cluster_step rt os (ss, st, db) (ss[n := s], st, db')"
| cl_approve: "n < length ss \<Longrightarrow> pgApproveAction pe io i approver t (ss ! n) db = (out, s, db') \<Longrightarrow>
    cluster_step rt os (ss, st, db) (ss[n := s], st, db')"
| cl_executed: "n < length ss \<Longrightarrow> pgRecordActionExecution pe io i t status e (ss ! n) db = (out, s, db') \<Longrightarrow>
    cluster_step rt os (ss, st, db) (ss[n := s], st, db')"
| cl_login: "postgresRecordLoginAttempt pe key success db = (wait, db') \<Longrightarrow> cluster_step rt os (ss, st, db) (ss, st, db')"
| cl_login_write: "writeLoginRow pe key row db = (wait, db') \<Longrightarrow> cluster_step rt os (ss, st, db) (ss, st, db')"

inductive cluster_run ::
  "runtime \<Rightarrow> host_os \<Rightarrow> store list \<times> starting list \<times> pg_tables \<Rightarrow> store list \<times> starting list \<times> pg_tables \<Rightarrow> bool" for rt os c where
  cr_none: "cluster_run rt os c c"
| cr_step: "cluster_run rt os c c' \<Longrightarrow> cluster_step rt os c' c'' \<Longrightarrow> cluster_run rt os c c''"

text \<open>
  The invariant: the table is a chain; once an instance serves, the chain state has its row; and a start that has read the tables holds the
  head of what it read.
\<close>

fun starting_ok :: "runtime \<Rightarrow> host_os \<Rightarrow> starting \<Rightarrow> bool" where
  "starting_ok rt os (Migrated s) \<longleftrightarrow> stAudits s = []"
| "starting_ok rt os (Loaded s) \<longleftrightarrow> loaded_ok rt os s"

fun cluster_ok :: "runtime \<Rightarrow> host_os \<Rightarrow> audit_event list \<Rightarrow> store list \<times> starting list \<times> pg_tables \<Rightarrow> bool" where
  "cluster_ok rt os evs (ss, st, db) \<longleftrightarrow>
     shared_chain rt os db evs \<and> (ss \<noteq> [] \<longrightarrow> ptChain db \<noteq> None) \<and> list_all (starting_ok rt os) st"

lemma list_all_remove_at: "list_all P xs \<Longrightarrow> list_all P (remove_at n xs)"
  by (auto simp: remove_at_def list_all_iff dest: in_set_takeD in_set_dropD)

lemma list_all_update: "list_all P xs \<Longrightarrow> P y \<Longrightarrow> list_all P (xs[n := y])"
  using set_update_subset_insert [of xs n y] by (auto simp: list_all_iff)

lemma migrated_chain_row: "migrated db db' \<Longrightarrow> ptChain db \<noteq> None \<Longrightarrow> ptChain db' \<noteq> None"
  by (auto simp: migrated_def)

lemma migrate_ok:
  assumes "cluster_ok rt os evs (ss, st, db)" "postgresMigrate pe s0 db = (m, db')"
  shows "cluster_ok rt os evs (ss, st, db')"
proof -
  have "migrated db db'"
    using postgresMigrate_migrated(1) [of db pe s0] assms(2) by simp
  then show ?thesis
    using assms(1) migrated_shared migrated_chain_row by auto
qed

lemma same_chain_ok:
  "cluster_ok rt os evs (ss, st, db) \<Longrightarrow> same_chain db db' \<Longrightarrow> length ss' = length ss \<Longrightarrow> cluster_ok rt os evs (ss', st, db')"
  using same_chain_shared [of db db'] by (auto simp: same_chain_def)

lemma cluster_step_ok:
  assumes "cluster_step rt os c c'" "digests_32 rt" "cluster_ok rt os evs c"
  shows "\<exists>new. cluster_ok rt os (evs @ new) c'"
  using assms(1,3)
proof cases
  case (cl_migrate pe dsn db s db' ss st)
  have "stAudits s = []"
    using postgresMigrate_migrated(2) [of pe "NewStore\<lparr>stMode := ''postgres'', stPath := redactDSN dsn\<rparr>" db s] cl_migrate(3)
    by (simp add: NewStore_def)
  then show ?thesis
    using migrate_ok [OF _ cl_migrate(3), of rt os evs ss st] assms(3) cl_migrate(1,2) by (intro exI [of _ "[]"]) simp
next
  case (cl_migrate_failed pe dsn db e db' ss st)
  then show ?thesis
    using migrate_ok [OF _ cl_migrate_failed(3), of rt os evs ss st] assms(3) by (intro exI [of _ "[]"]) simp
next
  case (cl_read n st s pe db s' ss)
  have c: "shared_chain rt os db evs" "stAudits s = []" "list_all (starting_ok rt os) st"
    using assms(3) cl_read(1,3,4) by (force simp: list_all_length)+
  then have "loaded_ok rt os s'"
    using loadRows_shared [OF assms(2) c(1) cl_read(5) c(2) cl_read(6)] by simp
  then show ?thesis
    using assms(3) cl_read(1,2) c(3) by (intro exI [of _ "[]"]) (simp add: list_all_update)
next
  case (cl_sync n st s db pe db' ss)
  have c: "shared_chain rt os db evs" "loaded_ok rt os s" "list_all (starting_ok rt os) st"
    using assms(3) cl_sync(1,3,4) by (force simp: list_all_length)+
  have "stAudits s = evs"
    using shared_chain_data [OF c(1)] cl_sync(5) by simp
  then have "shared_chain rt os db' evs" "ptChain db' \<noteq> None"
    using sync_shared [OF c(1,2) _ cl_sync(6)] cl_sync(6)
    by (auto simp: postgresSyncAuditChainState_def split: option.splits if_splits)
  then show ?thesis
    using cl_sync(2) c(3) by (intro exI [of _ "[]"]) (simp add: list_all_remove_at)
next
  case (cl_start_failed ss st db n)
  then show ?thesis
    using assms(3) by (intro exI [of _ "[]"]) (simp add: list_all_remove_at)
next
  case (cl_audit n ss ev db pe err s db' st)
  have "shared_chain rt os db evs"
    using assms(3) cl_audit by simp
  from pgAddAudit_chain [OF this cl_audit(4-6)] show ?thesis
  proof cases
    case 1
    then show ?thesis
      using assms(3) cl_audit by (intro exI [of _ "[]"]) auto
  next
    case (2 ev')
    then show ?thesis
      using assms(3) cl_audit by (intro exI [of _ "[ev']"]) (auto simp: shared_chain_def)
  qed
qed (use assms(3) same_chain_ok [of rt os evs] pgAddEvent_same pgAddAlerts_same pgAddActions_same pgActions_same logins_same login_write_same in
    \<open>(intro exI [of _ "[]"], simp del: cluster_ok.simps, metis length_list_update snd_conv)+\<close>)

lemma cluster_run_ok:
  assumes "cluster_run rt os c c'" "digests_32 rt" "cluster_ok rt os evs c"
  shows "\<exists>new. cluster_ok rt os (evs @ new) c'"
  using assms(1)
proof (induction rule: cluster_run.induct)
  case cr_none
  then show ?case
    using assms(3) by (intro exI [of _ "[]"]) simp
next
  case (cr_step c' c'')
  then show ?case
    using cluster_step_ok [OF _ assms(2)] by (metis append.assoc)
qed

lemma cluster_ok_empty: "cluster_ok rt os [] ([], [], emptyTables)"
  by (simp add: shared_chain_def emptyTables_def)

text \<open>\<open>NewWithPostgres\<close> without interference is the run of its three steps.\<close>

lemma NewWithPostgres_run:
  assumes "digests_32 rt" "cluster_ok rt os evs (ss, st, db)" "loads_in_order pe db" "NewWithPostgres pe rt os dsn db = (Inr s, db')"
  shows "cluster_run rt os (ss, st, db) (ss @ [s], st, db')"
proof -
  let ?s = "NewStore\<lparr>stMode := ''postgres'', stPath := redactDSN dsn\<rparr>"
  obtain s0 db1 where m: "postgresMigrate (shift 2 pe) ?s db = (Inr s0, db1)" and l: "postgresLoadRows (shift 18 pe) rt os db1 s0 = Inr s"
    and y: "postgresSyncAuditChainState (shift 18 pe) s db1 = (None, db')"
    using assms(4) by (auto simp: NewWithPostgres_def postgresLoad_def split: option.splits sum.splits prod.splits)
  have ok: "cluster_ok rt os evs (ss, st, db1)"
    by (rule migrate_ok [OF assms(2) m])
  have empty: "stAudits s0 = []"
    using postgresMigrate_migrated(2) [of "shift 2 pe" ?s db s0] m by (simp add: NewStore_def)
  have "ptAudits db1 = ptAudits db"
    using postgresMigrate_migrated(1) [of db "shift 2 pe" ?s] m by (simp add: migrated_def)
  then have order: "loads_in_order (shift 18 pe) db1"
    using assms(3) by (simp add: shift_order) (simp add: loads_in_order_def)
  have shared: "shared_chain rt os db1 evs"
    using ok by simp
  have audits: "map (trData \<circ> snd) (ptAudits db1) = stAudits s"
    using loadRows_shared [OF assms(1) shared order empty l] shared_chain_data [OF shared] by simp
  have "cluster_step rt os (ss, st, db) (ss, st @ [Migrated s0], db1)"
    by (rule cl_migrate [OF m])
  moreover have "cluster_step rt os (ss, st @ [Migrated s0], db1) (ss, st @ [Loaded s], db1)"
    using cl_read [of "length st" "st @ [Migrated s0]", OF _ _ order l] by simp
  moreover have "cluster_step rt os (ss, st @ [Loaded s], db1) (ss @ [s], st, db')"
    using cl_sync [of "length st" "st @ [Loaded s]", OF _ _ audits y] by (simp add: remove_at_def)
  ultimately show ?thesis
    by (blast intro: cr_none cr_step)
qed

text \<open>C34: The shared audit log of several instances. From an empty database, for every run in which operations of any number of instances
  interleave and any of their calls of the database fail, on the conditions that no record is added between a start's read of the records and its
  write of the chain state, that this read finds the records in the order of the chain, that the records are text with new identifiers, and that no
  instance has a retention window or restores a snapshot: the audit table stays one chain, in which every record is linked to the record before it
  and the indices count from one; no record that was in the table leaves it or changes; and on an instance that serves, the check of the chain with
  a working database reports a valid chain of all the records with the digest of the last one as its head.\<close>

theorem shared_audit_log:
  assumes "digests_32 rt" "cluster_run rt os ([], [], emptyTables) (ss, st, db)" "cluster_run rt os (ss, st, db) (ss', st', db')"
    and "healthy pe" "n < length ss'"
  shows "\<exists>old new. map (trData \<circ> snd) (ptAudits db) = old \<and> map (trData \<circ> snd) (ptAudits db') = old @ new \<and>
      audits_linked rt [] (old @ new) \<and> map auChainIndex (old @ new) = map (\<lambda>i. int i + 1) [0..<length (old @ new)] \<and>
      acValid (pgAuditChain pe rt os (ss' ! n) db') \<and> acTotal (pgAuditChain pe rt os (ss' ! n) db') = int (length (old @ new)) \<and>
      acUnlinked (pgAuditChain pe rt os (ss' ! n) db') = 0 \<and> acHead (pgAuditChain pe rt os (ss' ! n) db') = chain_head auHash [] (old @ new)"
proof -
  obtain old where old: "cluster_ok rt os old (ss, st, db)"
    using cluster_run_ok [OF assms(2,1) cluster_ok_empty] by auto
  obtain new where new: "cluster_ok rt os (old @ new) (ss', st', db')"
    using cluster_run_ok [OF assms(3,1) old] by blast
  have chain: "shared_chain rt os db' (old @ new)" "ptChain db' \<noteq> None" "shared_chain rt os db old"
    using old new assms(5) by auto
  then have "audits_linked rt [] (old @ new)" "map auChainIndex (old @ new) = map (\<lambda>i. int i + 1) [0..<length (old @ new)]"
    by (simp_all only: shared_chain_def)
  then show ?thesis
    using shared_chain_data [OF chain(1)] shared_chain_data [OF chain(3)]
      shared_chain_reported [OF assms(4,1) chain(1,2), of "ss' ! n"] by blast
qed

text \<open>An instance that starts on an empty database and adds two records.\<close>

definition pg_ok :: "time \<Rightarrow> pg_env" where
  "pg_ok now = \<lparr> peNow = now, peFault = (\<lambda>_. None), peCommit = Committed, peUndecodable = (\<lambda>_. False), peRowsErr = None,
     peTextLE = (\<lambda>x y. True) \<rparr>"

lemma pg_ok_healthy: "healthy (pg_ok now)"
  by (simp add: pg_ok_def healthy_def)

definition pg_first :: "store \<times> pg_tables" where
  "pg_first = (case NewWithPostgres (pg_ok second) digest_runtime audit_host ''dsn'' emptyTables of (r, db) \<Rightarrow> (projr r, db))"

lemma pg_first_started: "NewWithPostgres (pg_ok second) digest_runtime audit_host ''dsn'' emptyTables = (Inr (fst pg_first), snd pg_first)"
proof -
  have "\<not> isl (fst (NewWithPostgres (pg_ok second) digest_runtime audit_host ''dsn'' emptyTables))"
    by code_simp
  then show ?thesis
    unfolding pg_first_def by (simp add: split_beta prod_eq_iff)
qed

definition audit_at :: "string \<Rightarrow> time \<Rightarrow> audit_event" where
  "audit_at i t = (sample_audit ''acme'')\<lparr>auID := i, auTimestamp := t\<rparr>"

definition pg_added :: "audit_event \<Rightarrow> store \<times> pg_tables \<Rightarrow> store \<times> pg_tables" where
  "pg_added ev c = snd (pgAddAudit (pg_ok second) digest_runtime audit_host ev (fst c) (snd c))"

lemma pg_added_step:
  assumes "auID ev \<notin> fst ` set (ptAudits (snd c))" "json_audit ev = ev"
  shows "cluster_step digest_runtime audit_host ([fst c], [], snd c) ([fst (pg_added ev c)], [], snd (pg_added ev c))"
  using cl_audit [of 0 "[fst c]" ev "snd c" "pg_ok second" digest_runtime audit_host] assms
  by (simp add: pg_added_def split_beta prod_eq_iff)

theorem shared_audit_log_witness:
  "acValid (pgAuditChain (pg_ok 9) digest_runtime audit_host (fst (pg_added (audit_at ''a2'' 6) (pg_added (audit_at ''a1'' 5) pg_first)))
     (snd (pg_added (audit_at ''a2'' 6) (pg_added (audit_at ''a1'' 5) pg_first))))"
proof -
  let ?one = "pg_added (audit_at ''a1'' 5) pg_first" and ?two = "pg_added (audit_at ''a2'' 6) (pg_added (audit_at ''a1'' 5) pg_first)"
  have start: "cluster_run digest_runtime audit_host ([], [], emptyTables) ([fst pg_first], [], snd pg_first)"
    using NewWithPostgres_run [OF digest_runtime_32 cluster_ok_empty _ pg_first_started]
    by (simp add: loads_in_order_def emptyTables_def orderRows_def)
  have "cluster_step digest_runtime audit_host ([fst pg_first], [], snd pg_first) ([fst ?one], [], snd ?one)"
    by (rule pg_added_step) code_simp+
  with start have run: "cluster_run digest_runtime audit_host ([], [], emptyTables) ([fst ?one], [], snd ?one)"
    by (rule cr_step)
  have more: "cluster_run digest_runtime audit_host ([fst ?one], [], snd ?one) ([fst ?two], [], snd ?two)"
    by (rule cr_step [OF cr_none]) (rule pg_added_step; code_simp)
  show ?thesis
    using shared_audit_log [OF digest_runtime_32 run more pg_ok_healthy, of 0 9] by auto
qed

section \<open>The shared lockout\<close>

text \<open>
  The table of logins and the in-memory one of an authenticator agree: the same keys with the same counts, and the end of a block up to the
  microseconds of the column.
\<close>

definition row_agrees :: "login_row option \<Rightarrow> login_attempt option \<Rightarrow> bool" where
  "row_agrees row at \<longleftrightarrow> map_option lrFailures row = map_option laFailures at \<and>
     map_option lrBlockedUntil row = map_option (\<lambda>at. Some (pgTime (laBlockedUntil at))) at"

definition logins_agree :: "authenticator \<Rightarrow> pg_tables \<Rightarrow> bool" where
  "logins_agree a db \<longleftrightarrow> (\<forall>k. row_agrees (gm_get (ptLogins db) k) (gm_get (atLogins a) k))"

lemma prune_fresh:
  assumes "\<And>k at. gm_get (atLogins a) k = Some at \<Longrightarrow> \<not> loginExpired now at" "gm_ok (atLogins a)"
  shows "pruneLoginAttemptsLocked now a = a"
proof -
  have "filter (\<lambda>(k, at). \<not> loginExpired now at) (atLogins a) = atLogins a"
    using assms by (intro filter_True) (auto simp: gm_ok_def)
  then show ?thesis
    by (simp add: pruneLoginAttemptsLocked_def)
qed

lemma failed_row_agrees:
  assumes "row_agrees row at" "failedAttempt now (case at of None \<Rightarrow> zeroAttempt | Some at \<Rightarrow> at) = (delay, at')"
  shows "delay = pgDelay (pgFailures row)"
    and "row_agrees (Some \<lparr> lrFailures = pgFailures row, lrBlockedUntil = Some (pgTime (now + delay)), lrLastSeen = t \<rparr>) (Some at')"
proof -
  have "laFailures (case at of None \<Rightarrow> zeroAttempt | Some at \<Rightarrow> at) = (case row of None \<Rightarrow> 0 | Some row \<Rightarrow> lrFailures row)"
    using assms(1) by (auto simp: row_agrees_def zeroAttempt_def split: option.split)
  then show "delay = pgDelay (pgFailures row)"
    and "row_agrees (Some \<lparr> lrFailures = pgFailures row, lrBlockedUntil = Some (pgTime (now + delay)), lrLastSeen = t \<rparr>) (Some at')"
    using assms(2) by (auto simp: failedAttempt_def row_agrees_def pgFailures_def pgDelay_def pgLoginBackoffCap_def loginBackoffCap_def Let_def push_bit_eq_mult)
qed

lemma logins_agree_put:
  "logins_agree a db \<Longrightarrow> row_agrees (Some row) (Some at) \<Longrightarrow>
     logins_agree (a\<lparr>atLogins := gm_put k at (atLogins a)\<rparr>) (db\<lparr>ptLogins := gm_put k row (ptLogins db)\<rparr>)"
  by (simp add: logins_agree_def)

lemma logins_agree_del:
  "logins_agree a db \<Longrightarrow> logins_agree (a\<lparr>atLogins := gm_del k (atLogins a)\<rparr>) (db\<lparr>ptLogins := gm_del k (ptLogins db)\<rparr>)"
  by (simp add: logins_agree_def row_agrees_def)


definition locked_once :: authenticator where
  "locked_once = open_authenticator\<lparr>atLogins := [(''10.0.0.1'', \<lparr> laFailures = 1, laBlockedUntil = 2 * second, laLastSeen = second \<rparr>)]\<rparr>"

definition locked_once_db :: pg_tables where
  "locked_once_db = emptyTables\<lparr>ptLogins := [(''10.0.0.1'', \<lparr> lrFailures = 1, lrBlockedUntil = Some (2 * second), lrLastSeen = second \<rparr>)]\<rparr>"


text \<open>
  After a day the in-memory lockout forgets the failures of a client (\<open>loginAttemptTTL\<close>); the table keeps them: the next failure blocks for a
  second in memory, and here for the cap.
\<close>

theorem shared_lockout_never_forgets:
  "fst (postgresRecordLoginAttempt (pg_ok (1000 * hour)) ''10.0.0.1'' False
      (emptyTables\<lparr>ptLogins := [(''10.0.0.1'', \<lparr> lrFailures = 8, lrBlockedUntil = Some hour, lrLastSeen = hour \<rparr>)]\<rparr>)) = Inr minute \<and>
   fst (RecordLoginAttempt (1000 * hour) ''10.0.0.1'' False
      (open_authenticator\<lparr>atLogins := [(''10.0.0.1'', \<lparr> laFailures = 8, laBlockedUntil = hour, laLastSeen = hour \<rparr>)]\<rparr>)) = second"
  by code_simp

text \<open>
  The query and the statement of a failure are not one transaction: when two instances have both read the row before either writes, two failures
  count as one, and the second gives the client no longer delay than the first.
\<close>

theorem concurrent_failures_count_once:
  assumes "healthy pe" "healthy pe'" "readLoginRow pe key db = Inr row" "readLoginRow pe' key db = Inr row'"
    and "writeLoginRow pe key row db = (wait, db')" "writeLoginRow pe' key row' db' = (wait', db'')"
  shows "map_option lrFailures (gm_get (ptLogins db'') key) = Some (pgFailures (gm_get (ptLogins db) key)) \<and> wait' = wait"
  using assms by (auto simp: readLoginRow_def writeLoginRow_def healthy_def Let_def)

section \<open>What instances do to each other\<close>

text \<open>
  The chain hashes the raw bytes of a record, the database keeps its JSON text: a record with a byte that is not UTF-8, which a client can send
  in a header such as \<open>User-Agent\<close>, is stored with another text, and the check reports the chain as broken.
\<close>

theorem invalid_text_breaks_shared_chain:
  "let c = pg_added ((audit_at ''a1'' second)\<lparr>auActor := ''a'', auRoles := [[CHR 0xFF]]\<rparr>) pg_first in
   \<not> acValid (pgAuditChain (pg_ok 9) digest_runtime audit_host (fst c) (snd c))"
  by code_simp

text \<open>
  The load orders the audit records by time, the chain by index. Two instances whose clocks differ write records whose times run
  against the chain: the chain is valid, and the next start of an instance stores a head that is not the last record's, after which the check
  reports the chain as broken.
\<close>

definition pg_restarted :: "pg_tables \<Rightarrow> pg_tables" where
  "pg_restarted db = snd (NewWithPostgres (pg_ok second) digest_runtime audit_host ''dsn'' db)"

theorem restart_breaks_chain:
  "let c = pg_added (audit_at ''a2'' second) (pg_added (audit_at ''a1'' (2 * second)) pg_first) in
   acValid (pgAuditChain (pg_ok 9) digest_runtime audit_host (fst c) (snd c)) \<and>
   \<not> acValid (pgAuditChain (pg_ok 9) digest_runtime audit_host (fst c) (pg_restarted (snd c)))"
  by code_simp

text \<open>
  An instance that starts reads the records and then writes the chain state, without the lock. A record that another instance adds in
  between is left out of the state: the next record gets its index and its predecessor, and the chain forks.
\<close>

definition pg_late_sync :: "audit_event \<Rightarrow> store \<times> pg_tables \<Rightarrow> store \<times> pg_tables" where
  "pg_late_sync ev c =
     (let loaded = projr (postgresLoadRows (pg_ok second) digest_runtime audit_host (snd c) NewStore);
          c' = pg_added ev c
      in (fst c', snd (postgresSyncAuditChainState (pg_ok second) loaded (snd c'))))"

theorem start_forks_chain:
  "let c = pg_late_sync (audit_at ''a2'' (2 * second)) (pg_added (audit_at ''a1'' second) pg_first);
       c' = pg_added (audit_at ''a3'' (3 * second)) c in
   map (auChainIndex \<circ> trData \<circ> snd) (ptAudits (snd c')) = [1, 2, 2] \<and>
   \<not> acValid (pgAuditChain (pg_ok 9) digest_runtime audit_host (fst c') (snd c'))"
  by code_simp

text \<open>
  The retention window of one instance replaces the tables by that instance's memory: the records that only another instance has seen are deleted,
  whatever their age.
\<close>

lemma gm_put_keys: "fst ` set (gm_put k v m) = insert k (fst ` set m)"
  by (induction m) auto

lemma upserts_ids:
  "upsertEvent ev db = Inr db' \<Longrightarrow> fst ` set (ptEvents db') = insert (evID ev) (fst ` set (ptEvents db))"
  "upsertAuditRow au db = Inr db' \<Longrightarrow> fst ` set (ptAudits db') = insert (auID au) (fst ` set (ptAudits db))"
proof -
  assume "upsertEvent ev db = Inr db'"
  then have "ptEvents db' = gm_put (evID ev) \<lparr> trAt = nullableTime (evTimestamp ev), trData = json_event ev \<rparr> (ptEvents db)"
    by (auto simp: upsertEvent_def)
  then show "fst ` set (ptEvents db') = insert (evID ev) (fst ` set (ptEvents db))"
    by (simp only: gm_put_keys)
next
  assume "upsertAuditRow au db = Inr db'"
  then have "ptAudits db' = gm_put (auID au) (auditRow au) (ptAudits db)"
    by (auto simp: upsertAuditRow_def)
  then show "fst ` set (ptAudits db') = insert (auID au) (fst ` set (ptAudits db))"
    by (simp only: gm_put_keys)
qed

lemma upserts_events:
  "upsertAlert al db = Inr db' \<Longrightarrow> ptEvents db' = ptEvents db" "upsertAction ac db = Inr db' \<Longrightarrow> ptEvents db' = ptEvents db"
  "upsertAuditRow au db = Inr db' \<Longrightarrow> ptEvents db' = ptEvents db" "upsertAssetRow a db = Inr db' \<Longrightarrow> ptEvents db' = ptEvents db"
  by (auto simp: upsertAlert_def upsertAction_def upsertAuditRow_def upsertAssetRow_def split: if_splits)

lemma upserts_audits:
  "upsertEvent ev db = Inr db' \<Longrightarrow> ptAudits db' = ptAudits db" "upsertAlert al db = Inr db' \<Longrightarrow> ptAudits db' = ptAudits db"
  "upsertAction ac db = Inr db' \<Longrightarrow> ptAudits db' = ptAudits db" "upsertAssetRow a db = Inr db' \<Longrightarrow> ptAudits db' = ptAudits db"
  using upserts_same by (auto simp: same_chain_def)

lemma restoreRows_ids:
  assumes "restoreRows pe snap db = (None, db')"
  shows "fst ` set (ptEvents db') = evID ` set (snEvents snap)" "fst ` set (ptAudits db') = auID ` set (snAudits snap)"
proof -
  let ?empty = "db\<lparr>ptEvents := [], ptAlerts := [], ptActions := [], ptAudits := [], ptAssets := []\<rparr>"
  obtain d1 d2 d3 d4 n2 n3 n4 n5 where w: "writeEach pe 2 upsertEvent (snEvents snap) ?empty = (None, d1)"
      "writeEach pe n2 upsertAlert (snAlerts snap) d1 = (None, d2)" "writeEach pe n3 upsertAction (snActions snap) d2 = (None, d3)"
      "writeEach pe n4 upsertAuditRow (snAudits snap) d3 = (None, d4)"
      "writeEach pe n5 upsertAssetRow (map snd (case snAssets snap of None \<Rightarrow> [] | Some m \<Rightarrow> m)) d4 = (None, db')"
    using assms unfolding restoreRows_def Let_def postgresInsertEventsTx_def postgresInsertAlertsTx_def postgresInsertActionsTx_def
      postgresInsertAuditsTx_def postgresInsertAssetsTx_def
    by (auto split: prod.splits option.splits)
  note events = writeEach_kept [where f = ptEvents] and audits = writeEach_kept [where f = ptAudits]
  have "ptEvents db' = ptEvents d1"
    using events [OF upserts_events(1) w(2)] events [OF upserts_events(2) w(3)] events [OF upserts_events(3) w(4)] events [OF upserts_events(4) w(5)]
    by simp
  then show "fst ` set (ptEvents db') = evID ` set (snEvents snap)"
    using writeEach_collect [of upsertEvent "\<lambda>d. fst ` set (ptEvents d)" evID, OF upserts_ids(1) w(1)] by simp
  have "ptAudits d3 = []" "ptAudits db' = ptAudits d4"
    using audits [OF upserts_audits(1) w(1)] audits [OF upserts_audits(2) w(2)] audits [OF upserts_audits(3) w(3)] audits [OF upserts_audits(4) w(5)]
    by simp_all
  then show "fst ` set (ptAudits db') = auID ` set (snAudits snap)"
    using writeEach_collect [of upsertAuditRow "\<lambda>d. fst ` set (ptAudits d)" auID, OF upserts_ids(2) w(4)] by simp
qed

theorem retention_deletes_what_others_wrote:
  assumes "retentionDrops io s" "pgEnforceRetentionLocked pe io s db = (None, s', db')"
  shows "fst ` set (ptEvents db') = evID ` set (stEvents s') \<and> fst ` set (ptAudits db') = auID ` set (stAudits s')"
proof -
  let ?r = "retainedStore (ioNow io - stRetentionWindow s) s"
  obtain db'' where r: "postgresRestoreSnapshotLocked pe (snapshotLocked (ioNow io) ?r) db = (None, db'')" "db'' = db'" "s' = enforceRetentionLocked io s"
    using assms by (auto simp: pgEnforceRetentionLocked_def split: prod.splits option.splits)
  have "stEvents s' = stEvents ?r" "stAudits s' = stAudits ?r"
    using assms(1) r(3) by (auto simp: enforceRetentionLocked_def retentionDrops_def Let_def)
  moreover have "restoreRows pe (snapshotLocked (ioNow io) ?r) db = (None, db')"
    using r(1,2) by (auto simp: postgresRestoreSnapshotLocked_def split: option.splits prod.splits commit_outcome.splits)
  ultimately show ?thesis
    using restoreRows_ids [of pe "snapshotLocked (ioNow io) ?r" db db'] by (simp add: snapshotLocked_def)
qed

text \<open>
  An alert that another instance has stored under the same fingerprint: the instance does not know it, its statement violates the unique column, and the
  ingestion of the event fails, while the alert stays in the instance's memory.
\<close>

theorem second_instance_alert_refused:
  assumes "alFingerprint al \<noteq> []" "alFingerprint al \<notin> set (stFingerprints s)" "(i, row) \<in> set (ptAlerts db)" "i \<noteq> alID al"
    and "arFingerprint row = Some (alFingerprint al)" "healthy pe"
  shows "snd (fst (pgAddAlerts pe io [al] s db)) \<noteq> None \<and> stAlerts (fst (snd (pgAddAlerts pe io [al] s db))) = stAlerts s @ [al]"
proof -
  have dup: "\<exists>e. upsertAlert al db = Inl e"
    using assms(1,3,4,5) by (auto simp: upsertAlert_def list_ex_iff)
  have "fst (addAlertsLoop [al] s) = [al]"
    using assms(1,2) by (simp add: addAlertsLoop.simps Let_def)
  then obtain s1 where loop: "addAlertsLoop [al] s = ([al], s1)"
    by (cases "addAlertsLoop [al] s") simp
  then have "stAlerts s1 = stAlerts s @ [al]"
    using loop_fields(1) [of "[al]" s] by simp
  then show ?thesis
    using dup assms(6) unfolding pgAddAlerts_def loop by (auto simp: postgresPersistAlertsLocked_def finishWrite_def healthy_def Let_def)
qed

text \<open>An action is approved in the memory of an instance: one that did not create it, and started before it was created, does not find it.\<close>

lemma added_action_stored:
  assumes "pgAddActions pe io [ac] s db = (None, s', db')" "stRetentionWindow s = 0"
  shows "gm_get (ptActions db') (raID ac) \<noteq> None"
  using assms by (auto simp: pgAddActions_def postgresPersistActionsLocked_def finishWrite_def pgEnforceRetentionLocked_def retentionDrops_def
      upsertAction_def Let_def split: prod.splits option.splits sum.splits)

theorem approval_needs_the_own_instance:
  assumes "pgAddActions pe io [ac] s db = (None, s', db')" "stRetentionWindow s = 0" "GetAction other (raID ac) = None"
  shows "gm_get (ptActions db') (raID ac) \<noteq> None \<and> pgApproveAction pe' io' (raID ac) who t other db' = ((empty_action, False, None), other, db')"
  using added_action_stored [OF assms(1,2)] assms(3) by (simp add: pgApproveAction_def)

end
