(* ===== verification/Ctl.thy ===== *)
theory Ctl
  imports Agent SharedStore License
begin

text \<open>
  The control program (\<open>cmd/oadtdctl/main.go\<close>): its commands, with the requests they send to the server, what they print and what they
  write. The parser of the flags, the files, the HTTP client, the clock and the JSON codecs are arguments. \<open>replay_accounts\<close> says that a
  replay ends and accounts for every event of the file; \<open>awaited_action_returns\<close> that waiting for an approval ends.
\<close>

section \<open>The world of a command\<close>

text \<open>Bodies as the values that are encoded; \<open>RawBody\<close> is text that is sent as it is.\<close>

datatype ctl_json = TextV string | ListV "ctl_json list" | ObjectV "(string \<times> ctl_json) list"

datatype ctl_body =
    NoBody
  | EventsBody "event list"
  | CallBody tool_call_request
  | ApprovalBody string string
  | MCPBody string ctl_json
  | RawBody string

record ctl_request =
  cqMethod :: string
  cqURL :: string
  cqHeaders :: string_map
  cqBody :: ctl_body

datatype ctl_event = Sent ctl_request | Slept duration

text \<open>The flags that a command line sets, by type; a flag that is not set has its default.\<close>

record flag_values =
  fvStr :: "string \<Rightarrow> string option"
  fvInt :: "string \<Rightarrow> int option"
  fvBool :: "string \<Rightarrow> bool option"
  fvDur :: "string \<Rightarrow> duration option"

definition flagOr :: "(string \<Rightarrow> 'v option) \<Rightarrow> string \<Rightarrow> 'v \<Rightarrow> 'v" where
  "flagOr values name def = (case values name of None \<Rightarrow> def | Some v \<Rightarrow> v)"

text \<open>
  \<open>ctDo\<close> answers a request after a history: an error of the transport, or status code, status line and body. \<open>ctBadURL\<close> is the error of
  \<open>http.NewRequest\<close>; \<open>ctMarshal\<close> that of encoding a body; \<open>ctClock\<close> is the time after a history.
\<close>

record ctl_env =
  ctRuntime :: runtime
  ctParse :: "string \<Rightarrow> string list \<Rightarrow> string + flag_values"
  ctStdin :: string
  ctOpen :: "string \<Rightarrow> string + string"
  ctCreate :: "string \<Rightarrow> string option"
  ctDo :: "ctl_event list \<Rightarrow> ctl_request \<Rightarrow> string + int \<times> string \<times> string"
  ctBadURL :: "string \<Rightarrow> string option"
  ctPathEscape :: "string \<Rightarrow> string"
  ctClock :: "ctl_event list \<Rightarrow> time"
  ctMarshal :: "ctl_body \<Rightarrow> string option"
  ctEncodeEvent :: "event \<Rightarrow> string + string"
  ctDecodeEvent :: "string \<Rightarrow> string + event"
  ctAlertsCreated :: "string \<Rightarrow> string + int"
  ctExecution :: "string \<Rightarrow> string + tool_execution_result"
  ctAction :: "string \<Rightarrow> string + response_action"
  ctLicense :: license_lib
  ctEncodeStatus :: "license_status \<Rightarrow> string + string"
  ctCollect :: collector_env
  ctPostgres :: pg_env
  ctIO :: io_env
  ctEncodeSnapshot :: "snapshot_data \<Rightarrow> string + string"
  ctDecodeSnapshot :: "string \<Rightarrow> string + snapshot_data"

text \<open>What a command changes: the requests and waits so far, the lines it wrote (\<open>-\<close> is the standard output), the files and the database.\<close>

record ctl_world =
  cwTrace :: "ctl_event list"
  cwOutput :: "(string \<times> string) list"
  cwHost :: host_os
  cwTables :: pg_tables

datatype ctl_error = CtlError string | PackError pack_error

type_synonym ctl_outcome = "ctl_error option \<times> ctl_world"

definition printLine :: "string \<Rightarrow> ctl_world \<Rightarrow> ctl_world" where
  "printLine line w = w\<lparr>cwOutput := cwOutput w @ [(''-'', line)]\<rparr>"

definition failWith :: "string \<Rightarrow> ctl_world \<Rightarrow> ctl_outcome" where
  "failWith e w = (Some (CtlError e), w)"

definition withFlags :: "ctl_env \<Rightarrow> string \<Rightarrow> string list \<Rightarrow> (flag_values \<Rightarrow> ctl_world \<Rightarrow> ctl_outcome) \<Rightarrow> ctl_world \<Rightarrow> ctl_outcome" where
  "withFlags env name args run w = (case ctParse env name args of Inl e \<Rightarrow> failWith e w | Inr fv \<Rightarrow> run fv w)"

definition openInput :: "ctl_env \<Rightarrow> string \<Rightarrow> string + string" where
  "openInput env path = (if path = ''-'' then Inr (ctStdin env) else ctOpen env path)"

definition openOutput :: "ctl_env \<Rightarrow> string \<Rightarrow> string option" where
  "openOutput env path = (if path = ''-'' then None else ctCreate env path)"

section \<open>Requests\<close>

definition newRequest :: "string \<Rightarrow> string \<Rightarrow> string \<Rightarrow> ctl_body \<Rightarrow> ctl_request" where
  "newRequest method endpoint token body =
     (let headers = (if method = MethodPost then [(''Content-Type'', ''application/json'')] else []) in
      \<lparr> cqMethod = method, cqURL = endpoint,
        cqHeaders = (if token \<noteq> [] then gm_put ''Authorization'' (''Bearer '' @ token) headers else headers), cqBody = body \<rparr>)"

text \<open>Encoding the body, building and sending the request, and reading at most 64 kB of the reply.\<close>

definition sendRequest :: "ctl_env \<Rightarrow> ctl_request \<Rightarrow> ctl_world \<Rightarrow> (string + int \<times> string \<times> string) \<times> ctl_world" where
  "sendRequest env q w =
     (case (if cqBody q = NoBody then None else ctMarshal env (cqBody q)) of
        Some e \<Rightarrow> (Inl e, w)
      | None \<Rightarrow> (case ctBadURL env (cqURL q) of
          Some e \<Rightarrow> (Inl e, w)
        | None \<Rightarrow>
            (case ctDo env (cwTrace w) q of Inl e \<Rightarrow> Inl e | Inr (code, status, body) \<Rightarrow> Inr (code, status, take 65536 body),
             w\<lparr>cwTrace := cwTrace w @ [Sent q]\<rparr>)))"

definition returned :: "ctl_request \<Rightarrow> string \<Rightarrow> string \<Rightarrow> string" where
  "returned q status body = cqMethod q @ '' '' @ cqURL q @ '' returned '' @ status @ '': '' @ TrimSpace body"

text \<open>A request whose reply is decoded when its code is accepted.\<close>

definition exchange :: "ctl_env \<Rightarrow> (int \<Rightarrow> bool) \<Rightarrow> (int \<Rightarrow> string \<Rightarrow> string + 'a) \<Rightarrow> ctl_request \<Rightarrow> ctl_world \<Rightarrow> (string + 'a) \<times> ctl_world" where
  "exchange env accepted decode q w =
     (case sendRequest env q w of
        (Inl e, w) \<Rightarrow> (Inl e, w)
      | (Inr (code, status, body), w) \<Rightarrow> (if \<not> accepted code then Inl (returned q status body) else decode code body, w))"

definition success :: "int \<Rightarrow> bool" where
  "success code \<longleftrightarrow> \<not> (code < 200 \<or> 300 \<le> code)"

definition eventsRequest :: "string \<Rightarrow> string \<Rightarrow> event list \<Rightarrow> ctl_request" where
  "eventsRequest baseURL token evs = newRequest MethodPost (TrimRightSlash baseURL @ ''/api/events'') token (EventsBody evs)"

definition ctlPostEvents :: "ctl_env \<Rightarrow> string \<Rightarrow> string \<Rightarrow> event list \<Rightarrow> ctl_world \<Rightarrow> (string + int) \<times> ctl_world" where
  "ctlPostEvents env baseURL token evs = exchange env success (\<lambda>_. ctAlertsCreated env) (eventsRequest baseURL token evs)"

definition statusOr :: "int \<Rightarrow> tool_execution_result \<Rightarrow> tool_execution_result" where
  "statusOr code x =
     (if xrStatus x = []
      then x\<lparr>xrStatus := (if code = 403 then ''blocked'' else if code = 202 then ''pending_approval'' else ''executed'')\<rparr> else x)"

definition postGatewayExecution :: "ctl_env \<Rightarrow> string \<Rightarrow> string \<Rightarrow> tool_call_request \<Rightarrow> ctl_world \<Rightarrow> (string + tool_execution_result) \<times> ctl_world" where
  "postGatewayExecution env baseURL token rq =
     exchange env (\<lambda>code. code = 200 \<or> code = 202 \<or> code = 403)
       (\<lambda>code body. case ctExecution env body of Inl e \<Rightarrow> Inl e | Inr x \<Rightarrow> Inr (statusOr code x))
       (newRequest MethodPost (TrimRightSlash baseURL @ ''/api/gateway/execute'') token (CallBody rq))"

definition getGatewayAction :: "ctl_env \<Rightarrow> string \<Rightarrow> string \<Rightarrow> string \<Rightarrow> ctl_world \<Rightarrow> (string + response_action) \<times> ctl_world" where
  "getGatewayAction env baseURL token actionID =
     exchange env success (\<lambda>_. ctAction env)
       (newRequest MethodGet (TrimRightSlash baseURL @ ''/api/gateway/actions/'' @ ctPathEscape env actionID) token NoBody)"

definition approveGatewayAction :: "ctl_env \<Rightarrow> string \<Rightarrow> string \<Rightarrow> string \<Rightarrow> string \<Rightarrow> ctl_world \<Rightarrow> (string + response_action) \<times> ctl_world" where
  "approveGatewayAction env baseURL token actionID approvedBy =
     exchange env success (\<lambda>_. ctAction env)
       (newRequest MethodPost (TrimRightSlash baseURL @ ''/api/responses/approve'') token (ApprovalBody actionID approvedBy))"

definition sleep :: "duration \<Rightarrow> ctl_world \<Rightarrow> ctl_world" where
  "sleep d w = w\<lparr>cwTrace := cwTrace w @ [Slept d]\<rparr>"

text \<open>The polling loop; \<open>None\<close> stands for a loop that does not end.\<close>

partial_function (option) pollAction ::
  "ctl_env \<Rightarrow> string \<Rightarrow> string \<Rightarrow> string \<Rightarrow> time \<Rightarrow> duration \<Rightarrow> ctl_world \<Rightarrow> ((string + response_action) \<times> ctl_world) option" where
  "pollAction env baseURL token actionID deadline interval w =
     (case getGatewayAction env baseURL token actionID w of
        (Inl e, w) \<Rightarrow> Some (Inl e, w)
      | (Inr ac, w) \<Rightarrow>
          if raExecutionStatus ac \<noteq> [] \<and> raExecutionStatus ac \<noteq> ''not_required'' then Some (Inr ac, w)
          else if raApprovalStatus ac = ''approved'' then Some (Inr ac, w)
          else if deadline < ctClock env (cwTrace w) then Some (Inl (''timed out waiting for approval of '' @ actionID), w)
          else pollAction env baseURL token actionID deadline interval (sleep interval w))"

definition waitForGatewayActionExecution ::
  "ctl_env \<Rightarrow> string \<Rightarrow> string \<Rightarrow> string \<Rightarrow> duration \<Rightarrow> duration \<Rightarrow> ctl_world \<Rightarrow> ((string + response_action) \<times> ctl_world) option" where
  "waitForGatewayActionExecution env baseURL token actionID timeout interval w =
     pollAction env baseURL token actionID (ctClock env (cwTrace w) + timeout) interval w"

section \<open>Replay\<close>

text \<open>The sum is taken on 64 bits, and the division is rounded towards zero.\<close>

definition batchCount :: "int \<Rightarrow> int \<Rightarrow> int" where
  "batchCount evs sz =
     (if sz < 1 \<or> evs \<le> 0 then 0
      else (let n = sint (word_of_int (evs + sz - 1) :: 64 word) in if 0 \<le> n then n div sz else - (- n div sz)))"

text \<open>The wait before the next attempt; the shift is done on 64 bits, and the comparisons are signed.\<close>

definition retryWait :: "duration \<Rightarrow> nat \<Rightarrow> duration" where
  "retryWait pause attempt =
     (let wait = sint (push_bit attempt (word_of_int pause :: 64 word)) in if 30 * second < wait then 30 * second else wait)"

text \<open>The loop over the attempts, with the number of those left after this one.\<close>

fun retryLoop ::
  "ctl_env \<Rightarrow> string \<Rightarrow> string \<Rightarrow> event list \<Rightarrow> duration \<Rightarrow> nat \<Rightarrow> nat \<Rightarrow> ctl_world \<Rightarrow> ((string + int) \<times> nat) \<times> ctl_world" where
  "retryLoop env baseURL token evs pause attempt left w =
     (case ctlPostEvents env baseURL token evs w of
        (Inr als, w) \<Rightarrow> ((Inr als, attempt + 1), w)
      | (Inl e, w) \<Rightarrow> (case left of
          0 \<Rightarrow> ((Inl e, attempt + 1), w)
        | Suc left \<Rightarrow>
            (let wait = retryWait pause attempt in
             retryLoop env baseURL token evs pause (attempt + 1) left (if 0 < wait then sleep wait w else w))))"

declare retryLoop.simps [simp del]

definition postEventsWithRetry ::
  "ctl_env \<Rightarrow> string \<Rightarrow> string \<Rightarrow> event list \<Rightarrow> nat \<Rightarrow> duration \<Rightarrow> ctl_world \<Rightarrow> ((string + int) \<times> nat) \<times> ctl_world" where
  "postEventsWithRetry env baseURL token evs maxRetries pause w = retryLoop env baseURL token evs pause 0 maxRetries w"

record replay_report =
  rpTotalEvents :: nat
  rpBatchSize :: nat
  rpBatches :: nat
  rpSentBatches :: nat
  rpFailedBatches :: nat
  rpSentEvents :: nat
  rpFailedEvents :: nat
  rpAlertsCreated :: int
  rpRetries :: nat
  rpErrors :: "string list"

definition emptyReport :: "nat \<Rightarrow> nat \<Rightarrow> replay_report" where
  "emptyReport n sz = \<lparr> rpTotalEvents = n, rpBatchSize = sz, rpBatches = 0, rpSentBatches = 0, rpFailedBatches = 0, rpSentEvents = 0,
     rpFailedEvents = 0, rpAlertsCreated = 0, rpRetries = 0, rpErrors = [] \<rparr>"

text \<open>What one batch, the events from \<open>start\<close> to before \<open>stop\<close>, adds to the report.\<close>

definition countBatch :: "nat \<Rightarrow> nat \<Rightarrow> string + int \<Rightarrow> nat \<Rightarrow> replay_report \<Rightarrow> replay_report" where
  "countBatch start stop result attempts rep =
     (let n = rpBatches rep + 1;
          rep = rep\<lparr>rpBatches := n, rpRetries := (if 1 < attempts then rpRetries rep + (attempts - 1) else rpRetries rep)\<rparr> in
      case result of
        Inl e \<Rightarrow> rep\<lparr>rpFailedBatches := rpFailedBatches rep + 1, rpFailedEvents := rpFailedEvents rep + (stop - start),
          rpErrors := rpErrors rep @ [''batch '' @ nat_str n @ '' (events '' @ nat_str start @ ''-'' @ nat_str (stop - 1) @ ''): '' @ e]\<rparr>
      | Inr als \<Rightarrow> rep\<lparr>rpSentBatches := rpSentBatches rep + 1, rpSentEvents := rpSentEvents rep + (stop - start),
          rpAlertsCreated := rpAlertsCreated rep + als\<rparr>)"

partial_function (option) replayLoop ::
  "ctl_env \<Rightarrow> string \<Rightarrow> string \<Rightarrow> nat \<Rightarrow> duration \<Rightarrow> event list \<Rightarrow> nat \<Rightarrow> nat \<Rightarrow> replay_report \<Rightarrow> ctl_world \<Rightarrow> (replay_report \<times> ctl_world) option" where
  "replayLoop env baseURL token maxRetries pause evs sz start rep w =
     (if \<not> start < length evs then Some (rep, w)
      else (let stop = (if length evs < start + sz then length evs else start + sz);
                ((result, attempts), w) = postEventsWithRetry env baseURL token (take (stop - start) (drop start evs)) maxRetries pause w
            in replayLoop env baseURL token maxRetries pause evs sz (start + sz) (countBatch start stop result attempts rep) w))"

declare replayLoop.simps [code] pollAction.simps [code]

definition reportLines :: "replay_report \<Rightarrow> string list" where
  "reportLines r =
     [''replay report:'',
      ''  events_total='' @ nat_str (rpTotalEvents r) @ '' batch_size='' @ nat_str (rpBatchSize r) @ '' batches='' @ nat_str (rpBatches r),
      ''  sent_batches='' @ nat_str (rpSentBatches r) @ '' failed_batches='' @ nat_str (rpFailedBatches r) @ '' retries='' @ nat_str (rpRetries r),
      ''  sent_events='' @ nat_str (rpSentEvents r) @ '' failed_events='' @ nat_str (rpFailedEvents r) @ '' alerts_created='' @ Itoa (rpAlertsCreated r)]
     @ map (\<lambda>e. ''  error: '' @ e) (rpErrors r)"

definition readEvents :: "ctl_env \<Rightarrow> string \<Rightarrow> string + event list" where
  "readEvents env path = (case openInput env path of Inl e \<Rightarrow> Inl e | Inr data \<Rightarrow> ReadJSONL (ctDecodeEvent env) data)"

definition finishReplay :: "replay_report \<Rightarrow> ctl_world \<Rightarrow> ctl_outcome" where
  "finishReplay rep w =
     (let w = fold printLine (reportLines rep) w in
      if 0 < rpFailedBatches rep
      then failWith (''replay completed with '' @ nat_str (rpFailedBatches rep) @ '' of '' @ nat_str (rpBatches rep) @ '' batch(es) failed'') w
      else (None, w))"

definition replay :: "ctl_env \<Rightarrow> string list \<Rightarrow> ctl_world \<Rightarrow> ctl_outcome option" where
  "replay env args w =
     (case ctParse env ''replay'' args of
        Inl e \<Rightarrow> Some (failWith e w)
      | Inr fv \<Rightarrow>
          (let filePath = flagOr (fvStr fv) ''file'' []; baseURL = flagOr (fvStr fv) ''url'' ''http://localhost:8080'';
               token = flagOr (fvStr fv) ''token'' (osEnv (cwHost w) ''OATD_API_TOKEN''); batchSize = flagOr (fvInt fv) ''batch-size'' 100;
               maxRetries = flagOr (fvInt fv) ''max-retries'' 3; pause = flagOr (fvDur fv) ''retry-backoff'' (500 * (second div 1000));
               dryRun = flagOr (fvBool fv) ''dry-run'' False in
           if filePath = [] then Some (failWith ''replay requires --file'' w)
           else if batchSize < 1 then Some (failWith ''--batch-size must be at least 1'' w)
           else if maxRetries < 0 then Some (failWith ''--max-retries must be >= 0'' w)
           else (case readEvents env filePath of
             Inl e \<Rightarrow> Some (failWith e w)
           | Inr evs \<Rightarrow>
               if dryRun then Some (None, printLine (''events='' @ nat_str (length evs) @ '' batches='' @
                   Itoa (batchCount (int (length evs)) batchSize) @ '' dry_run=true'') w)
               else (case replayLoop env baseURL token (nat maxRetries) pause evs (nat batchSize) 0
                       (emptyReport (length evs) (nat batchSize)) w of
                 None \<Rightarrow> None
               | Some (rep, w) \<Rightarrow> Some (finishReplay rep w)))))"

section \<open>The other commands\<close>

definition tokenHash :: "ctl_env \<Rightarrow> string list \<Rightarrow> ctl_world \<Rightarrow> ctl_outcome" where
  "tokenHash env args = withFlags env ''token-hash'' args (\<lambda>fv w.
     let token = flagOr (fvStr fv) ''token'' []; token = (if token = [] then osEnv (cwHost w) ''OATD_TOKEN'' else token) in
     if token = [] then failWith ''token-hash requires --token or OATD_TOKEN'' w
     else (None, printLine (HashToken (ctRuntime env) token) w))"

definition signManifestCommand :: "ctl_env \<Rightarrow> string list \<Rightarrow> ctl_world \<Rightarrow> ctl_outcome" where
  "signManifestCommand env args = withFlags env ''sign-manifest'' args (\<lambda>fv w.
     let filePath = flagOr (fvStr fv) ''file'' [] in
     if filePath = [] then failWith ''sign-manifest requires --file'' w
     else (case SignThreatPackFile (ctRuntime env) (cwHost w) filePath of
       Inl e \<Rightarrow> (Some (PackError e), w)
     | Inr (sigPath, host) \<Rightarrow> (None, printLine (''manifest='' @ filePath @ '' signature='' @ sigPath) (w\<lparr>cwHost := host\<rparr>))))"

definition licenseFeatures :: "string \<Rightarrow> string list" where
  "licenseFeatures features = filter (\<lambda>f. f \<noteq> []) (map TrimSpace (SplitByte (CHR '','') features))"

definition licenseIssue :: "ctl_env \<Rightarrow> flag_values \<Rightarrow> ctl_world \<Rightarrow> ctl_outcome" where
  "licenseIssue env fv w =
     (let privateKey = flagOr (fvStr fv) ''private-key'' (osEnv (cwHost w) ''OATD_LICENSE_PRIVATE_KEY''); org = flagOr (fvStr fv) ''org'' [];
          edition = flagOr (fvStr fv) ''edition'' ''commercial''; features = flagOr (fvStr fv) ''features'' [];
          validFor = flagOr (fvDur fv) ''valid-for'' (365 * 24 * hour); now = ctClock env (cwTrace w) in
      if TrimSpace privateKey = [] then failWith ''license issue requires --private-key or OATD_LICENSE_PRIVATE_KEY'' w
      else if TrimSpace org = [] then failWith ''license issue requires --org'' w
      else (case Issue (ctLicense env) now (emptyLicense\<lparr>liOrg := TrimSpace org, liEdition := TrimSpace edition,
                   liFeatures := licenseFeatures features, liExpiresAt := now + validFor\<rparr>) privateKey of
        Inl e \<Rightarrow> failWith e w
      | Inr token \<Rightarrow> (None, printLine token w)))"

definition licenseVerify :: "ctl_env \<Rightarrow> flag_values \<Rightarrow> ctl_world \<Rightarrow> ctl_outcome" where
  "licenseVerify env fv w =
     (let publicKey = flagOr (fvStr fv) ''public-key'' (osEnv (cwHost w) ''OATD_LICENSE_PUBLIC_KEY'');
          token = TrimSpace (flagOr (fvStr fv) ''token'' []); tokenFile = flagOr (fvStr fv) ''file'' [] in
      case (if token = [] \<and> TrimSpace tokenFile \<noteq> []
            then (case ctOpen env tokenFile of Inl e \<Rightarrow> Inl e | Inr data \<Rightarrow> Inr (TrimSpace data)) else Inr token) of
        Inl e \<Rightarrow> failWith e w
      | Inr token \<Rightarrow>
          if TrimSpace publicKey = [] \<or> token = [] then failWith ''license verify requires --public-key and --token or --file'' w
          else (let status = EvaluateLicense (ctLicense env) token publicKey (ctClock env (cwTrace w)) in
            case ctEncodeStatus env status of
              Inl e \<Rightarrow> failWith e w
            | Inr out \<Rightarrow> if \<not> lsValid status then failWith ''license is not valid'' (printLine out w) else (None, printLine out w)))"

definition licenseCommand :: "ctl_env \<Rightarrow> string list \<Rightarrow> ctl_world \<Rightarrow> ctl_outcome" where
  "licenseCommand env args w =
     (case args of
        [] \<Rightarrow> failWith ''usage: oadtdctl license <keygen|issue|verify> ...'' w
      | sub # rest \<Rightarrow>
          if sub = ''keygen'' then
            (case GenerateKeyPair (ctLicense env) of
               Inl e \<Rightarrow> failWith e w
             | Inr (pub, priv) \<Rightarrow> (None, printLine (''private_key='' @ priv) (printLine (''public_key='' @ pub) w)))
          else if sub = ''issue'' then withFlags env ''license issue'' rest (licenseIssue env) w
          else if sub = ''verify'' then withFlags env ''license verify'' rest (licenseVerify env) w
          else failWith (''unknown license subcommand '' @ Quote (ctRuntime env) sub) w)"

text \<open>The encoder writes a line per event and stops at the first that it cannot encode.\<close>

fun writeEvents :: "ctl_env \<Rightarrow> string \<Rightarrow> event list \<Rightarrow> ctl_world \<Rightarrow> string option \<times> ctl_world" where
  "writeEvents env path [] w = (None, w)"
| "writeEvents env path (ev # evs) w =
     (case ctEncodeEvent env ev of
        Inl e \<Rightarrow> (Some e, w)
      | Inr line \<Rightarrow> writeEvents env path evs (w\<lparr>cwOutput := cwOutput w @ [(path, line)]\<rparr>))"

definition collect :: "ctl_env \<Rightarrow> string list \<Rightarrow> ctl_world \<Rightarrow> ctl_outcome" where
  "collect env args = withFlags env ''collect'' args (\<lambda>fv w.
     let source = flagOr (fvStr fv) ''source'' []; filePath = flagOr (fvStr fv) ''file'' []; outputPath = flagOr (fvStr fv) ''output'' ''-'' in
     if source = [] then failWith ''collect requires --source'' w
     else if filePath = [] then failWith ''collect requires --file'' w
     else (case openInput env filePath of
       Inl e \<Rightarrow> failWith e w
     | Inr input \<Rightarrow> (case Normalize (ctCollect env) source input of
         (_, Some e) \<Rightarrow> failWith e w
       | (evs, None) \<Rightarrow> (case openOutput env outputPath of
           Some e \<Rightarrow> failWith e w
         | None \<Rightarrow> (case writeEvents env outputPath evs w of
             (Some e, w) \<Rightarrow> failWith e w
           | (None, w) \<Rightarrow>
               (None, if outputPath \<noteq> ''-'' then printLine (''events='' @ nat_str (length evs) @ '' output='' @ outputPath) w else w))))))"

definition snapshotCounts :: "snapshot_data \<Rightarrow> string" where
  "snapshotCounts snap =
     '' version='' @ Itoa (snVersion snap) @ '' events='' @ nat_str (length (snEvents snap)) @ '' alerts='' @ nat_str (length (snAlerts snap)) @
     '' actions='' @ nat_str (length (snActions snap)) @ '' audits='' @ nat_str (length (snAudits snap))"

definition openStore :: "ctl_env \<Rightarrow> string \<Rightarrow> ctl_world \<Rightarrow> (string + store) \<times> ctl_world" where
  "openStore env dsn w =
     (let (r, db) = NewWithPostgres (ctPostgres env) (ctRuntime env) (cwHost w) dsn (cwTables w) in (r, w\<lparr>cwTables := db\<rparr>))"

definition backup :: "ctl_env \<Rightarrow> string list \<Rightarrow> ctl_world \<Rightarrow> ctl_outcome" where
  "backup env args = withFlags env ''backup'' args (\<lambda>fv w.
     let dsn = flagOr (fvStr fv) ''postgres-dsn'' (osEnv (cwHost w) ''OATD_POSTGRES_DSN''); outputPath = flagOr (fvStr fv) ''output'' ''-'' in
     if dsn = [] then failWith ''backup requires --postgres-dsn or OATD_POSTGRES_DSN'' w
     else (case openStore env dsn w of
       (Inl e, w) \<Rightarrow> failWith e w
     | (Inr st, w) \<Rightarrow>
         (let snap = ExportSnapshot (ctIO env) st in
          case openOutput env outputPath of
            Some e \<Rightarrow> failWith e w
          | None \<Rightarrow> (case ctEncodeSnapshot env snap of
              Inl e \<Rightarrow> failWith e w
            | Inr line \<Rightarrow>
                (let w = w\<lparr>cwOutput := cwOutput w @ [(outputPath, line)]\<rparr> in
                 (None, if outputPath \<noteq> ''-'' then printLine (''backup='' @ outputPath @ snapshotCounts snap) w else w))))))"

definition restore :: "ctl_env \<Rightarrow> string list \<Rightarrow> ctl_world \<Rightarrow> ctl_outcome" where
  "restore env args = withFlags env ''restore'' args (\<lambda>fv w.
     let dsn = flagOr (fvStr fv) ''postgres-dsn'' (osEnv (cwHost w) ''OATD_POSTGRES_DSN''); inputPath = flagOr (fvStr fv) ''input'' [] in
     if dsn = [] then failWith ''restore requires --postgres-dsn or OATD_POSTGRES_DSN'' w
     else if inputPath = [] then failWith ''restore requires --input'' w
     else (case openInput env inputPath of
       Inl e \<Rightarrow> failWith e w
     | Inr data \<Rightarrow> (case ctDecodeSnapshot env data of
         Inl e \<Rightarrow> failWith e w
       | Inr snap \<Rightarrow> (case openStore env dsn w of
           (Inl e, w) \<Rightarrow> failWith e w
         | (Inr st, w) \<Rightarrow> (case pgRestoreSnapshot (ctPostgres env) (ctIO env) snap st (cwTables w) of
             (Some e, _, db) \<Rightarrow> failWith e (w\<lparr>cwTables := db\<rparr>)
           | (None, _, db) \<Rightarrow> (None, printLine (''restored'' @ snapshotCounts snap) (w\<lparr>cwTables := db\<rparr>)))))))"

definition agentSources :: "string list" where
  "agentSources = CollectorSources @ [''windows-eventlog'', ''journald'']"

text \<open>The configuration that the agent command runs; its loop is \<open>runRound\<close> of \<open>Agent\<close>.\<close>

definition agentCommand :: "ctl_env \<Rightarrow> string list \<Rightarrow> ctl_world \<Rightarrow> string + agent_config" where
  "agentCommand env args w =
     (case ctParse env ''agent'' args of
        Inl e \<Rightarrow> Inl e
      | Inr fv \<Rightarrow>
          (let source = flagOr (fvStr fv) ''source'' []; filePath = flagOr (fvStr fv) ''file'' [] in
           if source = [] then Inl ''agent requires --source''
           else if \<not> isNativeSource source \<and> filePath = [] then Inl ''agent requires --file''
           else Inr \<lparr> acSource = source, acPath = filePath, acBaseURL = flagOr (fvStr fv) ''url'' ''http://localhost:8080'',
             acToken = flagOr (fvStr fv) ''token'' (osEnv (cwHost w) ''OATD_API_TOKEN''), acBatchSize = flagOr (fvInt fv) ''batch-size'' 100,
             acPollInterval = flagOr (fvDur fv) ''poll-interval'' (5 * second), acStatePath = flagOr (fvStr fv) ''state-file'' [],
             acOnce = flagOr (fvBool fv) ''once'' False,
             acNativeLogName = flagOr (fvStr fv) ''log-name'' ''Microsoft-Windows-Sysmon/Operational'',
             acNativeJournalUnit = flagOr (fvStr fv) ''journal-unit'' [] \<rparr>))"

section \<open>The wedge demo\<close>

definition wedgeCall :: tool_call_request where
  "wedgeCall = \<lparr> tcID = [], tcTimestamp = 0, tcTenant = [], tcAssetID = ''demo-agent-01'', tcHostname = ''demo-agent-01'', tcActor = ''demo-agent'',
     tcAgentID = [], tcAgentToken = [], tcToolName = ''asset_inventory'', tcToolFingerprint = [], tcToolPublisher = [], tcProtocolSurface = False,
     tcCommand = [], tcArguments = [], tcSignal = [], tcDestination = [], tcLabels = [''agent'', ''tool-call''], tcMetadata = [] \<rparr>"

definition wedgeCases :: "(string \<times> tool_call_request) list" where
  "wedgeCases =
     [(''benign'', wedgeCall\<lparr>tcCommand := ''list assets''\<rparr>),
      (''risky'', wedgeCall\<lparr>tcCommand := ''inspect inventory'', tcArguments := ''token=abc123''\<rparr>),
      (''canary'', wedgeCall\<lparr>tcCommand := ''read protected vault'', tcSignal := ''canary token touched'',
         tcLabels := [''agent'', ''tool-call'', ''canary'', ''deception'']\<rparr>)]"

text \<open>A held call: the command waits for an operator, or approves the action itself.\<close>

definition wedgeHeld :: "ctl_env \<Rightarrow> flag_values \<Rightarrow> string \<Rightarrow> string \<Rightarrow> string \<Rightarrow> response_action \<Rightarrow> ctl_world \<Rightarrow> ctl_outcome option" where
  "wedgeHeld env fv baseURL token name ac w =
     (let w = printLine (''- '' @ name @ '': require approval -> pending action '' @ raID ac) w in
      if flagOr (fvBool fv) ''await-approval'' False then
        (case waitForGatewayActionExecution env baseURL token (raID ac) (flagOr (fvDur fv) ''approval-timeout'' (30 * second))
                (flagOr (fvDur fv) ''poll-interval'' (2 * second)) w of
           None \<Rightarrow> None
         | Some (Inl e, w) \<Rightarrow> Some (failWith (name @ '' wait: '' @ e) w)
         | Some (Inr updated, w) \<Rightarrow> Some (None, printLine (''  operator approved -> execution='' @ raExecutionStatus updated) w))
      else
        (let approvedBy = flagOr (fvStr fv) ''approved-by'' ''operator'' in
         case approveGatewayAction env baseURL token (raID ac) approvedBy w of
           (Inl e, w) \<Rightarrow> Some (failWith (name @ '' approve: '' @ e) w)
         | (Inr approved, w) \<Rightarrow>
             Some (None, printLine (''  approved by '' @ approvedBy @ '' -> execution='' @ raExecutionStatus approved) w)))"

definition wedgeCase :: "ctl_env \<Rightarrow> flag_values \<Rightarrow> string \<Rightarrow> string \<Rightarrow> string \<times> tool_call_request \<Rightarrow> ctl_world \<Rightarrow> ctl_outcome option" where
  "wedgeCase env fv baseURL token = (\<lambda>(name, rq) w.
     case postGatewayExecution env baseURL token rq w of
       (Inl e, w) \<Rightarrow> Some (failWith (name @ '': '' @ e) w)
     | (Inr x, w) \<Rightarrow>
         if xrStatus x = ''allow'' then Some (None, printLine (''- '' @ name @ '': allow -> proceed'') w)
         else if xrStatus x = ''executed'' then Some (None, printLine (''- '' @ name @ '': allow -> result='' @ xrResult x) w)
         else if xrStatus x = ''blocked'' then
           Some (None, printLine (''- '' @ name @ '': deny -> alerts='' @ nat_str (length (dcAlerts (xrDecision x))) @ '' evidence='' @
             dcReason (xrDecision x)) w)
         else if xrStatus x = ''pending_approval'' then
           (case xrAction x of
              None \<Rightarrow> Some (failWith (name @ '': approval verdict without action'') w)
            | Some ac \<Rightarrow> wedgeHeld env fv baseURL token name ac w)
         else Some (failWith (name @ '': unexpected status '' @ xrStatus x) w))"

fun wedgeLoop :: "(string \<times> tool_call_request \<Rightarrow> ctl_world \<Rightarrow> ctl_outcome option) \<Rightarrow> (string \<times> tool_call_request) list \<Rightarrow> ctl_world \<Rightarrow> ctl_outcome option" where
  "wedgeLoop run [] w = Some (None, w)"
| "wedgeLoop run (c # cs) w =
     (case run c w of None \<Rightarrow> None | Some (Some e, w) \<Rightarrow> Some (Some e, w) | Some (None, w) \<Rightarrow> wedgeLoop run cs w)"

definition wedgeDemo :: "ctl_env \<Rightarrow> string list \<Rightarrow> ctl_world \<Rightarrow> ctl_outcome option" where
  "wedgeDemo env args w =
     (case ctParse env ''wedge-demo'' args of
        Inl e \<Rightarrow> Some (failWith e w)
      | Inr fv \<Rightarrow>
          (let baseURL = flagOr (fvStr fv) ''url'' ''http://localhost:8080'';
               token = flagOr (fvStr fv) ''token'' (osEnv (cwHost w) ''OATD_API_TOKEN'') in
           wedgeLoop (wedgeCase env fv baseURL token) wedgeCases (printLine ''wedge-demo:'' w)))"

section \<open>Properties\<close>

subsection \<open>Waiting for an approval\<close>

text \<open>A clock that a sleep moves on by at least its length, and that no request moves back.\<close>

definition clock_moves :: "ctl_env \<Rightarrow> bool" where
  "clock_moves env \<longleftrightarrow>
     (\<forall>tr d. ctClock env tr + d \<le> ctClock env (tr @ [Slept d])) \<and> (\<forall>tr q. ctClock env tr \<le> ctClock env (tr @ [Sent q]))"

lemma sendRequest_trace:
  "cwTrace (snd (sendRequest env q w)) = cwTrace w \<or> cwTrace (snd (sendRequest env q w)) = cwTrace w @ [Sent q]"
  by (simp add: sendRequest_def split: option.split)

lemma exchange_world: "snd (exchange env accepted decode q w) = snd (sendRequest env q w)"
  by (simp add: exchange_def split: prod.split sum.split)

lemma exchange_clock: "clock_moves env \<Longrightarrow> ctClock env (cwTrace w) \<le> ctClock env (cwTrace (snd (exchange env accepted decode q w)))"
  using sendRequest_trace [of env q w] by (auto simp: exchange_world clock_moves_def)

text \<open>Waiting for an operator ends, whatever the server answers: at the latest once the timeout has passed.\<close>

theorem awaited_action_returns:
  assumes moves: "clock_moves env" and interval: "1 \<le> interval"
  shows "\<exists>r. waitForGatewayActionExecution env baseURL token actionID timeout interval w = Some r"
proof -
  have "\<exists>r. pollAction env baseURL token actionID deadline interval w = Some r" for deadline
  proof (induction "nat (deadline + interval - ctClock env (cwTrace w))" arbitrary: w rule: less_induct)
    case less
    obtain r v where get: "getGatewayAction env baseURL token actionID w = (r, v)"
      by fastforce
    have clock: "ctClock env (cwTrace w) \<le> ctClock env (cwTrace v)"
      using exchange_clock [OF moves] get by (metis getGatewayAction_def snd_conv)
    have rest: "\<exists>r. pollAction env baseURL token actionID deadline interval (sleep interval v) = Some r"
      if early: "\<not> deadline < ctClock env (cwTrace v)"
    proof (rule less)
      have "ctClock env (cwTrace v) + interval \<le> ctClock env (cwTrace (sleep interval v))"
        using moves by (simp add: sleep_def clock_moves_def)
      then show "nat (deadline + interval - ctClock env (cwTrace (sleep interval v))) < nat (deadline + interval - ctClock env (cwTrace w))"
        using clock early interval by linarith
    qed
    show ?case
      using rest by (subst pollAction.simps) (auto simp: get split: sum.split)
  qed
  then show ?thesis
    by (simp add: waitForGatewayActionExecution_def)
qed

subsection \<open>Replay\<close>

text \<open>The requests of a history, the batches of a list, and the requests that a number of attempts at each batch are.\<close>

fun requests :: "ctl_event list \<Rightarrow> ctl_request list" where
  "requests [] = []"
| "requests (Sent q # tr) = q # requests tr"
| "requests (Slept d # tr) = requests tr"

lemma requests_append [simp]: "requests (tr @ tr') = requests tr @ requests tr'"
  by (induction tr rule: requests.induct) simp_all

function batches :: "nat \<Rightarrow> 'a list \<Rightarrow> 'a list list" where
  "batches sz xs = (if xs = [] \<or> sz = 0 then [] else take sz xs # batches sz (drop sz xs))"
  by auto
termination
  by (relation "measure (\<lambda>(_, xs). length xs)") auto

declare batches.simps [simp del]

lemma batches_unfold: "0 < sz \<Longrightarrow> xs \<noteq> [] \<Longrightarrow> batches sz xs = take sz xs # batches sz (drop sz xs)"
  by (subst batches.simps) simp

lemma batches_Nil [simp]: "batches sz [] = []"
  by (subst batches.simps) simp

lemma concat_batches: "0 < sz \<Longrightarrow> concat (batches sz xs) = xs"
proof (induction sz xs rule: batches.induct)
  case (1 sz xs)
  then show ?case
    by (cases "xs = []") (simp_all add: batches_unfold)
qed

lemma batches_size: "0 < sz \<Longrightarrow> b \<in> set (batches sz xs) \<Longrightarrow> b \<noteq> [] \<and> length b \<le> sz"
proof (induction sz xs rule: batches.induct)
  case (1 sz xs)
  then show ?case
    by (cases "xs = []") (auto simp: batches_unfold)
qed

lemma length_batches: "0 < sz \<Longrightarrow> length (batches sz xs) = (length xs + sz - 1) div sz"
proof (induction sz xs rule: batches.induct)
  case (1 sz xs)
  show ?case
  proof (cases "xs = []")
    case False
    have "length xs + sz - 1 = sz + (length xs - 1)"
      using False by (cases xs) simp_all
    then have total: "(length xs + sz - 1) div sz = (length xs - 1) div sz + 1"
      using div_add_self1 [of sz "length xs - 1"] 1(2) by (simp only:)
    have "(length (drop sz xs) + sz - 1) div sz = (length xs - 1) div sz"
    proof (cases "sz < length xs")
      case True
      then show ?thesis
        by simp
    next
      case small: False
      then have "length xs - 1 < sz" "sz - 1 < sz"
        using 1 False by (cases xs; simp)+
      then show ?thesis
        using small by simp
    qed
    then show ?thesis
      using 1 False total by (simp add: batches_unfold)
  qed (use 1 in simp)
qed

text \<open>Posts that reach the server: the events can be encoded and the address is one.\<close>

definition can_send :: "ctl_env \<Rightarrow> string \<Rightarrow> bool" where
  "can_send env baseURL \<longleftrightarrow> (\<forall>evs. ctMarshal env (EventsBody evs) = None) \<and> ctBadURL env (TrimRightSlash baseURL @ ''/api/events'') = None"

text \<open>
  What the server makes of a post after a history: the number of alerts of a reply with a code between 200 and 299 that can be decoded, and
  \<open>None\<close> for an error of the transport, another code or another body. \<open>replies\<close> are those of the posts of a history, in their order.
\<close>

definition reply_alerts :: "ctl_env \<Rightarrow> ctl_event list \<Rightarrow> ctl_request \<Rightarrow> int option" where
  "reply_alerts env tr q =
     (case ctDo env tr q of
        Inl _ \<Rightarrow> None
      | Inr (code, _, body) \<Rightarrow>
          if 200 \<le> code \<and> code < 300 then (case ctAlertsCreated env (take 65536 body) of Inl _ \<Rightarrow> None | Inr n \<Rightarrow> Some n) else None)"

fun replies :: "ctl_env \<Rightarrow> ctl_event list \<Rightarrow> ctl_event list \<Rightarrow> int option list" where
  "replies env tr [] = []"
| "replies env tr (Sent q # es) = reply_alerts env tr q # replies env (tr @ [Sent q]) es"
| "replies env tr (Slept d # es) = replies env (tr @ [Slept d]) es"

lemma replies_append: "replies env tr (es @ es') = replies env tr es @ replies env (tr @ es) es'"
  by (induction env tr es rule: replies.induct) simp_all

lemma ctlPostEvents_sends:
  "can_send env baseURL \<Longrightarrow> ctlPostEvents env baseURL token evs w = (r, v) \<Longrightarrow>
     cwTrace v = cwTrace w @ [Sent (eventsRequest baseURL token evs)]"
  by (auto simp: ctlPostEvents_def exchange_def sendRequest_def can_send_def eventsRequest_def newRequest_def Let_def
      split: sum.splits prod.splits if_splits)

definition result_alerts :: "string + int \<Rightarrow> int option" where
  "result_alerts r = (case r of Inl _ \<Rightarrow> None | Inr n \<Rightarrow> Some n)"

lemma result_alerts_simps [simp]: "result_alerts (Inl e) = None" "result_alerts (Inr n) = Some n"
  by (simp_all add: result_alerts_def)

lemma ctlPostEvents_reply:
  assumes "can_send env baseURL" and "ctlPostEvents env baseURL token evs w = (r, v)"
  shows "reply_alerts env (cwTrace w) (eventsRequest baseURL token evs) = result_alerts r"
proof -
  have q: "cqBody (eventsRequest baseURL token evs) = EventsBody evs" "cqURL (eventsRequest baseURL token evs) = TrimRightSlash baseURL @ ''/api/events''"
    by (simp_all add: eventsRequest_def newRequest_def Let_def)
  show ?thesis
  proof (cases "ctDo env (cwTrace w) (eventsRequest baseURL token evs)")
    case (Inr x)
    then show ?thesis
      using assms q
      by (cases x) (auto simp: ctlPostEvents_def exchange_def sendRequest_def can_send_def success_def reply_alerts_def split: sum.splits if_splits)
  qed (use assms q in \<open>auto simp: ctlPostEvents_def exchange_def sendRequest_def can_send_def reply_alerts_def\<close>)
qed

text \<open>The attempts at a batch: all but the last were refused, and the last one's reply is the result.\<close>

lemma retryLoop_runs:
  assumes "can_send env baseURL" and "retryLoop env baseURL token evs pause attempt left w = ((r, n), v)"
  shows "attempt < n \<and> n \<le> attempt + left + 1 \<and> ((\<exists>als. r = Inr als) \<or> n = attempt + left + 1) \<and>
    (\<exists>es. cwTrace v = cwTrace w @ es \<and> requests es = replicate (n - attempt) (eventsRequest baseURL token evs) \<and>
       replies env (cwTrace w) es = replicate (n - attempt - 1) None @ [result_alerts r])"
  using assms(2)
proof (induction left arbitrary: attempt w)
  case (0 attempt w)
  obtain p u where post: "ctlPostEvents env baseURL token evs w = (p, u)"
    by fastforce
  have "p = r" "u = v" "n = attempt + 1"
    using 0 post by (subst (asm) retryLoop.simps; auto split: sum.splits)+
  with post show ?case
    using ctlPostEvents_sends [OF assms(1) post] ctlPostEvents_reply [OF assms(1) post] by simp
next
  case (Suc left attempt w)
  obtain p u where post: "ctlPostEvents env baseURL token evs w = (p, u)"
    by fastforce
  note sent = ctlPostEvents_sends [OF assms(1) post] ctlPostEvents_reply [OF assms(1) post]
  show ?case
  proof (cases p)
    case (Inr als)
    then have "r = Inr als" "u = v" "n = attempt + 1"
      using Suc.prems post by (subst (asm) retryLoop.simps; simp)+
    then show ?thesis
      using sent Inr by simp
  next
    case (Inl e)
    define u' where "u' = (if 0 < retryWait pause attempt then sleep (retryWait pause attempt) u else u)"
    have "retryLoop env baseURL token evs pause (attempt + 1) left u' = ((r, n), v)"
      using Suc.prems post Inl by (subst (asm) retryLoop.simps) (simp add: Let_def u'_def)
    from Suc.IH [OF this] obtain es where rest: "attempt + 1 < n" "n \<le> attempt + 1 + left + 1" "(\<exists>als. r = Inr als) \<or> n = attempt + 1 + left + 1"
        "cwTrace v = cwTrace u' @ es" "requests es = replicate (n - (attempt + 1)) (eventsRequest baseURL token evs)"
        "replies env (cwTrace u') es = replicate (n - (attempt + 1) - 1) None @ [result_alerts r]"
      by blast
    obtain ws where ws: "cwTrace u' = cwTrace w @ Sent (eventsRequest baseURL token evs) # ws" "requests ws = []" "replies env tr ws = []" for tr
      using sent(1) by (cases "0 < retryWait pause attempt") (auto simp: u'_def sleep_def)
    have n: "n - attempt = Suc (n - (attempt + 1))" "n - attempt - 1 = Suc (n - (attempt + 1) - 1)"
      using rest(1) by arith+
    let ?es = "Sent (eventsRequest baseURL token evs) # ws @ es"
    have "cwTrace v = cwTrace w @ ?es"
      using rest(4) ws(1) by simp
    moreover have "requests ?es = replicate (n - attempt) (eventsRequest baseURL token evs)"
      using rest(5) ws(2) n(1) by simp
    moreover have "replies env (cwTrace w) ?es = replicate (n - attempt - 1) None @ [result_alerts r]"
      using rest(6) ws sent(2) Inl n(2) by (simp add: replies_append)
    ultimately show ?thesis
      using rest(1-3) by (intro conjI exI [of _ ?es]) auto
  qed
qed

text \<open>
  The outcome of a batch: how often it was posted, and the alerts of the accepted reply or \<open>None\<close>. A batch is given up only after all the
  retries.
\<close>

definition outcome_ok :: "nat \<Rightarrow> nat \<times> int option \<Rightarrow> bool" where
  "outcome_ok maxRetries = (\<lambda>(k, a). 1 \<le> k \<and> k \<le> maxRetries + 1 \<and> (a \<noteq> None \<or> k = maxRetries + 1))"

definition outcome_requests :: "string \<Rightarrow> string \<Rightarrow> (nat \<times> int option) list \<Rightarrow> event list list \<Rightarrow> ctl_request list" where
  "outcome_requests baseURL token os bs = concat (map (\<lambda>((k, _), b). replicate k (eventsRequest baseURL token b)) (zip os bs))"

definition outcome_replies :: "(nat \<times> int option) list \<Rightarrow> int option list" where
  "outcome_replies os = concat (map (\<lambda>(k, a). replicate (k - 1) None @ [a]) os)"

definition outcome_events :: "bool \<Rightarrow> (nat \<times> int option) list \<Rightarrow> event list list \<Rightarrow> nat" where
  "outcome_events ok os bs = sum_list (map (\<lambda>((_, a), b). if (a \<noteq> None) = ok then length b else 0) (zip os bs))"

definition accepted_posts :: "int option list \<Rightarrow> nat" where
  "accepted_posts rs = length (filter (\<lambda>a. a \<noteq> None) rs)"

definition alerts_total :: "int option list \<Rightarrow> int" where
  "alerts_total rs = sum_list (map (case_option 0 id) rs)"

lemma replies_counts [simp]:
  "accepted_posts [] = 0" "alerts_total [] = 0"
  "accepted_posts (replicate k None @ a # rs) = (if a = None then 0 else 1) + accepted_posts rs"
  "alerts_total (replicate k None @ a # rs) = case_option 0 id a + alerts_total rs"
  by (simp_all add: accepted_posts_def alerts_total_def sum_list_replicate)

lemma outcome_replies_Cons: "outcome_replies ((k, a) # os) = replicate (k - 1) None @ a # outcome_replies os"
  by (simp add: outcome_replies_def)

definition tallied :: "(nat \<times> int option) list \<Rightarrow> event list list \<Rightarrow> replay_report \<Rightarrow> replay_report \<Rightarrow> bool" where
  "tallied os bs rep rep' \<longleftrightarrow>
     rpBatches rep' = rpBatches rep + length os \<and>
     rpSentBatches rep' = rpSentBatches rep + accepted_posts (outcome_replies os) \<and>
     rpSentBatches rep' + rpFailedBatches rep' = rpSentBatches rep + rpFailedBatches rep + length os \<and>
     rpSentEvents rep' = rpSentEvents rep + outcome_events True os bs \<and>
     rpFailedEvents rep' = rpFailedEvents rep + outcome_events False os bs \<and>
     rpAlertsCreated rep' = rpAlertsCreated rep + alerts_total (outcome_replies os) \<and>
     rpRetries rep' = rpRetries rep + sum_list (map (\<lambda>(k, _). k - 1) os) \<and>
     length (rpErrors rep') + rpFailedBatches rep = length (rpErrors rep) + rpFailedBatches rep'"

lemma tallied_Nil [simp]: "tallied [] bs rep rep"
  by (simp add: tallied_def outcome_events_def outcome_replies_def)

lemma tallied_Cons:
  assumes "stop - start = length b" and "0 < k" and "tallied os bs (countBatch start stop r k rep) rep'"
  shows "tallied ((k, result_alerts r) # os) (b # bs) rep rep'"
  using assms by (cases r) (auto simp: tallied_def countBatch_def outcome_events_def outcome_replies_Cons Let_def)

lemma replayLoop_runs:
  assumes send: "can_send env baseURL" and sz: "0 < sz"
  shows "\<exists>rep' v os es. replayLoop env baseURL token maxRetries pause evs sz start rep w = Some (rep', v) \<and>
    length os = length (batches sz (drop start evs)) \<and> list_all (outcome_ok maxRetries) os \<and>
    cwTrace v = cwTrace w @ es \<and> requests es = outcome_requests baseURL token os (batches sz (drop start evs)) \<and>
    replies env (cwTrace w) es = outcome_replies os \<and> tallied os (batches sz (drop start evs)) rep rep'"
proof (induction "length evs - start" arbitrary: start rep w rule: less_induct)
  case less
  show ?case
  proof (cases "start < length evs")
    case False
    then show ?thesis
      by (subst replayLoop.simps) (auto simp: outcome_requests_def outcome_replies_def)
  next
    case True
    define stop where "stop = (if length evs < start + sz then length evs else start + sz)"
    define b where "b = take sz (drop start evs)"
    have b: "take (stop - start) (drop start evs) = b" "stop - start = length b"
      using True by (auto simp: b_def stop_def)
    have all: "batches sz (drop start evs) = b # batches sz (drop (start + sz) evs)"
      using batches_unfold [OF sz, of "drop start evs"] True by (simp add: b_def add.commute)
    obtain r k u where post: "postEventsWithRetry env baseURL token b maxRetries pause w = ((r, k), u)"
      by (metis prod.collapse)
    from retryLoop_runs [OF send post [unfolded postEventsWithRetry_def]] obtain es where
      runs: "0 < k" "outcome_ok maxRetries (k, result_alerts r)" "cwTrace u = cwTrace w @ es"
        "requests es = replicate k (eventsRequest baseURL token b)" "replies env (cwTrace w) es = replicate (k - 1) None @ [result_alerts r]"
      by (auto simp: outcome_ok_def)
    have smaller: "length evs - (start + sz) < length evs - start"
      using True sz by arith
    obtain rep' v os es' where rest: "replayLoop env baseURL token maxRetries pause evs sz (start + sz) (countBatch start stop r k rep) u = Some (rep', v)"
        "length os = length (batches sz (drop (start + sz) evs))" "list_all (outcome_ok maxRetries) os" "cwTrace v = cwTrace u @ es'"
        "requests es' = outcome_requests baseURL token os (batches sz (drop (start + sz) evs))"
        "replies env (cwTrace u) es' = outcome_replies os"
        "tallied os (batches sz (drop (start + sz) evs)) (countBatch start stop r k rep) rep'"
      using less [of "start + sz" "countBatch start stop r k rep" u] smaller by auto
    have "replayLoop env baseURL token maxRetries pause evs sz start rep w = Some (rep', v)"
      using True rest(1) post by (subst replayLoop.simps) (simp add: stop_def [symmetric] b(1) Let_def)
    moreover have "tallied ((k, result_alerts r) # os) (b # batches sz (drop (start + sz) evs)) rep rep'"
      using tallied_Cons [OF b(2) runs(1) rest(7)] .
    moreover have "replies env (cwTrace w) (es @ es') = outcome_replies ((k, result_alerts r) # os)"
      using runs(3,5) rest(6) by (simp add: replies_append outcome_replies_Cons)
    ultimately show ?thesis
      using rest runs by (intro exI [of _ rep'] exI [of _ v] exI [of _ "(k, result_alerts r) # os"] exI [of _ "es @ es'"])
        (simp add: all outcome_requests_def)
  qed
qed

lemma outcome_events_sum: "length os = length bs \<Longrightarrow> outcome_events True os bs + outcome_events False os bs = length (concat bs)"
  by (induction os bs rule: list_induct2) (auto simp: outcome_events_def)

text \<open>C38: A replay accounts for every event, by the replies of the server. With a positive batch size, and events and an address with which
  requests can be built, the loop over the file ends. The batches are consecutive parts of the file, none longer than the batch size. Each is
  posted in the order of the file, once and again after a failure, at most one time more than the number of retries: the reply to each of its
  posts but the last is a failure (no reply, a code outside 200 to 299, or a body that cannot be decoded), and it is given up only after all
  the retries failed. The report counts as sent the batches, and their events, whose last post the server accepted, as many batches as there are accepted
  posts; as failed the others, with one error each; as alerts the sum of what the accepted replies report; and as retries the posts beyond
  the first of each batch.\<close>

theorem replay_accounts:
  assumes "can_send env baseURL" and "0 < sz"
  shows "\<exists>rep v os es. replayLoop env baseURL token maxRetries pause evs sz 0 (emptyReport (length evs) sz) w = Some (rep, v) \<and>
    length os = (length evs + sz - 1) div sz \<and> list_all (outcome_ok maxRetries) os \<and>
    cwTrace v = cwTrace w @ es \<and> requests es = outcome_requests baseURL token os (batches sz evs) \<and>
    replies env (cwTrace w) es = outcome_replies os \<and>
    concat (batches sz evs) = evs \<and> list_all (\<lambda>b. length b \<le> sz) (batches sz evs) \<and>
    rpBatches rep = length os \<and> rpSentBatches rep = accepted_posts (replies env (cwTrace w) es) \<and>
    rpSentBatches rep + rpFailedBatches rep = rpBatches rep \<and>
    rpSentEvents rep = outcome_events True os (batches sz evs) \<and> rpSentEvents rep + rpFailedEvents rep = length evs \<and>
    rpAlertsCreated rep = alerts_total (replies env (cwTrace w) es) \<and>
    length (rpErrors rep) = rpFailedBatches rep \<and> rpRetries rep = sum_list (map (\<lambda>(k, _). k - 1) os)"
proof -
  obtain rep v os es where run: "replayLoop env baseURL token maxRetries pause evs sz 0 (emptyReport (length evs) sz) w = Some (rep, v)"
      "length os = length (batches sz evs)" "list_all (outcome_ok maxRetries) os" "cwTrace v = cwTrace w @ es"
      "requests es = outcome_requests baseURL token os (batches sz evs)" "replies env (cwTrace w) es = outcome_replies os"
      "tallied os (batches sz evs) (emptyReport (length evs) sz) rep"
    using replayLoop_runs [OF assms, of token maxRetries pause evs 0 "emptyReport (length evs) sz" w] by auto
  have "list_all (\<lambda>b. length b \<le> sz) (batches sz evs)"
    using batches_size [OF assms(2)] by (auto simp: list_all_iff)
  moreover have "rpSentEvents rep + rpFailedEvents rep = length evs"
    using run(7) outcome_events_sum [OF run(2)] concat_batches [OF assms(2), of evs] by (simp add: tallied_def emptyReport_def)
  ultimately show ?thesis
    using run concat_batches [OF assms(2), of evs] length_batches [OF assms(2), of evs]
    by (intro exI [of _ rep] exI [of _ v] exI [of _ os] exI [of _ es]) (simp add: tallied_def emptyReport_def)
qed

text \<open>The count of the dry run is the number of batches that are posted, as long as the sum does not leave 64 bits.\<close>

lemma batchCount_posted:
  assumes "0 < sz" and "int (length evs) + int sz \<le> 2 ^ 63"
  shows "batchCount (int (length evs)) (int sz) = int (length (batches sz evs))"
proof (cases "evs = []")
  case False
  then have n: "1 \<le> int (length evs)"
    by (cases evs) simp_all
  have sum: "sint (word_of_int (int (length evs) + int sz - 1) :: 64 word) = int (length evs + sz - 1)"
  proof -
    have "sint (word_of_int (int (length evs) + int sz - 1) :: 64 word) = int (length evs) + int sz - 1"
      using assms n by (intro sint_small) linarith+
    then show ?thesis
      using assms n by linarith
  qed
  have "\<not> (int sz < 1 \<or> int (length evs) \<le> 0)"
    using assms n by linarith
  then have "batchCount (int (length evs)) (int sz) = int (length evs + sz - 1) div int sz"
    unfolding batchCount_def Let_def sum by simp
  also have "\<dots> = int (length (batches sz evs))"
    unfolding length_batches [OF assms(1)] zdiv_int ..
  finally show ?thesis .
qed (simp add: batchCount_def)

text \<open>
  From the 35th retry on the doubled pause of half a second has left 64 bits: it is negative, and the next post follows at once instead of
  after the thirty seconds of the cap.
\<close>

theorem replay_pause_wraps: "retryWait (500 * (second div 1000)) 34 = 30 * second" "retryWait (500 * (second div 1000)) 35 < 0"
  by code_simp+

text \<open>A server that fails once, after its first answer.\<close>

definition ctl_demo :: "flag_values \<Rightarrow> ctl_env" where
  "ctl_demo fv =
     \<lparr> ctRuntime = digest_runtime, ctParse = (\<lambda>_ _. Inr fv), ctStdin = [], ctOpen = (\<lambda>_. Inr []), ctCreate = (\<lambda>_. None),
       ctDo = (\<lambda>tr q. if length (requests tr) = 1 then Inl ''connection refused'' else Inr (202, ''202 Accepted'', [])), ctBadURL = (\<lambda>_. None),
       ctPathEscape = id, ctClock = (\<lambda>tr. int (length tr) * second), ctMarshal = (\<lambda>_. None), ctEncodeEvent = (\<lambda>_. Inr ''{}''),
       ctDecodeEvent = (\<lambda>_. Inr sample_event), ctAlertsCreated = (\<lambda>_. Inr 0), ctExecution = (\<lambda>_. Inl ''EOF''), ctAction = (\<lambda>_. Inl ''EOF''),
       ctLicense = demo_lib, ctEncodeStatus = (\<lambda>_. Inr ''{}''), ctCollect = aaCollect follow_env, ctPostgres = pg_ok second, ctIO = sample_io,
       ctEncodeSnapshot = (\<lambda>_. Inr ''{}''), ctDecodeSnapshot = (\<lambda>_. Inl ''EOF'') \<rparr>"

definition no_flags :: flag_values where
  "no_flags = \<lparr> fvStr = (\<lambda>_. None), fvInt = (\<lambda>_. None), fvBool = (\<lambda>_. None), fvDur = (\<lambda>_. None) \<rparr>"

definition ctl_start :: "pg_tables \<Rightarrow> ctl_world" where
  "ctl_start db = \<lparr> cwTrace = [], cwOutput = [], cwHost = audit_host, cwTables = db \<rparr>"

theorem replay_accounts_witness:
  "\<exists>rep v. replayLoop (ctl_demo no_flags) ''http://h'' [] 3 second (replicate 3 sample_event) 2 0 (emptyReport 3 2) (ctl_start emptyTables) =
       Some (rep, v) \<and> rpBatches rep = 2 \<and> rpSentEvents rep + rpFailedEvents rep = 3"
proof -
  have "can_send (ctl_demo no_flags) ''http://h''"
    by (simp add: can_send_def ctl_demo_def)
  then show ?thesis
    using replay_accounts [of "ctl_demo no_flags" "''http://h''" 2 "[]" 3 second "replicate 3 sample_event" "ctl_start emptyTables"]
    by auto
qed

lemma replay_demo:
  "case replayLoop (ctl_demo no_flags) ''http://h'' [] 3 second (replicate 3 sample_event) 2 0 (emptyReport 3 2) (ctl_start emptyTables) of
     Some (rep, v) \<Rightarrow> rpSentBatches rep = 2 \<and> rpRetries rep = 1 \<and> length (requests (cwTrace v)) = 3 \<and> length (cwTrace v) = 4
   | None \<Rightarrow> False"
  by code_simp

text \<open>
  A backup opens the store as a server does, and so it migrates the schema and writes the state of the audit chain. On the database of
  \<open>restart_breaks_chain\<close>, whose chain is valid, it leaves a chain that the check reports as broken.
\<close>

lemma backup_tables:
  assumes "ctParse env ''backup'' args = Inr fv" "flagOr (fvStr fv) ''postgres-dsn'' (osEnv (cwHost w) ''OATD_POSTGRES_DSN'') = dsn" "dsn \<noteq> []"
  shows "cwTables (snd (backup env args w)) = snd (NewWithPostgres (ctPostgres env) (ctRuntime env) (cwHost w) dsn (cwTables w))"
proof -
  obtain r db where "NewWithPostgres (ctPostgres env) (ctRuntime env) (cwHost w) dsn (cwTables w) = (r, db)"
    by fastforce
  then show ?thesis
    using assms by (auto simp: backup_def withFlags_def openStore_def failWith_def printLine_def Let_def split: sum.split option.split)
qed

theorem backup_breaks_chain:
  "let c = pg_added (audit_at ''a2'' second) (pg_added (audit_at ''a1'' (2 * second)) pg_first);
       env = ctl_demo (no_flags\<lparr>fvStr := \<lambda>name. if name = ''postgres-dsn'' then Some ''dsn'' else None\<rparr>);
       w = snd (backup env [] (ctl_start (snd c))) in
   acValid (pgAuditChain (pg_ok 9) digest_runtime audit_host (fst c) (snd c)) \<and>
   \<not> acValid (pgAuditChain (pg_ok 9) digest_runtime audit_host (fst c) (cwTables w))"
proof -
  define fv where "fv = no_flags\<lparr>fvStr := \<lambda>name. if name = ''postgres-dsn'' then Some ''dsn'' else None\<rparr>"
  have "cwTables (snd (backup (ctl_demo fv) [] (ctl_start db))) = pg_restarted db" for db
    using backup_tables [of "ctl_demo fv" "[]" fv "ctl_start db" "''dsn''"]
    by (simp add: ctl_demo_def fv_def flagOr_def ctl_start_def pg_restarted_def)
  then show ?thesis
    using restart_breaks_chain unfolding Let_def fv_def by presburger
qed

end
