(* ===== verification/Bench.thy ===== *)
theory Bench
  imports Validate
begin

text \<open>
  The load test of the control program (\<open>cmd/oadtdctl/bench.go\<close>). The workers run concurrently and share a counter: they are a step relation,
  one step for each atomic operation on the counter, for the end of a request and for a worker that returns. \<open>bench_measures_each_once\<close>
  says that, however they interleave, each request of the test is measured once. The command runs them under a schedule, any function that picks the next
  worker to move, until all have returned: \<open>benchLoop\<close>, which ends because each step uses up a budget. Floating-point arithmetic is an argument.
\<close>

section \<open>Requests\<close>

definition benchBody :: string where
  "benchBody = ''{\"asset_id\":\"bench\",\"actor\":\"bench-agent\",\"tool_name\":\"asset_inventory\",\"command\":\"list assets\"}''"

definition benchDecide :: "ctl_env \<Rightarrow> string \<Rightarrow> string \<Rightarrow> ctl_world \<Rightarrow> (string + int) \<times> ctl_world" where
  "benchDecide env endpoint token w =
     (case sendRequest env (newRequest MethodPost endpoint token (RawBody benchBody)) w of
        (Inl e, w) \<Rightarrow> (Inl e, w) | (Inr (code, _, _), w) \<Rightarrow> (Inr code, w))"

definition benchError :: "string + int \<Rightarrow> bool" where
  "benchError reply = (case reply of Inl _ \<Rightarrow> True | Inr code \<Rightarrow> 500 \<le> code \<or> code = 401)"

fun benchWarmup :: "ctl_env \<Rightarrow> string \<Rightarrow> string \<Rightarrow> nat \<Rightarrow> ctl_world \<Rightarrow> ctl_outcome" where
  "benchWarmup env endpoint token 0 w = (None, w)"
| "benchWarmup env endpoint token (Suc n) w =
     (case benchDecide env endpoint token w of
        (Inl e, w) \<Rightarrow> failWith (''warmup failed (is the server up and the token valid?): '' @ e) w
      | (Inr _, w) \<Rightarrow> benchWarmup env endpoint token n w)"

section \<open>The workers\<close>

text \<open>A worker is about to take an index, has taken one and waits for the reply, or has returned.\<close>

datatype worker = Ready | Measuring nat | Stopped

record bench_state =
  bsIndex :: nat
  bsWorkers :: "worker list"
  bsLatencies :: "(nat \<times> duration) list"
  bsErrors :: nat

inductive bench_step :: "nat \<Rightarrow> bench_state \<Rightarrow> bench_state \<Rightarrow> bool" for requests_total where
  take_index: "k < length (bsWorkers s) \<Longrightarrow> bsWorkers s ! k = Ready \<Longrightarrow> bsIndex s < requests_total \<Longrightarrow>
    bench_step requests_total s (s\<lparr>bsIndex := bsIndex s + 1, bsWorkers := (bsWorkers s)[k := Measuring (bsIndex s)]\<rparr>)"
| stop: "k < length (bsWorkers s) \<Longrightarrow> bsWorkers s ! k = Ready \<Longrightarrow> requests_total \<le> bsIndex s \<Longrightarrow>
    bench_step requests_total s (s\<lparr>bsIndex := bsIndex s + 1, bsWorkers := (bsWorkers s)[k := Stopped]\<rparr>)"
| measured: "k < length (bsWorkers s) \<Longrightarrow> bsWorkers s ! k = Measuring i \<Longrightarrow>
    bench_step requests_total s (s\<lparr>bsWorkers := (bsWorkers s)[k := Ready], bsLatencies := bsLatencies s @ [(i, d)],
      bsErrors := bsErrors s + (if benchError reply then 1 else 0)\<rparr>)"

definition benchStart :: "nat \<Rightarrow> bench_state" where
  "benchStart concurrency = \<lparr> bsIndex = 0, bsWorkers = replicate concurrency Ready, bsLatencies = [], bsErrors = 0 \<rparr>"

inductive bench_run :: "nat \<Rightarrow> nat \<Rightarrow> bench_state \<Rightarrow> bool" for requests_total concurrency where
  started: "bench_run requests_total concurrency (benchStart concurrency)"
| step: "bench_run requests_total concurrency s \<Longrightarrow> bench_step requests_total s s' \<Longrightarrow> bench_run requests_total concurrency s'"

section \<open>The report\<close>

text \<open>\<open>rankOf p n\<close> stands for \<open>int(p / 100 * float64(n))\<close>; \<open>lat\<close> is the list of the latencies, sorted.\<close>

definition percentile :: "(nat \<Rightarrow> nat \<Rightarrow> nat) \<Rightarrow> duration list \<Rightarrow> nat \<Rightarrow> duration" where
  "percentile rankOf lat p =
     (if length lat = 0 then 0
      else (let rank = rankOf p (length lat); rank = (if length lat \<le> rank then length lat - 1 else rank) in lat ! rank))"

definition benchLatencies :: "bench_state \<Rightarrow> duration list" where
  "benchLatencies s = sort (map snd (bsLatencies s))"

text \<open>The numbers of the report: p50, p90, p99 and the maximum, rendered by \<open>ms\<close> as milliseconds, and the throughput.\<close>

definition benchLines :: "(nat \<Rightarrow> nat \<Rightarrow> nat) \<Rightarrow> (duration \<Rightarrow> string) \<Rightarrow> string \<Rightarrow> nat \<Rightarrow> nat \<Rightarrow> bench_state \<Rightarrow> string list" where
  "benchLines rankOf ms throughput n concurrency s =
     (let lat = benchLatencies s in
      [''oadtdctl bench '' @ em_dash @ '' inline gateway decision latency'',
       ''  requests='' @ nat_str n @ '' concurrency='' @ nat_str concurrency @ '' errors='' @ nat_str (bsErrors s),
       ''  throughput: '' @ throughput @ '' req/s'',
       ''  latency:    p50='' @ ms (percentile rankOf lat 50) @ ''ms  p90='' @ ms (percentile rankOf lat 90) @ ''ms  p99='' @
         ms (percentile rankOf lat 99) @ ''ms  max='' @ ms (last lat) @ ''ms''])"

definition benchOutcome :: "bench_state \<Rightarrow> ctl_world \<Rightarrow> ctl_outcome" where
  "benchOutcome s w = (if 0 < bsErrors s then failWith (''bench completed with '' @ nat_str (bsErrors s) @ '' errors'') w else (None, w))"

definition clampFlag :: "int \<Rightarrow> nat" where
  "clampFlag n = (if n < 1 then 1 else nat n)"

section \<open>Each request is measured once\<close>

fun busy :: "worker list \<Rightarrow> nat list" where
  "busy [] = []"
| "busy (Measuring i # ws) = i # busy ws"
| "busy (Ready # ws) = busy ws"
| "busy (Stopped # ws) = busy ws"

lemma busy_append: "busy (ws @ ws') = busy ws @ busy ws'"
  by (induction ws rule: busy.induct) simp_all

lemma mset_busy_update:
  assumes "k < length ws"
  shows "mset (busy (ws[k := x])) + mset (busy [ws ! k]) = mset (busy ws) + mset (busy [x])"
proof -
  have "busy ws = busy (take k ws @ [ws ! k] @ drop (Suc k) ws)" "busy (ws[k := x]) = busy (take k ws @ [x] @ drop (Suc k) ws)"
    using id_take_nth_drop [OF assms] upd_conv_take_nth_drop [OF assms, of x] by simp_all
  then show ?thesis
    by (simp only: busy_append mset_append) (simp only: ac_simps)
qed

text \<open>The indices that were handed out are those that are measured and those that are being measured, each once.\<close>

definition bench_inv :: "nat \<Rightarrow> bench_state \<Rightarrow> bool" where
  "bench_inv n s \<longleftrightarrow> mset (busy (bsWorkers s)) + mset (map fst (bsLatencies s)) = mset [0..<min (bsIndex s) n]"

lemma bench_inv_start: "bench_inv n (benchStart concurrency)"
proof -
  have "busy (replicate concurrency Ready) = []"
    by (induction concurrency) simp_all
  then show ?thesis
    by (simp add: bench_inv_def benchStart_def)
qed

lemma bench_inv_step: "bench_step n s s' \<Longrightarrow> bench_inv n s \<Longrightarrow> bench_inv n s'"
proof (induction rule: bench_step.induct)
  case (take_index k s)
  have "min (bsIndex s + 1) n = Suc (min (bsIndex s) n)" "min (bsIndex s) n = bsIndex s"
    using take_index.hyps by simp_all
  then show ?case
    using take_index mset_busy_update [OF take_index.hyps(1), of "Measuring (bsIndex s)"] by (simp add: bench_inv_def)
next
  case (stop k s)
  then show ?case
    using mset_busy_update [OF stop.hyps(1), of Stopped] by (simp add: bench_inv_def min_def)
next
  case (measured k s i d reply)
  have "mset (busy (bsWorkers s)) = add_mset i (mset (busy ((bsWorkers s)[k := Ready])))"
    using mset_busy_update [OF measured.hyps(1), of Ready] measured.hyps(2) by simp
  then show ?case
    using measured.prems by (simp add: bench_inv_def)
qed

lemma bench_run_inv: "bench_run n concurrency s \<Longrightarrow> bench_inv n s"
  by (induction rule: bench_run.induct) (auto intro: bench_inv_start bench_inv_step)

lemma stopped_counter: "bench_run n concurrency s \<Longrightarrow> Stopped \<in> set (bsWorkers s) \<Longrightarrow> n \<le> bsIndex s"
proof (induction rule: bench_run.induct)
  case (step s s')
  from step.hyps(2) show ?case
  proof cases
    case (take_index k)
    then show ?thesis
      using step set_update_subset_insert [of "bsWorkers s" k "Measuring (bsIndex s)"] by force
  next
    case (stop k)
    then show ?thesis
      by simp
  next
    case (measured k i d reply)
    then show ?thesis
      using step set_update_subset_insert [of "bsWorkers s" k Ready] by force
  qed
qed (simp add: benchStart_def)

text \<open>When the workers, of which there is at least one, have all returned, every index below the number of requests was measured exactly once.\<close>

theorem bench_measures_each_once:
  assumes "bench_run n concurrency s" and "\<forall>x \<in> set (bsWorkers s). x = Stopped" and "bsWorkers s \<noteq> []"
  shows "mset (map fst (bsLatencies s)) = mset [0..<n]" and "length (benchLatencies s) = n"
proof -
  have "Stopped \<in> set (bsWorkers s)"
    using assms(2,3) by (cases "bsWorkers s") auto
  then have "min (bsIndex s) n = n"
    using stopped_counter [OF assms(1)] by simp
  moreover have "\<forall>x \<in> set ws. x = Stopped \<Longrightarrow> busy ws = []" for ws
    by (induction ws) simp_all
  then have "busy (bsWorkers s) = []"
    using assms(2) .
  ultimately show each: "mset (map fst (bsLatencies s)) = mset [0..<n]"
    using bench_run_inv [OF assms(1)] by (simp add: bench_inv_def)
  show "length (benchLatencies s) = n"
    using arg_cong [OF each, of size] by (simp add: benchLatencies_def)
qed

text \<open>
  The test does not get stuck and does not run on: a worker that has not returned can always take a step, and each step uses up one unit of
  a budget of two for each request that is still to be handed out, two for each that is being measured and one for each worker that is ready.
\<close>

theorem bench_progress: "x \<in> set (bsWorkers s) \<Longrightarrow> x \<noteq> Stopped \<Longrightarrow> \<exists>s'. bench_step n s s'"
proof -
  assume "x \<in> set (bsWorkers s)" "x \<noteq> Stopped"
  then obtain k where k: "k < length (bsWorkers s)" "bsWorkers s ! k = x"
    by (auto simp: in_set_conv_nth)
  show ?thesis
  proof (cases x)
    case Ready
    then show ?thesis
      using k take_index [of k s n] stop [of k s n] by (cases "bsIndex s < n") auto
  next
    case (Measuring i)
    then show ?thesis
      using k measured [OF k(1)] by blast
  qed (use \<open>x \<noteq> Stopped\<close> in simp)
qed

fun worker_weight :: "worker \<Rightarrow> nat" where
  "worker_weight Ready = 1"
| "worker_weight (Measuring _) = 2"
| "worker_weight Stopped = 0"

definition bench_budget :: "nat \<Rightarrow> bench_state \<Rightarrow> nat" where
  "bench_budget n s = 2 * (n - bsIndex s) + sum_list (map worker_weight (bsWorkers s))"

lemma weight_update:
  "k < length ws \<Longrightarrow> sum_list (map worker_weight (ws[k := x])) + worker_weight (ws ! k) = sum_list (map worker_weight ws) + worker_weight x"
  by (induction ws arbitrary: k) (auto simp: nth_Cons split: nat.splits)

theorem bench_step_budget: "bench_step n s s' \<Longrightarrow> bench_budget n s = Suc (bench_budget n s')"
proof (induction rule: bench_step.induct)
  case (take_index k s)
  then show ?case
    using weight_update [of k "bsWorkers s" "Measuring (bsIndex s)"] by (simp add: bench_budget_def)
next
  case (stop k s)
  then show ?case
    using weight_update [of k "bsWorkers s" Stopped] by (simp add: bench_budget_def)
next
  case (measured k s i d reply)
  then show ?case
    using weight_update [of k "bsWorkers s" Ready] by (simp add: bench_budget_def)
qed

lemma bench_start_budget: "bench_budget n (benchStart concurrency) = 2 * n + concurrency"
  by (simp add: bench_budget_def benchStart_def sum_list_replicate)

section \<open>The run of the workers\<close>

text \<open>
  One move of worker \<open>k\<close>, which has not returned: taking an index, returning, or waiting for the reply. The time that the request took is \<open>d\<close>.
\<close>

definition workerMove :: "ctl_env \<Rightarrow> string \<Rightarrow> string \<Rightarrow> nat \<Rightarrow> nat \<Rightarrow> duration \<Rightarrow> bench_state \<Rightarrow> ctl_world \<Rightarrow> bench_state \<times> ctl_world" where
  "workerMove env endpoint token n k d s w =
     (case bsWorkers s ! k of
        Ready \<Rightarrow>
          (s\<lparr>bsIndex := bsIndex s + 1, bsWorkers := (bsWorkers s)[k := (if n \<le> bsIndex s then Stopped else Measuring (bsIndex s))]\<rparr>, w)
      | Measuring i \<Rightarrow>
          (let (reply, w) = benchDecide env endpoint token w in
           (s\<lparr>bsWorkers := (bsWorkers s)[k := Ready], bsLatencies := bsLatencies s @ [(i, d)],
              bsErrors := bsErrors s + (if benchError reply then 1 else 0)\<rparr>, w))
      | Stopped \<Rightarrow> (s, w))"

definition running :: "bench_state \<Rightarrow> nat list" where
  "running s = filter (\<lambda>k. bsWorkers s ! k \<noteq> Stopped) [0..<length (bsWorkers s)]"

lemma workerMove_steps:
  assumes "k \<in> set (running s)"
  shows "bench_step n s (fst (workerMove env endpoint token n k d s w))"
proof -
  have k: "k < length (bsWorkers s)" "bsWorkers s ! k \<noteq> Stopped"
    using assms by (auto simp: running_def)
  show ?thesis
  proof (cases "bsWorkers s ! k")
    case Ready
    then show ?thesis
      using k take_index [of k s n] stop [of k s n] by (cases "bsIndex s < n") (simp_all add: workerMove_def)
  next
    case (Measuring i)
    then show ?thesis
      using measured [OF k(1) Measuring] by (simp add: workerMove_def split_beta)
  qed (use k in simp)
qed

text \<open>
  Waiting for the workers. \<open>pick\<close> is the schedule: from the state and the world, the number of the worker that moves next among those that have not
  returned, and the time that its request took.
\<close>

function benchLoop ::
  "ctl_env \<Rightarrow> string \<Rightarrow> string \<Rightarrow> nat \<Rightarrow> (bench_state \<Rightarrow> ctl_world \<Rightarrow> nat \<times> duration) \<Rightarrow> bench_state \<Rightarrow> ctl_world \<Rightarrow> bench_state \<times> ctl_world" where
  "benchLoop env endpoint token n pick s w =
     (if running s = [] then (s, w)
      else (let (choice, d) = pick s w; k = running s ! (choice mod length (running s));
                (s, w) = workerMove env endpoint token n k d s w
            in benchLoop env endpoint token n pick s w))"
  by auto
termination
proof (relation "measure (\<lambda>(env, endpoint, token, n, pick, s, w). bench_budget n s)")
  fix env endpoint token n and pick :: "bench_state \<Rightarrow> ctl_world \<Rightarrow> nat \<times> duration" and s w x choice d k y s' w'
  assume "running s \<noteq> []" "k = running s ! (choice mod length (running s))" "y = workerMove env endpoint token n k d s w" "(s', w') = y"
  then have "bench_step n s s'"
    using workerMove_steps [of k s n env endpoint token d w] by (metis fst_conv length_greater_0_conv mod_less_divisor nth_mem)
  then show "((env, endpoint, token, n, pick, s', w'), (env, endpoint, token, n, pick, s, w)) \<in>
      measure (\<lambda>(env, endpoint, token, n, pick, s, w). bench_budget n s)"
    using bench_step_budget [of n s s'] by simp
qed simp

declare benchLoop.simps [simp del]

section \<open>The command\<close>

text \<open>
  The command. A negative number of warm-up requests is none. \<open>bench_env\<close> holds the schedule, the rank of a percentile, a duration in
  milliseconds, the throughput from the number of requests and the time of the test, and the report as JSON.
\<close>

record bench_env =
  bePick :: "bench_state \<Rightarrow> ctl_world \<Rightarrow> nat \<times> duration"
  beRank :: "nat \<Rightarrow> nat \<Rightarrow> nat"
  beMs :: "duration \<Rightarrow> string"
  beThroughput :: "nat \<Rightarrow> duration \<Rightarrow> string"
  beEncode :: "nat \<Rightarrow> nat \<Rightarrow> duration \<Rightarrow> bench_state \<Rightarrow> string"

definition benchCommand :: "validate_env \<Rightarrow> bench_env \<Rightarrow> string list \<Rightarrow> ctl_world \<Rightarrow> ctl_outcome" where
  "benchCommand env be args = withFlags (vaCtl env) ''bench'' args (\<lambda>fv w.
     let concurrency = clampFlag (flagOr (fvInt fv) ''concurrency'' 16); n = clampFlag (flagOr (fvInt fv) ''requests'' 2000);
         warmup = nat (flagOr (fvInt fv) ''warmup'' 100);
         endpoint = TrimRightSlash (flagOr (fvStr fv) ''url'' ''http://localhost:8080'') @ ''/api/gateway/decide'' in
     case readTokenFile env ''token'' (flagOr (fvStr fv) ''token'' (osEnv (cwHost w) ''OATD_API_TOKEN'')) (flagOr (fvStr fv) ''token-file'' []) of
       Inl e \<Rightarrow> failWith e w
     | Inr tok \<Rightarrow> (case benchWarmup (vaCtl env) endpoint tok warmup w of
         (Some e, w) \<Rightarrow> (Some e, w)
       | (None, w) \<Rightarrow>
           (let (s, w') = benchLoop (vaCtl env) endpoint tok n (bePick be) (benchStart concurrency) w;
                elapsed = vaClock env w' - vaClock env w;
                out = (if flagOr (fvBool fv) ''json'' False then [beEncode be n concurrency elapsed s]
                       else benchLines (beRank be) (beMs be) (beThroughput be n elapsed) n concurrency s)
            in benchOutcome s (fold printLine out w'))))"

text \<open>
  Under every schedule the run of the workers is one of the step relation, from any of its states, and ends with all of them returned; the
  latencies of the command are then those of each request, once.
\<close>

lemma benchLoop_runs:
  assumes "bench_run n concurrency s"
  shows "bench_run n concurrency (fst (benchLoop env endpoint token n pick s w)) \<and> running (fst (benchLoop env endpoint token n pick s w)) = []"
  using assms
proof (induction "bench_budget n s" arbitrary: s w rule: less_induct)
  case less
  show ?case
  proof (cases "running s = []")
    case False
    obtain choice d where pick: "pick s w = (choice, d)"
      by fastforce
    let ?k = "running s ! (choice mod length (running s))"
    obtain s' w' where move: "workerMove env endpoint token n ?k d s w = (s', w')"
      by fastforce
    have "bench_step n s s'"
      using workerMove_steps [of ?k s n env endpoint token d w] False move by simp
    then have "bench_run n concurrency s'" "bench_budget n s' < bench_budget n s"
      using bench_run.step [OF less.prems] bench_step_budget [of n s s'] by simp_all
    from less.hyps [OF this(2,1)] show ?thesis
      using False pick move by (subst (1 2) benchLoop.simps) simp
  qed (use less.prems in \<open>subst (1 2) benchLoop.simps, simp\<close>)
qed

lemma bench_workers: "bench_run n concurrency s \<Longrightarrow> length (bsWorkers s) = concurrency"
  by (induction rule: bench_run.induct) (auto simp: benchStart_def elim: bench_step.cases)

theorem bench_loop_measures_each_once:
  assumes "0 < concurrency"
  shows "mset (map fst (bsLatencies (fst (benchLoop env endpoint token n pick (benchStart concurrency) w)))) = mset [0..<n]"
    and "length (benchLatencies (fst (benchLoop env endpoint token n pick (benchStart concurrency) w))) = n"
proof -
  let ?s = "fst (benchLoop env endpoint token n pick (benchStart concurrency) w)"
  have run: "bench_run n concurrency ?s" "running ?s = []"
    using benchLoop_runs [OF bench_run.started] by blast+
  then have "\<forall>x \<in> set (bsWorkers ?s). x = Stopped"
    by (auto simp: running_def in_set_conv_nth filter_empty_conv)
  moreover have "bsWorkers ?s \<noteq> []"
    using bench_workers [OF run(1)] assms by auto
  ultimately show "mset (map fst (bsLatencies ?s)) = mset [0..<n]" "length (benchLatencies ?s) = n"
    using bench_measures_each_once [OF run(1)] by simp_all
qed

text \<open>A percentile is one of the latencies, and a higher rank gives no lower latency.\<close>

lemma percentile_member:
  assumes "lat \<noteq> []"
  shows "percentile rankOf lat p \<in> set lat"
  using assms by (auto simp: percentile_def Let_def)

lemma percentile_mono:
  assumes "rankOf p (length lat) \<le> rankOf q (length lat)" "sorted lat"
  shows "percentile rankOf lat p \<le> percentile rankOf lat q"
  using assms by (auto simp: percentile_def Let_def intro!: sorted_nth_mono)

end
