(* ===== verification/CtlMain.thy ===== *)
theory CtlMain
  imports Bench
begin

text \<open>
  The entry of the control program (\<open>main\<close> of \<open>cmd/oadtdctl/main.go\<close>): the dispatch to the commands of \<open>Ctl\<close>, \<open>Validate\<close> and \<open>Bench\<close>.
  \<open>commands_end\<close> says that the commands return.
\<close>

section \<open>The commands of the program\<close>

text \<open>
  The agent, the monitor and the stub server run on; the other commands end, or not, as their models say. An error is logged and the exit
  code is 1.
\<close>

datatype ctl_exit =
    ExitUsage
  | Exits "ctl_outcome option"
  | RunsAgent "string + agent_config"
  | RunsMonitor monitor duration
  | ServesStub "string + string"

definition mcpStubCommand :: "ctl_env \<Rightarrow> string list \<Rightarrow> string + string" where
  "mcpStubCommand env args =
     (case ctParse env ''mcp-stub'' args of Inl e \<Rightarrow> Inl e | Inr fv \<Rightarrow> Inr (flagOr (fvStr fv) ''addr'' ''127.0.0.1:9100''))"

text \<open>\<open>be\<close> is what the load test takes besides its flags, and \<open>demo\<close> the report of the demonstration as JSON.\<close>

definition ctlMain :: "validate_env \<Rightarrow> bench_env \<Rightarrow> ((mcp_demo_case \<times> string) list \<Rightarrow> nat \<Rightarrow> string) \<Rightarrow> string list \<Rightarrow> ctl_world \<Rightarrow> ctl_exit" where
  "ctlMain env be demo argv w =
     (if length argv < 2 then ExitUsage
      else (let name = argv ! 1; args = drop 2 argv; ctl = vaCtl env in
        if name = ''collect'' then Exits (Some (collect ctl args w))
        else if name = ''replay'' then Exits (replay ctl args w)
        else if name = ''backup'' then Exits (Some (backup ctl args w))
        else if name = ''restore'' then Exits (Some (restore ctl args w))
        else if name = ''agent'' then RunsAgent (agentCommand ctl args w)
        else if name = ''token-hash'' then Exits (Some (tokenHash ctl args w))
        else if name = ''wedge-demo'' then Exits (wedgeDemo ctl args w)
        else if name = ''sign-manifest'' then Exits (Some (signManifestCommand ctl args w))
        else if name = ''license'' then Exits (Some (licenseCommand ctl args w))
        else if name = ''validate'' then
          (case validateCommand env args w of OneShot r \<Rightarrow> Exits r | Continuous mo interval \<Rightarrow> RunsMonitor mo interval)
        else if name = ''mcp-stub'' then ServesStub (mcpStubCommand ctl args)
        else if name = ''mcp-demo'' then Exits (Some (mcpDemoCommand env demo args w))
        else if name = ''bench'' then Exits (Some (benchCommand env be args w))
        else ExitUsage))"

section \<open>The commands end\<close>

lemma replayLoop_ends:
  assumes "0 < sz"
  shows "replayLoop env baseURL token maxRetries pause evs sz start rep w \<noteq> None"
proof (induction "length evs - start" arbitrary: start rep w rule: less_induct)
  case less
  have "length evs - (start + sz) < length evs - start" if "start < length evs"
    using that assms by arith
  then have "start < length evs \<Longrightarrow> replayLoop env baseURL token maxRetries pause evs sz (start + sz) rep' w' \<noteq> None" for rep' w'
    using less by blast
  then show ?case
    by (subst replayLoop.simps) (simp add: Let_def split_beta)
qed

lemma replay_ends: "\<exists>r. replay env args w = Some r"
proof (cases "ctParse env ''replay'' args")
  case (Inr fv)
  have "\<not> flagOr (fvInt fv) ''batch-size'' 100 < 1 \<Longrightarrow>
      replayLoop env b t m p evs (nat (flagOr (fvInt fv) ''batch-size'' 100)) st rep w' \<noteq> None" for b t m p evs st rep w'
    by (rule replayLoop_ends) simp
  then have "replay env args w \<noteq> None"
    unfolding replay_def Inr sum.case Let_def by (auto simp del: not_None_eq split: sum.split option.split)
  then show ?thesis
    by blast
qed (simp add: replay_def)

lemma wedgeDemo_ends:
  assumes "clock_moves env" and "\<And>fv. ctParse env ''wedge-demo'' args = Inr fv \<Longrightarrow> 1 \<le> flagOr (fvDur fv) ''poll-interval'' (2 * second)"
  shows "\<exists>r. wedgeDemo env args w = Some r"
proof (cases "ctParse env ''wedge-demo'' args")
  case (Inr fv)
  have held: "\<exists>r. wedgeHeld env fv b t name ac w = Some r" for b t name ac w
  proof -
    let ?wait = "waitForGatewayActionExecution env b t (raID ac) (flagOr (fvDur fv) ''approval-timeout'' (30 * second))
      (flagOr (fvDur fv) ''poll-interval'' (2 * second)) (printLine (''- '' @ name @ '': require approval -> pending action '' @ raID ac) w)"
    obtain r v where "?wait = Some (r, v)"
      using awaited_action_returns [OF assms(1) assms(2) [OF Inr]] by (metis prod.exhaust)
    then show ?thesis
      by (cases r) (auto simp: wedgeHeld_def Let_def split: prod.split sum.split)
  qed
  have "\<exists>r. wedgeCase env fv b t c w = Some r" for b t c w
    using held by (auto simp: wedgeCase_def split: prod.split sum.split option.split)
  then have "\<exists>r. wedgeLoop (wedgeCase env fv b t) cs w = Some r" for b t cs w
  proof (induction cs arbitrary: w)
    case (Cons c cs)
    obtain e v where "wedgeCase env fv b t c w = Some (e, v)"
      using Cons.prems by (metis prod.exhaust)
    with Cons show ?case
      by (cases e) auto
  qed simp
  then show ?thesis
    by (simp add: wedgeDemo_def Inr Let_def)
qed (simp add: wedgeDemo_def)

lemma runValidation_ends:
  assumes "clock_moves (vaCtl env)"
  shows "\<exists>r. runValidation env baseURL token asset readyWait claim w = Some r"
  using ready_wait_returns [OF assms, of baseURL readyWait w] by (auto simp: runValidation_def Let_def)

lemma runOnce_ends: "clock_moves (vaCtl env) \<Longrightarrow> \<exists>v. runOnce env mo w = Some v"
  using runValidation_ends [of env "moBaseURL mo" "moToken mo" "moAsset mo" "moReadyWait mo" "moClaim mo" w]
  by (auto simp: runOnce_def Let_def)

lemma validateCommand_ends:
  assumes "clock_moves (vaCtl env)" and "validateCommand env args w = OneShot r"
  shows "\<exists>x. r = Some x"
proof -
  have "\<exists>r v. runValidation env b t a rw c w = Some (r, v)" for b t a rw c
    using runValidation_ends [OF assms(1), of b t a rw c w] by fastforce
  then show ?thesis
    using assms(2) unfolding validateCommand_def Let_def
    by (auto split: sum.splits option.splits prod.splits if_splits) (metis option.distinct(1))+
qed

text \<open>
  The monitor does not end by itself, and none of its rounds hangs: as long as there was no signal it can take the next tick, whenever that
  comes, and it can be stopped.
\<close>

theorem monitor_goes_on:
  assumes "clock_moves (vaCtl env)" and "runContinuousValidation env durationText mo interval w u False"
    and "0 \<le> d" "d \<le> monitorInterval interval"
  shows "\<exists>v. runOnce env mo (sleep d u) = Some v \<and> runContinuousValidation env durationText mo interval w v False"
    and "runContinuousValidation env durationText mo interval w (printLine ''shutting down'' u) True"
  using runOnce_ends [OF assms(1), of mo "sleep d u"] assms(2-4) by (auto intro: runContinuousValidation.intros)

lemma monitor_starts:
  assumes "clock_moves (vaCtl env)"
  shows "\<exists>v. runContinuousValidation env durationText mo interval w v False"
  using runOnce_ends [OF assms, of mo "monitorBanner durationText interval w"] by (auto intro: runContinuousValidation.first_run)

text \<open>C40: The commands of the control program end, except those that are meant to run on: the agent, the stub server and the monitor of
  \<open>validate --continuous\<close>. Assumed is a clock that a sleep moves on and that no request moves back, and for the demonstration a positive pause
  between two polls for an approval. Then every other command returns, whatever the server answers: a replay because its batches are not
  empty, the wait for an approval and the wait for the server before a validation because of their deadlines, and the load test, however its
  workers are scheduled, because their steps use up a budget.\<close>

theorem commands_end:
  assumes "clock_moves (vaCtl env)"
    and "\<And>fv. ctParse (vaCtl env) ''wedge-demo'' (drop 2 argv) = Inr fv \<Longrightarrow> 1 \<le> flagOr (fvDur fv) ''poll-interval'' (2 * second)"
    and "ctlMain env be demo argv w = Exits r"
  shows "\<exists>err v. r = Some (err, v)"
proof -
  have "r = replay (vaCtl env) (drop 2 argv) w \<or> r = wedgeDemo (vaCtl env) (drop 2 argv) w \<or>
      validateCommand env (drop 2 argv) w = OneShot r \<or> r \<noteq> None"
    using assms(3) unfolding ctlMain_def Let_def by (simp del: not_None_eq split: if_splits validate_mode.splits) force+
  moreover have "\<exists>x. wedgeDemo (vaCtl env) (drop 2 argv) w = Some x"
    using assms(1,2) by (rule wedgeDemo_ends)
  ultimately have "\<exists>x. r = Some x"
    using replay_ends [of "vaCtl env" "drop 2 argv" w] validateCommand_ends [OF assms(1), of "drop 2 argv" w r] by (metis not_None_eq)
  then show ?thesis
    by auto
qed

definition bench_fair :: bench_env where
  "bench_fair = \<lparr> bePick = (\<lambda>s w. (bsIndex s, second)), beRank = (\<lambda>p n. p * n div 100), beMs = Itoa, beThroughput = (\<lambda>n d. Itoa d),
     beEncode = (\<lambda>_ _ _ _. []) \<rparr>"

theorem commands_end_witness:
  "\<exists>err v. ctlMain suite_env bench_fair (\<lambda>_ _. []) [''oadtdctl'', ''wedge-demo''] (ctl_start emptyTables) = Exits (Some (err, v))"
proof -
  let ?r = "wedgeDemo (vaCtl suite_env) [] (ctl_start emptyTables)"
  have moves: "clock_moves (vaCtl suite_env)"
    by (simp add: clock_moves_def suite_env_def)
  have interval: "ctParse (vaCtl suite_env) ''wedge-demo'' (drop 2 [''oadtdctl'', ''wedge-demo'']) = Inr fv \<Longrightarrow>
      1 \<le> flagOr (fvDur fv) ''poll-interval'' (2 * second)" for fv
    by (auto simp: suite_env_def ctl_demo_def no_flags_def flagOr_def second_def)
  have exits: "ctlMain suite_env bench_fair (\<lambda>_ _. []) [''oadtdctl'', ''wedge-demo''] (ctl_start emptyTables) = Exits ?r"
    by (simp add: ctlMain_def)
  show ?thesis
    using commands_end [OF moves interval exits] exits by auto
qed

end
