(* ===== verification/Spec2Isabelle.thy ===== *)
theory Spec2Isabelle
  imports Accounts Detection ProxyClient CtlMain
begin

text \<open>
  A model of Open Agentic Threat Defense (\<open>oadtd\<close>), a server that watches and gates what AI agents do. Collectors send events; a policy engine
  and a correlator raise alerts from them; a gateway decides on each tool call of an agent before it is carried out and holds calls for approval;
  a planner proposes response actions; every administrative step goes to a hash-chained audit log. The server keeps its records in memory, in a
  snapshot file or in PostgreSQL, for one or several tenants, and is used through an HTTP interface with tokens, sessions and single sign-on.

  \<^bold>\<open>The theories and the code under \<open>src/\<close>.\<close>

  \<^item> \<open>Prelude\<close>, \<open>GoStrings\<close>, \<open>GoCodec\<close>, \<open>Http\<close>: Go's maps, times and strings, the parts of \<open>strings\<close>, \<open>strconv\<close>, \<open>encoding\<close> and
    \<open>net/http\<close> the code uses, with the round trips of the encodings. What Go takes from outside (case tables beyond ASCII, hash functions, URL
    and address parsers) is the record \<open>runtime\<close>.
  \<^item> \<open>Domain\<close>: \<open>internal/domain/types.go\<close>, the records all packages share. \<open>JsonRecords\<close>: what is left of a record after a round trip through JSON,
    which replaces the bytes of a string that are not valid UTF-8.
  \<^item> \<open>GatewayText\<close>, \<open>Obfuscation\<close>, \<open>ThreatPack\<close>, \<open>Engine\<close>, \<open>History\<close>, \<open>Taint\<close>, \<open>Gateway\<close>: \<open>internal/policy\<close>. The engine is one record,
    and a method is a function on it.
  \<^item> \<open>Correlator\<close> (\<open>internal/correlator\<close>), \<open>Planner\<close> (\<open>internal/response\<close>), \<open>ConfigLoad\<close> (\<open>internal/config\<close>), \<open>License\<close> (\<open>internal/license\<close>),
    \<open>Exporters\<close> (\<open>internal/exporter\<close>).
  \<^item> \<open>StoreState\<close>, \<open>AuditChain\<close>, \<open>StoreOps\<close>: \<open>internal/store\<close> in memory and file mode; \<open>Postgres\<close> and \<open>SharedStore\<close>: its PostgreSQL mode, and
    several instances on one database.
  \<^item> \<open>Auth\<close>, \<open>Sessions\<close>, \<open>Accounts\<close>: \<open>internal/auth\<close>; \<open>Tenants\<close>: \<open>internal/server/tenants.go\<close>; \<open>NetAddr\<close>, \<open>ProxyClient\<close>: addresses, proxies, proxy targets and their HTTP client;
    \<open>Oidc\<close>: \<open>internal/server/oidc.go\<close>.
  \<^item> \<open>AppState\<close>, \<open>AppGateway\<close>, \<open>AppActions\<close>, \<open>AppRoutes\<close>, \<open>AppSso\<close>: the server (\<open>server.go\<close>, \<open>mcp.go\<close>, \<open>saml.go\<close>, \<open>demo.go\<close>). A handler is a
    function of an environment, a request and the state of the server, and returns a response and the new state; every early return of the
    source is a branch. \<open>Detection\<close>: an event from its ingestion to the stored alert, across engine, server and store.
  \<^item> \<open>Collectors\<close>, \<open>Agent\<close>: \<open>internal/collectors\<close>, \<open>internal/telemetry\<close> and \<open>internal/agent\<close>.
  \<^item> \<open>Daemon\<close>: the server program \<open>cmd/oadtd\<close>, from the flags to the listener. \<open>Ctl\<close>, \<open>Validate\<close>, \<open>Bench\<close>, \<open>CtlMain\<close>: the control program
    \<open>cmd/oadtdctl\<close>, its commands, the validation suite with the MCP demonstration, the load test and the dispatch. A command is a function
    of the outside world (\<open>ctl_env\<close>) on the requests, waits, output and files so far (\<open>ctl_world\<close>); the concurrent workers of the load test are a step relation
    and, for the command, a loop under any schedule, and the monitor of \<open>validate --continuous\<close> is a relation, because it runs until a signal.

  \<^bold>\<open>What is shown.\<close>

  \<^item> The gateway: when a call is allowed and when it is denied, that encodings up to three layers deep hide neither terms nor canaries of at least
    six printable bytes between separators (\<open>short_term_evades\<close> and \<open>short_canary_evades\<close> show the limit), and that every reachable engine keeps its invariant (\<open>Gateway\<close>, \<open>Obfuscation\<close>, \<open>Engine\<close>, \<open>History\<close>). The server's handlers follow the verdict
    (\<open>AppGateway\<close>), keep the limit on calls in flight and hand out distinct identifiers (\<open>AppState\<close>).
  \<^item> Detection and response: when each rule fires, that the alerts of an ingested event are stored once, with the tenant and the rule they belong to
    (\<open>Detection\<close>), the correlation rules and the plan of an alert (\<open>Engine\<close>, \<open>Correlator\<close>,
    \<open>Planner\<close>), and the signed threat packs (\<open>ThreatPack\<close>).
  \<^item> Storage: tamper evidence of the audit chain, when its report stays valid along a run, the invariant of every store reached by operations, restores and
    loads, the storing of alerts without repetition, retention, restart and tenant filters (\<open>AuditChain\<close>, \<open>StoreOps\<close>); that several instances on one
    database keep one chain and one lockout, where no record is added while an instance starts, the records are read in the order of the chain and no
    instance has a retention window (\<open>SharedStore\<close>, which also shows what happens otherwise); isolation of tenants (\<open>Tenants\<close>).
  \<^item> Access: what a token, a session and an OpenID Connect login prove, that a logout is final, the back-off of failed logins, the table of
    roles, that users and principals are well formed, and that a request without rights changes nothing but one audit record (\<open>Auth\<close>, \<open>Sessions\<close>, \<open>Accounts\<close>, \<open>AppSso\<close>, \<open>AppRoutes\<close>); which targets
    the proxies may call, and that no redirect leads them elsewhere (\<open>NetAddr\<close>, \<open>ProxyClient\<close>).
  \<^item> The agent: the lines of a file that grows by whole lines are delivered once and in order, and the delay between retries (\<open>Agent\<close>).
  \<^item> The programs: which configurations the server starts with and which of them check requests (\<open>Daemon\<close>); that a replay accounts for every
    event by the replies of the server (\<open>Ctl\<close>), what the scorecard of the validation suite counts (\<open>Validate\<close>), that the load test measures each request
    once, makes progress and ends within a budget of steps (\<open>Bench\<close>), and that the commands return, except the agent, the monitor and the stub server,
    which are meant to run on (\<open>CtlMain\<close>).

  Where the code does not do what it means to, a theorem shows the behaviour on an input: for example \<open>retention_breaks_chain_on_restart\<close>,
  \<open>logout_boundary_instant\<close>, \<open>restart_breaks_chain\<close>, \<open>start_forks_chain\<close>, \<open>retention_deletes_what_others_wrote\<close>, \<open>session_is_a_login_state\<close>,
  \<open>partial_line_is_doubled\<close>, \<open>invalid_text_breaks_chain\<close>, \<open>concurrent_failures_count_once\<close>, \<open>labelled_canary_loses_token\<close>, \<open>partial_sso_serves_open\<close>, \<open>backup_breaks_chain\<close>, \<open>replay_pause_wraps\<close>, \<open>decide_files_an_action\<close>.

  \<^bold>\<open>Interfaces.\<close> The contracts between components are locales, interpreted on the model's definitions: collections without repetition, the
  matcher of terms, hash chains, sealed payloads, registries, the fields of a correlation, the retention filters.

  \<^bold>\<open>Bounds and simplifications.\<close> The history of calls is capped at 50000 keys and evicted in batches of 5000, the decoder goes three layers deep,
  ingestion correlates the last 5000 events, 256 latency samples are kept: these are the constants of the code. Counters that can wrap are
  64-bit words. A request reads the clock once. \<open>sort.Slice\<close>, which is not stable, is any sort by time in the correlator and a stable sort
  elsewhere. A loop that may not end (the posts of the agent and of a replay with a batch size below one, the polls for an approval
  and for a ready server) is a \<open>partial_function\<close> with a theorem on when it returns; all other loops are structural or have a termination proof. An action's metadata map that the code shares between two records is updated in both (\<open>writeShared\<close>).
  A record that is written as JSON, to the snapshot file or a row of the database, reads back with its strings as JSON text; the syntax of JSON is an
  argument. In the PostgreSQL mode a transaction is atomic and every call of the database may fail. Among several instances the start is three steps
  (migration, reading the records, writing the chain state), and a failed login is a read and a write.

  \<^bold>\<open>Arguments.\<close> Code outside \<open>src/\<close> and the outside world are arguments of the definitions: JSON and CSV decoding, the parsers of times, floats
  and URLs, hashes, signatures, random bytes, the clock, files, the network, name resolution, the SAML library and the database's collation. What a theorem
  needs of them is a hypothesis with a witness.

  \<^bold>\<open>Not modelled.\<close> The usage text of the control program, the graceful shutdown of the HTTP server, the file server of the dashboard, the middleware of
  the SAML library, log output, and the connection pool and the indexes of the database.
\<close>

end
